(* ===== verification/Prelude.thy ===== *)
theory Prelude
  imports Complex_Main "HOL-Library.AList" "HOL-Library.List_Lexorder" "HOL-Library.Char_ord"
    "HOL-Library.Multiset" "HOL-Library.Log_Nat"
begin

text \<open>
  Shared vocabulary of the development: Python exceptions as values and the string, dictionary
  and sorting operations the sources use.

  \<^item> An operation that can raise returns \<open>py_exn + 'a\<close>, \<open>Inl\<close> being the raised exception; an
    operation that mutates its object and can raise returns the outcome paired with the state
    the object is left in.
  \<^item> A \<open>str\<close> is a \<open>string\<close> whose characters are the code points below 256.
  \<^item> A \<open>datetime\<close> is an \<open>int\<close>, microseconds since the epoch in UTC.
  \<^item> A \<open>dict\<close> is an association list in insertion order, written with \<^const>\<open>AList.update\<close>.
  \<^item> A finite \<open>float\<close> is the rational number it denotes; \<open>f64\<close> of theory \<open>Floats\<close> is the rounding that every
    float operation applies to the exact result.
\<close>

named_theorems exn_simps \<open>unfolding rules of the exception combinators\<close>
named_theorems invariant_intros \<open>every operation keeps its component's invariant\<close>

section \<open>Exceptions as values\<close>

datatype py_exn =
    ValueError string
  | KeyError string
  | RuntimeError string
  | AdmissionError string
  | PermissionError string
  | OverflowError string
  | AssertionError
  | ValidationError string
  | IntegrityError string
  | AuthenticationError string
  | AuthorizationError string
  | OSError string
  | FileNotFoundError string
  | SpoolExhaustedError string
  | TypeError string

type_synonym 'a result = "py_exn + 'a"
type_synonym datetime = int
type_synonym uuid = string
type_synonym pyfloat = rat

definition bind_result :: "'a result \<Rightarrow> ('a \<Rightarrow> 'b result) \<Rightarrow> 'b result" where
  "bind_result m f = (case m of Inl e \<Rightarrow> Inl e | Inr x \<Rightarrow> f x)"

definition ensure :: "bool \<Rightarrow> py_exn \<Rightarrow> unit result" where
  "ensure b e = (if b then Inr () else Inl e)"

lemma bind_result_simps [simp, exn_simps]:
  "bind_result (Inl e) f = Inl e" "bind_result (Inr x) f = f x"
  by (simp_all add: bind_result_def)

lemma bind_result_Inr [exn_simps]:
  "bind_result m f = Inr y \<longleftrightarrow> (\<exists>x. m = Inr x \<and> f x = Inr y)"
  by (cases m) simp_all

lemma bind_result_Inl:
  "bind_result m f = Inl e \<longleftrightarrow> m = Inl e \<or> (\<exists>x. m = Inr x \<and> f x = Inl e)"
  by (cases m) simp_all

lemma ensure_Inr [simp, exn_simps]: "ensure b e = Inr u \<longleftrightarrow> b"
  by (simp add: ensure_def)

lemma ensure_Inl [simp]: "ensure b e = Inl e' \<longleftrightarrow> \<not> b \<and> e' = e"
  by (auto simp: ensure_def)

lemma ensure_True [simp]: "ensure True e = Inr ()"
  by (simp add: ensure_def)

lemma ensure_False [simp]: "ensure False e = Inl e"
  by (simp add: ensure_def)

definition is_ok :: "'a result \<Rightarrow> bool" where
  "is_ok r = (case r of Inl _ \<Rightarrow> False | Inr _ \<Rightarrow> True)"

lemma is_ok_simps [simp]: "is_ok (Inr x)" "\<not> is_ok (Inl e)"
  by (simp_all add: is_ok_def)

text \<open>A validator that raises on the first condition that holds, in the order of the source.\<close>

fun first_failure :: "(bool \<times> string) list \<Rightarrow> unit result" where
  "first_failure [] = Inr ()"
| "first_failure ((bad, msg) # rest) =
     (if bad then Inl (ValidationError msg) else first_failure rest)"

lemma first_failure_Inr [simp]: "first_failure cs = Inr u \<longleftrightarrow> (\<forall>c \<in> set cs. \<not> fst c)"
  by (induction cs rule: first_failure.induct) auto

text \<open>\<^verbatim>\<open>type(exc).__name__\<close>.\<close>

fun exn_name :: "py_exn \<Rightarrow> string" where
  "exn_name (ValueError _) = ''ValueError''"
| "exn_name (KeyError _) = ''KeyError''"
| "exn_name (RuntimeError _) = ''RuntimeError''"
| "exn_name (AdmissionError _) = ''AdmissionError''"
| "exn_name (PermissionError _) = ''PermissionError''"
| "exn_name (OverflowError _) = ''OverflowError''"
| "exn_name AssertionError = ''AssertionError''"
| "exn_name (ValidationError _) = ''ValidationError''"
| "exn_name (IntegrityError _) = ''IntegrityError''"
| "exn_name (AuthenticationError _) = ''AuthenticationError''"
| "exn_name (AuthorizationError _) = ''AuthorizationError''"
| "exn_name (OSError _) = ''OSError''"
| "exn_name (FileNotFoundError _) = ''FileNotFoundError''"
| "exn_name (SpoolExhaustedError _) = ''SpoolExhaustedError''"
| "exn_name (TypeError _) = ''TypeError''"

section \<open>JSON values\<close>

datatype json =
    JNull
  | JBool bool
  | JInt int
  | JFloat rat
  | JStr string
  | JArr "json list"
  | JObj "(string \<times> json) list"

section \<open>Strings\<close>

definition is_space :: "char \<Rightarrow> bool" where
  "is_space c = (let n = (of_char c :: nat) in
     (9 \<le> n \<and> n \<le> 13) \<or> (28 \<le> n \<and> n \<le> 32) \<or> n = 133 \<or> n = 160)"

text \<open>
  Code equations for the functions on characters: lookups instead of arithmetic on character codes, which the
  simplifier evaluates faster.
\<close>

lemma char_set_code: "c \<in> set s \<longleftrightarrow> (of_char c :: nat) \<in> set (map of_char s)"
  by auto

lemma is_space_code [code]:
  "is_space c \<longleftrightarrow> c \<in> set [CHR 0x20, CHR 0x09, CHR 0x0A, CHR 0x0B, CHR 0x0C, CHR 0x0D, CHR 0x1C, CHR 0x1D, CHR 0x1E, CHR 0x1F, CHR 0x85, CHR 0xA0]"
  unfolding char_set_code is_space_def Let_def by (simp, presburger)

text \<open>\<open>not s.strip()\<close>.\<close>

definition blank :: "string \<Rightarrow> bool" where
  "blank s = list_all is_space s"

definition strip :: "string \<Rightarrow> string" where
  "strip s = rev (dropWhile is_space (rev (dropWhile is_space s)))"

lemma blank_Nil [simp]: "blank []"
  by (simp add: blank_def)

lemma dropWhile_all: "dropWhile P xs = [] \<longleftrightarrow> list_all P xs"
  by (induction xs) auto

lemma strip_eq_Nil: "strip s = [] \<longleftrightarrow> blank s"
proof
  assume "strip s = []"
  then have "list_all is_space (rev (dropWhile is_space s))"
    by (simp only: strip_def dropWhile_all rev_is_Nil_conv)
  then have "list_all is_space (dropWhile is_space s)"
    by (simp only: list_all_rev)
  moreover have "list_all is_space (takeWhile is_space s)"
    by (auto simp: list_all_iff dest: set_takeWhileD)
  ultimately have "list_all is_space (takeWhile is_space s @ dropWhile is_space s)"
    by (simp only: list_all_append)
  then show "blank s"
    by (simp add: blank_def)
next
  assume "blank s"
  then have "dropWhile is_space s = []"
    by (simp only: blank_def dropWhile_all)
  then show "strip s = []"
    by (simp only: strip_def rev.simps dropWhile.simps)
qed

text \<open>Decimal digits: \<open>str(n)\<close>.\<close>

fun dec_nat :: "nat \<Rightarrow> string" where
  "dec_nat n = (if n < 10 then [char_of (48 + n)] else dec_nat (n div 10) @ [char_of (48 + n mod 10)])"

declare dec_nat.simps [simp del]

definition str_int :: "int \<Rightarrow> string" where
  "str_int n = (if n < 0 then ''-'' @ dec_nat (nat (- n)) else dec_nat (nat n))"

definition dec_digit :: "int \<Rightarrow> char" where
  "dec_digit n = ''0123456789'' ! nat n"

function dec_int :: "int \<Rightarrow> string" where
  "dec_int n = (if n < 10 then [dec_digit n] else dec_int (n div 10) @ [dec_digit (n mod 10)])" by auto
termination by (relation "measure nat") auto
declare dec_int.simps [simp del]

lemma dec_digit_char:
  assumes "n < 10"
  shows "dec_digit (int n) = char_of (48 + n)"
proof -
  have "n \<in> {0, 1, 2, 3, 4, 5, 6, 7, 8, 9}" using assms by (simp, presburger)
  then have "(of_char (dec_digit (int n)) :: nat) = of_char (char_of (48 + n) :: char)" by (elim insertE emptyE) (simp_all add: dec_digit_def)
  then show ?thesis by (simp only: of_char_eq_iff)
qed

lemma dec_int_nat: "dec_int (int n) = dec_nat n"
proof (induction n rule: dec_nat.induct)
  case (1 n)
  have m: "dec_digit (int n mod 10) = char_of (48 + n mod 10)" using dec_digit_char[of "n mod 10"] by (simp add: zmod_int)
  show ?case
  proof (cases "n < 10")
    case True
    then show ?thesis by (subst dec_int.simps, subst dec_nat.simps) (simp add: dec_digit_char)
  next
    case False
    with 1 have "dec_int (int n div 10) = dec_nat (n div 10)" by (simp add: zdiv_int)
    with False m show ?thesis by (subst dec_int.simps, subst dec_nat.simps) simp
  qed
qed

lemma str_int_code [code]: "str_int n = (if n < 0 then CHR ''-'' # dec_int (- n) else dec_int n)"
  using dec_int_nat[of "nat n"] dec_int_nat[of "nat (- n)"] by (cases "n < 0") (simp_all add: str_int_def)

text \<open>\<open>str.lower\<close>.\<close>

definition lower_char :: "char \<Rightarrow> char" where
  "lower_char c = (let n = (of_char c :: nat) in
     if (65 \<le> n \<and> n \<le> 90) \<or> (192 \<le> n \<and> n \<le> 222 \<and> n \<noteq> 215) then char_of (n + 32) else c)"

definition lower :: "string \<Rightarrow> string" where
  "lower s = map lower_char s"

text \<open>The test the validators apply to a digest: 64 characters that are hexadecimal after \<open>lower\<close>.\<close>

definition hex_digest_ok :: "string \<Rightarrow> bool" where
  "hex_digest_ok s \<longleftrightarrow> length s = 64 \<and> list_all (\<lambda>c. c \<in> set ''0123456789abcdef'') (lower s)"

lemma lower_char_hex: "lower_char c \<in> set ''0123456789abcdef'' \<longleftrightarrow> c \<in> set ''0123456789abcdefABCDEF''"
proof -
  have n: "(of_char (lower_char c) :: nat) = (let n = of_char c in if (65 \<le> n \<and> n \<le> 90) \<or> (192 \<le> n \<and> n \<le> 222 \<and> n \<noteq> 215) then n + 32 else n)"
    by (simp add: lower_char_def Let_def)
  show ?thesis unfolding char_set_code n Let_def by (simp, presburger)
qed

lemma hex_digest_ok_code [code]: "hex_digest_ok s \<longleftrightarrow> length s = 64 \<and> list_all (\<lambda>c. c \<in> set ''0123456789abcdefABCDEF'') s"
  unfolding hex_digest_ok_def lower_def list_all_iff using lower_char_hex by simp

text \<open>\<open>len(s.encode("utf-8"))\<close>.\<close>

definition utf8_length :: "string \<Rightarrow> int" where
  "utf8_length s = sum_list (map (\<lambda>c. if (of_char c :: nat) < 128 then 1 else 2) s)"

lemma utf8_length_code [code]: "utf8_length s = sum_list (map (\<lambda>c. if digit7 c then 2 else 1) s)"
proof -
  have "(of_char c :: nat) < 128 \<longleftrightarrow> \<not> digit7 c" for c :: char by (cases c) (simp add: horner_sum_of_bool_2_less)
  then have "(\<lambda>c :: char. if (of_char c :: nat) < 128 then 1 else 2 :: int) = (\<lambda>c. if digit7 c then 2 else 1)" by auto
  then show ?thesis by (simp only: utf8_length_def)
qed

lemma utf8_length_nonneg: "0 \<le> utf8_length s"
  unfolding utf8_length_def by (rule sum_list_nonneg) auto

text \<open>\<open>s.split(c)\<close> and \<open>s.startswith(t)\<close>.\<close>

fun split_on :: "char \<Rightarrow> string \<Rightarrow> string list" where
  "split_on c [] = [[]]"
| "split_on c (x # xs) =
     (let rest = split_on c xs in if x = c then [] # rest else (x # hd rest) # tl rest)"

definition starts_with :: "string \<Rightarrow> string \<Rightarrow> bool" where
  "starts_with s t = (take (length t) s = t)"

section \<open>Sorted sets\<close>

text \<open>\<open>tuple(sorted(set(xs)))\<close>.\<close>

definition sorted_set :: "('a::linorder) list \<Rightarrow> 'a list" where
  "sorted_set xs = sort (remdups xs)"

lemma set_sorted_set [simp]: "set (sorted_set xs) = set xs"
  by (simp add: sorted_set_def)

lemma sorted_sorted_set [simp]: "sorted (sorted_set xs)"
  by (simp add: sorted_set_def)

lemma distinct_sorted_set [simp]: "distinct (sorted_set xs)"
  by (simp add: sorted_set_def)

lemma sorted_wrt_tail: "sorted_wrt R xs \<Longrightarrow> sorted_wrt R (tl xs)"
  by (cases xs) auto

text \<open>\<open>if x not in xs: xs.append(x)\<close>.\<close>

definition append_new :: "'a \<Rightarrow> 'a list \<Rightarrow> 'a list" where
  "append_new x xs = (if x \<in> set xs then xs else xs @ [x])"

lemma set_append_new [simp]: "set (append_new x xs) = insert x (set xs)"
  by (auto simp: append_new_def)

lemma distinct_append_new [simp]: "distinct (append_new x xs) \<longleftrightarrow> distinct xs"
  by (auto simp: append_new_def)

section \<open>Dictionaries in insertion order\<close>

text \<open>\<open>d[k] = v\<close>, \<open>d.get(k)\<close> and \<open>d.pop(k, None)\<close> are \<^const>\<open>AList.update\<close>, \<^const>\<open>map_of\<close> and
  \<^const>\<open>AList.delete\<close>; \<open>d.values()\<close> is \<open>map snd\<close>.\<close>

type_synonym ('k, 'v) dict = "('k \<times> 'v) list"

definition dict_ok :: "('k, 'v) dict \<Rightarrow> bool" where
  "dict_ok d = distinct (map fst d)"

lemma dict_ok_Nil [simp]: "dict_ok []"
  by (simp add: dict_ok_def)

lemma dict_ok_update [simp, intro]: "dict_ok d \<Longrightarrow> dict_ok (AList.update k v d)"
  by (simp add: dict_ok_def distinct_update)

lemma dict_ok_delete [simp, intro]: "dict_ok d \<Longrightarrow> dict_ok (AList.delete k d)"
  by (simp add: dict_ok_def distinct_delete)

lemma map_of_alist_update [simp]:
  "map_of (AList.update k v d) k' = (if k' = k then Some v else map_of d k')"
  by (simp add: update_conv')

lemma map_of_alist_delete [simp]:
  "map_of (AList.delete k d) k' = (if k' = k then None else map_of d k')"
  by (simp add: delete_conv')

lemma keys_alist_update [simp]: "fst ` set (AList.update k v d) = insert k (fst ` set d)"
  by (metis dom_map_of_conv_image_fst dom_fun_upd option.simps(3) update_conv')

lemma length_alist_update:
  "length (AList.update k v d) = (if k \<in> fst ` set d then length d else Suc (length d))"
  by (induction d) auto

lemma map_of_eq_None_keys: "map_of d k = None \<longleftrightarrow> k \<notin> fst ` set d"
  by (rule map_of_eq_None_iff)

lemma set_alist_update:
  "dict_ok d \<Longrightarrow> set (AList.update k v d) = insert (k, v) {p \<in> set d. fst p \<noteq> k}"
proof (induction d)
  case Nil
  then show ?case by simp
next
  case (Cons p d)
  show ?case
  proof (cases "fst p = k")
    case True
    with Cons.prems have "k \<notin> fst ` set d"
      by (simp add: dict_ok_def)
    then have "{q \<in> set d. fst q \<noteq> k} = set d"
      by auto
    moreover have "AList.update k v (p # d) = (k, v) # d"
      using True by (cases p) simp
    ultimately show ?thesis using True by auto
  next
    case False
    then have "AList.update k v (p # d) = p # AList.update k v d"
      by (cases p) simp
    with Cons False show ?thesis by (auto simp: dict_ok_def)
  qed
qed

lemma dict_lookup_key: "map_of d k = Some v \<Longrightarrow> k \<in> fst ` set d"
  by (metis map_of_eq_None_keys option.distinct(1))

lemma dict_lookup_mem: "map_of d k = Some v \<Longrightarrow> v \<in> snd ` set d"
  by (force dest: map_of_SomeD)

lemma dict_ok_mem_iff: "dict_ok d \<Longrightarrow> map_of d k = Some v \<longleftrightarrow> (k, v) \<in> set d"
  by (auto simp: dict_ok_def)

lemma find_snoc: "find P (xs @ [x]) = (case find P xs of None \<Rightarrow> if P x then Some x else None | Some y \<Rightarrow> Some y)"
  by (induction xs) auto

lemma pred_option_code [code]: "pred_option P None = True" "pred_option P (Some x) = P x"
  by simp_all

end
