(* ===== verification/Domain_Enums.thy ===== *)
theory Domain_Enums
  imports Prelude
begin

text \<open>
  The enumerations of \<^verbatim>\<open>src/src/sentinel_edge/domain/models.py\<close>, one datatype per class with the
  source's members in the source's order, each behind a prefix for its class (\<open>IS_CONFIRMED\<close> is
  \<^verbatim>\<open>IncidentState.CONFIRMED\<close>). \<open>X_value\<close> is the wire value of a member of class \<open>X\<close>. The one
  \<^verbatim>\<open>IntEnum\<close>, the criticality tier, is ordered by its integer.
\<close>

datatype HazardKind =
    HK_WILDFIRE
  | HK_FLOOD
  | HK_EARTHQUAKE
  | HK_LANDSLIDE

datatype SourceDecisionState =
    SD_ACTIVE
  | SD_REVIEW_REQUIRED
  | SD_DISABLED

datatype SourceMode =
    SM_LIVE
  | SM_CACHED
  | SM_SIMULATED
  | SM_FIXTURE
  | SM_REPLAYED

datatype ContentOrigin =
    CO_SOURCE
  | CO_OPERATOR
  | CO_DETERMINISTIC_TRANSFORM
  | CO_ANALYTICAL_MODEL
  | CO_GENERATIVE_MODEL
  | CO_UNKNOWN

datatype MeasurementQuality =
    MQ_VALID
  | MQ_SUSPECT
  | MQ_INVALID
  | MQ_MISSING

datatype MeasurementStatistic =
    MS_INSTANTANEOUS
  | MS_RATE
  | MS_ACCUMULATION
  | MS_MEAN
  | MS_RMS
  | MS_CHANGE

datatype UncertaintyStatus =
    US_KNOWN
  | US_UNKNOWN
  | US_NOT_APPLICABLE

datatype TimeOrigin =
    TO_RTC
  | TO_MANUAL
  | TO_GNSS
  | TO_NTP
  | TO_NTS
  | TO_FIXTURE

datatype TimeTrustState =
    TT_TRUSTED
  | TT_DISPLAY_ONLY
  | TT_DEGRADED
  | TT_UNUSABLE

datatype RuntimeMode =
    RM_JUDGE
  | RM_BENCHMARK
  | RM_FIELD_LAB
  | RM_DEVELOPMENT

datatype HealthState =
    HS_HEALTHY
  | HS_DEGRADED
  | HS_STALE
  | HS_FAILED
  | HS_UNKNOWN

datatype CoverageState =
    CV_SUFFICIENT
  | CV_PARTIAL
  | CV_BLIND

datatype IncidentState =
    IS_NORMAL
  | IS_WATCH
  | IS_SUSPECTED
  | IS_CONFIRMED
  | IS_RESOLVING
  | IS_RESOLVED
  | IS_DEGRADED

datatype CriticalityTier =
    TIER_A_IMMEDIATE
  | TIER_B_URGENT
  | TIER_C_TIMELY
  | TIER_D_PERIODIC
  | TIER_E_BACKGROUND

datatype JobStatus =
    JS_QUEUED
  | JS_RUNNING
  | JS_COMPLETED
  | JS_DEFERRED
  | JS_REJECTED
  | JS_CANCELLED

datatype OpportunityDisposition =
    OD_OFFERED
  | OD_QUEUED
  | OD_DEFERRED
  | OD_PROCESSED
  | OD_SKIPPED
  | OD_REPLACED
  | OD_INVALID
  | OD_DROPPED
  | OD_EXPIRED
  | OD_FAILED
  | OD_DEADLINE_MISSED

datatype ClaimClass =
    CC_MEASURED
  | CC_REPLAYED
  | CC_SIMULATED
  | CC_TARGET
  | CC_RESEARCH

datatype BenchmarkVariant =
    BV_B0
  | BV_B1
  | BV_O1

datatype CapabilityState =
    CS_SPECIFIED
  | CS_IMPLEMENTED
  | CS_TESTED
  | CS_TARGET_QUALIFIED
  | CS_RELEASE_ADMITTED
  | CS_FIELD_QUALIFIED
  | CS_DEFERRED
  | CS_BLOCKED
  | CS_FAILED
  | CS_EXPIRED

datatype ConfigurationState =
    CF_STAGED
  | CF_ACTIVE
  | CF_LAST_KNOWN_GOOD
  | CF_REJECTED
  | CF_ROLLED_BACK

datatype ReviewActionKind =
    RA_ACKNOWLEDGE
  | RA_SNOOZE
  | RA_UNSNOOZE
  | RA_COMMENT

datatype NotificationStatus =
    NS_PENDING
  | NS_DELIVERED
  | NS_FAILED
  | NS_SUPPRESSED
  | NS_EXPIRED
  | NS_DEAD_LETTER

datatype AuthorityMutationKind =
    AM_INCIDENT
  | AM_REVIEW
  | AM_NOTIFICATION_INTENT
  | AM_NOTIFICATION_DELIVERY
  | AM_CONFIGURATION
  | AM_COMMAND
  | AM_EVIDENCE
  | AM_CLAIM
  | AM_CLAIM_LINK
  | AM_INCIDENT_RELATION
  | AM_EVIDENCE_LIFECYCLE
  | AM_MEDIA_PARSE
  | AM_EVIDENCE_REEVALUATION
  | AM_DISPOSITION

datatype SourceStanding =
    SS_OFFICIAL
  | SS_AUTHORITATIVE
  | SS_FIRST_PARTY
  | SS_NEWS
  | SS_COMMUNITY
  | SS_UNKNOWN

datatype MediaIntegrityState =
    MI_ORIGINAL_VERIFIED
  | MI_DERIVATIVE
  | MI_MANIPULATION_SUSPECT
  | MI_UNKNOWN
  | MI_NOT_APPLICABLE

datatype ExtractionConfidenceState =
    EC_VERIFIED
  | EC_MODEL_ESTIMATE
  | EC_LOW
  | EC_UNKNOWN
  | EC_NOT_APPLICABLE

datatype EvidenceRetentionState =
    ER_RETAINED
  | ER_METADATA_ONLY
  | ER_REJECTED

datatype EvidenceRightsMode =
    RI_RETAIN_BYTES
  | RI_DERIVED_ONLY
  | RI_REFERENCE_ONLY

datatype EvidenceContentState =
    ES_AVAILABLE
  | ES_METADATA_ONLY
  | ES_REDACTED
  | ES_EXPIRED
  | ES_DELETED
  | ES_UNAVAILABLE_AT_CAPTURE
  | ES_MISSING_EXTERNAL

datatype EvidenceLifecycleAction =
    EL_REGISTER
  | EL_REDACT
  | EL_EXPIRE
  | EL_DELETE
  | EL_MARK_EXTERNAL_MISSING

datatype MediaParserStatus =
    MP_COMPLETED
  | MP_QUARANTINED
  | MP_REJECTED
  | MP_FAILED

datatype ParserIsolationState =
    PI_NOT_REQUIRED
  | PI_SANDBOXED
  | PI_QUARANTINED
  | PI_REJECTED

datatype ClaimEvidenceRelation =
    CE_SUPPORTS
  | CE_CONTRADICTS
  | CE_SAME_FAMILY
  | CE_DERIVED_FROM

datatype IncidentRelationKind =
    IR_CASCADE_CONTEXT
  | IR_SUSCEPTIBILITY_INCREASE
  | IR_TEMPORAL_ASSOCIATION
  | IR_SAME_EVENT_SOLUTION
  | IR_MERGED_ALIAS

datatype IncidentIdentityOutcome =
    IO_NEW
  | IO_DUPLICATE

datatype IncidentCommandKind =
    IC_CORROBORATE
  | IC_CONTRADICT
  | IC_CONTROL
  | IC_RESOLVE
  | IC_REOPEN
  | IC_LINK
  | IC_MERGE

datatype IncidentLabel =
    IL_CONFIRM
  | IL_REJECT
  | IL_UNCERTAIN
  | IL_CONTROL

datatype PrincipalRole =
    PR_VIEWER
  | PR_OPERATOR
  | PR_ADMIN

datatype CommandStatus =
    CM_ACCEPTED
  | CM_VALIDATING
  | CM_COMMITTED
  | CM_PROJECTED
  | CM_REJECTED
  | CM_EXPIRED
  | CM_SUPERSEDED
  | CM_CONFLICT

datatype UpdateBundleState =
    UB_STAGED
  | UB_VERIFIED
  | UB_REJECTED
  | UB_ACTIVATED
  | UB_ROLLED_BACK

section \<open>Wire values\<close>

fun HazardKind_value :: "HazardKind \<Rightarrow> string" where
  "HazardKind_value HK_WILDFIRE = ''wildfire''"
| "HazardKind_value HK_FLOOD = ''flood''"
| "HazardKind_value HK_EARTHQUAKE = ''earthquake''"
| "HazardKind_value HK_LANDSLIDE = ''landslide''"

fun IncidentState_value :: "IncidentState \<Rightarrow> string" where
  "IncidentState_value IS_NORMAL = ''normal''"
| "IncidentState_value IS_WATCH = ''watch''"
| "IncidentState_value IS_SUSPECTED = ''suspected''"
| "IncidentState_value IS_CONFIRMED = ''confirmed''"
| "IncidentState_value IS_RESOLVING = ''resolving''"
| "IncidentState_value IS_RESOLVED = ''resolved''"
| "IncidentState_value IS_DEGRADED = ''degraded''"

fun IncidentCommandKind_value :: "IncidentCommandKind \<Rightarrow> string" where
  "IncidentCommandKind_value IC_CORROBORATE = ''corroborate''"
| "IncidentCommandKind_value IC_CONTRADICT = ''contradict''"
| "IncidentCommandKind_value IC_CONTROL = ''control''"
| "IncidentCommandKind_value IC_RESOLVE = ''resolve''"
| "IncidentCommandKind_value IC_REOPEN = ''reopen''"
| "IncidentCommandKind_value IC_LINK = ''link''"
| "IncidentCommandKind_value IC_MERGE = ''merge''"

fun ReviewActionKind_value :: "ReviewActionKind \<Rightarrow> string" where
  "ReviewActionKind_value RA_ACKNOWLEDGE = ''acknowledge''"
| "ReviewActionKind_value RA_SNOOZE = ''snooze''"
| "ReviewActionKind_value RA_UNSNOOZE = ''unsnooze''"
| "ReviewActionKind_value RA_COMMENT = ''comment''"

fun CommandStatus_value :: "CommandStatus \<Rightarrow> string" where
  "CommandStatus_value CM_ACCEPTED = ''accepted''"
| "CommandStatus_value CM_VALIDATING = ''validating''"
| "CommandStatus_value CM_COMMITTED = ''committed''"
| "CommandStatus_value CM_PROJECTED = ''projected''"
| "CommandStatus_value CM_REJECTED = ''rejected''"
| "CommandStatus_value CM_EXPIRED = ''expired''"
| "CommandStatus_value CM_SUPERSEDED = ''superseded''"
| "CommandStatus_value CM_CONFLICT = ''conflict''"

fun HealthState_value :: "HealthState \<Rightarrow> string" where
  "HealthState_value HS_HEALTHY = ''healthy''"
| "HealthState_value HS_DEGRADED = ''degraded''"
| "HealthState_value HS_STALE = ''stale''"
| "HealthState_value HS_FAILED = ''failed''"
| "HealthState_value HS_UNKNOWN = ''unknown''"

fun OpportunityDisposition_value :: "OpportunityDisposition \<Rightarrow> string" where
  "OpportunityDisposition_value OD_OFFERED = ''offered''"
| "OpportunityDisposition_value OD_QUEUED = ''queued''"
| "OpportunityDisposition_value OD_DEFERRED = ''deferred''"
| "OpportunityDisposition_value OD_PROCESSED = ''processed''"
| "OpportunityDisposition_value OD_SKIPPED = ''skipped''"
| "OpportunityDisposition_value OD_REPLACED = ''replaced''"
| "OpportunityDisposition_value OD_INVALID = ''invalid''"
| "OpportunityDisposition_value OD_DROPPED = ''dropped''"
| "OpportunityDisposition_value OD_EXPIRED = ''expired''"
| "OpportunityDisposition_value OD_FAILED = ''failed''"
| "OpportunityDisposition_value OD_DEADLINE_MISSED = ''deadline_missed''"

fun MeasurementQuality_value :: "MeasurementQuality \<Rightarrow> string" where
  "MeasurementQuality_value MQ_VALID = ''valid''"
| "MeasurementQuality_value MQ_SUSPECT = ''suspect''"
| "MeasurementQuality_value MQ_INVALID = ''invalid''"
| "MeasurementQuality_value MQ_MISSING = ''missing''"

fun EvidenceLifecycleAction_value :: "EvidenceLifecycleAction \<Rightarrow> string" where
  "EvidenceLifecycleAction_value EL_REGISTER = ''register''"
| "EvidenceLifecycleAction_value EL_REDACT = ''redact''"
| "EvidenceLifecycleAction_value EL_EXPIRE = ''expire''"
| "EvidenceLifecycleAction_value EL_DELETE = ''delete''"
| "EvidenceLifecycleAction_value EL_MARK_EXTERNAL_MISSING = ''mark_external_missing''"

fun EvidenceContentState_value :: "EvidenceContentState \<Rightarrow> string" where
  "EvidenceContentState_value ES_AVAILABLE = ''available''"
| "EvidenceContentState_value ES_METADATA_ONLY = ''metadata_only''"
| "EvidenceContentState_value ES_REDACTED = ''redacted''"
| "EvidenceContentState_value ES_EXPIRED = ''expired''"
| "EvidenceContentState_value ES_DELETED = ''deleted''"
| "EvidenceContentState_value ES_UNAVAILABLE_AT_CAPTURE = ''unavailable_at_capture''"
| "EvidenceContentState_value ES_MISSING_EXTERNAL = ''missing_external''"

fun AuthorityMutationKind_value :: "AuthorityMutationKind \<Rightarrow> string" where
  "AuthorityMutationKind_value AM_INCIDENT = ''incident''"
| "AuthorityMutationKind_value AM_REVIEW = ''review''"
| "AuthorityMutationKind_value AM_NOTIFICATION_INTENT = ''notification_intent''"
| "AuthorityMutationKind_value AM_NOTIFICATION_DELIVERY = ''notification_delivery''"
| "AuthorityMutationKind_value AM_CONFIGURATION = ''configuration''"
| "AuthorityMutationKind_value AM_COMMAND = ''command''"
| "AuthorityMutationKind_value AM_EVIDENCE = ''evidence''"
| "AuthorityMutationKind_value AM_CLAIM = ''claim''"
| "AuthorityMutationKind_value AM_CLAIM_LINK = ''claim_link''"
| "AuthorityMutationKind_value AM_INCIDENT_RELATION = ''incident_relation''"
| "AuthorityMutationKind_value AM_EVIDENCE_LIFECYCLE = ''evidence_lifecycle''"
| "AuthorityMutationKind_value AM_MEDIA_PARSE = ''media_parse''"
| "AuthorityMutationKind_value AM_EVIDENCE_REEVALUATION = ''evidence_reevaluation''"
| "AuthorityMutationKind_value AM_DISPOSITION = ''disposition''"

fun EvidenceRetentionState_value :: "EvidenceRetentionState \<Rightarrow> string" where
  "EvidenceRetentionState_value ER_RETAINED = ''retained''"
| "EvidenceRetentionState_value ER_METADATA_ONLY = ''metadata_only''"
| "EvidenceRetentionState_value ER_REJECTED = ''rejected''"

fun SourceStanding_value :: "SourceStanding \<Rightarrow> string" where
  "SourceStanding_value SS_OFFICIAL = ''official''"
| "SourceStanding_value SS_AUTHORITATIVE = ''authoritative''"
| "SourceStanding_value SS_FIRST_PARTY = ''first_party''"
| "SourceStanding_value SS_NEWS = ''news''"
| "SourceStanding_value SS_COMMUNITY = ''community''"
| "SourceStanding_value SS_UNKNOWN = ''unknown''"

fun MediaIntegrityState_value :: "MediaIntegrityState \<Rightarrow> string" where
  "MediaIntegrityState_value MI_ORIGINAL_VERIFIED = ''original_verified''"
| "MediaIntegrityState_value MI_DERIVATIVE = ''derivative''"
| "MediaIntegrityState_value MI_MANIPULATION_SUSPECT = ''manipulation_suspect''"
| "MediaIntegrityState_value MI_UNKNOWN = ''unknown''"
| "MediaIntegrityState_value MI_NOT_APPLICABLE = ''not_applicable''"

fun ExtractionConfidenceState_value :: "ExtractionConfidenceState \<Rightarrow> string" where
  "ExtractionConfidenceState_value EC_VERIFIED = ''verified''"
| "ExtractionConfidenceState_value EC_MODEL_ESTIMATE = ''model_estimate''"
| "ExtractionConfidenceState_value EC_LOW = ''low''"
| "ExtractionConfidenceState_value EC_UNKNOWN = ''unknown''"
| "ExtractionConfidenceState_value EC_NOT_APPLICABLE = ''not_applicable''"

fun TimeOrigin_value :: "TimeOrigin \<Rightarrow> string" where
  "TimeOrigin_value TO_RTC = ''rtc''"
| "TimeOrigin_value TO_MANUAL = ''manual''"
| "TimeOrigin_value TO_GNSS = ''gnss''"
| "TimeOrigin_value TO_NTP = ''ntp''"
| "TimeOrigin_value TO_NTS = ''nts''"
| "TimeOrigin_value TO_FIXTURE = ''fixture''"

fun TimeTrustState_value :: "TimeTrustState \<Rightarrow> string" where
  "TimeTrustState_value TT_TRUSTED = ''trusted''"
| "TimeTrustState_value TT_DISPLAY_ONLY = ''display_only''"
| "TimeTrustState_value TT_DEGRADED = ''degraded''"
| "TimeTrustState_value TT_UNUSABLE = ''unusable''"

fun NotificationStatus_value :: "NotificationStatus \<Rightarrow> string" where
  "NotificationStatus_value NS_PENDING = ''pending''"
| "NotificationStatus_value NS_DELIVERED = ''delivered''"
| "NotificationStatus_value NS_FAILED = ''failed''"
| "NotificationStatus_value NS_SUPPRESSED = ''suppressed''"
| "NotificationStatus_value NS_EXPIRED = ''expired''"
| "NotificationStatus_value NS_DEAD_LETTER = ''dead_letter''"

fun SourceMode_value :: "SourceMode \<Rightarrow> string" where
  "SourceMode_value SM_LIVE = ''live''"
| "SourceMode_value SM_CACHED = ''cached''"
| "SourceMode_value SM_SIMULATED = ''simulated''"
| "SourceMode_value SM_FIXTURE = ''fixture''"
| "SourceMode_value SM_REPLAYED = ''replayed''"

fun UncertaintyStatus_value :: "UncertaintyStatus \<Rightarrow> string" where
  "UncertaintyStatus_value US_KNOWN = ''known''"
| "UncertaintyStatus_value US_UNKNOWN = ''unknown''"
| "UncertaintyStatus_value US_NOT_APPLICABLE = ''not_applicable''"

lemma HazardKind_value_inject [simp]: "HazardKind_value a = HazardKind_value b \<longleftrightarrow> a = b"
  by (cases a; cases b) simp_all

lemma IncidentState_value_inject [simp]: "IncidentState_value a = IncidentState_value b \<longleftrightarrow> a = b"
  by (cases a; cases b) simp_all

lemma IncidentCommandKind_value_inject [simp]: "IncidentCommandKind_value a = IncidentCommandKind_value b \<longleftrightarrow> a = b"
  by (cases a; cases b) simp_all

lemma OpportunityDisposition_value_inject [simp]: "OpportunityDisposition_value a = OpportunityDisposition_value b \<longleftrightarrow> a = b"
  by (cases a; cases b) simp_all

lemma CommandStatus_value_inject [simp]: "CommandStatus_value a = CommandStatus_value b \<longleftrightarrow> a = b"
  by (cases a; cases b) simp_all

section \<open>Criticality tiers\<close>

fun tier_int :: "CriticalityTier \<Rightarrow> int" where
  "tier_int TIER_A_IMMEDIATE = 0"
| "tier_int TIER_B_URGENT = 1"
| "tier_int TIER_C_TIMELY = 2"
| "tier_int TIER_D_PERIODIC = 3"
| "tier_int TIER_E_BACKGROUND = 4"

lemma tier_int_inject [simp]: "tier_int a = tier_int b \<longleftrightarrow> a = b"
  by (cases a; cases b) simp_all

lemma tier_int_range: "0 \<le> tier_int t" "tier_int t \<le> 4"
  by (cases t; simp)+

instantiation CriticalityTier :: linorder
begin

definition less_eq_CriticalityTier :: "CriticalityTier \<Rightarrow> CriticalityTier \<Rightarrow> bool" where
  "less_eq_CriticalityTier a b \<longleftrightarrow> tier_int a \<le> tier_int b"

definition less_CriticalityTier :: "CriticalityTier \<Rightarrow> CriticalityTier \<Rightarrow> bool" where
  "less_CriticalityTier a b \<longleftrightarrow> tier_int a < tier_int b"

instance
  by standard (auto simp: less_eq_CriticalityTier_def less_CriticalityTier_def)

end

lemmas tier_order = less_eq_CriticalityTier_def less_CriticalityTier_def

section \<open>Command status life cycle\<close>

fun command_status_transitions :: "CommandStatus \<Rightarrow> CommandStatus list" where
  "command_status_transitions CM_ACCEPTED = [CM_VALIDATING, CM_REJECTED, CM_EXPIRED, CM_SUPERSEDED]"
| "command_status_transitions CM_VALIDATING = [CM_COMMITTED, CM_REJECTED, CM_EXPIRED, CM_SUPERSEDED]"
| "command_status_transitions CM_COMMITTED = [CM_PROJECTED]"
| "command_status_transitions CM_PROJECTED = []"
| "command_status_transitions CM_REJECTED = []"
| "command_status_transitions CM_EXPIRED = []"
| "command_status_transitions CM_SUPERSEDED = []"
| "command_status_transitions CM_CONFLICT = []"

definition validate_command_status_transition ::
  "CommandStatus \<Rightarrow> CommandStatus \<Rightarrow> CommandStatus result" where
  "validate_command_status_transition previous current =
     (if current \<notin> set (command_status_transitions previous)
      then Inl (ValueError (''illegal command lifecycle transition '' @ CommandStatus_value previous @
        ''->'' @ CommandStatus_value current))
      else Inr current)"

end
