(* ===== verification/Floats.thy ===== *)
theory Floats
  imports Prelude
begin

text \<open>
  IEEE binary64 arithmetic as the sources use it. A finite \<open>float\<close> is the rational number it
  denotes. Every arithmetic operation of the language computes the exact result and rounds it to
  the nearest representable number, ties to even; \<open>f64\<close> is that rounding (53 bits of precision,
  smallest exponent -1074). Overflow to infinity and NaN are outside the model: every quantity
  the modelled code computes stays far below \<open>2 ^ 1023\<close>. \<open>round_half_even\<close> is the built-in
  \<open>round\<close> of one argument.
\<close>

definition round_half_even :: "rat \<Rightarrow> int" where
  "round_half_even x =
     (let f = \<lfloor>x\<rfloor>; d = x - of_int f
      in if d < 1 / 2 then f else if 1 / 2 < d then f + 1 else if even f then f else f + 1)"

text \<open>The exponent of the binade of a positive number: the greatest \<open>e\<close> with \<open>2 powi e \<le> x\<close>.\<close>

definition binade :: "rat \<Rightarrow> int" where
  "binade x =
     (let (p, q) = quotient_of x; d = bitlen p - bitlen q
      in if 2 powi d \<le> x then d else d - 1)"

definition ulp :: "rat \<Rightarrow> rat" where
  "ulp x = 2 powi (max (binade x) (-1022) - 52)"

definition f64 :: "rat \<Rightarrow> rat" where
  "f64 x = (if x = 0 then 0 else of_int (round_half_even (x / ulp \<bar>x\<bar>)) * ulp \<bar>x\<bar>)"

section \<open>Rounding to integers\<close>

lemma round_half_even_of_int [simp]: "round_half_even (of_int n) = n"
  by (simp add: round_half_even_def)

lemma round_half_even_bounds:
  "of_int (round_half_even x) \<le> x + 1 / 2" "x - 1 / 2 \<le> of_int (round_half_even x)"
  unfolding round_half_even_def Let_def by (auto; linarith)+

lemma round_half_even_mono:
  assumes "x \<le> y"
  shows "round_half_even x \<le> round_half_even y"
proof (rule ccontr)
  assume "\<not> ?thesis"
  then have lt: "round_half_even y + 1 \<le> round_half_even x" by simp
  then have "of_int (round_half_even y) + 1 \<le> (of_int (round_half_even x) :: rat)"
    by (metis of_int_1 of_int_add of_int_le_iff)
  with round_half_even_bounds(2)[of y] round_half_even_bounds(1)[of x] assms
  have eq: "x = y" by linarith
  with lt show False by simp
qed

lemma round_half_even_ge: "of_int n \<le> x \<Longrightarrow> n \<le> round_half_even x"
  using round_half_even_mono[of "of_int n" x] by simp

lemma round_half_even_le: "x \<le> of_int n \<Longrightarrow> round_half_even x \<le> n"
  using round_half_even_mono[of x "of_int n"] by simp

lemma round_half_even_minus: "round_half_even (- x) = - round_half_even x"
proof (cases "x \<in> \<int>")
  case True
  then obtain n where "x = of_int n" by (auto elim: Ints_cases)
  then show ?thesis
    by (metis of_int_minus round_half_even_of_int)
next
  case False
  then have ne: "x \<noteq> of_int \<lfloor>x\<rfloor>"
    using Ints_of_int[of "\<lfloor>x\<rfloor>", where ?'a = rat] by metis
  then have f: "\<lfloor>- x\<rfloor> = - \<lfloor>x\<rfloor> - 1"
    using ceiling_altdef[of x] by (simp add: ceiling_def)
  have "x - of_int \<lfloor>x\<rfloor> \<noteq> 0" using ne by simp
  then show ?thesis
    unfolding round_half_even_def Let_def f by auto
qed

section \<open>Rounding to binary64\<close>

lemma quotient_binade:
  assumes "0 < (p::int)" "0 < (q::int)"
  shows "2 powi (bitlen p - bitlen q - 1) < (of_int p / of_int q :: rat)"
    and "(of_int p / of_int q :: rat) < 2 powi (bitlen p - bitlen q + 1)"
proof -
  have pos: "0 < bitlen p" "0 < bitlen q"
    using assms bitlen_eq_zero_iff[of p] bitlen_eq_zero_iff[of q] bitlen_nonneg[of p] bitlen_nonneg[of q]
    by linarith+
  have nat2: "(2::rat) ^ nat k = 2 powi k" if "0 \<le> k" for k
    using that by (simp add: power_int_def)
  have p2: "(2::rat) powi (bitlen p - 1) \<le> of_int p" "of_int p < (2::rat) powi bitlen p"
    using bitlen_bounds[OF assms(1)] pos nat2
    by (metis (no_types, lifting) diff_ge_0_iff_ge int_one_le_iff_zero_less of_int_le_iff of_int_numeral of_int_power,
        metis less_imp_le of_int_less_iff of_int_numeral of_int_power)
  have q2: "(2::rat) powi (bitlen q - 1) \<le> of_int q" "of_int q < (2::rat) powi bitlen q"
    using bitlen_bounds[OF assms(2)] pos nat2
    by (metis (no_types, lifting) diff_ge_0_iff_ge int_one_le_iff_zero_less of_int_le_iff of_int_numeral of_int_power,
        metis less_imp_le of_int_less_iff of_int_numeral of_int_power)
  have split: "(2::rat) powi (a - b) = 2 powi a / 2 powi b" for a b
    by (simp add: power_int_diff)
  have "2 powi (bitlen p - bitlen q - 1) = (2::rat) powi (bitlen p - 1) / 2 powi bitlen q"
    by (simp add: split[symmetric] algebra_simps)
  also have "\<dots> < of_int p / of_int q"
    using p2(1) q2(2) assms by (intro frac_less2) auto
  finally show "2 powi (bitlen p - bitlen q - 1) < (of_int p / of_int q :: rat)" .
  have "of_int p / of_int q < (2::rat) powi bitlen p / 2 powi (bitlen q - 1)"
    using p2(2) q2(1) assms by (intro frac_less) auto
  also have "\<dots> = 2 powi (bitlen p - bitlen q + 1)"
    by (simp add: split[symmetric] algebra_simps)
  finally show "(of_int p / of_int q :: rat) < 2 powi (bitlen p - bitlen q + 1)" .
qed

lemma binade_bounds:
  assumes "0 < x"
  shows "2 powi binade x \<le> x" "x < 2 powi (binade x + 1)"
proof -
  obtain p q where pq: "quotient_of x = (p, q)" by force
  then have q: "0 < q" and x: "x = of_int p / of_int q"
    using quotient_of_denom_pos quotient_of_div by auto
  with assms have p: "0 < p" by (simp add: zero_less_divide_iff)
  note b = quotient_binade[OF p q, folded x]
  show "2 powi binade x \<le> x" "x < 2 powi (binade x + 1)"
    using b by (auto simp: binade_def pq Let_def)
qed

lemma powi2_le_iff: "(2::rat) powi a \<le> 2 powi b \<longleftrightarrow> a \<le> b"
  using power_int_strict_increasing[of b a "2::rat"] power_int_increasing[of a b "2::rat"]
  by (cases "a \<le> b") auto

lemma powi2_less_iff: "(2::rat) powi a < 2 powi b \<longleftrightarrow> a < b"
  using powi2_le_iff[of b a] by linarith

lemma binade_le_iff: "0 < x \<Longrightarrow> binade x \<le> k \<longleftrightarrow> x < 2 powi (k + 1)"
  using binade_bounds[of x] powi2_le_iff[of "binade x + 1" "k + 1"] powi2_less_iff[of "binade x" "k + 1"]
  by (meson add_le_cancel_right less_le_trans le_less_trans zle_add1_eq_le)

lemma binade_ge_iff: "0 < x \<Longrightarrow> k \<le> binade x \<longleftrightarrow> 2 powi k \<le> x"
  using binade_le_iff[of x "k - 1"] by auto

lemma binade_mono: "0 < x \<Longrightarrow> x \<le> y \<Longrightarrow> binade x \<le> binade y"
  using binade_bounds(2)[of y] by (simp add: binade_le_iff)

lemma ulp_pos [simp]: "0 < ulp x" "0 \<le> ulp x" "ulp x \<noteq> 0"
  by (simp_all add: ulp_def)

lemma ulp_scale: "2 ^ 52 * ulp x = 2 powi max (binade x) (-1022)"
  "2 ^ 53 * ulp x = 2 powi (max (binade x) (-1022) + 1)"
proof -
  have "(2::rat) ^ 52 = 2 powi 52" "(2::rat) ^ 53 = 2 powi 53"
    by (simp_all only: power_int_numeral)
  moreover have "(2::rat) powi a * 2 powi b = 2 powi (a + b)" for a b
    by (simp add: power_int_add)
  ultimately show "2 ^ 52 * ulp x = 2 powi max (binade x) (-1022)"
    "2 ^ 53 * ulp x = 2 powi (max (binade x) (-1022) + 1)"
    by (simp_all only: ulp_def) (simp_all add: algebra_simps)
qed

text \<open>The exact result \<open>x\<close> has no finite binary64 value: the operation gives an infinity or raises.\<close>

definition f64_overflows :: "rat \<Rightarrow> bool" where
  "f64_overflows x \<longleftrightarrow> 2 ^ 1024 \<le> \<bar>f64 x\<bar>"

lemma f64_0 [simp]: "f64 0 = 0"
  by (simp add: f64_def)

lemma f64_minus: "f64 (- x) = - f64 x"
  by (simp add: f64_def round_half_even_minus)

lemma f64_nonneg:
  assumes "0 \<le> x"
  shows "0 \<le> f64 x"
proof -
  have "0 \<le> round_half_even (x / ulp \<bar>x\<bar>)"
    using assms by (intro round_half_even_ge) simp
  then show ?thesis by (simp add: f64_def)
qed

lemma f64_pos_mono:
  assumes "0 < x" "x \<le> y"
  shows "f64 x \<le> f64 y"
proof (cases "max (binade x) (-1022) = max (binade y) (-1022)")
  case True
  then have u: "ulp x = ulp y" by (simp add: ulp_def)
  have "round_half_even (x / ulp y) \<le> round_half_even (y / ulp y)"
    using assms by (intro round_half_even_mono divide_right_mono ulp_pos)
  with assms u show ?thesis
    by (simp add: f64_def)
next
  case False
  define ex where "ex = max (binade x) (-1022)"
  have le: "binade x \<le> binade y" using assms by (rule binade_mono)
  with False have ey: "max (binade y) (-1022) = binade y" and lt: "ex + 1 \<le> binade y"
    by (auto simp: ex_def)
  have "x < 2 powi (ex + 1)"
    using assms(1) binade_le_iff[of x ex] by (simp add: ex_def)
  then have "x \<le> 2 ^ 53 * ulp x"
    by (simp only: ulp_scale ex_def less_imp_le)
  then have "x / ulp x \<le> of_int (2 ^ 53)"
    by (simp add: divide_le_eq)
  then have "round_half_even (x / ulp x) \<le> 2 ^ 53"
    by (rule round_half_even_le)
  then have "of_int (round_half_even (x / ulp x)) * ulp x \<le> of_int (2 ^ 53) * ulp x"
    by (intro mult_right_mono ulp_pos) (simp only: of_int_le_iff)
  also have "of_int (2 ^ 53) * ulp x = 2 powi (ex + 1)"
    using ulp_scale(2)[of x] by (simp add: ex_def)
  finally have fx: "f64 x \<le> 2 powi (ex + 1)"
    using assms(1) by (simp add: f64_def)
  have "2 ^ 52 * ulp y \<le> y"
    using assms binade_bounds(1)[of y] by (simp only: ulp_scale ey)
  then have "of_int (2 ^ 52) \<le> y / ulp y"
    by (simp add: le_divide_eq)
  then have "2 ^ 52 \<le> round_half_even (y / ulp y)"
    by (rule round_half_even_ge)
  then have "of_int (2 ^ 52) * ulp y \<le> of_int (round_half_even (y / ulp y)) * ulp y"
    by (intro mult_right_mono ulp_pos) (simp only: of_int_le_iff)
  also have "of_int (round_half_even (y / ulp y)) * ulp y = f64 y"
    using assms by (simp add: f64_def)
  finally have fy: "2 powi binade y \<le> f64 y"
    using ulp_scale(1)[of y] by (simp add: ey)
  from fx fy lt show ?thesis
    using powi2_le_iff[of "ex + 1" "binade y"] by linarith
qed

theorem f64_mono: "x \<le> y \<Longrightarrow> f64 x \<le> f64 y"
proof -
  assume le: "x \<le> y"
  consider "0 < x" | "x \<le> 0" "0 \<le> y" | "y < 0" by linarith
  then show ?thesis
  proof cases
    case 1
    with le show ?thesis by (rule f64_pos_mono[rotated -1]) 
  next
    case 2
    then show ?thesis
      using f64_nonneg[of y] f64_nonneg[of "- x"] by (simp add: f64_minus)
  next
    case 3
    with le have "f64 (- y) \<le> f64 (- x)" by (intro f64_pos_mono) auto
    then show ?thesis by (simp add: f64_minus)
  qed
qed

lemma f64_dyadic:
  assumes "\<bar>m\<bar> < 2 ^ 53" "- 1074 \<le> k"
  shows "f64 (of_int m * 2 powi k) = of_int m * 2 powi k"
proof (cases "m = 0")
  case False
  define x where "x = of_int m * (2::rat) powi k"
  have x: "0 < \<bar>x\<bar>" using False by (simp add: x_def)
  have "of_int \<bar>m\<bar> < (of_int (2 ^ 53) :: rat)"
    using assms(1) by (simp only: of_int_less_iff)
  then have "\<bar>x\<bar> < 2 ^ 53 * 2 powi k"
    by (simp add: x_def abs_mult)
  also have "\<dots> = 2 powi (52 + k + 1)"
    by (simp add: power_int_add power_int_def[of _ 53])
  finally have "binade \<bar>x\<bar> \<le> 52 + k"
    using x by (simp add: binade_le_iff)
  then have "max (binade \<bar>x\<bar>) (-1022) - 52 \<le> k"
    using assms(2) by simp
  then obtain j where j: "k = max (binade \<bar>x\<bar>) (-1022) - 52 + int j"
    by (metis zle_iff_zadd)
  have "x = of_int (m * 2 ^ j) * ulp \<bar>x\<bar>"
    unfolding ulp_def by (subst x_def, subst j) (simp add: power_int_add mult.assoc mult.commute)
  then have "x / ulp \<bar>x\<bar> = of_int (m * 2 ^ j)"
    using ulp_pos[of "\<bar>x\<bar>"] by (metis nonzero_mult_div_cancel_right)
  then have "f64 x = of_int (m * 2 ^ j) * ulp \<bar>x\<bar>"
    using x by (simp only: f64_def round_half_even_of_int) simp
  then show ?thesis
    using \<open>x = of_int (m * 2 ^ j) * ulp \<bar>x\<bar>\<close> by (simp only: x_def)
qed simp

corollary f64_of_int: "\<bar>n\<bar> < 2 ^ 53 \<Longrightarrow> f64 (of_int n) = of_int n"
  using f64_dyadic[of n 0] by simp

lemma f64_code [code]:
  "f64 x = (case quotient_of x of (n, d) \<Rightarrow> if d = 1 \<and> \<bar>n\<bar> < 9007199254740992 then x else of_int (round_half_even (x / ulp \<bar>x\<bar>)) * ulp \<bar>x\<bar>)"
proof (cases "x = 0")
  case False
  obtain n d where q: "quotient_of x = (n, d)" by fastforce
  show ?thesis
  proof (cases "d = 1 \<and> \<bar>n\<bar> < 9007199254740992")
    case True
    then have "x = of_int n" using quotient_of_div[OF q] by simp
    then show ?thesis using True q f64_of_int[of n] by simp
  qed (use False in \<open>auto simp: q f64_def\<close>)
qed simp

end
