(* ===== verification/Domain.thy ===== *)
theory Domain
  imports Domain_Enums Floats
begin

text \<open>
  The data model of \<^verbatim>\<open>src/src/sentinel_edge/domain/models.py\<close> that the scheduler, the incident engine and
  the command authorizer work on: one \<^theory_text>\<open>record\<close> per model class with the source's fields in the
  source's order behind a short prefix, \<open>X_fields_ok\<close> for the \<^verbatim>\<open>Field(ge=..., le=...)\<close> bounds of class \<open>X\<close>,
  and the class's \<^verbatim>\<open>model_validator\<close> under its own name. \<open>X_init\<close> is the validating constructor.
  \<^verbatim>\<open>model_copy(update=...)\<close> runs no validator and is a record update.
\<close>

record WorkloadSpec =
  ws_workload_id :: "string"
  ws_hazard :: "HazardKind"
  ws_tier :: "CriticalityTier"
  ws_period_ms :: "int"
  ws_deadline_ms :: "int"
  ws_max_deferral_ms :: "int"
  ws_estimated_cost_ms :: "int"
  ws_memory_mb :: "int"
  ws_profile_id :: "string"
  ws_forced_scan_ms :: "int option"

definition WorkloadSpec_fields_ok :: "WorkloadSpec \<Rightarrow> bool" where
  "WorkloadSpec_fields_ok x \<longleftrightarrow>
     0 < ws_period_ms x \<and>
     0 < ws_deadline_ms x \<and>
     0 \<le> ws_max_deferral_ms x \<and>
     0 < ws_estimated_cost_ms x \<and>
     0 < ws_memory_mb x \<and>
     pred_option (\<lambda>v. 0 < v) (ws_forced_scan_ms x)"

record ResourceSnapshot =
  rs_cpu_pressure :: "pyfloat"
  rs_memory_pressure :: "pyfloat"
  rs_io_pressure :: "pyfloat"
  rs_temperature_c :: "pyfloat"
  rs_available_memory_mb :: "int"
  rs_power_degraded :: "bool"

definition ResourceSnapshot_fields_ok :: "ResourceSnapshot \<Rightarrow> bool" where
  "ResourceSnapshot_fields_ok x \<longleftrightarrow>
     0 \<le> rs_cpu_pressure x \<and> rs_cpu_pressure x \<le> 1 \<and>
     0 \<le> rs_memory_pressure x \<and> rs_memory_pressure x \<le> 1 \<and>
     0 \<le> rs_io_pressure x \<and> rs_io_pressure x \<le> 1 \<and>
     0 \<le> rs_available_memory_mb x"

text \<open>The binary64 literals \<open>0.90\<close> and \<open>0.85\<close> are the rounded decimals.\<close>

definition rs_overloaded :: "ResourceSnapshot \<Rightarrow> bool" where
  "rs_overloaded r \<longleftrightarrow>
     f64 (90 / 100) \<le> rs_cpu_pressure r \<or>
     f64 (85 / 100) \<le> rs_memory_pressure r \<or>
     f64 (85 / 100) \<le> rs_io_pressure r \<or>
     82 \<le> rs_temperature_c r \<or>
     rs_power_degraded r"

record JobRequest =
  job_job_id :: "uuid"
  job_opportunity_id :: "uuid"
  job_correlation_id :: "uuid"
  job_workload :: "WorkloadSpec"
  job_released_at :: "datetime"
  job_absolute_deadline :: "datetime"
  job_released_monotonic_ns :: "int"
  job_deadline_monotonic_ns :: "int"
  job_payload :: "(string, json) dict"
  job_status :: "JobStatus"
  job_deferral_count :: "int"
  job_reason_codes :: "string list"
  job_service_started_monotonic_ns :: "int option"
  job_completed_monotonic_ns :: "int option"

definition JobRequest_fields_ok :: "JobRequest \<Rightarrow> bool" where
  "JobRequest_fields_ok x \<longleftrightarrow>
     0 \<le> job_released_monotonic_ns x \<and>
     0 \<le> job_deadline_monotonic_ns x \<and>
     pred_option (\<lambda>v. 0 \<le> v) (job_service_started_monotonic_ns x) \<and>
     pred_option (\<lambda>v. 0 \<le> v) (job_completed_monotonic_ns x)"

record OpportunityRecord =
  opp_opportunity_id :: "uuid"
  opp_correlation_id :: "uuid"
  opp_workload_id :: "string"
  opp_hazard :: "HazardKind"
  opp_scheduled_release_at :: "datetime"
  opp_actual_release_at :: "datetime option"
  opp_captured_at :: "datetime option"
  opp_queue_started_monotonic_ns :: "int option"
  opp_service_started_monotonic_ns :: "int option"
  opp_completed_monotonic_ns :: "int option"
  opp_deadline_monotonic_ns :: "int option"
  opp_disposition :: "OpportunityDisposition"
  opp_reason_codes :: "string list"

definition OpportunityRecord_fields_ok :: "OpportunityRecord \<Rightarrow> bool" where
  "OpportunityRecord_fields_ok x \<longleftrightarrow>
     pred_option (\<lambda>v. 0 \<le> v) (opp_queue_started_monotonic_ns x) \<and>
     pred_option (\<lambda>v. 0 \<le> v) (opp_service_started_monotonic_ns x) \<and>
     pred_option (\<lambda>v. 0 \<le> v) (opp_completed_monotonic_ns x) \<and>
     pred_option (\<lambda>v. 0 \<le> v) (opp_deadline_monotonic_ns x)"

record SchedulerSnapshot =
  snap_active :: "string list"
  snap_queued :: "string list"
  snap_deferred :: "string list"
  snap_sleeping :: "string list"
  snap_overloaded :: "bool"
  snap_degradation_level :: "int"
  snap_reason_codes :: "string list"
  snap_scheduling_policy :: "string"

definition SchedulerSnapshot_fields_ok :: "SchedulerSnapshot \<Rightarrow> bool" where
  "SchedulerSnapshot_fields_ok x \<longleftrightarrow>
     0 \<le> snap_degradation_level x"

record MeasurementValue =
  mv_observed_property_id :: "string"
  mv_value :: "pyfloat"
  mv_unit :: "string"
  mv_quality :: "MeasurementQuality"
  mv_uncertainty :: "pyfloat option"
  mv_uncertainty_status :: "UncertaintyStatus"
  mv_phenomenon_start :: "datetime"
  mv_phenomenon_end :: "datetime"
  mv_statistic :: "MeasurementStatistic"
  mv_axis :: "string option"
  mv_orientation :: "string option"
  mv_reference :: "string option"
  mv_source_value_key :: "string"

definition MeasurementValue_fields_ok :: "MeasurementValue \<Rightarrow> bool" where
  "MeasurementValue_fields_ok x \<longleftrightarrow>
     pred_option (\<lambda>v. 0 \<le> v) (mv_uncertainty x)"

definition validate_measurement :: "MeasurementValue \<Rightarrow> unit result" where
  "validate_measurement m = first_failure
     [(mv_phenomenon_end m < mv_phenomenon_start m, ''phenomenon_end cannot precede phenomenon_start''),
      (mv_uncertainty_status m = US_KNOWN \<and> mv_uncertainty m = None,
        ''known uncertainty requires a numeric value''),
      (mv_uncertainty_status m \<noteq> US_KNOWN \<and> mv_uncertainty m \<noteq> None,
        ''numeric uncertainty requires known uncertainty_status''),
      (blank (mv_observed_property_id m) \<or> blank (mv_unit m) \<or> blank (mv_source_value_key m),
        ''measurement identifiers and unit must not be blank'')]"

record Observation =
  obs_schema_version :: "string"
  obs_observation_id :: "uuid"
  obs_correlation_id :: "uuid"
  obs_source_id :: "string"
  obs_hazard :: "HazardKind"
  obs_source_mode :: "SourceMode"
  obs_boot_id :: "string"
  obs_sequence :: "int"
  obs_observed_at :: "datetime"
  obs_received_at :: "datetime"
  obs_values :: "(string, pyfloat) dict"
  obs_units :: "(string, string) dict"
  obs_quality_flags :: "string list"
  obs_source_lineage :: "string"
  obs_clock_epoch :: "int"
  obs_clock_uncertainty_ms :: "pyfloat"
  obs_measurements :: "MeasurementValue list"
  obs_measurement_references :: "(string, string) dict"
  obs_measurement_orientations :: "(string, string) dict"
  obs_measurement_uncertainty :: "(string, pyfloat) dict"

definition Observation_fields_ok :: "Observation \<Rightarrow> bool" where
  "Observation_fields_ok x \<longleftrightarrow>
     0 \<le> obs_sequence x \<and>
     0 \<le> obs_clock_epoch x \<and>
     0 \<le> obs_clock_uncertainty_ms x"

record AnalysisResult =
  ana_analysis_id :: "uuid"
  ana_observation_id :: "uuid"
  ana_correlation_id :: "uuid"
  ana_boot_id :: "string"
  ana_source_mode :: "SourceMode"
  ana_hazard :: "HazardKind"
  ana_score :: "pyfloat"
  ana_state_hint :: "IncidentState"
  ana_features :: "(string, pyfloat) dict"
  ana_coverage :: "CoverageState"
  ana_abstained :: "bool"
  ana_reason_codes :: "string list"
  ana_model_profile_id :: "string"
  ana_source_lineage :: "string"
  ana_config_hashes :: "string list"
  ana_incident_id_hint :: "uuid option"
  ana_produced_at :: "datetime"
  ana_event_time :: "datetime option"

definition AnalysisResult_fields_ok :: "AnalysisResult \<Rightarrow> bool" where
  "AnalysisResult_fields_ok x \<longleftrightarrow>
     0 \<le> ana_score x \<and> ana_score x \<le> 1"

record IncidentRecord =
  inc_incident_id :: "uuid"
  inc_hazard :: "HazardKind"
  inc_state :: "IncidentState"
  inc_confidence :: "pyfloat"
  inc_coverage :: "CoverageState"
  inc_source_mode :: "SourceMode"
  inc_first_observed_at :: "datetime"
  inc_last_observed_at :: "datetime"
  inc_event_time_watermark :: "datetime option"
  inc_version :: "int"
  inc_reason_codes :: "string list"
  inc_analysis_ids :: "uuid list"
  inc_correlation_ids :: "uuid list"
  inc_last_boot_id :: "string"
  inc_source_lineage :: "string"
  inc_model_profile_id :: "string"
  inc_config_hashes :: "string list"
  inc_labels :: "IncidentLabel list"

definition IncidentRecord_fields_ok :: "IncidentRecord \<Rightarrow> bool" where
  "IncidentRecord_fields_ok x \<longleftrightarrow>
     0 \<le> inc_confidence x \<and> inc_confidence x \<le> 1 \<and>
     1 \<le> inc_version x"

record IncidentRelation =
  rel_relation_id :: "uuid"
  rel_source_incident_id :: "uuid"
  rel_source_hazard :: "HazardKind"
  rel_target_incident_id :: "uuid"
  rel_target_hazard :: "HazardKind"
  rel_relation :: "IncidentRelationKind"
  rel_confidence :: "pyfloat"
  rel_expected_source_version :: "int"
  rel_expected_target_version :: "int"
  rel_created_at :: "datetime"
  rel_actor :: "string"
  rel_reason :: "string"

definition IncidentRelation_fields_ok :: "IncidentRelation \<Rightarrow> bool" where
  "IncidentRelation_fields_ok x \<longleftrightarrow>
     0 \<le> rel_confidence x \<and> rel_confidence x \<le> 1 \<and>
     1 \<le> rel_expected_source_version x \<and>
     1 \<le> rel_expected_target_version x"

definition validate_relation :: "IncidentRelation \<Rightarrow> unit result" where
  "validate_relation r = first_failure
     [(rel_source_incident_id r = rel_target_incident_id r,
        ''incident relation must connect two distinct incidents''),
      (blank (rel_actor r) \<or> blank (rel_reason r), ''incident relation requires actor and reason''),
      (rel_relation r \<noteq> IR_MERGED_ALIAS \<and> rel_source_hazard r = rel_target_hazard r,
        ''same-hazard relation is allowed only for merged_alias'')]"

definition IncidentRelation_init :: "IncidentRelation \<Rightarrow> IncidentRelation result" where
  "IncidentRelation_init r =
     (if \<not> IncidentRelation_fields_ok r then Inl (ValidationError ''IncidentRelation'')
      else bind_result (validate_relation r) (\<lambda>_. Inr r))"

record IncidentStatusCommand =
  isc_command_id :: "uuid"
  isc_incident_id :: "uuid"
  isc_hazard :: "HazardKind"
  isc_command :: "IncidentCommandKind"
  isc_expected_version :: "int"
  isc_actor :: "string"
  isc_reason :: "string"
  isc_related_incident_id :: "uuid option"
  isc_related_hazard :: "HazardKind option"
  isc_idempotency_key :: "string"
  isc_submitted_at :: "datetime"

definition IncidentStatusCommand_fields_ok :: "IncidentStatusCommand \<Rightarrow> bool" where
  "IncidentStatusCommand_fields_ok x \<longleftrightarrow>
     1 \<le> isc_expected_version x"

definition validate_incident_command :: "IncidentStatusCommand \<Rightarrow> unit result" where
  "validate_incident_command c = first_failure
     [(blank (isc_actor c) \<or> blank (isc_reason c) \<or> blank (isc_idempotency_key c),
        ''incident command fields must not be blank''),
      (isc_command c \<in> {IC_LINK, IC_MERGE} \<and>
         (isc_related_incident_id c = None \<or> isc_related_hazard c = None),
        ''link/merge command requires a related incident''),
      (isc_command c \<notin> {IC_LINK, IC_MERGE} \<and>
         (isc_related_incident_id c \<noteq> None \<or> isc_related_hazard c \<noteq> None),
        ''related incident is valid only for link/merge commands'')]"

record IncidentCandidate =
  cand_candidate_id :: "uuid"
  cand_hazard :: "HazardKind"
  cand_observed_at :: "datetime"
  cand_latitude :: "pyfloat"
  cand_longitude :: "pyfloat"
  cand_horizontal_uncertainty_m :: "pyfloat"
  cand_temporal_window_seconds :: "pyfloat"
  cand_spatial_window_m :: "pyfloat"
  cand_source_id :: "string"
  cand_source_event_id :: "string option"

definition IncidentCandidate_fields_ok :: "IncidentCandidate \<Rightarrow> bool" where
  "IncidentCandidate_fields_ok x \<longleftrightarrow>
     -90 \<le> cand_latitude x \<and> cand_latitude x \<le> 90 \<and>
     -180 \<le> cand_longitude x \<and> cand_longitude x \<le> 180 \<and>
     0 \<le> cand_horizontal_uncertainty_m x \<and>
     0 < cand_temporal_window_seconds x \<and>
     0 < cand_spatial_window_m x"

record IncidentIdentityDecision =
  idn_decision_id :: "uuid"
  idn_candidate_id :: "uuid"
  idn_incident_id :: "uuid"
  idn_outcome :: "IncidentIdentityOutcome"
  idn_matched_candidate_id :: "uuid option"
  idn_separation_m :: "pyfloat option"
  idn_time_delta_seconds :: "pyfloat option"
  idn_decided_at :: "datetime"
  idn_reason_codes :: "string list"

definition IncidentIdentityDecision_fields_ok :: "IncidentIdentityDecision \<Rightarrow> bool" where
  "IncidentIdentityDecision_fields_ok x \<longleftrightarrow>
     pred_option (\<lambda>v. 0 \<le> v) (idn_separation_m x) \<and>
     pred_option (\<lambda>v. 0 \<le> v) (idn_time_delta_seconds x)"

record ReviewAction =
  rev_review_id :: "uuid"
  rev_incident_id :: "uuid"
  rev_hazard :: "HazardKind"
  rev_action :: "ReviewActionKind"
  rev_actor :: "string"
  rev_created_at :: "datetime"
  rev_snooze_until :: "datetime option"
  rev_comment :: "string option"

definition validate_review :: "ReviewAction \<Rightarrow> unit result" where
  "validate_review a = first_failure
     [(blank (rev_actor a), ''actor must not be blank''),
      (rev_action a = RA_SNOOZE \<and>
         (case rev_snooze_until a of None \<Rightarrow> True | Some u \<Rightarrow> u \<le> rev_created_at a),
        ''snooze_until must be after created_at''),
      (rev_action a \<noteq> RA_SNOOZE \<and> rev_snooze_until a \<noteq> None,
        ''snooze_until is only valid for snooze actions''),
      (rev_action a = RA_COMMENT \<and> (case rev_comment a of None \<Rightarrow> True | Some t \<Rightarrow> blank t),
        ''comment action requires text'')]"

definition ReviewAction_init :: "ReviewAction \<Rightarrow> ReviewAction result" where
  "ReviewAction_init a = bind_result (validate_review a) (\<lambda>_. Inr a)"

record IncidentReviewState =
  rst_incident_id :: "uuid"
  rst_acknowledged_at :: "datetime option"
  rst_acknowledged_by :: "string option"
  rst_snoozed_until :: "datetime option"
  rst_snoozed_by :: "string option"
  rst_review_count :: "int"

definition IncidentReviewState_fields_ok :: "IncidentReviewState \<Rightarrow> bool" where
  "IncidentReviewState_fields_ok x \<longleftrightarrow>
     0 \<le> rst_review_count x"

record NotificationIntent =
  ntf_notification_id :: "uuid"
  ntf_incident_id :: "uuid"
  ntf_hazard :: "HazardKind"
  ntf_incident_version :: "int"
  ntf_incident_state :: "IncidentState"
  ntf_idempotency_key :: "string"
  ntf_status :: "NotificationStatus"
  ntf_created_at :: "datetime"
  ntf_updated_at :: "datetime"
  ntf_attempt_count :: "int"
  ntf_max_attempts :: "int"
  ntf_last_error :: "string option"
  ntf_receipt_id :: "string option"
  ntf_reason_codes :: "string list"

definition NotificationIntent_fields_ok :: "NotificationIntent \<Rightarrow> bool" where
  "NotificationIntent_fields_ok x \<longleftrightarrow>
     1 \<le> ntf_incident_version x \<and>
     0 \<le> ntf_attempt_count x \<and>
     1 \<le> ntf_max_attempts x \<and> ntf_max_attempts x \<le> 20"

record AuthorityMutation =
  mut_position :: "int"
  mut_kind :: "AuthorityMutationKind"
  mut_entity_id :: "string"
  mut_accepted_at :: "datetime"
  mut_payload :: "(string, json) dict"

definition AuthorityMutation_fields_ok :: "AuthorityMutation \<Rightarrow> bool" where
  "AuthorityMutation_fields_ok x \<longleftrightarrow>
     1 \<le> mut_position x"

record PrincipalRef =
  prn_principal_id :: "string"
  prn_roles :: "PrincipalRole list"
  prn_scopes :: "string list"
  prn_authentication_method :: "string"
  prn_principal_kind :: "string"
  prn_session_epoch :: "int"
  prn_device_trust_epoch :: "int"

definition PrincipalRef_fields_ok :: "PrincipalRef \<Rightarrow> bool" where
  "PrincipalRef_fields_ok x \<longleftrightarrow>
     1 \<le> prn_session_epoch x \<and>
     1 \<le> prn_device_trust_epoch x"

record AuthorizationDecision =
  azd_decision_id :: "uuid"
  azd_principal :: "PrincipalRef"
  azd_operation :: "string"
  azd_target :: "string"
  azd_payload_sha256 :: "string"
  azd_policy_version :: "string"
  azd_canonical_encoding_version :: "string"
  azd_accepted_at :: "datetime"
  azd_expires_at :: "datetime"
  azd_authorization_tag :: "string"

definition validate_decision :: "AuthorizationDecision \<Rightarrow> unit result" where
  "validate_decision d = first_failure
     [(azd_expires_at d \<le> azd_accepted_at d, ''authorization decision must expire after acceptance''),
      (blank (azd_operation d) \<or> blank (azd_target d) \<or> blank (azd_policy_version d),
        ''authorization decision fields must not be blank'')]"

record AuthorizedReviewCommand =
  arc_command_id :: "uuid"
  arc_incident_id :: "uuid"
  arc_hazard :: "HazardKind"
  arc_action :: "ReviewActionKind"
  arc_snooze_until :: "datetime option"
  arc_comment :: "string option"
  arc_idempotency_key :: "string"
  arc_authorization :: "AuthorizationDecision"
  arc_payload_sha256 :: "string"
  arc_submitted_at :: "datetime"

definition validate_authorized_review :: "AuthorizedReviewCommand \<Rightarrow> unit result" where
  "validate_authorized_review c = first_failure
     [(arc_payload_sha256 c \<noteq> azd_payload_sha256 (arc_authorization c),
        ''authorization payload digest mismatch''),
      (arc_action c = RA_SNOOZE \<and> arc_snooze_until c = None, ''snooze command requires snooze_until''),
      (blank (arc_idempotency_key c), ''idempotency_key must not be blank'')]"

record CommandReceipt =
  rcp_command_id :: "uuid"
  rcp_principal_id :: "string"
  rcp_operation :: "string"
  rcp_target :: "string"
  rcp_scoped_idempotency_key :: "string"
  rcp_payload_sha256 :: "string"
  rcp_status :: "CommandStatus"
  rcp_accepted_at :: "datetime"
  rcp_committed_at :: "datetime option"
  rcp_result_version :: "int option"
  rcp_result_sha256 :: "string option"
  rcp_reason_codes :: "string list"

definition CommandReceipt_fields_ok :: "CommandReceipt \<Rightarrow> bool" where
  "CommandReceipt_fields_ok x \<longleftrightarrow>
     pred_option (\<lambda>v. 1 \<le> v) (rcp_result_version x)"

end
