(* ===== verification/Interfaces.thy ===== *)
theory Interfaces
  imports Prelude "HOL-Library.Product_Lexorder" "HOL-Library.Sublist"
begin

text \<open>
  The contracts between components, as locales: what a client may assume of the operations it
  calls. Each is interpreted on the model's own definitions in the theory of the component that
  provides it.
  \<^item> \<open>min_queue\<close>: a queue that hands out an element of least key (the scheduler's heap).
  \<^item> \<open>guarded_transitions\<close>: a state machine given by a table and a check that raises outside it.
  \<^item> \<open>keyed_store\<close>: a dictionary of records under operations that update one record or raise.
  \<^item> \<open>write_once\<close>: an idempotent writer; a key is written once, a replay returns what was stored
    and another payload under the same key raises.
\<close>

section \<open>Queues with least-key removal\<close>

locale min_queue =
  fixes push :: "'q \<Rightarrow> 'a \<Rightarrow> 'q"
    and pop :: "'q \<Rightarrow> ('a \<times> 'q) option"
    and items :: "'q \<Rightarrow> 'a multiset"
    and key :: "'a \<Rightarrow> 'k :: linorder"
    and invar :: "'q \<Rightarrow> bool"
  assumes invar_push: "invar q \<Longrightarrow> invar (push q x)"
    and items_push: "invar q \<Longrightarrow> items (push q x) = add_mset x (items q)"
    and pop_None_iff: "invar q \<Longrightarrow> pop q = None \<longleftrightarrow> items q = {#}"
    and items_pop: "invar q \<Longrightarrow> pop q = Some (x, q') \<Longrightarrow> items q = add_mset x (items q')"
    and invar_pop: "invar q \<Longrightarrow> pop q = Some (x, q') \<Longrightarrow> invar q'"
    and pop_least: "invar q \<Longrightarrow> pop q = Some (x, q') \<Longrightarrow> y \<in># items q \<Longrightarrow> key x \<le> key y"
begin

lemma pop_order:
  assumes "invar q" "pop q = Some (x, q')" "pop q' = Some (y, q'')"
  shows "key x \<le> key y"
  using assms by (metis invar_pop items_pop pop_least insert_iff set_mset_add_mset_insert)

lemma size_pop: "invar q \<Longrightarrow> pop q = Some (x, q') \<Longrightarrow> size (items q) = Suc (size (items q'))"
  by (simp add: items_pop)

lemma invar_fold_push: "invar q \<Longrightarrow> invar (fold (\<lambda>x q. push q x) xs q)"
  by (induction xs arbitrary: q) (auto intro: invar_push)

lemma items_fold_push: "invar q \<Longrightarrow> items (fold (\<lambda>x q. push q x) xs q) = mset xs + items q"
  by (induction xs arbitrary: q) (simp_all add: invar_push items_push)

end

section \<open>Guarded transitions\<close>

locale guarded_transitions =
  fixes succs :: "'s \<Rightarrow> 's list"
    and check :: "'s \<Rightarrow> 's \<Rightarrow> 's result"
  assumes check_Inr_iff: "check a b = Inr c \<longleftrightarrow> c = b \<and> b \<in> set (succs a)"
begin

definition trans_rel :: "'s \<Rightarrow> 's \<Rightarrow> bool" where
  "trans_rel a b \<longleftrightarrow> b \<in> set (succs a)"

fun run_checked :: "'s \<Rightarrow> 's list \<Rightarrow> 's result" where
  "run_checked a [] = Inr a"
| "run_checked a (b # bs) = bind_result (check a b) (\<lambda>c. run_checked c bs)"

lemma run_checked_reaches: "run_checked a bs = Inr c \<Longrightarrow> trans_rel\<^sup>*\<^sup>* a c"
proof (induction bs arbitrary: a)
  case (Cons b bs)
  then have "trans_rel a b" "run_checked b bs = Inr c"
    by (auto simp: bind_result_Inr check_Inr_iff trans_rel_def)
  with Cons.IH show ?case by (meson converse_rtranclp_into_rtranclp)
qed simp

lemma terminal_stays: "succs a = [] \<Longrightarrow> trans_rel\<^sup>*\<^sup>* a c \<Longrightarrow> c = a"
  by (erule converse_rtranclpE) (simp_all add: trans_rel_def)

lemma terminal_run: "succs a = [] \<Longrightarrow> run_checked a bs = Inr c \<Longrightarrow> bs = [] \<and> c = a"
  by (cases bs) (auto simp: bind_result_Inr check_Inr_iff)

lemma closed_run:
  assumes "\<And>a b. a \<in> S \<Longrightarrow> b \<in> set (succs a) \<Longrightarrow> b \<in> S" "a \<in> S" "run_checked a bs = Inr c"
  shows "c \<in> S"
  using assms(2,3)
proof (induction bs arbitrary: a)
  case (Cons b bs)
  then show ?case
    using assms(1) by (auto simp: bind_result_Inr check_Inr_iff)
qed simp

end

section \<open>Stores of keyed records\<close>

locale keyed_store =
  fixes lookup :: "'s \<Rightarrow> 'k \<Rightarrow> 'v option"
    and modify :: "'k \<Rightarrow> ('v \<Rightarrow> 'v) \<Rightarrow> 's \<Rightarrow> 's result"
  assumes modify_missing: "lookup s k = None \<Longrightarrow> \<exists>e. modify k f s = Inl e"
    and modify_present: "lookup s k = Some v \<Longrightarrow> \<exists>s'. modify k f s = Inr s'"
    and lookup_modify: "modify k f s = Inr s' \<Longrightarrow>
      lookup s' k' = (if k' = k then map_option f (lookup s k) else lookup s k')"
begin

lemma modify_ok_iff: "is_ok (modify k f s) \<longleftrightarrow> lookup s k \<noteq> None"
proof (cases "lookup s k")
  case None
  with modify_missing[of s k f] show ?thesis by auto
next
  case (Some v)
  with modify_present[of s k v f] show ?thesis by auto
qed

lemma modify_keeps_keys: "modify k f s = Inr s' \<Longrightarrow> lookup s' k' = None \<longleftrightarrow> lookup s k' = None"
  by (simp add: lookup_modify)

lemma modify_twice:
  assumes "modify k f s = Inr s'" "modify k g s' = Inr s''" "modify k (g \<circ> f) s = Inr t"
  shows "lookup s'' = lookup t"
  using assms by (auto simp: lookup_modify option.map_comp fun_eq_iff)

lemma modify_commute:
  assumes "k \<noteq> j" "modify k f s = Inr s1" "modify j g s1 = Inr s2" "modify j g s = Inr t1" "modify k f t1 = Inr t2"
  shows "lookup s2 = lookup t2"
  using assms by (auto simp: lookup_modify fun_eq_iff)

end

section \<open>Write-once stores\<close>

locale write_once =
  fixes put :: "'x \<Rightarrow> 's \<Rightarrow> ('x \<times> 's) result"
    and find :: "'s \<Rightarrow> 'k \<Rightarrow> 'r option"
    and key :: "'x \<Rightarrow> 'k"
    and row :: "'x \<Rightarrow> 'r"
    and stored :: "'r \<Rightarrow> 'x"
    and same :: "'r \<Rightarrow> 'x \<Rightarrow> bool"
    and log :: "'s \<Rightarrow> 'e list"
  assumes same_row: "same (row x) x"
    and stored_row: "stored (row x) = x"
    and replay: "put x s = Inr (y, t) \<Longrightarrow> find s (key x) = Some r \<Longrightarrow> same r x \<and> y = stored r \<and> t = s"
    and fresh: "put x s = Inr (y, t) \<Longrightarrow> find s (key x) = None \<Longrightarrow>
      y = x \<and> find t k = (if k = key x then Some (row x) else find s k) \<and> strict_prefix (log s) (log t)"
    and again: "put x s = Inr (y, t) \<Longrightarrow> find t (key x) = Some r \<Longrightarrow> same r x \<Longrightarrow> put x t = Inr (stored r, t)"
begin

lemma put_cases:
  assumes "put x s = Inr (y, t)"
  obtains (old) r where "find s (key x) = Some r" "same r x" "y = stored r" "t = s"
    | (new) "find s (key x) = None" "find t (key x) = Some (row x)" "y = x" "strict_prefix (log s) (log t)"
proof (cases "find s (key x)")
  case None
  from fresh[OF assms None, of "key x"] show thesis using None by (intro new) auto
next
  case (Some r)
  from replay[OF assms Some] show thesis using Some by (intro old) auto
qed

text \<open>A second delivery of what was just written changes nothing and returns the same value.\<close>

lemma put_idempotent:
  assumes "put x s = Inr (y, t)"
  shows "put x t = Inr (y, t)"
proof (rule put_cases[OF assms])
  fix r assume "find s (key x) = Some r" "same r x" "y = stored r" "t = s"
  then show ?thesis using again[OF assms, of r] by simp
next
  assume "find t (key x) = Some (row x)" "y = x"
  then show ?thesis using again[OF assms, of "row x"] same_row stored_row by simp
qed

text \<open>What is stored stays as it is.\<close>

lemma stored_immutable:
  assumes "put x s = Inr (y, t)" "find s k = Some r"
  shows "find t k = Some r"
proof (rule put_cases[OF assms(1)])
  assume "t = s"
  with assms(2) show ?thesis by simp
next
  assume n: "find s (key x) = None"
  with assms fresh[OF assms(1) n, of k] show ?thesis by auto
qed

lemma conflict_raises:
  assumes "find s (key x) = Some r" "\<not> same r x"
  shows "\<exists>e. put x s = Inl e"
proof (cases "put x s")
  case (Inr p)
  with replay[of x s "fst p" "snd p" r] assms show ?thesis by simp
qed simp

lemma log_grows:
  assumes "put x s = Inr (y, t)"
  shows "prefix (log s) (log t)"
  by (rule put_cases[OF assms]) auto

lemma unlogged_unchanged:
  assumes "put x s = Inr (y, t)" "log t = log s"
  shows "t = s"
  by (rule put_cases[OF assms(1)]) (use assms(2) in auto)

end

end
