(* ===== verification/Opportunities.thy ===== *)
theory Opportunities
  imports Domain Interfaces
begin

text \<open>
  The opportunity ledger of \<^verbatim>\<open>src/src/sentinel_edge/runtime/opportunities.py\<close>: every unit of work is
  recorded when it is offered and carries its disposition to the end. \<open>uuid5\<close> (name-based
  identifiers in the URL namespace) and \<open>isofmt\<close> (\<^verbatim>\<open>datetime.isoformat\<close>) are parameters.
\<close>

type_synonym ledger = "(uuid, OpportunityRecord) dict"

definition opportunity_key :: "(datetime \<Rightarrow> string) \<Rightarrow> uuid \<Rightarrow> string \<Rightarrow> datetime \<Rightarrow> string" where
  "opportunity_key isofmt correlation_id workload_id scheduled =
     ''sentinel-opportunity:'' @ correlation_id @ '':'' @ workload_id @ '':'' @ isofmt scheduled"

definition offer :: "(string \<Rightarrow> uuid) \<Rightarrow> (datetime \<Rightarrow> string) \<Rightarrow> ledger \<Rightarrow> string \<Rightarrow> HazardKind \<Rightarrow>
    datetime \<Rightarrow> datetime option \<Rightarrow> uuid \<Rightarrow> OpportunityRecord \<times> ledger" where
  "offer uuid5 isofmt l workload_id hazard scheduled captured_at correlation_id =
     (let record = \<lparr>opp_opportunity_id = uuid5 (opportunity_key isofmt correlation_id workload_id scheduled),
                     opp_correlation_id = correlation_id,
                     opp_workload_id = workload_id,
                     opp_hazard = hazard,
                     opp_scheduled_release_at = scheduled,
                     opp_actual_release_at = None,
                     opp_captured_at = captured_at,
                     opp_queue_started_monotonic_ns = None,
                     opp_service_started_monotonic_ns = None,
                     opp_completed_monotonic_ns = None,
                     opp_deadline_monotonic_ns = None,
                     opp_disposition = OD_OFFERED,
                     opp_reason_codes = []\<rparr>
      in (record, AList.update (opp_opportunity_id record) record l))"

text \<open>\<open>self._records[opportunity_id]\<close>, mutated in place; a missing key raises \<open>KeyError\<close>.\<close>

definition modify_record :: "uuid \<Rightarrow> (OpportunityRecord \<Rightarrow> OpportunityRecord) \<Rightarrow> ledger \<Rightarrow> ledger result" where
  "modify_record k f l =
     (case map_of l k of None \<Rightarrow> Inl (KeyError k) | Some r \<Rightarrow> Inr (AList.update k (f r) l))"

definition mark_queued :: "ledger \<Rightarrow> uuid \<Rightarrow> datetime \<Rightarrow> int \<Rightarrow> int \<Rightarrow> ledger result" where
  "mark_queued l k actual_release_at queue_ns deadline_ns = modify_record k (\<lambda>r. r\<lparr>
     opp_actual_release_at := Some actual_release_at,
     opp_queue_started_monotonic_ns := Some queue_ns,
     opp_deadline_monotonic_ns := Some deadline_ns,
     opp_disposition := OD_QUEUED\<rparr>) l"

definition mark_deferred :: "ledger \<Rightarrow> uuid \<Rightarrow> string \<Rightarrow> ledger result" where
  "mark_deferred l k reason = modify_record k (\<lambda>r. r\<lparr>
     opp_disposition := OD_DEFERRED,
     opp_reason_codes := append_new reason (opp_reason_codes r)\<rparr>) l"

definition mark_started :: "ledger \<Rightarrow> uuid \<Rightarrow> int \<Rightarrow> ledger result" where
  "mark_started l k service_ns =
     modify_record k (\<lambda>r. r\<lparr>opp_service_started_monotonic_ns := Some service_ns\<rparr>) l"

definition terminal_dispositions :: "OpportunityDisposition set" where
  "terminal_dispositions = {OD_PROCESSED, OD_SKIPPED, OD_REPLACED, OD_INVALID, OD_DROPPED,
     OD_EXPIRED, OD_FAILED, OD_DEADLINE_MISSED}"

definition add_reason :: "string option \<Rightarrow> string list \<Rightarrow> string list" where
  "add_reason reason codes =
     (case reason of None \<Rightarrow> codes | Some c \<Rightarrow> if c = [] then codes else append_new c codes)"

definition mark_terminal ::
  "ledger \<Rightarrow> uuid \<Rightarrow> OpportunityDisposition \<Rightarrow> int \<Rightarrow> string option \<Rightarrow> ledger result" where
  "mark_terminal l k disposition completed_ns reason =
     (if disposition \<notin> terminal_dispositions
      then Inl (ValueError ''terminal opportunity disposition required'')
      else modify_record k (\<lambda>r. r\<lparr>
        opp_completed_monotonic_ns := Some completed_ns,
        opp_disposition := disposition,
        opp_reason_codes := add_reason reason (opp_reason_codes r)\<rparr>) l)"

definition ledger_records :: "ledger \<Rightarrow> OpportunityRecord list" where
  "ledger_records l = sort_key (\<lambda>r. (opp_scheduled_release_at r, opp_opportunity_id r)) (map snd l)"

definition all_dispositions :: "OpportunityDisposition list" where
  "all_dispositions = [OD_OFFERED, OD_QUEUED, OD_DEFERRED, OD_PROCESSED, OD_SKIPPED, OD_REPLACED,
     OD_INVALID, OD_DROPPED, OD_EXPIRED, OD_FAILED, OD_DEADLINE_MISSED]"

definition disposition_count :: "ledger \<Rightarrow> OpportunityDisposition \<Rightarrow> nat" where
  "disposition_count l d = length (filter (\<lambda>r. opp_disposition r = d) (map snd l))"

definition ledger_counts :: "ledger \<Rightarrow> (string, nat) dict" where
  "ledger_counts l = (''offered'', length l) #
     map (\<lambda>d. (OpportunityDisposition_value d, disposition_count l d))
       (filter (\<lambda>d. d \<noteq> OD_OFFERED) all_dispositions)"

record reconciliation =
  rec_offered :: nat
  rec_terminal :: nat
  rec_balanced :: bool

definition reconcile :: "ledger \<Rightarrow> reconciliation" where
  "reconcile l =
     (let terminal_count = length (filter (\<lambda>r. opp_disposition r \<in> terminal_dispositions) (map snd l))
      in \<lparr>rec_offered = length l, rec_terminal = terminal_count, rec_balanced = (length l = terminal_count)\<rparr>)"

definition schedule_payload :: "(datetime \<Rightarrow> string) \<Rightarrow> ledger \<Rightarrow> json" where
  "schedule_payload isofmt l = JArr (map (\<lambda>r. JObj
     [(''correlation_id'', JStr (opp_correlation_id r)),
      (''workload_id'', JStr (opp_workload_id r)),
      (''hazard'', JStr (HazardKind_value (opp_hazard r))),
      (''scheduled_release_at'', JStr (isofmt (opp_scheduled_release_at r))),
      (''captured_at'', case opp_captured_at r of None \<Rightarrow> JNull | Some t \<Rightarrow> JStr (isofmt t))])
     (ledger_records l))"

section \<open>Invariant and laws\<close>

definition ledger_inv :: "ledger \<Rightarrow> bool" where
  "ledger_inv l \<longleftrightarrow> dict_ok l \<and> (\<forall>(k, r) \<in> set l. opp_opportunity_id r = k)"

lemma modify_record_Inr:
  "modify_record k f l = Inr l' \<longleftrightarrow> (\<exists>r. map_of l k = Some r \<and> l' = AList.update k (f r) l)"
  by (auto simp: modify_record_def split: option.splits)

interpretation led: keyed_store map_of modify_record
  by unfold_locales (auto simp: modify_record_def split: option.splits)

lemma modify_record_inv [invariant_intros]:
  assumes "ledger_inv l" "modify_record k f l = Inr l'" "\<And>r. opp_opportunity_id (f r) = opp_opportunity_id r"
  shows "ledger_inv l'"
proof -
  obtain r where r: "map_of l k = Some r" and l': "l' = AList.update k (f r) l"
    using assms(2) by (auto simp: modify_record_Inr)
  have "opp_opportunity_id r = k"
    using assms(1) map_of_SomeD[OF r] by (auto simp: ledger_inv_def)
  with assms show ?thesis
    by (auto simp: ledger_inv_def l' set_alist_update)
qed

lemma offer_inv: "ledger_inv l \<Longrightarrow> ledger_inv (snd (offer u isofmt l w h s c i))"
  by (auto simp: ledger_inv_def offer_def Let_def set_alist_update)

lemma fst_offer_mem: "map_of (snd (offer u isofmt l w h s c i)) (opp_opportunity_id (fst (offer u isofmt l w h s c i)))
   = Some (fst (offer u isofmt l w h s c i))"
  by (simp add: offer_def Let_def)

lemma offer_keys:
  "fst ` set (snd (offer u isofmt l w h s c i)) = insert (opp_opportunity_id (fst (offer u isofmt l w h s c i))) (fst ` set l)"
  by (simp add: offer_def Let_def)

lemma modify_record_keys:
  assumes "modify_record k f l = Inr l'"
  shows "fst ` set l' = fst ` set l"
proof -
  obtain r where r: "map_of l k = Some r" and l': "l' = AList.update k (f r) l"
    using assms by (auto simp: modify_record_Inr)
  from r have "k \<in> fst ` set l" by (rule dict_lookup_key)
  then show ?thesis by (simp only: l' keys_alist_update insert_absorb)
qed

lemma modify_record_length: "modify_record k f l = Inr l' \<Longrightarrow> length l' = length l"
  by (auto simp: modify_record_Inr length_alist_update dest: dict_lookup_key)

lemma modify_record_ok: "k \<in> fst ` set l \<Longrightarrow> \<exists>l'. modify_record k f l = Inr l'"
  by (auto simp: modify_record_def map_of_eq_None_keys split: option.splits)

lemmas mark_defs = mark_queued_def mark_deferred_def mark_started_def mark_terminal_def

end
