(* ===== verification/Scheduler.thy ===== *)
theory Scheduler
  imports Opportunities
begin

text \<open>
  The workload scheduler, component 3, of \<^verbatim>\<open>src/src/sentinel_edge/runtime/scheduler.py\<close>: fixed criticality
  tiers, earliest deadline first within a tier, bounded admission, a memory reserve for tier A and
  serialisation of unknown tier-A interference.

  The object is the record \<open>scheduler\<close>. The clock is a parameter of each operation (\<open>now_ns\<close> the
  monotonic reading, \<open>now_utc\<close> the wall clock), fresh identifiers are arguments. \<^verbatim>\<open>heapq\<close> is used
  only through push and pop, so the heap is the list of its items in the order they would be
  popped. Items compare by tier, deadline and insertion count; the count is unique, so two jobs
  are never compared. A job lives in one place at a time (queue, active table or its holder), so
  jobs are values; an operation returns the jobs it mutates.
\<close>

type_synonym queue_item = "int \<times> int \<times> nat \<times> JobRequest"

record scheduler =
  sch_queue_limit :: int
  sch_tier_a_reserve_memory_mb :: int
  sch_mode :: RuntimeMode
  sch_approved_profiles :: "string set option"
  sch_registry :: "(string, WorkloadSpec) dict"
  sch_queue :: "queue_item list"
  sch_counter :: nat
  sch_active :: "(uuid, JobRequest) dict"
  sch_deferred_ids :: "uuid set"
  sch_degradation_level :: int
  sch_overloaded :: bool
  sch_reason_codes :: "string list"
  sch_opportunities :: ledger
  sch_safe_pairs :: "(string \<times> string) set"
  sch_frozen :: bool

section \<open>The heap\<close>

definition item_job :: "queue_item \<Rightarrow> JobRequest" where
  "item_job i = snd (snd (snd i))"

definition item_key :: "queue_item \<Rightarrow> int \<times> int \<times> nat" where
  "item_key i = (fst i, fst (snd i), fst (snd (snd i)))"

definition heappush :: "queue_item list \<Rightarrow> queue_item \<Rightarrow> queue_item list" where
  "heappush q i = insort_key item_key i q"

definition heappop :: "queue_item list \<Rightarrow> (queue_item \<times> queue_item list) option" where
  "heappop q = (case q of [] \<Rightarrow> None | i # q' \<Rightarrow> Some (i, q'))"

section \<open>Construction and registration\<close>

definition sorted_pair :: "string \<Rightarrow> string \<Rightarrow> string \<times> string" where
  "sorted_pair a b = (min a b, max a b)"

definition scheduler_init :: "int \<Rightarrow> int \<Rightarrow> RuntimeMode \<Rightarrow> string set option \<Rightarrow> ledger \<Rightarrow>
    (string \<times> string) set \<Rightarrow> scheduler" where
  "scheduler_init queue_limit reserve mode approved l pairs =
     \<lparr>sch_queue_limit = queue_limit, sch_tier_a_reserve_memory_mb = reserve, sch_mode = mode,
      sch_approved_profiles = approved, sch_registry = [], sch_queue = [], sch_counter = 0,
      sch_active = [], sch_deferred_ids = {}, sch_degradation_level = 0, sch_overloaded = False,
      sch_reason_codes = [], sch_opportunities = l,
      sch_safe_pairs = (\<lambda>(a, b). sorted_pair a b) ` pairs, sch_frozen = False\<rparr>"

definition register :: "scheduler \<Rightarrow> WorkloadSpec \<Rightarrow> scheduler result" where
  "register s spec =
     (if sch_frozen s then Inl (ValueError ''workload registry is frozen'')
      else if (case sch_approved_profiles s of None \<Rightarrow> False | Some ps \<Rightarrow> ws_profile_id spec \<notin> ps)
      then Inl (ValueError (''profile is not approved: '' @ ws_profile_id spec))
      else if (case map_of (sch_registry s) (ws_workload_id spec) of None \<Rightarrow> False | Some old \<Rightarrow> old \<noteq> spec)
      then Inl (ValueError ''workload registration is immutable'')
      else Inr (s\<lparr>sch_registry := AList.update (ws_workload_id spec) spec (sch_registry s)\<rparr>))"

definition freeze :: "scheduler \<Rightarrow> scheduler" where
  "freeze s = s\<lparr>sch_frozen := True\<rparr>"

definition declare_overload :: "string \<Rightarrow> scheduler \<Rightarrow> scheduler" where
  "declare_overload reason s = s\<lparr>
     sch_overloaded := True,
     sch_degradation_level := max (sch_degradation_level s) 1,
     sch_reason_codes := append_new reason (sch_reason_codes s)\<rparr>"

text \<open>
  \<open>max(1, math.ceil(period_ms / multiplier))\<close>: the integer is converted to a float, the quotient
  is rounded, and an infinite quotient makes \<^verbatim>\<open>math.ceil\<close> raise.
\<close>

definition scaled_period :: "int \<Rightarrow> pyfloat \<Rightarrow> int result" where
  "scaled_period period_ms multiplier =
     (let p = of_int period_ms in
      if f64_overflows p then Inl (OverflowError ''int too large to convert to float'')
      else if f64_overflows (f64 p / multiplier)
      then Inl (OverflowError ''cannot convert float infinity to integer'')
      else Inr (max 1 \<lceil>f64 (f64 p / multiplier)\<rceil>))"

text \<open>The multiplier is a finite float here: \<^verbatim>\<open>math.isfinite\<close> rejects the others.\<close>

definition reallocate_cadence ::
  "scheduler \<Rightarrow> string \<Rightarrow> pyfloat \<Rightarrow> string \<Rightarrow> (WorkloadSpec \<times> scheduler) result" where
  "reallocate_cadence s workload_id multiplier reason_code =
     (if sch_frozen s then Inl (ValueError ''workload registry is frozen'')
      else case map_of (sch_registry s) workload_id of
        None \<Rightarrow> Inl (KeyError workload_id)
      | Some current \<Rightarrow>
          if multiplier \<le> 0 then Inl (ValueError ''cadence multiplier must be finite and positive'')
          else if blank reason_code then Inl (ValueError ''cadence reallocation requires a reason code'')
          else bind_result (scaled_period (ws_period_ms current) multiplier) (\<lambda>period.
               let updated = current\<lparr>ws_period_ms := period\<rparr>
               in Inr (updated,
                    declare_overload (''cadence_reallocated:'' @ strip reason_code)
                      (s\<lparr>sch_registry := AList.update workload_id updated (sch_registry s)\<rparr>))))"

section \<open>Submission\<close>

definition submit :: "(string \<Rightarrow> uuid) \<Rightarrow> (datetime \<Rightarrow> string) \<Rightarrow> scheduler \<Rightarrow> datetime \<Rightarrow> int \<Rightarrow> uuid \<Rightarrow> uuid \<Rightarrow>
    string \<Rightarrow> (string, json) dict \<Rightarrow> datetime option \<Rightarrow> datetime option \<Rightarrow> datetime option \<Rightarrow> uuid option \<Rightarrow>
    JobRequest result \<times> scheduler" where
  "submit uuid5 isofmt s now_utc now_ns fresh_job_id fresh_correlation_id
     workload_id payload released_at scheduled_release_at captured_at correlation_id =
     (case map_of (sch_registry s) workload_id of
        None \<Rightarrow> (Inl (KeyError workload_id), s)
      | Some spec \<Rightarrow>
          if sch_queue_limit s \<le> int (length (sch_queue s))
          then (Inl (AdmissionError ''bounded queue is full''), s)
          else
            let s1 = (if sch_mode s \<in> {RM_BENCHMARK, RM_JUDGE} then freeze s else s);
                released = (case released_at of None \<Rightarrow> now_utc | Some t \<Rightarrow> t);
                scheduled = (case scheduled_release_at of None \<Rightarrow> released | Some t \<Rightarrow> t);
                corr = (case correlation_id of None \<Rightarrow> fresh_correlation_id | Some c \<Rightarrow> c);
                deadline_ns = now_ns + ws_deadline_ms spec * 1000000;
                (opportunity, l1) = offer uuid5 isofmt (sch_opportunities s1) (ws_workload_id spec)
                  (ws_hazard spec) scheduled captured_at corr;
                s2 = s1\<lparr>sch_opportunities := l1\<rparr>;
                job = \<lparr>job_job_id = fresh_job_id, job_opportunity_id = opp_opportunity_id opportunity,
                  job_correlation_id = corr, job_workload = spec, job_released_at = released,
                  job_absolute_deadline = released + ws_deadline_ms spec * 1000,
                  job_released_monotonic_ns = now_ns, job_deadline_monotonic_ns = deadline_ns,
                  job_payload = payload, job_status = JS_QUEUED, job_deferral_count = 0,
                  job_reason_codes = [], job_service_started_monotonic_ns = None,
                  job_completed_monotonic_ns = None\<rparr>
            in if \<not> JobRequest_fields_ok job then (Inl (ValidationError ''JobRequest''), s2)
               else (case mark_queued l1 (job_opportunity_id job) released now_ns deadline_ns of
                 Inl e \<Rightarrow> (Inl e, s2)
               | Inr l2 \<Rightarrow>
                   (Inr job, s2\<lparr>sch_opportunities := l2, sch_counter := Suc (sch_counter s2),
                      sch_queue := heappush (sch_queue s2)
                        (tier_int (ws_tier spec), deadline_ns, sch_counter s2, job)\<rparr>)))"

section \<open>Admission\<close>

definition interferes :: "scheduler \<Rightarrow> WorkloadSpec \<Rightarrow> WorkloadSpec \<Rightarrow> bool" where
  "interferes s active spec \<longleftrightarrow>
     (ws_tier active = TIER_A_IMMEDIATE \<or> ws_tier spec = TIER_A_IMMEDIATE) \<and>
     sorted_pair (ws_workload_id active) (ws_workload_id spec) \<notin> sch_safe_pairs s"

definition elapsed_ms :: "JobRequest \<Rightarrow> int \<Rightarrow> pyfloat" where
  "elapsed_ms job now_ns = f64 (of_int (now_ns - job_released_monotonic_ns job) / 1000000)"

definition forced_scan_due :: "WorkloadSpec \<Rightarrow> pyfloat \<Rightarrow> bool" where
  "forced_scan_due spec elapsed =
     (case ws_forced_scan_ms spec of None \<Rightarrow> False | Some m \<Rightarrow> m \<noteq> 0 \<and> of_int m \<le> elapsed)"

definition admissible :: "scheduler \<Rightarrow> JobRequest \<Rightarrow> ResourceSnapshot \<Rightarrow> int \<Rightarrow>
    (bool \<times> string option) \<times> JobRequest \<times> scheduler" where
  "admissible s job r now_ns =
     (let spec = job_workload job in
      if \<exists>active \<in> set (map snd (sch_active s)). interferes s (job_workload active) spec
      then ((False, None),
        job\<lparr>job_reason_codes := append_new ''unknown_tier_a_interference_serialized'' (job_reason_codes job)\<rparr>, s)
      else
        let elapsed = elapsed_ms job now_ns;
            deferral_expired = (of_int (ws_max_deferral_ms spec) \<le> elapsed);
            deadline_missed = (job_deadline_monotonic_ns job < now_ns)
        in if rs_available_memory_mb r < ws_memory_mb spec
           then (if deferral_expired then (False, Some ''max_deferral_exceeded_insufficient_memory'')
                 else (False, None),
                 job, declare_overload ''insufficient_memory'' s)
           else if forced_scan_due spec elapsed
           then ((True, None), job, declare_overload ''forced_scan_due'' s)
           else if ws_tier spec = TIER_A_IMMEDIATE
           then ((True, None), job, if deadline_missed then declare_overload ''tier_a_deadline_miss'' s else s)
           else if rs_available_memory_mb r - ws_memory_mb spec < sch_tier_a_reserve_memory_mb s
           then (if deferral_expired
                 then (if ws_tier spec \<le> TIER_C_TIMELY then (True, None)
                       else (False, Some ''max_deferral_exceeded_reserve''),
                       job, declare_overload ''tier_a_reserve_conflict'' s)
                 else ((False, None), job, s))
           else if rs_overloaded r
           then (if ws_tier spec \<le> TIER_B_URGENT then (True, None)
                 else if deferral_expired \<and> ws_tier spec \<le> TIER_C_TIMELY then (True, None)
                 else if deferral_expired then (False, Some ''max_deferral_exceeded_overload'')
                 else (False, None),
                 job, declare_overload ''node_overload''
                   (s\<lparr>sch_degradation_level := max (sch_degradation_level s) 1\<rparr>))
           else ((True, None), job, if deadline_missed then declare_overload ''deadline_miss'' s else s))"

lemma admissible_queue [simp]: "sch_queue (snd (snd (admissible s job r now_ns))) = sch_queue s"
  by (simp add: admissible_def declare_overload_def Let_def)

lemma admissible_queueD: "admissible s job r now_ns = (d, job', s') \<Longrightarrow> sch_queue s' = sch_queue s"
  by (metis admissible_queue snd_conv)

section \<open>Dispatch\<close>

text \<open>
  The loop over the heap. It returns the outcome (an exception, or the selected job if any), the
  state, the held items in the order they were popped and the jobs it rejected. An exception
  raised by the ledger leaves the loop with the held items not pushed back.
\<close>

function dispatch_loop :: "ResourceSnapshot \<Rightarrow> int \<Rightarrow> scheduler \<Rightarrow> queue_item list \<Rightarrow> JobRequest list \<Rightarrow>
    JobRequest option result \<times> scheduler \<times> queue_item list \<times> JobRequest list" where
  "dispatch_loop r now_ns s held rejected =
     (case heappop (sch_queue s) of
        None \<Rightarrow> (Inr None, s, held, rejected)
      | Some (item, q) \<Rightarrow>
          (case admissible (s\<lparr>sch_queue := q\<rparr>) (item_job item) r now_ns of
             ((admit, terminal_reason), job, s1) \<Rightarrow>
               (case terminal_reason of
                  Some reason \<Rightarrow>
                    (case mark_terminal (sch_opportunities s1) (job_opportunity_id job) OD_SKIPPED now_ns
                            (Some reason) of
                       Inl e \<Rightarrow> (Inl e, s1, held, rejected)
                     | Inr l \<Rightarrow> dispatch_loop r now_ns (s1\<lparr>sch_opportunities := l\<rparr>) held
                         (rejected @ [job\<lparr>job_status := JS_REJECTED,
                            job_reason_codes := append_new reason (job_reason_codes job)\<rparr>]))
                | None \<Rightarrow>
                    if admit then (Inr (Some job), s1, held, rejected)
                    else
                      (case mark_deferred (sch_opportunities s1) (job_opportunity_id job)
                              ''resource_admission_deferred'' of
                         Inl e \<Rightarrow> (Inl e, s1\<lparr>sch_deferred_ids := insert (job_job_id job) (sch_deferred_ids s1)\<rparr>,
                           held, rejected)
                       | Inr l \<Rightarrow> dispatch_loop r now_ns
                           (s1\<lparr>sch_deferred_ids := insert (job_job_id job) (sch_deferred_ids s1),
                               sch_opportunities := l\<rparr>)
                           (held @ [(fst item, fst (snd item), fst (snd (snd item)),
                              job\<lparr>job_deferral_count := job_deferral_count job + 1,
                                  job_status := JS_DEFERRED,
                                  job_reason_codes :=
                                    append_new ''resource_admission_deferred'' (job_reason_codes job)\<rparr>)])
                           rejected))))"
  by pat_completeness auto
termination
  by (relation "measure (\<lambda>(r, now_ns, s, held, rejected). length (sch_queue s))")
    (auto simp: heappop_def dest!: admissible_queueD[OF sym] split: list.splits)

declare dispatch_loop.simps [simp del]

definition dispatch :: "scheduler \<Rightarrow> ResourceSnapshot \<Rightarrow> int \<Rightarrow>
    JobRequest option result \<times> scheduler \<times> JobRequest list" where
  "dispatch s r now_ns =
     (if sch_queue s = [] then (Inr None, s, [])
      else (case dispatch_loop r now_ns s [] [] of
          (Inl e, s1, held, rejected) \<Rightarrow> (Inl e, s1, rejected)
        | (Inr selected, s1, held, rejected) \<Rightarrow>
            let s2 = s1\<lparr>sch_queue := fold (\<lambda>i q. heappush q i) held (sch_queue s1)\<rparr>
            in (case selected of
                 None \<Rightarrow> (Inr None, s2, rejected)
               | Some job0 \<Rightarrow>
                   let job = job0\<lparr>job_status := JS_RUNNING, job_service_started_monotonic_ns := Some now_ns\<rparr>;
                       s3 = s2\<lparr>sch_deferred_ids := sch_deferred_ids s2 - {job_job_id job},
                               sch_active := AList.update (job_job_id job) job (sch_active s2)\<rparr>
                   in (case mark_started (sch_opportunities s3) (job_opportunity_id job) now_ns of
                        Inl e \<Rightarrow> (Inl e, s3, rejected)
                      | Inr l \<Rightarrow> (Inr (Some job), s3\<lparr>sch_opportunities := l\<rparr>, rejected)))))"

section \<open>Completion and reports\<close>

definition complete :: "scheduler \<Rightarrow> JobRequest \<Rightarrow> int \<Rightarrow> JobRequest result \<times> scheduler" where
  "complete s job now_ns =
     (if job_status job \<noteq> JS_RUNNING then (Inl (ValueError ''only running jobs can complete''), s)
      else
        let job' = job\<lparr>job_status := JS_COMPLETED, job_completed_monotonic_ns := Some now_ns\<rparr>;
            s1 = s\<lparr>sch_active := AList.delete (job_job_id job) (sch_active s)\<rparr>
        in (case mark_terminal (sch_opportunities s1) (job_opportunity_id job) OD_PROCESSED now_ns None of
             Inl e \<Rightarrow> (Inl e, s1)
           | Inr l \<Rightarrow> (Inr job', s1\<lparr>sch_opportunities := l\<rparr>)))"

definition fallback_schedule :: "scheduler \<Rightarrow> string list \<times> scheduler" where
  "fallback_schedule s =
     (map ws_workload_id (sort_key (\<lambda>w. (tier_int (ws_tier w), ws_workload_id w)) (map snd (sch_registry s))),
      s\<lparr>sch_reason_codes := append_new ''static_fallback_active'' (sch_reason_codes s)\<rparr>)"

definition snapshot :: "scheduler \<Rightarrow> SchedulerSnapshot" where
  "snapshot s =
     (let queued_jobs = map item_job (sch_queue s);
          ids = (\<lambda>js. sort (map (\<lambda>j. ws_workload_id (job_workload j)) js));
          queued = ids (filter (\<lambda>j. job_job_id j \<notin> sch_deferred_ids s) queued_jobs);
          deferred = ids (filter (\<lambda>j. job_job_id j \<in> sch_deferred_ids s) queued_jobs);
          active = ids (map snd (sch_active s));
          present = set active \<union> set queued \<union> set deferred
      in \<lparr>snap_active = active, snap_queued = queued, snap_deferred = deferred,
          snap_sleeping = sort (filter (\<lambda>w. w \<notin> present) (map fst (sch_registry s))),
          snap_overloaded = sch_overloaded s, snap_degradation_level = sch_degradation_level s,
          snap_reason_codes = sorted_set (sch_reason_codes s), snap_scheduling_policy = ''normal''\<rparr>)"

definition scheduler_registry :: "scheduler \<Rightarrow> WorkloadSpec list" where
  "scheduler_registry s = sort_key ws_workload_id (map snd (sch_registry s))"

end
