(* ===== verification/Scheduler_Spec.thy ===== *)
theory Scheduler_Spec
  imports Scheduler
begin

text \<open>
  What the scheduler promises, and that its operations keep it. \<open>sched_inv\<close> is the invariant of
  the object; \<open>scan\<close> is the abstract account of one dispatch (walk the queue in key order, stop at
  the first admissible job), which the heap loop refines. The properties of a dispatch are then
  facts about \<open>scan\<close>.
\<close>

section \<open>The heap is a min queue\<close>

interpretation heap: min_queue heappush heappop mset item_key "\<lambda>q. sorted (map item_key q)"
proof (unfold_locales, goal_cases)
  case (1 q x)
  then show ?case by (simp add: heappush_def sorted_insort_key)
next
  case (2 q x)
  show ?case by (simp add: heappush_def)
next
  case (3 q)
  show ?case by (simp add: heappop_def split: list.splits)
next
  case (4 q x q')
  then show ?case by (auto simp: heappop_def split: list.splits)
next
  case (5 q x q')
  then show ?case by (auto simp: heappop_def split: list.splits)
next
  case (6 q x q' y)
  then show ?case by (auto simp: heappop_def split: list.splits)
qed

section \<open>Frames of admission\<close>

text \<open>Admission changes only the overload report of the object, and its verdict depends only on
  the active table, the safe pairs and the reserve.\<close>

lemma admissible_frame:
  obtains ov lv rc where
    "snd (snd (admissible s job r now_ns)) =
       s\<lparr>sch_overloaded := ov, sch_degradation_level := lv, sch_reason_codes := rc\<rparr>"
proof -
  let ?s = "snd (snd (admissible s job r now_ns))"
  have "?s = s\<lparr>sch_overloaded := sch_overloaded ?s, sch_degradation_level := sch_degradation_level ?s,
      sch_reason_codes := sch_reason_codes ?s\<rparr>"
    by (simp add: admissible_def declare_overload_def Let_def)
  then show thesis by (rule that)
qed

lemma admissible_frame_simps [simp]:
  "sch_queue_limit (snd (snd (admissible s job r n))) = sch_queue_limit s"
  "sch_tier_a_reserve_memory_mb (snd (snd (admissible s job r n))) = sch_tier_a_reserve_memory_mb s"
  "sch_mode (snd (snd (admissible s job r n))) = sch_mode s"
  "sch_approved_profiles (snd (snd (admissible s job r n))) = sch_approved_profiles s"
  "sch_registry (snd (snd (admissible s job r n))) = sch_registry s"
  "sch_counter (snd (snd (admissible s job r n))) = sch_counter s"
  "sch_active (snd (snd (admissible s job r n))) = sch_active s"
  "sch_deferred_ids (snd (snd (admissible s job r n))) = sch_deferred_ids s"
  "sch_opportunities (snd (snd (admissible s job r n))) = sch_opportunities s"
  "sch_safe_pairs (snd (snd (admissible s job r n))) = sch_safe_pairs s"
  "sch_frozen (snd (snd (admissible s job r n))) = sch_frozen s"
  by (rule admissible_frame[of s job r n]; simp)+

definition same_policy :: "scheduler \<Rightarrow> scheduler \<Rightarrow> bool" where
  "same_policy s t \<longleftrightarrow> sch_active s = sch_active t \<and> sch_safe_pairs s = sch_safe_pairs t \<and>
     sch_tier_a_reserve_memory_mb s = sch_tier_a_reserve_memory_mb t"

definition verdict :: "scheduler \<Rightarrow> ResourceSnapshot \<Rightarrow> int \<Rightarrow> JobRequest \<Rightarrow> bool \<times> string option" where
  "verdict s r n job = fst (admissible s job r n)"

definition noted :: "scheduler \<Rightarrow> ResourceSnapshot \<Rightarrow> int \<Rightarrow> JobRequest \<Rightarrow> JobRequest" where
  "noted s r n job = fst (snd (admissible s job r n))"

lemma admissible_cong:
  assumes "same_policy s t"
  shows "verdict s r n job = verdict t r n job" "noted s r n job = noted t r n job"
proof -
  have i: "interferes s a b = interferes t a b" for a b
    using assms by (simp add: interferes_def same_policy_def)
  show "verdict s r n job = verdict t r n job" "noted s r n job = noted t r n job"
    using assms by (simp_all add: verdict_def noted_def admissible_def i same_policy_def Let_def)
qed

lemma verdict_admit_no_reason: "fst (verdict s r n job) \<Longrightarrow> snd (verdict s r n job) = None"
  by (auto simp: verdict_def admissible_def Let_def split: if_splits)

lemma noted_eq: "noted s r n job = job \<or>
  noted s r n job = job\<lparr>job_reason_codes :=
    append_new ''unknown_tier_a_interference_serialized'' (job_reason_codes job)\<rparr>"
  by (auto simp: noted_def admissible_def Let_def)

lemma noted_simps [simp]:
  "job_job_id (noted s r n job) = job_job_id job"
  "job_opportunity_id (noted s r n job) = job_opportunity_id job"
  "job_workload (noted s r n job) = job_workload job"
  "job_released_monotonic_ns (noted s r n job) = job_released_monotonic_ns job"
  "job_deadline_monotonic_ns (noted s r n job) = job_deadline_monotonic_ns job"
  "job_status (noted s r n job) = job_status job"
  using noted_eq[of s r n job] by auto

lemma noted_admitted: "fst (verdict s r n job) \<Longrightarrow> noted s r n job = job"
  by (auto simp: verdict_def noted_def admissible_def Let_def split: if_splits)

section \<open>The invariant\<close>

text \<open>
  The heap is in key order with unique insertion counts below the counter, every item carries the
  tier and deadline of its job, its opportunity is in the ledger, and the bound on the queue holds.
\<close>

definition queue_ok :: "nat \<Rightarrow> int \<Rightarrow> uuid set \<Rightarrow> queue_item list \<Rightarrow> bool" where
  "queue_ok counter bound keys q \<longleftrightarrow>
     sorted (map item_key q) \<and>
     distinct (map (\<lambda>i. fst (snd (snd i))) q) \<and>
     (\<forall>i \<in> set q.
        fst (snd (snd i)) < counter \<and>
        fst i = tier_int (ws_tier (job_workload (item_job i))) \<and>
        fst (snd i) = job_deadline_monotonic_ns (item_job i) \<and>
        job_opportunity_id (item_job i) \<in> keys) \<and>
     (q \<noteq> [] \<longrightarrow> int (length q) \<le> bound)"

definition registry_ok :: "(string, WorkloadSpec) dict \<Rightarrow> bool" where
  "registry_ok reg \<longleftrightarrow> dict_ok reg \<and> (\<forall>(k, w) \<in> set reg. ws_workload_id w = k)"

text \<open>Active jobs are running, recorded, filed under their identifier and pairwise compatible.\<close>

definition active_ok :: "(WorkloadSpec \<Rightarrow> WorkloadSpec \<Rightarrow> bool) \<Rightarrow> uuid set \<Rightarrow> (uuid, JobRequest) dict \<Rightarrow> bool" where
  "active_ok clash keys act \<longleftrightarrow>
     dict_ok act \<and>
     (\<forall>(k, j) \<in> set act. job_job_id j = k \<and> job_status j = JS_RUNNING \<and> job_opportunity_id j \<in> keys) \<and>
     (\<forall>(k, j) \<in> set act. \<forall>(k', j') \<in> set act. k \<noteq> k' \<longrightarrow> \<not> clash (job_workload j) (job_workload j'))"

definition sched_inv :: "scheduler \<Rightarrow> bool" where
  "sched_inv s \<longleftrightarrow>
     queue_ok (sch_counter s) (sch_queue_limit s) (fst ` set (sch_opportunities s)) (sch_queue s) \<and>
     ledger_inv (sch_opportunities s) \<and>
     registry_ok (sch_registry s) \<and>
     active_ok (interferes s) (fst ` set (sch_opportunities s)) (sch_active s) \<and>
     distinct (sch_reason_codes s)"

lemma sched_inv_facts:
  assumes "sched_inv s"
  shows "queue_ok (sch_counter s) (sch_queue_limit s) (fst ` set (sch_opportunities s)) (sch_queue s)"
    "ledger_inv (sch_opportunities s)" "registry_ok (sch_registry s)"
    "active_ok (interferes s) (fst ` set (sch_opportunities s)) (sch_active s)" "distinct (sch_reason_codes s)"
  using assms by (simp_all add: sched_inv_def)

lemma queue_ok_item:
  assumes "queue_ok c b ks q" "i \<in> set q"
  shows "fst (snd (snd i)) < c" "fst i = tier_int (ws_tier (job_workload (item_job i)))"
    "fst (snd i) = job_deadline_monotonic_ns (item_job i)" "job_opportunity_id (item_job i) \<in> ks"
  using assms by (simp_all add: queue_ok_def)

lemma queue_ok_sorted: "queue_ok c b ks q \<Longrightarrow> sorted (map item_key q)"
  by (simp add: queue_ok_def)

lemma queue_ok_mono: "queue_ok c b ks q \<Longrightarrow> ks \<subseteq> ks' \<Longrightarrow> queue_ok c b ks' q"
  by (auto simp: queue_ok_def)

lemma queue_ok_push:
  assumes "queue_ok c b ks q" "int (length q) < b" "job_opportunity_id job \<in> ks"
  shows "queue_ok (Suc c) b ks (heappush q (tier_int (ws_tier (job_workload job)), job_deadline_monotonic_ns job, c, job))"
    (is "queue_ok _ _ _ (heappush q ?i)")
proof -
  note srt = queue_ok_sorted[OF assms(1)]
  have m: "mset (heappush q ?i) = add_mset ?i (mset q)" by (rule heap.items_push[OF srt])
  have st: "set (heappush q ?i) = insert ?i (set q)" and len: "length (heappush q ?i) = Suc (length q)"
    using mset_eq_setD[of "heappush q ?i" "?i # q"] mset_eq_length[of "heappush q ?i" "?i # q"] m by simp_all
  have "c \<notin> (\<lambda>i. fst (snd (snd i))) ` set q"
    using queue_ok_item(1)[OF assms(1)] by fastforce
  then have "distinct (map (\<lambda>i. fst (snd (snd i))) (?i # q))"
    using assms(1) by (simp add: queue_ok_def)
  moreover have "mset (map (\<lambda>i. fst (snd (snd i))) (heappush q ?i)) = mset (map (\<lambda>i. fst (snd (snd i))) (?i # q))"
    by (simp only: mset_map m mset.simps)
  ultimately have d: "distinct (map (\<lambda>i. fst (snd (snd i))) (heappush q ?i))"
    using mset_eq_imp_distinct_iff by blast
  have items: "fst (snd (snd i)) < Suc c \<and> fst i = tier_int (ws_tier (job_workload (item_job i))) \<and>
      fst (snd i) = job_deadline_monotonic_ns (item_job i) \<and> job_opportunity_id (item_job i) \<in> ks"
    if "i \<in> set (heappush q ?i)" for i
  proof (cases "i = ?i")
    case True
    then show ?thesis using assms(3) by (simp add: item_job_def)
  next
    case False
    with that have "i \<in> set q" by (simp add: st)
    then show ?thesis using queue_ok_item[OF assms(1), of i] by simp
  qed
  show ?thesis
    unfolding queue_ok_def using heap.invar_push[OF srt] d items len assms(2) by auto
qed

lemma active_ok_mono: "active_ok cl ks a \<Longrightarrow> ks \<subseteq> ks' \<Longrightarrow> active_ok cl ks' a"
  by (auto simp: active_ok_def)

lemma active_ok_delete: "active_ok cl ks a \<Longrightarrow> active_ok cl ks (AList.delete k a)"
  unfolding active_ok_def by (auto simp: AList.delete_eq dest: dict_ok_delete[of _ k])

lemma active_ok_update:
  assumes "active_ok cl ks a" "job_status j = JS_RUNNING" "job_opportunity_id j \<in> ks"
    "\<And>k j'. (k, j') \<in> set a \<Longrightarrow> k \<noteq> job_job_id j \<Longrightarrow> \<not> cl (job_workload j') (job_workload j) \<and> \<not> cl (job_workload j) (job_workload j')"
  shows "active_ok cl ks (AList.update (job_job_id j) j a)"
  using assms by (auto simp: active_ok_def set_alist_update)

section \<open>One dispatch as a scan\<close>

definition refused :: "scheduler \<Rightarrow> ResourceSnapshot \<Rightarrow> int \<Rightarrow> queue_item \<Rightarrow> bool" where
  "refused s r n i \<longleftrightarrow> \<not> fst (verdict s r n (item_job i))"

definition defer_item :: "scheduler \<Rightarrow> ResourceSnapshot \<Rightarrow> int \<Rightarrow> queue_item \<Rightarrow> queue_item" where
  "defer_item s r n i = (fst i, fst (snd i), fst (snd (snd i)),
     (noted s r n (item_job i))\<lparr>
       job_deferral_count := job_deferral_count (noted s r n (item_job i)) + 1,
       job_status := JS_DEFERRED,
       job_reason_codes := append_new ''resource_admission_deferred''
         (job_reason_codes (noted s r n (item_job i)))\<rparr>)"

definition reject_job :: "scheduler \<Rightarrow> ResourceSnapshot \<Rightarrow> int \<Rightarrow> queue_item \<Rightarrow> JobRequest" where
  "reject_job s r n i = (noted s r n (item_job i))\<lparr>
     job_status := JS_REJECTED,
     job_reason_codes := append_new (the (snd (verdict s r n (item_job i))))
       (job_reason_codes (noted s r n (item_job i)))\<rparr>"

definition deferred_part :: "scheduler \<Rightarrow> ResourceSnapshot \<Rightarrow> int \<Rightarrow> queue_item list \<Rightarrow> queue_item list" where
  "deferred_part s r n q = filter (\<lambda>i. snd (verdict s r n (item_job i)) = None) (takeWhile (refused s r n) q)"

definition rejected_part :: "scheduler \<Rightarrow> ResourceSnapshot \<Rightarrow> int \<Rightarrow> queue_item list \<Rightarrow> queue_item list" where
  "rejected_part s r n q = filter (\<lambda>i. snd (verdict s r n (item_job i)) \<noteq> None) (takeWhile (refused s r n) q)"

definition selected_job :: "scheduler \<Rightarrow> ResourceSnapshot \<Rightarrow> int \<Rightarrow> queue_item list \<Rightarrow> JobRequest option" where
  "selected_job s r n q = (case dropWhile (refused s r n) q of [] \<Rightarrow> None | i # _ \<Rightarrow> Some (item_job i))"

text \<open>The fields a dispatch may write, all others being framed.\<close>

definition dispatch_frame :: "scheduler \<Rightarrow> scheduler \<Rightarrow> bool" where
  "dispatch_frame s t \<longleftrightarrow>
     sch_queue_limit t = sch_queue_limit s \<and>
     sch_tier_a_reserve_memory_mb t = sch_tier_a_reserve_memory_mb s \<and>
     sch_mode t = sch_mode s \<and> sch_approved_profiles t = sch_approved_profiles s \<and>
     sch_registry t = sch_registry s \<and> sch_counter t = sch_counter s \<and>
     sch_safe_pairs t = sch_safe_pairs s \<and> sch_frozen t = sch_frozen s \<and>
     fst ` set (sch_opportunities t) = fst ` set (sch_opportunities s) \<and>
     length (sch_opportunities t) = length (sch_opportunities s) \<and>
     (ledger_inv (sch_opportunities s) \<longrightarrow> ledger_inv (sch_opportunities t)) \<and>
     (sch_overloaded s \<longrightarrow> sch_overloaded t) \<and>
     sch_degradation_level s \<le> sch_degradation_level t \<and>
     set (sch_reason_codes s) \<subseteq> set (sch_reason_codes t) \<and>
     (distinct (sch_reason_codes s) \<longrightarrow> distinct (sch_reason_codes t))"

lemma dispatch_frame_refl: "dispatch_frame s s"
  by (simp add: dispatch_frame_def)

lemma dispatch_frame_trans: "dispatch_frame s t \<Longrightarrow> dispatch_frame t u \<Longrightarrow> dispatch_frame s u"
  by (auto simp: dispatch_frame_def)

lemma admissible_dispatch_frame:
  "dispatch_frame s (snd (snd (admissible (s\<lparr>sch_queue := q\<rparr>) job r n)))"
  by (auto simp: dispatch_frame_def admissible_def declare_overload_def Let_def)

lemma mark_keeps_frame:
  assumes "modify_record k f (sch_opportunities s) = Inr l" "\<And>r. opp_opportunity_id (f r) = opp_opportunity_id r"
  shows "dispatch_frame s (s\<lparr>sch_opportunities := l, sch_deferred_ids := d\<rparr>)"
    and "dispatch_frame s (s\<lparr>sch_deferred_ids := d, sch_opportunities := l\<rparr>)"
    and "dispatch_frame s (s\<lparr>sch_opportunities := l\<rparr>)"
  using assms by (auto simp: dispatch_frame_def modify_record_keys modify_record_length intro: modify_record_inv)

definition after_admission :: "scheduler \<Rightarrow> ResourceSnapshot \<Rightarrow> int \<Rightarrow> queue_item \<Rightarrow> queue_item list \<Rightarrow> scheduler" where
  "after_admission s r n i q = snd (snd (admissible (s\<lparr>sch_queue := q\<rparr>) (item_job i) r n))"

lemma after_admission_simps [simp]:
  "sch_queue (after_admission s r n i q) = q"
  "sch_active (after_admission s r n i q) = sch_active s"
  "sch_deferred_ids (after_admission s r n i q) = sch_deferred_ids s"
  "sch_opportunities (after_admission s r n i q) = sch_opportunities s"
  "sch_safe_pairs (after_admission s r n i q) = sch_safe_pairs s"
  "sch_tier_a_reserve_memory_mb (after_admission s r n i q) = sch_tier_a_reserve_memory_mb s"
  by (simp_all add: after_admission_def)

lemma after_admission_frame: "dispatch_frame s (after_admission s r n i q)"
  by (simp add: after_admission_def admissible_dispatch_frame)

lemma admissible_split:
  assumes "verdict s r n (item_job i) = (admit, reason)"
  shows "admissible (s\<lparr>sch_queue := q\<rparr>) (item_job i) r n =
     ((admit, reason), noted s r n (item_job i), after_admission s r n i q)"
proof -
  have "same_policy s (s\<lparr>sch_queue := q\<rparr>)" by (simp add: same_policy_def)
  note c = admissible_cong[OF this, of r n "item_job i"]
  have "admissible (s\<lparr>sch_queue := q\<rparr>) (item_job i) r n =
     (verdict s r n (item_job i), noted s r n (item_job i), after_admission s r n i q)"
    by (simp only: c) (simp add: verdict_def noted_def after_admission_def)
  then show ?thesis by (simp only: assms)
qed

lemma verdict_split:
  "\<not> refused s r n i \<Longrightarrow> verdict s r n (item_job i) = (True, None)"
  "refused s r n i \<Longrightarrow> snd (verdict s r n (item_job i)) = t \<Longrightarrow> verdict s r n (item_job i) = (False, t)"
  using verdict_admit_no_reason[of s r n "item_job i"]
  by (cases "verdict s r n (item_job i)"; simp add: refused_def)+

lemma dispatch_loop_Nil: "sch_queue s = [] \<Longrightarrow> dispatch_loop r n s held rejected = (Inr None, s, held, rejected)"
  by (subst dispatch_loop.simps) (simp add: heappop_def)

lemma dispatch_loop_select:
  assumes "sch_queue s = i # q" "\<not> refused s r n i"
  shows "dispatch_loop r n s held rejected = (Inr (Some (item_job i)), after_admission s r n i q, held, rejected)"
  using assms admissible_split[OF verdict_split(1)[OF assms(2)], of q] noted_admitted[of s r n "item_job i"]
  by (subst dispatch_loop.simps) (simp add: heappop_def refused_def)

lemma dispatch_loop_reject:
  assumes "sch_queue s = i # q" "refused s r n i" "snd (verdict s r n (item_job i)) = Some reason"
    "job_opportunity_id (item_job i) \<in> fst ` set (sch_opportunities s)"
  obtains l where
    "mark_terminal (sch_opportunities s) (job_opportunity_id (item_job i)) OD_SKIPPED n (Some reason) = Inr l"
    "dispatch_loop r n s held rejected =
       dispatch_loop r n ((after_admission s r n i q)\<lparr>sch_opportunities := l\<rparr>) held (rejected @ [reject_job s r n i])"
proof -
  obtain l where l: "mark_terminal (sch_opportunities s) (job_opportunity_id (item_job i)) OD_SKIPPED n (Some reason) = Inr l"
    using modify_record_ok[OF assms(4)] by (auto simp: mark_terminal_def terminal_dispositions_def)
  show thesis
  proof (rule that[OF l])
    show "dispatch_loop r n s held rejected =
       dispatch_loop r n ((after_admission s r n i q)\<lparr>sch_opportunities := l\<rparr>) held (rejected @ [reject_job s r n i])"
      using assms(1,3) l admissible_split[OF verdict_split(2)[OF assms(2,3)], of q]
      by (subst dispatch_loop.simps) (simp add: heappop_def reject_job_def)
  qed
qed

lemma dispatch_loop_defer:
  assumes "sch_queue s = i # q" "refused s r n i" "snd (verdict s r n (item_job i)) = None"
    "job_opportunity_id (item_job i) \<in> fst ` set (sch_opportunities s)"
  obtains l where
    "mark_deferred (sch_opportunities s) (job_opportunity_id (item_job i)) ''resource_admission_deferred'' = Inr l"
    "dispatch_loop r n s held rejected =
       dispatch_loop r n ((after_admission s r n i q)\<lparr>
           sch_deferred_ids := insert (job_job_id (item_job i)) (sch_deferred_ids s), sch_opportunities := l\<rparr>)
         (held @ [defer_item s r n i]) rejected"
proof -
  obtain l where l: "mark_deferred (sch_opportunities s) (job_opportunity_id (item_job i)) ''resource_admission_deferred'' = Inr l"
    using modify_record_ok[OF assms(4)] by (auto simp: mark_deferred_def)
  show thesis
  proof (rule that[OF l])
    show "dispatch_loop r n s held rejected =
       dispatch_loop r n ((after_admission s r n i q)\<lparr>
           sch_deferred_ids := insert (job_job_id (item_job i)) (sch_deferred_ids s), sch_opportunities := l\<rparr>)
         (held @ [defer_item s r n i]) rejected"
      using assms(1,3) l admissible_split[OF verdict_split(2)[OF assms(2,3)], of q]
      by (subst dispatch_loop.simps) (simp add: heappop_def defer_item_def)
  qed
qed

lemma scan_cong:
  assumes "same_policy s t"
  shows "refused t r n = refused s r n" "defer_item t r n = defer_item s r n" "reject_job t r n = reject_job s r n"
    "deferred_part t r n = deferred_part s r n" "rejected_part t r n = rejected_part s r n"
    "selected_job t r n = selected_job s r n"
proof -
  note c = admissible_cong[OF assms]
  show r: "refused t r n = refused s r n"
    by (simp add: fun_eq_iff refused_def c)
  show "defer_item t r n = defer_item s r n" "reject_job t r n = reject_job s r n"
    by (simp_all add: fun_eq_iff defer_item_def reject_job_def c)
  show "deferred_part t r n = deferred_part s r n" "rejected_part t r n = rejected_part s r n"
    "selected_job t r n = selected_job s r n"
    by (simp_all add: fun_eq_iff deferred_part_def rejected_part_def selected_job_def r c)
qed

abbreviation item_opp :: "queue_item \<Rightarrow> uuid" where
  "item_opp i \<equiv> job_opportunity_id (item_job i)"

definition disposition_of :: "ledger \<Rightarrow> uuid \<Rightarrow> OpportunityDisposition option" where
  "disposition_of l k = map_option opp_disposition (map_of l k)"

text \<open>What the scan leaves: the state \<open>t\<close> reached from \<open>s\<close> over the queue \<open>q\<close>.\<close>

definition scan_result :: "scheduler \<Rightarrow> ResourceSnapshot \<Rightarrow> int \<Rightarrow> queue_item list \<Rightarrow> scheduler \<Rightarrow> bool" where
  "scan_result s r n q t \<longleftrightarrow>
     sch_queue t = tl (dropWhile (refused s r n) q) \<and>
     sch_active t = sch_active s \<and>
     sch_deferred_ids t = sch_deferred_ids s \<union> (job_job_id \<circ> item_job) ` set (deferred_part s r n q) \<and>
     dispatch_frame s t \<and>
     (\<forall>k. k \<notin> item_opp ` set (takeWhile (refused s r n) q) \<longrightarrow>
        map_of (sch_opportunities t) k = map_of (sch_opportunities s) k) \<and>
     (\<forall>i \<in> set (takeWhile (refused s r n) q).
        disposition_of (sch_opportunities t) (item_opp i) = Some OD_SKIPPED \<or>
        disposition_of (sch_opportunities t) (item_opp i) = Some OD_DEFERRED \<and>
        item_opp i \<in> item_opp ` set (deferred_part s r n q)) \<and>
     (distinct (map item_opp q) \<longrightarrow>
        (\<forall>i \<in> set (rejected_part s r n q). disposition_of (sch_opportunities t) (item_opp i) = Some OD_SKIPPED) \<and>
        (\<forall>i \<in> set (deferred_part s r n q). disposition_of (sch_opportunities t) (item_opp i) = Some OD_DEFERRED))"

lemma scan_result_step:
  assumes "sch_queue s = i # q" "refused s r n i"
    and l: "modify_record (item_opp i) f (sch_opportunities s) = Inr l" "\<And>x. opp_opportunity_id (f x) = opp_opportunity_id x"
    and s1: "s1 = (after_admission s r n i q)\<lparr>sch_deferred_ids := d, sch_opportunities := l\<rparr>"
    and d: "d = sch_deferred_ids s \<union> (if snd (verdict s r n (item_job i)) = None then {job_job_id (item_job i)} else {})"
    and f: "\<And>x. opp_disposition (f x) = (if snd (verdict s r n (item_job i)) = None then OD_DEFERRED else OD_SKIPPED)"
    and t: "scan_result s1 r n q t"
  shows "scan_result s r n (i # q) t"
proof -
  have pol: "same_policy s1 s" by (simp add: same_policy_def s1)
  note tt = t[unfolded scan_result_def scan_cong[OF pol, symmetric]]
  have s1f: "sch_active s1 = sch_active s" "sch_deferred_ids s1 = d" "sch_opportunities s1 = l"
    by (simp_all add: s1)
  have fr: "dispatch_frame s s1"
    unfolding s1
    by (rule dispatch_frame_trans[OF after_admission_frame mark_keeps_frame(2)[where k = "item_opp i" and f = f]])
      (use l in simp_all)
  have lk: "map_of l k = (if k = item_opp i then map_option f (map_of (sch_opportunities s) k) else map_of (sch_opportunities s) k)" for k
    using led.lookup_modify[OF l(1), of k] by simp
  have oi: "map_of (sch_opportunities s) (item_opp i) \<noteq> None"
    using l(1) by (auto simp: modify_record_Inr)
  have di: "disposition_of l (item_opp i) = Some (if snd (verdict s r n (item_job i)) = None then OD_DEFERRED else OD_SKIPPED)"
    using oi by (auto simp: disposition_of_def lk f)
  have t': "sch_queue t = tl (dropWhile (refused s r n) q)" "sch_active t = sch_active s"
    "sch_deferred_ids t = d \<union> (job_job_id \<circ> item_job) ` set (deferred_part s r n q)" "dispatch_frame s1 t"
    "\<And>k. k \<notin> item_opp ` set (takeWhile (refused s r n) q) \<Longrightarrow> map_of (sch_opportunities t) k = map_of l k"
    "\<And>j. j \<in> set (takeWhile (refused s r n) q) \<Longrightarrow>
       disposition_of (sch_opportunities t) (item_opp j) = Some OD_SKIPPED \<or>
       disposition_of (sch_opportunities t) (item_opp j) = Some OD_DEFERRED \<and> item_opp j \<in> item_opp ` set (deferred_part s r n q)"
    "distinct (map item_opp q) \<Longrightarrow> i' \<in> set (rejected_part s r n q) \<Longrightarrow>
       disposition_of (sch_opportunities t) (item_opp i') = Some OD_SKIPPED"
    "distinct (map item_opp q) \<Longrightarrow> i' \<in> set (deferred_part s r n q) \<Longrightarrow>
       disposition_of (sch_opportunities t) (item_opp i') = Some OD_DEFERRED" for i'
    using tt by (simp_all add: s1f)
  have disp': "disposition_of (sch_opportunities t) (item_opp i) = disposition_of l (item_opp i)"
    if "item_opp i \<notin> item_opp ` set (takeWhile (refused s r n) q)"
    using that by (simp add: disposition_of_def t'(5))
  have disp: "disposition_of (sch_opportunities t) (item_opp i) = disposition_of l (item_opp i)"
    if "item_opp i \<notin> item_opp ` set q"
    by (rule disp') (use that in \<open>auto dest: set_takeWhileD\<close>)
  have tw: "takeWhile (refused s r n) (i # q) = i # takeWhile (refused s r n) q" using assms(2) by simp
  have dp: "item_opp ` set (deferred_part s r n (i # q)) = item_opp ` set (deferred_part s r n q) \<union>
      (if snd (verdict s r n (item_job i)) = None then {item_opp i} else {})"
    unfolding deferred_part_def tw by auto
  show ?thesis
    unfolding scan_result_def
  proof (intro conjI allI impI ballI)
    show "sch_queue t = tl (dropWhile (refused s r n) (i # q))" "sch_active t = sch_active s"
      using t' assms(2) by simp_all
    show "sch_deferred_ids t = sch_deferred_ids s \<union> (job_job_id \<circ> item_job) ` set (deferred_part s r n (i # q))"
      using t'(3) assms(2) by (auto simp: deferred_part_def d)
    show "dispatch_frame s t" using fr t'(4) by (rule dispatch_frame_trans)
  next
    fix k assume "k \<notin> item_opp ` set (takeWhile (refused s r n) (i # q))"
    then show "map_of (sch_opportunities t) k = map_of (sch_opportunities s) k"
      using assms(2) by (simp add: t'(5) lk)
  next
    fix j assume j: "j \<in> set (takeWhile (refused s r n) (i # q))"
    show "disposition_of (sch_opportunities t) (item_opp j) = Some OD_SKIPPED \<or>
        disposition_of (sch_opportunities t) (item_opp j) = Some OD_DEFERRED \<and>
        item_opp j \<in> item_opp ` set (deferred_part s r n (i # q))"
    proof (cases "item_opp j \<in> item_opp ` set (takeWhile (refused s r n) q)")
      case True
      then obtain j' where "j' \<in> set (takeWhile (refused s r n) q)" "item_opp j = item_opp j'" by (rule imageE)
      with t'(6)[of j'] show ?thesis unfolding dp by auto
    next
      case False
      with j have "j = i" unfolding tw by auto
      with False show ?thesis using disp' di unfolding dp by (simp split: if_splits)
    qed
  next
    fix j assume "distinct (map item_opp (i # q))" "j \<in> set (rejected_part s r n (i # q))"
    then show "disposition_of (sch_opportunities t) (item_opp j) = Some OD_SKIPPED"
      using t'(7)[of j] disp di assms(2) by (auto simp: rejected_part_def split: if_splits)
  next
    fix j assume "distinct (map item_opp (i # q))" "j \<in> set (deferred_part s r n (i # q))"
    then show "disposition_of (sch_opportunities t) (item_opp j) = Some OD_DEFERRED"
      using t'(8)[of j] disp di assms(2) by (auto simp: deferred_part_def split: if_splits)
  qed
qed

theorem dispatch_loop_scan:
  assumes "\<forall>i \<in> set (sch_queue s). item_opp i \<in> fst ` set (sch_opportunities s)"
  shows "\<exists>t. dispatch_loop r n s held rejected =
       (Inr (selected_job s r n (sch_queue s)), t,
        held @ map (defer_item s r n) (deferred_part s r n (sch_queue s)),
        rejected @ map (reject_job s r n) (rejected_part s r n (sch_queue s))) \<and>
     scan_result s r n (sch_queue s) t"
  using assms
proof (induction "sch_queue s" arbitrary: s held rejected)
  case Nil
  then show ?case
    by (auto simp: dispatch_loop_Nil selected_job_def deferred_part_def rejected_part_def scan_result_def
        dispatch_frame_refl)
next
  case (Cons i q)
  note q = Cons.hyps(2)[symmetric]
  have key: "item_opp i \<in> fst ` set (sch_opportunities s)" using Cons.prems q by simp
  consider (admit) "\<not> refused s r n i"
    | (reject) reason where "refused s r n i" "snd (verdict s r n (item_job i)) = Some reason"
    | (postpone) "refused s r n i" "snd (verdict s r n (item_job i)) = None"
    by (cases "snd (verdict s r n (item_job i))") auto
  then show ?case
  proof cases
    case admit
    then show ?thesis
      by (simp add: dispatch_loop_select[OF q] q selected_job_def deferred_part_def rejected_part_def
          scan_result_def after_admission_frame)
  next
    case reject
    obtain l where l: "mark_terminal (sch_opportunities s) (item_opp i) OD_SKIPPED n (Some reason) = Inr l"
      and step: "dispatch_loop r n s held rejected = dispatch_loop r n
         ((after_admission s r n i q)\<lparr>sch_opportunities := l\<rparr>) held (rejected @ [reject_job s r n i])"
      by (rule dispatch_loop_reject[OF q reject key])
    define s1 where "s1 = (after_admission s r n i q)\<lparr>sch_deferred_ids := sch_deferred_ids s, sch_opportunities := l\<rparr>"
    have s1': "(after_admission s r n i q)\<lparr>sch_opportunities := l\<rparr> = s1" by (simp add: s1_def)
    have l': "modify_record (item_opp i) (\<lambda>x. x\<lparr>opp_completed_monotonic_ns := Some n, opp_disposition := OD_SKIPPED,
        opp_reason_codes := add_reason (Some reason) (opp_reason_codes x)\<rparr>) (sch_opportunities s) = Inr l"
      using l by (simp add: mark_terminal_def split: if_splits)
    have pol: "same_policy s1 s" by (simp add: same_policy_def s1_def)
    note c = scan_cong[OF pol, symmetric]
    have qs1: "sch_queue s1 = q" by (simp add: s1_def)
    have "q = sch_queue s1" and "\<forall>i \<in> set (sch_queue s1). item_opp i \<in> fst ` set (sch_opportunities s1)"
      using Cons.prems q modify_record_keys[OF l'] by (simp_all add: s1_def)
    from Cons.hyps(1)[OF this, of held "rejected @ [reject_job s r n i]"] obtain t where
      run: "dispatch_loop r n s1 held (rejected @ [reject_job s r n i]) =
        (Inr (selected_job s r n q), t, held @ map (defer_item s r n) (deferred_part s r n q),
         (rejected @ [reject_job s r n i]) @ map (reject_job s r n) (rejected_part s r n q))"
      and t: "scan_result s1 r n q t"
      unfolding c qs1 by auto
    have "scan_result s r n (i # q) t"
      by (rule scan_result_step[OF q reject(1) l' _ s1_def _ _ t]) (simp_all add: reject)
    with run step s1' show ?thesis
      by (auto simp: q reject selected_job_def deferred_part_def rejected_part_def)
  next
    case postpone
    obtain l where l: "mark_deferred (sch_opportunities s) (item_opp i) ''resource_admission_deferred'' = Inr l"
      and step: "dispatch_loop r n s held rejected = dispatch_loop r n
         ((after_admission s r n i q)\<lparr>sch_deferred_ids := insert (job_job_id (item_job i)) (sch_deferred_ids s),
            sch_opportunities := l\<rparr>) (held @ [defer_item s r n i]) rejected"
      by (rule dispatch_loop_defer[OF q postpone key])
    define s1 where "s1 = (after_admission s r n i q)\<lparr>sch_deferred_ids := insert (job_job_id (item_job i)) (sch_deferred_ids s),
            sch_opportunities := l\<rparr>"
    have pol: "same_policy s1 s" by (simp add: same_policy_def s1_def)
    note c = scan_cong[OF pol, symmetric]
    note l' = l[unfolded mark_deferred_def]
    have qs1: "sch_queue s1 = q" by (simp add: s1_def)
    have "q = sch_queue s1" and "\<forall>i \<in> set (sch_queue s1). item_opp i \<in> fst ` set (sch_opportunities s1)"
      using Cons.prems q modify_record_keys[OF l'] by (simp_all add: s1_def)
    from Cons.hyps(1)[OF this, of "held @ [defer_item s r n i]" rejected] obtain t where
      run: "dispatch_loop r n s1 (held @ [defer_item s r n i]) rejected =
        (Inr (selected_job s r n q), t, (held @ [defer_item s r n i]) @ map (defer_item s r n) (deferred_part s r n q),
         rejected @ map (reject_job s r n) (rejected_part s r n q))"
      and t: "scan_result s1 r n q t"
      unfolding c qs1 by auto
    have "scan_result s r n (i # q) t"
      by (rule scan_result_step[OF q postpone(1) l' _ s1_def _ _ t]) (simp_all add: postpone)
    with run step show ?thesis
      by (auto simp: q postpone selected_job_def deferred_part_def rejected_part_def s1_def)
  qed
qed

definition started_job :: "int \<Rightarrow> JobRequest \<Rightarrow> JobRequest" where
  "started_job n job = job\<lparr>job_status := JS_RUNNING, job_service_started_monotonic_ns := Some n\<rparr>"

lemma started_job_simps [simp]:
  "job_job_id (started_job n j) = job_job_id j" "job_workload (started_job n j) = job_workload j"
  "job_opportunity_id (started_job n j) = job_opportunity_id j" "job_status (started_job n j) = JS_RUNNING"
  "job_deadline_monotonic_ns (started_job n j) = job_deadline_monotonic_ns j"
  by (simp_all add: started_job_def)

lemma item_fields_defer [simp]:
  "item_key (defer_item s r n i) = item_key i"
  "fst (defer_item s r n i) = fst i" "fst (snd (defer_item s r n i)) = fst (snd i)"
  "fst (snd (snd (defer_item s r n i))) = fst (snd (snd i))"
  "job_job_id (item_job (defer_item s r n i)) = job_job_id (item_job i)"
  "item_opp (defer_item s r n i) = item_opp i"
  "job_workload (item_job (defer_item s r n i)) = job_workload (item_job i)"
  "job_released_monotonic_ns (item_job (defer_item s r n i)) = job_released_monotonic_ns (item_job i)"
  "job_deadline_monotonic_ns (item_job (defer_item s r n i)) = job_deadline_monotonic_ns (item_job i)"
  by (simp_all add: defer_item_def item_key_def) (simp_all add: item_job_def)

text \<open>The abstract account of a whole dispatch: the state \<open>t\<close> it leaves.\<close>

definition dispatch_outcome :: "scheduler \<Rightarrow> ResourceSnapshot \<Rightarrow> int \<Rightarrow> scheduler \<Rightarrow> bool" where
  "dispatch_outcome s r n t \<longleftrightarrow>
     (let q = sch_queue s in
      mset (sch_queue t) = mset (map (defer_item s r n) (deferred_part s r n q)) + mset (tl (dropWhile (refused s r n) q)) \<and>
      sorted (map item_key (sch_queue t)) \<and>
      sch_active t = (case selected_job s r n q of None \<Rightarrow> sch_active s
        | Some j \<Rightarrow> AList.update (job_job_id j) (started_job n j) (sch_active s)) \<and>
      sch_deferred_ids t = (sch_deferred_ids s \<union> (job_job_id \<circ> item_job) ` set (deferred_part s r n q)) -
        (case selected_job s r n q of None \<Rightarrow> {} | Some j \<Rightarrow> {job_job_id j}) \<and>
      dispatch_frame s t \<and>
      (\<forall>k. k \<notin> item_opp ` set (takeWhile (refused s r n) q) \<longrightarrow>
         disposition_of (sch_opportunities t) k = disposition_of (sch_opportunities s) k) \<and>
      (\<forall>i \<in> set (takeWhile (refused s r n) q).
         disposition_of (sch_opportunities t) (item_opp i) = Some OD_SKIPPED \<or>
         disposition_of (sch_opportunities t) (item_opp i) = Some OD_DEFERRED \<and>
         item_opp i \<in> item_opp ` set (deferred_part s r n q)) \<and>
      (distinct (map item_opp q) \<longrightarrow>
         (\<forall>i \<in> set (rejected_part s r n q). disposition_of (sch_opportunities t) (item_opp i) = Some OD_SKIPPED) \<and>
         (\<forall>i \<in> set (deferred_part s r n q). disposition_of (sch_opportunities t) (item_opp i) = Some OD_DEFERRED)))"

lemma set_scan_parts:
  "set (deferred_part s r n q) \<union> set (rejected_part s r n q) = set (takeWhile (refused s r n) q)"
  "set (deferred_part s r n q) \<subseteq> set q" "set (rejected_part s r n q) \<subseteq> set q"
  by (auto simp: deferred_part_def rejected_part_def dest: set_takeWhileD)

lemma selected_job_mem:
  "selected_job s r n q = Some j \<Longrightarrow> \<exists>i \<in> set q. j = item_job i \<and> \<not> refused s r n i \<and>
     q = takeWhile (refused s r n) q @ i # tl (dropWhile (refused s r n) q)"
proof -
  assume "selected_job s r n q = Some j"
  then obtain i rest where d: "dropWhile (refused s r n) q = i # rest" and j: "j = item_job i"
    by (auto simp: selected_job_def split: list.splits)
  from d have "i \<in> set q" by (metis set_dropWhileD list.set_intros(1))
  moreover from d have "\<not> refused s r n i" by (simp add: dropWhile_eq_Cons_conv)
  ultimately show ?thesis
    using d j takeWhile_dropWhile_id[of "refused s r n" q] by (intro bexI[of _ i]) simp_all
qed

lemma disposition_of_started:
  "mark_started l k n = Inr l' \<Longrightarrow> disposition_of l' k' = disposition_of l k'"
  by (simp add: mark_started_def disposition_of_def led.lookup_modify option.map_comp comp_def)

lemma dispatch_frame_queue: "dispatch_frame s t \<Longrightarrow> dispatch_frame s (t\<lparr>sch_queue := q, sch_deferred_ids := d, sch_active := a\<rparr>)"
  "dispatch_frame s t \<Longrightarrow> dispatch_frame s (t\<lparr>sch_queue := q\<rparr>)"
  by (simp_all add: dispatch_frame_def)

lemma scan_result_outcome:
  assumes inv: "sched_inv s" and t: "scan_result s r n (sch_queue s) t"
    and u: "sch_queue u = fold (\<lambda>i q. heappush q i) (map (defer_item s r n) (deferred_part s r n (sch_queue s))) (sch_queue t)"
      "sch_active u = (case selected_job s r n (sch_queue s) of None \<Rightarrow> sch_active t
        | Some j \<Rightarrow> AList.update (job_job_id j) (started_job n j) (sch_active t))"
      "sch_deferred_ids u = sch_deferred_ids t - (case selected_job s r n (sch_queue s) of None \<Rightarrow> {} | Some j \<Rightarrow> {job_job_id j})"
      "dispatch_frame t u" "\<And>k. disposition_of (sch_opportunities u) k = disposition_of (sch_opportunities t) k"
  shows "dispatch_outcome s r n u"
proof -
  have "sorted_wrt (\<lambda>x y. item_key x \<le> item_key y) (sch_queue s)"
    using queue_ok_sorted[OF sched_inv_facts(1)[OF inv]] by (simp add: sorted_map)
  then have "sorted_wrt (\<lambda>x y. item_key x \<le> item_key y) (dropWhile (refused s r n) (sch_queue s))"
    by (rule sorted_wrt_dropWhile)
  then have "sorted_wrt (\<lambda>x y. item_key x \<le> item_key y) (tl (dropWhile (refused s r n) (sch_queue s)))"
    by (rule sorted_wrt_tail)
  then have srt: "sorted (map item_key (sch_queue t))"
    using t by (simp add: scan_result_def sorted_map)
  have h: "sorted (map item_key (sch_queue u))"
    unfolding u(1) using srt by (rule heap.invar_fold_push)
  have m: "mset (sch_queue u) = mset (map (defer_item s r n) (deferred_part s r n (sch_queue s))) + mset (sch_queue t)"
    unfolding u(1) using srt by (rule heap.items_fold_push)
  have f: "dispatch_frame s u"
    using t u(4) by (auto simp only: scan_result_def intro: dispatch_frame_trans)
  have k: "\<forall>k. k \<notin> item_opp ` set (takeWhile (refused s r n) (sch_queue s)) \<longrightarrow>
      disposition_of (sch_opportunities t) k = disposition_of (sch_opportunities s) k"
    using t by (simp add: scan_result_def disposition_of_def)
  show ?thesis
    using t h m f k u(2,3) unfolding dispatch_outcome_def scan_result_def Let_def u(5)
    by (simp only: simp_thms) blast
qed

lemma dispatch_scan:
  assumes "sched_inv s"
  shows "\<exists>t. dispatch s r n =
       (Inr (map_option (started_job n) (selected_job s r n (sch_queue s))), t,
        map (reject_job s r n) (rejected_part s r n (sch_queue s))) \<and>
     dispatch_outcome s r n t"
proof (cases "sch_queue s = []")
  case True
  then show ?thesis
    using assms
    by (auto simp: dispatch_def dispatch_outcome_def selected_job_def deferred_part_def rejected_part_def
        dispatch_frame_refl)
next
  case False
  have keys: "\<forall>i \<in> set (sch_queue s). item_opp i \<in> fst ` set (sch_opportunities s)"
    using queue_ok_item(4)[OF sched_inv_facts(1)[OF assms]] by blast
  obtain t where run: "dispatch_loop r n s [] [] = (Inr (selected_job s r n (sch_queue s)), t,
        map (defer_item s r n) (deferred_part s r n (sch_queue s)),
        map (reject_job s r n) (rejected_part s r n (sch_queue s)))"
    and t: "scan_result s r n (sch_queue s) t"
    using dispatch_loop_scan[OF keys, of r n "[]" "[]"] by auto
  let ?q = "fold (\<lambda>i q. heappush q i) (map (defer_item s r n) (deferred_part s r n (sch_queue s))) (sch_queue t)"
  show ?thesis
  proof (cases "selected_job s r n (sch_queue s)")
    case None
    have "dispatch_outcome s r n (t\<lparr>sch_queue := ?q\<rparr>)"
      by (rule scan_result_outcome[OF assms t]) (simp_all add: None dispatch_frame_queue dispatch_frame_refl)
    with run None False show ?thesis by (simp add: dispatch_def)
  next
    case (Some j)
    define u where "u = t\<lparr>sch_queue := ?q, sch_deferred_ids := sch_deferred_ids t - {job_job_id j},
      sch_active := AList.update (job_job_id j) (started_job n j) (sch_active t)\<rparr>"
    obtain i where "i \<in> set (sch_queue s)" "j = item_job i"
      using selected_job_mem[OF Some] by blast
    with keys t have "job_opportunity_id j \<in> fst ` set (sch_opportunities u)"
      by (auto simp: scan_result_def dispatch_frame_def u_def)
    then obtain l where l: "mark_started (sch_opportunities u) (job_opportunity_id j) n = Inr l"
      using modify_record_ok unfolding mark_started_def by blast
    have fr: "dispatch_frame t (u\<lparr>sch_opportunities := l\<rparr>)"
      by (rule dispatch_frame_trans[OF _ mark_keeps_frame(3)[OF l[unfolded mark_started_def]]])
        (simp_all add: u_def dispatch_frame_queue dispatch_frame_refl)
    have "dispatch_outcome s r n (u\<lparr>sch_opportunities := l\<rparr>)"
      by (rule scan_result_outcome[OF assms t _ _ _ fr])
        (simp_all add: u_def Some disposition_of_started[OF l])
    moreover have "dispatch s r n = (Inr (Some (started_job n j)), u\<lparr>sch_opportunities := l\<rparr>,
        map (reject_job s r n) (rejected_part s r n (sch_queue s)))"
      using run Some False l by (simp add: dispatch_def started_job_def u_def Let_def)
    ultimately show ?thesis using Some by simp
  qed
qed

end
