(* ===== verification/Scheduler_Props.thy ===== *)
theory Scheduler_Props
  imports Scheduler_Spec
begin

text \<open>
  Reachable states of the scheduler and the properties of its operations: the invariant holds in
  every reachable state, dispatch respects criticality and deadlines, loses no job, serialises
  unknown tier-A interference, keeps the memory reserve and bounds deferral.
\<close>

section \<open>Every operation keeps the invariant\<close>

lemma interferes_sym: "interferes s a b = interferes s b a"
  by (auto simp: interferes_def sorted_pair_def min.commute max.commute)

lemma sched_inv_init: "ledger_inv l \<Longrightarrow> sched_inv (scheduler_init qmax res m ap l ps)"
  by (simp add: sched_inv_def scheduler_init_def queue_ok_def registry_ok_def active_ok_def)

lemma interferes_pairs: "sch_safe_pairs t = sch_safe_pairs s \<Longrightarrow> interferes t = interferes s"
  by (simp add: interferes_def fun_eq_iff)

text \<open>A state that differs only in registry, overload report, freeze flag and deferred ids.\<close>

lemma sched_inv_report:
  assumes "sched_inv s" "sch_queue t = sch_queue s" "sch_counter t = sch_counter s" "sch_queue_limit t = sch_queue_limit s"
    "sch_opportunities t = sch_opportunities s" "sch_active t = sch_active s" "sch_safe_pairs t = sch_safe_pairs s"
    "registry_ok (sch_registry t)" "distinct (sch_reason_codes t)"
  shows "sched_inv t"
  using assms by (simp add: sched_inv_def interferes_pairs[OF assms(7)])

lemma registry_ok_update: "registry_ok reg \<Longrightarrow> ws_workload_id w = k \<Longrightarrow> registry_ok (AList.update k w reg)"
  by (auto simp: registry_ok_def set_alist_update)

lemma registry_ok_lookup: "registry_ok reg \<Longrightarrow> map_of reg k = Some w \<Longrightarrow> ws_workload_id w = k"
  by (auto simp: registry_ok_def dest: map_of_SomeD)

lemma register_Inr: "register s spec = Inr t \<Longrightarrow>
    t = s\<lparr>sch_registry := AList.update (ws_workload_id spec) spec (sch_registry s)\<rparr> \<and> \<not> sch_frozen s"
  by (simp add: register_def split: if_splits)

lemma register_inv [invariant_intros]:
  assumes "sched_inv s" "register s spec = Inr t"
  shows "sched_inv t"
  by (rule sched_inv_report[OF assms(1)])
    (use register_Inr[OF assms(2)] sched_inv_facts(3,5)[OF assms(1)] in \<open>simp_all add: registry_ok_update\<close>)

lemma freeze_inv [invariant_intros]:
  assumes "sched_inv s"
  shows "sched_inv (freeze s)"
  by (rule sched_inv_report[OF assms]) (use sched_inv_facts[OF assms] in \<open>simp_all add: freeze_def\<close>)

lemma fallback_inv [invariant_intros]:
  assumes "sched_inv s"
  shows "sched_inv (snd (fallback_schedule s))"
  by (rule sched_inv_report[OF assms]) (use sched_inv_facts[OF assms] in \<open>simp_all add: fallback_schedule_def\<close>)

lemma declare_overload_simps [simp]:
  "sch_queue (declare_overload x s) = sch_queue s" "sch_counter (declare_overload x s) = sch_counter s"
  "sch_queue_limit (declare_overload x s) = sch_queue_limit s" "sch_opportunities (declare_overload x s) = sch_opportunities s"
  "sch_active (declare_overload x s) = sch_active s" "sch_safe_pairs (declare_overload x s) = sch_safe_pairs s"
  "sch_registry (declare_overload x s) = sch_registry s" "sch_frozen (declare_overload x s) = sch_frozen s"
  "sch_reason_codes (declare_overload x s) = append_new x (sch_reason_codes s)"
  by (simp_all add: declare_overload_def)

lemma reallocate_Inr:
  assumes "reallocate_cadence s w m c = Inr (spec, t)"
  obtains cur period where "map_of (sch_registry s) w = Some cur" "0 < m" "\<not> blank c" "\<not> sch_frozen s"
    "scaled_period (ws_period_ms cur) m = Inr period" "spec = cur\<lparr>ws_period_ms := period\<rparr>"
    "t = declare_overload (''cadence_reallocated:'' @ strip c) (s\<lparr>sch_registry := AList.update w spec (sch_registry s)\<rparr>)"
proof (cases "map_of (sch_registry s) w")
  case None
  with assms show thesis by (simp add: reallocate_cadence_def split: if_splits)
next
  case (Some cur)
  then obtain period where "scaled_period (ws_period_ms cur) m = Inr period"
    using assms by (auto simp: reallocate_cadence_def bind_result_Inr simp del: append.simps split: if_splits)
  with assms Some show thesis
    by (intro that[OF Some]; auto simp: reallocate_cadence_def Let_def not_le simp del: append.simps split: if_splits)
qed

lemma reallocate_inv [invariant_intros]:
  assumes "sched_inv s" "reallocate_cadence s w m c = Inr (spec, t)"
  shows "sched_inv t"
proof -
  obtain cur period where cur: "map_of (sch_registry s) w = Some cur"
    and spec: "spec = cur\<lparr>ws_period_ms := period\<rparr>"
    and t: "t = declare_overload (''cadence_reallocated:'' @ strip c) (s\<lparr>sch_registry := AList.update w spec (sch_registry s)\<rparr>)"
    by (rule reallocate_Inr[OF assms(2)])
  have "ws_workload_id spec = w"
    using registry_ok_lookup[OF sched_inv_facts(3)[OF assms(1)] cur] by (simp add: spec)
  then have "registry_ok (AList.update w spec (sch_registry s))"
    by (rule registry_ok_update[OF sched_inv_facts(3)[OF assms(1)]])
  then show ?thesis
    using sched_inv_facts(5)[OF assms(1)] by (intro sched_inv_report[OF assms(1)]) (simp_all add: t)
qed

text \<open>Growing the ledger keeps the invariant of everything that refers to it.\<close>

lemma sched_inv_ledger:
  assumes "sched_inv s" "ledger_inv l" "fst ` set (sch_opportunities s) \<subseteq> fst ` set l"
  shows "sched_inv (s\<lparr>sch_opportunities := l\<rparr>)"
  using sched_inv_facts[OF assms(1)] assms(2,3)
  by (simp add: sched_inv_def queue_ok_mono[OF _ assms(3)] active_ok_mono[OF _ assms(3)] interferes_pairs[of "s\<lparr>sch_opportunities := l\<rparr>" s])

lemma sched_inv_push:
  assumes "sched_inv s" "int (length (sch_queue s)) < sch_queue_limit s"
    "fst ` set (sch_opportunities s) \<subseteq> fst ` set l" "ledger_inv l" "job_opportunity_id job \<in> fst ` set l"
  shows "sched_inv (s\<lparr>sch_opportunities := l, sch_counter := Suc (sch_counter s),
     sch_queue := heappush (sch_queue s)
       (tier_int (ws_tier (job_workload job)), job_deadline_monotonic_ns job, sch_counter s, job)\<rparr>)"
    (is "sched_inv ?t")
proof -
  have i: "interferes ?t = interferes s" by (rule interferes_pairs) simp
  show ?thesis
    using sched_inv_facts[OF assms(1)] assms(2-5)
    unfolding sched_inv_def i
    by (simp add: queue_ok_push queue_ok_mono[OF _ assms(3)] active_ok_mono[OF _ assms(3)])
qed

definition queue_item_of :: "scheduler \<Rightarrow> JobRequest \<Rightarrow> queue_item" where
  "queue_item_of s job = (tier_int (ws_tier (job_workload job)), job_deadline_monotonic_ns job, sch_counter s, job)"

definition freeze_for_mode :: "scheduler \<Rightarrow> scheduler" where
  "freeze_for_mode s = (if sch_mode s \<in> {RM_BENCHMARK, RM_JUDGE} then freeze s else s)"

lemma freeze_for_mode_simps [simp]:
  "sch_queue (freeze_for_mode s) = sch_queue s" "sch_counter (freeze_for_mode s) = sch_counter s"
  "sch_opportunities (freeze_for_mode s) = sch_opportunities s" "sch_queue_limit (freeze_for_mode s) = sch_queue_limit s"
  "sch_registry (freeze_for_mode s) = sch_registry s" "sch_active (freeze_for_mode s) = sch_active s"
  "sch_mode (freeze_for_mode s) = sch_mode s"
  by (simp_all add: freeze_for_mode_def freeze_def)

lemma freeze_for_mode_inv: "sched_inv s \<Longrightarrow> sched_inv (freeze_for_mode s)"
  by (simp add: freeze_for_mode_def freeze_inv)

lemma offer_then_queue:
  assumes "ledger_inv l" "offer u f l w h sa ca ci = (opp, l1)"
  obtains l2 where "mark_queued l1 (opp_opportunity_id opp) ra nn dn = Inr l2" "ledger_inv l2" "ledger_inv l1"
    "fst ` set l2 = insert (opp_opportunity_id opp) (fst ` set l)" "fst ` set l1 = insert (opp_opportunity_id opp) (fst ` set l)"
    "disposition_of l2 (opp_opportunity_id opp) = Some OD_QUEUED"
    "\<And>k. k \<noteq> opp_opportunity_id opp \<Longrightarrow> map_of l2 k = map_of l k"
proof -
  have l1: "ledger_inv l1" "fst ` set l1 = insert (opp_opportunity_id opp) (fst ` set l)"
    "map_of l1 (opp_opportunity_id opp) = Some opp"
    using offer_inv[OF assms(1), of u f w h sa ca ci] offer_keys[of u f l w h sa ca ci]
      fst_offer_mem[of u f l w h sa ca ci] by (simp_all add: assms(2))
  then obtain l2 where l2: "mark_queued l1 (opp_opportunity_id opp) ra nn dn = Inr l2"
    unfolding mark_queued_def using modify_record_ok by blast
  note m = l2[unfolded mark_queued_def]
  have "map_of l1 k = map_of l k" if "k \<noteq> opp_opportunity_id opp" for k
    using assms(2) that by (auto simp: offer_def Let_def)
  then show thesis
    using l1 modify_record_inv[OF l1(1) m] modify_record_keys[OF m] led.lookup_modify[OF m]
    by (intro that[OF l2]) (auto simp: disposition_of_def)
qed

text \<open>Every outcome of a submission.\<close>

lemma submit_cases:
  assumes "sched_inv s"
  obtains
    (unknown) "map_of (sch_registry s) w = None"
      "submit u f s nu nn fj fc w p ra sa ca ci = (Inl (KeyError w), s)"
  | (full) spec where "map_of (sch_registry s) w = Some spec" "sch_queue_limit s \<le> int (length (sch_queue s))"
      "submit u f s nu nn fj fc w p ra sa ca ci = (Inl (AdmissionError ''bounded queue is full''), s)"
  | (invalid) spec l where "map_of (sch_registry s) w = Some spec" "nn < 0 \<or> nn + ws_deadline_ms spec * 1000000 < 0"
      "ledger_inv l" "fst ` set (sch_opportunities s) \<subseteq> fst ` set l"
      "submit u f s nu nn fj fc w p ra sa ca ci =
         (Inl (ValidationError ''JobRequest''), (freeze_for_mode s)\<lparr>sch_opportunities := l\<rparr>)"
  | (queued) spec l job where "map_of (sch_registry s) w = Some spec" "int (length (sch_queue s)) < sch_queue_limit s"
      "ledger_inv l" "fst ` set l = insert (job_opportunity_id job) (fst ` set (sch_opportunities s))"
      "disposition_of l (job_opportunity_id job) = Some OD_QUEUED"
      "\<And>k. k \<noteq> job_opportunity_id job \<Longrightarrow> map_of l k = map_of (sch_opportunities s) k"
      "job_workload job = spec" "job_job_id job = fj" "job_released_monotonic_ns job = nn" "job_status job = JS_QUEUED"
      "job_deadline_monotonic_ns job = nn + ws_deadline_ms spec * 1000000" "0 \<le> nn"
      "submit u f s nu nn fj fc w p ra sa ca ci = (Inr job, (freeze_for_mode s)\<lparr>sch_opportunities := l,
         sch_counter := Suc (sch_counter s), sch_queue := heappush (sch_queue s) (queue_item_of s job)\<rparr>)"
proof (cases "map_of (sch_registry s) w")
  case None
  then show thesis by (intro unknown) (simp_all add: submit_def)
next
  case (Some spec)
  show thesis
  proof (cases "sch_queue_limit s \<le> int (length (sch_queue s))")
    case True
    with Some show thesis by (intro full) (simp_all add: submit_def)
  next
    case False
    define rel where "rel = (case ra of None \<Rightarrow> nu | Some t \<Rightarrow> t)"
    define sch where "sch = (case sa of None \<Rightarrow> rel | Some t \<Rightarrow> t)"
    define cor where "cor = (case ci of None \<Rightarrow> fc | Some c \<Rightarrow> c)"
    define dn where "dn = nn + ws_deadline_ms spec * 1000000"
    obtain opp l1 where o: "offer u f (sch_opportunities s) (ws_workload_id spec) (ws_hazard spec) sch ca cor = (opp, l1)"
      by fastforce
    obtain l2 where l2: "mark_queued l1 (opp_opportunity_id opp) rel nn dn = Inr l2" "ledger_inv l2" "ledger_inv l1"
      "fst ` set l2 = insert (opp_opportunity_id opp) (fst ` set (sch_opportunities s))"
      "fst ` set l1 = insert (opp_opportunity_id opp) (fst ` set (sch_opportunities s))"
      "disposition_of l2 (opp_opportunity_id opp) = Some OD_QUEUED"
      "\<And>k. k \<noteq> opp_opportunity_id opp \<Longrightarrow> map_of l2 k = map_of (sch_opportunities s) k"
      using offer_then_queue[OF sched_inv_facts(2)[OF assms] o, of rel nn dn] by blast
    define job where "job = \<lparr>job_job_id = fj, job_opportunity_id = opp_opportunity_id opp,
                  job_correlation_id = cor, job_workload = spec, job_released_at = rel,
                  job_absolute_deadline = rel + ws_deadline_ms spec * 1000,
                  job_released_monotonic_ns = nn, job_deadline_monotonic_ns = dn,
                  job_payload = p, job_status = JS_QUEUED, job_deferral_count = 0,
                  job_reason_codes = [], job_service_started_monotonic_ns = None,
                  job_completed_monotonic_ns = None\<rparr>"
    have ok: "JobRequest_fields_ok job \<longleftrightarrow> 0 \<le> nn \<and> 0 \<le> dn"
      by (simp add: JobRequest_fields_ok_def job_def)
    have run: "submit u f s nu nn fj fc w p ra sa ca ci =
       (if \<not> JobRequest_fields_ok job then (Inl (ValidationError ''JobRequest''), (freeze_for_mode s)\<lparr>sch_opportunities := l1\<rparr>)
        else (Inr job, (freeze_for_mode s)\<lparr>sch_opportunities := l2,
         sch_counter := Suc (sch_counter s), sch_queue := heappush (sch_queue s) (queue_item_of s job)\<rparr>))"
      using False l2(1) o freeze_for_mode_simps(3)[of s]
      unfolding submit_def Some option.simps freeze_for_mode_def[symmetric] Let_def
        rel_def[symmetric] sch_def[symmetric] cor_def[symmetric] dn_def[symmetric]
      by (simp add: job_def[symmetric] queue_item_of_def) (simp add: job_def)
    show thesis
    proof (cases "JobRequest_fields_ok job")
      case True
      then show thesis
        using Some False l2 run ok
        by (intro queued[of spec l2 job]) (simp_all add: job_def dn_def)
    next
      case False
      then show thesis
        using Some l2 run ok by (intro invalid[of spec l1]) (auto simp: dn_def)
    qed
  qed
qed

lemma submit_inv [invariant_intros]:
  assumes "sched_inv s"
  shows "sched_inv (snd (submit u f s nu nn fj fc w p ra sa ca ci))"
proof (rule submit_cases[OF assms, of w u f nu nn fj fc p ra sa ca ci], goal_cases)
  case (3 spec l)
  then show ?case
    using freeze_for_mode_inv[OF assms] by (simp add: sched_inv_ledger)
next
  case (4 spec l job)
  then show ?case
    using sched_inv_push[OF freeze_for_mode_inv[OF assms], of l job] by (auto simp: queue_item_of_def)
qed (use assms in simp_all)

lemma admitted_no_clash:
  assumes "fst (verdict s r n job)" "(k, j) \<in> set (sch_active s)"
  shows "\<not> interferes s (job_workload j) (job_workload job)"
  using assms by (auto simp: verdict_def admissible_def Let_def split: if_splits)

lemma set_tl_subset: "set (tl xs) \<subseteq> set xs"
  by (cases xs) auto

lemma rest_distinct:
  assumes "distinct (map f q)"
  shows "distinct (map f (filter P (takeWhile R q) @ tl (dropWhile R q)))"
proof -
  have q: "q = takeWhile R q @ dropWhile R q" by simp
  from assms have "distinct (map f (takeWhile R q @ dropWhile R q))" using q by simp
  then have d: "distinct (map f (takeWhile R q))" "distinct (map f (dropWhile R q))"
    "f ` set (takeWhile R q) \<inter> f ` set (dropWhile R q) = {}"
    by (simp_all only: map_append distinct_append set_map)
  note sub = set_tl_subset[of "dropWhile R q"] filter_is_subset[of P "takeWhile R q"]
  have "f ` set (filter P (takeWhile R q)) \<inter> f ` set (tl (dropWhile R q)) = {}"
    using d(3) image_mono[OF sub(1), of f] image_mono[OF sub(2), of f] by blast
  then show ?thesis
    using d(1) distinct_map_filter[OF d(1), of P] distinct_tl[OF d(2)]
    by (simp only: map_append distinct_append set_map map_tl[symmetric] simp_thms)
qed

lemma queue_after_dispatch:
  assumes "dispatch_outcome s r n t"
  shows "mset (sch_queue t) = mset (map (defer_item s r n) (deferred_part s r n (sch_queue s)) @
       tl (dropWhile (refused s r n) (sch_queue s)))"
  using assms by (simp add: dispatch_outcome_def Let_def)

lemma dispatch_outcome_facts:
  assumes "dispatch_outcome s r n t"
  shows "sorted (map item_key (sch_queue t))" "dispatch_frame s t"
    "sch_active t = (case selected_job s r n (sch_queue s) of None \<Rightarrow> sch_active s
        | Some j \<Rightarrow> AList.update (job_job_id j) (started_job n j) (sch_active s))"
  using assms by (simp_all add: dispatch_outcome_def Let_def)

lemma map_defer_item: "(\<And>i. f (defer_item s r n i) = f i) \<Longrightarrow> map f (map (defer_item s r n) xs) = map f xs"
  by simp

lemma queue_t_item:
  assumes "dispatch_outcome s r n t" "i \<in> set (sch_queue t)"
  obtains i0 where "i0 \<in> set (sch_queue s)" "i = i0 \<or> i = defer_item s r n i0"
proof -
  have "set (sch_queue t) = set (map (defer_item s r n) (deferred_part s r n (sch_queue s)) @
       tl (dropWhile (refused s r n) (sch_queue s)))"
    by (rule mset_eq_setD[OF queue_after_dispatch[OF assms(1)]])
  with assms(2) have "i \<in> defer_item s r n ` set (deferred_part s r n (sch_queue s)) \<or>
      i \<in> set (tl (dropWhile (refused s r n) (sch_queue s)))"
    by (simp only: set_append set_map Un_iff)
  then show thesis
  proof
    assume "i \<in> defer_item s r n ` set (deferred_part s r n (sch_queue s))"
    then obtain i0 where "i0 \<in> set (deferred_part s r n (sch_queue s))" "i = defer_item s r n i0" by (rule imageE)
    then show thesis using that[of i0] subsetD[OF set_scan_parts(2)] by simp
  next
    assume "i \<in> set (tl (dropWhile (refused s r n) (sch_queue s)))"
    then have "i \<in> set (sch_queue s)"
      by (rule set_dropWhileD[OF subsetD[OF set_tl_subset]])
    then show thesis using that[of i] by simp
  qed
qed

lemma dispatch_queue_ok:
  assumes "queue_ok c b ks (sch_queue s)" "dispatch_outcome s r n t"
  shows "queue_ok c b ks (sch_queue t)"
proof -
  let ?rest = "deferred_part s r n (sch_queue s) @ tl (dropWhile (refused s r n) (sch_queue s))"
  let ?cnt = "\<lambda>i :: queue_item. fst (snd (snd i))"
  note m = queue_after_dispatch[OF assms(2)]
  have "mset (map ?cnt (sch_queue t)) = mset (map ?cnt ?rest)"
    by (simp only: mset_map m) (simp add: image_mset.compositionality comp_def)
  moreover have "distinct (map ?cnt ?rest)"
    unfolding deferred_part_def by (rule rest_distinct) (use assms(1) in \<open>simp add: queue_ok_def\<close>)
  ultimately have d: "distinct (map ?cnt (sch_queue t))"
    using mset_eq_imp_distinct_iff by blast
  have "length (sch_queue t) = length ?rest"
    using mset_eq_length[OF m] by simp
  also have "\<dots> \<le> length (takeWhile (refused s r n) (sch_queue s)) + length (dropWhile (refused s r n) (sch_queue s))"
    by (simp add: deferred_part_def add_mono)
  also have "\<dots> = length (sch_queue s)"
    by (metis length_append takeWhile_dropWhile_id)
  finally have len: "sch_queue t \<noteq> [] \<longrightarrow> int (length (sch_queue t)) \<le> b"
    using assms(1) by (auto simp: queue_ok_def)
  have "?cnt i < c \<and> fst i = tier_int (ws_tier (job_workload (item_job i))) \<and>
      fst (snd i) = job_deadline_monotonic_ns (item_job i) \<and> item_opp i \<in> ks" if i: "i \<in> set (sch_queue t)" for i
  proof -
    obtain i0 where "i0 \<in> set (sch_queue s)" "i = i0 \<or> i = defer_item s r n i0"
      by (rule queue_t_item[OF assms(2) i])
    then show ?thesis using queue_ok_item[OF assms(1), of i0] by auto
  qed
  then show ?thesis
    unfolding queue_ok_def using dispatch_outcome_facts(1)[OF assms(2)] d len by blast
qed

lemma dispatch_active_ok:
  assumes "active_ok (interferes s) ks (sch_active s)" "queue_ok c b ks (sch_queue s)" "dispatch_outcome s r n t"
  shows "active_ok (interferes s) ks (sch_active t)"
proof (cases "selected_job s r n (sch_queue s)")
  case None
  with assms(1) dispatch_outcome_facts(3)[OF assms(3)] show ?thesis by simp
next
  case (Some j)
  obtain i where i: "i \<in> set (sch_queue s)" "j = item_job i" "\<not> refused s r n i"
    using selected_job_mem[OF Some] by blast
  have "active_ok (interferes s) ks (AList.update (job_job_id (started_job n j)) (started_job n j) (sch_active s))"
    by (rule active_ok_update[OF assms(1)])
      (use i queue_ok_item(4)[OF assms(2) i(1)] admitted_no_clash[of s r n j]
        in \<open>auto simp: refused_def interferes_sym[of s "job_workload (item_job i)"]\<close>)
  then show ?thesis
    using dispatch_outcome_facts(3)[OF assms(3)] by (simp add: Some)
qed

lemma dispatch_outcome_inv:
  assumes "sched_inv s" "dispatch_outcome s r n t"
  shows "sched_inv t"
proof -
  note f = sched_inv_facts[OF assms(1)]
  have fr: "sch_counter t = sch_counter s" "sch_queue_limit t = sch_queue_limit s" "sch_registry t = sch_registry s"
    "fst ` set (sch_opportunities t) = fst ` set (sch_opportunities s)" "sch_safe_pairs t = sch_safe_pairs s"
    "ledger_inv (sch_opportunities s) \<longrightarrow> ledger_inv (sch_opportunities t)"
    "distinct (sch_reason_codes s) \<longrightarrow> distinct (sch_reason_codes t)"
    using dispatch_outcome_facts(2)[OF assms(2)] by (simp_all add: dispatch_frame_def)
  show ?thesis
    unfolding sched_inv_def fr(1-4) interferes_pairs[OF fr(5)]
    using dispatch_queue_ok[OF f(1) assms(2)] dispatch_active_ok[OF f(4,1) assms(2)] f fr(6,7) by blast
qed

lemma dispatch_inv [invariant_intros]:
  assumes "sched_inv s"
  shows "sched_inv (fst (snd (dispatch s r n)))"
  using dispatch_scan[OF assms, of r n] dispatch_outcome_inv[OF assms] by fastforce

lemma complete_inv [invariant_intros]:
  assumes "sched_inv s"
  shows "sched_inv (snd (complete s job n))"
proof -
  let ?s1 = "s\<lparr>sch_active := AList.delete (job_job_id job) (sch_active s)\<rparr>"
  have i: "interferes ?s1 = interferes s" by (rule interferes_pairs) simp
  have s1: "sched_inv ?s1"
    using sched_inv_facts[OF assms] unfolding sched_inv_def i by (simp add: active_ok_delete)
  show ?thesis
  proof (cases "mark_terminal (sch_opportunities ?s1) (job_opportunity_id job) OD_PROCESSED n None")
    case (Inl e)
    then show ?thesis using s1 assms by (simp add: complete_def Let_def)
  next
    case (Inr l)
    then have m: "modify_record (job_opportunity_id job) (\<lambda>x. x\<lparr>opp_completed_monotonic_ns := Some n,
        opp_disposition := OD_PROCESSED, opp_reason_codes := add_reason None (opp_reason_codes x)\<rparr>) (sch_opportunities ?s1) = Inr l"
      by (simp add: mark_terminal_def split: if_splits)
    have "sched_inv (?s1\<lparr>sch_opportunities := l\<rparr>)"
      by (rule sched_inv_ledger[OF s1 modify_record_inv[OF sched_inv_facts(2)[OF s1] m]])
        (use modify_record_keys[OF m] in simp_all)
    then show ?thesis using Inr assms by (simp add: complete_def Let_def)
  qed
qed

section \<open>Live jobs\<close>

text \<open>
  The jobs the scheduler holds are those of the heap and the active table. Under fresh job
  identifiers they are distinct, and every opportunity that has not reached a terminal disposition
  belongs to one of them.
\<close>

definition queue_ids :: "scheduler \<Rightarrow> uuid list" where
  "queue_ids s = map (\<lambda>i. job_job_id (item_job i)) (sch_queue s)"

definition live_ids :: "scheduler \<Rightarrow> uuid list" where
  "live_ids s = queue_ids s @ map fst (sch_active s)"

definition live_opps :: "scheduler \<Rightarrow> uuid set" where
  "live_opps s = item_opp ` set (sch_queue s) \<union> job_opportunity_id ` snd ` set (sch_active s)"

definition open_opps :: "ledger \<Rightarrow> uuid set" where
  "open_opps l = {k. \<exists>d. disposition_of l k = Some d \<and> d \<notin> terminal_dispositions}"

definition live_inv :: "scheduler \<Rightarrow> bool" where
  "live_inv s \<longleftrightarrow> sched_inv s \<and> distinct (live_ids s) \<and> open_opps (sch_opportunities s) \<subseteq> live_opps s \<and>
     (\<forall>w \<in> snd ` set (sch_registry s). WorkloadSpec_fields_ok w)"

lemma live_inv_facts:
  assumes "live_inv s"
  shows "sched_inv s" "distinct (live_ids s)" "open_opps (sch_opportunities s) \<subseteq> live_opps s"
    "\<forall>w \<in> snd ` set (sch_registry s). WorkloadSpec_fields_ok w"
  using assms unfolding live_inv_def by blast+

text \<open>A state that differs only in registry, overload report, freeze flag and deferred ids.\<close>

lemma live_inv_report:
  assumes "live_inv s" "sched_inv t" "sch_queue t = sch_queue s" "sch_active t = sch_active s"
    "sch_opportunities t = sch_opportunities s" "\<forall>w \<in> snd ` set (sch_registry t). WorkloadSpec_fields_ok w"
  shows "live_inv t"
  using assms by (simp add: live_inv_def live_ids_def queue_ids_def live_opps_def)

lemma live_registered:
  assumes "live_inv s" "map_of (sch_registry s) w = Some spec"
  shows "WorkloadSpec_fields_ok spec"
  using assms(1) dict_lookup_mem[OF assms(2)] unfolding live_inv_def by blast

lemma live_registry_update:
  assumes "live_inv s" "WorkloadSpec_fields_ok w"
  shows "\<forall>w' \<in> snd ` set (AList.update k w (sch_registry s)). WorkloadSpec_fields_ok w'"
  using assms by (auto simp: live_inv_def sched_inv_def registry_ok_def set_alist_update)

lemma register_live:
  assumes "live_inv s" "WorkloadSpec_fields_ok spec" "register s spec = Inr t"
  shows "live_inv t"
proof -
  have "sched_inv t" using assms(1) register_inv[OF _ assms(3)] unfolding live_inv_def by blast
  then show ?thesis
    by (rule live_inv_report[OF assms(1)])
      (use register_Inr[OF assms(3)] live_registry_update[OF assms(1,2)] in simp_all)
qed

lemma scaled_period_pos: "scaled_period p m = Inr q \<Longrightarrow> 1 \<le> q"
  by (auto simp: scaled_period_def Let_def split: if_splits)

lemma reallocate_live:
  assumes "live_inv s" "reallocate_cadence s w m c = Inr (spec, t)"
  shows "live_inv t"
proof -
  obtain cur period where cur: "map_of (sch_registry s) w = Some cur"
    and p: "scaled_period (ws_period_ms cur) m = Inr period" and spec: "spec = cur\<lparr>ws_period_ms := period\<rparr>"
    and t: "t = declare_overload (''cadence_reallocated:'' @ strip c) (s\<lparr>sch_registry := AList.update w spec (sch_registry s)\<rparr>)"
    by (rule reallocate_Inr[OF assms(2)])
  have ok: "WorkloadSpec_fields_ok spec"
    using live_registered[OF assms(1) cur] scaled_period_pos[OF p] by (simp add: WorkloadSpec_fields_ok_def spec)
  have "sched_inv t" using assms(1) reallocate_inv[OF _ assms(2)] unfolding live_inv_def by blast
  then show ?thesis
    by (rule live_inv_report[OF assms(1)]) (simp_all add: t live_registry_update[OF assms(1) ok])
qed

lemma open_opps_mono:
  assumes "\<And>k. k \<notin> A \<Longrightarrow> disposition_of l' k = disposition_of l k"
  shows "open_opps l' \<subseteq> open_opps l \<union> A"
  using assms by (force simp: open_opps_def)

lemma set_heappush: "set (heappush q i) = insert i (set q)"
  by (simp add: heappush_def set_insort_key)

lemma submit_live:
  assumes "live_inv s" "0 \<le> nn" "fj \<notin> set (live_ids s)"
  shows "live_inv (snd (submit u f s nu nn fj fc w p ra sa ca ci))"
proof (rule submit_cases[of s w u f nu nn fj fc p ra sa ca ci], goal_cases)
  case 1
  show ?case using assms(1) by (simp add: live_inv_def)
next
  case (4 spec l)
  then show ?case
    using assms(2) live_registered[OF assms(1) 4(1)] by (auto simp: WorkloadSpec_fields_ok_def)
next
  case (5 spec l job)
  let ?t = "snd (submit u f s nu nn fj fc w p ra sa ca ci)"
  have t: "sch_queue ?t = heappush (sch_queue s) (queue_item_of s job)" "sch_active ?t = sch_active s"
    "sch_opportunities ?t = l" "sch_registry ?t = sch_registry s"
    using 5 by simp_all
  have item: "item_job (queue_item_of s job) = job" by (simp add: queue_item_of_def item_job_def)
  have "mset (live_ids ?t) = mset (fj # live_ids s)"
    unfolding live_ids_def queue_ids_def t by (simp add: heappush_def item 5)
  then have d: "distinct (live_ids ?t)"
    using assms(1,3) mset_eq_imp_distinct_iff[of "live_ids ?t" "fj # live_ids s"] by (simp add: live_inv_def)
  have "open_opps l \<subseteq> open_opps (sch_opportunities s) \<union> {job_opportunity_id job}"
    by (rule open_opps_mono) (use 5(6) in \<open>simp add: disposition_of_def\<close>)
  also have "\<dots> \<subseteq> live_opps ?t"
    using assms(1) unfolding live_inv_def live_opps_def t by (auto simp: set_heappush item)
  finally have "open_opps (sch_opportunities ?t) \<subseteq> live_opps ?t"
    by (simp only: t)
  then show ?case
    using d assms(1) submit_inv[of s u f nu nn fj fc w p ra sa ca ci] t(4) by (simp add: live_inv_def)
qed (use assms(1) in simp_all)

lemma dispatch_ids:
  assumes "dispatch_outcome s r n t"
  shows "mset (queue_ids s) = mset (queue_ids t) + mset (map (\<lambda>i. job_job_id (item_job i)) (rejected_part s r n (sch_queue s))) +
    (case selected_job s r n (sch_queue s) of None \<Rightarrow> {#} | Some j \<Rightarrow> {#job_job_id j#})"
proof -
  let ?id = "\<lambda>i. job_job_id (item_job i)" and ?R = "refused s r n" and ?q = "sch_queue s"
  let ?def = "\<lambda>i. snd (verdict s r n (item_job i)) = None"
  have "mset (takeWhile ?R ?q) = mset (deferred_part s r n ?q) + mset (rejected_part s r n ?q)"
    by (simp add: deferred_part_def rejected_part_def)
  then have "image_mset ?id (mset (takeWhile ?R ?q)) =
      image_mset ?id (mset (deferred_part s r n ?q)) + image_mset ?id (mset (rejected_part s r n ?q))"
    by simp
  moreover have "image_mset ?id (mset (dropWhile ?R ?q)) = image_mset ?id (mset (tl (dropWhile ?R ?q))) +
      (case selected_job s r n ?q of None \<Rightarrow> {#} | Some j \<Rightarrow> {#job_job_id j#})"
    unfolding selected_job_def by (cases "dropWhile ?R ?q") (simp_all only: list.simps list.sel mset.simps option.simps
      image_mset_empty image_mset_add_mset empty_neutral union_mset_add_mset_right)
  moreover have "image_mset ?id (mset (sch_queue t)) =
      image_mset ?id (mset (deferred_part s r n ?q)) + image_mset ?id (mset (tl (dropWhile ?R ?q)))"
    unfolding queue_after_dispatch[OF assms] by (simp add: image_mset.compositionality comp_def)
  moreover have "mset ?q = mset (takeWhile ?R ?q) + mset (dropWhile ?R ?q)"
    by (metis mset_append takeWhile_dropWhile_id)
  ultimately show ?thesis
    by (simp add: queue_ids_def)
qed

lemma fst_set_update_fresh: "k \<notin> fst ` set d \<Longrightarrow> AList.update k v d = d @ [(k, v)]"
  by (induction d) auto

lemma dispatch_live_ids:
  assumes "distinct (live_ids s)" "dispatch_outcome s r n t"
  shows "distinct (live_ids t)" "set (sch_active t) = set (sch_active s) \<union>
    (case selected_job s r n (sch_queue s) of None \<Rightarrow> {} | Some j \<Rightarrow> {(job_job_id j, started_job n j)})"
proof -
  let ?rej = "map (\<lambda>i. job_job_id (item_job i)) (rejected_part s r n (sch_queue s))"
  note ids = dispatch_ids[OF assms(2)] and act = dispatch_outcome_facts(3)[OF assms(2)]
  have "distinct (live_ids t) \<and> set (sch_active t) = set (sch_active s) \<union>
    (case selected_job s r n (sch_queue s) of None \<Rightarrow> {} | Some j \<Rightarrow> {(job_job_id j, started_job n j)})"
  proof (cases "selected_job s r n (sch_queue s)")
    case None
    then have "mset (live_ids s) = mset (?rej @ live_ids t)"
      using ids act by (simp add: live_ids_def)
    then have "distinct (?rej @ live_ids t)" using assms(1) mset_eq_imp_distinct_iff by blast
    then show ?thesis using None act by simp
  next
    case (Some j)
    have "job_job_id j \<in># mset (queue_ids s)" using ids Some by simp
    then have "job_job_id j \<notin> fst ` set (sch_active s)"
      using assms(1) unfolding live_ids_def by auto
    then have a: "sch_active t = sch_active s @ [(job_job_id j, started_job n j)]"
      using act Some by (simp add: fst_set_update_fresh)
    have "mset (live_ids s) = mset (?rej @ live_ids t)"
      using ids Some by (simp add: live_ids_def a)
    then have "distinct (?rej @ live_ids t)" using assms(1) mset_eq_imp_distinct_iff by blast
    then show ?thesis using Some a by simp
  qed
  then show "distinct (live_ids t)" "set (sch_active t) = set (sch_active s) \<union>
    (case selected_job s r n (sch_queue s) of None \<Rightarrow> {} | Some j \<Rightarrow> {(job_job_id j, started_job n j)})"
    by blast+
qed

lemma dispatch_open_opps:
  assumes "dispatch_outcome s r n t"
  shows "open_opps (sch_opportunities t) \<subseteq>
    (open_opps (sch_opportunities s) - item_opp ` set (takeWhile (refused s r n) (sch_queue s))) \<union>
    item_opp ` set (deferred_part s r n (sch_queue s))"
proof
  fix k assume "k \<in> open_opps (sch_opportunities t)"
  then obtain d where d: "disposition_of (sch_opportunities t) k = Some d" "d \<notin> terminal_dispositions"
    by (auto simp: open_opps_def)
  have out: "\<forall>k. k \<notin> item_opp ` set (takeWhile (refused s r n) (sch_queue s)) \<longrightarrow>
      disposition_of (sch_opportunities t) k = disposition_of (sch_opportunities s) k"
    and inn: "\<forall>i \<in> set (takeWhile (refused s r n) (sch_queue s)).
        disposition_of (sch_opportunities t) (item_opp i) = Some OD_SKIPPED \<or>
        disposition_of (sch_opportunities t) (item_opp i) = Some OD_DEFERRED \<and>
        item_opp i \<in> item_opp ` set (deferred_part s r n (sch_queue s))"
    using assms unfolding dispatch_outcome_def Let_def by blast+
  show "k \<in> (open_opps (sch_opportunities s) - item_opp ` set (takeWhile (refused s r n) (sch_queue s))) \<union>
      item_opp ` set (deferred_part s r n (sch_queue s))"
  proof (cases "k \<in> item_opp ` set (takeWhile (refused s r n) (sch_queue s))")
    case True
    then obtain i where "i \<in> set (takeWhile (refused s r n) (sch_queue s))" "k = item_opp i" by (rule imageE)
    with inn d show ?thesis by (force simp: terminal_dispositions_def)
  next
    case False
    then show ?thesis using out d by (auto simp: open_opps_def)
  qed
qed

lemma subset_via: "A \<subseteq> (B - W) \<union> D \<Longrightarrow> B \<subseteq> L \<Longrightarrow> L - W \<subseteq> M \<Longrightarrow> D \<subseteq> M \<Longrightarrow> A \<subseteq> M"
  by blast

lemma subset_rest: "Q = T \<union> R \<Longrightarrow> R \<subseteq> M \<Longrightarrow> A \<subseteq> M \<Longrightarrow> Q \<union> A - T \<subseteq> M"
  by blast

lemma dispatch_live_opps:
  assumes "distinct (live_ids s)" "dispatch_outcome s r n t"
  shows "live_opps s - item_opp ` set (takeWhile (refused s r n) (sch_queue s)) \<subseteq> live_opps t"
    "item_opp ` set (deferred_part s r n (sch_queue s)) \<subseteq> live_opps t"
proof -
  let ?tw = "takeWhile (refused s r n) (sch_queue s)" and ?dw = "dropWhile (refused s r n) (sch_queue s)"
  have q: "set (sch_queue t) = defer_item s r n ` set (deferred_part s r n (sch_queue s)) \<union> set (tl ?dw)"
    using mset_eq_setD[OF queue_after_dispatch[OF assms(2)]] by (simp only: set_append set_map)
  show "item_opp ` set (deferred_part s r n (sch_queue s)) \<subseteq> live_opps t"
    unfolding live_opps_def q image_Un image_image item_fields_defer Un_assoc by (rule Un_upper1)
  note act = dispatch_live_ids(2)[OF assms]
  have "item_opp ` set ?dw \<subseteq> live_opps t"
  proof (cases ?dw)
    case Nil
    show ?thesis unfolding Nil by simp
  next
    case (Cons i rest)
    then have "selected_job s r n (sch_queue s) = Some (item_job i)" by (simp add: selected_job_def)
    then have "(job_job_id (item_job i), started_job n (item_job i)) \<in> set (sch_active t)"
      unfolding act by simp
    from imageI[OF imageI[OF this, of snd], of job_opportunity_id]
    have "item_opp i \<in> live_opps t" by (simp only: live_opps_def snd_conv started_job_simps UnI2)
    moreover have "item_opp ` set rest \<subseteq> live_opps t"
      unfolding live_opps_def q Cons list.sel image_Un by (rule le_supI1[OF Un_upper2])
    ultimately show ?thesis unfolding Cons by simp
  qed
  moreover have "item_opp ` set (sch_queue s) = item_opp ` set ?tw \<union> item_opp ` set ?dw"
    by (simp only: image_Un[symmetric] set_append[symmetric] takeWhile_dropWhile_id)
  moreover have "job_opportunity_id ` snd ` set (sch_active s) \<subseteq> live_opps t"
    unfolding live_opps_def act by (rule le_supI2[OF image_mono[OF image_mono[OF Un_upper1]]])
  ultimately show "live_opps s - item_opp ` set ?tw \<subseteq> live_opps t"
    unfolding live_opps_def[of s] by (intro subset_rest)
qed

lemma dispatch_state:
  assumes "sched_inv s"
  shows "dispatch_outcome s r n (fst (snd (dispatch s r n)))"
proof -
  obtain t where "dispatch s r n = (Inr (map_option (started_job n) (selected_job s r n (sch_queue s))), t,
        map (reject_job s r n) (rejected_part s r n (sch_queue s)))" and t: "dispatch_outcome s r n t"
    using dispatch_scan[OF assms, of r n] by blast
  then have "fst (snd (dispatch s r n)) = t" by (simp only: fst_conv snd_conv)
  with t show ?thesis by (simp only:)
qed

lemma dispatch_live:
  assumes "live_inv s"
  shows "live_inv (fst (snd (dispatch s r n)))"
proof -
  note inv = live_inv_facts(1)[OF assms] and d = live_inv_facts(2)[OF assms] and o = live_inv_facts(3)[OF assms]
  define t where "t = fst (snd (dispatch s r n))"
  have t: "dispatch_outcome s r n t" unfolding t_def by (rule dispatch_state[OF inv])
  have "open_opps (sch_opportunities t) \<subseteq> live_opps t"
    by (rule subset_via[OF dispatch_open_opps[OF t] o dispatch_live_opps[OF d t]])
  moreover have "sch_registry t = sch_registry s"
    using dispatch_outcome_facts(2)[OF t] by (simp add: dispatch_frame_def)
  then have "\<forall>w \<in> snd ` set (sch_registry t). WorkloadSpec_fields_ok w"
    using live_inv_facts(4)[OF assms] by (simp only:)
  ultimately show ?thesis
    unfolding live_inv_def t_def[symmetric] using dispatch_outcome_inv[OF inv t] dispatch_live_ids(1)[OF d t] by blast
qed

lemma complete_cases:
  assumes "sched_inv s" "(k, job) \<in> set (sch_active s)"
  obtains l where "complete s job n = (Inr (job\<lparr>job_status := JS_COMPLETED, job_completed_monotonic_ns := Some n\<rparr>),
      s\<lparr>sch_active := AList.delete (job_job_id job) (sch_active s), sch_opportunities := l\<rparr>)"
    "ledger_inv l" "fst ` set l = fst ` set (sch_opportunities s)"
    "disposition_of l (job_opportunity_id job) = Some OD_PROCESSED"
    "\<forall>j. j \<noteq> job_opportunity_id job \<longrightarrow> map_of l j = map_of (sch_opportunities s) j"
proof -
  have run: "job_status job = JS_RUNNING" and key: "job_opportunity_id job \<in> fst ` set (sch_opportunities s)"
    using sched_inv_facts(4)[OF assms(1)] assms(2) by (auto simp: active_ok_def)
  let ?f = "\<lambda>x. x\<lparr>opp_completed_monotonic_ns := Some n, opp_disposition := OD_PROCESSED,
      opp_reason_codes := add_reason None (opp_reason_codes x)\<rparr>"
  obtain l where l: "modify_record (job_opportunity_id job) ?f (sch_opportunities s) = Inr l"
    using modify_record_ok[OF key] by blast
  have "ledger_inv l" by (rule modify_record_inv[OF sched_inv_facts(2)[OF assms(1)] l]) simp
  moreover have "disposition_of l (job_opportunity_id job) = Some OD_PROCESSED"
    using l by (auto simp: disposition_of_def modify_record_Inr)
  moreover have "\<forall>j. j \<noteq> job_opportunity_id job \<longrightarrow> map_of l j = map_of (sch_opportunities s) j"
    using led.lookup_modify[OF l] by simp
  moreover have "complete s job n = (Inr (job\<lparr>job_status := JS_COMPLETED, job_completed_monotonic_ns := Some n\<rparr>),
      s\<lparr>sch_active := AList.delete (job_job_id job) (sch_active s), sch_opportunities := l\<rparr>)"
    using run l by (simp add: complete_def mark_terminal_def terminal_dispositions_def Let_def)
  ultimately show thesis
    using modify_record_keys[OF l] by (intro that)
qed

lemma complete_live:
  assumes "live_inv s" "(k, job) \<in> set (sch_active s)"
  shows "live_inv (snd (complete s job n))"
proof -
  note f = live_inv_facts[OF assms(1)]
  obtain l where l: "complete s job n = (Inr (job\<lparr>job_status := JS_COMPLETED, job_completed_monotonic_ns := Some n\<rparr>),
      s\<lparr>sch_active := AList.delete (job_job_id job) (sch_active s), sch_opportunities := l\<rparr>)"
    "ledger_inv l" "fst ` set l = fst ` set (sch_opportunities s)" "disposition_of l (job_opportunity_id job) = Some OD_PROCESSED"
    "\<forall>j. j \<noteq> job_opportunity_id job \<longrightarrow> map_of l j = map_of (sch_opportunities s) j"
    by (rule complete_cases[OF f(1) assms(2), where n = n])
  let ?t = "snd (complete s job n)"
  have t: "sch_queue ?t = sch_queue s" "sch_active ?t = AList.delete (job_job_id job) (sch_active s)"
    "sch_opportunities ?t = l" "sch_registry ?t = sch_registry s"
    by (simp_all add: l(1))
  have "distinct (live_ids ?t)"
    using f(2) by (auto simp: live_ids_def queue_ids_def t AList.delete_eq distinct_map_filter)
  moreover have "open_opps l \<subseteq> live_opps ?t"
  proof
    fix x assume x: "x \<in> open_opps l"
    then have ne: "x \<noteq> job_opportunity_id job"
      using l(4) by (auto simp: open_opps_def terminal_dispositions_def)
    with x have "x \<in> open_opps (sch_opportunities s)"
      by (simp add: open_opps_def disposition_of_def l(5))
    with f(3) have "x \<in> live_opps s" by blast
    moreover have "job_opportunity_id j = job_opportunity_id job" if "(job_job_id job, j) \<in> set (sch_active s)" for j
      using that assms(2) sched_inv_facts(4)[OF f(1)] by (auto simp: active_ok_def dict_ok_def dest: eq_key_imp_eq_value)
    ultimately show "x \<in> live_opps ?t"
      using ne by (force simp: live_opps_def t AList.delete_eq)
  qed
  ultimately show ?thesis
    using f(4) complete_inv[OF f(1), of job n] unfolding live_inv_def t by blast
qed

section \<open>Reachable states\<close>

text \<open>
  One call on a scheduler object, with the clock readings and identifiers it is given: specs pass
  their field validation, \<^verbatim>\<open>uuid4\<close> gives an identifier no live job has, the monotonic clock is not
  negative, and a job is completed by the caller that got it from a dispatch.
\<close>

inductive sched_step :: "scheduler \<Rightarrow> scheduler \<Rightarrow> bool" where
  step_register: "WorkloadSpec_fields_ok spec \<Longrightarrow> register s spec = Inr t \<Longrightarrow> sched_step s t"
| step_freeze: "sched_step s (freeze s)"
| step_reallocate: "reallocate_cadence s w m c = Inr (spec, t) \<Longrightarrow> sched_step s t"
| step_submit: "0 \<le> nn \<Longrightarrow> fj \<notin> set (live_ids s) \<Longrightarrow>
    submit u f s nu nn fj fc w p ra sa ca ci = (out, t) \<Longrightarrow> sched_step s t"
| step_dispatch: "dispatch s r n = (out, t, rejected) \<Longrightarrow> sched_step s t"
| step_complete: "(k, job) \<in> set (sch_active s) \<Longrightarrow> complete s job n = (out, t) \<Longrightarrow> sched_step s t"
| step_fallback: "fallback_schedule s = (ids, t) \<Longrightarrow> sched_step s t"

inductive sched_reachable :: "scheduler \<Rightarrow> bool" where
  reach_init: "sched_reachable (scheduler_init qmax res m ap [] ps)"
| reach_step: "sched_reachable s \<Longrightarrow> sched_step s t \<Longrightarrow> sched_reachable t"

inductive_cases sched_stepE: "sched_step s t"

lemma sched_step_live: "sched_step s t \<Longrightarrow> live_inv s \<Longrightarrow> live_inv t"
proof (induction rule: sched_step.induct)
  case (step_freeze s)
  show ?case
    by (rule live_inv_report[OF step_freeze freeze_inv[OF live_inv_facts(1)[OF step_freeze]]])
      (use live_inv_facts(4)[OF step_freeze] in \<open>simp_all add: freeze_def\<close>)
next
  case (step_submit nn fj s u f nu fc w p ra sa ca ci out t)
  then show ?case using submit_live[of s nn fj u f nu fc w p ra sa ca ci] by simp
next
  case (step_dispatch s r n out t rejected)
  then show ?case using dispatch_live[of s r n] by simp
next
  case (step_complete k job s n out t)
  then show ?case using complete_live[of s k job n] by simp
next
  case (step_fallback s ids t)
  then have t: "t = snd (fallback_schedule s)" by simp
  show ?case
    unfolding t
    by (rule live_inv_report[OF step_fallback(2) fallback_inv[OF live_inv_facts(1)[OF step_fallback(2)]]])
      (use live_inv_facts(4)[OF step_fallback(2)] in \<open>simp_all add: fallback_schedule_def\<close>)
qed (rule register_live reallocate_live; assumption)+

lemma reachable_live: "sched_reachable s \<Longrightarrow> live_inv s"
proof (induction rule: sched_reachable.induct)
  case (reach_init qmax res m ap ps)
  have "sched_inv (scheduler_init qmax res m ap [] ps)" by (rule sched_inv_init) (simp add: ledger_inv_def)
  then show ?case
    by (simp add: live_inv_def live_ids_def queue_ids_def live_opps_def open_opps_def disposition_of_def scheduler_init_def)
qed (rule sched_step_live)

lemmas reachable_inv = live_inv_facts(1)[OF reachable_live]

end
