(* ===== verification/Scheduler_Claims.thy ===== *)
theory Scheduler_Claims
  imports Scheduler_Props
begin

text \<open>
  The properties of the scheduler, each stated over the operations of \<open>Scheduler\<close> alone, and a
  concrete reachable scheduler on which each is applied.
\<close>

section \<open>A concrete run\<close>

definition demo_spec :: "string \<Rightarrow> CriticalityTier \<Rightarrow> WorkloadSpec" where
  "demo_spec w tier = \<lparr>ws_workload_id = w, ws_hazard = HK_FLOOD, ws_tier = tier, ws_period_ms = 1000, ws_deadline_ms = 500,
     ws_max_deferral_ms = 200, ws_estimated_cost_ms = 20, ws_memory_mb = 32, ws_profile_id = ''p'', ws_forced_scan_ms = None\<rparr>"

definition demo_resources :: "int \<Rightarrow> ResourceSnapshot" where
  "demo_resources mem = \<lparr>rs_cpu_pressure = 0, rs_memory_pressure = 0, rs_io_pressure = 0, rs_temperature_c = 40,
     rs_available_memory_mb = mem, rs_power_degraded = False\<rparr>"

definition demo_idle :: scheduler where
  "demo_idle = scheduler_init 8 64 RM_DEVELOPMENT None [] {}"

definition demo_registered :: scheduler where
  "demo_registered = demo_idle\<lparr>sch_registry :=
     [(''flood'', demo_spec ''flood'' TIER_A_IMMEDIATE), (''drought'', demo_spec ''drought'' TIER_D_PERIODIC)]\<rparr>"

definition demo_submit :: "scheduler \<Rightarrow> uuid \<Rightarrow> string \<Rightarrow> JobRequest result \<times> scheduler" where
  "demo_submit s job w = submit (\<lambda>name. name) (\<lambda>_. ''2026-01-01T00:00:00'') s 0 0 job ''corr'' w [] None None None None"

definition demo_queued :: scheduler where
  "demo_queued = snd (demo_submit (snd (demo_submit demo_registered ''job-1'' ''drought'')) ''job-2'' ''flood'')"

lemma demo_registered_reachable: "sched_reachable demo_registered"
proof -
  let ?s1 = "demo_idle\<lparr>sch_registry := [(''flood'', demo_spec ''flood'' TIER_A_IMMEDIATE)]\<rparr>"
  have "sched_reachable demo_idle" unfolding demo_idle_def by (rule reach_init)
  moreover have "sched_step demo_idle ?s1"
    by (rule step_register[of "demo_spec ''flood'' TIER_A_IMMEDIATE"])
      (simp_all add: WorkloadSpec_fields_ok_def demo_spec_def register_def demo_idle_def scheduler_init_def)
  moreover have "sched_step ?s1 demo_registered"
    by (rule step_register[of "demo_spec ''drought'' TIER_D_PERIODIC"])
      (simp_all add: WorkloadSpec_fields_ok_def demo_spec_def register_def demo_registered_def demo_idle_def scheduler_init_def)
  ultimately show ?thesis by (blast intro: reach_step)
qed

lemma demo_submit_step: "sched_reachable s \<Longrightarrow> job \<notin> set (live_ids s) \<Longrightarrow> sched_reachable (snd (demo_submit s job w))"
  unfolding demo_submit_def by (erule reach_step, rule step_submit[OF _ _ surjective_pairing]) simp_all

lemma demo_resources_simps [simp]: "rs_available_memory_mb (demo_resources m) = m" "\<not> rs_overloaded (demo_resources m)"
proof -
  have "f64 (1 / 2) = 1 / 2" using f64_dyadic[of 1 "-1"] by simp
  then have "0 < f64 (90 / 100)" "0 < f64 (85 / 100)"
    using f64_mono[of "1 / 2" "90 / 100"] f64_mono[of "1 / 2" "85 / 100"] by simp_all
  then show "\<not> rs_overloaded (demo_resources m)"
    by (simp add: rs_overloaded_def demo_resources_def)
qed (simp add: demo_resources_def)

lemmas demo_defs = demo_queued_def demo_submit_def demo_registered_def demo_idle_def scheduler_init_def

lemma demo_queued_eq:
  "sch_active demo_queued = []" "queue_ids demo_queued = [''job-2'', ''job-1'']"
  by (simp_all add: demo_defs demo_spec_def queue_ids_def submit_def offer_def JobRequest_fields_ok_def Let_def
      mark_queued_def modify_record_def heappush_def item_key_def item_job_def opportunity_key_def)

lemma demo_queued_reachable: "sched_reachable demo_queued"
  unfolding demo_queued_def
proof (intro demo_submit_step demo_registered_reachable)
  show "''job-1'' \<notin> set (live_ids demo_registered)"
    by (simp add: live_ids_def queue_ids_def demo_registered_def demo_idle_def scheduler_init_def)
  show "''job-2'' \<notin> set (live_ids (snd (demo_submit demo_registered ''job-1'' ''drought'')))"
    by (simp add: live_ids_def demo_defs demo_spec_def queue_ids_def submit_def offer_def JobRequest_fields_ok_def Let_def
        mark_queued_def modify_record_def heappush_def item_key_def item_job_def opportunity_key_def)
qed

lemmas demo_eval = demo_defs demo_spec_def submit_def offer_def JobRequest_fields_ok_def Let_def
  mark_queued_def modify_record_def heappush_def heappop_def item_key_def item_job_def opportunity_key_def
  admissible_def interferes_def elapsed_ms_def forced_scan_due_def mark_started_def tier_order

lemma demo_dispatch:
  "\<exists>j t. dispatch demo_queued (demo_resources 1024) 0 = (Inr (Some j), t, []) \<and> job_job_id j = ''job-2'' \<and>
     job_workload j = demo_spec ''flood'' TIER_A_IMMEDIATE \<and> sch_active t = [(''job-2'', j)]"
  by (simp add: dispatch_def dispatch_loop.simps demo_eval)

section \<open>Dispatch\<close>

lemma dispatch_result:
  assumes "sched_inv s" "dispatch s r n = (out, t, rejected)"
  shows "out = Inr (map_option (started_job n) (selected_job s r n (sch_queue s)))" "dispatch_outcome s r n t"
    "rejected = map (reject_job s r n) (rejected_part s r n (sch_queue s))"
  using dispatch_scan[OF assms(1), of r n] assms(2) by auto

lemma item_before:
  assumes "queue_ok c b ks q" "x \<in> set q" "y \<in> set q"
    "ws_tier (job_workload (item_job x)) < ws_tier (job_workload (item_job y)) \<or>
     ws_tier (job_workload (item_job x)) = ws_tier (job_workload (item_job y)) \<and>
     job_deadline_monotonic_ns (item_job x) < job_deadline_monotonic_ns (item_job y)"
  shows "item_key x < item_key y"
  using queue_ok_item[OF assms(1,2)] queue_ok_item[OF assms(1,3)] assms(4)
  by (auto simp: item_key_def tier_order)

lemma sorted_split_before:
  assumes "q = xs @ y # ys" "sorted (map f q)" "x \<in> set q" "f x < f y"
  shows "x \<in> set xs"
  using assms by (fastforce simp: sorted_append)

definition precedes :: "JobRequest \<Rightarrow> JobRequest \<Rightarrow> bool" where
  "precedes x j \<longleftrightarrow> ws_tier (job_workload x) < ws_tier (job_workload j) \<or>
     ws_tier (job_workload x) = ws_tier (job_workload j) \<and> job_deadline_monotonic_ns x < job_deadline_monotonic_ns j"

lemma selected_first:
  assumes "queue_ok c b ks q" "selected_job s r n q = Some j"
  shows "\<exists>i \<in> set q. j = item_job i \<and> \<not> refused s r n i \<and> (\<forall>x \<in> set q. precedes (item_job x) j \<longrightarrow> refused s r n x)"
proof -
  obtain i where i: "i \<in> set q" "j = item_job i" "\<not> refused s r n i"
    and q: "q = takeWhile (refused s r n) q @ i # tl (dropWhile (refused s r n) q)"
    using selected_job_mem[OF assms(2)] by (elim bexE conjE)
  have "refused s r n x" if x: "x \<in> set q" and less: "precedes (item_job x) j" for x
  proof -
    have k: "item_key x < item_key i"
      by (rule item_before[OF assms(1) x i(1)]) (use less in \<open>simp only: precedes_def i(2)\<close>)
    have "x \<in> set (takeWhile (refused s r n) q)"
      by (rule sorted_split_before[OF q queue_ok_sorted[OF assms(1)] x k])
    from set_takeWhileD[OF this] show ?thesis by (rule conjunct2)
  qed
  with i show ?thesis by blast
qed

text \<open>
  C1: A dispatch on a reachable scheduler never raises. When it returns no job, every queued job is
  refused by the admission test; when it returns one, that job was queued and admitted, and every
  queued job of a more critical tier, or of the same tier with an earlier deadline, is refused.
\<close>

theorem dispatch_first_admissible:
  assumes "sched_reachable s" "dispatch s r n = (out, t, rejected)"
  shows "\<exists>sel. out = Inr sel \<and>
    (case sel of
       None \<Rightarrow> \<forall>i \<in> set (sch_queue s). \<not> fst (fst (admissible s (item_job i) r n))
     | Some j \<Rightarrow> \<exists>i \<in> set (sch_queue s).
         j = (item_job i)\<lparr>job_status := JS_RUNNING, job_service_started_monotonic_ns := Some n\<rparr> \<and>
         fst (fst (admissible s (item_job i) r n)) \<and>
         (\<forall>x \<in> set (sch_queue s).
            precedes (item_job x) j \<longrightarrow>
            \<not> fst (fst (admissible s (item_job x) r n))))"
proof (cases "selected_job s r n (sch_queue s)")
  case None
  then have "\<forall>i \<in> set (sch_queue s). refused s r n i"
    by (simp add: selected_job_def split: list.splits)
  with None show ?thesis
    using dispatch_result(1)[OF reachable_inv[OF assms(1)] assms(2)] by (simp add: refused_def verdict_def)
next
  case (Some j)
  have p: "precedes x (started_job n j) = precedes x j" for x by (simp add: precedes_def)
  have out: "out = Inr (Some (started_job n j))"
    using Some dispatch_result(1)[OF reachable_inv[OF assms(1)] assms(2)] by simp
  show ?thesis
    using selected_first[OF sched_inv_facts(1)[OF reachable_inv[OF assms(1)]] Some]
    unfolding out refused_def verdict_def started_job_def[symmetric]
    by (intro exI[of _ "Some (started_job n j)"]) (auto simp only: option.simps p)
qed

text \<open>
  C19: A dispatch loses and duplicates no job: the identifiers queued before are those queued after,
  those of the jobs it rejected and that of the job it returned.
\<close>

theorem dispatch_conserves_jobs:
  assumes "sched_reachable s" "dispatch s r n = (out, t, rejected)"
  shows "\<exists>sel. out = Inr sel \<and> mset (map (\<lambda>i. job_job_id (item_job i)) (sch_queue s)) =
    mset (map (\<lambda>i. job_job_id (item_job i)) (sch_queue t)) + mset (map job_job_id rejected) +
    (case sel of None \<Rightarrow> {#} | Some j \<Rightarrow> {#job_job_id j#})"
proof -
  note d = dispatch_result[OF reachable_inv[OF assms(1)] assms(2)]
  have "map job_job_id rejected = map (\<lambda>i. job_job_id (item_job i)) (rejected_part s r n (sch_queue s))"
    by (simp add: d(3) reject_job_def)
  then show ?thesis
    using dispatch_ids[OF d(2)] unfolding queue_ids_def d(1)
    by (cases "selected_job s r n (sch_queue s)") simp_all
qed

text \<open>
  C6: In every reachable state two active jobs of which one is tier A run workloads whose pair is
  declared safe: unknown tier-A interference is serialised.
\<close>

theorem active_tier_a_serialised:
  assumes "sched_reachable s" "(a, x) \<in> set (sch_active s)" "(b, y) \<in> set (sch_active s)" "a \<noteq> b"
    "ws_tier (job_workload x) = TIER_A_IMMEDIATE"
  shows "sorted_pair (ws_workload_id (job_workload x)) (ws_workload_id (job_workload y)) \<in> sch_safe_pairs s"
proof -
  have "\<not> interferes s (job_workload x) (job_workload y)"
    using sched_inv_facts(4)[OF reachable_inv[OF assms(1)]] assms(2-4) unfolding active_ok_def by blast
  with assms(5) show ?thesis by (simp add: interferes_def)
qed

text \<open>
  C33: When no opportunity is open, the ledger balances: in a reachable state with an empty queue
  and no active job every offered opportunity has a terminal disposition.
\<close>

theorem quiescent_ledger_balanced:
  assumes "sched_reachable s" "sch_queue s = []" "sch_active s = []"
  shows "rec_balanced (reconcile (sch_opportunities s))"
proof -
  have "open_opps (sch_opportunities s) = {}"
    using live_inv_facts(3)[OF reachable_live[OF assms(1)]] assms(2,3) by (simp add: live_opps_def)
  moreover have "dict_ok (sch_opportunities s)"
    using sched_inv_facts(2)[OF reachable_inv[OF assms(1)]] by (simp add: ledger_inv_def)
  ultimately have "opp_disposition v \<in> terminal_dispositions" if "(k, v) \<in> set (sch_opportunities s)" for k v
    using that by (auto simp: open_opps_def disposition_of_def dict_ok_mem_iff)
  then have "filter (\<lambda>v. opp_disposition v \<in> terminal_dispositions) (map snd (sch_opportunities s)) = map snd (sch_opportunities s)"
    by (auto simp: filter_id_conv)
  then show ?thesis by (simp add: reconcile_def Let_def)
qed


section \<open>Admission\<close>

text \<open>
  The admission test admits a job exactly when no active job interferes, its memory fits, and
  one of these holds: its forced scan is due; it is tier A; it leaves the tier-A reserve and the
  node is not overloaded, or is and the job is at most tier B; or it is at most tier C and its
  maximal deferral has elapsed.
\<close>

theorem admission_rule:
  "fst (fst (admissible s job r n)) \<longleftrightarrow>
     (\<forall>a \<in> set (map snd (sch_active s)). \<not> interferes s (job_workload a) (job_workload job)) \<and>
     ws_memory_mb (job_workload job) \<le> rs_available_memory_mb r \<and>
     (forced_scan_due (job_workload job) (elapsed_ms job n) \<or>
      ws_tier (job_workload job) = TIER_A_IMMEDIATE \<or>
      ws_tier (job_workload job) \<le> TIER_C_TIMELY \<and> of_int (ws_max_deferral_ms (job_workload job)) \<le> elapsed_ms job n \<or>
      sch_tier_a_reserve_memory_mb s \<le> rs_available_memory_mb r - ws_memory_mb (job_workload job) \<and>
      (rs_overloaded r \<longrightarrow> ws_tier (job_workload job) \<le> TIER_B_URGENT))"
proof -
  have BC: "ws_tier (job_workload job) \<le> TIER_B_URGENT \<Longrightarrow> ws_tier (job_workload job) \<le> TIER_C_TIMELY"
    by (simp add: tier_order)
  show ?thesis
    unfolding admissible_def Let_def using BC by (auto simp: not_less)
qed

text \<open>
  C32: Deferral is bounded: once a job has waited for its maximal deferral (in milliseconds, on the
  nanosecond clock) and no active job interferes, the admission test admits it or rejects it with
  a reason; it is not deferred again. The rounding of the elapsed time to a float does not delay this.
\<close>

theorem deferral_is_bounded:
  assumes "ws_max_deferral_ms (job_workload job) * 1000000 \<le> n - job_released_monotonic_ns job"
    "0 \<le> ws_max_deferral_ms (job_workload job)" "ws_max_deferral_ms (job_workload job) < 2 ^ 53"
    "\<forall>a \<in> set (map snd (sch_active s)). \<not> interferes s (job_workload a) (job_workload job)"
  shows "fst (admissible s job r n) = (True, None) \<or> (\<exists>reason. fst (admissible s job r n) = (False, Some reason))"
proof -
  let ?m = "ws_max_deferral_ms (job_workload job)"
  have "of_int (?m * 1000000) \<le> (of_int (n - job_released_monotonic_ns job) :: rat)"
    using assms(1) by (simp only: of_int_le_iff)
  then have "of_int ?m \<le> (of_int (n - job_released_monotonic_ns job) / 1000000 :: rat)"
    by (simp add: le_divide_eq)
  then have "f64 (of_int ?m) \<le> elapsed_ms job n"
    unfolding elapsed_ms_def by (rule f64_mono)
  then have "of_int ?m \<le> elapsed_ms job n"
    using assms(2,3) by (simp add: f64_of_int)
  then show ?thesis
    using assms(4) unfolding admissible_def Let_def by auto
qed

section \<open>Submission, completion and the registry\<close>

text \<open>
  A submission to a reachable scheduler with a fresh identifier and a clock reading that is not
  negative has three outcomes: an unknown workload raises \<open>KeyError\<close> and a full queue raises
  \<open>AdmissionError\<close>, both leaving the scheduler as it was; otherwise the job returned is queued
  under its tier and deadline, its opportunity is recorded as queued, and nothing else in queue,
  active table, registry or the other opportunities changes, except that the benchmark and judge
  modes freeze the registry.
\<close>

theorem submit_outcomes:
  assumes "sched_reachable s" "0 \<le> nn" "submit u f s nu nn fj fc w p ra sa ca ci = (out, t)"
  shows "case map_of (sch_registry s) w of
      None \<Rightarrow> out = Inl (KeyError w) \<and> t = s
    | Some spec \<Rightarrow>
        if sch_queue_limit s \<le> int (length (sch_queue s))
        then out = Inl (AdmissionError ''bounded queue is full'') \<and> t = s
        else \<exists>job. out = Inr job \<and> job_workload job = spec \<and> job_job_id job = fj \<and> job_status job = JS_QUEUED \<and>
          job_deadline_monotonic_ns job = nn + ws_deadline_ms spec * 1000000 \<and>
          mset (sch_queue t) = add_mset (tier_int (ws_tier spec), job_deadline_monotonic_ns job, sch_counter s, job) (mset (sch_queue s)) \<and>
          sch_active t = sch_active s \<and> sch_registry t = sch_registry s \<and>
          (sch_frozen t \<longleftrightarrow> sch_frozen s \<or> sch_mode s = RM_BENCHMARK \<or> sch_mode s = RM_JUDGE) \<and>
          map_option opp_disposition (map_of (sch_opportunities t) (job_opportunity_id job)) = Some OD_QUEUED \<and>
          (\<forall>k. k \<noteq> job_opportunity_id job \<longrightarrow> map_of (sch_opportunities t) k = map_of (sch_opportunities s) k)"
proof (rule submit_cases[OF reachable_inv[OF assms(1)], of w u f nu nn fj fc p ra sa ca ci], goal_cases)
  case 1
  with assms(3) show ?case by simp
next
  case (2 spec)
  with assms(3) show ?case by simp
next
  case (3 spec l)
  then show ?case
    using assms(2) live_registered[OF reachable_live[OF assms(1)] 3(1)] by (auto simp: WorkloadSpec_fields_ok_def)
next
  case (4 spec l job)
  then have t: "t = (freeze_for_mode s)\<lparr>sch_opportunities := l, sch_counter := Suc (sch_counter s),
      sch_queue := heappush (sch_queue s) (queue_item_of s job)\<rparr>" and out: "out = Inr job"
    using assms(3) by simp_all
  from 4 show ?case
    unfolding out by (simp add: t disposition_of_def queue_item_of_def heappush_def) (simp add: freeze_for_mode_def freeze_def)
qed

lemma step_frozen: "sched_step s t \<Longrightarrow> sched_reachable s \<Longrightarrow> sch_frozen s \<Longrightarrow> sch_frozen t \<and> sch_registry t = sch_registry s"
proof (induction rule: sched_step.induct)
  case (step_submit nn fj s u f nu fc w p ra sa ca ci out t)
  then have t: "t = snd (submit u f s nu nn fj fc w p ra sa ca ci)" by simp
  show ?case
    unfolding t
    by (rule submit_cases[OF reachable_inv[OF step_submit(4)], of w u f nu nn fj fc p ra sa ca ci])
      (use step_submit(5) in \<open>simp_all add: freeze_for_mode_def freeze_def\<close>)
next
  case (step_dispatch s r n out t rejected)
  then show ?case
    using dispatch_outcome_facts(2)[OF dispatch_result(2)[OF reachable_inv step_dispatch(1)]] by (simp add: dispatch_frame_def)
next
  case (step_complete k job s n out t)
  then have t: "t = snd (complete s job n)" by simp
  show ?case
    unfolding t by (rule complete_cases[OF reachable_inv[OF step_complete(3)] step_complete(1), where n = n])
      (use step_complete(4) in simp)
next
  case (step_reallocate s w m c spec t)
  then show ?case by (simp add: reallocate_cadence_def)
qed (auto simp: register_def freeze_def fallback_schedule_def)

text \<open>
  Once the registry is frozen no later call changes it or unfreezes it.
\<close>

theorem registry_frozen_forever:
  assumes "sched_reachable s" "sch_frozen s" "sched_step\<^sup>*\<^sup>* s t"
  shows "sch_frozen t \<and> sch_registry t = sch_registry s"
proof -
  from assms(3) have "sch_frozen t \<and> sch_registry t = sch_registry s \<and> sched_reachable t"
  proof (induction rule: rtranclp_induct)
    case base
    with assms show ?case by simp
  next
    case (step x y)
    with step_frozen[of x y] reach_step[of x y] show ?case by simp
  qed
  then show ?thesis by blast
qed

text \<open>
  Completing an active job of a reachable scheduler succeeds: the job is returned as completed
  and is the only one to leave the active table, its opportunity is recorded as processed, and no
  other opportunity changes. A job that is not running is refused with the scheduler unchanged.
\<close>

theorem complete_outcomes:
  assumes "sched_reachable s" "complete s job n = (out, t)"
  shows "(job_status job \<noteq> JS_RUNNING \<longrightarrow> out = Inl (ValueError ''only running jobs can complete'') \<and> t = s) \<and>
    ((k, job) \<in> set (sch_active s) \<longrightarrow>
       out = Inr (job\<lparr>job_status := JS_COMPLETED, job_completed_monotonic_ns := Some n\<rparr>) \<and>
       set (sch_active t) = set (sch_active s) - {(k, job)} \<and> sch_queue t = sch_queue s \<and>
       map_option opp_disposition (map_of (sch_opportunities t) (job_opportunity_id job)) = Some OD_PROCESSED \<and>
       (\<forall>k. k \<noteq> job_opportunity_id job \<longrightarrow> map_of (sch_opportunities t) k = map_of (sch_opportunities s) k))"
proof (rule conjI; rule impI)
  assume "job_status job \<noteq> JS_RUNNING"
  then show "out = Inl (ValueError ''only running jobs can complete'') \<and> t = s"
    using assms(2) by (simp add: complete_def)
next
  assume active: "(k, job) \<in> set (sch_active s)"
  note inv = reachable_inv[OF assms(1)]
  have k: "job_job_id job = k" "dict_ok (sch_active s)"
    using sched_inv_facts(4)[OF inv] active unfolding active_ok_def by blast+
  have del: "set (AList.delete k (sch_active s)) = set (sch_active s) - {(k, job)}"
    using active k(2) by (auto simp: AList.delete_eq dict_ok_def dest: eq_key_imp_eq_value)
  show "out = Inr (job\<lparr>job_status := JS_COMPLETED, job_completed_monotonic_ns := Some n\<rparr>) \<and>
       set (sch_active t) = set (sch_active s) - {(k, job)} \<and> sch_queue t = sch_queue s \<and>
       map_option opp_disposition (map_of (sch_opportunities t) (job_opportunity_id job)) = Some OD_PROCESSED \<and>
       (\<forall>k. k \<noteq> job_opportunity_id job \<longrightarrow> map_of (sch_opportunities t) k = map_of (sch_opportunities s) k)"
    by (rule complete_cases[OF inv active, where n = n])
      (use assms(2) k(1) del in \<open>simp add: disposition_of_def\<close>)
qed

text \<open>
  The snapshot of a reachable scheduler accounts for every job once: the active, queued and
  deferred workload lists together hold the workload of each active or queued job, and the
  sleeping list holds the registered workloads that occur in none of them, sorted and once each.
\<close>

theorem snapshot_accounts_for_jobs:
  assumes "sched_reachable s"
  shows "mset (snap_active (snapshot s)) + mset (snap_queued (snapshot s)) + mset (snap_deferred (snapshot s)) =
      image_mset (\<lambda>j. ws_workload_id (job_workload j)) (mset (map snd (sch_active s)) + mset (map item_job (sch_queue s))) \<and>
    sorted_wrt (<) (snap_sleeping (snapshot s)) \<and>
    set (snap_sleeping (snapshot s)) = fst ` set (sch_registry s) -
      (set (snap_active (snapshot s)) \<union> set (snap_queued (snapshot s)) \<union> set (snap_deferred (snapshot s)))"
proof -
  let ?q = "map item_job (sch_queue s)" and ?d = "\<lambda>j. job_job_id j \<in> sch_deferred_ids s"
    and ?w = "\<lambda>j. ws_workload_id (job_workload j)"
  have "mset (filter (\<lambda>j. \<not> ?d j) ?q) + mset (filter ?d ?q) = mset ?q"
    by (induction "sch_queue s") simp_all
  then have m: "mset (map ?w (filter (\<lambda>j. \<not> ?d j) ?q)) + mset (map ?w (filter ?d ?q)) = image_mset ?w (mset ?q)"
    unfolding mset_map[of ?w] image_mset_union[symmetric] by (rule arg_cong)
  have jobs: "mset (snap_active (snapshot s)) = image_mset ?w (mset (map snd (sch_active s)))"
    "mset (snap_queued (snapshot s)) = mset (map ?w (filter (\<lambda>j. \<not> ?d j) ?q))"
    "mset (snap_deferred (snapshot s)) = mset (map ?w (filter ?d ?q))"
    unfolding snapshot_def Let_def by (simp_all only: SchedulerSnapshot.simps mset_sort mset_map)
  have "distinct (map fst (sch_registry s))"
    using sched_inv_facts(3)[OF reachable_inv[OF assms]] by (simp add: registry_ok_def dict_ok_def)
  then have "sorted_wrt (<) (snap_sleeping (snapshot s))"
    by (simp add: snapshot_def Let_def strict_sorted_iff)
  moreover have "set (snap_sleeping (snapshot s)) = fst ` set (sch_registry s) -
      (set (snap_active (snapshot s)) \<union> set (snap_queued (snapshot s)) \<union> set (snap_deferred (snapshot s)))"
    unfolding snapshot_def Let_def SchedulerSnapshot.simps set_sort set_filter set_map set_diff_eq by (rule refl)
  moreover have "mset (snap_active (snapshot s)) + mset (snap_queued (snapshot s)) + mset (snap_deferred (snapshot s)) =
      image_mset ?w (mset (map snd (sch_active s)) + mset ?q)"
    unfolding jobs add.assoc m image_mset_union by (rule refl)
  ultimately show ?thesis by (intro conjI)
qed

section \<open>The properties on the concrete run\<close>

theorem dispatch_first_admissible_witness:
  "\<exists>j t. dispatch demo_queued (demo_resources 1024) 0 = (Inr (Some j), t, []) \<and> job_job_id j = ''job-2'' \<and>
     (\<exists>i \<in> set (sch_queue demo_queued). fst (fst (admissible demo_queued (item_job i) (demo_resources 1024) 0)) \<and>
        (\<forall>x \<in> set (sch_queue demo_queued). precedes (item_job x) j \<longrightarrow>
           \<not> fst (fst (admissible demo_queued (item_job x) (demo_resources 1024) 0))))"
proof -
  obtain j t where d: "dispatch demo_queued (demo_resources 1024) 0 = (Inr (Some j), t, [])" and j: "job_job_id j = ''job-2''"
    using demo_dispatch by blast
  from dispatch_first_admissible[OF demo_queued_reachable d] d j show ?thesis by auto
qed

theorem dispatch_conserves_jobs_witness:
  "\<exists>j t. dispatch demo_queued (demo_resources 1024) 0 = (Inr (Some j), t, []) \<and>
     mset (map (\<lambda>i. job_job_id (item_job i)) (sch_queue demo_queued)) =
     mset (map (\<lambda>i. job_job_id (item_job i)) (sch_queue t)) + {#''job-2''#}"
proof -
  obtain j t where d: "dispatch demo_queued (demo_resources 1024) 0 = (Inr (Some j), t, [])" and j: "job_job_id j = ''job-2''"
    using demo_dispatch by blast
  from dispatch_conserves_jobs[OF demo_queued_reachable d] d j show ?thesis by auto
qed

text \<open>Two active jobs need a declared safe pair; the state below declares one.\<close>

definition demo_pair :: scheduler where
  "demo_pair = (scheduler_init 8 64 RM_DEVELOPMENT None [] {(''flood'', ''drought'')})\<lparr>sch_registry :=
     [(''flood'', demo_spec ''flood'' TIER_A_IMMEDIATE), (''drought'', demo_spec ''drought'' TIER_D_PERIODIC)]\<rparr>"

definition demo_pair_queued :: scheduler where
  "demo_pair_queued = snd (demo_submit (snd (demo_submit demo_pair ''job-1'' ''drought'')) ''job-2'' ''flood'')"

definition demo_both :: scheduler where
  "demo_both = fst (snd (dispatch (fst (snd (dispatch demo_pair_queued (demo_resources 1024) 0))) (demo_resources 1024) 0))"

lemma demo_pair_reachable: "sched_reachable demo_pair"
proof -
  let ?s0 = "scheduler_init 8 64 RM_DEVELOPMENT None [] {(''flood'', ''drought'')}"
  let ?s1 = "?s0\<lparr>sch_registry := [(''flood'', demo_spec ''flood'' TIER_A_IMMEDIATE)]\<rparr>"
  have "sched_step ?s0 ?s1"
    by (rule step_register[of "demo_spec ''flood'' TIER_A_IMMEDIATE"])
      (simp_all add: WorkloadSpec_fields_ok_def demo_spec_def register_def scheduler_init_def)
  moreover have "sched_step ?s1 demo_pair"
    by (rule step_register[of "demo_spec ''drought'' TIER_D_PERIODIC"])
      (simp_all add: WorkloadSpec_fields_ok_def demo_spec_def register_def demo_pair_def scheduler_init_def)
  ultimately show ?thesis by (blast intro: reach_step reach_init)
qed

lemma demo_dispatch_step: "sched_reachable s \<Longrightarrow> sched_reachable (fst (snd (dispatch s r n)))"
  by (erule reach_step, rule step_dispatch[of _ r n "fst (dispatch s r n)" _ "snd (snd (dispatch s r n))"]) simp

lemma demo_both_reachable: "sched_reachable demo_both"
  unfolding demo_both_def demo_pair_queued_def
proof (intro demo_dispatch_step demo_submit_step demo_pair_reachable)
  show "''job-1'' \<notin> set (live_ids demo_pair)"
    by (simp add: live_ids_def queue_ids_def demo_pair_def scheduler_init_def)
  show "''job-2'' \<notin> set (live_ids (snd (demo_submit demo_pair ''job-1'' ''drought'')))"
    by (simp add: live_ids_def queue_ids_def demo_pair_def demo_eval)
qed

lemma demo_both_active:
  "\<exists>x y. sch_active demo_both = [(''job-2'', x), (''job-1'', y)] \<and> job_workload x = demo_spec ''flood'' TIER_A_IMMEDIATE \<and>
     job_workload y = demo_spec ''drought'' TIER_D_PERIODIC \<and> sch_safe_pairs demo_both = {(''drought'', ''flood'')}"
  by (simp add: demo_both_def demo_pair_queued_def demo_pair_def dispatch_def dispatch_loop.simps demo_eval sorted_pair_def)

theorem active_tier_a_serialised_witness:
  "sorted_pair ''flood'' ''drought'' \<in> sch_safe_pairs demo_both \<and> length (sch_active demo_both) = 2"
proof -
  obtain x y where a: "sch_active demo_both = [(''job-2'', x), (''job-1'', y)]"
    and w: "job_workload x = demo_spec ''flood'' TIER_A_IMMEDIATE" "job_workload y = demo_spec ''drought'' TIER_D_PERIODIC"
    using demo_both_active by blast
  have "sorted_pair (ws_workload_id (job_workload x)) (ws_workload_id (job_workload y)) \<in> sch_safe_pairs demo_both"
    by (rule active_tier_a_serialised[OF demo_both_reachable, of "''job-2''" _ "''job-1''"]) (simp_all add: a w demo_spec_def)
  then show ?thesis by (simp add: a w demo_spec_def)
qed

text \<open>One job submitted, dispatched and completed.\<close>

definition demo_one :: scheduler where
  "demo_one = fst (snd (dispatch (snd (demo_submit demo_registered ''job-1'' ''flood'')) (demo_resources 1024) 0))"

definition demo_done :: scheduler where
  "demo_done = snd (complete demo_one (snd (hd (sch_active demo_one))) 7)"

lemma demo_one_reachable: "sched_reachable demo_one"
  unfolding demo_one_def
  by (intro demo_dispatch_step demo_submit_step demo_registered_reachable)
    (simp add: live_ids_def queue_ids_def demo_registered_def demo_idle_def scheduler_init_def)

lemma demo_one_active: "\<exists>x. sch_active demo_one = [(''job-1'', x)] \<and> sch_queue demo_one = []"
  by (simp add: demo_one_def dispatch_def dispatch_loop.simps demo_eval)

lemma demo_done_state: "sched_reachable demo_done" "sch_queue demo_done = []" "sch_active demo_done = []"
  "length (sch_opportunities demo_done) = 1"
proof -
  obtain x where a: "sch_active demo_one = [(''job-1'', x)]" using demo_one_active by blast
  show "sched_reachable demo_done"
    unfolding demo_done_def
    by (rule reach_step[OF demo_one_reachable step_complete[OF _ surjective_pairing]]) (simp add: a)
  show "sch_queue demo_done = []" "sch_active demo_done = []" "length (sch_opportunities demo_done) = 1"
    by (simp_all add: demo_done_def complete_def demo_one_def dispatch_def dispatch_loop.simps demo_eval
        mark_terminal_def terminal_dispositions_def)
qed

theorem quiescent_ledger_balanced_witness:
  "rec_balanced (reconcile (sch_opportunities demo_done)) \<and> length (sch_opportunities demo_done) = 1"
  using quiescent_ledger_balanced[OF demo_done_state(1-3)] demo_done_state(4) by blast

theorem deferral_is_bounded_witness:
  "let v = fst (admissible demo_queued (item_job (hd (sch_queue demo_queued))) (demo_resources 16) 300000000)
   in v = (True, None) \<or> (\<exists>reason. v = (False, Some reason))"
  unfolding Let_def by (rule deferral_is_bounded) (simp_all add: demo_eval)

lemma demo_registered_fields:
  "map_of (sch_registry demo_registered) ''flood'' = Some (demo_spec ''flood'' TIER_A_IMMEDIATE)"
  "sch_queue demo_registered = []" "sch_counter demo_registered = 0" "sch_queue_limit demo_registered = 8"
  by (simp_all add: demo_registered_def demo_idle_def scheduler_init_def)

theorem submit_outcomes_witness:
  "\<exists>job. fst (demo_submit demo_registered ''job-1'' ''flood'') = Inr job \<and> job_job_id job = ''job-1'' \<and>
     mset (sch_queue (snd (demo_submit demo_registered ''job-1'' ''flood''))) = {#(0, 500000000, 0, job)#}"
  using submit_outcomes[OF demo_registered_reachable order_refl, of "\<lambda>name. name" "\<lambda>_. ''2026-01-01T00:00:00''" 0
      "''job-1''" "''corr''" "''flood''" "[]" None None None None, OF surjective_pairing]
  unfolding demo_submit_def[symmetric] demo_registered_fields by (auto simp: demo_spec_def)

theorem registry_frozen_forever_witness:
  "sch_frozen (snd (fallback_schedule (freeze demo_registered))) \<and>
   sch_registry (snd (fallback_schedule (freeze demo_registered))) = sch_registry (freeze demo_registered)"
proof (rule registry_frozen_forever)
  show "sched_reachable (freeze demo_registered)" by (rule reach_step[OF demo_registered_reachable step_freeze])
  show "sch_frozen (freeze demo_registered)" by (simp add: freeze_def)
  show "sched_step\<^sup>*\<^sup>* (freeze demo_registered) (snd (fallback_schedule (freeze demo_registered)))"
    by (rule r_into_rtranclp, rule step_fallback[OF surjective_pairing])
qed

theorem complete_outcomes_witness:
  "\<exists>x. sch_active demo_one = [(''job-1'', x)] \<and>
     fst (complete demo_one x 7) = Inr (x\<lparr>job_status := JS_COMPLETED, job_completed_monotonic_ns := Some 7\<rparr>) \<and>
     sch_active (snd (complete demo_one x 7)) = []"
proof -
  obtain x where a: "sch_active demo_one = [(''job-1'', x)]" using demo_one_active by blast
  then show ?thesis
    using complete_outcomes[OF demo_one_reachable surjective_pairing, of x 7 "''job-1''"] by simp
qed

theorem snapshot_accounts_for_jobs_witness:
  "mset (snap_active (snapshot demo_one)) + mset (snap_queued (snapshot demo_one)) + mset (snap_deferred (snapshot demo_one)) =
     image_mset (\<lambda>j. ws_workload_id (job_workload j)) (mset (map snd (sch_active demo_one))) \<and>
   size (mset (map snd (sch_active demo_one))) = 1"
  using snapshot_accounts_for_jobs[OF demo_one_reachable] demo_one_active by auto

end
