(* ===== verification/Domain_Evidence.thy ===== *)
theory Domain_Evidence
  imports Domain
begin

text \<open>
  The evidence, claim and parser classes of \<^verbatim>\<open>src/src/sentinel_edge/domain/models.py\<close>, in the form of
  theory \<open>Domain\<close>.
\<close>

record EvidenceItem =
  evi_evidence_id :: "uuid"
  evi_incident_id :: "uuid"
  evi_hazard :: "HazardKind"
  evi_source_id :: "string"
  evi_source_standing :: "SourceStanding"
  evi_authority_role :: "string"
  evi_media_integrity :: "MediaIntegrityState"
  evi_extraction_confidence_state :: "ExtractionConfidenceState"
  evi_extraction_confidence :: "pyfloat option"
  evi_freshness_state :: "HealthState"
  evi_claim_text :: "string"
  evi_content_sha256 :: "string"
  evi_perceptual_hash :: "string option"
  evi_origin_key :: "string"
  evi_family_id :: "string option"
  evi_parent_evidence_id :: "uuid option"
  evi_independent_origin_proven :: "bool"
  evi_retention_state :: "EvidenceRetentionState"
  evi_parser_state :: "ParserIsolationState"
  evi_rights_basis :: "string option"
  evi_rights_mode :: "EvidenceRightsMode option"
  evi_rights_expires_at :: "datetime option"
  evi_modality :: "string"
  evi_received_at :: "datetime"
  evi_reason_codes :: "string list"
  evi_person_identification_performed :: "bool"
  evi_subject_ref :: "string option"
  evi_processing_basis :: "string"

definition EvidenceItem_fields_ok :: "EvidenceItem \<Rightarrow> bool" where
  "EvidenceItem_fields_ok x \<longleftrightarrow>
     pred_option (\<lambda>v. 0 \<le> v \<and> v \<le> 1) (evi_extraction_confidence x)"

text \<open>The validator fills in a missing rights mode, so it returns the item.\<close>

definition derived_rights_mode :: "EvidenceItem \<Rightarrow> EvidenceRightsMode" where
  "derived_rights_mode e =
     (case evi_rights_mode e of
        Some m \<Rightarrow> m
      | None \<Rightarrow>
          if evi_retention_state e = ER_RETAINED then RI_RETAIN_BYTES
          else if evi_retention_state e = ER_METADATA_ONLY then RI_DERIVED_ONLY
          else RI_REFERENCE_ONLY)"

definition validate_evidence :: "EvidenceItem \<Rightarrow> EvidenceItem result" where
  "validate_evidence e =
     (let mode = derived_rights_mode e in
      bind_result (first_failure
     [(blank (evi_authority_role e), ''authority_role must not be blank''),
      (blank (evi_source_id e) \<or> blank (evi_claim_text e) \<or> blank (evi_content_sha256 e) \<or>
         blank (evi_origin_key e) \<or> blank (evi_modality e),
        ''evidence identity and content fields must not be blank''),
      (\<not> hex_digest_ok (evi_content_sha256 e), ''content_sha256 must be a lowercase SHA-256 hex digest''),
      (evi_extraction_confidence_state e \<in> {EC_VERIFIED, EC_MODEL_ESTIMATE, EC_LOW} \<and>
         evi_extraction_confidence e = None,
        ''declared extraction confidence state requires a numeric confidence''),
      (evi_extraction_confidence_state e \<notin> {EC_VERIFIED, EC_MODEL_ESTIMATE, EC_LOW} \<and>
         evi_extraction_confidence e \<noteq> None,
        ''unknown/not-applicable extraction confidence cannot carry a numeric value''),
      (evi_retention_state e = ER_RETAINED \<and> (case evi_rights_basis e of None \<Rightarrow> True | Some b \<Rightarrow> blank b),
        ''retained evidence requires a rights_basis''),
      (evi_retention_state e = ER_RETAINED \<and> mode \<noteq> RI_RETAIN_BYTES,
        ''retained evidence requires retain_bytes rights mode''),
      (evi_retention_state e = ER_METADATA_ONLY \<and> mode = RI_RETAIN_BYTES,
        ''metadata-only evidence cannot retain source bytes''),
      (evi_retention_state e = ER_REJECTED \<and> mode \<noteq> RI_REFERENCE_ONLY,
        ''rejected evidence must remain reference_only''),
      (case evi_rights_expires_at e of None \<Rightarrow> False | Some t \<Rightarrow> t \<le> evi_received_at e,
        ''rights_expires_at must be later than received_at''),
      (evi_retention_state e = ER_REJECTED \<and> evi_parser_state e \<noteq> PI_REJECTED,
        ''rejected retention requires rejected parser state''),
      (evi_person_identification_performed e,
        ''face, speaker, or person re-identification is outside Sentinel Edge scope''),
      (case evi_subject_ref e of None \<Rightarrow> False | Some r \<Rightarrow> blank r, ''subject_ref must not be blank''),
      (blank (evi_processing_basis e), ''processing_basis must not be blank'')])
     (\<lambda>_. Inr (e\<lparr>evi_rights_mode := Some mode\<rparr>)))"

definition EvidenceItem_init :: "EvidenceItem \<Rightarrow> EvidenceItem result" where
  "EvidenceItem_init e =
     (if \<not> EvidenceItem_fields_ok e then Inl (ValidationError ''EvidenceItem'') else validate_evidence e)"

record EvidenceLifecycleEvent =
  lce_lifecycle_event_id :: "uuid"
  lce_evidence_id :: "uuid"
  lce_incident_id :: "uuid"
  lce_action :: "EvidenceLifecycleAction"
  lce_from_state :: "EvidenceContentState option"
  lce_to_state :: "EvidenceContentState"
  lce_expected_version :: "int"
  lce_resulting_version :: "int"
  lce_actor :: "string"
  lce_reason :: "string"
  lce_created_at :: "datetime"
  lce_deletion_proof_sha256 :: "string option"
  lce_redaction_profile_id :: "string option"
  lce_reason_codes :: "string list"

definition EvidenceLifecycleEvent_fields_ok :: "EvidenceLifecycleEvent \<Rightarrow> bool" where
  "EvidenceLifecycleEvent_fields_ok x \<longleftrightarrow>
     0 \<le> lce_expected_version x \<and>
     1 \<le> lce_resulting_version x"

definition validate_lifecycle_event :: "EvidenceLifecycleEvent \<Rightarrow> unit result" where
  "validate_lifecycle_event e = first_failure
     [(blank (lce_actor e) \<or> blank (lce_reason e), ''evidence lifecycle event requires actor and reason''),
      (lce_resulting_version e \<noteq> lce_expected_version e + 1, ''evidence lifecycle version must increment by one''),
      (lce_action e = EL_DELETE \<and> (case lce_deletion_proof_sha256 e of None \<Rightarrow> True | Some p \<Rightarrow> p = []),
        ''deletion requires a proof digest''),
      (case lce_deletion_proof_sha256 e of None \<Rightarrow> False | Some p \<Rightarrow> \<not> hex_digest_ok p,
        ''deletion_proof_sha256 must be a lowercase SHA-256 digest'')]"

definition EvidenceLifecycleEvent_init :: "EvidenceLifecycleEvent \<Rightarrow> EvidenceLifecycleEvent result" where
  "EvidenceLifecycleEvent_init e =
     (if \<not> EvidenceLifecycleEvent_fields_ok e then Inl (ValidationError ''EvidenceLifecycleEvent'')
      else bind_result (validate_lifecycle_event e) (\<lambda>_. Inr e))"

record EvidenceLifecycleProjection =
  lcp_evidence_id :: "uuid"
  lcp_incident_id :: "uuid"
  lcp_state :: "EvidenceContentState"
  lcp_version :: "int"
  lcp_readable :: "bool"
  lcp_claim_eligible :: "bool"
  lcp_rights_active :: "bool"
  lcp_deletion_proven :: "bool"
  lcp_last_event_id :: "uuid option"
  lcp_updated_at :: "datetime option"
  lcp_reason_codes :: "string list"

definition EvidenceLifecycleProjection_fields_ok :: "EvidenceLifecycleProjection \<Rightarrow> bool" where
  "EvidenceLifecycleProjection_fields_ok x \<longleftrightarrow>
     0 \<le> lcp_version x"

record MediaParserReport =
  mpr_parse_id :: "uuid"
  mpr_profile_id :: "string"
  mpr_status :: "MediaParserStatus"
  mpr_parser_state :: "ParserIsolationState"
  mpr_input_sha256 :: "string"
  mpr_input_bytes :: "int"
  mpr_media_type :: "string"
  mpr_detected_media_type :: "string option"
  mpr_output_sha256 :: "string option"
  mpr_output_bytes :: "int option"
  mpr_width :: "int option"
  mpr_height :: "int option"
  mpr_source_format :: "string option"
  mpr_sanitized_format :: "string option"
  mpr_metadata_stripped :: "bool"
  mpr_alpha_preserved :: "bool"
  mpr_network_namespace_proven :: "bool"
  mpr_filesystem_scope :: "string"
  mpr_release_eligible :: "bool"
  mpr_created_at :: "datetime"
  mpr_reason_codes :: "string list"

definition MediaParserReport_fields_ok :: "MediaParserReport \<Rightarrow> bool" where
  "MediaParserReport_fields_ok x \<longleftrightarrow>
     0 \<le> mpr_input_bytes x \<and>
     pred_option (\<lambda>v. 0 \<le> v) (mpr_output_bytes x) \<and>
     pred_option (\<lambda>v. 1 \<le> v) (mpr_width x) \<and>
     pred_option (\<lambda>v. 1 \<le> v) (mpr_height x)"

record EvidenceReevaluationRecord =
  ree_reevaluation_id :: "uuid"
  ree_incident_id :: "uuid"
  ree_evidence_id :: "uuid"
  ree_trigger_action :: "EvidenceLifecycleAction"
  ree_status :: "string"
  ree_decision :: "string"
  ree_created_at :: "datetime"
  ree_active_supporting_links :: "int"
  ree_active_contradictory_links :: "int"
  ree_invalidated_links :: "int"
  ree_incident_state_mutated :: "bool"
  ree_reason_codes :: "string list"

definition EvidenceReevaluationRecord_fields_ok :: "EvidenceReevaluationRecord \<Rightarrow> bool" where
  "EvidenceReevaluationRecord_fields_ok x \<longleftrightarrow>
     0 \<le> ree_active_supporting_links x \<and>
     0 \<le> ree_active_contradictory_links x \<and>
     0 \<le> ree_invalidated_links x"

record EvidenceFamilySummary =
  fam_family_id :: "string"
  fam_incident_id :: "uuid"
  fam_evidence_ids :: "uuid list"
  fam_origin_keys :: "string list"
  fam_independence_units :: "int"
  fam_exact_duplicates :: "int"
  fam_near_duplicates :: "int"
  fam_independent_origins :: "int"

definition EvidenceFamilySummary_fields_ok :: "EvidenceFamilySummary \<Rightarrow> bool" where
  "EvidenceFamilySummary_fields_ok x \<longleftrightarrow>
     1 \<le> fam_independence_units x \<and>
     0 \<le> fam_exact_duplicates x \<and>
     0 \<le> fam_near_duplicates x \<and>
     0 \<le> fam_independent_origins x"

record ClaimNode =
  clm_claim_id :: "uuid"
  clm_incident_id :: "uuid"
  clm_hazard :: "HazardKind"
  clm_statement :: "string"
  clm_origin :: "ContentOrigin"
  clm_lineage :: "string list"
  clm_model_id :: "string option"
  clm_created_at :: "datetime"
  clm_status :: "string"
  clm_reason_codes :: "string list"

text \<open>The field validator of \<open>statement\<close> and \<open>status\<close>, then the provenance rule.\<close>

definition validate_claim :: "ClaimNode \<Rightarrow> unit result" where
  "validate_claim c = first_failure
     [(blank (clm_statement c) \<or> blank (clm_status c), ''claim fields must not be blank''),
      (clm_origin c \<in> {CO_ANALYTICAL_MODEL, CO_GENERATIVE_MODEL} \<and>
         (case clm_model_id c of None \<Rightarrow> True | Some m \<Rightarrow> blank m), ''model-generated claim requires model_id''),
      (clm_origin c \<in> {CO_ANALYTICAL_MODEL, CO_GENERATIVE_MODEL} \<and> clm_lineage c = [],
        ''model-generated claim requires lineage'')]"

record ClaimEvidenceLink =
  lnk_link_id :: "uuid"
  lnk_claim_id :: "uuid"
  lnk_evidence_id :: "uuid"
  lnk_relation :: "ClaimEvidenceRelation"
  lnk_created_at :: "datetime"
  lnk_reason_codes :: "string list"

record TrustDimensionSnapshot =
  tds_incident_id :: "uuid"
  tds_source_standing_counts :: "(string, int) dict"
  tds_media_integrity_counts :: "(string, int) dict"
  tds_extraction_confidence_counts :: "(string, int) dict"
  tds_freshness_counts :: "(string, int) dict"
  tds_evidence_families :: "int"
  tds_independence_units :: "int"
  tds_supporting_links :: "int"
  tds_contradictory_links :: "int"
  tds_invalidated_links :: "int"
  tds_unresolved_claims :: "int"
  tds_formula_version :: "string"
  tds_summary_band :: "string"
  tds_reason_codes :: "string list"

definition TrustDimensionSnapshot_fields_ok :: "TrustDimensionSnapshot \<Rightarrow> bool" where
  "TrustDimensionSnapshot_fields_ok x \<longleftrightarrow>
     0 \<le> tds_evidence_families x \<and>
     0 \<le> tds_independence_units x \<and>
     0 \<le> tds_supporting_links x \<and>
     0 \<le> tds_contradictory_links x \<and>
     0 \<le> tds_invalidated_links x \<and>
     0 \<le> tds_unresolved_claims x"

end
