(* ===== verification/Domain_Config.thy ===== *)
theory Domain_Config
  imports Domain_Evidence
begin

text \<open>
  The configuration, offline update and source health classes of
  \<^verbatim>\<open>src/src/sentinel_edge/domain/models.py\<close>, in the form of theory \<open>Domain\<close>.
\<close>

record ConfigurationBundle =
  cfb_schema_version :: "string"
  cfb_bundle_id :: "string"
  cfb_version :: "string"
  cfb_actor :: "string"
  cfb_workloads :: "WorkloadSpec list"
  cfb_settings :: "(string, json) dict"
  cfb_model_hashes :: "(string, string) dict"
  cfb_source_hashes :: "(string, string) dict"
  cfb_created_at :: "datetime"

definition validate_bundle :: "ConfigurationBundle \<Rightarrow> unit result" where
  "validate_bundle b = first_failure
     [(cfb_schema_version b \<noteq> ''1.0.0'', ''unsupported configuration schema_version''),
      (blank (cfb_bundle_id b) \<or> blank (cfb_version b) \<or> blank (cfb_actor b),
        ''bundle_id, version, and actor must not be blank''),
      (\<not> distinct (map ws_workload_id (cfb_workloads b)), ''workload identifiers must be unique''),
      (cfb_workloads b = [], ''at least one workload is required'')]"

record ConfigurationActivationRecord =
  cfa_activation_id :: "uuid"
  cfa_bundle_id :: "string"
  cfa_version :: "string"
  cfa_state :: "ConfigurationState"
  cfa_actor :: "string"
  cfa_bundle_sha256 :: "string"
  cfa_diff_sha256 :: "string"
  cfa_previous_bundle_id :: "string option"
  cfa_reason_codes :: "string list"
  cfa_activated_at :: "datetime"

record OfflineUpdateTarget =
  out_path :: "string"
  out_length :: "int"
  out_sha256 :: "string"

definition OfflineUpdateTarget_fields_ok :: "OfflineUpdateTarget \<Rightarrow> bool" where
  "OfflineUpdateTarget_fields_ok x \<longleftrightarrow>
     0 \<le> out_length x"

definition safe_relative_target_path :: "string \<Rightarrow> string result" where
  "safe_relative_target_path v =
     (let candidate = map (\<lambda>c. if c = CHR 0x5C then CHR ''/'' else c) (strip v) in
      if candidate = [] \<or> starts_with candidate ''/'' \<or> ''..'' \<in> set (split_on (CHR ''/'') candidate)
      then Inl (ValidationError ''update target path must be a safe relative path'')
      else Inr candidate)"

definition OfflineUpdateTarget_init :: "OfflineUpdateTarget \<Rightarrow> OfflineUpdateTarget result" where
  "OfflineUpdateTarget_init t =
     bind_result (safe_relative_target_path (out_path t)) (\<lambda>path.
       if \<not> OfflineUpdateTarget_fields_ok t then Inl (ValidationError ''OfflineUpdateTarget'')
       else Inr (t\<lparr>out_path := path\<rparr>))"

record OfflineUpdateMetadata =
  oum_schema_version :: "string"
  oum_bundle_id :: "string"
  oum_version :: "int"
  oum_created_at :: "datetime"
  oum_expires_at :: "datetime"
  oum_compatible_project :: "string"
  oum_compatible_min_version :: "string"
  oum_compatible_max_version :: "string"
  oum_targets :: "OfflineUpdateTarget list"
  oum_root_key_id :: "string"
  oum_minimum_tombstone_authority_position :: "int"
  oum_required_tombstone_journal_sha256 :: "string option"

definition OfflineUpdateMetadata_fields_ok :: "OfflineUpdateMetadata \<Rightarrow> bool" where
  "OfflineUpdateMetadata_fields_ok x \<longleftrightarrow>
     1 \<le> oum_version x \<and>
     0 \<le> oum_minimum_tombstone_authority_position x"

definition validate_update_metadata :: "OfflineUpdateMetadata \<Rightarrow> unit result" where
  "validate_update_metadata m = first_failure
     [(oum_expires_at m \<le> oum_created_at m, ''update metadata expiry must follow creation''),
      (oum_targets m = [], ''update bundle requires at least one target''),
      (case oum_required_tombstone_journal_sha256 m of None \<Rightarrow> False | Some d \<Rightarrow> \<not> hex_digest_ok d,
        ''required_tombstone_journal_sha256 must be a lowercase SHA-256 digest''),
      (\<not> distinct (map out_path (oum_targets m)), ''update target paths must be unique'')]"

record OfflineUpdateVerification =
  ouv_bundle_id :: "string"
  ouv_version :: "int"
  ouv_state :: "UpdateBundleState"
  ouv_verified_at :: "datetime"
  ouv_metadata_sha256 :: "string"
  ouv_signer_key_id :: "string"
  ouv_reason_codes :: "string list"

record SourceHealth =
  srh_source_id :: "string"
  srh_state :: "HealthState"
  srh_boot_id :: "string option"
  srh_clock_epoch :: "int option"
  srh_last_sequence :: "int option"
  srh_last_observed_at :: "datetime option"
  srh_event_time_watermark :: "datetime option"
  srh_clock_uncertainty_ms :: "pyfloat"
  srh_reason_codes :: "string list"

definition SourceHealth_fields_ok :: "SourceHealth \<Rightarrow> bool" where
  "SourceHealth_fields_ok x \<longleftrightarrow>
     0 \<le> srh_clock_uncertainty_ms x"

record SourceHealthEvent =
  she_event_id :: "uuid"
  she_source_id :: "string"
  she_previous_state :: "HealthState option"
  she_state :: "HealthState"
  she_recorded_at :: "datetime"
  she_boot_id :: "string option"
  she_sequence :: "int option"
  she_clock_uncertainty_ms :: "pyfloat"
  she_reason_codes :: "string list"

definition SourceHealthEvent_fields_ok :: "SourceHealthEvent \<Rightarrow> bool" where
  "SourceHealthEvent_fields_ok x \<longleftrightarrow>
     pred_option (\<lambda>v. 0 \<le> v) (she_sequence x) \<and>
     0 \<le> she_clock_uncertainty_ms x"

end
