(* ===== verification/Domain_Artifacts.thy ===== *)
theory Domain_Artifacts
  imports Domain_Config
begin

text \<open>
  The governance data of artifacts, \<^verbatim>\<open>src/src/sentinel_edge/storage/artifact_governance.py\<close>: classification,
  retention, encryption, export and deletion policies with their validator, the named policies, scopes,
  budgets and references.
\<close>

section \<open>Enumerations\<close>

datatype ArtifactClassification = AC_PUBLIC | AC_INTERNAL | AC_RESTRICTED | AC_SECRET_PROHIBITED

datatype ArtifactRetention = AR_EPHEMERAL | AR_OPERATIONAL | AR_INCIDENT_EVIDENCE | AR_RELEASE_PROOF | AR_LEGAL_HOLD

datatype ArtifactEncryption = AE_NONE | AE_NODE_AT_REST | AE_EXTERNAL_ENVELOPE_REQUIRED

datatype ArtifactExportPolicy = AX_ALLOWED | AX_REDACTED_ONLY | AX_PROHIBITED

datatype ArtifactDeletionPolicy = AD_GC_ALLOWED | AD_TOMBSTONE_REQUIRED | AD_HOLD_PROTECTED | AD_MANUAL_ONLY

datatype ArtifactReferenceKind =
    AK_LEASE | AK_LEGAL_HOLD | AK_INCIDENT_HOLD | AK_RELEASE_CANDIDATE | AK_TARGET_BINDING | AK_MINIMUM_PROOF

fun ArtifactDeletionPolicy_value :: "ArtifactDeletionPolicy \<Rightarrow> string" where
  "ArtifactDeletionPolicy_value AD_GC_ALLOWED = ''gc_allowed''"
| "ArtifactDeletionPolicy_value AD_TOMBSTONE_REQUIRED = ''tombstone_required''"
| "ArtifactDeletionPolicy_value AD_HOLD_PROTECTED = ''hold_protected''"
| "ArtifactDeletionPolicy_value AD_MANUAL_ONLY = ''manual_only''"

fun ArtifactReferenceKind_value :: "ArtifactReferenceKind \<Rightarrow> string" where
  "ArtifactReferenceKind_value AK_LEASE = ''lease''"
| "ArtifactReferenceKind_value AK_LEGAL_HOLD = ''legal_hold''"
| "ArtifactReferenceKind_value AK_INCIDENT_HOLD = ''incident_hold''"
| "ArtifactReferenceKind_value AK_RELEASE_CANDIDATE = ''release_candidate''"
| "ArtifactReferenceKind_value AK_TARGET_BINDING = ''target_binding''"
| "ArtifactReferenceKind_value AK_MINIMUM_PROOF = ''minimum_proof''"

fun class_order :: "ArtifactClassification \<Rightarrow> nat" where
  "class_order AC_PUBLIC = 0"
| "class_order AC_INTERNAL = 1"
| "class_order AC_RESTRICTED = 2"
| "class_order AC_SECRET_PROHIBITED = 3"

text \<open>\<^verbatim>\<open>list(ArtifactRetention).index(...)\<close>.\<close>

fun retention_index :: "ArtifactRetention \<Rightarrow> nat" where
  "retention_index AR_EPHEMERAL = 0"
| "retention_index AR_OPERATIONAL = 1"
| "retention_index AR_INCIDENT_EVIDENCE = 2"
| "retention_index AR_RELEASE_PROOF = 3"
| "retention_index AR_LEGAL_HOLD = 4"

section \<open>Policies\<close>

record ArtifactPolicy =
  apo_classification :: ArtifactClassification
  apo_retention :: ArtifactRetention
  apo_encryption :: ArtifactEncryption
  apo_export_policy :: ArtifactExportPolicy
  apo_deletion_policy :: ArtifactDeletionPolicy
  apo_retention_expires_at :: "datetime option"
  apo_reason_codes :: "string list"

definition validate_policy :: "ArtifactPolicy \<Rightarrow> unit result" where
  "validate_policy p = first_failure
     [(apo_classification p = AC_SECRET_PROHIBITED, ''secret-prohibited artifact persistence is forbidden''),
      (apo_classification p = AC_RESTRICTED \<and> apo_export_policy p = AX_ALLOWED,
        ''restricted artifacts require redacted-only or prohibited export policy''),
      (apo_retention p = AR_LEGAL_HOLD \<and> apo_deletion_policy p \<noteq> AD_HOLD_PROTECTED,
        ''legal-hold artifacts must be hold protected''),
      (apo_retention_expires_at p \<noteq> None \<and> apo_retention p = AR_LEGAL_HOLD,
        ''legal-hold retention expiry must be represented by an explicit hold reference'')]"

definition ArtifactPolicy_init :: "ArtifactPolicy \<Rightarrow> ArtifactPolicy result" where
  "ArtifactPolicy_init p = bind_result (validate_policy p) (\<lambda>_. Inr p)"

definition named_policy :: "ArtifactClassification \<Rightarrow> ArtifactRetention \<Rightarrow> ArtifactEncryption \<Rightarrow> ArtifactExportPolicy \<Rightarrow>
    ArtifactDeletionPolicy \<Rightarrow> string \<Rightarrow> ArtifactPolicy" where
  "named_policy c r e x d why = \<lparr>apo_classification = c, apo_retention = r, apo_encryption = e, apo_export_policy = x,
     apo_deletion_policy = d, apo_retention_expires_at = None, apo_reason_codes = [why]\<rparr>"

definition internal_operational :: ArtifactPolicy where
  "internal_operational = named_policy AC_INTERNAL AR_OPERATIONAL AE_NODE_AT_REST AX_ALLOWED AD_GC_ALLOWED
     ''default_internal_operational''"

definition incident_evidence :: "bool \<Rightarrow> ArtifactPolicy" where
  "incident_evidence restricted = named_policy (if restricted then AC_RESTRICTED else AC_INTERNAL) AR_INCIDENT_EVIDENCE
     AE_NODE_AT_REST (if restricted then AX_REDACTED_ONLY else AX_ALLOWED) AD_TOMBSTONE_REQUIRED ''incident_evidence''"

definition configuration_bundle :: ArtifactPolicy where
  "configuration_bundle = named_policy AC_INTERNAL AR_OPERATIONAL AE_NODE_AT_REST AX_PROHIBITED AD_MANUAL_ONLY
     ''configuration_bundle''"

definition telemetry_batch :: ArtifactPolicy where
  "telemetry_batch = named_policy AC_INTERNAL AR_EPHEMERAL AE_NODE_AT_REST AX_PROHIBITED AD_GC_ALLOWED
     ''noncritical_telemetry''"

definition after_event_review :: ArtifactPolicy where
  "after_event_review = named_policy AC_RESTRICTED AR_INCIDENT_EVIDENCE AE_NODE_AT_REST AX_REDACTED_ONLY
     AD_TOMBSTONE_REQUIRED ''after_event_review''"

definition claim_registry :: ArtifactPolicy where
  "claim_registry = named_policy AC_INTERNAL AR_RELEASE_PROOF AE_NODE_AT_REST AX_REDACTED_ONLY AD_HOLD_PROTECTED
     ''claim_registry''"

definition sanitized_media :: ArtifactPolicy where
  "sanitized_media = named_policy AC_RESTRICTED AR_INCIDENT_EVIDENCE AE_NODE_AT_REST AX_REDACTED_ONLY
     AD_TOMBSTONE_REQUIRED ''sanitized_untrusted_media''"

definition release_proof :: ArtifactPolicy where
  "release_proof = named_policy AC_PUBLIC AR_RELEASE_PROOF AE_NONE AX_ALLOWED AD_HOLD_PROTECTED ''release_proof''"

definition export_bundle :: "bool \<Rightarrow> ArtifactPolicy" where
  "export_bundle public = (if public then release_proof
     else named_policy AC_INTERNAL AR_OPERATIONAL AE_NODE_AT_REST AX_ALLOWED AD_MANUAL_ONLY ''governed_internal_export'')"

record ArtifactReadDecision =
  rdd_allowed :: bool
  rdd_disclose_digest :: bool
  rdd_reason_codes :: "string list"

definition authorize_artifact_read :: "ArtifactPolicy \<Rightarrow> string \<Rightarrow> string \<Rightarrow> bool \<Rightarrow> bool \<Rightarrow> int \<Rightarrow> int \<Rightarrow> ArtifactReadDecision" where
  "authorize_artifact_read policy owner requester verification_role integrity_valid observed_bytes max_bytes =
     (let restricted = (apo_classification policy = AC_RESTRICTED);
          reasons = (if blank owner \<or> requester \<noteq> owner then [''wrong_owner''] else []) @
            (if \<not> integrity_valid then [''integrity_failed''] else []) @
            (if observed_bytes < 0 \<or> max_bytes \<le> 0 \<or> max_bytes < observed_bytes then [''oversize''] else []) @
            (if restricted \<and> \<not> verification_role then [''restricted_read_unauthorized''] else []);
          allowed = (reasons = [])
      in \<lparr>rdd_allowed = allowed, rdd_disclose_digest = (allowed \<and> (\<not> restricted \<or> verification_role)),
          rdd_reason_codes = (if reasons = [] then [''artifact_read_authorized''] else reasons)\<rparr>)"

section \<open>Scopes, budgets, registrations and references\<close>

record ArtifactScope =
  asc_source_id :: "string option"
  asc_incident_id :: "string option"
  asc_scenario_run_id :: "string option"
  asc_release_candidate_id :: "string option"

record ArtifactBudgetPolicy =
  abp_node_max_objects :: int
  abp_per_source_max_objects :: int
  abp_per_source_max_bytes :: int
  abp_per_incident_max_objects :: int
  abp_per_incident_max_bytes :: int
  abp_per_run_max_objects :: int
  abp_per_run_max_bytes :: int
  abp_per_candidate_max_objects :: int
  abp_per_candidate_max_bytes :: int

record ArtifactRecord =
  art_registration_id :: uuid
  art_sha256 :: string
  art_relative_path :: string
  art_bytes :: int
  art_media_type :: string
  art_policy :: ArtifactPolicy
  art_scope :: ArtifactScope
  art_critical :: bool
  art_created_at :: datetime
  art_policy_sha256 :: string

record ArtifactReference =
  arf_reference_id :: uuid
  arf_artifact_sha256 :: string
  arf_kind :: ArtifactReferenceKind
  arf_owner :: string
  arf_reason :: string
  arf_created_at :: datetime
  arf_expires_at :: "datetime option"

definition validate_reference :: "ArtifactReference \<Rightarrow> unit result" where
  "validate_reference r = first_failure
     [(blank (arf_owner r) \<or> blank (arf_reason r), ''artifact reference owner and reason are required''),
      (case arf_expires_at r of None \<Rightarrow> False | Some e \<Rightarrow> e \<le> arf_created_at r,
        ''artifact reference expiry must follow creation'')]"

end
