(* ===== verification/Domain_Disposition.thy ===== *)
theory Domain_Disposition
  imports Domain_Artifacts
begin

text \<open>
  The data of privacy disposition, \<^verbatim>\<open>src/src/sentinel_edge/privacy/disposition.py\<close>: lineage nodes, requests,
  results, reconciliation attempts and reports, with their validators.
\<close>

section \<open>Enumerations\<close>

datatype DispositionAction = DA_ERASE | DA_RESTRICT | DA_CONSENT_WITHDRAWAL | DA_CORRECT

datatype DispositionRequestStatus =
    DS_RESTRICTED | DS_IN_PROGRESS | DS_COMPLETED | DS_RETAINED_EXCEPTION | DS_EXTERNAL_RECIPIENT_PENDING | DS_FAILED

datatype RecipientReconciliationState =
    RS_ACKNOWLEDGED | RS_RETRY_SCHEDULED | RS_EXHAUSTED | RS_DEADLINE_EXPIRED | RS_ALREADY_ACKNOWLEDGED | RS_NOT_DUE

datatype DispositionNodeKind =
    NK_ORIGINAL | NK_REDACTION | NK_THUMBNAIL | NK_OCR | NK_ASR | NK_EMBEDDING | NK_SEARCH_INDEX | NK_CACHE | NK_EXPORT
  | NK_GRANT | NK_LEASE | NK_REPLICA | NK_EXTERNAL_RECIPIENT

datatype DispositionNodeStatus =
    DN_ACTIVE | DN_RESTRICTED | DN_DELETED | DN_REVOKED | DN_RETAINED_EXCEPTION | DN_EXTERNAL_PENDING | DN_FAILED

fun DispositionAction_value :: "DispositionAction \<Rightarrow> string" where
  "DispositionAction_value DA_ERASE = ''erase''"
| "DispositionAction_value DA_RESTRICT = ''restrict''"
| "DispositionAction_value DA_CONSENT_WITHDRAWAL = ''consent_withdrawal''"
| "DispositionAction_value DA_CORRECT = ''correct''"

fun DispositionRequestStatus_value :: "DispositionRequestStatus \<Rightarrow> string" where
  "DispositionRequestStatus_value DS_RESTRICTED = ''restricted''"
| "DispositionRequestStatus_value DS_IN_PROGRESS = ''in_progress''"
| "DispositionRequestStatus_value DS_COMPLETED = ''completed''"
| "DispositionRequestStatus_value DS_RETAINED_EXCEPTION = ''retained_exception''"
| "DispositionRequestStatus_value DS_EXTERNAL_RECIPIENT_PENDING = ''external_recipient_pending''"
| "DispositionRequestStatus_value DS_FAILED = ''failed''"

fun RecipientReconciliationState_value :: "RecipientReconciliationState \<Rightarrow> string" where
  "RecipientReconciliationState_value RS_ACKNOWLEDGED = ''acknowledged''"
| "RecipientReconciliationState_value RS_RETRY_SCHEDULED = ''retry_scheduled''"
| "RecipientReconciliationState_value RS_EXHAUSTED = ''exhausted''"
| "RecipientReconciliationState_value RS_DEADLINE_EXPIRED = ''deadline_expired''"
| "RecipientReconciliationState_value RS_ALREADY_ACKNOWLEDGED = ''already_acknowledged''"
| "RecipientReconciliationState_value RS_NOT_DUE = ''not_due''"

fun DispositionNodeKind_value :: "DispositionNodeKind \<Rightarrow> string" where
  "DispositionNodeKind_value NK_ORIGINAL = ''original''"
| "DispositionNodeKind_value NK_REDACTION = ''redaction''"
| "DispositionNodeKind_value NK_THUMBNAIL = ''thumbnail''"
| "DispositionNodeKind_value NK_OCR = ''ocr''"
| "DispositionNodeKind_value NK_ASR = ''asr''"
| "DispositionNodeKind_value NK_EMBEDDING = ''embedding''"
| "DispositionNodeKind_value NK_SEARCH_INDEX = ''search_index''"
| "DispositionNodeKind_value NK_CACHE = ''cache''"
| "DispositionNodeKind_value NK_EXPORT = ''export''"
| "DispositionNodeKind_value NK_GRANT = ''grant''"
| "DispositionNodeKind_value NK_LEASE = ''lease''"
| "DispositionNodeKind_value NK_REPLICA = ''replica''"
| "DispositionNodeKind_value NK_EXTERNAL_RECIPIENT = ''external_recipient''"

fun DispositionNodeStatus_value :: "DispositionNodeStatus \<Rightarrow> string" where
  "DispositionNodeStatus_value DN_ACTIVE = ''active''"
| "DispositionNodeStatus_value DN_RESTRICTED = ''restricted''"
| "DispositionNodeStatus_value DN_DELETED = ''deleted''"
| "DispositionNodeStatus_value DN_REVOKED = ''revoked''"
| "DispositionNodeStatus_value DN_RETAINED_EXCEPTION = ''retained_exception''"
| "DispositionNodeStatus_value DN_EXTERNAL_PENDING = ''external_pending''"
| "DispositionNodeStatus_value DN_FAILED = ''failed''"

section \<open>Lineage nodes and requests\<close>

text \<open>\<^verbatim>\<open>bool(x)\<close> of an optional string.\<close>

definition given :: "string option \<Rightarrow> bool" where
  "given s \<longleftrightarrow> (case s of None \<Rightarrow> False | Some t \<Rightarrow> t \<noteq> [])"

lemma given_simps [simp]: "\<not> given None" "given (Some t) \<longleftrightarrow> t \<noteq> []"
  by (simp_all add: given_def)

record DispositionLineageNode =
  dln_node_id :: uuid
  dln_evidence_id :: uuid
  dln_kind :: DispositionNodeKind
  dln_target_ref :: string
  dln_parent_node_id :: "uuid option"
  dln_external_recipient_digest :: "string option"
  dln_exception_reason :: "string option"
  dln_exception_expires_at :: "datetime option"
  dln_created_at :: datetime

definition validate_node :: "DispositionLineageNode \<Rightarrow> unit result" where
  "validate_node n = first_failure
     [(blank (dln_target_ref n), ''disposition target_ref must not be blank''),
      (dln_kind n = NK_EXTERNAL_RECIPIENT \<and> \<not> given (dln_external_recipient_digest n), ''external recipient nodes require a recipient digest''),
      (dln_exception_expires_at n \<noteq> None \<and> \<not> given (dln_exception_reason n), ''retained exception expiry requires an explicit reason'')]"

record DispositionRequest =
  drq_request_id :: uuid
  drq_action :: DispositionAction
  drq_evidence_ids :: "uuid list"
  drq_subject_digest :: string
  drq_subject_basis :: string
  drq_actor :: string
  drq_reason :: string
  drq_deadline :: datetime
  drq_created_at :: datetime
  drq_status :: DispositionRequestStatus
  drq_legal_exception_reason :: "string option"
  drq_legal_exception_expires_at :: "datetime option"
  drq_terminal_outcome :: "string option"

definition validate_request :: "DispositionRequest \<Rightarrow> unit result" where
  "validate_request r = first_failure
     [(\<not> hex_digest_ok (drq_subject_digest r), ''subject_digest must be a lowercase SHA-256''),
      (drq_evidence_ids r = [], ''disposition request requires evidence scope''),
      (blank (drq_actor r) \<or> blank (drq_reason r) \<or> blank (drq_subject_basis r), ''disposition request governance fields must not be blank''),
      (drq_deadline r \<le> drq_created_at r, ''disposition deadline must follow creation''),
      (drq_legal_exception_expires_at r \<noteq> None \<and> \<not> given (drq_legal_exception_reason r), ''legal exception expiry requires an explicit reason'')]"

section \<open>Results, attempts and reports\<close>

record DispositionNodeResult =
  dnr_node_id :: uuid
  dnr_evidence_id :: uuid
  dnr_kind :: DispositionNodeKind
  dnr_status :: DispositionNodeStatus
  dnr_target_digest :: string
  dnr_reason_codes :: "string list"
  dnr_updated_at :: datetime
  dnr_receipt_sha256 :: "string option"

record DispositionReport =
  drp_request_id :: uuid
  drp_status :: DispositionRequestStatus
  drp_completed :: int
  drp_retained_by_exception :: int
  drp_external_recipient_pending :: int
  drp_failed :: int
  drp_restricted :: int
  drp_node_results :: "DispositionNodeResult list"
  drp_subject_digest :: string
  drp_deadline :: datetime
  drp_terminal_outcome :: "string option"
  drp_generated_at :: datetime
  drp_report_sha256 :: string

record ExternalRecipientReconciliationAttempt =
  era_attempt_id :: uuid
  era_request_id :: uuid
  era_node_id :: uuid
  era_recipient_digest :: string
  era_attempt_no :: int
  era_state :: RecipientReconciliationState
  era_actor :: string
  era_created_at :: datetime
  era_next_retry_at :: "datetime option"
  era_response_code :: "string option"
  era_receipt_sha256 :: "string option"
  era_payload_sha256 :: string

record ExternalRecipientReconciliationReport =
  err_request_id :: uuid
  err_generated_at :: datetime
  err_attempts :: "ExternalRecipientReconciliationAttempt list"
  err_acknowledged :: int
  err_retry_scheduled :: int
  err_exhausted :: int
  err_deadline_expired :: int
  err_pending :: int
  err_complete :: bool
  err_report_sha256 :: string

end
