(* ===== verification/Domain_Secrets.thy ===== *)
theory Domain_Secrets
  imports Domain_Artifacts
begin

text \<open>
  Secret references, rotation plans, snapshots and handles of \<^verbatim>\<open>src/src/sentinel_edge/security/secrets.py\<close>, with
  their validators.
\<close>

datatype SecretState = SX_STAGED | SX_ACTIVE | SX_OVERLAP | SX_REVOKED | SX_COMPROMISED | SX_EXPIRED | SX_UNAVAILABLE

fun SecretState_value :: "SecretState \<Rightarrow> string" where
  "SecretState_value SX_STAGED = ''staged''"
| "SecretState_value SX_ACTIVE = ''active''"
| "SecretState_value SX_OVERLAP = ''overlap''"
| "SecretState_value SX_REVOKED = ''revoked''"
| "SecretState_value SX_COMPROMISED = ''compromised''"
| "SecretState_value SX_EXPIRED = ''expired''"
| "SecretState_value SX_UNAVAILABLE = ''unavailable''"

record SecretReference =
  scr_reference_id :: string
  scr_version :: int
  scr_owner_module :: string
  scr_purpose :: string
  scr_policy_version :: string
  scr_valid_from :: datetime
  scr_valid_until :: datetime
  scr_state :: SecretState

definition validate_secret_reference :: "SecretReference \<Rightarrow> unit result" where
  "validate_secret_reference r = first_failure
     [(scr_version r < 1, ''version''),
      (blank (scr_reference_id r) \<or> blank (scr_owner_module r) \<or> blank (scr_purpose r) \<or> blank (scr_policy_version r),
       ''secret reference fields must not be blank''),
      (scr_valid_until r \<le> scr_valid_from r, ''secret validity window is invalid'')]"

definition secret_key :: "string \<Rightarrow> int \<Rightarrow> string" where
  "secret_key reference_id version = reference_id @ ''@'' @ str_int version"

record SecretRotationPlan =
  rpl_reference_id :: string
  rpl_old_version :: int
  rpl_new_version :: int
  rpl_overlap_starts_at :: datetime
  rpl_cutover_at :: datetime
  rpl_overlap_ends_at :: datetime
  rpl_maximum_overlap_seconds :: int

definition validate_rotation_plan :: "SecretRotationPlan \<Rightarrow> unit result" where
  "validate_rotation_plan p = first_failure
     [(rpl_old_version p < 1 \<or> rpl_new_version p < 1 \<or> rpl_maximum_overlap_seconds p \<le> 0 \<or> 86400 < rpl_maximum_overlap_seconds p,
       ''rotation plan field out of range''),
      (rpl_new_version p \<le> rpl_old_version p, ''new secret version must increase''),
      (\<not> (rpl_overlap_starts_at p < rpl_cutover_at p \<and> rpl_cutover_at p \<le> rpl_overlap_ends_at p), ''secret rotation timeline is invalid''),
      (rpl_maximum_overlap_seconds p * 1000000 < rpl_overlap_ends_at p - rpl_overlap_starts_at p,
       ''secret overlap exceeds the declared bound'')]"

record SecretMetadataSnapshot =
  sms_reference_id :: string
  sms_version :: int
  sms_owner_module :: string
  sms_purpose :: string
  sms_policy_version :: string
  sms_state :: SecretState
  sms_valid_from :: datetime
  sms_valid_until :: datetime
  sms_metadata_sha256 :: string

record SecretHandle =
  shd_handle_id :: uuid
  shd_reference_key :: string
  shd_owner_module :: string
  shd_purpose :: string
  shd_issued_at :: datetime
  shd_expires_at :: datetime
  shd_generation_epoch :: int

end
