(* ===== verification/Library_Model.thy ===== *)
theory Library_Model
  imports Domain_Disposition Domain_Secrets Interfaces
begin

text \<open>
  What the sources call outside the repository, as one record of functions that every operation
  using them takes as an argument: name-based identifiers, date formatting, the JSON encoder,
  SHA-256, HMAC and the model serialiser \<^verbatim>\<open>model_dump(mode="json")\<close>. No property assumes more of
  them than it says.
\<close>

datatype model_value =
    V_incident IncidentRecord
  | V_notification NotificationIntent
  | V_review ReviewAction
  | V_review_state IncidentReviewState
  | V_receipt CommandReceipt
  | V_evidence EvidenceItem
  | V_lifecycle EvidenceLifecycleEvent
  | V_parser MediaParserReport
  | V_reevaluation EvidenceReevaluationRecord
  | V_claim ClaimNode
  | V_link ClaimEvidenceLink
  | V_relation IncidentRelation
  | V_candidate IncidentCandidate
  | V_decision IncidentIdentityDecision
  | V_principal PrincipalRef
  | V_family EvidenceFamilySummary
  | V_trust TrustDimensionSnapshot
  | V_analysis AnalysisResult
  | V_policy ArtifactPolicy
  | V_scope ArtifactScope
  | V_bundle ConfigurationBundle
  | V_update OfflineUpdateMetadata
  | V_disposition_request DispositionRequest
  | V_disposition_report DispositionReport
  | V_node_result DispositionNodeResult
  | V_reconciliation_attempt ExternalRecipientReconciliationAttempt
  | V_reconciliation_report ExternalRecipientReconciliationReport
  | V_secret SecretReference
  | V_rotation SecretRotationPlan

record library =
  lib_uuid5 :: "string \<Rightarrow> uuid"
  lib_isoformat :: "datetime \<Rightarrow> string"
  lib_json_dumps :: "json \<Rightarrow> string"
  lib_sha256 :: "string \<Rightarrow> string"
  lib_hmac_sha256 :: "string \<Rightarrow> string \<Rightarrow> string"
  lib_model_dump :: "model_value \<Rightarrow> json"

text \<open>\<^verbatim>\<open>security/digests.py\<close>.\<close>

definition canonical_json_bytes :: "library \<Rightarrow> json \<Rightarrow> string" where
  "canonical_json_bytes lib v = lib_json_dumps lib v"

definition sha256_bytes :: "library \<Rightarrow> string \<Rightarrow> string" where
  "sha256_bytes lib b = lib_sha256 lib b"

definition digest :: "library \<Rightarrow> json \<Rightarrow> string" where
  "digest lib v = sha256_bytes lib (canonical_json_bytes lib v)"

definition value_digest :: "library \<Rightarrow> model_value \<Rightarrow> string" where
  "value_digest lib v = digest lib (lib_model_dump lib v)"

abbreviation jopt :: "('a \<Rightarrow> json) \<Rightarrow> 'a option \<Rightarrow> json" where
  "jopt f v \<equiv> (case v of None \<Rightarrow> JNull | Some x \<Rightarrow> f x)"

end
