(* ===== verification/Auth.thy ===== *)
theory Auth
  imports Library_Model
begin

text \<open>
  Authentication and command authorisation, \<^verbatim>\<open>src/src/sentinel_edge/security/auth.py\<close>: the bearer-token
  manager, the role permissions, the binding of machine principals to their component, and the
  authorizer that binds a decision to payload, principal, operation, target and time by an HMAC tag.
  \<^verbatim>\<open>secrets.compare_digest\<close> is string equality.
\<close>

section \<open>Producer identity\<close>

record ProducerIdentityDecision =
  pid_allowed :: bool
  pid_reason :: string

definition authorize_producer_identity :: "PrincipalRef \<Rightarrow> string \<Rightarrow> ProducerIdentityDecision" where
  "authorize_producer_identity princ sending_component =
     (let component = strip sending_component in
      if component = [] then \<lparr>pid_allowed = False, pid_reason = ''sending_component_required''\<rparr>
      else if prn_principal_kind princ \<in> {''service'', ''device'', ''system''} \<and> prn_principal_id princ \<noteq> component
      then \<lparr>pid_allowed = False, pid_reason = ''producer_identity_mismatch_audited''\<rparr>
      else \<lparr>pid_allowed = True, pid_reason = ''producer_identity_bound''\<rparr>)"

section \<open>Tokens\<close>

record TokenRecord =
  tok_token_sha256 :: string
  tok_principal :: PrincipalRef
  tok_expires_at :: "datetime option"
  tok_disabled :: bool

record auth_manager =
  am_development_only :: bool
  am_records :: "(string, TokenRecord) dict"

fun role_permissions :: "PrincipalRole \<Rightarrow> string list" where
  "role_permissions PR_VIEWER =
     [''health:read'', ''incidents:read'', ''runtime:read'', ''configuration:read'', ''notifications:read'',
      ''sources:read'', ''reviews:read'', ''evidence:read'', ''storage:read'']"
| "role_permissions PR_OPERATOR =
     [''health:read'', ''incidents:read'', ''runtime:read'', ''configuration:read'', ''notifications:read'',
      ''sources:read'', ''reviews:read'', ''evidence:read'', ''evidence:write'', ''incidents:command'',
      ''scenarios:run'', ''incidents:acknowledge'', ''incidents:snooze'', ''notifications:dispatch'',
      ''reviews:generate'', ''storage:read'', ''spool:reconcile'']"
| "role_permissions PR_ADMIN = [''*'']"

definition digest_token :: "library \<Rightarrow> string \<Rightarrow> string" where
  "digest_token lib token = sha256_bytes lib token"

definition add_token :: "library \<Rightarrow> auth_manager \<Rightarrow> string \<Rightarrow> PrincipalRef \<Rightarrow> datetime option \<Rightarrow> auth_manager result" where
  "add_token lib am token princ expires_at =
     (if length token < 16 then Inl (ValueError ''bearer token must contain at least 16 characters'')
      else let dg = digest_token lib token in
        if map_of (am_records am) dg \<noteq> None then Inl (ValueError ''duplicate bearer token'')
        else Inr (am\<lparr>am_records := AList.update dg
          \<lparr>tok_token_sha256 = dg, tok_principal = princ, tok_expires_at = expires_at, tok_disabled = False\<rparr>
          (am_records am)\<rparr>))"

fun add_tokens :: "library \<Rightarrow> auth_manager \<Rightarrow> (string \<times> PrincipalRef) list \<Rightarrow> auth_manager result" where
  "add_tokens lib am [] = Inr am"
| "add_tokens lib am ((token, princ) # rest) =
     bind_result (add_token lib am token princ None) (\<lambda>am'. add_tokens lib am' rest)"

definition auth_manager_init :: "library \<Rightarrow> (string \<times> PrincipalRef) list \<Rightarrow> bool \<Rightarrow> auth_manager result" where
  "auth_manager_init lib records development_only =
     add_tokens lib \<lparr>am_development_only = development_only, am_records = []\<rparr> records"

definition authenticate :: "library \<Rightarrow> auth_manager \<Rightarrow> string option \<Rightarrow> datetime \<Rightarrow> PrincipalRef result" where
  "authenticate lib am token now =
     (case token of
        None \<Rightarrow> Inl (AuthenticationError ''missing bearer token'')
      | Some t \<Rightarrow>
          if t = [] then Inl (AuthenticationError ''missing bearer token'')
          else (case map_of (am_records am) (digest_token lib t) of
             None \<Rightarrow> Inl (AuthenticationError ''invalid bearer token'')
           | Some r \<Rightarrow>
               if tok_token_sha256 r \<noteq> digest_token lib t then Inl (AuthenticationError ''invalid bearer token'')
               else if tok_disabled r then Inl (AuthenticationError ''bearer token is disabled'')
               else if (case tok_expires_at r of None \<Rightarrow> False | Some e \<Rightarrow> e \<le> now)
               then Inl (AuthenticationError ''bearer token is expired'')
               else Inr (tok_principal r)))"

definition authorize :: "PrincipalRef \<Rightarrow> string \<Rightarrow> unit result" where
  "authorize princ permission =
     (if prn_principal_kind princ \<in> {''service'', ''device'', ''system''} \<and> permission = ''reviews:generate''
      then Inl (AuthorizationError ''non-human principal cannot exercise operator review authority'')
      else let permissions = concat (map role_permissions (prn_roles princ)) in
        if ''*'' \<notin> set permissions \<and> permission \<notin> set permissions
        then Inl (AuthorizationError (''permission denied: '' @ permission))
        else Inr ())"

definition disable_token :: "library \<Rightarrow> auth_manager \<Rightarrow> string \<Rightarrow> (PrincipalRef \<times> auth_manager) result" where
  "disable_token lib am token =
     (let dg = digest_token lib token in
      case map_of (am_records am) dg of
        None \<Rightarrow> Inl (AuthenticationError ''invalid bearer token'')
      | Some r \<Rightarrow>
          if tok_token_sha256 r \<noteq> dg then Inl (AuthenticationError ''invalid bearer token'')
          else Inr (tok_principal r, am\<lparr>am_records := AList.update dg (r\<lparr>tok_disabled := True\<rparr>) (am_records am)\<rparr>))"

definition disable_principal :: "auth_manager \<Rightarrow> string \<Rightarrow> nat \<times> auth_manager" where
  "disable_principal am principal_id =
     (let hit = (\<lambda>r. prn_principal_id (tok_principal r) = principal_id \<and> \<not> tok_disabled r) in
      (length (filter (\<lambda>(_, r). hit r) (am_records am)),
       am\<lparr>am_records := map (\<lambda>(dg, r). (dg, if hit r then r\<lparr>tok_disabled := True\<rparr> else r)) (am_records am)\<rparr>))"

section \<open>Command authorisation\<close>

record command_authorizer =
  ca_secret :: string
  ca_policy_version :: string
  ca_ttl_seconds :: int

definition canonical_encoding_version :: string where
  "canonical_encoding_version = ''sentinel-cjson-v1''"

definition command_authorizer_init :: "string \<Rightarrow> string \<Rightarrow> int \<Rightarrow> command_authorizer result" where
  "command_authorizer_init secret policy_version ttl_seconds =
     (if length secret < 32 then Inl (ValueError ''authorization secret must contain at least 32 bytes'')
      else Inr \<lparr>ca_secret = secret, ca_policy_version = policy_version, ca_ttl_seconds = ttl_seconds\<rparr>)"

definition payload_digest :: "library \<Rightarrow> json \<Rightarrow> string" where
  "payload_digest lib payload = sha256_bytes lib (canonical_json_bytes lib payload)"

definition tag_payload :: "library \<Rightarrow> command_authorizer \<Rightarrow> PrincipalRef \<Rightarrow> string \<Rightarrow> string \<Rightarrow> string \<Rightarrow>
    datetime \<Rightarrow> datetime \<Rightarrow> string" where
  "tag_payload lib ca princ operation target payload_sha256 accepted_at expires_at =
     canonical_json_bytes lib (JObj
       [(''principal'', lib_model_dump lib (V_principal princ)),
        (''operation'', JStr operation),
        (''target'', JStr target),
        (''payload_sha256'', JStr payload_sha256),
        (''policy_version'', JStr (ca_policy_version ca)),
        (''canonical_encoding_version'', JStr canonical_encoding_version),
        (''accepted_at'', JStr (lib_isoformat lib accepted_at)),
        (''expires_at'', JStr (lib_isoformat lib expires_at))])"

definition decide :: "library \<Rightarrow> command_authorizer \<Rightarrow> uuid \<Rightarrow> PrincipalRef \<Rightarrow> string \<Rightarrow> string \<Rightarrow> json \<Rightarrow> datetime \<Rightarrow>
    AuthorizationDecision result" where
  "decide lib ca fresh_id princ operation target payload accepted_at =
     (let expires_at = accepted_at + ca_ttl_seconds ca * 1000000;
          dg = payload_digest lib payload;
          tag = lib_hmac_sha256 lib (ca_secret ca)
            (tag_payload lib ca princ operation target dg accepted_at expires_at);
          d = \<lparr>azd_decision_id = fresh_id, azd_principal = princ, azd_operation = operation, azd_target = target,
               azd_payload_sha256 = dg, azd_policy_version = ca_policy_version ca,
               azd_canonical_encoding_version = canonical_encoding_version,
               azd_accepted_at = accepted_at, azd_expires_at = expires_at, azd_authorization_tag = tag\<rparr>
      in bind_result (validate_decision d) (\<lambda>_. Inr d))"

definition verify :: "library \<Rightarrow> command_authorizer \<Rightarrow> AuthorizationDecision \<Rightarrow> json \<Rightarrow> string \<Rightarrow> string \<Rightarrow>
    PrincipalRef option \<Rightarrow> datetime \<Rightarrow> unit result" where
  "verify lib ca d payload operation target current_principal now =
     (if azd_expires_at d \<le> now then Inl (AuthorizationError ''authorization decision expired'')
      else if azd_canonical_encoding_version d \<noteq> canonical_encoding_version
      then Inl (AuthorizationError ''authorization canonical encoding version mismatch'')
      else if azd_operation d \<noteq> operation \<or> azd_target d \<noteq> target
      then Inl (AuthorizationError ''authorization operation or target mismatch'')
      else if payload_digest lib payload \<noteq> azd_payload_sha256 d
      then Inl (AuthorizationError ''authorization payload mismatch'')
      else if (case current_principal of None \<Rightarrow> False | Some p \<Rightarrow> azd_principal d \<noteq> p)
      then Inl (AuthorizationError ''authorization principal or trust epoch changed'')
      else if lib_hmac_sha256 lib (ca_secret ca)
          (tag_payload lib ca (azd_principal d) (azd_operation d) (azd_target d) (azd_payload_sha256 d)
             (azd_accepted_at d) (azd_expires_at d)) \<noteq> azd_authorization_tag d
      then Inl (AuthorizationError ''authorization tag invalid'')
      else Inr ())"

definition scoped_idempotency_key :: "library \<Rightarrow> PrincipalRef \<Rightarrow> string \<Rightarrow> string \<Rightarrow> string \<Rightarrow> string" where
  "scoped_idempotency_key lib princ operation target client_key =
     sha256_bytes lib (canonical_json_bytes lib (JObj
       [(''principal_id'', JStr (prn_principal_id princ)),
        (''session_epoch'', JInt (prn_session_epoch princ)),
        (''device_trust_epoch'', JInt (prn_device_trust_epoch princ)),
        (''canonical_encoding_version'', JStr canonical_encoding_version),
        (''operation'', JStr operation),
        (''target'', JStr target),
        (''client_key'', JStr client_key)]))"

end
