(* ===== verification/Journal.thy ===== *)
theory Journal
  imports Auth
begin

text \<open>
  The incident journal, \<^verbatim>\<open>IncidentJournalStore\<close> of \<^verbatim>\<open>src/src/sentinel_edge/storage/sqlite_store.py\<close>: the
  append-only authority log with its mirrored subtype table, the incident events, the notification
  outbox, reviews, command receipts, the evidence and claim tables and incident identities.

  A table is the list of its rows in insertion order; a column that is a function of the payload is
  not repeated, a JSON text column holds the JSON value. Every operation is one transaction
  (\<^verbatim>\<open>with self._lock, self._connection\<close>): it returns its value and the new journal, or the exception
  it raises, after which the transaction is rolled back and the journal is as it was. A violated
  \<^verbatim>\<open>PRIMARY KEY\<close> or \<^verbatim>\<open>UNIQUE\<close> constraint raises \<open>IntegrityError\<close>. Timestamps are in UTC, so that the
  order of their text is the order of time.
\<close>

section \<open>Tables\<close>

record authority_row =
  ar_position :: int
  ar_epoch_id :: string
  ar_epoch_ordinal :: "int option"
  ar_predecessor_position :: "int option"
  ar_kind :: AuthorityMutationKind
  ar_entity_id :: string
  ar_accepted_at :: datetime
  ar_payload_sha256 :: "string option"
  ar_payload :: json

record subtype_row =
  sr_authority_position :: int
  sr_kind :: AuthorityMutationKind
  sr_subtype_id :: string
  sr_payload_sha256 :: string
  sr_payload :: json

record incident_row =
  ir_authority_position :: "int option"
  ir_incident :: IncidentRecord

record journal =
  j_authority_events :: "authority_row list"
  j_authority_event_subtypes :: "subtype_row list"
  j_incident_events :: "incident_row list"
  j_notification_intents :: "NotificationIntent list"
  j_review_actions :: "ReviewAction list"
  j_incident_review_state :: "(uuid, IncidentReviewState) dict"
  j_command_receipts :: "CommandReceipt list"
  j_evidence_items :: "(string \<times> EvidenceItem) list"
  j_evidence_lifecycle_events :: "(string \<times> EvidenceLifecycleEvent) list"
  j_media_parser_runs :: "(string \<times> MediaParserReport) list"
  j_evidence_reevaluations :: "(string \<times> EvidenceReevaluationRecord) list"
  j_claim_nodes :: "(string \<times> ClaimNode) list"
  j_claim_evidence_links :: "(string \<times> ClaimEvidenceLink) list"
  j_incident_relations :: "(string \<times> IncidentRelation) list"
  j_incident_candidates :: "(IncidentCandidate \<times> uuid) list"
  j_incident_identity_decisions :: "(string \<times> IncidentIdentityDecision) list"

type_synonym 'a transaction = "('a \<times> journal) result"

definition empty_journal :: journal where
  "empty_journal = \<lparr>j_authority_events = [], j_authority_event_subtypes = [], j_incident_events = [],
     j_notification_intents = [], j_review_actions = [], j_incident_review_state = [], j_command_receipts = [],
     j_evidence_items = [], j_evidence_lifecycle_events = [], j_media_parser_runs = [],
     j_evidence_reevaluations = [], j_claim_nodes = [], j_claim_evidence_links = [],
     j_incident_relations = [], j_incident_candidates = [], j_incident_identity_decisions = []\<rparr>"

definition epoch_1 :: string where
  "epoch_1 = ''authority-epoch-1''"

section \<open>The authority log\<close>

text \<open>\<^verbatim>\<open>AUTOINCREMENT\<close>: one more than the last position, since no row is ever deleted.\<close>

definition append_authority :: "library \<Rightarrow> AuthorityMutationKind \<Rightarrow> string \<Rightarrow> datetime \<Rightarrow> json \<Rightarrow> journal \<Rightarrow> int \<times> journal" where
  "append_authority lib kind entity_id accepted_at payload j =
     (let sha = digest lib payload;
          rows = j_authority_events j;
          predecessor = (if rows = [] then None else Some (ar_position (last rows)));
          ordinal = (if rows = [] then 1
            else (case ar_epoch_ordinal (last rows) of
                Some n \<Rightarrow> if n = 0 then ar_position (last rows) else n
              | None \<Rightarrow> ar_position (last rows)) + 1);
          position = (if rows = [] then 1 else ar_position (last rows) + 1);
          row = \<lparr>ar_position = position, ar_epoch_id = epoch_1, ar_epoch_ordinal = Some ordinal,
            ar_predecessor_position = predecessor, ar_kind = kind, ar_entity_id = entity_id,
            ar_accepted_at = accepted_at, ar_payload_sha256 = Some sha, ar_payload = payload\<rparr>;
          subtype = \<lparr>sr_authority_position = position, sr_kind = kind, sr_subtype_id = entity_id,
            sr_payload_sha256 = sha, sr_payload = payload\<rparr>
      in (position, j\<lparr>j_authority_events := rows @ [row],
            j_authority_event_subtypes := j_authority_event_subtypes j @ [subtype]\<rparr>))"

definition record_authority_mutation :: "library \<Rightarrow> AuthorityMutationKind \<Rightarrow> string \<Rightarrow> datetime \<Rightarrow> json \<Rightarrow> journal \<Rightarrow> int \<times> journal" where
  "record_authority_mutation lib kind entity_id accepted_at payload j =
     append_authority lib kind entity_id accepted_at payload j"

definition authority_journal :: "journal \<Rightarrow> AuthorityMutation list" where
  "authority_journal j = map (\<lambda>r. \<lparr>mut_position = ar_position r, mut_kind = ar_kind r, mut_entity_id = ar_entity_id r,
     mut_accepted_at = ar_accepted_at r, mut_payload = (case ar_payload r of JObj kvs \<Rightarrow> kvs | _ \<Rightarrow> [])\<rparr>)
     (sort_key ar_position (j_authority_events j))"

text \<open>Opening the store renumbers the log and recomputes its digests from the stored payloads.\<close>

fun renumber :: "library \<Rightarrow> int \<Rightarrow> int option \<Rightarrow> authority_row list \<Rightarrow> authority_row list" where
  "renumber lib ordinal previous [] = []"
| "renumber lib ordinal previous (r # rs) =
     r\<lparr>ar_epoch_id := epoch_1, ar_epoch_ordinal := Some ordinal, ar_predecessor_position := previous,
       ar_payload_sha256 := Some (digest lib (ar_payload r))\<rparr>
     # renumber lib (ordinal + 1) (Some (ar_position r)) rs"

definition migrate_authority_schema :: "library \<Rightarrow> journal \<Rightarrow> journal" where
  "migrate_authority_schema lib j =
     j\<lparr>j_authority_events := renumber lib 1 None (sort_key ar_position (j_authority_events j))\<rparr>"

fun migrate_incident_rows :: "library \<Rightarrow> incident_row list \<Rightarrow> journal \<Rightarrow> incident_row list \<times> journal" where
  "migrate_incident_rows lib [] j = ([], j)"
| "migrate_incident_rows lib (r # rs) j =
     (case ir_authority_position r of
        Some _ \<Rightarrow> (let (rs', j') = migrate_incident_rows lib rs j in (r # rs', j'))
      | None \<Rightarrow>
          let inc = ir_incident r;
              (position, j1) = append_authority lib AM_INCIDENT (inc_incident_id inc) (inc_last_observed_at inc)
                (lib_model_dump lib (V_incident inc)) j;
              (rs', j2) = migrate_incident_rows lib rs j1
          in (r\<lparr>ir_authority_position := Some position\<rparr> # rs', j2))"

definition migrate_legacy_incident_journal :: "library \<Rightarrow> journal \<Rightarrow> journal" where
  "migrate_legacy_incident_journal lib j =
     (let (rows, j') = migrate_incident_rows lib (j_incident_events j) j in j'\<lparr>j_incident_events := rows\<rparr>)"

definition backfill_authority_subtypes :: "library \<Rightarrow> journal \<Rightarrow> journal" where
  "backfill_authority_subtypes lib j =
     (let known = map sr_authority_position (j_authority_event_subtypes j);
          missing = filter (\<lambda>r. ar_position r \<notin> set known) (sort_key ar_position (j_authority_events j))
      in j\<lparr>j_authority_event_subtypes := j_authority_event_subtypes j @
        map (\<lambda>r. \<lparr>sr_authority_position = ar_position r, sr_kind = ar_kind r, sr_subtype_id = ar_entity_id r,
          sr_payload_sha256 = (case ar_payload_sha256 r of
              None \<Rightarrow> digest lib (ar_payload r)
            | Some h \<Rightarrow> if h = [] then digest lib (ar_payload r) else h),
          sr_payload = ar_payload r\<rparr>) missing\<rparr>)"

definition open_store :: "library \<Rightarrow> journal \<Rightarrow> journal" where
  "open_store lib j =
     backfill_authority_subtypes lib (migrate_legacy_incident_journal lib (migrate_authority_schema lib j))"

record conformance =
  cf_valid :: bool
  cf_epoch_id :: string
  cf_event_count :: nat
  cf_highest_contiguous_position :: int
  cf_failures :: "string list"

definition row_failures :: "library \<Rightarrow> int \<Rightarrow> int option \<Rightarrow> authority_row \<Rightarrow> subtype_row option \<Rightarrow> string list" where
  "row_failures lib expected_ordinal previous a sub =
     (let fail = (\<lambda>bad name. if bad then [name @ '':'' @ str_int (ar_position a)] else []);
          dg = digest lib (ar_payload a)
      in fail (ar_epoch_id a \<noteq> epoch_1) ''wrong_epoch'' @
         fail ((case ar_epoch_ordinal a of None \<Rightarrow> -1 | Some n \<Rightarrow> if n = 0 then -1 else n) \<noteq> expected_ordinal) ''ordinal_gap'' @
         fail (ar_predecessor_position a \<noteq> previous) ''predecessor_mismatch'' @
         (case sub of
            None \<Rightarrow> fail True ''missing_subtype''
          | Some s \<Rightarrow> fail (sr_kind s \<noteq> ar_kind a \<or> sr_subtype_id s \<noteq> ar_entity_id a) ''subtype_identity_mismatch'') @
         fail (ar_payload_sha256 a \<noteq> Some dg) ''supertype_digest_mismatch'' @
         fail (case sub of None \<Rightarrow> True | Some s \<Rightarrow> sr_payload_sha256 s \<noteq> dg \<or> sr_payload s \<noteq> ar_payload a)
           ''subtype_digest_mismatch'')"

text \<open>The \<^verbatim>\<open>LEFT JOIN\<close>: the subtype row of a position, of which there is at most one.\<close>

definition subtype_at :: "journal \<Rightarrow> int \<Rightarrow> subtype_row option" where
  "subtype_at j position = find (\<lambda>s. sr_authority_position s = position) (j_authority_event_subtypes j)"

fun chain_failures :: "library \<Rightarrow> journal \<Rightarrow> int \<Rightarrow> int option \<Rightarrow> authority_row list \<Rightarrow> string list" where
  "chain_failures lib j ordinal previous [] = []"
| "chain_failures lib j ordinal previous (a # rest) =
     row_failures lib ordinal previous a (subtype_at j (ar_position a)) @
     chain_failures lib j (ordinal + 1) (Some (ar_position a)) rest"

definition authority_conformance :: "library \<Rightarrow> journal \<Rightarrow> conformance" where
  "authority_conformance lib j =
     (let rows = sort_key ar_position (j_authority_events j);
          positions = map ar_position rows;
          orphans = filter (\<lambda>s. sr_authority_position s \<notin> set positions) (j_authority_event_subtypes j);
          failures = chain_failures lib j 1 None rows @
            (if orphans = [] then [] else [''orphan_subtypes:'' @ str_int (int (length orphans))]);
          watermark = (if rows = [] then 0 else ar_position (last rows))
      in \<lparr>cf_valid = (failures = []), cf_epoch_id = epoch_1, cf_event_count = length rows,
          cf_highest_contiguous_position = (if failures = [] then watermark else 0), cf_failures = failures\<rparr>)"

record AuthorityWatermark =
  aw_schema_id :: string
  aw_epoch_id :: string
  aw_highest_contiguous_position :: int
  aw_accepted_event_count :: int
  aw_valid :: bool
  aw_failures :: "string list"

definition validate_watermark :: "AuthorityWatermark \<Rightarrow> unit result" where
  "validate_watermark w = first_failure
     [(blank (aw_epoch_id w), ''authority watermark epoch_id must not be blank''),
      (aw_valid w \<and> aw_failures w \<noteq> [], ''valid authority watermark cannot carry failures''),
      (\<not> aw_valid w \<and> aw_highest_contiguous_position w \<noteq> 0,
        ''invalid authority watermark must fail closed at position zero'')]"

definition from_conformance :: "conformance \<Rightarrow> AuthorityWatermark result" where
  "from_conformance c =
     (let w = \<lparr>aw_schema_id = ''sentinel-edge-authority-watermark/1.0'', aw_epoch_id = cf_epoch_id c,
            aw_highest_contiguous_position = cf_highest_contiguous_position c,
            aw_accepted_event_count = int (cf_event_count c), aw_valid = cf_valid c, aw_failures = cf_failures c\<rparr>
      in if aw_highest_contiguous_position w < 0 then Inl (ValidationError ''AuthorityWatermark'')
         else bind_result (validate_watermark w) (\<lambda>_. Inr w))"

section \<open>Incident events and the notification outbox\<close>

definition insert_notification :: "NotificationIntent \<Rightarrow> journal \<Rightarrow> unit transaction" where
  "insert_notification item j =
     (if \<exists>n \<in> set (j_notification_intents j). ntf_notification_id n = ntf_notification_id item \<or>
           ntf_idempotency_key n = ntf_idempotency_key item
      then Inl (IntegrityError ''notification_intents'')
      else Inr ((), j\<lparr>j_notification_intents := j_notification_intents j @ [item]\<rparr>))"

definition append_incident_with_notification :: "library \<Rightarrow> IncidentRecord \<Rightarrow> NotificationIntent option \<Rightarrow> journal \<Rightarrow> bool transaction" where
  "append_incident_with_notification lib incident notification j =
     (let (position, j1) = append_authority lib AM_INCIDENT (inc_incident_id incident) (inc_last_observed_at incident)
            (lib_model_dump lib (V_incident incident)) j
      in if \<exists>r \<in> set (j_incident_events j1). inc_incident_id (ir_incident r) = inc_incident_id incident \<and>
              inc_version (ir_incident r) = inc_version incident
         then Inl (IntegrityError ''incident_events'')
         else
           let j2 = j1\<lparr>j_incident_events := j_incident_events j1 @
                 [\<lparr>ir_authority_position = Some position, ir_incident = incident\<rparr>]\<rparr>
           in (case notification of
                None \<Rightarrow> Inr (False, j2)
              | Some n \<Rightarrow>
                  if \<exists>m \<in> set (j_notification_intents j2). ntf_idempotency_key m = ntf_idempotency_key n
                  then Inr (False, j2)
                  else
                    let (_, j3) = append_authority lib AM_NOTIFICATION_INTENT (ntf_notification_id n) (ntf_created_at n)
                          (lib_model_dump lib (V_notification n)) j2
                    in bind_result (insert_notification n j3) (\<lambda>(_, j4). Inr (True, j4))))"

definition append_incident :: "library \<Rightarrow> IncidentRecord \<Rightarrow> journal \<Rightarrow> bool transaction" where
  "append_incident lib incident j = append_incident_with_notification lib incident None j"

definition all_incidents :: "journal \<Rightarrow> IncidentRecord list" where
  "all_incidents j = map ir_incident (j_incident_events j)"

definition latest_by_hazard :: "journal \<Rightarrow> IncidentRecord list" where
  "latest_by_hazard j =
     (let rows = all_incidents j
      in sort_key (\<lambda>i. HazardKind_value (inc_hazard i))
        (filter (\<lambda>i. \<forall>k \<in> set rows. inc_hazard k = inc_hazard i \<longrightarrow> inc_version k \<le> inc_version i) rows))"

definition notifications :: "journal \<Rightarrow> NotificationIntent list" where
  "notifications j = sort_key (\<lambda>n. (ntf_created_at n, ntf_notification_id n)) (j_notification_intents j)"

definition dispatchable_notifications :: "journal \<Rightarrow> datetime \<Rightarrow> NotificationIntent list" where
  "dispatchable_notifications j now =
     filter (\<lambda>n. ntf_created_at n \<le> now)
       (filter (\<lambda>n. ntf_status n \<in> {NS_PENDING, NS_FAILED} \<and> ntf_attempt_count n < ntf_max_attempts n) (notifications j))"

definition delivery_update :: "bool \<Rightarrow> string option \<Rightarrow> string option \<Rightarrow> datetime \<Rightarrow> NotificationIntent \<Rightarrow> NotificationIntent" where
  "delivery_update delivered receipt_id error accepted_at current =
     (let attempts = ntf_attempt_count current + 1 in
      current\<lparr>
        ntf_status := (if delivered then NS_DELIVERED
          else if ntf_max_attempts current \<le> attempts then NS_DEAD_LETTER else NS_FAILED),
        ntf_updated_at := accepted_at,
        ntf_attempt_count := attempts,
        ntf_last_error := (if delivered then None
          else Some (case error of None \<Rightarrow> ''delivery_failed'' | Some e \<Rightarrow> if e = [] then ''delivery_failed'' else e)),
        ntf_receipt_id := (if delivered then receipt_id else None)\<rparr>)"

definition record_delivery :: "library \<Rightarrow> uuid \<Rightarrow> bool \<Rightarrow> string option \<Rightarrow> string option \<Rightarrow> datetime \<Rightarrow> journal \<Rightarrow> NotificationIntent transaction" where
  "record_delivery lib notification_id delivered receipt_id error accepted_at j =
     (case find (\<lambda>n. ntf_notification_id n = notification_id) (j_notification_intents j) of
        None \<Rightarrow> Inl (KeyError notification_id)
      | Some current \<Rightarrow>
          if ntf_status current = NS_DELIVERED then Inr (current, j)
          else
            let updated = delivery_update delivered receipt_id error accepted_at current;
                (_, j1) = append_authority lib AM_NOTIFICATION_DELIVERY (ntf_notification_id updated) accepted_at
                  (lib_model_dump lib (V_notification updated)) j
            in Inr (updated, j1\<lparr>j_notification_intents :=
                 map (\<lambda>n. if ntf_notification_id n = notification_id then updated else n) (j_notification_intents j1)\<rparr>))"

definition notification_count :: "journal \<Rightarrow> uuid \<Rightarrow> int" where
  "notification_count j incident_id =
     int (length (filter (\<lambda>n. ntf_incident_id n = incident_id) (j_notification_intents j)))"

section \<open>Reviews\<close>

definition review_state :: "journal \<Rightarrow> uuid \<Rightarrow> IncidentReviewState" where
  "review_state j incident_id =
     (case map_of (j_incident_review_state j) incident_id of
        None \<Rightarrow> \<lparr>rst_incident_id = incident_id, rst_acknowledged_at = None, rst_acknowledged_by = None,
          rst_snoozed_until = None, rst_snoozed_by = None, rst_review_count = 0\<rparr>
      | Some s \<Rightarrow> s)"

definition review_update :: "ReviewAction \<Rightarrow> IncidentReviewState \<Rightarrow> IncidentReviewState" where
  "review_update action current =
     (case rev_action action of
        RA_ACKNOWLEDGE \<Rightarrow> current\<lparr>rst_acknowledged_at := Some (rev_created_at action),
          rst_acknowledged_by := Some (rev_actor action), rst_review_count := rst_review_count current + 1\<rparr>
      | RA_SNOOZE \<Rightarrow> current\<lparr>rst_snoozed_until := rev_snooze_until action,
          rst_snoozed_by := Some (rev_actor action), rst_review_count := rst_review_count current + 1\<rparr>
      | RA_UNSNOOZE \<Rightarrow> current\<lparr>rst_snoozed_until := None, rst_snoozed_by := None,
          rst_review_count := rst_review_count current + 1\<rparr>
      | RA_COMMENT \<Rightarrow> current\<lparr>rst_review_count := rst_review_count current + 1\<rparr>)"

definition record_review :: "library \<Rightarrow> ReviewAction \<Rightarrow> journal \<Rightarrow> IncidentReviewState transaction" where
  "record_review lib action j =
     (let updated = review_update action (review_state j (rev_incident_id action));
          (_, j1) = append_authority lib AM_REVIEW (rev_review_id action) (rev_created_at action)
            (lib_model_dump lib (V_review action)) j
      in if \<exists>r \<in> set (j_review_actions j1). rev_review_id r = rev_review_id action
         then Inl (IntegrityError ''review_actions'')
         else Inr (updated, j1\<lparr>j_review_actions := j_review_actions j1 @ [action],
           j_incident_review_state := AList.update (rst_incident_id updated) updated (j_incident_review_state j1)\<rparr>))"

definition reviews :: "journal \<Rightarrow> ReviewAction list" where
  "reviews j = sort_key (\<lambda>r. (rev_created_at r, rev_review_id r)) (j_review_actions j)"

definition review_states :: "journal \<Rightarrow> IncidentReviewState list" where
  "review_states j = map (review_state j) (sort (map fst (j_incident_review_state j)))"

section \<open>Command receipts\<close>

definition command_receipt :: "journal \<Rightarrow> string \<Rightarrow> CommandReceipt option" where
  "command_receipt j scoped = find (\<lambda>r. rcp_scoped_idempotency_key r = scoped) (j_command_receipts j)"

definition record_command_receipt :: "library \<Rightarrow> CommandReceipt \<Rightarrow> journal \<Rightarrow> CommandReceipt transaction" where
  "record_command_receipt lib receipt j =
     (case command_receipt j (rcp_scoped_idempotency_key receipt) of
        Some existing \<Rightarrow>
          if rcp_payload_sha256 existing \<noteq> rcp_payload_sha256 receipt
          then Inl (ValueError ''idempotency key reused with a different payload'')
          else Inr (existing, j)
      | None \<Rightarrow>
          let (_, j1) = append_authority lib AM_COMMAND (rcp_command_id receipt)
                (case rcp_committed_at receipt of None \<Rightarrow> rcp_accepted_at receipt | Some t \<Rightarrow> t)
                (lib_model_dump lib (V_receipt receipt)) j
          in if \<exists>r \<in> set (j_command_receipts j1). rcp_command_id r = rcp_command_id receipt
             then Inl (IntegrityError ''command_receipts'')
             else Inr (receipt, j1\<lparr>j_command_receipts := j_command_receipts j1 @ [receipt]\<rparr>))"

definition command_receipts :: "journal \<Rightarrow> CommandReceipt list" where
  "command_receipts j = sort_key (\<lambda>r. (rcp_accepted_at r, rcp_command_id r)) (j_command_receipts j)"

end
