(* ===== verification/Evidence_Store.thy ===== *)
theory Evidence_Store
  imports Journal
begin

text \<open>
  The evidence, claim, relation and identity tables of \<^verbatim>\<open>IncidentJournalStore\<close>
  (\<^verbatim>\<open>src/src/sentinel_edge/storage/sqlite_store.py\<close>). Every writer stores a payload once under its key: a
  replay returns the stored row, another payload under the key raises. A row is the digest column
  and the value of the payload column.
\<close>

section \<open>Evidence and its life cycle\<close>

definition find_evidence :: "journal \<Rightarrow> uuid \<Rightarrow> (string \<times> EvidenceItem) option" where
  "find_evidence j k = find (\<lambda>r. evi_evidence_id (snd r) = k) (j_evidence_items j)"

definition find_lifecycle :: "journal \<Rightarrow> uuid \<Rightarrow> (string \<times> EvidenceLifecycleEvent) option" where
  "find_lifecycle j k = find (\<lambda>r. lce_lifecycle_event_id (snd r) = k) (j_evidence_lifecycle_events j)"

text \<open>\<^verbatim>\<open>WHERE evidence_id=? ORDER BY resulting_version\<close>.\<close>

definition lifecycle_of :: "journal \<Rightarrow> uuid \<Rightarrow> EvidenceLifecycleEvent list" where
  "lifecycle_of j k = sort_key lce_resulting_version
     (filter (\<lambda>e. lce_evidence_id e = k) (map snd (j_evidence_lifecycle_events j)))"

definition record_evidence_lifecycle_locked :: "library \<Rightarrow> EvidenceLifecycleEvent \<Rightarrow> journal \<Rightarrow> EvidenceLifecycleEvent transaction" where
  "record_evidence_lifecycle_locked lib event j =
     (let dg = value_digest lib (V_lifecycle event) in
      case find_lifecycle j (lce_lifecycle_event_id event) of
        Some row \<Rightarrow>
          if fst row \<noteq> dg then Inl (ValueError ''evidence lifecycle identity conflict'') else Inr (snd row, j)
      | None \<Rightarrow>
          let events = lifecycle_of j (lce_evidence_id event);
              current_version = (if events = [] then 0 else lce_resulting_version (last events));
              current_state = (if events = [] then None else Some (lce_to_state (last events)))
          in if lce_expected_version event \<noteq> current_version \<or> lce_from_state event \<noteq> current_state
             then Inl (ValueError ''evidence lifecycle stale version or state'')
             else
               let (_, j1) = append_authority lib AM_EVIDENCE_LIFECYCLE (lce_lifecycle_event_id event) (lce_created_at event)
                     (lib_model_dump lib (V_lifecycle event)) j
               in if \<exists>r \<in> set (j_evidence_lifecycle_events j1). lce_evidence_id (snd r) = lce_evidence_id event \<and>
                       lce_resulting_version (snd r) = lce_resulting_version event
                  then Inl (IntegrityError ''evidence_lifecycle_events'')
                  else Inr (event, j1\<lparr>j_evidence_lifecycle_events := j_evidence_lifecycle_events j1 @ [(dg, event)]\<rparr>))"

definition initial_content_state :: "EvidenceRetentionState \<Rightarrow> EvidenceContentState" where
  "initial_content_state r =
     (if r = ER_RETAINED then ES_AVAILABLE
      else if r = ER_METADATA_ONLY then ES_METADATA_ONLY
      else ES_UNAVAILABLE_AT_CAPTURE)"

definition initial_lifecycle_event :: "uuid \<Rightarrow> EvidenceItem \<Rightarrow> EvidenceLifecycleEvent" where
  "initial_lifecycle_event fresh_id item = \<lparr>
     lce_lifecycle_event_id = fresh_id, lce_evidence_id = evi_evidence_id item, lce_incident_id = evi_incident_id item,
     lce_action = EL_REGISTER, lce_from_state = None, lce_to_state = initial_content_state (evi_retention_state item),
     lce_expected_version = 0, lce_resulting_version = 1, lce_actor = ''component-4-evidence-ingest'',
     lce_reason = ''evidence_registered'', lce_created_at = evi_received_at item, lce_deletion_proof_sha256 = None,
     lce_redaction_profile_id = None,
     lce_reason_codes = [''initial_retention:'' @ EvidenceRetentionState_value (evi_retention_state item)]\<rparr>"

definition record_evidence :: "library \<Rightarrow> uuid \<Rightarrow> EvidenceItem \<Rightarrow> journal \<Rightarrow> EvidenceItem transaction" where
  "record_evidence lib fresh_id item j =
     (if evi_family_id item = None then Inl (ValueError ''evidence family_id must be assigned before persistence'')
      else let dg = value_digest lib (V_evidence item) in
        case find_evidence j (evi_evidence_id item) of
          Some row \<Rightarrow> if fst row \<noteq> dg then Inl (ValueError ''evidence identity conflict'') else Inr (snd row, j)
        | None \<Rightarrow>
            let (_, j1) = append_authority lib AM_EVIDENCE (evi_evidence_id item) (evi_received_at item)
                  (lib_model_dump lib (V_evidence item)) j;
                j2 = j1\<lparr>j_evidence_items := j_evidence_items j1 @ [(dg, item)]\<rparr>
            in bind_result (EvidenceLifecycleEvent_init (initial_lifecycle_event fresh_id item))
                 (\<lambda>event. bind_result (record_evidence_lifecycle_locked lib event j2) (\<lambda>(_, j3). Inr (item, j3))))"

definition evidence :: "journal \<Rightarrow> uuid option \<Rightarrow> EvidenceItem list" where
  "evidence j incident_id =
     sort_key (\<lambda>e. (evi_received_at e, evi_evidence_id e))
       (filter (\<lambda>e. case incident_id of None \<Rightarrow> True | Some i \<Rightarrow> evi_incident_id e = i) (map snd (j_evidence_items j)))"

definition record_evidence_lifecycle :: "library \<Rightarrow> EvidenceLifecycleEvent \<Rightarrow> journal \<Rightarrow> EvidenceLifecycleEvent transaction" where
  "record_evidence_lifecycle lib event j =
     (case find_evidence j (lce_evidence_id event) of
        None \<Rightarrow> Inl (ValueError ''evidence lifecycle target does not exist or incident differs'')
      | Some row \<Rightarrow>
          if evi_incident_id (snd row) \<noteq> lce_incident_id event
          then Inl (ValueError ''evidence lifecycle target does not exist or incident differs'')
          else record_evidence_lifecycle_locked lib event j)"

definition evidence_lifecycle_events :: "journal \<Rightarrow> uuid option \<Rightarrow> uuid option \<Rightarrow> EvidenceLifecycleEvent list" where
  "evidence_lifecycle_events j evidence_id incident_id =
     (let by_time = sort_key (\<lambda>e. (lce_created_at e, lce_lifecycle_event_id e));
          events = map snd (j_evidence_lifecycle_events j)
      in case evidence_id of
           Some e \<Rightarrow> lifecycle_of j e
         | None \<Rightarrow> (case incident_id of
             Some i \<Rightarrow> by_time (filter (\<lambda>e. lce_incident_id e = i) events)
           | None \<Rightarrow> by_time events))"

definition evidence_lifecycle_projection :: "journal \<Rightarrow> uuid \<Rightarrow> datetime \<Rightarrow> EvidenceLifecycleProjection result" where
  "evidence_lifecycle_projection j evidence_id now =
     (case find_evidence j evidence_id of
        None \<Rightarrow> Inl (KeyError evidence_id)
      | Some row \<Rightarrow>
          let item = snd row; events = lifecycle_of j evidence_id
          in if events = [] then Inl (RuntimeError ''evidence lifecycle is missing'')
             else
               let last_event = last events;
                   state = lce_to_state last_event;
                   rights_active = (case evi_rights_expires_at item of None \<Rightarrow> True | Some t \<Rightarrow> now < t)
               in Inr \<lparr>lcp_evidence_id = evi_evidence_id item, lcp_incident_id = evi_incident_id item,
                    lcp_state = state, lcp_version = lce_resulting_version last_event,
                    lcp_readable = (state = ES_AVAILABLE \<and> rights_active),
                    lcp_claim_eligible = (state \<in> {ES_AVAILABLE, ES_METADATA_ONLY, ES_REDACTED} \<and> rights_active),
                    lcp_rights_active = rights_active,
                    lcp_deletion_proven = (state = ES_DELETED \<and>
                      (case lce_deletion_proof_sha256 last_event of None \<Rightarrow> False | Some p \<Rightarrow> p \<noteq> [])),
                    lcp_last_event_id = Some (lce_lifecycle_event_id last_event),
                    lcp_updated_at = Some (lce_created_at last_event),
                    lcp_reason_codes = lce_reason_codes last_event\<rparr>)"

section \<open>Parser runs, re-evaluations, claims and links\<close>

definition find_parser_run :: "journal \<Rightarrow> uuid \<Rightarrow> (string \<times> MediaParserReport) option" where
  "find_parser_run j k = find (\<lambda>r. mpr_parse_id (snd r) = k) (j_media_parser_runs j)"

definition record_media_parser_report :: "library \<Rightarrow> MediaParserReport \<Rightarrow> journal \<Rightarrow> MediaParserReport transaction" where
  "record_media_parser_report lib report j =
     (let dg = value_digest lib (V_parser report) in
      case find_parser_run j (mpr_parse_id report) of
        Some row \<Rightarrow> if fst row \<noteq> dg then Inl (ValueError ''media parser report identity conflict'') else Inr (snd row, j)
      | None \<Rightarrow>
          let (_, j1) = append_authority lib AM_MEDIA_PARSE (mpr_parse_id report) (mpr_created_at report)
                (lib_model_dump lib (V_parser report)) j
          in Inr (report, j1\<lparr>j_media_parser_runs := j_media_parser_runs j1 @ [(dg, report)]\<rparr>))"

definition media_parser_reports :: "journal \<Rightarrow> MediaParserReport list" where
  "media_parser_reports j = sort_key (\<lambda>r. (mpr_created_at r, mpr_parse_id r)) (map snd (j_media_parser_runs j))"

definition find_reevaluation :: "journal \<Rightarrow> uuid \<Rightarrow> (string \<times> EvidenceReevaluationRecord) option" where
  "find_reevaluation j k = find (\<lambda>r. ree_reevaluation_id (snd r) = k) (j_evidence_reevaluations j)"

definition record_evidence_reevaluation :: "library \<Rightarrow> EvidenceReevaluationRecord \<Rightarrow> journal \<Rightarrow> EvidenceReevaluationRecord transaction" where
  "record_evidence_reevaluation lib rv j =
     (let dg = value_digest lib (V_reevaluation rv) in
      case find_reevaluation j (ree_reevaluation_id rv) of
        Some row \<Rightarrow> if fst row \<noteq> dg then Inl (ValueError ''evidence reevaluation identity conflict'') else Inr (snd row, j)
      | None \<Rightarrow>
          let (_, j1) = append_authority lib AM_EVIDENCE_REEVALUATION (ree_reevaluation_id rv) (ree_created_at rv)
                (lib_model_dump lib (V_reevaluation rv)) j
          in Inr (rv, j1\<lparr>j_evidence_reevaluations := j_evidence_reevaluations j1 @ [(dg, rv)]\<rparr>))"

definition evidence_reevaluations :: "journal \<Rightarrow> uuid option \<Rightarrow> EvidenceReevaluationRecord list" where
  "evidence_reevaluations j incident_id =
     sort_key (\<lambda>r. (ree_created_at r, ree_reevaluation_id r))
       (filter (\<lambda>r. case incident_id of None \<Rightarrow> True | Some i \<Rightarrow> ree_incident_id r = i)
         (map snd (j_evidence_reevaluations j)))"

definition find_claim :: "journal \<Rightarrow> uuid \<Rightarrow> (string \<times> ClaimNode) option" where
  "find_claim j k = find (\<lambda>r. clm_claim_id (snd r) = k) (j_claim_nodes j)"

definition record_claim :: "library \<Rightarrow> ClaimNode \<Rightarrow> journal \<Rightarrow> ClaimNode transaction" where
  "record_claim lib claim j =
     (let dg = value_digest lib (V_claim claim) in
      case find_claim j (clm_claim_id claim) of
        Some row \<Rightarrow> if fst row \<noteq> dg then Inl (ValueError ''claim identity conflict'') else Inr (snd row, j)
      | None \<Rightarrow>
          let (_, j1) = append_authority lib AM_CLAIM (clm_claim_id claim) (clm_created_at claim)
                (lib_model_dump lib (V_claim claim)) j
          in Inr (claim, j1\<lparr>j_claim_nodes := j_claim_nodes j1 @ [(dg, claim)]\<rparr>))"

definition claims :: "journal \<Rightarrow> uuid option \<Rightarrow> ClaimNode list" where
  "claims j incident_id =
     sort_key (\<lambda>c. (clm_created_at c, clm_claim_id c))
       (filter (\<lambda>c. case incident_id of None \<Rightarrow> True | Some i \<Rightarrow> clm_incident_id c = i) (map snd (j_claim_nodes j)))"

type_synonym link_key = "uuid \<times> uuid \<times> ClaimEvidenceRelation"

definition link_key :: "ClaimEvidenceLink \<Rightarrow> link_key" where
  "link_key l = (lnk_claim_id l, lnk_evidence_id l, lnk_relation l)"

definition find_link :: "journal \<Rightarrow> link_key \<Rightarrow> (string \<times> ClaimEvidenceLink) option" where
  "find_link j k = find (\<lambda>r. link_key (snd r) = k) (j_claim_evidence_links j)"

definition record_claim_link :: "library \<Rightarrow> ClaimEvidenceLink \<Rightarrow> journal \<Rightarrow> ClaimEvidenceLink transaction" where
  "record_claim_link lib link j =
     (let dg = value_digest lib (V_link link) in
      if find_claim j (lnk_claim_id link) = None \<or> find_evidence j (lnk_evidence_id link) = None
      then Inl (ValueError ''claim link target does not exist'')
      else case find_link j (link_key link) of
        Some row \<Rightarrow> if fst row \<noteq> dg then Inl (ValueError ''claim link identity conflict'') else Inr (snd row, j)
      | None \<Rightarrow>
          let (_, j1) = append_authority lib AM_CLAIM_LINK (lnk_link_id link) (lnk_created_at link)
                (lib_model_dump lib (V_link link)) j
          in if \<exists>r \<in> set (j_claim_evidence_links j1). lnk_link_id (snd r) = lnk_link_id link
             then Inl (IntegrityError ''claim_evidence_links'')
             else Inr (link, j1\<lparr>j_claim_evidence_links := j_claim_evidence_links j1 @ [(dg, link)]\<rparr>))"

definition claim_links :: "journal \<Rightarrow> uuid option \<Rightarrow> ClaimEvidenceLink list" where
  "claim_links j incident_id =
     sort_key (\<lambda>l. (lnk_created_at l, lnk_link_id l))
       (filter (\<lambda>l. case incident_id of None \<Rightarrow> True
          | Some i \<Rightarrow> (case find_claim j (lnk_claim_id l) of None \<Rightarrow> False | Some c \<Rightarrow> clm_incident_id (snd c) = i))
         (map snd (j_claim_evidence_links j)))"

section \<open>Incident relations and identities\<close>

type_synonym relation_key = "uuid \<times> uuid \<times> IncidentRelationKind"

definition relation_key :: "IncidentRelation \<Rightarrow> relation_key" where
  "relation_key r = (rel_source_incident_id r, rel_target_incident_id r, rel_relation r)"

definition find_relation :: "journal \<Rightarrow> relation_key \<Rightarrow> (string \<times> IncidentRelation) option" where
  "find_relation j k = find (\<lambda>r. relation_key (snd r) = k) (j_incident_relations j)"

definition record_incident_relation :: "library \<Rightarrow> IncidentRelation \<Rightarrow> journal \<Rightarrow> IncidentRelation transaction" where
  "record_incident_relation lib rel j =
     (let dg = value_digest lib (V_relation rel) in
      case find_relation j (relation_key rel) of
        Some row \<Rightarrow> if fst row \<noteq> dg then Inl (ValueError ''incident relation conflict'') else Inr (snd row, j)
      | None \<Rightarrow>
          let (_, j1) = append_authority lib AM_INCIDENT_RELATION (rel_relation_id rel) (rel_created_at rel)
                (lib_model_dump lib (V_relation rel)) j
          in if \<exists>r \<in> set (j_incident_relations j1). rel_relation_id (snd r) = rel_relation_id rel
             then Inl (IntegrityError ''incident_relations'')
             else Inr (rel, j1\<lparr>j_incident_relations := j_incident_relations j1 @ [(dg, rel)]\<rparr>))"

definition incident_relations :: "journal \<Rightarrow> IncidentRelation list" where
  "incident_relations j =
     sort_key (\<lambda>r. (rel_created_at r, rel_relation_id r)) (map snd (j_incident_relations j))"

definition find_decision :: "journal \<Rightarrow> uuid \<Rightarrow> (string \<times> IncidentIdentityDecision) option" where
  "find_decision j k = find (\<lambda>r. idn_candidate_id (snd r) = k) (j_incident_identity_decisions j)"

definition record_identity_decision :: "library \<Rightarrow> IncidentCandidate \<Rightarrow> IncidentIdentityDecision \<Rightarrow> journal \<Rightarrow> IncidentIdentityDecision transaction" where
  "record_identity_decision lib candidate decision j =
     (let dg = value_digest lib (V_decision decision) in
      case find_decision j (cand_candidate_id candidate) of
        Some row \<Rightarrow> if fst row \<noteq> dg then Inl (ValueError ''incident identity decision conflict'') else Inr (snd row, j)
      | None \<Rightarrow>
          if \<exists>r \<in> set (j_incident_candidates j). cand_candidate_id (fst r) = cand_candidate_id candidate
          then Inl (IntegrityError ''incident_candidates'')
          else if \<exists>r \<in> set (j_incident_identity_decisions j). idn_decision_id (snd r) = idn_decision_id decision \<or>
                 idn_candidate_id (snd r) = idn_candidate_id decision
          then Inl (IntegrityError ''incident_identity_decisions'')
          else Inr (decision, j\<lparr>
            j_incident_candidates := j_incident_candidates j @ [(candidate, idn_incident_id decision)],
            j_incident_identity_decisions := j_incident_identity_decisions j @ [(dg, decision)]\<rparr>))"

definition incident_candidates :: "journal \<Rightarrow> HazardKind option \<Rightarrow> (IncidentCandidate \<times> uuid) list" where
  "incident_candidates j hazard =
     sort_key (\<lambda>r. (cand_observed_at (fst r), cand_candidate_id (fst r)))
       (filter (\<lambda>r. case hazard of None \<Rightarrow> True | Some h \<Rightarrow> cand_hazard (fst r) = h) (j_incident_candidates j))"

definition identity_decisions :: "journal \<Rightarrow> IncidentIdentityDecision list" where
  "identity_decisions j =
     sort_key (\<lambda>d. (idn_decided_at d, idn_decision_id d)) (map snd (j_incident_identity_decisions j))"

end
