(* ===== verification/Engine.thy ===== *)
theory Engine
  imports Evidence_Store
begin

text \<open>
  The incident event engine, component 4, \<^verbatim>\<open>src/src/sentinel_edge/incidents/engine.py\<close>, with its
  notification dispatcher and the demonstration sink of \<^verbatim>\<open>incidents/human_factors.py\<close>. The object is
  the record \<open>engine\<close>: its journal, the in-memory projection of the current incident per hazard, the
  notification budget and the command authorizer. An operation that may raise after it has committed
  a transaction returns its outcome together with the state it leaves.
\<close>

section \<open>States\<close>

fun allowed :: "IncidentState \<Rightarrow> IncidentState list" where
  "allowed IS_NORMAL = [IS_NORMAL, IS_WATCH, IS_SUSPECTED, IS_CONFIRMED, IS_DEGRADED]"
| "allowed IS_WATCH = [IS_NORMAL, IS_WATCH, IS_SUSPECTED, IS_CONFIRMED, IS_DEGRADED]"
| "allowed IS_SUSPECTED = [IS_WATCH, IS_SUSPECTED, IS_CONFIRMED, IS_RESOLVING, IS_DEGRADED]"
| "allowed IS_CONFIRMED = [IS_CONFIRMED, IS_RESOLVING, IS_DEGRADED]"
| "allowed IS_RESOLVING = [IS_CONFIRMED, IS_RESOLVING, IS_RESOLVED, IS_DEGRADED]"
| "allowed IS_RESOLVED = [IS_RESOLVED, IS_WATCH, IS_SUSPECTED, IS_CONFIRMED, IS_DEGRADED]"
| "allowed IS_DEGRADED = [IS_DEGRADED, IS_WATCH, IS_SUSPECTED, IS_CONFIRMED]"

definition notify_states :: "IncidentState list" where
  "notify_states = [IS_WATCH, IS_SUSPECTED, IS_CONFIRMED, IS_DEGRADED]"

record engine =
  eng_store :: journal
  eng_command_authorizer :: command_authorizer
  eng_current :: "(HazardKind, IncidentRecord) dict"
  eng_notification_budget :: int

definition engine_init :: "journal \<Rightarrow> command_authorizer \<Rightarrow> int \<Rightarrow> engine" where
  "engine_init j ca budget = \<lparr>eng_store = j, eng_command_authorizer = ca,
     eng_current = fold (\<lambda>i. AList.update (inc_hazard i) i) (latest_by_hazard j) [],
     eng_notification_budget = budget\<rparr>"

section \<open>Analyses\<close>

definition notification_for :: "library \<Rightarrow> engine \<Rightarrow> IncidentRecord \<Rightarrow> IncidentState \<Rightarrow> datetime \<Rightarrow> NotificationIntent option" where
  "notification_for lib eng rec previous_state accepted_at =
     (if inc_state rec \<notin> set notify_states \<or> inc_state rec = previous_state then None
      else
        let review = review_state (eng_store eng) (inc_incident_id rec);
            snoozed = (case rst_snoozed_until review of None \<Rightarrow> False | Some u \<Rightarrow> accepted_at < u);
            confirmed = (inc_state rec = IS_CONFIRMED);
            exhausted = (eng_notification_budget eng \<le> notification_count (eng_store eng) (inc_incident_id rec) \<and> \<not> confirmed);
            status = (if (snoozed \<and> \<not> confirmed) \<or> exhausted then NS_SUPPRESSED else NS_PENDING);
            reasons = [''incident_state_changed''] @
              (if snoozed then [if confirmed then ''snooze_overridden_by_confirmation'' else ''incident_snoozed''] else []) @
              (if exhausted then [''notification_budget_exhausted''] else []);
            key = ''incident:'' @ inc_incident_id rec @ '':version:'' @ str_int (inc_version rec) @ '':state:'' @
              IncidentState_value (inc_state rec)
        in Some \<lparr>ntf_notification_id = lib_uuid5 lib (''sentinel-notification:'' @ key),
             ntf_incident_id = inc_incident_id rec, ntf_hazard = inc_hazard rec, ntf_incident_version = inc_version rec,
             ntf_incident_state = inc_state rec, ntf_idempotency_key = key, ntf_status = status,
             ntf_created_at = accepted_at, ntf_updated_at = accepted_at, ntf_attempt_count = 0, ntf_max_attempts = 3,
             ntf_last_error = None, ntf_receipt_id = None, ntf_reason_codes = reasons\<rparr>)"

text \<open>Append in one transaction, then update the projection.\<close>

definition commit :: "library \<Rightarrow> engine \<Rightarrow> IncidentRecord \<Rightarrow> NotificationIntent option \<Rightarrow> IncidentRecord result \<times> engine" where
  "commit lib eng rec notification =
     (case append_incident_with_notification lib rec notification (eng_store eng) of
        Inl e \<Rightarrow> (Inl e, eng)
      | Inr (_, j) \<Rightarrow>
          (Inr rec, eng\<lparr>eng_store := j, eng_current := AList.update (inc_hazard rec) rec (eng_current eng)\<rparr>))"

fun state_rank :: "IncidentState \<Rightarrow> int" where
  "state_rank IS_NORMAL = 0"
| "state_rank IS_WATCH = 1"
| "state_rank IS_SUSPECTED = 2"
| "state_rank IS_CONFIRMED = 3"
| "state_rank IS_DEGRADED = 1"
| "state_rank IS_RESOLVING = 1"
| "state_rank IS_RESOLVED = 0"

definition ana_when :: "AnalysisResult \<Rightarrow> datetime" where
  "ana_when a = (case ana_event_time a of None \<Rightarrow> ana_produced_at a | Some t \<Rightarrow> t)"

definition is_late :: "IncidentRecord \<Rightarrow> datetime \<Rightarrow> bool" where
  "is_late current event_time =
     (case inc_event_time_watermark current of None \<Rightarrow> False | Some w \<Rightarrow> event_time < w)"

definition late_correction :: "IncidentRecord \<Rightarrow> AnalysisResult \<Rightarrow> datetime \<Rightarrow> IncidentRecord" where
  "late_correction current a accepted_at = current\<lparr>
     inc_last_observed_at := accepted_at,
     inc_version := inc_version current + 1,
     inc_reason_codes := sorted_set (inc_reason_codes current @ ana_reason_codes a @ [''late_context_correction'']),
     inc_analysis_ids := inc_analysis_ids current @ [ana_analysis_id a],
     inc_correlation_ids := inc_correlation_ids current @ [ana_correlation_id a]\<rparr>"

text \<open>The target state and the reasons of an analysis that is not late.\<close>

definition analysis_target :: "IncidentRecord option \<Rightarrow> AnalysisResult \<Rightarrow> IncidentState \<times> string list" where
  "analysis_target current a =
     (let (t1, r1) = (if ana_abstained a \<or> ana_coverage a = CV_BLIND
            then (IS_DEGRADED, ana_reason_codes a @ [''coverage_prevents_strong_state''])
            else (ana_state_hint a, ana_reason_codes a))
      in if (case current of None \<Rightarrow> False | Some c \<Rightarrow> t1 = IS_NORMAL \<and> inc_state c \<in> {IS_SUSPECTED, IS_CONFIRMED})
         then (IS_RESOLVING, r1 @ [''negative_evidence_requires_resolution_window''])
         else (t1, r1))"

definition analysis_record :: "library \<Rightarrow> IncidentRecord option \<Rightarrow> AnalysisResult \<Rightarrow> datetime \<Rightarrow> IncidentRecord" where
  "analysis_record lib current a accepted_at =
     (let event_time = ana_when a;
          (target, reasons) = analysis_target current a;
          label = (if ana_abstained a then IL_UNCERTAIN else if target = IS_CONFIRMED then IL_CONFIRM else IL_REJECT)
      in \<lparr>inc_incident_id = (case current of
             Some c \<Rightarrow> inc_incident_id c
           | None \<Rightarrow> (case ana_incident_id_hint a of
               Some i \<Rightarrow> i
             | None \<Rightarrow> lib_uuid5 lib (''sentinel-incident:'' @ HazardKind_value (ana_hazard a) @ '':'' @ ana_correlation_id a))),
          inc_hazard = ana_hazard a,
          inc_state = target,
          inc_confidence = ana_score a,
          inc_coverage = ana_coverage a,
          inc_source_mode = ana_source_mode a,
          inc_first_observed_at = (case current of None \<Rightarrow> event_time | Some c \<Rightarrow> inc_first_observed_at c),
          inc_last_observed_at = accepted_at,
          inc_event_time_watermark = Some (case current of
             None \<Rightarrow> event_time
           | Some c \<Rightarrow> (case inc_event_time_watermark c of None \<Rightarrow> event_time | Some w \<Rightarrow> max event_time w)),
          inc_version = (case current of None \<Rightarrow> 1 | Some c \<Rightarrow> inc_version c + 1),
          inc_reason_codes = sorted_set ((case current of None \<Rightarrow> [] | Some c \<Rightarrow> inc_reason_codes c) @ reasons),
          inc_analysis_ids = (case current of None \<Rightarrow> [] | Some c \<Rightarrow> inc_analysis_ids c) @ [ana_analysis_id a],
          inc_correlation_ids = (case current of None \<Rightarrow> [] | Some c \<Rightarrow> inc_correlation_ids c) @ [ana_correlation_id a],
          inc_last_boot_id = ana_boot_id a,
          inc_source_lineage = ana_source_lineage a,
          inc_model_profile_id = ana_model_profile_id a,
          inc_config_hashes = ana_config_hashes a,
          inc_labels = (case current of None \<Rightarrow> [] | Some c \<Rightarrow> inc_labels c) @ [label]\<rparr>)"

definition illegal_transition :: "string \<Rightarrow> IncidentState \<Rightarrow> IncidentState \<Rightarrow> py_exn" where
  "illegal_transition text a b =
     ValueError (text @ IncidentState_value a @ ''->'' @ IncidentState_value b)"

definition check_transition :: "IncidentState \<Rightarrow> IncidentState \<Rightarrow> IncidentState result" where
  "check_transition a b =
     (if b \<notin> set (allowed a) then Inl (illegal_transition ''illegal incident transition '' a b) else Inr b)"

definition apply_analysis :: "library \<Rightarrow> engine \<Rightarrow> AnalysisResult \<Rightarrow> datetime \<Rightarrow> IncidentRecord result \<times> engine" where
  "apply_analysis lib eng a accepted_at =
     (let current = map_of (eng_current eng) (ana_hazard a);
          event_time = ana_when a;
          fresh = (\<lambda>previous_state.
            let rec = analysis_record lib current a accepted_at
            in (case check_transition previous_state (inc_state rec) of
                 Inl e \<Rightarrow> (Inl e, eng)
               | Inr _ \<Rightarrow>
                   if \<not> IncidentRecord_fields_ok rec then (Inl (ValidationError ''IncidentRecord''), eng)
                   else commit lib eng rec (notification_for lib eng rec previous_state accepted_at)))
      in case current of
           None \<Rightarrow> fresh IS_NORMAL
         | Some c \<Rightarrow>
             if ana_analysis_id a \<in> set (inc_analysis_ids c) then (Inr c, eng)
             else if is_late c event_time
             then (if ana_score a \<le> inc_confidence c \<and> state_rank (ana_state_hint a) \<le> state_rank (inc_state c)
                   then (Inr c, eng)
                   else commit lib eng (late_correction c a accepted_at) None)
             else fresh (inc_state c))"

section \<open>Operator commands\<close>

text \<open>\<^verbatim>\<open>max(history, key=version)\<close>: the first of the greatest version.\<close>

definition newest :: "IncidentRecord list \<Rightarrow> IncidentRecord option" where
  "newest hs = find (\<lambda>i. \<forall>k \<in> set hs. inc_version k \<le> inc_version i) hs"

definition incident_by_id :: "engine \<Rightarrow> uuid \<Rightarrow> IncidentRecord option" where
  "incident_by_id eng incident_id =
     (case find (\<lambda>i. inc_incident_id i = incident_id) (map snd (eng_current eng)) of
        Some i \<Rightarrow> Some i
      | None \<Rightarrow> newest (filter (\<lambda>i. inc_incident_id i = incident_id) (all_incidents (eng_store eng))))"

datatype command_result = CR_incident IncidentRecord | CR_relation IncidentRelation

definition command_target :: "IncidentStatusCommand \<Rightarrow> string" where
  "command_target c = ''incident-status:'' @ isc_incident_id c @ '':'' @ IncidentCommandKind_value (isc_command c)"

definition command_scope :: "library \<Rightarrow> IncidentStatusCommand \<Rightarrow> string" where
  "command_scope lib c = digest lib (JObj
     [(''actor'', JStr (isc_actor c)), (''target'', JStr (command_target c)),
      (''idempotency_key'', JStr (isc_idempotency_key c))])"

definition command_payload_sha :: "library \<Rightarrow> IncidentStatusCommand \<Rightarrow> string" where
  "command_payload_sha lib c = digest lib (JObj
     [(''incident_id'', JStr (isc_incident_id c)), (''hazard'', JStr (HazardKind_value (isc_hazard c))),
      (''command'', JStr (IncidentCommandKind_value (isc_command c))), (''expected_version'', JInt (isc_expected_version c)),
      (''actor'', JStr (isc_actor c)), (''reason'', JStr (isc_reason c)),
      (''related_incident_id'', jopt JStr (isc_related_incident_id c)),
      (''related_hazard'', jopt (\<lambda>h. JStr (HazardKind_value h)) (isc_related_hazard c)),
      (''idempotency_key'', JStr (isc_idempotency_key c))])"

definition command_receipt_for :: "library \<Rightarrow> IncidentStatusCommand \<Rightarrow> int \<Rightarrow> string \<Rightarrow> string \<Rightarrow> CommandReceipt" where
  "command_receipt_for lib c version result reason = \<lparr>
     rcp_command_id = isc_command_id c, rcp_principal_id = isc_actor c,
     rcp_operation = ''incidents:'' @ IncidentCommandKind_value (isc_command c), rcp_target = command_target c,
     rcp_scoped_idempotency_key = command_scope lib c, rcp_payload_sha256 = command_payload_sha lib c,
     rcp_status = CM_COMMITTED, rcp_accepted_at = isc_submitted_at c, rcp_committed_at = Some (isc_submitted_at c),
     rcp_result_version = Some version, rcp_result_sha256 = Some result,
     rcp_reason_codes = [''expected_version_verified'', reason]\<rparr>"

text \<open>Record the receipt of a committed command and hand over its result.\<close>

definition seal_command :: "library \<Rightarrow> engine \<Rightarrow> CommandReceipt \<Rightarrow> command_result \<Rightarrow> command_result result \<times> engine" where
  "seal_command lib eng receipt res =
     (if \<not> CommandReceipt_fields_ok receipt then (Inl (ValidationError ''CommandReceipt''), eng)
      else case record_command_receipt lib receipt (eng_store eng) of
        Inl e \<Rightarrow> (Inl e, eng)
      | Inr (_, j) \<Rightarrow> (Inr res, eng\<lparr>eng_store := j\<rparr>))"

definition command_relation_kind :: "IncidentStatusCommand \<Rightarrow> IncidentRecord \<Rightarrow> IncidentRecord \<Rightarrow> IncidentRelationKind result" where
  "command_relation_kind c current related =
     (if isc_command c = IC_MERGE
      then (if inc_hazard related \<noteq> inc_hazard current
            then Inl (ValueError ''merge requires the same hazard; use link for cross-hazard context'')
            else Inr IR_MERGED_ALIAS)
      else (if inc_hazard related = inc_hazard current
            then Inl (ValueError ''same-hazard incidents require merge rather than cross-hazard link'')
            else Inr IR_TEMPORAL_ASSOCIATION))"

definition apply_relation_command :: "library \<Rightarrow> engine \<Rightarrow> IncidentStatusCommand \<Rightarrow> IncidentRecord \<Rightarrow> command_result result \<times> engine" where
  "apply_relation_command lib eng c current =
     (case (isc_related_incident_id c, isc_related_hazard c) of
        (Some rid, Some rh) \<Rightarrow>
          (case incident_by_id eng rid of
             None \<Rightarrow> (Inl (ValueError ''related incident not found''), eng)
           | Some related \<Rightarrow>
               if inc_hazard related \<noteq> rh then (Inl (ValueError ''related incident not found''), eng)
               else (case command_relation_kind c current related of
                   Inl e \<Rightarrow> (Inl e, eng)
                 | Inr kind \<Rightarrow>
                     (case IncidentRelation_init \<lparr>
                          rel_relation_id = lib_uuid5 lib (''sentinel-incident-relation:'' @ isc_command_id c),
                          rel_source_incident_id = inc_incident_id current, rel_source_hazard = inc_hazard current,
                          rel_target_incident_id = inc_incident_id related, rel_target_hazard = inc_hazard related,
                          rel_relation = kind, rel_confidence = 1, rel_expected_source_version = inc_version current,
                          rel_expected_target_version = inc_version related, rel_created_at = isc_submitted_at c,
                          rel_actor = isc_actor c, rel_reason = isc_reason c\<rparr> of
                        Inl e \<Rightarrow> (Inl e, eng)
                      | Inr rel \<Rightarrow>
                          (case record_incident_relation lib rel (eng_store eng) of
                             Inl e \<Rightarrow> (Inl e, eng)
                           | Inr (stored, j) \<Rightarrow>
                               seal_command lib (eng\<lparr>eng_store := j\<rparr>)
                                 (command_receipt_for lib c (inc_version current) (rel_relation_id stored) ''incident_relation_committed'')
                                 (CR_relation stored)))))
      | _ \<Rightarrow> (Inl AssertionError, eng))"

text \<open>The state and confidence a status command asks for.\<close>

definition command_change :: "engine \<Rightarrow> IncidentStatusCommand \<Rightarrow> IncidentRecord \<Rightarrow> (IncidentState \<times> pyfloat) result" where
  "command_change eng c current =
     (case isc_command c of
        IC_CORROBORATE \<Rightarrow> Inr (inc_state current, min 1 (f64 (inc_confidence current + f64 (5 / 100))))
      | IC_CONTRADICT \<Rightarrow> Inr (inc_state current, max 0 (f64 (inc_confidence current - f64 (10 / 100))))
      | IC_RESOLVE \<Rightarrow>
          if inc_coverage current = CV_BLIND then Inl (ValueError ''blind required sensor cannot resolve an event'')
          else if inc_state current = IS_CONFIRMED \<and>
             rst_acknowledged_at (review_state (eng_store eng) (inc_incident_id current)) = None
          then Inl (ValueError ''unreviewed high-severity incident cannot be auto-closed'')
          else Inr (if inc_state current = IS_RESOLVING then IS_RESOLVED else IS_RESOLVING, inc_confidence current)
      | IC_REOPEN \<Rightarrow>
          if inc_state current \<noteq> IS_RESOLVED then Inl (ValueError ''only a resolved incident can be reopened'')
          else Inr (IS_SUSPECTED, inc_confidence current)
      | _ \<Rightarrow> Inr (inc_state current, inc_confidence current))"

definition command_record :: "IncidentStatusCommand \<Rightarrow> IncidentRecord \<Rightarrow> IncidentState \<Rightarrow> pyfloat \<Rightarrow> IncidentRecord" where
  "command_record c current target_state confidence =
     (let reasons = inc_reason_codes current @
            [''operator_'' @ IncidentCommandKind_value (isc_command c), ''reason:'' @ isc_reason c] @
            (if isc_command c = IC_CONTROL then [''controlled_activity_recorded''] else []);
          labels = (if isc_command c = IC_CONTROL \<and> IL_CONTROL \<notin> set (inc_labels current)
            then inc_labels current @ [IL_CONTROL] else inc_labels current)
      in current\<lparr>inc_state := target_state, inc_confidence := confidence, inc_last_observed_at := isc_submitted_at c,
           inc_version := inc_version current + 1, inc_reason_codes := sorted_set reasons, inc_labels := labels\<rparr>)"

definition apply_status_change :: "library \<Rightarrow> engine \<Rightarrow> IncidentStatusCommand \<Rightarrow> IncidentRecord \<Rightarrow> command_result result \<times> engine" where
  "apply_status_change lib eng c current =
     (case command_change eng c current of
        Inl e \<Rightarrow> (Inl e, eng)
      | Inr (target_state, confidence) \<Rightarrow>
          if target_state \<notin> set (allowed (inc_state current))
          then (Inl (illegal_transition ''illegal incident command transition '' (inc_state current) target_state), eng)
          else
            let rec = command_record c current target_state confidence
            in (case commit lib eng rec (notification_for lib eng rec (inc_state current) (isc_submitted_at c)) of
                 (Inl e, eng1) \<Rightarrow> (Inl e, eng1)
               | (Inr _, eng1) \<Rightarrow>
                   seal_command lib eng1
                     (command_receipt_for lib c (inc_version rec) (value_digest lib (V_incident rec))
                        ''component4_incident_command_committed'')
                     (CR_incident rec)))"

text \<open>The answer to a command whose receipt is already there.\<close>

definition replay_command :: "engine \<Rightarrow> IncidentStatusCommand \<Rightarrow> CommandReceipt \<Rightarrow> command_result result" where
  "replay_command eng c existing =
     (case (if isc_command c \<in> {IC_LINK, IC_MERGE}
            then find (\<lambda>r. Some (rel_relation_id r) = rcp_result_sha256 existing) (incident_relations (eng_store eng))
            else None) of
        Some rel \<Rightarrow> Inr (CR_relation rel)
      | None \<Rightarrow>
          (case incident_by_id eng (isc_incident_id c) of
             None \<Rightarrow> Inl AssertionError
           | Some i \<Rightarrow> Inr (CR_incident i)))"

definition apply_status_command :: "library \<Rightarrow> engine \<Rightarrow> IncidentStatusCommand \<Rightarrow> command_result result \<times> engine" where
  "apply_status_command lib eng c =
     (case incident_by_id eng (isc_incident_id c) of
        None \<Rightarrow> (Inl (ValueError ''incident command target not found''), eng)
      | Some current \<Rightarrow>
          if inc_hazard current \<noteq> isc_hazard c then (Inl (ValueError ''incident command target not found''), eng)
          else (case command_receipt (eng_store eng) (command_scope lib c) of
             Some existing \<Rightarrow>
               if rcp_payload_sha256 existing \<noteq> command_payload_sha lib c
               then (Inl (ValueError ''idempotency key conflict''), eng)
               else (replay_command eng c existing, eng)
           | None \<Rightarrow>
               if inc_version current \<noteq> isc_expected_version c
               then (Inl (ValueError ''stale incident command requires reconfirmation''), eng)
               else if isc_command c \<in> {IC_LINK, IC_MERGE} then apply_relation_command lib eng c current
               else apply_status_change lib eng c current))"

section \<open>Reviews\<close>

definition review :: "library \<Rightarrow> engine \<Rightarrow> ReviewAction \<Rightarrow> IncidentReviewState result \<times> engine" where
  "review lib eng action =
     (case map_of (eng_current eng) (rev_hazard action) of
        None \<Rightarrow> (Inl (ValueError ''review action does not target the current incident''), eng)
      | Some current \<Rightarrow>
          if inc_incident_id current \<noteq> rev_incident_id action
          then (Inl (ValueError ''review action does not target the current incident''), eng)
          else (case record_review lib action (eng_store eng) of
             Inl e \<Rightarrow> (Inl e, eng)
           | Inr (s, j) \<Rightarrow> (Inr s, eng\<lparr>eng_store := j\<rparr>)))"

definition authorized_review_payload :: "library \<Rightarrow> AuthorizedReviewCommand \<Rightarrow> json" where
  "authorized_review_payload lib c = JObj
     [(''incident_id'', JStr (arc_incident_id c)), (''hazard'', JStr (HazardKind_value (arc_hazard c))),
      (''action'', JStr (ReviewActionKind_value (arc_action c))),
      (''snooze_until'', jopt (\<lambda>t. JStr (lib_isoformat lib t)) (arc_snooze_until c)),
      (''comment'', jopt JStr (arc_comment c)), (''idempotency_key'', JStr (arc_idempotency_key c))]"

definition apply_authorized_review :: "library \<Rightarrow> engine \<Rightarrow> AuthorizedReviewCommand \<Rightarrow>
    (IncidentReviewState \<times> CommandReceipt) result \<times> engine" where
  "apply_authorized_review lib eng c =
     (let payload = authorized_review_payload lib c;
          target = ''incident:'' @ arc_incident_id c;
          operation = ''incidents:'' @ ReviewActionKind_value (arc_action c);
          auth = arc_authorization c;
          scoped = scoped_idempotency_key lib (azd_principal auth) operation target (arc_idempotency_key c)
      in case verify lib (eng_command_authorizer eng) auth payload operation target (Some (azd_principal auth)) (arc_submitted_at c) of
           Inl e \<Rightarrow> (Inl e, eng)
         | Inr _ \<Rightarrow>
             (case command_receipt (eng_store eng) scoped of
                Some existing \<Rightarrow>
                  if rcp_payload_sha256 existing \<noteq> arc_payload_sha256 c
                  then (Inl (ValueError ''idempotency key conflict''), eng)
                  else (Inr (review_state (eng_store eng) (arc_incident_id c), existing), eng)
              | None \<Rightarrow>
                  (case ReviewAction_init \<lparr>rev_review_id = arc_command_id c, rev_incident_id = arc_incident_id c,
                       rev_hazard = arc_hazard c, rev_action = arc_action c, rev_actor = prn_principal_id (azd_principal auth),
                       rev_created_at = arc_submitted_at c, rev_snooze_until = arc_snooze_until c, rev_comment = arc_comment c\<rparr> of
                     Inl e \<Rightarrow> (Inl e, eng)
                   | Inr action \<Rightarrow>
                       (case review lib eng action of
                          (Inl e, eng1) \<Rightarrow> (Inl e, eng1)
                        | (Inr s, eng1) \<Rightarrow>
                            let receipt = \<lparr>rcp_command_id = arc_command_id c,
                                  rcp_principal_id = prn_principal_id (azd_principal auth), rcp_operation = operation,
                                  rcp_target = target, rcp_scoped_idempotency_key = scoped,
                                  rcp_payload_sha256 = arc_payload_sha256 c, rcp_status = CM_COMMITTED,
                                  rcp_accepted_at = azd_accepted_at auth, rcp_committed_at = Some (arc_submitted_at c),
                                  rcp_result_version = Some (rst_review_count s),
                                  rcp_result_sha256 = Some (value_digest lib (V_review_state s)),
                                  rcp_reason_codes = [''gateway_authorization_verified'', ''component4_committed'']\<rparr>
                            in if \<not> CommandReceipt_fields_ok receipt then (Inl (ValidationError ''CommandReceipt''), eng1)
                               else (case record_command_receipt lib receipt (eng_store eng1) of
                                 Inl e \<Rightarrow> (Inl e, eng1)
                               | Inr (stored, j) \<Rightarrow> (Inr (s, stored), eng1\<lparr>eng_store := j\<rparr>))))))"

section \<open>Projections\<close>

definition current_incidents :: "engine \<Rightarrow> IncidentRecord list" where
  "current_incidents eng = sort_key (\<lambda>i. HazardKind_value (inc_hazard i)) (map snd (eng_current eng))"

definition authority_watermark :: "library \<Rightarrow> engine \<Rightarrow> AuthorityWatermark result" where
  "authority_watermark lib eng = from_conformance (authority_conformance lib (eng_store eng))"

record projection_report =
  prj_valid :: bool
  prj_authority_watermark :: int
  prj_failures :: "string list"

definition all_hazards :: "HazardKind list" where
  "all_hazards = [HK_WILDFIRE, HK_FLOOD, HK_EARTHQUAKE, HK_LANDSLIDE]"

definition projection_conformance :: "library \<Rightarrow> engine \<Rightarrow> projection_report" where
  "projection_conformance lib eng =
     (let durable = fold (\<lambda>i. AList.update (inc_hazard i) i) (latest_by_hazard (eng_store eng)) [];
          cur = eng_current eng;
          hazards = sort_key HazardKind_value (filter (\<lambda>h. h \<in> fst ` set durable \<or> h \<in> fst ` set cur) all_hazards);
          set_failure = (if fst ` set durable \<noteq> fst ` set cur then [''projection_hazard_set_mismatch''] else []);
          divergence = concat (map (\<lambda>h. case (map_of durable h, map_of cur h) of
              (Some l, Some r) \<Rightarrow>
                if inc_incident_id l \<noteq> inc_incident_id r \<or> inc_version l \<noteq> inc_version r \<or> inc_state l \<noteq> inc_state r
                then [''projection_divergence:'' @ HazardKind_value h] else []
            | _ \<Rightarrow> []) hazards);
          authority = authority_conformance lib (eng_store eng);
          failures = set_failure @ divergence @ (if cf_valid authority then [] else [''authority_journal_invalid''])
      in \<lparr>prj_valid = (failures = []), prj_authority_watermark = cf_highest_contiguous_position authority,
          prj_failures = failures\<rparr>)"

record review_metrics_report =
  rmt_acknowledged :: nat
  rmt_active_snoozes :: nat
  rmt_expired_snoozes :: nat
  rmt_review_actions :: nat

definition review_metrics :: "engine \<Rightarrow> datetime \<Rightarrow> review_metrics_report" where
  "review_metrics eng now =
     (let states = review_states (eng_store eng) in
      \<lparr>rmt_acknowledged = length (filter (\<lambda>s. rst_acknowledged_at s \<noteq> None) states),
       rmt_active_snoozes = length (filter (\<lambda>s. case rst_snoozed_until s of None \<Rightarrow> False | Some u \<Rightarrow> now < u) states),
       rmt_expired_snoozes = length (filter (\<lambda>s. case rst_snoozed_until s of None \<Rightarrow> False | Some u \<Rightarrow> u \<le> now) states),
       rmt_review_actions = length (reviews (eng_store eng))\<rparr>)"

section \<open>Notification delivery\<close>

text \<open>
  A sender is a function of the intent and its own state that returns a receipt, or the text
  \<^verbatim>\<open>f"{type(exc).__name__}:{exc}"\<close> of what it raised. \<open>now_of\<close> is the clock reading of each delivery record.
\<close>

type_synonym 'k sender = "NotificationIntent \<Rightarrow> 'k \<Rightarrow> (string + string) \<times> 'k"

fun deliver_all :: "library \<Rightarrow> 'k sender \<Rightarrow> (uuid \<Rightarrow> datetime) \<Rightarrow> NotificationIntent list \<Rightarrow> journal \<Rightarrow> 'k \<Rightarrow>
    NotificationIntent list result \<times> journal \<times> 'k" where
  "deliver_all lib send now_of [] j k = (Inr [], j, k)"
| "deliver_all lib send now_of (n # ns) j k =
     (let (out, k1) = send n k;
          attempt = (case out of
              Inl text \<Rightarrow> record_delivery lib (ntf_notification_id n) False None (Some text) (now_of (ntf_notification_id n)) j
            | Inr receipt \<Rightarrow> record_delivery lib (ntf_notification_id n) True (Some receipt) None (now_of (ntf_notification_id n)) j)
      in case attempt of
           Inl e \<Rightarrow> (Inl e, j, k1)
         | Inr (updated, j1) \<Rightarrow>
             (case deliver_all lib send now_of ns j1 k1 of
                (Inl e, j2, k2) \<Rightarrow> (Inl e, j2, k2)
              | (Inr rest, j2, k2) \<Rightarrow> (Inr (updated # rest), j2, k2)))"

definition dispatch_notifications :: "library \<Rightarrow> 'k sender \<Rightarrow> datetime \<Rightarrow> (uuid \<Rightarrow> datetime) \<Rightarrow> engine \<Rightarrow> 'k \<Rightarrow>
    NotificationIntent list result \<times> engine \<times> 'k" where
  "dispatch_notifications lib send now now_of eng k =
     (let (out, j, k1) = deliver_all lib send now_of (dispatchable_notifications (eng_store eng) now) (eng_store eng) k
      in (out, eng\<lparr>eng_store := j\<rparr>, k1))"

record notification_sink =
  snk_receipts :: "(string, string) dict"
  snk_effects :: "string list"

definition sink_send :: "notification_sink sender" where
  "sink_send intent sink =
     (let key = ntf_idempotency_key intent in
      case map_of (snk_receipts sink) key of
        Some receipt \<Rightarrow> (Inr receipt, sink)
      | None \<Rightarrow>
          let receipt = ''local:'' @ str_int (int (length (snk_receipts sink)) + 1) @ '':'' @ key
          in (Inr receipt, sink\<lparr>snk_receipts := AList.update key receipt (snk_receipts sink),
                snk_effects := snk_effects sink @ [key]\<rparr>))"

end
