(* ===== verification/Journal_Props.thy ===== *)
theory Journal_Props
  imports Evidence_Store
begin

text \<open>
  The authority log is sealed: positions and ordinals are consecutive, every row names its
  predecessor and carries the digest of its payload, and the subtype table mirrors it. Every
  operation of the journal only appends to the log and keeps it sealed; the conformance check
  accepts a sealed log, and accepts nothing whose two tables disagree.
\<close>

section \<open>Sealed logs\<close>

fun log_from :: "library \<Rightarrow> int \<Rightarrow> int option \<Rightarrow> authority_row list \<Rightarrow> bool" where
  "log_from lib n previous [] = True"
| "log_from lib n previous (r # rs) =
     (ar_position r = n \<and> ar_epoch_id r = epoch_1 \<and> ar_epoch_ordinal r = Some n \<and>
      ar_predecessor_position r = previous \<and> ar_payload_sha256 r = Some (digest lib (ar_payload r)) \<and>
      log_from lib (n + 1) (Some n) rs)"

definition mirror :: "library \<Rightarrow> authority_row \<Rightarrow> subtype_row" where
  "mirror lib r = \<lparr>sr_authority_position = ar_position r, sr_kind = ar_kind r, sr_subtype_id = ar_entity_id r,
     sr_payload_sha256 = digest lib (ar_payload r), sr_payload = ar_payload r\<rparr>"

definition sealed :: "library \<Rightarrow> journal \<Rightarrow> bool" where
  "sealed lib j \<longleftrightarrow> log_from lib 1 None (j_authority_events j) \<and>
     j_authority_event_subtypes j = map (mirror lib) (j_authority_events j)"

text \<open>What every journal operation does to the log.\<close>

definition extends :: "library \<Rightarrow> journal \<Rightarrow> journal \<Rightarrow> bool" where
  "extends lib j t \<longleftrightarrow> prefix (j_authority_events j) (j_authority_events t) \<and> (sealed lib j \<longrightarrow> sealed lib t)"

lemma extends_refl [simp, intro]: "extends lib j j"
  by (simp add: extends_def)

lemma extends_trans [trans]: "extends lib j t \<Longrightarrow> extends lib t u \<Longrightarrow> extends lib j u"
  by (auto simp: extends_def)

lemma extends_other_tables:
  "j_authority_events t = j_authority_events j \<Longrightarrow> j_authority_event_subtypes t = j_authority_event_subtypes j \<Longrightarrow> extends lib j t"
  by (simp add: extends_def sealed_def)

lemma log_from_append:
  "log_from lib n previous (rs @ [r]) \<longleftrightarrow> log_from lib n previous rs \<and>
     ar_position r = n + int (length rs) \<and> ar_epoch_id r = epoch_1 \<and> ar_epoch_ordinal r = Some (n + int (length rs)) \<and>
     ar_predecessor_position r = (if rs = [] then previous else Some (n + int (length rs) - 1)) \<and>
     ar_payload_sha256 r = Some (digest lib (ar_payload r))"
  by (induction rs arbitrary: n previous) (auto simp: algebra_simps)

lemma log_from_positions: "log_from lib n previous rs \<Longrightarrow> map ar_position rs = map (\<lambda>i. n + int i) [0..<length rs]"
proof (induction rs arbitrary: n previous)
  case (Cons r rs)
  then have "map ar_position rs = map (\<lambda>i. n + 1 + int i) [0..<length rs]"
    using Cons.IH[of "n + 1" "Some n"] by simp
  moreover have "map (\<lambda>i. n + int i) [0..<length (r # rs)] = n # map (\<lambda>i. n + 1 + int i) [0..<length rs]"
    by (simp add: upt_conv_Cons map_Suc_upt[symmetric] del: upt_Suc)
  ultimately show ?case using Cons.prems by simp
qed simp

lemma log_from_last:
  assumes "log_from lib 1 None rs" "rs \<noteq> []"
  shows "ar_position (last rs) = int (length rs)" "ar_epoch_ordinal (last rs) = Some (int (length rs))"
  using assms by (induction rs rule: rev_induct) (auto simp: log_from_append)

lemma append_authority_extends:
  "extends lib j (snd (append_authority lib kind entity w payload j))"
  "\<exists>row. j_authority_events (snd (append_authority lib kind entity w payload j)) = j_authority_events j @ [row] \<and>
     ar_kind row = kind \<and> ar_entity_id row = entity \<and> ar_payload row = payload"
proof -
  let ?rows = "j_authority_events j"
  show "\<exists>row. j_authority_events (snd (append_authority lib kind entity w payload j)) = ?rows @ [row] \<and>
     ar_kind row = kind \<and> ar_entity_id row = entity \<and> ar_payload row = payload"
    by (simp add: append_authority_def Let_def)
  show "extends lib j (snd (append_authority lib kind entity w payload j))"
    unfolding extends_def
  proof (intro conjI impI)
    show "prefix ?rows (j_authority_events (snd (append_authority lib kind entity w payload j)))"
      by (simp add: append_authority_def Let_def)
    assume s: "sealed lib j"
    then have l: "log_from lib 1 None ?rows" by (simp add: sealed_def)
    have "?rows \<noteq> [] \<Longrightarrow> length ?rows \<noteq> 0" by simp
    with s log_from_last[OF l] show "sealed lib (snd (append_authority lib kind entity w payload j))"
      by (auto simp: sealed_def append_authority_def Let_def log_from_append mirror_def)
  qed
qed

lemma append_authority_frame [simp]:
  "j_incident_events (snd (append_authority lib kind entity w payload j)) = j_incident_events j"
  "j_notification_intents (snd (append_authority lib kind entity w payload j)) = j_notification_intents j"
  "j_review_actions (snd (append_authority lib kind entity w payload j)) = j_review_actions j"
  "j_incident_review_state (snd (append_authority lib kind entity w payload j)) = j_incident_review_state j"
  "j_command_receipts (snd (append_authority lib kind entity w payload j)) = j_command_receipts j"
  "j_evidence_items (snd (append_authority lib kind entity w payload j)) = j_evidence_items j"
  "j_evidence_lifecycle_events (snd (append_authority lib kind entity w payload j)) = j_evidence_lifecycle_events j"
  "j_media_parser_runs (snd (append_authority lib kind entity w payload j)) = j_media_parser_runs j"
  "j_evidence_reevaluations (snd (append_authority lib kind entity w payload j)) = j_evidence_reevaluations j"
  "j_claim_nodes (snd (append_authority lib kind entity w payload j)) = j_claim_nodes j"
  "j_claim_evidence_links (snd (append_authority lib kind entity w payload j)) = j_claim_evidence_links j"
  "j_incident_relations (snd (append_authority lib kind entity w payload j)) = j_incident_relations j"
  "j_incident_candidates (snd (append_authority lib kind entity w payload j)) = j_incident_candidates j"
  "j_incident_identity_decisions (snd (append_authority lib kind entity w payload j)) = j_incident_identity_decisions j"
  by (simp_all add: append_authority_def Let_def)

section \<open>Every operation only appends\<close>

text \<open>A transaction that appends one authority event and then writes other tables.\<close>

lemma append_authority_frameD:
  assumes "append_authority lib kind entity w payload j = (p, j1)"
  shows "j_incident_events j1 = j_incident_events j" "j_notification_intents j1 = j_notification_intents j"
    "j_review_actions j1 = j_review_actions j" "j_incident_review_state j1 = j_incident_review_state j"
    "j_command_receipts j1 = j_command_receipts j" "j_evidence_items j1 = j_evidence_items j"
    "j_evidence_lifecycle_events j1 = j_evidence_lifecycle_events j" "j_media_parser_runs j1 = j_media_parser_runs j"
    "j_evidence_reevaluations j1 = j_evidence_reevaluations j" "j_claim_nodes j1 = j_claim_nodes j"
    "j_claim_evidence_links j1 = j_claim_evidence_links j" "j_incident_relations j1 = j_incident_relations j"
    "j_incident_candidates j1 = j_incident_candidates j" "j_incident_identity_decisions j1 = j_incident_identity_decisions j"
  using append_authority_frame[of lib kind entity w payload j] by (simp_all add: assms)

lemma extends_append_then:
  assumes "append_authority lib kind entity w payload j = (p, j1)" "j_authority_events t = j_authority_events j1"
    "j_authority_event_subtypes t = j_authority_event_subtypes j1"
  shows "extends lib j t"
  using extends_trans[OF append_authority_extends(1) extends_other_tables[of t "snd (append_authority lib kind entity w payload j)"]]
    assms by simp

lemma strict_append_then:
  assumes "append_authority lib kind entity w payload j = (p, j1)" "j_authority_events t = j_authority_events j1"
  shows "strict_prefix (j_authority_events j) (j_authority_events t)"
proof -
  obtain row where "j_authority_events j1 = j_authority_events j @ [row]"
    using append_authority_extends(2)[of lib kind entity w payload j] unfolding assms(1) snd_conv by blast
  then show ?thesis unfolding assms(2) by (simp add: strict_prefix_def)
qed

lemma insert_notification_extends: "insert_notification n j = Inr (x, t) \<Longrightarrow> extends lib j t"
  by (rule extends_other_tables) (auto simp: insert_notification_def split: if_splits)

definition incident_table_after :: "library \<Rightarrow> IncidentRecord \<Rightarrow> journal \<Rightarrow> journal" where
  "incident_table_after lib i j =
     (let (position, j1) = append_authority lib AM_INCIDENT (inc_incident_id i) (inc_last_observed_at i)
            (lib_model_dump lib (V_incident i)) j
      in j1\<lparr>j_incident_events := j_incident_events j1 @ [\<lparr>ir_authority_position = Some position, ir_incident = i\<rparr>]\<rparr>)"

lemma incident_table_after_simps [simp]:
  "j_notification_intents (incident_table_after lib i j) = j_notification_intents j"
  "j_review_actions (incident_table_after lib i j) = j_review_actions j"
  "j_incident_review_state (incident_table_after lib i j) = j_incident_review_state j"
  "j_command_receipts (incident_table_after lib i j) = j_command_receipts j"
  "j_incident_relations (incident_table_after lib i j) = j_incident_relations j"
  "all_incidents (incident_table_after lib i j) = all_incidents j @ [i]"
  by (simp_all add: incident_table_after_def all_incidents_def append_authority_def Let_def)

lemma incident_table_after_extends: "extends lib j (incident_table_after lib i j)"
  by (rule extends_append_then[OF surjective_pairing[of "append_authority lib AM_INCIDENT (inc_incident_id i)
    (inc_last_observed_at i) (lib_model_dump lib (V_incident i)) j"]]) (auto simp: incident_table_after_def split: prod.splits)

text \<open>The three outcomes of the transaction that commits an incident with its notification.\<close>

lemma append_incident_cases:
  obtains
    (duplicate) "\<exists>k \<in> set (all_incidents j). inc_incident_id k = inc_incident_id i \<and> inc_version k = inc_version i"
      "append_incident_with_notification lib i n j = Inl (IntegrityError ''incident_events'')"
  | (silent) "\<not> (\<exists>k \<in> set (all_incidents j). inc_incident_id k = inc_incident_id i \<and> inc_version k = inc_version i)"
      "case n of None \<Rightarrow> True | Some m \<Rightarrow> \<exists>k \<in> set (j_notification_intents j). ntf_idempotency_key k = ntf_idempotency_key m"
      "append_incident_with_notification lib i n j = Inr (False, incident_table_after lib i j)"
  | (intent) m where "\<not> (\<exists>k \<in> set (all_incidents j). inc_incident_id k = inc_incident_id i \<and> inc_version k = inc_version i)"
      "n = Some m" "\<forall>k \<in> set (j_notification_intents j). ntf_idempotency_key k \<noteq> ntf_idempotency_key m"
      "append_incident_with_notification lib i n j =
         bind_result (insert_notification m (snd (append_authority lib AM_NOTIFICATION_INTENT (ntf_notification_id m)
           (ntf_created_at m) (lib_model_dump lib (V_notification m)) (incident_table_after lib i j)))) (\<lambda>(_, j4). Inr (True, j4))"
proof -
  obtain position j1 where p: "append_authority lib AM_INCIDENT (inc_incident_id i) (inc_last_observed_at i)
            (lib_model_dump lib (V_incident i)) j = (position, j1)" by fastforce
  have j1: "j_incident_events j1 = j_incident_events j" "j_notification_intents j1 = j_notification_intents j"
    using append_authority_frame(1,2)[of lib AM_INCIDENT "inc_incident_id i" "inc_last_observed_at i"
        "lib_model_dump lib (V_incident i)" j] by (simp_all add: p)
  have t: "incident_table_after lib i j = j1\<lparr>j_incident_events := j_incident_events j1 @
      [\<lparr>ir_authority_position = Some position, ir_incident = i\<rparr>]\<rparr>"
    by (simp add: incident_table_after_def p)
  have dup: "(\<exists>r \<in> set (j_incident_events j1). inc_incident_id (ir_incident r) = inc_incident_id i \<and>
        inc_version (ir_incident r) = inc_version i) \<longleftrightarrow>
      (\<exists>k \<in> set (all_incidents j). inc_incident_id k = inc_incident_id i \<and> inc_version k = inc_version i)"
    by (simp add: all_incidents_def j1)
  note step = append_incident_with_notification_def[of lib i _ j, unfolded p Let_def prod.case dup t[unfolded Let_def, symmetric]]
  show thesis
  proof (cases "\<exists>k \<in> set (all_incidents j). inc_incident_id k = inc_incident_id i \<and> inc_version k = inc_version i")
    case True
    then show thesis by (intro duplicate) (simp_all add: step)
  next
    case False
    show thesis
    proof (cases n)
      case None
      with False show thesis by (intro silent) (simp_all add: step)
    next
      case (Some m)
      show thesis
      proof (cases "\<exists>k \<in> set (j_notification_intents j). ntf_idempotency_key k = ntf_idempotency_key m")
        case True
        with False Some show thesis by (intro silent) (simp_all add: step)
      next
        case n: False
        with False Some show thesis by (intro intent[of m]) (auto simp: step split: prod.splits)
      qed
    qed
  qed
qed

lemma append_incident_ok:
  assumes "append_incident_with_notification lib i n j = Inr (x, t)"
  obtains
    (silent) "\<not> (\<exists>k \<in> set (all_incidents j). inc_incident_id k = inc_incident_id i \<and> inc_version k = inc_version i)"
      "case n of None \<Rightarrow> True | Some m \<Rightarrow> \<exists>k \<in> set (j_notification_intents j). ntf_idempotency_key k = ntf_idempotency_key m"
      "t = incident_table_after lib i j"
  | (intent) m where "\<not> (\<exists>k \<in> set (all_incidents j). inc_incident_id k = inc_incident_id i \<and> inc_version k = inc_version i)"
      "n = Some m"
      "insert_notification m (snd (append_authority lib AM_NOTIFICATION_INTENT (ntf_notification_id m)
         (ntf_created_at m) (lib_model_dump lib (V_notification m)) (incident_table_after lib i j))) = Inr ((), t)"
proof (rule append_incident_cases[of j i lib n], goal_cases)
  case 1
  with assms show ?case by simp
next
  case 2
  with assms show ?case by (intro silent) simp_all
next
  case (3 m)
  let ?a = "append_authority lib AM_NOTIFICATION_INTENT (ntf_notification_id m)
           (ntf_created_at m) (lib_model_dump lib (V_notification m)) (incident_table_after lib i j)"
  have "bind_result (insert_notification m (snd ?a)) (\<lambda>(_, j4). Inr (True, j4)) = Inr (x, t)"
    using assms unfolding 3(6) .
  then have "insert_notification m (snd ?a) = Inr ((), t)" by (auto simp: bind_result_Inr)
  with 3(3,4) show ?case by (intro intent[of m])
qed

lemma append_incident_extends:
  assumes "append_incident_with_notification lib i n j = Inr (x, t)"
  shows "extends lib j t"
proof (rule append_incident_ok[OF assms], goal_cases)
  case 1
  then show ?case by (simp add: incident_table_after_extends)
next
  case (2 m)
  from insert_notification_extends[OF 2(3)] show ?case
    using extends_trans[OF incident_table_after_extends append_authority_extends(1)] extends_trans by blast
qed

lemma record_delivery_extends:
  assumes "record_delivery lib k d rc er acc j = Inr (x, t)"
  shows "extends lib j t"
  using assms
  by (auto simp: record_delivery_def Let_def split: option.splits if_splits prod.splits intro: extends_append_then)

lemma record_review_extends:
  assumes "record_review lib a j = Inr (x, t)"
  shows "extends lib j t"
  using assms by (auto simp: record_review_def Let_def split: if_splits prod.splits intro: extends_append_then)

section \<open>The write-once tables\<close>

interpretation receipts: write_once "record_command_receipt lib" command_receipt rcp_scoped_idempotency_key
  "\<lambda>x. x" "\<lambda>r. r" "\<lambda>r x. rcp_payload_sha256 r = rcp_payload_sha256 x" j_authority_events for lib
proof (unfold_locales, goal_cases)
  case (3 x s y t r)
  then show ?case by (auto simp: record_command_receipt_def split: if_splits)
next
  case (4 x s y t k)
  then show ?case
    by (auto simp: record_command_receipt_def command_receipt_def Let_def find_snoc append_authority_frameD
        split: if_splits prod.splits option.splits intro: strict_append_then)
next
  case (5 x s y t r)
  then show ?case by (simp add: record_command_receipt_def)
qed simp_all

interpretation parser_runs: write_once "record_media_parser_report lib" find_parser_run mpr_parse_id
  "\<lambda>x. (value_digest lib (V_parser x), x)" snd "\<lambda>r x. fst r = value_digest lib (V_parser x)" j_authority_events for lib
proof (unfold_locales, goal_cases)
  case (3 x s y t r)
  then show ?case by (auto simp: record_media_parser_report_def Let_def split: if_splits)
next
  case (4 x s y t k)
  then show ?case
    by (auto simp: record_media_parser_report_def find_parser_run_def Let_def find_snoc append_authority_frameD
        split: if_splits prod.splits option.splits intro: strict_append_then)
next
  case (5 x s y t r)
  then show ?case by (simp add: record_media_parser_report_def)
qed simp_all

interpretation reevaluations: write_once "record_evidence_reevaluation lib" find_reevaluation ree_reevaluation_id
  "\<lambda>x. (value_digest lib (V_reevaluation x), x)" snd "\<lambda>r x. fst r = value_digest lib (V_reevaluation x)" j_authority_events for lib
proof (unfold_locales, goal_cases)
  case (3 x s y t r)
  then show ?case by (auto simp: record_evidence_reevaluation_def Let_def split: if_splits)
next
  case (4 x s y t k)
  then show ?case
    by (auto simp: record_evidence_reevaluation_def find_reevaluation_def Let_def find_snoc append_authority_frameD
        split: if_splits prod.splits option.splits intro: strict_append_then)
next
  case (5 x s y t r)
  then show ?case by (simp add: record_evidence_reevaluation_def)
qed simp_all

interpretation claim_nodes: write_once "record_claim lib" find_claim clm_claim_id
  "\<lambda>x. (value_digest lib (V_claim x), x)" snd "\<lambda>r x. fst r = value_digest lib (V_claim x)" j_authority_events for lib
proof (unfold_locales, goal_cases)
  case (3 x s y t r)
  then show ?case by (auto simp: record_claim_def Let_def split: if_splits)
next
  case (4 x s y t k)
  then show ?case
    by (auto simp: record_claim_def find_claim_def Let_def find_snoc append_authority_frameD
        split: if_splits prod.splits option.splits intro: strict_append_then)
next
  case (5 x s y t r)
  then show ?case by (simp add: record_claim_def)
qed simp_all

interpretation relations: write_once "record_incident_relation lib" find_relation relation_key
  "\<lambda>x. (value_digest lib (V_relation x), x)" snd "\<lambda>r x. fst r = value_digest lib (V_relation x)" j_authority_events for lib
proof (unfold_locales, goal_cases)
  case (3 x s y t r)
  then show ?case by (auto simp: record_incident_relation_def Let_def split: if_splits)
next
  case (4 x s y t k)
  then show ?case
    by (auto simp: record_incident_relation_def find_relation_def Let_def find_snoc append_authority_frameD
        split: if_splits prod.splits option.splits intro: strict_append_then)
next
  case (5 x s y t r)
  then show ?case by (simp add: record_incident_relation_def)
qed simp_all

interpretation lifecycle_rows: write_once "record_evidence_lifecycle_locked lib" find_lifecycle lce_lifecycle_event_id
  "\<lambda>x. (value_digest lib (V_lifecycle x), x)" snd "\<lambda>r x. fst r = value_digest lib (V_lifecycle x)" j_authority_events for lib
proof (unfold_locales, goal_cases)
  case (3 x s y t r)
  then show ?case by (auto simp: record_evidence_lifecycle_locked_def Let_def split: if_splits)
next
  case (4 x s y t k)
  then show ?case
    by (auto simp: record_evidence_lifecycle_locked_def find_lifecycle_def Let_def find_snoc append_authority_frameD
        split: if_splits prod.splits option.splits intro: strict_append_then)
next
  case (5 x s y t r)
  then show ?case by (simp add: record_evidence_lifecycle_locked_def)
qed simp_all

text \<open>The targets of a link that was accepted are still there when it is delivered again.\<close>

interpretation links: write_once "record_claim_link lib" find_link link_key
  "\<lambda>x. (value_digest lib (V_link x), x)" snd "\<lambda>r x. fst r = value_digest lib (V_link x)" j_authority_events for lib
proof (unfold_locales, goal_cases)
  case (3 x s y t r)
  then show ?case by (auto simp: record_claim_link_def Let_def split: if_splits)
next
  case (4 x s y t k)
  then show ?case
    by (auto simp: record_claim_link_def find_link_def Let_def find_snoc append_authority_frameD
        split: if_splits prod.splits option.splits intro: strict_append_then)
next
  case (5 x s y t r)
  then have "find_claim t (lnk_claim_id x) \<noteq> None" "find_evidence t (lnk_evidence_id x) \<noteq> None"
    by (auto simp: record_claim_link_def find_claim_def find_evidence_def Let_def append_authority_frameD
        split: if_splits prod.splits option.splits)
  with 5(2,3) show ?case by (auto simp: record_claim_link_def)
qed simp_all

lemma lifecycle_locked_frame:
  assumes "record_evidence_lifecycle_locked lib e j = Inr (x, t)"
  shows "j_evidence_items t = j_evidence_items j" "prefix (j_authority_events j) (j_authority_events t)" "extends lib j t"
proof -
  show "j_evidence_items t = j_evidence_items j" "extends lib j t"
    using assms by (auto simp: record_evidence_lifecycle_locked_def Let_def append_authority_frameD
        split: if_splits prod.splits option.splits intro: extends_append_then)
  show "prefix (j_authority_events j) (j_authority_events t)" by (rule lifecycle_rows.log_grows[OF assms])
qed

interpretation evidence_rows: write_once "record_evidence lib fresh_id" find_evidence evi_evidence_id
  "\<lambda>x. (value_digest lib (V_evidence x), x)" snd "\<lambda>r x. fst r = value_digest lib (V_evidence x)" j_authority_events
  for lib fresh_id
proof (unfold_locales, goal_cases)
  case (3 x s y t r)
  then show ?case by (auto simp: record_evidence_def Let_def split: if_splits)
next
  case (4 x s y t k)
  then obtain p j1 e z where a: "append_authority lib AM_EVIDENCE (evi_evidence_id x) (evi_received_at x)
          (lib_model_dump lib (V_evidence x)) s = (p, j1)"
    and l: "record_evidence_lifecycle_locked lib e
        (j1\<lparr>j_evidence_items := j_evidence_items j1 @ [(value_digest lib (V_evidence x), x)]\<rparr>) = Inr (z, t)"
    and y: "y = x"
    by (auto simp: record_evidence_def Let_def bind_result_Inr split: if_splits prod.splits)
  note f = lifecycle_locked_frame[OF l]
  have "strict_prefix (j_authority_events s) (j_authority_events t)"
    using strict_append_then[OF a refl] f(2) prefix_order.less_le_trans by fastforce
  with f(1) 4(2) y show ?case
    by (auto simp: find_evidence_def find_snoc append_authority_frameD[OF a] split: option.splits)
next
  case (5 x s y t r)
  then show ?case by (auto simp: record_evidence_def Let_def split: if_splits)
qed simp_all

section \<open>Conformance\<close>

lemma row_failures_None: "row_failures lib n previous a None \<noteq> []"
  by (simp add: row_failures_def Let_def)

lemma row_failures_Some:
  "row_failures lib n previous a (Some s) = [] \<longleftrightarrow>
     ar_epoch_id a = epoch_1 \<and> (case ar_epoch_ordinal a of None \<Rightarrow> -1 | Some m \<Rightarrow> if m = 0 then -1 else m) = n \<and>
     ar_predecessor_position a = previous \<and> ar_payload_sha256 a = Some (digest lib (ar_payload a)) \<and>
     sr_kind s = ar_kind a \<and> sr_subtype_id s = ar_entity_id a \<and> sr_payload_sha256 s = digest lib (ar_payload a) \<and>
     sr_payload s = ar_payload a"
  by (auto simp: row_failures_def Let_def)

lemma subtype_at_position: "subtype_at j p = Some s \<Longrightarrow> sr_authority_position s = p"
  by (auto simp: subtype_at_def find_Some_iff)

lemma row_ok_mirrored:
  assumes "row_failures lib n previous a (subtype_at j (ar_position a)) = []"
  shows "subtype_at j (ar_position a) = Some (mirror lib a)"
proof (cases "subtype_at j (ar_position a)")
  case None
  with assms show ?thesis by (simp add: row_failures_None)
next
  case (Some s)
  with assms subtype_at_position[OF Some] have "s = mirror lib a"
    by (cases s) (simp add: row_failures_Some mirror_def)
  with Some show ?thesis by simp
qed

lemma mirror_row_ok:
  "row_failures lib n previous a (Some (mirror lib b)) = [] \<longleftrightarrow>
     ar_epoch_id a = epoch_1 \<and> (case ar_epoch_ordinal a of None \<Rightarrow> -1 | Some m \<Rightarrow> if m = 0 then -1 else m) = n \<and>
     ar_predecessor_position a = previous \<and> ar_payload_sha256 a = Some (digest lib (ar_payload a)) \<and>
     ar_kind b = ar_kind a \<and> ar_entity_id b = ar_entity_id a \<and> ar_payload b = ar_payload a"
  by (auto simp: row_failures_Some mirror_def)

lemma chain_ok_mirrored: "chain_failures lib j n previous rs = [] \<Longrightarrow> r \<in> set rs \<Longrightarrow> subtype_at j (ar_position r) = Some (mirror lib r)"
  by (induction rs arbitrary: n previous) (auto dest: row_ok_mirrored)

lemma chain_sealed:
  "log_from lib n previous rs \<Longrightarrow> 0 < n \<Longrightarrow> \<forall>r \<in> set rs. subtype_at j (ar_position r) = Some (mirror lib r) \<Longrightarrow>
     chain_failures lib j n previous rs = []"
  by (induction rs arbitrary: n previous) (auto simp: mirror_row_ok)

lemma chain_renumbered:
  "0 < n \<Longrightarrow> \<forall>r \<in> set rs. subtype_at j (ar_position r) = Some (mirror lib r) \<Longrightarrow>
     chain_failures lib j n previous (renumber lib n previous rs) = []"
  by (induction rs arbitrary: n previous) (auto simp: mirror_row_ok)

lemma renumber_positions [simp]: "map ar_position (renumber lib n previous rs) = map ar_position rs"
  by (induction rs arbitrary: n previous) auto

lemma renumber_position_set: "ar_position ` set (renumber lib n previous rs) = ar_position ` set rs"
  by (metis renumber_positions set_map)

lemma find_mirror:
  "distinct (map ar_position rs) \<Longrightarrow> r \<in> set rs \<Longrightarrow>
     find (\<lambda>s. sr_authority_position s = ar_position r) (map (mirror lib) rs) = Some (mirror lib r)"
  by (induction rs) (auto simp: mirror_def)

lemma sealed_positions:
  assumes "sealed lib j"
  shows "sorted (map ar_position (j_authority_events j))" "distinct (map ar_position (j_authority_events j))"
  using log_from_positions[of lib 1 None "j_authority_events j"] assms
  by (simp_all add: sealed_def sorted_map sorted_wrt_map distinct_map inj_on_def sorted_wrt_iff_nth_less)

lemma sealed_mirrored: "sealed lib j \<Longrightarrow> r \<in> set (j_authority_events j) \<Longrightarrow> subtype_at j (ar_position r) = Some (mirror lib r)"
  using sealed_positions(2)[of lib j] by (simp add: subtype_at_def sealed_def find_mirror)

lemma sealed_conformance:
  assumes "sealed lib j"
  shows "authority_conformance lib j = \<lparr>cf_valid = True, cf_epoch_id = epoch_1, cf_event_count = length (j_authority_events j),
     cf_highest_contiguous_position = int (length (j_authority_events j)), cf_failures = []\<rparr>"
proof -
  let ?rows = "j_authority_events j"
  have srt: "sort_key ar_position ?rows = ?rows"
    using sealed_positions(1)[OF assms] by (rule sort_key_id_if_sorted)
  have l: "log_from lib 1 None ?rows" and sub: "j_authority_event_subtypes j = map (mirror lib) ?rows"
    using assms by (simp_all add: sealed_def)
  have "chain_failures lib j 1 None ?rows = []"
    using l sealed_mirrored[OF assms] by (simp add: chain_sealed)
  moreover have "filter (\<lambda>s. sr_authority_position s \<notin> set (map ar_position ?rows)) (j_authority_event_subtypes j) = []"
    by (auto simp: sub filter_empty_conv mirror_def)
  ultimately show ?thesis
    using log_from_last(1)[OF l] by (cases "?rows = []") (simp_all add: authority_conformance_def srt Let_def)
qed

text \<open>What the check needs of any log: a mirrored, gapless chain.\<close>

lemma conformance_valid:
  "cf_valid (authority_conformance lib j) \<longleftrightarrow>
     chain_failures lib j 1 None (sort_key ar_position (j_authority_events j)) = [] \<and>
     (\<forall>s \<in> set (j_authority_event_subtypes j). sr_authority_position s \<in> ar_position ` set (j_authority_events j))"
  by (auto simp: authority_conformance_def Let_def filter_empty_conv)

lemma conformance_mirrored:
  assumes "cf_valid (authority_conformance lib j)" "r \<in> set (j_authority_events j)"
  shows "subtype_at j (ar_position r) = Some (mirror lib r)"
  using assms by (auto simp: conformance_valid intro: chain_ok_mirrored)

section \<open>Opening the store\<close>

lemma migrate_incident_rows_done:
  "\<forall>r \<in> set rs. ir_authority_position r \<noteq> None \<Longrightarrow> migrate_incident_rows lib rs j = (rs, j)"
  by (induction rs) auto

definition mirrored :: "library \<Rightarrow> journal \<Rightarrow> bool" where
  "mirrored lib j \<longleftrightarrow> sorted (map ar_position (j_authority_events j)) \<and>
     (\<forall>r \<in> set (j_authority_events j). subtype_at j (ar_position r) = Some (mirror lib r)) \<and>
     (\<forall>s \<in> set (j_authority_event_subtypes j). sr_authority_position s \<in> ar_position ` set (j_authority_events j)) \<and>
     (\<forall>r \<in> set (j_incident_events j). ir_authority_position r \<noteq> None)"

lemma subtype_at_known: "subtype_at j p = Some s \<Longrightarrow> p \<in> set (map sr_authority_position (j_authority_event_subtypes j))"
  by (force simp: subtype_at_def find_Some_iff)

lemma open_store_mirrored:
  assumes "mirrored lib j"
  shows "open_store lib j = j\<lparr>j_authority_events := renumber lib 1 None (j_authority_events j)\<rparr>"
proof -
  let ?m = "migrate_authority_schema lib j"
  have srt: "sort_key ar_position (j_authority_events j) = j_authority_events j"
    using assms by (simp add: mirrored_def sort_key_id_if_sorted)
  then have m: "?m = j\<lparr>j_authority_events := renumber lib 1 None (j_authority_events j)\<rparr>"
    by (simp add: migrate_authority_schema_def)
  have "migrate_incident_rows lib (j_incident_events ?m) ?m = (j_incident_events ?m, ?m)"
    by (rule migrate_incident_rows_done) (use assms in \<open>simp add: m mirrored_def\<close>)
  then have l: "migrate_legacy_incident_journal lib ?m = ?m"
    by (simp add: migrate_legacy_incident_journal_def m)
  have "ar_position r \<in> sr_authority_position ` set (j_authority_event_subtypes j)"
    if "r \<in> set (j_authority_events j)" for r
    using assms that by (auto simp: mirrored_def intro: subtype_at_known[simplified])
  then have "ar_position r \<in> sr_authority_position ` set (j_authority_event_subtypes j)"
    if "r \<in> set (renumber lib 1 None (j_authority_events j))" for r
    using imageI[OF that, of ar_position] unfolding renumber_position_set by auto
  then have "filter (\<lambda>r. ar_position r \<notin> sr_authority_position ` set (j_authority_event_subtypes j))
      (sort_key ar_position (renumber lib 1 None (j_authority_events j))) = []"
    by (simp add: filter_empty_conv)
  then have "backfill_authority_subtypes lib ?m = ?m"
    by (simp add: backfill_authority_subtypes_def Let_def m)
  then show ?thesis unfolding open_store_def l by (simp only: m)
qed

lemma open_store_valid:
  assumes "mirrored lib j"
  shows "cf_valid (authority_conformance lib (open_store lib j))"
proof -
  let ?rows = "renumber lib 1 None (j_authority_events j)"
  let ?t = "j\<lparr>j_authority_events := ?rows\<rparr>"
  have at: "subtype_at ?t = subtype_at j" by (simp add: subtype_at_def fun_eq_iff)
  have c: "chain_failures lib ?t 1 None ?rows = []"
    using assms by (intro chain_renumbered) (simp_all add: at mirrored_def)
  have "sorted (map ar_position ?rows)"
    using assms by (simp add: mirrored_def)
  then have "sort_key ar_position ?rows = ?rows" by (rule sort_key_id_if_sorted)
  moreover have "ar_position ` set ?rows = ar_position ` set (j_authority_events j)"
    by (rule renumber_position_set)
  ultimately show ?thesis
    using assms c by (simp add: open_store_mirrored conformance_valid mirrored_def)
qed

lemma renumber_sealed: "log_from lib n previous rs \<Longrightarrow> renumber lib n previous rs = rs"
  by (induction rs arbitrary: n previous) auto

end
