(* ===== verification/Engine_Props.thy ===== *)
theory Engine_Props
  imports Engine Journal_Props
begin

text \<open>
  The life cycle of incidents: in every reachable engine the durable history of a hazard is a chain
  of lawful steps, the projection in memory is its last element, and the authority log is sealed.
\<close>

section \<open>The transition tables as guarded machines\<close>

interpretation incident_states: guarded_transitions allowed check_transition
  by unfold_locales (auto simp: check_transition_def)

interpretation command_states: guarded_transitions command_status_transitions validate_command_status_transition
  by unfold_locales (auto simp: validate_command_status_transition_def)

lemma allowed_refl [simp]: "s \<in> set (allowed s)"
  by (cases s) simp_all

section \<open>Lawful histories\<close>

definition history :: "journal \<Rightarrow> HazardKind \<Rightarrow> IncidentRecord list" where
  "history j h = filter (\<lambda>i. inc_hazard i = h) (all_incidents j)"

definition watermark_le :: "IncidentRecord \<Rightarrow> IncidentRecord \<Rightarrow> bool" where
  "watermark_le a b \<longleftrightarrow> (case inc_event_time_watermark a of None \<Rightarrow> True
     | Some w \<Rightarrow> (case inc_event_time_watermark b of None \<Rightarrow> False | Some w' \<Rightarrow> w \<le> w'))"

definition lawful_step :: "IncidentRecord \<Rightarrow> IncidentRecord \<Rightarrow> bool" where
  "lawful_step a b \<longleftrightarrow>
     inc_incident_id b = inc_incident_id a \<and> inc_hazard b = inc_hazard a \<and>
     inc_version b = inc_version a + 1 \<and> inc_state b \<in> set (allowed (inc_state a)) \<and>
     watermark_le a b \<and> inc_first_observed_at b = inc_first_observed_at a \<and>
     prefix (inc_analysis_ids a) (inc_analysis_ids b) \<and> set (inc_reason_codes a) \<subseteq> set (inc_reason_codes b)"

definition lawful_history :: "IncidentRecord list \<Rightarrow> bool" where
  "lawful_history hs \<longleftrightarrow> (hs \<noteq> [] \<longrightarrow> inc_version (hd hs) = 1) \<and> successively lawful_step hs"

lemma lawful_history_snoc:
  "lawful_history (hs @ [i]) \<longleftrightarrow> lawful_history hs \<and> (if hs = [] then inc_version i = 1 else lawful_step (last hs) i)"
  by (auto simp: lawful_history_def successively_append_iff)

lemma lawful_versions: "lawful_history hs \<Longrightarrow> map inc_version hs = map (\<lambda>n. int n + 1) [0..<length hs]"
proof (induction hs rule: rev_induct)
  case (snoc i hs)
  then have l: "lawful_history hs" "if hs = [] then inc_version i = 1 else lawful_step (last hs) i"
    by (simp_all add: lawful_history_snoc)
  have "hs \<noteq> [] \<Longrightarrow> inc_version (last hs) = int (length hs)"
    using arg_cong[OF snoc.IH[OF l(1)], of "\<lambda>xs. xs ! (length hs - 1)"] by (simp add: last_conv_nth Suc_leI)
  with l snoc.IH show ?case by (auto simp: lawful_step_def split: if_splits)
qed simp

lemma lawful_ids: "lawful_history hs \<Longrightarrow> i \<in> set hs \<Longrightarrow> inc_incident_id i = inc_incident_id (last hs)"
proof (induction hs rule: rev_induct)
  case (snoc x hs)
  then show ?case by (auto simp: lawful_history_snoc lawful_step_def split: if_splits)
qed simp

lemma lawful_last_version:
  assumes "lawful_history hs" "i \<in> set hs"
  shows "1 \<le> inc_version i" "inc_version i \<le> inc_version (last hs)" "inc_version i = inc_version (last hs) \<Longrightarrow> i = last hs"
proof -
  obtain n where n: "n < length hs" "i = hs ! n" using assms(2) by (auto simp: in_set_conv_nth)
  have v: "inc_version (hs ! k) = int k + 1" if "k < length hs" for k
    using arg_cong[OF lawful_versions[OF assms(1)], of "\<lambda>xs. xs ! k"] that by simp
  have "last hs = hs ! (length hs - 1)" using n by (simp add: last_conv_nth length_greater_0_conv[symmetric] del: length_greater_0_conv)
  then show "1 \<le> inc_version i" "inc_version i \<le> inc_version (last hs)" "inc_version i = inc_version (last hs) \<Longrightarrow> i = last hs"
    using n v[of n] v[of "length hs - 1"] by (auto intro!: arg_cong[of n "length hs - Suc 0" "nth hs"])
qed

section \<open>The invariant of the engine\<close>

definition engine_inv :: "library \<Rightarrow> engine \<Rightarrow> bool" where
  "engine_inv lib eng \<longleftrightarrow>
     sealed lib (eng_store eng) \<and>
     (\<forall>r \<in> set (j_incident_events (eng_store eng)). ir_authority_position r \<noteq> None) \<and>
     dict_ok (eng_current eng) \<and>
     (\<forall>h. lawful_history (history (eng_store eng) h)) \<and>
     (\<forall>h. map_of (eng_current eng) h =
        (if history (eng_store eng) h = [] then None else Some (last (history (eng_store eng) h)))) \<and>
     (\<forall>i \<in> set (all_incidents (eng_store eng)). \<forall>k \<in> set (all_incidents (eng_store eng)).
        inc_incident_id i = inc_incident_id k \<longrightarrow> inc_hazard i = inc_hazard k)"

lemma engine_inv_facts:
  assumes "engine_inv lib eng"
  shows "sealed lib (eng_store eng)" "\<forall>r \<in> set (j_incident_events (eng_store eng)). ir_authority_position r \<noteq> None"
    "dict_ok (eng_current eng)" "lawful_history (history (eng_store eng) h)"
    "map_of (eng_current eng) h = (if history (eng_store eng) h = [] then None else Some (last (history (eng_store eng) h)))"
    "i \<in> set (all_incidents (eng_store eng)) \<Longrightarrow> k \<in> set (all_incidents (eng_store eng)) \<Longrightarrow>
       inc_incident_id i = inc_incident_id k \<Longrightarrow> inc_hazard i = inc_hazard k"
  using assms unfolding engine_inv_def by blast+

lemma engine_fields:
  "eng_store (eng\<lparr>eng_store := j\<rparr>) = j" "eng_current (eng\<lparr>eng_store := j\<rparr>) = eng_current eng"
  "eng_store (eng\<lparr>eng_store := j, eng_current := m\<rparr>) = j" "eng_current (eng\<lparr>eng_store := j, eng_current := m\<rparr>) = m"
  by simp_all

lemma engine_invI:
  assumes "sealed lib (eng_store eng)"
    and "\<And>r. r \<in> set (j_incident_events (eng_store eng)) \<Longrightarrow> ir_authority_position r \<noteq> None"
    and "dict_ok (eng_current eng)" "\<And>h. lawful_history (history (eng_store eng) h)"
    and "\<And>h. map_of (eng_current eng) h =
      (if history (eng_store eng) h = [] then None else Some (last (history (eng_store eng) h)))"
    and "\<And>i k. i \<in> set (all_incidents (eng_store eng)) \<Longrightarrow> k \<in> set (all_incidents (eng_store eng)) \<Longrightarrow>
       inc_incident_id i = inc_incident_id k \<Longrightarrow> inc_hazard i = inc_hazard k"
  shows "engine_inv lib eng"
  using assms unfolding engine_inv_def by blast

lemma history_mem: "i \<in> set (history j h) \<longleftrightarrow> i \<in> set (all_incidents j) \<and> inc_hazard i = h"
  by (auto simp: history_def)

lemma current_in_history:
  assumes "engine_inv lib eng" "map_of (eng_current eng) h = Some c"
  shows "history (eng_store eng) h \<noteq> []" "c = last (history (eng_store eng) h)" "inc_hazard c = h"
    "c \<in> set (all_incidents (eng_store eng))"
proof -
  show n: "history (eng_store eng) h \<noteq> []" and c: "c = last (history (eng_store eng) h)"
    using engine_inv_facts(5)[OF assms(1), of h] assms(2) by (auto split: if_splits)
  then have "c \<in> set (history (eng_store eng) h)" by simp
  then show "inc_hazard c = h" "c \<in> set (all_incidents (eng_store eng))" by (simp_all add: history_mem)
qed

text \<open>A store that has the same incidents and a longer sealed log.\<close>

lemma engine_inv_store:
  assumes "engine_inv lib eng" "extends lib (eng_store eng) j" "j_incident_events j = j_incident_events (eng_store eng)"
  shows "engine_inv lib (eng\<lparr>eng_store := j\<rparr>)"
proof -
  have a: "all_incidents j = all_incidents (eng_store eng)" by (simp add: all_incidents_def assms(3))
  then have h: "history j = history (eng_store eng)" by (simp add: history_def fun_eq_iff)
  have s: "sealed lib j" using assms(2) engine_inv_facts(1)[OF assms(1)] by (simp add: extends_def)
  show ?thesis
    by (rule engine_invI; unfold engine_fields a h assms(3))
      (fact s, erule bspec[OF engine_inv_facts(2)[OF assms(1)]], rule engine_inv_facts(3)[OF assms(1)],
       rule engine_inv_facts(4)[OF assms(1)], rule engine_inv_facts(5)[OF assms(1)], erule (2) engine_inv_facts(6)[OF assms(1)])
qed

text \<open>The first or the next version of a hazard's incident.\<close>

definition next_version :: "engine \<Rightarrow> IncidentRecord \<Rightarrow> bool" where
  "next_version eng i \<longleftrightarrow> (case map_of (eng_current eng) (inc_hazard i) of
     None \<Rightarrow> inc_version i = 1 | Some c \<Rightarrow> lawful_step c i)"

lemma append_incident_table:
  assumes "append_incident_with_notification lib i n j = Inr (x, t)"
  shows "j_incident_events t = j_incident_events (incident_table_after lib i j)"
    "\<not> (\<exists>k \<in> set (all_incidents j). inc_incident_id k = inc_incident_id i \<and> inc_version k = inc_version i)"
  by (rule append_incident_ok[OF assms]; auto simp: insert_notification_def split: if_splits)+

lemma incident_table_after_rows:
  "\<exists>p. j_incident_events (incident_table_after lib i j) = j_incident_events j @ [\<lparr>ir_authority_position = Some p, ir_incident = i\<rparr>]"
  by (simp add: incident_table_after_def append_authority_def Let_def)

lemma commit_inv:
  assumes "engine_inv lib eng" "next_version eng i"
  shows "engine_inv lib (snd (commit lib eng i n))"
proof (cases "append_incident_with_notification lib i n (eng_store eng)")
  case (Inl e)
  with assms(1) show ?thesis by (simp add: commit_def)
next
  case (Inr p)
  let ?j = "eng_store eng"
  obtain x t where p: "p = (x, t)" by fastforce
  note app = Inr[unfolded p]
  obtain pos where rows: "j_incident_events t = j_incident_events ?j @ [\<lparr>ir_authority_position = Some pos, ir_incident = i\<rparr>]"
    using append_incident_table(1)[OF app] incident_table_after_rows[of lib i ?j] by auto
  have all: "all_incidents t = all_incidents ?j @ [i]" by (simp add: all_incidents_def rows)
  have hist: "history t h = (if h = inc_hazard i then history ?j h @ [i] else history ?j h)" for h
    by (auto simp: history_def all)
  note cur = engine_inv_facts(5)[OF assms(1), of "inc_hazard i"]
  have law: "lawful_history (history t h)" for h
  proof (cases "h = inc_hazard i")
    case True
    have "if history ?j h = [] then inc_version i = 1 else lawful_step (last (history ?j h)) i"
      using assms(2) unfolding next_version_def cur True by (simp split: if_splits)
    then have "lawful_history (history ?j h @ [i])"
      using engine_inv_facts(4)[OF assms(1), of h] unfolding lawful_history_snoc by blast
    then show ?thesis unfolding hist using True by simp
  qed (simp add: hist engine_inv_facts(4)[OF assms(1)])
  have fresh: "inc_hazard k = inc_hazard i" if k: "k \<in> set (all_incidents ?j)" and eq: "inc_incident_id k = inc_incident_id i" for k
  proof (cases "map_of (eng_current eng) (inc_hazard i)")
    case (Some c)
    then have "inc_incident_id i = inc_incident_id c" using assms(2) by (simp add: next_version_def lawful_step_def)
    then show ?thesis
      using engine_inv_facts(6)[OF assms(1) k current_in_history(4)[OF assms(1) Some]] eq current_in_history(3)[OF assms(1) Some] by simp
  next
    case None
    then have v: "inc_version i = 1" using assms(2) by (simp add: next_version_def)
    let ?hs = "history ?j (inc_hazard k)"
    have ne: "?hs \<noteq> []" using k by (auto simp: history_def filter_empty_conv)
    note l = engine_inv_facts(4)[OF assms(1), of "inc_hazard k"]
    have "hd ?hs \<in> set (all_incidents ?j)" "inc_version (hd ?hs) = 1"
      using ne l hd_in_set[OF ne] by (simp_all add: history_mem lawful_history_def)
    moreover have "inc_incident_id (hd ?hs) = inc_incident_id i"
      using lawful_ids[OF l hd_in_set[OF ne]] lawful_ids[OF l, of k] k eq by (simp add: history_mem)
    ultimately show ?thesis using append_incident_table(2)[OF app] unfolding v by blast
  qed
  have sl: "sealed lib t"
    using append_incident_extends[OF app] engine_inv_facts(1)[OF assms(1)] by (simp add: extends_def)
  have pos: "ir_authority_position r \<noteq> None" if "r \<in> set (j_incident_events t)" for r
    using that engine_inv_facts(2)[OF assms(1)] by (auto simp: rows)
  have ok: "dict_ok (AList.update (inc_hazard i) i (eng_current eng))"
    using engine_inv_facts(3)[OF assms(1)] by (rule dict_ok_update)
  have upd: "map_of (AList.update (inc_hazard i) i (eng_current eng)) h =
      (if history t h = [] then None else Some (last (history t h)))" for h
    using engine_inv_facts(5)[OF assms(1), of h] by (simp add: hist update_conv')
  have ids: "inc_hazard a = inc_hazard b" if mem: "a \<in> set (all_incidents t)" "b \<in> set (all_incidents t)"
    and same: "inc_incident_id a = inc_incident_id b" for a b
  proof -
    consider "a = i" "b = i" | "a = i" "b \<in> set (all_incidents ?j)" | "a \<in> set (all_incidents ?j)" "b = i"
      | "a \<in> set (all_incidents ?j)" "b \<in> set (all_incidents ?j)" using mem unfolding all by fastforce
    then show ?thesis
      using same fresh[of a] fresh[of b] engine_inv_facts(6)[OF assms(1), of a b] by cases simp_all
  qed
  have "engine_inv lib (eng\<lparr>eng_store := t, eng_current := AList.update (inc_hazard i) i (eng_current eng)\<rparr>)"
    by (rule engine_invI; unfold engine_fields) (fact sl, erule pos, fact ok, rule law, rule upd, erule (2) ids)
  then show ?thesis by (simp add: commit_def Inr p)
qed

end
