(* ===== verification/Engine_Steps.thy ===== *)
theory Engine_Steps
  imports Engine_Props
begin

text \<open>
  Every public operation of the engine keeps its invariant, restarting it from its journal restores
  the projection, and the step relation of a running node reaches only engines that satisfy it.
\<close>

lemma find_SomeD:
  assumes "find P xs = Some x"
  shows "x \<in> set xs" "P x"
  using assms by (auto simp: find_Some_iff)

section \<open>Operations that leave the incidents alone\<close>

lemma receipt_frame:
  assumes "record_command_receipt lib r j = Inr (x, t)"
  shows "extends lib j t" "j_incident_events t = j_incident_events j"
  using assms by (auto simp: record_command_receipt_def Let_def append_authority_frameD
      split: option.splits if_splits prod.splits intro: extends_append_then)

lemma relation_frame:
  assumes "record_incident_relation lib r j = Inr (x, t)"
  shows "extends lib j t" "j_incident_events t = j_incident_events j"
  using assms by (auto simp: record_incident_relation_def Let_def append_authority_frameD
      split: option.splits if_splits prod.splits intro: extends_append_then)

lemma review_frame:
  assumes "record_review lib a j = Inr (x, t)"
  shows "j_incident_events t = j_incident_events j"
  using assms by (auto simp: record_review_def Let_def append_authority_frameD split: if_splits prod.splits)

lemma delivery_frame:
  assumes "record_delivery lib k d rc er acc j = Inr (x, t)"
  shows "j_incident_events t = j_incident_events j"
  using assms by (auto simp: record_delivery_def Let_def append_authority_frameD
      split: option.splits if_splits prod.splits)

lemma seal_command_inv:
  assumes "engine_inv lib eng"
  shows "engine_inv lib (snd (seal_command lib eng r res))"
  using assms
  by (auto simp: seal_command_def split: sum.splits prod.splits intro: engine_inv_store receipt_frame)

lemma review_inv:
  assumes "engine_inv lib eng"
  shows "engine_inv lib (snd (review lib eng a))"
  using assms
  by (auto simp: review_def split: option.splits sum.splits prod.splits
      intro: engine_inv_store record_review_extends review_frame)

lemma deliver_all_frame:
  assumes "deliver_all lib send now_of ns j k = (out, t, k')"
  shows "extends lib j t \<and> j_incident_events t = j_incident_events j"
  using assms
proof (induction ns arbitrary: j k out t k')
  case (Cons n ns)
  obtain o1 k1 where s: "send n k = (o1, k1)" by fastforce
  obtain d rc er where attempt: "(case o1 of
      Inl text \<Rightarrow> record_delivery lib (ntf_notification_id n) False None (Some text) (now_of (ntf_notification_id n)) j
    | Inr receipt \<Rightarrow> record_delivery lib (ntf_notification_id n) True (Some receipt) None (now_of (ntf_notification_id n)) j) =
      record_delivery lib (ntf_notification_id n) d rc er (now_of (ntf_notification_id n)) j"
    by (cases o1) auto
  show ?case
  proof (cases "record_delivery lib (ntf_notification_id n) d rc er (now_of (ntf_notification_id n)) j")
    case (Inl e)
    with Cons.prems s attempt show ?thesis by (simp add: Let_def)
  next
    case (Inr p)
    obtain u j1 where p: "p = (u, j1)" by fastforce
    obtain o2 t2 k2 where rest: "deliver_all lib send now_of ns j1 k1 = (o2, t2, k2)" using prod_cases3 by blast
    from Cons.prems s attempt Inr p rest have "t = t2" by (simp add: Let_def split: sum.splits)
    with Cons.IH[OF rest] record_delivery_extends[OF Inr[unfolded p]] delivery_frame[OF Inr[unfolded p]]
    show ?thesis by (auto intro: extends_trans)
  qed
qed simp

lemma dispatch_notifications_inv:
  assumes "engine_inv lib eng"
  shows "engine_inv lib (fst (snd (dispatch_notifications lib send now now_of eng k)))"
  using assms deliver_all_frame[of lib send now_of "dispatchable_notifications (eng_store eng) now" "eng_store eng" k]
  by (auto simp: dispatch_notifications_def split: prod.splits intro: engine_inv_store)

section \<open>Operations that append a version\<close>

lemma incident_by_id_current:
  assumes "engine_inv lib eng" "incident_by_id eng k = Some c"
  shows "map_of (eng_current eng) (inc_hazard c) = Some c" "inc_incident_id c = k"
proof -
  show id: "inc_incident_id c = k"
    using assms(2) find_SomeD[of _ _ c]
    by (fastforce simp: incident_by_id_def newest_def split: option.splits)
  have found: "find (\<lambda>i. inc_incident_id i = k) (map snd (eng_current eng)) \<noteq> None"
  proof
    assume none: "find (\<lambda>i. inc_incident_id i = k) (map snd (eng_current eng)) = None"
    then have "newest (filter (\<lambda>i. inc_incident_id i = k) (all_incidents (eng_store eng))) = Some c"
      using assms(2) by (simp add: incident_by_id_def)
    then have "c \<in> set (filter (\<lambda>i. inc_incident_id i = k) (all_incidents (eng_store eng)))"
      unfolding newest_def by (blast dest: find_SomeD(1))
    then have mem: "c \<in> set (history (eng_store eng) (inc_hazard c))" by (simp add: history_mem)
    let ?l = "last (history (eng_store eng) (inc_hazard c))"
    have "map_of (eng_current eng) (inc_hazard c) = Some ?l"
      using engine_inv_facts(5)[OF assms(1), of "inc_hazard c"] mem by auto
    then have "?l \<in> set (map snd (eng_current eng))" by (force dest: map_of_SomeD)
    moreover have "inc_incident_id ?l = k"
      using lawful_ids[OF engine_inv_facts(4)[OF assms(1)] mem] id by simp
    ultimately show False using none by (auto simp: find_None_iff)
  qed
  then have "find (\<lambda>i. inc_incident_id i = k) (map snd (eng_current eng)) = Some c"
    using assms(2) by (auto simp: incident_by_id_def)
  then have "c \<in> set (map snd (eng_current eng))" by (rule find_SomeD(1))
  then obtain h where "(h, c) \<in> set (eng_current eng)" by auto
  then have "map_of (eng_current eng) h = Some c"
    using engine_inv_facts(3)[OF assms(1)] by (simp add: dict_ok_mem_iff)
  then show "map_of (eng_current eng) (inc_hazard c) = Some c"
    using current_in_history(3)[OF assms(1)] by blast
qed

lemma next_versionI:
  "map_of (eng_current eng) (inc_hazard c) = Some c \<Longrightarrow> lawful_step c i \<Longrightarrow> next_version eng i"
  by (simp add: next_version_def lawful_step_def)

lemma late_correction_lawful: "lawful_step c (late_correction c a acc)"
  by (auto simp: late_correction_def lawful_step_def watermark_le_def split: option.splits)

lemma command_record_lawful: "s \<in> set (allowed (inc_state c)) \<Longrightarrow> lawful_step c (command_record cmd c s conf)"
  by (auto simp: command_record_def lawful_step_def watermark_le_def Let_def split: option.splits)

lemma analysis_record_hazard [simp]: "inc_hazard (analysis_record lib cur a acc) = ana_hazard a"
  by (simp add: analysis_record_def Let_def split: prod.splits)

lemma analysis_record_lawful:
  assumes "inc_hazard c = ana_hazard a" "inc_state (analysis_record lib (Some c) a acc) \<in> set (allowed (inc_state c))"
  shows "lawful_step c (analysis_record lib (Some c) a acc)"
  using assms
  by (auto simp: analysis_record_def lawful_step_def watermark_le_def Let_def split: option.splits prod.splits)

lemma analysis_record_first [simp]: "inc_version (analysis_record lib None a acc) = 1"
  by (simp add: analysis_record_def Let_def split: prod.splits)

lemma check_transition_ok: "check_transition a b = Inr x \<Longrightarrow> b \<in> set (allowed a)"
  by (simp add: incident_states.check_Inr_iff)

lemma apply_analysis_inv:
  assumes "engine_inv lib eng"
  shows "engine_inv lib (snd (apply_analysis lib eng a acc))"
proof (cases "map_of (eng_current eng) (ana_hazard a)")
  case None
  then have "next_version eng (analysis_record lib None a acc)" by (simp add: next_version_def)
  from commit_inv[OF assms this] assms None show ?thesis
    by (simp add: apply_analysis_def Let_def split: sum.splits)
next
  case (Some c)
  note h = current_in_history(3)[OF assms Some]
  have c: "map_of (eng_current eng) (inc_hazard c) = Some c" using Some h by simp
  have late: "engine_inv lib (snd (commit lib eng (late_correction c a acc) None))"
    by (rule commit_inv[OF assms next_versionI[OF c late_correction_lawful]])
  have "engine_inv lib (snd (commit lib eng (analysis_record lib (Some c) a acc) n))"
    if "check_transition (inc_state c) (inc_state (analysis_record lib (Some c) a acc)) = Inr x" for x n
    by (rule commit_inv[OF assms next_versionI[OF c analysis_record_lawful[OF h check_transition_ok[OF that]]]])
  with late assms Some show ?thesis by (simp add: apply_analysis_def Let_def split: sum.splits)
qed

lemma apply_status_change_inv:
  assumes "engine_inv lib eng" "map_of (eng_current eng) (inc_hazard c) = Some c"
  shows "engine_inv lib (snd (apply_status_change lib eng cmd c))"
proof -
  have "engine_inv lib (snd (commit lib eng (command_record cmd c s conf) n))" if "s \<in> set (allowed (inc_state c))" for s conf n
    by (rule commit_inv[OF assms(1) next_versionI[OF assms(2) command_record_lawful[OF that]]])
  then have "engine_inv lib e" if "commit lib eng (command_record cmd c s conf) n = (r, e)" "s \<in> set (allowed (inc_state c))" for s conf n r e
    using that by (metis snd_conv)
  with assms(1) show ?thesis
    by (auto simp: apply_status_change_def Let_def split: sum.splits prod.splits intro!: seal_command_inv)
qed

lemma apply_relation_command_inv:
  assumes "engine_inv lib eng"
  shows "engine_inv lib (snd (apply_relation_command lib eng cmd c))"
proof -
  have "engine_inv lib (snd (seal_command lib (eng\<lparr>eng_store := j\<rparr>) r res))"
    if "record_incident_relation lib rel (eng_store eng) = Inr (x, j)" for rel x j r res
    using engine_inv_store[OF assms relation_frame[OF that]] by (rule seal_command_inv)
  with assms show ?thesis
    by (auto simp: apply_relation_command_def split: option.splits sum.splits prod.splits)
qed

lemma apply_status_command_inv:
  assumes "engine_inv lib eng"
  shows "engine_inv lib (snd (apply_status_command lib eng cmd))"
proof (cases "incident_by_id eng (isc_incident_id cmd)")
  case None
  with assms show ?thesis by (simp add: apply_status_command_def)
next
  case (Some c)
  with assms apply_relation_command_inv[OF assms] apply_status_change_inv[OF assms incident_by_id_current(1)[OF assms Some]]
  show ?thesis by (simp add: apply_status_command_def split: option.splits)
qed

lemma apply_authorized_review_inv:
  assumes "engine_inv lib eng"
  shows "engine_inv lib (snd (apply_authorized_review lib eng c))"
proof -
  have r: "engine_inv lib e" if "review lib eng a = (x, e)" for a x e
    using review_inv[OF assms, of a] that by simp
  moreover have "engine_inv lib (e\<lparr>eng_store := t\<rparr>)"
    if "review lib eng a = (r, e)" "record_command_receipt lib rc (eng_store e) = Inr (x, t)" for a r e rc x t
    using engine_inv_store[OF _ receipt_frame[OF that(2)]] r[OF that(1)] by blast
  ultimately show ?thesis using assms
    unfolding apply_authorized_review_def Let_def by (auto simp del: append.simps split: option.splits sum.splits prod.splits)
qed

section \<open>Writes of the evidence and identity services\<close>

text \<open>The other writers of the shared journal.\<close>

inductive store_write :: "library \<Rightarrow> journal \<Rightarrow> journal \<Rightarrow> bool" for lib where
  sw_evidence: "record_evidence lib fresh_id item j = Inr (x, t) \<Longrightarrow> store_write lib j t"
| sw_lifecycle: "record_evidence_lifecycle lib e j = Inr (x', t) \<Longrightarrow> store_write lib j t"
| sw_parser: "record_media_parser_report lib r j = Inr (r', t) \<Longrightarrow> store_write lib j t"
| sw_reevaluation: "record_evidence_reevaluation lib v j = Inr (v', t) \<Longrightarrow> store_write lib j t"
| sw_claim: "record_claim lib c j = Inr (c', t) \<Longrightarrow> store_write lib j t"
| sw_link: "record_claim_link lib l j = Inr (l', t) \<Longrightarrow> store_write lib j t"
| sw_identity: "record_identity_decision lib cand d j = Inr (d', t) \<Longrightarrow> store_write lib j t"
| sw_mutation: "store_write lib j (snd (record_authority_mutation lib kind entity w payload j))"

lemma lifecycle_locked_incidents:
  assumes "record_evidence_lifecycle_locked lib e j = Inr (x, t)"
  shows "j_incident_events t = j_incident_events j"
  using assms by (auto simp: record_evidence_lifecycle_locked_def Let_def append_authority_frameD
      split: if_splits prod.splits option.splits)

lemma record_evidence_frame:
  assumes "record_evidence lib fresh_id item j = Inr (x, t)"
  shows "extends lib j t \<and> j_incident_events t = j_incident_events j"
proof (cases "find_evidence j (evi_evidence_id item)")
  case (Some r)
  with evidence_rows.replay[OF assms] show ?thesis by simp
next
  case None
  with assms obtain p j1 e z where a: "append_authority lib AM_EVIDENCE (evi_evidence_id item) (evi_received_at item)
          (lib_model_dump lib (V_evidence item)) j = (p, j1)"
    and l: "record_evidence_lifecycle_locked lib e
        (j1\<lparr>j_evidence_items := j_evidence_items j1 @ [(value_digest lib (V_evidence item), item)]\<rparr>) = Inr (z, t)"
    by (auto simp: record_evidence_def Let_def bind_result_Inr split: if_splits prod.splits)
  have "extends lib j (j1\<lparr>j_evidence_items := j_evidence_items j1 @ [(value_digest lib (V_evidence item), item)]\<rparr>)"
    by (rule extends_append_then[OF a]) simp_all
  with lifecycle_locked_frame(3)[OF l] lifecycle_locked_incidents[OF l] append_authority_frameD(1)[OF a]
  show ?thesis by (auto intro: extends_trans)
qed

lemma store_write_frame:
  assumes "store_write lib j t"
  shows "extends lib j t \<and> j_incident_events t = j_incident_events j"
  using assms
proof cases
  case (sw_evidence fresh_id item x)
  then show ?thesis by (rule record_evidence_frame)
next
  case (sw_lifecycle e x)
  then show ?thesis
    by (auto simp: record_evidence_lifecycle_def split: if_splits option.splits dest: lifecycle_locked_frame(3) lifecycle_locked_incidents)
next
  case (sw_parser r r')
  then show ?thesis by (auto simp: record_media_parser_report_def Let_def append_authority_frameD
      split: if_splits prod.splits option.splits intro: extends_append_then)
next
  case (sw_reevaluation r r')
  then show ?thesis by (auto simp: record_evidence_reevaluation_def Let_def append_authority_frameD
      split: if_splits prod.splits option.splits intro: extends_append_then)
next
  case (sw_claim r r')
  then show ?thesis by (auto simp: record_claim_def Let_def append_authority_frameD
      split: if_splits prod.splits option.splits intro: extends_append_then)
next
  case (sw_link r r')
  then show ?thesis by (auto simp: record_claim_link_def Let_def append_authority_frameD
      split: if_splits prod.splits option.splits intro: extends_append_then)
next
  case (sw_identity cand d d')
  then show ?thesis by (auto simp: record_identity_decision_def Let_def
      split: if_splits option.splits intro: extends_other_tables)
next
  case (sw_mutation kind entity w payload)
  then show ?thesis by (simp add: record_authority_mutation_def append_authority_extends(1))
qed

section \<open>Restart\<close>

lemma sealed_is_mirrored:
  assumes "sealed lib j" "\<forall>r \<in> set (j_incident_events j). ir_authority_position r \<noteq> None"
  shows "mirrored lib j"
  using assms sealed_positions(1)[OF assms(1)] sealed_mirrored[OF assms(1)]
  by (auto simp: mirrored_def sealed_def mirror_def)

lemma open_store_sealed:
  assumes "sealed lib j" "\<forall>r \<in> set (j_incident_events j). ir_authority_position r \<noteq> None"
  shows "open_store lib j = j"
  using open_store_mirrored[OF sealed_is_mirrored[OF assms]] renumber_sealed[of lib 1 None "j_authority_events j"] assms(1)
  by (simp add: sealed_def)

lemma fold_update_hazard:
  assumes "\<forall>i \<in> set xs. inc_hazard i = h \<longrightarrow> i = v"
  shows "map_of (fold (\<lambda>i. AList.update (inc_hazard i) i) xs m) h =
    (if \<exists>i \<in> set xs. inc_hazard i = h then Some v else map_of m h)"
  using assms by (induction xs arbitrary: m) (auto simp: update_conv')

lemma fold_update_dict_ok: "dict_ok m \<Longrightarrow> dict_ok (fold (\<lambda>i. AList.update (inc_hazard i) i) xs m)"
  by (induction xs arbitrary: m) auto

lemma latest_is_last:
  assumes "\<forall>h. lawful_history (history j h)" "i \<in> set (latest_by_hazard j)"
  shows "i = last (history j (inc_hazard i))"
proof -
  let ?hs = "history j (inc_hazard i)"
  have i: "i \<in> set ?hs" "\<forall>k \<in> set (all_incidents j). inc_hazard k = inc_hazard i \<longrightarrow> inc_version k \<le> inc_version i"
    using assms(2) by (auto simp: latest_by_hazard_def history_mem Let_def)
  then have "last ?hs \<in> set ?hs" by (metis empty_iff empty_set last_in_set)
  then have "inc_version (last ?hs) \<le> inc_version i" using i(2) by (simp add: history_mem)
  then show ?thesis
    using lawful_last_version(2,3)[OF spec[OF assms(1), of "inc_hazard i"] i(1)] by linarith
qed

lemma last_is_latest:
  assumes "\<forall>h. lawful_history (history j h)" "history j h \<noteq> []"
  shows "last (history j h) \<in> set (latest_by_hazard j)" "inc_hazard (last (history j h)) = h"
proof -
  let ?l = "last (history j h)"
  have l: "?l \<in> set (history j h)" using assms(2) by simp
  then show h: "inc_hazard ?l = h" by (simp add: history_mem)
  have "inc_version k \<le> inc_version ?l" if "k \<in> set (all_incidents j)" "inc_hazard k = h" for k
    using lawful_last_version(2)[OF spec[OF assms(1), of h], of k] that by (simp add: history_mem)
  with l h show "?l \<in> set (latest_by_hazard j)" by (auto simp: latest_by_hazard_def history_mem Let_def)
qed

lemma durable_projection:
  assumes "\<forall>h. lawful_history (history j h)"
  shows "map_of (fold (\<lambda>i. AList.update (inc_hazard i) i) (latest_by_hazard j) []) h =
    (if history j h = [] then None else Some (last (history j h)))"
proof -
  have "(\<exists>i \<in> set (latest_by_hazard j). inc_hazard i = h) \<longleftrightarrow> history j h \<noteq> []"
  proof
    assume "\<exists>i \<in> set (latest_by_hazard j). inc_hazard i = h"
    then obtain i where "i \<in> set (history j h)" by (auto simp: latest_by_hazard_def history_mem Let_def)
    then show "history j h \<noteq> []" by auto
  qed (use last_is_latest[OF assms, of h] in blast)
  moreover have "\<forall>i \<in> set (latest_by_hazard j). inc_hazard i = h \<longrightarrow> i = last (history j h)"
    using latest_is_last[OF assms] by blast
  ultimately show ?thesis using fold_update_hazard[of "latest_by_hazard j" h "last (history j h)" "[]"] by simp
qed

lemma engine_init_inv:
  assumes "engine_inv lib eng"
  shows "engine_inv lib (engine_init (open_store lib (eng_store eng)) ca budget)"
    "map_of (eng_current (engine_init (open_store lib (eng_store eng)) ca budget)) = map_of (eng_current eng)"
proof -
  have o: "open_store lib (eng_store eng) = eng_store eng"
    by (rule open_store_sealed[OF engine_inv_facts(1,2)[OF assms]])
  let ?e = "engine_init (eng_store eng) ca budget"
  have s: "eng_store ?e = eng_store eng" by (simp add: engine_init_def)
  have d: "map_of (eng_current ?e) h = (if history (eng_store eng) h = [] then None else Some (last (history (eng_store eng) h)))" for h
    unfolding engine_init_def using durable_projection[of "eng_store eng" h] engine_inv_facts(4)[OF assms] by simp
  have k: "dict_ok (eng_current ?e)" by (simp add: engine_init_def fold_update_dict_ok)
  show "engine_inv lib (engine_init (open_store lib (eng_store eng)) ca budget)"
    unfolding o by (rule engine_invI; (unfold s)?)
      (rule engine_inv_facts(1)[OF assms], erule bspec[OF engine_inv_facts(2)[OF assms]], fact k,
       rule engine_inv_facts(4)[OF assms], rule d, erule (2) engine_inv_facts(6)[OF assms])
  show "map_of (eng_current (engine_init (open_store lib (eng_store eng)) ca budget)) = map_of (eng_current eng)"
    unfolding o using d engine_inv_facts(5)[OF assms] by (simp add: fun_eq_iff)
qed

section \<open>Reachable engines\<close>

lemma empty_journal_inv: "engine_inv lib (engine_init (open_store lib empty_journal) ca budget)"
proof -
  have "open_store lib empty_journal = empty_journal"
    by (rule open_store_sealed) (simp_all add: empty_journal_def sealed_def)
  then show ?thesis
    by (intro engine_invI)
      (simp_all add: engine_init_def empty_journal_def sealed_def history_def all_incidents_def lawful_history_def
        latest_by_hazard_def Let_def)
qed

text \<open>
  A running node: the public operations in any order, with any arguments, successful or raising,
  writes of the other services, and restarts on the same database.
\<close>

inductive eng_step :: "library \<Rightarrow> engine \<Rightarrow> engine \<Rightarrow> bool" for lib where
  es_analysis: "eng_step lib eng (snd (apply_analysis lib eng a acc))"
| es_command: "eng_step lib eng (snd (apply_status_command lib eng c))"
| es_review: "eng_step lib eng (snd (review lib eng r))"
| es_authorized: "eng_step lib eng (snd (apply_authorized_review lib eng ar))"
| es_deliver: "eng_step lib eng (fst (snd (dispatch_notifications lib (send :: string sender) now now_of eng k)))"
| es_store: "store_write lib (eng_store eng) j \<Longrightarrow> eng_step lib eng (eng\<lparr>eng_store := j\<rparr>)"
| es_restart: "eng_step lib eng (engine_init (open_store lib (eng_store eng)) ca budget)"

inductive eng_reachable :: "library \<Rightarrow> engine \<Rightarrow> bool" for lib where
  er_init: "eng_reachable lib (engine_init (open_store lib empty_journal) ca budget)"
| er_step: "eng_reachable lib eng \<Longrightarrow> eng_step lib eng eng' \<Longrightarrow> eng_reachable lib eng'"

lemma eng_step_inv: "eng_step lib eng eng' \<Longrightarrow> engine_inv lib eng \<Longrightarrow> engine_inv lib eng'"
proof (induction rule: eng_step.induct)
  case (es_store eng j)
  then show ?case using store_write_frame[OF es_store(1)] by (blast intro: engine_inv_store)
qed (simp_all add: apply_analysis_inv apply_status_command_inv review_inv apply_authorized_review_inv
    dispatch_notifications_inv engine_init_inv(1))

lemma eng_reachable_inv: "eng_reachable lib eng \<Longrightarrow> engine_inv lib eng"
  by (induction rule: eng_reachable.induct) (auto simp: empty_journal_inv intro: eng_step_inv)

end
