(* ===== verification/Engine_Claims.thy ===== *)
theory Engine_Claims
  imports Engine_Steps
begin

text \<open>
  The properties of the incident engine. The witnesses run the model on a small deployment:
  \<open>demo_library\<close> instantiates the functions of the outside world, \<open>demo_engine\<close> is a node that has
  accepted two analyses.
\<close>

section \<open>A concrete deployment\<close>

definition demo_text :: "json \<Rightarrow> string" where
  "demo_text v = (case v of JStr s \<Rightarrow> s | JObj kvs \<Rightarrow> concat (map (\<lambda>(k, x). k @ (case x of JStr s \<Rightarrow> s | _ \<Rightarrow> [])) kvs) | _ \<Rightarrow> [])"

definition demo_library :: library where
  "demo_library = \<lparr>lib_uuid5 = (\<lambda>s. s), lib_isoformat = str_int, lib_json_dumps = demo_text,
     lib_sha256 = (\<lambda>s. s), lib_hmac_sha256 = (\<lambda>k s. k @ s),
     lib_model_dump = (\<lambda>v. case v of V_incident i \<Rightarrow> JStr (inc_incident_id i) | V_evidence e \<Rightarrow> JStr (evi_source_id e) | _ \<Rightarrow> JNull)\<rparr>"

definition demo_analysis :: "string \<Rightarrow> IncidentState \<Rightarrow> datetime \<Rightarrow> AnalysisResult" where
  "demo_analysis aid hint w = \<lparr>
     ana_analysis_id = aid, ana_observation_id = ''o'', ana_correlation_id = ''c'', ana_boot_id = ''b'',
     ana_source_mode = SM_SIMULATED, ana_hazard = HK_FLOOD, ana_score = 1 / 2, ana_state_hint = hint, ana_features = [],
     ana_coverage = CV_SUFFICIENT, ana_abstained = False, ana_reason_codes = [''r''], ana_model_profile_id = ''m'',
     ana_source_lineage = ''l'', ana_config_hashes = [], ana_incident_id_hint = Some ''i'',
     ana_produced_at = w, ana_event_time = Some w\<rparr>"

definition demo_start :: engine where
  "demo_start = engine_init (open_store demo_library empty_journal)
     \<lparr>ca_secret = ''s'', ca_policy_version = ''p'', ca_ttl_seconds = 60\<rparr> 2"

definition demo_watch :: engine where
  "demo_watch = snd (apply_analysis demo_library demo_start (demo_analysis ''a1'' IS_WATCH 10) 11)"

definition demo_engine :: engine where
  "demo_engine = snd (apply_analysis demo_library demo_watch (demo_analysis ''a2'' IS_CONFIRMED 20) 21)"

lemma demo_reachable: "eng_reachable demo_library demo_watch" "eng_reachable demo_library demo_engine"
proof -
  have "eng_reachable demo_library demo_start" unfolding demo_start_def by (rule er_init)
  then show w: "eng_reachable demo_library demo_watch" unfolding demo_watch_def by (rule er_step) (rule es_analysis)
  then show "eng_reachable demo_library demo_engine" unfolding demo_engine_def by (rule er_step) (rule es_analysis)
qed

lemma demo_history:
  "map inc_version (history (eng_store demo_engine) HK_FLOOD) = [1, 2]"
  by code_simp

section \<open>Histories\<close>

text \<open>
  C2. In every reachable engine the durable history of a hazard is one incident: it carries the versions
  1, 2, ..., n, all records have the same identifier, no other hazard uses that identifier, and each
  record follows from the one before by a lawful step (allowed state transition, event-time watermark
  that never goes back, first observation kept, analyses and reasons only added).
\<close>

theorem history_is_lawful:
  assumes "eng_reachable lib eng"
  shows "map inc_version (history (eng_store eng) h) = map (\<lambda>n. int n + 1) [0..<length (history (eng_store eng) h)] \<and>
    successively lawful_step (history (eng_store eng) h) \<and>
    (\<forall>i \<in> set (all_incidents (eng_store eng)). \<forall>k \<in> set (history (eng_store eng) h).
       inc_incident_id i = inc_incident_id k \<longleftrightarrow> inc_hazard i = h)"
proof -
  note inv = eng_reachable_inv[OF assms]
  note l = engine_inv_facts(4)[OF inv, of h]
  have "inc_incident_id i = inc_incident_id k \<longleftrightarrow> inc_hazard i = h"
    if i: "i \<in> set (all_incidents (eng_store eng))" and k: "k \<in> set (history (eng_store eng) h)" for i k
  proof
    assume "inc_incident_id i = inc_incident_id k"
    then show "inc_hazard i = h" using engine_inv_facts(6)[OF inv i, of k] k by (simp add: history_mem)
  next
    assume "inc_hazard i = h"
    then show "inc_incident_id i = inc_incident_id k" using lawful_ids[OF l, of i] lawful_ids[OF l k] i by (simp add: history_mem)
  qed
  with l lawful_versions[OF l] show ?thesis by (simp add: lawful_history_def)
qed

theorem history_is_lawful_witness:
  "map inc_version (history (eng_store demo_engine) HK_FLOOD) = [1, 2] \<and>
   successively lawful_step (history (eng_store demo_engine) HK_FLOOD)"
  using history_is_lawful[OF demo_reachable(2), of HK_FLOOD] demo_history by simp

lemma dict_mset_unique:
  assumes "dict_ok d" "dict_ok e" "map_of d = map_of e"
  shows "mset d = mset e"
proof -
  have "set d = set e"
    using assms by (auto simp: set_eq_iff dict_ok_mem_iff[symmetric])
  then show ?thesis using assms(1,2) by (simp add: dict_ok_def distinct_map set_eq_iff_mset_eq_distinct)
qed

lemma sort_key_unique: "mset xs = mset ys \<Longrightarrow> inj_on f (set xs) \<Longrightarrow> sort_key f xs = sort_key f ys"
proof -
  assume m: "mset xs = mset ys" and i: "inj_on f (set xs)"
  have "mset (map f (sort_key f xs)) = mset (map f (sort_key f ys))" using m by simp
  then have "sort (map f (sort_key f xs)) = map f (sort_key f ys)" by (intro properties_for_sort) simp_all
  moreover have "sort (map f (sort_key f xs)) = map f (sort_key f xs)" by (simp add: sorted_sort_id)
  moreover have "set ys = set xs" using m by (metis set_mset_mset)
  ultimately show "sort_key f xs = sort_key f ys" using i by (intro map_inj_on[of f]) simp_all
qed

lemma current_value:
  assumes "engine_inv lib eng" "c \<in> set (map snd (eng_current eng))"
  shows "map_of (eng_current eng) (inc_hazard c) = Some c"
proof -
  from assms(2) obtain x where "(x, c) \<in> set (eng_current eng)" by auto
  then have m: "map_of (eng_current eng) x = Some c" using engine_inv_facts(3)[OF assms(1)] by (simp only: dict_ok_mem_iff)
  from m current_in_history(3)[OF assms(1) m] show ?thesis by simp
qed

lemma current_incidents_unique:
  assumes "engine_inv lib eng" "engine_inv lib eng'" "map_of (eng_current eng) = map_of (eng_current eng')"
  shows "current_incidents eng = current_incidents eng'"
proof -
  have "mset (map snd (eng_current eng)) = mset (map snd (eng_current eng'))"
    unfolding mset_map dict_mset_unique[OF engine_inv_facts(3)[OF assms(1)] engine_inv_facts(3)[OF assms(2)] assms(3)] ..
  moreover have "inj_on (\<lambda>i. HazardKind_value (inc_hazard i)) (set (map snd (eng_current eng)))"
  proof (rule inj_onI)
    fix i k assume m: "i \<in> set (map snd (eng_current eng))" "k \<in> set (map snd (eng_current eng))"
      and v: "HazardKind_value (inc_hazard i) = HazardKind_value (inc_hazard k)"
    from v have h: "inc_hazard i = inc_hazard k" by simp
    from current_value[OF assms(1) m(1)] current_value[OF assms(1) m(2)] show "i = k" unfolding h by simp
  qed
  ultimately show ?thesis unfolding current_incidents_def by (rule sort_key_unique)
qed

lemma projection_conforms:
  assumes "engine_inv lib eng"
  shows "projection_conformance lib eng = \<lparr>prj_valid = True,
    prj_authority_watermark = int (length (j_authority_events (eng_store eng))), prj_failures = []\<rparr>"
proof -
  let ?d = "fold (\<lambda>i. AList.update (inc_hazard i) i) (latest_by_hazard (eng_store eng)) []"
  have m: "map_of ?d = map_of (eng_current eng)"
    using durable_projection[of "eng_store eng"] engine_inv_facts(4,5)[OF assms] by (simp add: fun_eq_iff)
  then have k: "fst ` set ?d = fst ` set (eng_current eng)" by (metis dom_map_of_conv_image_fst)
  have "(case (map_of (eng_current eng) h, map_of (eng_current eng) h) of
      (Some l, Some r) \<Rightarrow> if inc_incident_id l \<noteq> inc_incident_id r \<or> inc_version l \<noteq> inc_version r \<or> inc_state l \<noteq> inc_state r
        then [''projection_divergence:'' @ HazardKind_value h] else []
    | _ \<Rightarrow> []) = []" for h
    by (simp split: option.splits)
  then show ?thesis
    unfolding projection_conformance_def Let_def m k sealed_conformance[OF engine_inv_facts(1)[OF assms]] by simp
qed

text \<open>
  C5. Restarting a reachable node on its own database loses nothing: opening the store rewrites no
  row, the rebuilt projection lists the same current incidents, and before and after the restart the
  projection conforms to the journal, with the length of the authority log as its watermark.
\<close>

theorem restart_recovers_projection:
  assumes "eng_reachable lib eng"
  shows "let restarted = engine_init (open_store lib (eng_store eng)) ca budget in
    eng_store restarted = eng_store eng \<and> current_incidents restarted = current_incidents eng \<and>
    projection_conformance lib restarted = projection_conformance lib eng \<and>
    projection_conformance lib eng = \<lparr>prj_valid = True,
      prj_authority_watermark = int (length (j_authority_events (eng_store eng))), prj_failures = []\<rparr>"
proof -
  let ?r = "engine_init (open_store lib (eng_store eng)) ca budget"
  note inv = eng_reachable_inv[OF assms(1)]
  have s: "eng_store ?r = eng_store eng"
    unfolding open_store_sealed[OF engine_inv_facts(1,2)[OF inv]] by (simp add: engine_init_def)
  note inv' = engine_init_inv(1)[OF inv, of ca budget]
  show ?thesis
    using s current_incidents_unique[OF inv' inv engine_init_inv(2)[OF inv]] projection_conforms[OF inv] projection_conforms[OF inv']
    by (simp add: Let_def)
qed

theorem restart_recovers_projection_witness:
  "map inc_state (current_incidents (engine_init (open_store demo_library (eng_store demo_engine))
     (eng_command_authorizer demo_engine) 2)) = [IS_CONFIRMED] \<and>
   prj_authority_watermark (projection_conformance demo_library demo_engine) = 4"
proof -
  have "map inc_state (current_incidents demo_engine) = [IS_CONFIRMED]" "length (j_authority_events (eng_store demo_engine)) = 4"
    by code_simp+
  with restart_recovers_projection[OF demo_reachable(2), of "eng_command_authorizer demo_engine" 2]
  show ?thesis by (simp add: Let_def)
qed

section \<open>The authority log\<close>

lemma commit_extends: "extends lib (eng_store eng) (eng_store (snd (commit lib eng i n)))"
  by (auto simp: commit_def split: sum.splits prod.splits intro: append_incident_extends)

lemma commit_extendsD: "commit lib eng i n = (x, eng') \<Longrightarrow> extends lib (eng_store eng) (eng_store eng')"
  using commit_extends[of lib eng i n] by simp

lemma seal_command_extends: "extends lib (eng_store eng) (eng_store (snd (seal_command lib eng r res)))"
  by (auto simp: seal_command_def split: sum.splits prod.splits intro: receipt_frame)

lemma apply_analysis_extends: "extends lib (eng_store eng) (eng_store (snd (apply_analysis lib eng a acc)))"
  by (auto simp: apply_analysis_def Let_def commit_extends split: sum.splits option.splits)

lemma apply_relation_command_extends: "extends lib (eng_store eng) (eng_store (snd (apply_relation_command lib eng c cur)))"
proof -
  have "extends lib (eng_store eng) (eng_store (snd (seal_command lib (eng\<lparr>eng_store := j\<rparr>) r res)))"
    if "record_incident_relation lib rel (eng_store eng) = Inr (x, j)" for rel x j r res
    using extends_trans[OF relation_frame(1)[OF that] seal_command_extends[of lib "eng\<lparr>eng_store := j\<rparr>" r res, simplified]] .
  then show ?thesis by (auto simp: apply_relation_command_def split: option.splits sum.splits prod.splits)
qed

lemma apply_status_change_extends: "extends lib (eng_store eng) (eng_store (snd (apply_status_change lib eng c cur)))"
  by (auto simp: apply_status_change_def Let_def commit_extends split: sum.splits prod.splits
      intro: extends_trans[OF commit_extendsD seal_command_extends] commit_extendsD)

lemma apply_status_command_extends: "extends lib (eng_store eng) (eng_store (snd (apply_status_command lib eng c)))"
  by (simp add: apply_status_command_def apply_relation_command_extends apply_status_change_extends split: option.splits)

lemma review_extends: "extends lib (eng_store eng) (eng_store (snd (review lib eng a)))"
  by (auto simp: review_def split: sum.splits prod.splits option.splits intro: record_review_extends)

lemma review_extendsD: "review lib eng a = (x, eng') \<Longrightarrow> extends lib (eng_store eng) (eng_store eng')"
  using review_extends[of lib eng a] by simp

lemma apply_authorized_review_extends: "extends lib (eng_store eng) (eng_store (snd (apply_authorized_review lib eng c)))"
  unfolding apply_authorized_review_def Let_def
  by (auto simp del: append.simps split: option.splits sum.splits prod.splits
      intro: review_extendsD extends_trans[OF review_extendsD receipt_frame(1)])

lemma step_extends: "eng_step lib eng eng' \<Longrightarrow> engine_inv lib eng \<Longrightarrow> extends lib (eng_store eng) (eng_store eng')"
proof (induction rule: eng_step.induct)
  case (es_deliver eng send now now_of k)
  show ?case
    using deliver_all_frame[of lib send now_of "dispatchable_notifications (eng_store eng) now" "eng_store eng" k]
    by (auto simp: dispatch_notifications_def split: prod.splits)
next
  case (es_store eng j)
  then show ?case using store_write_frame[OF es_store(1)] by simp
next
  case (es_restart eng ca budget)
  then show ?case by (simp add: engine_init_def open_store_sealed[OF engine_inv_facts(1,2)])
qed (simp_all add: apply_analysis_extends apply_status_command_extends review_extends apply_authorized_review_extends)

text \<open>
  C3. The authority journal is append-only and self-consistent: whatever step a reachable node takes,
  whether the operation succeeds, raises or is a restart, the log of before is a prefix of the log of
  after, and the conformance check accepts the result with every event counted and the watermark at
  its end.
\<close>

theorem authority_log_append_only:
  assumes "eng_reachable lib eng" "eng_step lib eng eng'"
  shows "prefix (j_authority_events (eng_store eng)) (j_authority_events (eng_store eng')) \<and>
    authority_conformance lib (eng_store eng') = \<lparr>cf_valid = True, cf_epoch_id = epoch_1,
      cf_event_count = length (j_authority_events (eng_store eng')),
      cf_highest_contiguous_position = int (length (j_authority_events (eng_store eng'))), cf_failures = []\<rparr>"
  using step_extends[OF assms(2) eng_reachable_inv[OF assms(1)]]
    sealed_conformance[OF engine_inv_facts(1)[OF eng_step_inv[OF assms(2) eng_reachable_inv[OF assms(1)]]]]
  by (simp add: extends_def)

theorem authority_log_append_only_witness:
  "prefix (j_authority_events (eng_store demo_watch)) (j_authority_events (eng_store demo_engine)) \<and>
   cf_highest_contiguous_position (authority_conformance demo_library (eng_store demo_engine)) = 4"
proof -
  have "eng_step demo_library demo_watch demo_engine" unfolding demo_engine_def by (rule es_analysis)
  moreover have "length (j_authority_events (eng_store demo_engine)) = 4" by code_simp
  ultimately show ?thesis using authority_log_append_only[OF demo_reachable(1)] by simp
qed

end
