(* ===== verification/Engine_Behaviour.thy ===== *)
theory Engine_Behaviour
  imports Engine_Claims
begin

text \<open>
  What one call of the engine does: replays, late evidence, blind sensors, rejected transitions, the
  notification rule and operator commands.
\<close>

section \<open>Analyses\<close>

lemma commit_ok:
  assumes "commit lib eng i n = (Inr r, eng')"
  obtains b t where "append_incident_with_notification lib i n (eng_store eng) = Inr (b, t)" "r = i"
    "eng' = eng\<lparr>eng_store := t, eng_current := AList.update (inc_hazard i) i (eng_current eng)\<rparr>"
  using assms by (auto simp: commit_def split: sum.splits prod.splits)

lemma commit_current:
  assumes "commit lib eng i n = (Inr r, eng')"
  shows "r = i" "map_of (eng_current eng') = (map_of (eng_current eng))(inc_hazard i \<mapsto> i)"
  by (rule commit_ok[OF assms]; simp add: update_conv')+

lemma analysis_record_ids [simp]:
  "ana_analysis_id a \<in> set (inc_analysis_ids (analysis_record lib cur a acc))"
  by (simp add: analysis_record_def Let_def split: prod.splits)

lemma apply_analysis_ok:
  assumes "apply_analysis lib eng a acc = (Inr r, eng')"
  obtains
    (known) "map_of (eng_current eng) (ana_hazard a) = Some r" "eng' = eng"
      "ana_analysis_id a \<in> set (inc_analysis_ids r)"
  | (stale) "map_of (eng_current eng) (ana_hazard a) = Some r" "eng' = eng"
      "ana_analysis_id a \<notin> set (inc_analysis_ids r)" "is_late r (ana_when a)"
      "ana_score a \<le> inc_confidence r" "state_rank (ana_state_hint a) \<le> state_rank (inc_state r)"
  | (late) c where "map_of (eng_current eng) (ana_hazard a) = Some c"
      "ana_analysis_id a \<notin> set (inc_analysis_ids c)" "is_late c (ana_when a)"
      "commit lib eng (late_correction c a acc) None = (Inr r, eng')"
  | (fresh) "case map_of (eng_current eng) (ana_hazard a) of None \<Rightarrow> True
        | Some c \<Rightarrow> ana_analysis_id a \<notin> set (inc_analysis_ids c) \<and> \<not> is_late c (ana_when a)"
      "r = analysis_record lib (map_of (eng_current eng) (ana_hazard a)) a acc"
      "inc_state r \<in> set (allowed (case map_of (eng_current eng) (ana_hazard a) of None \<Rightarrow> IS_NORMAL | Some c \<Rightarrow> inc_state c))"
      "commit lib eng r (notification_for lib eng r
        (case map_of (eng_current eng) (ana_hazard a) of None \<Rightarrow> IS_NORMAL | Some c \<Rightarrow> inc_state c) acc) = (Inr r, eng')"
proof (cases "map_of (eng_current eng) (ana_hazard a)")
  case None
  with assms have "check_transition IS_NORMAL (inc_state (analysis_record lib None a acc)) = Inr (inc_state (analysis_record lib None a acc))"
    "commit lib eng (analysis_record lib None a acc)
       (notification_for lib eng (analysis_record lib None a acc) IS_NORMAL acc) = (Inr r, eng')"
    by (auto simp: apply_analysis_def Let_def incident_states.check_Inr_iff split: sum.splits if_splits)
  with None commit_current(1)[OF this(2)] check_transition_ok[OF this(1)] show thesis by (intro fresh) simp_all
next
  case (Some c)
  show thesis
  proof (cases "ana_analysis_id a \<in> set (inc_analysis_ids c)")
    case True
    with assms Some show thesis by (intro known) (simp_all add: apply_analysis_def Let_def)
  next
    case new: False
    show thesis
    proof (cases "is_late c (ana_when a)")
      case True
      with assms Some new stale late show thesis by (auto simp: apply_analysis_def Let_def split: if_splits)
    next
      case False
      with assms Some new have
        "check_transition (inc_state c) (inc_state (analysis_record lib (Some c) a acc)) = Inr (inc_state (analysis_record lib (Some c) a acc))"
        "commit lib eng (analysis_record lib (Some c) a acc)
           (notification_for lib eng (analysis_record lib (Some c) a acc) (inc_state c) acc) = (Inr r, eng')"
        by (auto simp: apply_analysis_def Let_def incident_states.check_Inr_iff split: sum.splits if_splits)
      with Some new False commit_current(1)[OF this(2)] check_transition_ok[OF this(1)] show thesis by (intro fresh) simp_all
    qed
  qed
qed

text \<open>
  Delivering an analysis again is harmless: once a reachable engine has accepted an analysis, or
  has discarded it as late and no stronger than what it knows, a second delivery at any later time
  returns the same record and changes nothing, neither the journal nor the projection nor the outbox.
\<close>

theorem analysis_replay_is_noop:
  assumes "eng_reachable lib eng" "apply_analysis lib eng a acc = (Inr r, eng')"
  shows "apply_analysis lib eng' a acc' = (Inr r, eng')"
proof (rule apply_analysis_ok[OF assms(2)], goal_cases)
  case 1
  then show ?case by (simp add: apply_analysis_def Let_def)
next
  case 2
  then show ?case by (simp add: apply_analysis_def Let_def)
next
  case (3 c)
  note h = current_in_history(3)[OF eng_reachable_inv[OF assms(1)] 3(1)]
  from commit_current[OF 3(4)] h have "map_of (eng_current eng') (ana_hazard a) = Some r"
    "ana_analysis_id a \<in> set (inc_analysis_ids r)"
    by (simp_all add: late_correction_def)
  then show ?case by (simp add: apply_analysis_def Let_def)
next
  case 4
  from commit_current(2)[OF 4(4)] 4(2) have "map_of (eng_current eng') (ana_hazard a) = Some r"
    "ana_analysis_id a \<in> set (inc_analysis_ids r)" by simp_all
  then show ?case by (simp add: apply_analysis_def Let_def)
qed

text \<open>
  C34. Evidence that arrives behind the event-time watermark is context only: whatever it claims, the
  state, confidence, coverage, watermark and labels of the current incident stay as they are, no other
  hazard is touched and no notification is added to the outbox.
\<close>

theorem late_evidence_is_context_only:
  assumes "eng_reachable lib eng" "map_of (eng_current eng) (ana_hazard a) = Some c" "is_late c (ana_when a)"
    "apply_analysis lib eng a acc = (Inr r, eng')"
  shows "inc_state r = inc_state c \<and> inc_confidence r = inc_confidence c \<and> inc_coverage r = inc_coverage c \<and>
    inc_event_time_watermark r = inc_event_time_watermark c \<and> inc_labels r = inc_labels c \<and>
    map_of (eng_current eng') = (map_of (eng_current eng))(ana_hazard a \<mapsto> r) \<and>
    j_notification_intents (eng_store eng') = j_notification_intents (eng_store eng)"
proof (rule apply_analysis_ok[OF assms(4)], goal_cases)
  case 1
  with assms(2) show ?case by (simp add: map_upd_triv)
next
  case 2
  with assms(2) show ?case by (simp add: map_upd_triv)
next
  case (3 c')
  with assms(2) have c: "c' = c" by simp
  note h = current_in_history(3)[OF eng_reachable_inv[OF assms(1)] assms(2)]
  obtain b t where t: "append_incident_with_notification lib (late_correction c a acc) None (eng_store eng) = Inr (b, t)"
    and e: "eng_store eng' = t"
    using 3(4) unfolding c by (auto elim!: commit_ok)
  have "j_notification_intents t = j_notification_intents (eng_store eng)"
    by (rule append_incident_cases[of "eng_store eng" "late_correction c a acc" lib None]) (use t in simp_all)
  with commit_current[OF 3(4)] h e show ?case unfolding c by (simp add: late_correction_def)
next
  case 4
  with assms(2,3) show ?case by simp
qed

theorem late_evidence_is_context_only_witness:
  "let out = apply_analysis demo_library demo_engine (demo_analysis ''a3'' IS_CONFIRMED 15\<lparr>ana_score := 1\<rparr>) 30
   in (case fst out of Inr r \<Rightarrow> inc_state r = IS_CONFIRMED \<and> inc_confidence r = 1 / 2 \<and> inc_version r = 3 | Inl e \<Rightarrow> False) \<and>
      j_notification_intents (eng_store (snd out)) = j_notification_intents (eng_store demo_engine)"
proof -
  let ?a = "demo_analysis ''a3'' IS_CONFIRMED 15\<lparr>ana_score := 1\<rparr>"
  let ?out = "apply_analysis demo_library demo_engine ?a 30"
  have v: "case fst ?out of Inr r \<Rightarrow> inc_version r = 3 | Inl e \<Rightarrow> False" by code_simp
  then obtain r where r: "fst ?out = Inr r" "inc_version r = 3" by (cases "fst ?out") simp_all
  have cur: "case map_of (eng_current demo_engine) (ana_hazard ?a) of None \<Rightarrow> False
     | Some c \<Rightarrow> is_late c (ana_when ?a) \<and> inc_state c = IS_CONFIRMED \<and> inc_confidence c = 1 / 2" by code_simp
  then obtain c where "map_of (eng_current demo_engine) (ana_hazard ?a) = Some c" "is_late c (ana_when ?a)"
    "inc_state c = IS_CONFIRMED" "inc_confidence c = 1 / 2"
    by (cases "map_of (eng_current demo_engine) (ana_hazard ?a)") simp_all
  with late_evidence_is_context_only[OF demo_reachable(2) this(1,2), of 30 r "snd ?out"] r
  show ?thesis by (simp add: Let_def prod_eq_iff)
qed

section \<open>Transitions\<close>

lemma analysis_record_state: "inc_state (analysis_record lib cur a acc) = fst (analysis_target cur a)"
  by (simp add: analysis_record_def Let_def split: prod.splits)

lemma analysis_record_fields [simp]:
  "inc_confidence (analysis_record lib cur a acc) = ana_score a"
  "inc_version (analysis_record lib cur a acc) = (case cur of None \<Rightarrow> 1 | Some c \<Rightarrow> inc_version c + 1)"
  "inc_coverage (analysis_record lib cur a acc) = ana_coverage a"
  by (simp_all add: analysis_record_def Let_def split: prod.splits)

lemma blind_target: "ana_abstained a \<or> ana_coverage a = CV_BLIND \<Longrightarrow> fst (analysis_target cur a) = IS_DEGRADED"
  by (auto simp: analysis_target_def Let_def split: option.splits)

lemma degraded_allowed [simp]: "IS_DEGRADED \<in> set (allowed s)"
  by (cases s) simp_all

text \<open>
  Missing coverage never produces a strong state: an abstained or blind analysis that is neither a
  replay nor late is never refused by the transition table, and when it is committed the incident is
  DEGRADED, whatever state and score the analysis proposes and whatever the incident was before.
\<close>

theorem blind_analysis_degrades:
  assumes "ana_abstained a \<or> ana_coverage a = CV_BLIND"
    "case map_of (eng_current eng) (ana_hazard a) of None \<Rightarrow> True
       | Some c \<Rightarrow> ana_analysis_id a \<notin> set (inc_analysis_ids c) \<and> \<not> is_late c (ana_when a)"
  shows "(case fst (apply_analysis lib eng a acc) of
      Inr r \<Rightarrow> inc_state r = IS_DEGRADED \<and> ''coverage_prevents_strong_state'' \<in> set (inc_reason_codes r)
    | Inl e \<Rightarrow> e \<in> {ValidationError ''IncidentRecord'', IntegrityError ''incident_events'', IntegrityError ''notification_intents''})"
proof -
  let ?cur = "map_of (eng_current eng) (ana_hazard a)"
  let ?r = "analysis_record lib ?cur a acc"
  let ?n = "notification_for lib eng ?r (case ?cur of None \<Rightarrow> IS_NORMAL | Some k \<Rightarrow> inc_state k) acc"
  have st: "inc_state ?r = IS_DEGRADED" using blind_target[OF assms(1)] by (simp add: analysis_record_state)
  have why: "''coverage_prevents_strong_state'' \<in> set (inc_reason_codes ?r)"
    using assms(1) by (auto simp: analysis_record_def analysis_target_def Let_def split: option.splits)
  have c: "case fst (commit lib eng ?r n) of Inr r \<Rightarrow> r = ?r
     | Inl e \<Rightarrow> e \<in> {IntegrityError ''incident_events'', IntegrityError ''notification_intents''}" for n
    by (rule append_incident_cases[of "eng_store eng" ?r lib n])
      (simp_all add: commit_def insert_notification_def split: sum.splits)
  have "fst (apply_analysis lib eng a acc) =
     (if IncidentRecord_fields_ok ?r then fst (commit lib eng ?r ?n) else Inl (ValidationError ''IncidentRecord''))"
    using assms(2) st by (cases ?cur) (simp_all add: apply_analysis_def Let_def check_transition_def)
  with c[of ?n] st why show ?thesis by (auto split: sum.splits)
qed

text \<open>The hints of a sighted analysis that the transition table refuses, per current state.\<close>

fun rejected_hints :: "IncidentState \<Rightarrow> IncidentState list" where
  "rejected_hints IS_NORMAL = [IS_RESOLVING, IS_RESOLVED]"
| "rejected_hints IS_WATCH = [IS_RESOLVING, IS_RESOLVED]"
| "rejected_hints IS_SUSPECTED = [IS_RESOLVED]"
| "rejected_hints IS_CONFIRMED = [IS_WATCH, IS_SUSPECTED, IS_RESOLVED]"
| "rejected_hints IS_RESOLVING = [IS_NORMAL, IS_WATCH, IS_SUSPECTED]"
| "rejected_hints IS_RESOLVED = [IS_NORMAL, IS_RESOLVING]"
| "rejected_hints IS_DEGRADED = [IS_NORMAL, IS_RESOLVING, IS_RESOLVED]"

lemma sighted_target:
  assumes "\<not> ana_abstained a" "ana_coverage a \<noteq> CV_BLIND"
  shows "fst (analysis_target (Some c) a) \<notin> set (allowed (inc_state c)) \<longleftrightarrow> ana_state_hint a \<in> set (rejected_hints (inc_state c))"
    "ana_state_hint a \<in> set (rejected_hints (inc_state c)) \<Longrightarrow> fst (analysis_target (Some c) a) = ana_state_hint a"
  using assms by (cases "inc_state c"; cases "ana_state_hint a"; simp add: analysis_target_def)+

text \<open>
  C38. The exact transitions the engine refuses: a new, timely and sighted analysis raises the illegal
  transition error precisely when its hint is in the table of rejected hints of the current state, and
  then the node is left exactly as it was. In particular a NORMAL hint is refused while the incident is
  RESOLVING, RESOLVED or DEGRADED, and WATCH or SUSPECTED while it is CONFIRMED.
\<close>

theorem rejected_analyses:
  assumes "map_of (eng_current eng) (ana_hazard a) = Some c" "ana_analysis_id a \<notin> set (inc_analysis_ids c)"
    "\<not> is_late c (ana_when a)" "\<not> ana_abstained a" "ana_coverage a \<noteq> CV_BLIND"
  shows "ana_state_hint a \<in> set (rejected_hints (inc_state c)) \<longleftrightarrow>
    apply_analysis lib eng a acc = (Inl (illegal_transition ''illegal incident transition '' (inc_state c) (ana_state_hint a)), eng)"
proof
  assume "ana_state_hint a \<in> set (rejected_hints (inc_state c))"
  with sighted_target[OF assms(4,5), of c]
  show "apply_analysis lib eng a acc = (Inl (illegal_transition ''illegal incident transition '' (inc_state c) (ana_state_hint a)), eng)"
    using assms(1-3) by (simp add: apply_analysis_def Let_def check_transition_def analysis_record_state)
next
  assume r: "apply_analysis lib eng a acc = (Inl (illegal_transition ''illegal incident transition '' (inc_state c) (ana_state_hint a)), eng)"
  show "ana_state_hint a \<in> set (rejected_hints (inc_state c))"
  proof (rule ccontr)
    assume n: "ana_state_hint a \<notin> set (rejected_hints (inc_state c))"
    let ?r = "analysis_record lib (Some c) a acc"
    let ?n = "notification_for lib eng ?r (inc_state c) acc"
    have c: "fst (commit lib eng ?r ?n) \<noteq> Inl (ValueError m)" for m
      by (rule append_incident_cases[of "eng_store eng" ?r lib ?n])
        (simp_all add: commit_def insert_notification_def split: sum.splits)
    have "fst (apply_analysis lib eng a acc) =
       (if IncidentRecord_fields_ok ?r then fst (commit lib eng ?r ?n) else Inl (ValidationError ''IncidentRecord''))"
      using n sighted_target(1)[OF assms(4,5), of c] assms(1-3)
      by (simp add: apply_analysis_def Let_def check_transition_def analysis_record_state)
    moreover obtain m where "illegal_transition ''illegal incident transition '' (inc_state c) (ana_state_hint a) = ValueError m"
      by (simp add: illegal_transition_def)
    ultimately show False using r c[of m] by (simp split: if_splits)
  qed
qed

definition demo_degraded :: engine where
  "demo_degraded = snd (apply_analysis demo_library demo_engine (demo_analysis ''a3'' IS_CONFIRMED 30\<lparr>ana_coverage := CV_BLIND\<rparr>) 31)"

theorem rejected_analyses_witness:
  "apply_analysis demo_library demo_degraded (demo_analysis ''a4'' IS_NORMAL 40) 41 =
     (Inl (ValueError ''illegal incident transition degraded->normal''), demo_degraded)"
proof -
  let ?a = "demo_analysis ''a4'' IS_NORMAL 40"
  have "case map_of (eng_current demo_degraded) (ana_hazard ?a) of None \<Rightarrow> False
     | Some c \<Rightarrow> ana_analysis_id ?a \<notin> set (inc_analysis_ids c) \<and> \<not> is_late c (ana_when ?a) \<and> inc_state c = IS_DEGRADED" by code_simp
  then obtain c where c: "map_of (eng_current demo_degraded) (ana_hazard ?a) = Some c" "ana_analysis_id ?a \<notin> set (inc_analysis_ids c)"
    "\<not> is_late c (ana_when ?a)" "inc_state c = IS_DEGRADED"
    by (cases "map_of (eng_current demo_degraded) (ana_hazard ?a)") simp_all
  have "apply_analysis demo_library demo_degraded ?a 41 =
      (Inl (illegal_transition ''illegal incident transition '' (inc_state c) (ana_state_hint ?a)), demo_degraded)"
    using rejected_analyses[OF c(1-3), of demo_library 41] c(4) by (simp add: demo_analysis_def)
  then show ?thesis by (simp add: c(4) demo_analysis_def illegal_transition_def)
qed

section \<open>Notifications\<close>

lemma append_incident_outbox:
  assumes "append_incident_with_notification lib i (Some n) j = Inr (b, t)"
  shows "(\<exists>m \<in> set (j_notification_intents j). ntf_idempotency_key m = ntf_idempotency_key n) \<and>
      j_notification_intents t = j_notification_intents j \<or>
    j_notification_intents t = j_notification_intents j @ [n]"
  by (rule append_incident_ok[OF assms]) (auto simp: insert_notification_def split: if_splits)

lemma notification_for_alert:
  assumes "inc_state i \<in> set notify_states" "inc_state i \<noteq> p"
  obtains n where "notification_for lib eng i p acc = Some n"
    "ntf_idempotency_key n = ''incident:'' @ inc_incident_id i @ '':version:'' @ str_int (inc_version i) @ '':state:'' @ IncidentState_value (inc_state i)"
    "ntf_incident_id n = inc_incident_id i" "ntf_incident_state n = inc_state i" "ntf_attempt_count n = 0"
    "ntf_status n = (if inc_state i \<noteq> IS_CONFIRMED \<and>
       ((case rst_snoozed_until (review_state (eng_store eng) (inc_incident_id i)) of None \<Rightarrow> False | Some u \<Rightarrow> acc < u) \<or>
        eng_notification_budget eng \<le> notification_count (eng_store eng) (inc_incident_id i)) then NS_SUPPRESSED else NS_PENDING)"
  using assms unfolding notification_for_def Let_def by (auto simp del: append.simps split: option.splits)

text \<open>
  C35. The notification rule: an analysis that moves an incident of a reachable engine into WATCH,
  SUSPECTED, CONFIRMED or DEGRADED commits, in the same transaction, an intent under the key of that
  incident, version and state, unless the outbox already holds that key. The intent is suppressed
  exactly when the incident is snoozed or its notification budget is used up, and never when the
  incident is CONFIRMED; otherwise it is pending with no delivery attempts.
\<close>

theorem alert_enters_outbox:
  assumes "eng_reachable lib eng" "apply_analysis lib eng a acc = (Inr r, eng')"
    "inc_state r \<in> set notify_states"
    "inc_state r \<noteq> (case map_of (eng_current eng) (ana_hazard a) of None \<Rightarrow> IS_NORMAL | Some c \<Rightarrow> inc_state c)"
  shows "let key = ''incident:'' @ inc_incident_id r @ '':version:'' @ str_int (inc_version r) @ '':state:'' @ IncidentState_value (inc_state r);
      outbox = j_notification_intents (eng_store eng); outbox' = j_notification_intents (eng_store eng')
    in (\<exists>m \<in> set outbox. ntf_idempotency_key m = key) \<and> outbox' = outbox \<or>
      (\<exists>n. outbox' = outbox @ [n] \<and> ntf_idempotency_key n = key \<and> ntf_incident_id n = inc_incident_id r \<and>
        ntf_incident_state n = inc_state r \<and> ntf_attempt_count n = 0 \<and>
        ntf_status n = (if inc_state r \<noteq> IS_CONFIRMED \<and>
           ((case rst_snoozed_until (review_state (eng_store eng) (inc_incident_id r)) of None \<Rightarrow> False | Some u \<Rightarrow> acc < u) \<or>
            eng_notification_budget eng \<le> notification_count (eng_store eng) (inc_incident_id r))
          then NS_SUPPRESSED else NS_PENDING))"
proof (rule apply_analysis_ok[OF assms(2)], goal_cases)
  case 1
  with assms(4) show ?case by simp
next
  case 2
  with assms(4) show ?case by simp
next
  case (3 c)
  with assms(4) commit_current(1)[OF 3(4)] show ?case by (simp add: late_correction_def)
next
  case 4
  let ?p = "case map_of (eng_current eng) (ana_hazard a) of None \<Rightarrow> IS_NORMAL | Some c \<Rightarrow> inc_state c"
  obtain n where n: "notification_for lib eng r ?p acc = Some n"
    "ntf_idempotency_key n = ''incident:'' @ inc_incident_id r @ '':version:'' @ str_int (inc_version r) @ '':state:'' @ IncidentState_value (inc_state r)"
    "ntf_incident_id n = inc_incident_id r" "ntf_incident_state n = inc_state r" "ntf_attempt_count n = 0"
    "ntf_status n = (if inc_state r \<noteq> IS_CONFIRMED \<and>
       ((case rst_snoozed_until (review_state (eng_store eng) (inc_incident_id r)) of None \<Rightarrow> False | Some u \<Rightarrow> acc < u) \<or>
        eng_notification_budget eng \<le> notification_count (eng_store eng) (inc_incident_id r)) then NS_SUPPRESSED else NS_PENDING)"
    by (rule notification_for_alert[OF assms(3,4)])
  obtain b t where t: "append_incident_with_notification lib r (Some n) (eng_store eng) = Inr (b, t)" "eng_store eng' = t"
    by (rule commit_ok[OF 4(4)[unfolded n(1)]]) simp
  show ?case unfolding Let_def t(2) using append_incident_outbox[OF t(1)] n(2-6) by metis
qed

theorem alert_enters_outbox_witness:
  "\<exists>n. j_notification_intents (eng_store demo_engine) = j_notification_intents (eng_store demo_watch) @ [n] \<and>
     ntf_incident_state n = IS_CONFIRMED \<and> ntf_status n = NS_PENDING"
proof -
  let ?a = "demo_analysis ''a2'' IS_CONFIRMED 20"
  let ?out = "apply_analysis demo_library demo_watch ?a 21"
  have "case fst ?out of Inr r \<Rightarrow> inc_state r = IS_CONFIRMED | Inl e \<Rightarrow> False" by code_simp
  then obtain r where r: "fst ?out = Inr r" "inc_state r = IS_CONFIRMED" by (cases "fst ?out") simp_all
  then have out: "?out = (Inr r, demo_engine)" by (simp add: demo_engine_def prod_eq_iff)
  have w: "(case map_of (eng_current demo_watch) (ana_hazard ?a) of None \<Rightarrow> IS_NORMAL | Some c \<Rightarrow> inc_state c) = IS_WATCH"
    and l: "length (j_notification_intents (eng_store demo_engine)) = 2" "length (j_notification_intents (eng_store demo_watch)) = 1"
    by code_simp+
  from l have ne: "j_notification_intents (eng_store demo_engine) \<noteq> j_notification_intents (eng_store demo_watch)" by auto
  from alert_enters_outbox[OF demo_reachable(1) out] w r(2) ne show ?thesis
    by (auto simp: notify_states_def Let_def)
qed

section \<open>Operator commands\<close>

lemma receipt_written:
  assumes "record_command_receipt lib r j = Inr (x, t)" "command_receipt j (rcp_scoped_idempotency_key r) = None"
  shows "command_receipt t (rcp_scoped_idempotency_key r) = Some r"
  using receipts.fresh[OF assms, of "rcp_scoped_idempotency_key r"] by simp

lemma command_receipt_frame:
  "j_command_receipts t = j_command_receipts j \<Longrightarrow> command_receipt t = command_receipt j"
  by (simp add: command_receipt_def fun_eq_iff)

lemma append_incident_receipts:
  assumes "append_incident_with_notification lib i n j = Inr (b, t)"
  shows "j_command_receipts t = j_command_receipts j"
  by (rule append_incident_ok[OF assms]) (auto simp: insert_notification_def split: if_splits)

lemma relation_receipts:
  "record_incident_relation lib r j = Inr (x, t) \<Longrightarrow> j_command_receipts t = j_command_receipts j"
  by (auto simp: record_incident_relation_def Let_def append_authority_frameD split: option.splits if_splits prod.splits)

lemma seal_command_ok:
  assumes "seal_command lib eng r res = (Inr out, eng')"
  obtains x t where "record_command_receipt lib r (eng_store eng) = Inr (x, t)" "eng' = eng\<lparr>eng_store := t\<rparr>" "out = res"
  using assms by (auto simp: seal_command_def split: if_splits sum.splits prod.splits)

lemma receipt_for_simps [simp]:
  "rcp_scoped_idempotency_key (command_receipt_for lib c v res why) = command_scope lib c"
  "rcp_payload_sha256 (command_receipt_for lib c v res why) = command_payload_sha lib c"
  "rcp_result_sha256 (command_receipt_for lib c v res why) = Some res"
  by (simp_all add: command_receipt_for_def)

lemma apply_status_change_ok:
  assumes "apply_status_change lib eng c cur = (Inr out, eng')"
  obtains s conf n eng1 where "command_change eng c cur = Inr (s, conf)" "s \<in> set (allowed (inc_state cur))"
    "commit lib eng (command_record c cur s conf) n = (Inr (command_record c cur s conf), eng1)"
    "seal_command lib eng1 (command_receipt_for lib c (inc_version (command_record c cur s conf))
       (value_digest lib (V_incident (command_record c cur s conf))) ''component4_incident_command_committed'')
       (CR_incident (command_record c cur s conf)) = (Inr out, eng')"
  using assms
  by (auto simp: apply_status_change_def Let_def split: sum.splits prod.splits if_splits dest: commit_current(1))

lemma apply_relation_command_ok:
  assumes "apply_relation_command lib eng c cur = (Inr out, eng')"
  obtains rel stored j where "record_incident_relation lib rel (eng_store eng) = Inr (stored, j)"
    "seal_command lib (eng\<lparr>eng_store := j\<rparr>) (command_receipt_for lib c (inc_version cur) (rel_relation_id stored)
       ''incident_relation_committed'') (CR_relation stored) = (Inr out, eng')"
  using assms
  by (auto simp: apply_relation_command_def split: sum.splits prod.splits if_splits option.splits)


text \<open>What a committed command leaves behind: its target and its receipt.\<close>

lemma commit_by_id:
  assumes "engine_inv lib eng" "map_of (eng_current eng) (inc_hazard c) = Some c" "lawful_step c i"
    "commit lib eng i n = (Inr i, eng1)" "eng_current eng2 = eng_current eng1" "engine_inv lib eng2"
  shows "incident_by_id eng2 (inc_incident_id c) = Some i"
proof -
  have h: "inc_hazard i = inc_hazard c" "inc_incident_id i = inc_incident_id c" using assms(3) by (simp_all add: lawful_step_def)
  have cur: "map_of (eng_current eng2) (inc_hazard c) = Some i"
    using commit_current(2)[OF assms(4)] assms(5) h(1) by simp
  then have "i \<in> set (map snd (eng_current eng2))" by (force dest: map_of_SomeD)
  then obtain k where k: "find (\<lambda>x. inc_incident_id x = inc_incident_id c) (map snd (eng_current eng2)) = Some k"
    using h(2) by (cases "find (\<lambda>x. inc_incident_id x = inc_incident_id c) (map snd (eng_current eng2))") (auto simp: find_None_iff)
  have "map_of (eng_current eng2) (inc_hazard k) = Some k" by (rule current_value[OF assms(6) find_SomeD(1)[OF k]])
  moreover have "inc_hazard k = inc_hazard i"
    using engine_inv_facts(6)[OF assms(6) current_in_history(4)[OF assms(6) calculation] current_in_history(4)[OF assms(6) cur]]
      find_SomeD(2)[OF k] h(2) by simp
  ultimately have "k = i" using cur h(1) by simp
  with k show ?thesis by (simp add: incident_by_id_def)
qed

lemma relation_command_ok:
  assumes "apply_relation_command lib eng c c0 = (Inr out, eng')"
    "command_receipt (eng_store eng) (command_scope lib c) = None"
  shows "incident_by_id eng' k = incident_by_id eng k"
    "\<exists>r. command_receipt (eng_store eng') (command_scope lib c) = Some r \<and> rcp_payload_sha256 r = command_payload_sha lib c"
proof -
  obtain rel stored j where r: "record_incident_relation lib rel (eng_store eng) = Inr (stored, j)"
    "seal_command lib (eng\<lparr>eng_store := j\<rparr>) (command_receipt_for lib c (inc_version c0) (rel_relation_id stored)
       ''incident_relation_committed'') (CR_relation stored) = (Inr out, eng')"
    by (rule apply_relation_command_ok[OF assms(1)])
  let ?r = "command_receipt_for lib c (inc_version c0) (rel_relation_id stored) ''incident_relation_committed''"
  obtain x t where t: "record_command_receipt lib ?r j = Inr (x, t)" "eng' = eng\<lparr>eng_store := t\<rparr>"
    by (rule seal_command_ok[OF r(2)]) simp
  show "incident_by_id eng' k = incident_by_id eng k"
    unfolding incident_by_id_def t(2) engine_fields all_incidents_def receipt_frame(2)[OF t(1)] relation_frame(2)[OF r(1)] ..
  have "command_receipt t (command_scope lib c) = Some ?r"
    using receipt_written[OF t(1)] assms(2) command_receipt_frame[OF relation_receipts[OF r(1)]] by simp
  then show "\<exists>r. command_receipt (eng_store eng') (command_scope lib c) = Some r \<and> rcp_payload_sha256 r = command_payload_sha lib c"
    unfolding t(2) engine_fields by (intro exI[of _ ?r]) simp
qed

lemma change_command_ok:
  assumes "engine_inv lib eng" "incident_by_id eng k = Some c0"
    "apply_status_change lib eng c c0 = (Inr out, eng')" "command_receipt (eng_store eng) (command_scope lib c) = None"
    "engine_inv lib eng'"
  shows "\<exists>i. incident_by_id eng' k = Some i \<and> inc_hazard i = inc_hazard c0 \<and> out = CR_incident i"
    "\<exists>r. command_receipt (eng_store eng') (command_scope lib c) = Some r \<and> rcp_payload_sha256 r = command_payload_sha lib c"
proof -
  note cur = incident_by_id_current[OF assms(1,2)]
  obtain s conf n eng1 where x: "s \<in> set (allowed (inc_state c0))"
    "commit lib eng (command_record c c0 s conf) n = (Inr (command_record c c0 s conf), eng1)"
    "seal_command lib eng1 (command_receipt_for lib c (inc_version (command_record c c0 s conf))
      (value_digest lib (V_incident (command_record c c0 s conf))) ''component4_incident_command_committed'')
      (CR_incident (command_record c c0 s conf)) = (Inr out, eng')"
    by (rule apply_status_change_ok[OF assms(3)])
  let ?i = "command_record c c0 s conf"
  let ?r = "command_receipt_for lib c (inc_version ?i) (value_digest lib (V_incident ?i)) ''component4_incident_command_committed''"
  obtain y t where t: "record_command_receipt lib ?r (eng_store eng1) = Inr (y, t)" "eng' = eng1\<lparr>eng_store := t\<rparr>"
    "out = CR_incident ?i"
    by (rule seal_command_ok[OF x(3)])
  have "j_command_receipts (eng_store eng1) = j_command_receipts (eng_store eng)"
    by (rule commit_ok[OF x(2)], drule append_incident_receipts) simp
  then have "command_receipt t (command_scope lib c) = Some ?r"
    using receipt_written[OF t(1)] assms(4) command_receipt_frame[of "eng_store eng1" "eng_store eng"] by simp
  then show "\<exists>r. command_receipt (eng_store eng') (command_scope lib c) = Some r \<and> rcp_payload_sha256 r = command_payload_sha lib c"
    unfolding t(2) engine_fields by (intro exI[of _ ?r]) simp
  have "incident_by_id eng' k = Some ?i"
    using commit_by_id[OF assms(1) cur(1) command_record_lawful[OF x(1)] x(2) _ assms(5)] unfolding cur(2) t(2) engine_fields by blast
  moreover have "inc_hazard ?i = inc_hazard c0" by (simp add: command_record_def Let_def)
  ultimately show "\<exists>i. incident_by_id eng' k = Some i \<and> inc_hazard i = inc_hazard c0 \<and> out = CR_incident i"
    using t(3) by blast
qed

lemma status_command_ok:
  assumes "engine_inv lib eng" "apply_status_command lib eng c = (Inr out, eng')"
  shows "\<exists>cur existing. incident_by_id eng' (isc_incident_id c) = Some cur \<and> inc_hazard cur = isc_hazard c \<and>
    command_receipt (eng_store eng') (command_scope lib c) = Some existing \<and>
    rcp_payload_sha256 existing = command_payload_sha lib c \<and>
    (command_receipt (eng_store eng) (command_scope lib c) = None \<and> isc_command c \<notin> {IC_LINK, IC_MERGE} \<longrightarrow> out = CR_incident cur)"
proof -
  have "incident_by_id eng (isc_incident_id c) \<noteq> None"
    using assms(2) by (cases "incident_by_id eng (isc_incident_id c)") (simp_all add: apply_status_command_def)
  then obtain c0 where c0: "incident_by_id eng (isc_incident_id c) = Some c0" by blast
  then have h: "inc_hazard c0 = isc_hazard c" using assms(2) by (simp add: apply_status_command_def split: if_splits)
  note ok = assms(2)[unfolded apply_status_command_def c0 option.case h]
  have inv': "engine_inv lib eng'" using apply_status_command_inv[OF assms(1), of c] assms(2) by simp
  show ?thesis
  proof (cases "command_receipt (eng_store eng) (command_scope lib c)")
    case (Some r)
    with ok have "eng' = eng" "rcp_payload_sha256 r = command_payload_sha lib c" by (simp_all split: if_splits)
    with Some c0 h show ?thesis by simp
  next
    case None
    show ?thesis
    proof (cases "isc_command c \<in> {IC_LINK, IC_MERGE}")
      case True
      with ok None have "apply_relation_command lib eng c c0 = (Inr out, eng')" by (simp split: if_splits)
      from relation_command_ok[OF this None] c0 h True show ?thesis by auto
    next
      case False
      with ok None have "apply_status_change lib eng c c0 = (Inr out, eng')" by (simp split: if_splits)
      from change_command_ok[OF assms(1) c0 this None inv'] h show ?thesis by auto
    qed
  qed
qed

text \<open>
  C27. Status commands are exactly-once: when a command has been committed by a reachable engine, its
  receipt is in the journal under the scope of actor, target and idempotency key, and a second delivery
  is answered from that receipt without any change of state, although the incident's version has moved
  past the one the command expected. A command other than LINK and MERGE is answered with the same
  record; a delivery of another payload under the same key is refused.
\<close>

theorem status_command_exactly_once:
  assumes "eng_reachable lib eng" "apply_status_command lib eng c = (Inr out, eng')"
  shows "(\<exists>out'. apply_status_command lib eng' c = (Inr out', eng') \<and>
      (command_receipt (eng_store eng) (command_scope lib c) = None \<and> isc_command c \<notin> {IC_LINK, IC_MERGE} \<longrightarrow> out' = out)) \<and>
    (\<forall>d. isc_incident_id d = isc_incident_id c \<and> isc_hazard d = isc_hazard c \<and> command_scope lib d = command_scope lib c \<and>
       command_payload_sha lib d \<noteq> command_payload_sha lib c \<longrightarrow>
       apply_status_command lib eng' d = (Inl (ValueError ''idempotency key conflict''), eng'))"
proof -
  obtain cur existing where k: "incident_by_id eng' (isc_incident_id c) = Some cur" "inc_hazard cur = isc_hazard c"
    "command_receipt (eng_store eng') (command_scope lib c) = Some existing"
    "rcp_payload_sha256 existing = command_payload_sha lib c"
    "command_receipt (eng_store eng) (command_scope lib c) = None \<and> isc_command c \<notin> {IC_LINK, IC_MERGE} \<longrightarrow> out = CR_incident cur"
    using status_command_ok[OF eng_reachable_inv[OF assms(1)] assms(2)] by blast
  have r: "apply_status_command lib eng' c = (replay_command eng' c existing, eng')"
    using k by (simp add: apply_status_command_def)
  have "\<exists>out'. replay_command eng' c existing = Inr out' \<and> (isc_command c \<notin> {IC_LINK, IC_MERGE} \<longrightarrow> out' = CR_incident cur)"
    using k(1) by (simp add: replay_command_def split: option.splits)
  with r k(5) have "\<exists>out'. apply_status_command lib eng' c = (Inr out', eng') \<and>
      (command_receipt (eng_store eng) (command_scope lib c) = None \<and> isc_command c \<notin> {IC_LINK, IC_MERGE} \<longrightarrow> out' = out)"
    by auto
  moreover have "apply_status_command lib eng' d = (Inl (ValueError ''idempotency key conflict''), eng')"
    if "isc_incident_id d = isc_incident_id c" "isc_hazard d = isc_hazard c" "command_scope lib d = command_scope lib c"
      "command_payload_sha lib d \<noteq> command_payload_sha lib c" for d
    using that k(1-4) by (simp add: apply_status_command_def)
  ultimately show ?thesis by blast
qed

definition demo_command :: IncidentStatusCommand where
  "demo_command = \<lparr>isc_command_id = ''cmd'', isc_incident_id = ''i'', isc_hazard = HK_FLOOD, isc_command = IC_CONTROL,
     isc_expected_version = 2, isc_actor = ''op'', isc_reason = ''seen'', isc_related_incident_id = None,
     isc_related_hazard = None, isc_idempotency_key = ''k'', isc_submitted_at = 50\<rparr>"

theorem status_command_exactly_once_witness:
  "let once = apply_status_command demo_library demo_engine demo_command
   in is_ok (fst once) \<and> apply_status_command demo_library (snd once) demo_command = once \<and>
      snd (apply_status_command demo_library (snd once) (demo_command\<lparr>isc_reason := ''other''\<rparr>)) = snd once"
proof -
  let ?once = "apply_status_command demo_library demo_engine demo_command"
  have ok: "is_ok (fst ?once)" by code_simp
  then obtain out where o: "?once = (Inr out, snd ?once)" by (cases "fst ?once") (simp_all add: prod_eq_iff)
  have none: "command_receipt (eng_store demo_engine) (command_scope demo_library demo_command) = None"
    "isc_command demo_command \<notin> {IC_LINK, IC_MERGE}" by code_simp+
  have d: "command_scope demo_library (demo_command\<lparr>isc_reason := ''other''\<rparr>) = command_scope demo_library demo_command"
    "command_payload_sha demo_library (demo_command\<lparr>isc_reason := ''other''\<rparr>) \<noteq> command_payload_sha demo_library demo_command"
    by code_simp+
  note w = status_command_exactly_once[OF demo_reachable(2) o]
  from conjunct1[OF w] none have "apply_status_command demo_library (snd ?once) demo_command = ?once"
    using o by (auto simp: prod_eq_iff)
  moreover have "snd (apply_status_command demo_library (snd ?once) (demo_command\<lparr>isc_reason := ''other''\<rparr>)) = snd ?once"
    using spec[OF conjunct2[OF w], of "demo_command\<lparr>isc_reason := ''other''\<rparr>"] d by simp
  ultimately show ?thesis using ok by (simp add: Let_def)
qed

end
