(* ===== verification/Journal_Claims.thy ===== *)
theory Journal_Claims
  imports Engine_Behaviour
begin

text \<open>
  What the conformance check of the authority journal detects and what it does not, and the
  write-once rule of the evidence table.
\<close>

section \<open>Tampering\<close>

text \<open>Everything of an authority row but the acceptance time, which no digest and no mirror covers.\<close>

definition sealed_part :: "authority_row \<Rightarrow> authority_row" where
  "sealed_part r = r\<lparr>ar_accepted_at := 0\<rparr>"

lemma sealed_part_eqI:
  assumes "ar_position a = ar_position b" "ar_epoch_id a = ar_epoch_id b" "ar_epoch_ordinal a = ar_epoch_ordinal b"
    "ar_predecessor_position a = ar_predecessor_position b" "ar_kind a = ar_kind b" "ar_entity_id a = ar_entity_id b"
    "ar_payload_sha256 a = ar_payload_sha256 b" "ar_payload a = ar_payload b"
  shows "sealed_part a = sealed_part b"
  using assms by (cases a; cases b) (simp add: sealed_part_def)

lemma ordinal_value: "(case x of None \<Rightarrow> -1 | Some m \<Rightarrow> if m = 0 then -1 else m) = n \<Longrightarrow> 0 < (n :: int) \<Longrightarrow> x = Some n"
  by (auto split: option.splits if_splits)

lemma chain_determines_rows:
  assumes "log_from lib n previous rs" "0 < n" "chain_failures lib j n previous qs = []"
    "map ar_position qs = map ar_position rs" "\<forall>r \<in> set rs. subtype_at j (ar_position r) = Some (mirror lib r)"
  shows "map sealed_part qs = map sealed_part rs"
  using assms
proof (induction rs arbitrary: qs n previous)
  case (Cons r rs)
  from Cons.prems(4) obtain q qs' where q: "qs = q # qs'" "ar_position q = ar_position r" "map ar_position qs' = map ar_position rs"
    by (cases qs) auto
  have r: "ar_position r = n" "log_from lib (n + 1) (Some n) rs" using Cons.prems(1) by simp_all
  have f: "row_failures lib n previous q (Some (mirror lib r)) = []" and rest: "chain_failures lib j (n + 1) (Some n) qs' = []"
    using Cons.prems(3,5) r(1) by (simp_all add: q)
  have "ar_epoch_ordinal q = Some n" using f Cons.prems(2) by (intro ordinal_value) (simp_all add: mirror_row_ok)
  with f Cons.prems(1) q(2) have "sealed_part q = sealed_part r" by (intro sealed_part_eqI) (simp_all add: mirror_row_ok)
  moreover have "map sealed_part qs' = map sealed_part rs"
    using Cons.IH[OF r(2) _ rest q(3)] Cons.prems(2,5) by simp
  ultimately show ?case by (simp add: q(1))
qed simp

lemma sealed_subtype_positions:
  assumes "sealed lib j"
  shows "sr_authority_position ` set (j_authority_event_subtypes j) = ar_position ` set (j_authority_events j)"
  using assms by (auto simp: sealed_def mirror_def image_iff)

text \<open>
  C28. Tampering with the authority table is detected: take the journal of a reachable node and any
  journal whose authority table differs from it in any way (rows edited, with or without a recomputed
  digest, removed, added or reordered, positions staying unique) while the subtype table is untouched.
  The conformance check accepts it only if in the order of positions every row agrees with the
  original in position, epoch, ordinal, predecessor, kind, entity, digest and payload; only the
  acceptance time of a row can be changed unnoticed.
\<close>

theorem tampering_is_detected:
  assumes "eng_reachable lib eng" "j_authority_event_subtypes j = j_authority_event_subtypes (eng_store eng)"
    "distinct (map ar_position (j_authority_events j))" "cf_valid (authority_conformance lib j)"
  shows "map sealed_part (sort_key ar_position (j_authority_events j)) = map sealed_part (j_authority_events (eng_store eng))"
proof -
  let ?rs = "j_authority_events (eng_store eng)" and ?qs = "sort_key ar_position (j_authority_events j)"
  have s: "sealed lib (eng_store eng)" by (rule engine_inv_facts(1)[OF eng_reachable_inv[OF assms(1)]])
  have sub: "subtype_at j = subtype_at (eng_store eng)" by (simp add: subtype_at_def fun_eq_iff assms(2))
  have v: "chain_failures lib j 1 None ?qs = []"
    "\<forall>s \<in> set (j_authority_event_subtypes j). sr_authority_position s \<in> ar_position ` set (j_authority_events j)"
    using assms(4) by (simp_all add: conformance_valid)
  have pos: "ar_position ` set (j_authority_events j) = ar_position ` set ?rs"
  proof
    show "ar_position ` set (j_authority_events j) \<subseteq> ar_position ` set ?rs"
    proof
      fix p assume "p \<in> ar_position ` set (j_authority_events j)"
      then obtain q where "q \<in> set (j_authority_events j)" "p = ar_position q" by auto
      then have "subtype_at (eng_store eng) p = Some (mirror lib q)" using conformance_mirrored[OF assms(4)] sub by simp
      then have "p \<in> sr_authority_position ` set (j_authority_event_subtypes (eng_store eng))" using subtype_at_known by fastforce
      then show "p \<in> ar_position ` set ?rs" by (simp add: sealed_subtype_positions[OF s])
    qed
    show "ar_position ` set ?rs \<subseteq> ar_position ` set (j_authority_events j)"
      unfolding sealed_subtype_positions[OF s, symmetric] using v(2) assms(2) by auto
  qed
  have "sorted (map ar_position ?qs)" "distinct (map ar_position ?qs)"
    using assms(3) by (simp_all add: distinct_map)
  with sealed_positions[OF s] pos have "map ar_position ?qs = map ar_position ?rs"
    by (intro sorted_distinct_set_unique) simp_all
  moreover have "\<forall>r \<in> set ?rs. subtype_at j (ar_position r) = Some (mirror lib r)"
    unfolding sub using sealed_mirrored[OF s] by blast
  ultimately show ?thesis
    using s v(1) by (intro chain_determines_rows[of lib 1 None]) (simp_all add: sealed_def)
qed

definition demo_tampered :: journal where
  "demo_tampered = (let j = eng_store demo_engine in j\<lparr>j_authority_events := rev (j_authority_events j)\<rparr>)"

theorem tampering_is_detected_witness:
  "map sealed_part (sort_key ar_position (j_authority_events demo_tampered)) = map sealed_part (j_authority_events (eng_store demo_engine))"
proof -
  have "j_authority_event_subtypes demo_tampered = j_authority_event_subtypes (eng_store demo_engine)"
    by (simp add: demo_tampered_def Let_def)
  moreover have "distinct (map ar_position (j_authority_events demo_tampered))"
    "cf_valid (authority_conformance demo_library demo_tampered)"
    by code_simp+
  ultimately show ?thesis by (rule tampering_is_detected[OF demo_reachable(2)])
qed

text \<open>Removing one event from both tables.\<close>

definition without_event :: "int \<Rightarrow> journal \<Rightarrow> journal" where
  "without_event p j = j\<lparr>
     j_authority_events := filter (\<lambda>r. ar_position r \<noteq> p) (j_authority_events j),
     j_authority_event_subtypes := filter (\<lambda>s. sr_authority_position s \<noteq> p) (j_authority_event_subtypes j)\<rparr>"

lemma without_event_mirrored:
  assumes "sealed lib j" "\<forall>r \<in> set (j_incident_events j). ir_authority_position r \<noteq> None"
  shows "mirrored lib (without_event p j)"
proof -
  let ?rs = "filter (\<lambda>r. ar_position r \<noteq> p) (j_authority_events j)"
  have sub: "j_authority_event_subtypes (without_event p j) = map (mirror lib) ?rs"
    using assms(1) by (simp add: without_event_def sealed_def filter_map o_def mirror_def)
  have d: "distinct (map ar_position ?rs)" using sealed_positions(2)[OF assms(1)] by (rule distinct_map_filter)
  have "subtype_at (without_event p j) (ar_position r) = Some (mirror lib r)" if "r \<in> set ?rs" for r
    unfolding subtype_at_def sub using d that by (rule find_mirror)
  moreover have "sorted (map ar_position ?rs)" using sealed_positions(1)[OF assms(1)] by (rule sorted_filter)
  moreover have "sr_authority_position s \<in> ar_position ` set ?rs" if "s \<in> set (j_authority_event_subtypes (without_event p j))" for s
    using that unfolding sub by (auto simp: mirror_def)
  moreover have "j_authority_events (without_event p j) = ?rs" "j_incident_events (without_event p j) = j_incident_events j"
    by (simp_all add: without_event_def)
  ultimately show ?thesis unfolding mirrored_def using assms(2) by simp
qed

lemma filter_one: "distinct (map f xs) \<Longrightarrow> p \<in> f ` set xs \<Longrightarrow> length (filter (\<lambda>x. f x = p) xs) = 1"
proof (induction xs)
  case (Cons x xs)
  then have "f x \<notin> f ` set xs" by simp
  then have "f x = p \<Longrightarrow> filter (\<lambda>y. f y = p) xs = []" by (force simp: filter_empty_conv image_iff)
  with Cons show ?case by auto
qed simp

text \<open>What the check cannot see: an event removed from both tables of a reachable node's journal is
  forgotten at the next start. Opening the store renumbers the log, and the conformance check then
  accepts it as complete, with one event less.
\<close>

theorem deletion_undetected_after_reopen:
  assumes "eng_reachable lib eng" "p \<in> ar_position ` set (j_authority_events (eng_store eng))"
  shows "let t = open_store lib (without_event p (eng_store eng)) in
    cf_valid (authority_conformance lib t) \<and>
    Suc (cf_event_count (authority_conformance lib t)) = cf_event_count (authority_conformance lib (eng_store eng))"
proof -
  let ?j = "eng_store eng"
  note inv = engine_inv_facts[OF eng_reachable_inv[OF assms(1)]]
  have m: "mirrored lib (without_event p ?j)" by (rule without_event_mirrored[OF inv(1,2)])
  have len: "length (renumber lib n q rs) = length rs" for n q rs
    using arg_cong[OF renumber_positions[of lib n q rs], of length] unfolding length_map .
  have "Suc (length (filter (\<lambda>r. ar_position r \<noteq> p) (j_authority_events ?j))) = length (j_authority_events ?j)"
    using filter_one[OF sealed_positions(2)[OF inv(1)] assms(2)]
      sum_length_filter_compl[of "\<lambda>r. ar_position r = p" "j_authority_events ?j"] by simp
  then have "Suc (cf_event_count (authority_conformance lib (open_store lib (without_event p ?j)))) =
      cf_event_count (authority_conformance lib ?j)"
    by (simp add: authority_conformance_def Let_def open_store_mirrored[OF m] len) (simp add: without_event_def)
  with open_store_valid[OF m] show ?thesis by (simp add: Let_def)
qed

theorem deletion_undetected_after_reopen_witness:
  "cf_valid (authority_conformance demo_library (open_store demo_library (without_event 2 (eng_store demo_engine)))) \<and>
   \<not> cf_valid (authority_conformance demo_library (without_event 2 (eng_store demo_engine)))"
proof -
  have "2 \<in> ar_position ` set (j_authority_events (eng_store demo_engine))"
    "\<not> cf_valid (authority_conformance demo_library (without_event 2 (eng_store demo_engine)))" by code_simp+
  with deletion_undetected_after_reopen[OF demo_reachable(2), of 2] show ?thesis by (simp add: Let_def)
qed

section \<open>Write-once evidence\<close>

text \<open>
  Evidence is written once: after a successful write, writing the same item again returns the
  stored item and changes nothing, whatever fresh identifier the replay draws; every item that was
  stored before is still stored unchanged; and an item with the same identifier but another digest is
  refused.
\<close>

theorem evidence_written_once:
  assumes "record_evidence lib fresh_id item j = Inr (stored, t)"
  shows "(\<forall>fresh_id'. record_evidence lib fresh_id' item t = Inr (stored, t)) \<and>
    (\<forall>k r. find_evidence j k = Some r \<longrightarrow> find_evidence t k = Some r) \<and>
    (\<forall>fresh_id' other. evi_evidence_id other = evi_evidence_id item \<and> value_digest lib (V_evidence other) \<noteq> value_digest lib (V_evidence item) \<longrightarrow>
       (\<exists>e. record_evidence lib fresh_id' other t = Inl e))"
proof (intro conjI allI impI)
  obtain r where r: "find_evidence t (evi_evidence_id item) = Some r" "fst r = value_digest lib (V_evidence item)" "stored = snd r"
    by (rule evidence_rows.put_cases[OF assms]) auto
  have "evi_family_id item \<noteq> None"
  proof
    assume "evi_family_id item = None"
    with assms show False by (simp add: record_evidence_def)
  qed
  with r show "record_evidence lib fresh_id' item t = Inr (stored, t)" for fresh_id'
    by (simp add: record_evidence_def Let_def)
  show "find_evidence t k = Some r'" if "find_evidence j k = Some r'" for k r'
    using assms that by (rule evidence_rows.stored_immutable)
  show "\<exists>e. record_evidence lib fresh_id' other t = Inl e"
    if "evi_evidence_id other = evi_evidence_id item \<and> value_digest lib (V_evidence other) \<noteq> value_digest lib (V_evidence item)" for fresh_id' other
    using that r by (intro evidence_rows.conflict_raises[of t other r]) (simp_all add: eq_commute)
qed

definition demo_evidence :: "string \<Rightarrow> EvidenceItem" where
  "demo_evidence source = \<lparr>evi_evidence_id = ''e'', evi_incident_id = ''i'', evi_hazard = HK_FLOOD, evi_source_id = source,
     evi_source_standing = SS_OFFICIAL, evi_authority_role = ''observer'', evi_media_integrity = MI_UNKNOWN,
     evi_extraction_confidence_state = EC_UNKNOWN, evi_extraction_confidence = None, evi_freshness_state = HS_HEALTHY,
     evi_claim_text = ''water'', evi_content_sha256 = replicate 64 (CHR ''0''), evi_perceptual_hash = None,
     evi_origin_key = ''origin'', evi_family_id = Some ''f'', evi_parent_evidence_id = None,
     evi_independent_origin_proven = False, evi_retention_state = ER_METADATA_ONLY, evi_parser_state = PI_NOT_REQUIRED,
     evi_rights_basis = None, evi_rights_mode = Some RI_DERIVED_ONLY, evi_rights_expires_at = None, evi_modality = ''text'',
     evi_received_at = 5, evi_reason_codes = [], evi_person_identification_performed = False, evi_subject_ref = None,
     evi_processing_basis = ''basis''\<rparr>"

end
