(* ===== verification/Delivery_Claims.thy ===== *)
theory Delivery_Claims
  imports Engine_Behaviour
begin

text \<open>
  Notification delivery: one dispatch round makes one attempt per due intent and touches nothing
  else, an intent is never attempted more often than its limit, and the demonstration sink applies
  every idempotency key once.
\<close>

section \<open>The outbox of a reachable engine\<close>

definition outbox_ok :: "journal \<Rightarrow> bool" where
  "outbox_ok j \<longleftrightarrow> distinct (map ntf_notification_id (j_notification_intents j))"

lemma outbox_ok_frame: "j_notification_intents t = j_notification_intents j \<Longrightarrow> outbox_ok j \<Longrightarrow> outbox_ok t"
  by (simp add: outbox_ok_def)

lemma append_incident_outbox_ok:
  assumes "append_incident_with_notification lib i n j = Inr (x, t)" "outbox_ok j"
  shows "outbox_ok t"
proof (rule append_incident_ok[OF assms(1)])
  fix m assume "insert_notification m (snd (append_authority lib AM_NOTIFICATION_INTENT (ntf_notification_id m)
         (ntf_created_at m) (lib_model_dump lib (V_notification m)) (incident_table_after lib i j))) = Inr ((), t)"
  then have "j_notification_intents t = j_notification_intents j @ [m]"
    "ntf_notification_id m \<notin> ntf_notification_id ` set (j_notification_intents j)"
    by (auto simp: insert_notification_def image_iff split: if_splits)
  with assms(2) show "outbox_ok t" by (simp add: outbox_ok_def)
qed (use assms(2) in \<open>simp add: outbox_ok_def\<close>)

lemma record_delivery_outbox:
  assumes "record_delivery lib k d rc er acc j = Inr (x, t)"
  shows "map ntf_notification_id (j_notification_intents t) = map ntf_notification_id (j_notification_intents j)"
  using assms
  by (auto simp: record_delivery_def delivery_update_def Let_def append_authority_frameD find_Some_iff
      split: option.splits if_splits prod.splits)

lemma commit_outbox_ok: "outbox_ok (eng_store eng) \<Longrightarrow> outbox_ok (eng_store (snd (commit lib eng i n)))"
  by (auto simp: commit_def split: sum.splits prod.splits intro: append_incident_outbox_ok)

lemma commit_outbox_okD: "commit lib eng i n = (x, eng') \<Longrightarrow> outbox_ok (eng_store eng) \<Longrightarrow> outbox_ok (eng_store eng')"
  using commit_outbox_ok[of eng lib i n] by simp

lemma receipt_outbox: "record_command_receipt lib r j = Inr (x, t) \<Longrightarrow> j_notification_intents t = j_notification_intents j"
  by (auto simp: record_command_receipt_def Let_def append_authority_frameD split: option.splits if_splits prod.splits)

lemma relation_outbox: "record_incident_relation lib r j = Inr (x, t) \<Longrightarrow> j_notification_intents t = j_notification_intents j"
  by (auto simp: record_incident_relation_def Let_def append_authority_frameD split: option.splits if_splits prod.splits)

lemma review_outbox: "record_review lib r j = Inr (x, t) \<Longrightarrow> j_notification_intents t = j_notification_intents j"
  by (auto simp: record_review_def Let_def append_authority_frameD split: option.splits if_splits prod.splits)

lemma seal_command_outbox: "j_notification_intents (eng_store (snd (seal_command lib eng r res))) = j_notification_intents (eng_store eng)"
  by (auto simp: seal_command_def split: sum.splits prod.splits dest: receipt_outbox)

lemma lifecycle_locked_outbox:
  "record_evidence_lifecycle_locked lib e j = Inr (x, t) \<Longrightarrow> j_notification_intents t = j_notification_intents j"
  by (auto simp: record_evidence_lifecycle_locked_def Let_def append_authority_frameD
      split: if_splits prod.splits option.splits)

lemma store_write_outbox: "store_write lib j t \<Longrightarrow> j_notification_intents t = j_notification_intents j"
proof (induction rule: store_write.induct)
  case (sw_evidence fresh_id item j x t)
  then show ?case
    by (auto simp: record_evidence_def Let_def bind_result_Inr append_authority_frameD
        split: if_splits prod.splits option.splits dest!: lifecycle_locked_outbox)
next
  case (sw_lifecycle e j x t)
  then show ?case by (auto simp: record_evidence_lifecycle_def split: if_splits option.splits dest: lifecycle_locked_outbox)
qed (auto simp: record_media_parser_report_def record_evidence_reevaluation_def record_claim_def record_claim_link_def
    record_identity_decision_def record_authority_mutation_def Let_def append_authority_frameD
    split: if_splits prod.splits option.splits)

lemma deliver_all_outbox:
  "deliver_all lib send now_of ns j k = (out, t, k') \<Longrightarrow>
     map ntf_notification_id (j_notification_intents t) = map ntf_notification_id (j_notification_intents j)"
proof (induction ns arbitrary: j k out)
  case (Cons n ns)
  then show ?case
    by (auto simp: Let_def split: prod.splits sum.splits dest!: record_delivery_outbox)
qed simp

lemma step_outbox_ok: "eng_step lib eng eng' \<Longrightarrow> engine_inv lib eng \<Longrightarrow> outbox_ok (eng_store eng) \<Longrightarrow> outbox_ok (eng_store eng')"
proof (induction rule: eng_step.induct)
  case (es_analysis eng a acc)
  then show ?case by (auto simp: apply_analysis_def Let_def commit_outbox_ok split: sum.splits option.splits)
next
  case (es_command eng c)
  have r: "outbox_ok (eng_store (snd (apply_relation_command lib eng c cur)))" for cur
    using es_command(2) unfolding apply_relation_command_def
    by (auto simp: outbox_ok_def seal_command_outbox dest: relation_outbox split: option.splits sum.splits prod.splits)
  have s: "outbox_ok (eng_store (snd (apply_status_change lib eng c cur)))" for cur
    using es_command(2) unfolding apply_status_change_def Let_def
    by (auto intro: outbox_ok_frame[OF seal_command_outbox] commit_outbox_okD split: sum.splits prod.splits)
  from r s es_command(2) show ?case by (simp add: apply_status_command_def split: option.splits)
next
  case (es_review eng a)
  then show ?case by (auto simp: review_def split: option.splits sum.splits prod.splits intro: outbox_ok_frame[OF review_outbox])
next
  case (es_authorized eng c)
  have "outbox_ok (eng_store e)" if "review lib eng a = (x, e)" for a x e
    using that es_authorized(2)
    by (auto simp: review_def split: option.splits sum.splits prod.splits if_splits intro: outbox_ok_frame[OF review_outbox])
  with es_authorized(2) show ?case unfolding apply_authorized_review_def Let_def
    by (auto simp del: append.simps intro: outbox_ok_frame[OF receipt_outbox] split: option.splits sum.splits prod.splits)
next
  case (es_deliver eng send now now_of k)
  then show ?case
    using deliver_all_outbox[of lib send now_of "dispatchable_notifications (eng_store eng) now" "eng_store eng" k]
    by (auto simp: dispatch_notifications_def outbox_ok_def split: prod.splits)
next
  case (es_store eng j)
  then show ?case using outbox_ok_frame[OF store_write_outbox[OF es_store(1)]] by simp
next
  case (es_restart eng ca budget)
  then show ?case by (simp add: engine_init_def open_store_sealed[OF engine_inv_facts(1,2)])
qed

lemma reachable_outbox_ok: "eng_reachable lib eng \<Longrightarrow> outbox_ok (eng_store eng)"
proof (induction rule: eng_reachable.induct)
  case (er_init ca budget)
  have "open_store lib empty_journal = empty_journal"
    by (rule open_store_sealed) (simp_all add: empty_journal_def sealed_def)
  then show ?case by (simp add: engine_init_def outbox_ok_def empty_journal_def)
next
  case (er_step eng eng')
  then show ?case using step_outbox_ok eng_reachable_inv by blast
qed

section \<open>One dispatch round\<close>

definition attempted :: "NotificationIntent \<Rightarrow> NotificationIntent \<Rightarrow> bool" where
  "attempted n n' \<longleftrightarrow> (\<exists>d rc er acc. n' = delivery_update d rc er acc n)"

lemma delivery_update_id [simp]: "ntf_notification_id (delivery_update d rc er acc n) = ntf_notification_id n"
  by (simp add: delivery_update_def Let_def)

lemma find_by_id:
  assumes "distinct (map ntf_notification_id ns)" "n \<in> set ns"
  shows "find (\<lambda>m. ntf_notification_id m = ntf_notification_id n) ns = Some n"
  using assms by (induction ns) (auto simp: image_iff)

lemma record_delivery_ok:
  assumes "outbox_ok j" "n \<in> set (j_notification_intents j)" "ntf_status n \<noteq> NS_DELIVERED"
  obtains t where "record_delivery lib (ntf_notification_id n) d rc er acc j = Inr (delivery_update d rc er acc n, t)"
    "j_notification_intents t = map (\<lambda>m. if ntf_notification_id m = ntf_notification_id n then delivery_update d rc er acc n else m)
       (j_notification_intents j)"
proof -
  obtain p j1 where a: "append_authority lib AM_NOTIFICATION_DELIVERY (ntf_notification_id n) acc
      (lib_model_dump lib (V_notification (delivery_update d rc er acc n))) j = (p, j1)" by fastforce
  have "record_delivery lib (ntf_notification_id n) d rc er acc j = Inr (delivery_update d rc er acc n,
      j1\<lparr>j_notification_intents := map (\<lambda>m. if ntf_notification_id m = ntf_notification_id n then delivery_update d rc er acc n else m)
        (j_notification_intents j1)\<rparr>)"
    using find_by_id[of "j_notification_intents j" n] assms a by (simp add: record_delivery_def Let_def outbox_ok_def)
  then show thesis by (rule that) (simp add: append_authority_frameD(2)[OF a])
qed

lemma deliver_all_round:
  assumes "outbox_ok j" "distinct (map ntf_notification_id ns)" "set ns \<subseteq> set (j_notification_intents j)"
    "\<forall>n \<in> set ns. ntf_status n \<noteq> NS_DELIVERED" "deliver_all lib send now_of ns j k = (out, t, k')"
  shows "is_ok out \<and> list_all2 (\<lambda>n n'. if n \<in> set ns then attempted n n' else n' = n) (j_notification_intents j) (j_notification_intents t)"
  using assms
proof (induction ns arbitrary: j k out t k')
  case Nil
  then show ?case by (auto simp: list_all2_same)
next
  case (Cons n ns)
  obtain o1 k1 where s: "send n k = (o1, k1)" by fastforce
  obtain d rc er where attempt: "(case o1 of
      Inl text \<Rightarrow> record_delivery lib (ntf_notification_id n) False None (Some text) (now_of (ntf_notification_id n)) j
    | Inr receipt \<Rightarrow> record_delivery lib (ntf_notification_id n) True (Some receipt) None (now_of (ntf_notification_id n)) j) =
      record_delivery lib (ntf_notification_id n) d rc er (now_of (ntf_notification_id n)) j"
    by (cases o1) auto
  let ?u = "delivery_update d rc er (now_of (ntf_notification_id n)) n"
  let ?f = "\<lambda>m. if ntf_notification_id m = ntf_notification_id n then ?u else m"
  obtain j1 where j1: "record_delivery lib (ntf_notification_id n) d rc er (now_of (ntf_notification_id n)) j = Inr (?u, j1)"
    "j_notification_intents j1 = map ?f (j_notification_intents j)"
    using Cons.prems(3,4) by (auto intro: record_delivery_ok[OF Cons.prems(1), of n])
  obtain o2 t2 k2 where rest: "deliver_all lib send now_of ns j1 k1 = (o2, t2, k2)" using prod_cases3 by blast
  have t: "t2 = t" "is_ok o2 \<longleftrightarrow> is_ok out"
    using Cons.prems(5) s attempt j1(1) rest by (auto simp: Let_def split: sum.splits)
  have sub: "set ns \<subseteq> set (j_notification_intents j1)"
    using Cons.prems(2,3) by (force simp: j1(2) image_iff)
  have "outbox_ok j1"
    using Cons.prems(1) record_delivery_outbox[OF j1(1)] by (simp add: outbox_ok_def)
  with Cons.IH[OF this _ sub _ rest] Cons.prems(2,4)
  have ih: "is_ok o2" "list_all2 (\<lambda>x y. if ?f x \<in> set ns then attempted (?f x) y else y = ?f x) (j_notification_intents j) (j_notification_intents t2)"
    by (simp_all add: j1(2) list_all2_map1)
  have "list_all2 (\<lambda>x y. if x \<in> set (n # ns) then attempted x y else y = x) (j_notification_intents j) (j_notification_intents t2)"
  proof (rule list.rel_mono_strong[OF ih(2)])
    fix x y assume x: "x \<in> set (j_notification_intents j)" and r: "if ?f x \<in> set ns then attempted (?f x) y else y = ?f x"
    show "if x \<in> set (n # ns) then attempted x y else y = x"
    proof (cases "ntf_notification_id x = ntf_notification_id n")
      case True
      have "x = n" using True x Cons.prems(1,3) by (auto simp: outbox_ok_def distinct_map inj_on_def)
      moreover have "?u \<notin> set ns" using Cons.prems(2) by (force simp: image_iff)
      ultimately show ?thesis using r by (auto simp: attempted_def)
    next
      case False
      with r show ?thesis by auto
    qed
  qed
  with ih(1) t show ?case by simp
qed

definition due :: "datetime \<Rightarrow> NotificationIntent \<Rightarrow> bool" where
  "due now n \<longleftrightarrow> ntf_created_at n \<le> now \<and> ntf_status n \<in> {NS_PENDING, NS_FAILED} \<and> ntf_attempt_count n < ntf_max_attempts n"

lemma dispatchable_due:
  "n \<in> set (dispatchable_notifications j now) \<longleftrightarrow> n \<in> set (j_notification_intents j) \<and> due now n"
  by (auto simp: dispatchable_notifications_def notifications_def due_def)

lemma attempted_after:
  assumes "due now n" "attempted n n'"
  shows "ntf_notification_id n' = ntf_notification_id n \<and> ntf_idempotency_key n' = ntf_idempotency_key n \<and>
    ntf_attempt_count n' = ntf_attempt_count n + 1 \<and> ntf_attempt_count n' \<le> ntf_max_attempts n' \<and>
    (ntf_status n' = NS_DELIVERED \<or>
     ntf_status n' = (if ntf_max_attempts n' \<le> ntf_attempt_count n' then NS_DEAD_LETTER else NS_FAILED)) \<and>
    (ntf_status n' \<in> {NS_DELIVERED, NS_DEAD_LETTER} \<longrightarrow> (\<forall>later. \<not> due later n'))"
proof -
  obtain d rc er acc where n': "n' = delivery_update d rc er acc n" using assms(2) by (auto simp: attempted_def)
  from assms(1) show ?thesis unfolding n' delivery_update_def Let_def by (simp add: due_def)
qed

text \<open>
  A dispatch round on a reachable engine never raises, whatever the sender does, and makes exactly
  one delivery attempt for every due intent (pending or failed, created by now, attempts left), leaving
  all other intents as they are. An attempted intent keeps its identity and key, has one attempt more
  and still at most its maximum, and ends DELIVERED, or FAILED while attempts are left, or DEAD_LETTER
  when they are used up; a delivered or dead-lettered intent is never sent again.
\<close>

theorem dispatch_round:
  assumes "eng_reachable lib eng" "dispatch_notifications lib send now now_of eng k = (out, eng', k')"
  shows "is_ok out \<and> list_all2 (\<lambda>n n'. if due now n then
        ntf_notification_id n' = ntf_notification_id n \<and> ntf_idempotency_key n' = ntf_idempotency_key n \<and>
        ntf_attempt_count n' = ntf_attempt_count n + 1 \<and> ntf_attempt_count n' \<le> ntf_max_attempts n' \<and>
        (ntf_status n' = NS_DELIVERED \<or>
         ntf_status n' = (if ntf_max_attempts n' \<le> ntf_attempt_count n' then NS_DEAD_LETTER else NS_FAILED)) \<and>
        (ntf_status n' \<in> {NS_DELIVERED, NS_DEAD_LETTER} \<longrightarrow> (\<forall>later. \<not> due later n'))
      else n' = n)
    (j_notification_intents (eng_store eng)) (j_notification_intents (eng_store eng'))"
    (is "_ \<and> list_all2 (\<lambda>n n'. if due now n then ?after n n' else n' = n) _ _")
proof -
  let ?ns = "dispatchable_notifications (eng_store eng) now"
  have ok: "outbox_ok (eng_store eng)" by (rule reachable_outbox_ok[OF assms(1)])
  obtain t where d: "deliver_all lib send now_of ?ns (eng_store eng) k = (out, t, k')" and e: "eng_store eng' = t"
    using assms(2) by (auto simp: dispatch_notifications_def split: prod.splits)
  have "distinct (map ntf_notification_id ?ns)"
    using ok by (auto simp: dispatchable_notifications_def notifications_def outbox_ok_def distinct_map intro: inj_on_subset)
  then have r: "is_ok out \<and> list_all2 (\<lambda>n n'. if n \<in> set ?ns then attempted n n' else n' = n)
      (j_notification_intents (eng_store eng)) (j_notification_intents t)"
    by (intro deliver_all_round[OF ok _ _ _ d]) (auto simp: dispatchable_due due_def)
  have "list_all2 (\<lambda>n n'. if due now n then ?after n n' else n' = n) (j_notification_intents (eng_store eng)) (j_notification_intents t)"
  proof (rule list.rel_mono_strong[OF conjunct2[OF r]])
    fix n n' assume "n \<in> set (j_notification_intents (eng_store eng))" "if n \<in> set ?ns then attempted n n' else n' = n"
    then have "if due now n then attempted n n' else n' = n" by (simp add: dispatchable_due)
    then show "if due now n then ?after n n' else n' = n"
    proof (cases "due now n")
      case True
      then have "attempted n n'" using \<open>if due now n then attempted n n' else n' = n\<close> by simp
      from attempted_after[OF True this] show ?thesis unfolding if_P[OF True] .
    qed simp
  qed
  with r show ?thesis unfolding e by blast
qed

section \<open>The demonstration sink\<close>

fun sink_run :: "NotificationIntent list \<Rightarrow> notification_sink \<Rightarrow> notification_sink" where
  "sink_run [] sink = sink"
| "sink_run (n # ns) sink = sink_run ns (snd (sink_send n sink))"

lemma sink_run_snoc: "sink_run (ns @ [n]) sink = snd (sink_send n (sink_run ns sink))"
  by (induction ns arbitrary: sink) auto

lemma sink_domain: "dom (map_of (snk_receipts (sink_run ns sink))) = dom (map_of (snk_receipts sink)) \<union> ntf_idempotency_key ` set ns"
proof (induction ns arbitrary: sink)
  case (Cons n ns)
  have "dom (map_of (snk_receipts (snd (sink_send n sink)))) = insert (ntf_idempotency_key n) (dom (map_of (snk_receipts sink)))"
    by (auto simp: sink_send_def Let_def update_conv' split: option.splits)
  with Cons.IH[of "snd (sink_send n sink)"] show ?case by simp
qed simp

lemma sink_effects:
  "snk_effects (sink_run ns \<lparr>snk_receipts = [], snk_effects = []\<rparr>) = rev (remdups (rev (map ntf_idempotency_key ns)))"
proof (induction ns rule: rev_induct)
  case (snoc n ns)
  let ?s = "sink_run ns \<lparr>snk_receipts = [], snk_effects = []\<rparr>"
  have d: "map_of (snk_receipts ?s) (ntf_idempotency_key n) = None \<longleftrightarrow> ntf_idempotency_key n \<notin> ntf_idempotency_key ` set ns"
    using sink_domain[of ns "\<lparr>snk_receipts = [], snk_effects = []\<rparr>"] by (auto simp: domIff)
  show ?case
  proof (cases "map_of (snk_receipts ?s) (ntf_idempotency_key n)")
    case None
    with d snoc show ?thesis by (simp add: sink_run_snoc sink_send_def Let_def)
  next
    case (Some r)
    with d snoc show ?thesis by (simp add: sink_run_snoc sink_send_def Let_def)
  qed
qed simp

text \<open>
  The sink applies every idempotency key exactly once: after any sequence of sends, with repeated
  and interleaved keys, the effects are the keys in the order of their first send, each once, and
  sending any of these intents again returns the receipt on record and has no effect.
\<close>

theorem sink_applies_once:
  "let sink = sink_run ns \<lparr>snk_receipts = [], snk_effects = []\<rparr>
   in snk_effects sink = rev (remdups (rev (map ntf_idempotency_key ns))) \<and>
      (\<forall>n \<in> set ns. \<exists>receipt. map_of (snk_receipts sink) (ntf_idempotency_key n) = Some receipt \<and> sink_send n sink = (Inr receipt, sink))"
proof -
  let ?s = "sink_run ns \<lparr>snk_receipts = [], snk_effects = []\<rparr>"
  have "\<exists>receipt. map_of (snk_receipts ?s) (ntf_idempotency_key n) = Some receipt \<and> sink_send n ?s = (Inr receipt, ?s)"
    if "n \<in> set ns" for n
  proof -
    have "ntf_idempotency_key n \<in> dom (map_of (snk_receipts ?s))" using sink_domain[of ns "\<lparr>snk_receipts = [], snk_effects = []\<rparr>"] that by simp
    then show ?thesis by (auto simp: sink_send_def Let_def)
  qed
  then show ?thesis by (simp add: Let_def sink_effects)
qed

end
