(* ===== verification/Auth_Claims.thy ===== *)
theory Auth_Claims
  imports Engine_Behaviour
begin

text \<open>
  Authentication and command authorisation: revocation and the round trip of a decision.
\<close>

section \<open>Revocation\<close>

lemma map_of_map_values: "map_of (map (\<lambda>(k, v). (k, f v)) xs) k = map_option f (map_of xs k)"
  by (induction xs) auto

lemma authenticate_Inr:
  "authenticate lib am (Some t) now = Inr p \<longleftrightarrow> t \<noteq> [] \<and>
     (\<exists>r. map_of (am_records am) (digest_token lib t) = Some r \<and> tok_token_sha256 r = digest_token lib t \<and>
        \<not> tok_disabled r \<and> (case tok_expires_at r of None \<Rightarrow> True | Some e \<Rightarrow> now < e) \<and> p = tok_principal r)"
  by (auto simp: authenticate_def not_le split: option.splits)

text \<open>
  Revoking a principal is complete and precise: afterwards no token, at no time, authenticates as
  that principal, every other principal's tokens authenticate exactly as before, and the reported
  number is the number of live tokens that were switched off.
\<close>

theorem revocation_is_complete_and_precise:
  "let (n, am') = disable_principal am principal_id in
     (\<forall>t now p. authenticate lib am' t now = Inr p \<longleftrightarrow>
        authenticate lib am t now = Inr p \<and> prn_principal_id p \<noteq> principal_id) \<and>
     n = length (filter (\<lambda>(_, r). prn_principal_id (tok_principal r) = principal_id \<and> \<not> tok_disabled r) (am_records am)) \<and>
     disable_principal am' principal_id = (0, am')"
proof -
  let ?hit = "\<lambda>r. prn_principal_id (tok_principal r) = principal_id \<and> \<not> tok_disabled r"
  let ?off = "\<lambda>r. if ?hit r then r\<lparr>tok_disabled := True\<rparr> else r"
  let ?am = "am\<lparr>am_records := map (\<lambda>(dg, r). (dg, ?off r)) (am_records am)\<rparr>"
  have d: "disable_principal am principal_id = (length (filter (\<lambda>(_, r). ?hit r) (am_records am)), ?am)"
    by (simp add: disable_principal_def Let_def)
  have look: "map_of (am_records ?am) k = map_option ?off (map_of (am_records am) k)" for k
    using map_of_map_values[of ?off "am_records am" k] by simp
  have "authenticate lib ?am t now = Inr p \<longleftrightarrow> authenticate lib am t now = Inr p \<and> prn_principal_id p \<noteq> principal_id" for t now p
  proof (cases t)
    case None
    then show ?thesis by (simp add: authenticate_def)
  next
    case (Some t')
    show ?thesis unfolding Some authenticate_Inr look
      by (cases "map_of (am_records am) (digest_token lib t')") auto
  qed
  moreover have "disable_principal ?am principal_id = (0, ?am)"
  proof -
    have off: "\<not> ?hit (?off r)" for r by simp
    have "map (\<lambda>(dg, r). (dg, ?off r)) (am_records ?am) = am_records ?am"
      using off by (intro map_idI) (auto simp: image_iff)
    moreover have "filter (\<lambda>(_, r). ?hit r) (am_records ?am) = []" using off by (auto simp: filter_empty_conv)
    ultimately show ?thesis unfolding disable_principal_def Let_def by simp
  qed
  ultimately show ?thesis unfolding d by simp
qed

section \<open>Decisions\<close>

text \<open>
  C37. A decision authorises exactly what was decided: the authorizer verifies its own decision if and
  only if it is presented before it expires, for the operation and target decided, with a payload of
  the same digest, and by the same principal in the same session and trust epochs (or with no current
  principal to compare).
\<close>

theorem decision_round_trip:
  assumes "decide lib ca fresh_id princ operation target payload accepted_at = Inr d"
  shows "verify lib ca d payload' operation' target' current now = Inr () \<longleftrightarrow>
    now < accepted_at + ca_ttl_seconds ca * 1000000 \<and> operation' = operation \<and> target' = target \<and>
    payload_digest lib payload' = payload_digest lib payload \<and> (case current of None \<Rightarrow> True | Some p \<Rightarrow> p = princ)"
proof -
  have d: "d = \<lparr>azd_decision_id = fresh_id, azd_principal = princ, azd_operation = operation, azd_target = target,
      azd_payload_sha256 = payload_digest lib payload, azd_policy_version = ca_policy_version ca,
      azd_canonical_encoding_version = canonical_encoding_version, azd_accepted_at = accepted_at,
      azd_expires_at = accepted_at + ca_ttl_seconds ca * 1000000,
      azd_authorization_tag = lib_hmac_sha256 lib (ca_secret ca) (tag_payload lib ca princ operation target
        (payload_digest lib payload) accepted_at (accepted_at + ca_ttl_seconds ca * 1000000))\<rparr>"
    using assms by (auto simp: decide_def Let_def bind_result_Inr)
  show ?thesis unfolding d by (auto simp: verify_def not_le split: option.splits)
qed

definition demo_principal :: PrincipalRef where
  "demo_principal = \<lparr>prn_principal_id = ''op'', prn_roles = [PR_OPERATOR], prn_scopes = [],
     prn_authentication_method = ''bearer'', prn_principal_kind = ''human'', prn_session_epoch = 1, prn_device_trust_epoch = 1\<rparr>"

definition demo_authorizer :: command_authorizer where
  "demo_authorizer = \<lparr>ca_secret = replicate 32 (CHR ''s''), ca_policy_version = ''local-policy-v1'', ca_ttl_seconds = 30\<rparr>"

theorem decision_round_trip_witness:
  "let lib = demo_library\<lparr>lib_isoformat := \<lambda>_. ''instant''\<rparr> in case decide lib demo_authorizer ''d'' demo_principal ''incidents:acknowledge'' ''incident:i'' (JStr ''payload'') 5 of
     Inl e \<Rightarrow> False
   | Inr d \<Rightarrow> verify lib demo_authorizer d (JStr ''payload'') ''incidents:acknowledge'' ''incident:i'' None 6 = Inr () \<and>
       verify lib demo_authorizer d (JStr ''other'') ''incidents:acknowledge'' ''incident:i'' None 6 \<noteq> Inr ()"
proof -
  let ?lib = "demo_library\<lparr>lib_isoformat := \<lambda>_. ''instant''\<rparr>"
  let ?d = "decide ?lib demo_authorizer ''d'' demo_principal ''incidents:acknowledge'' ''incident:i'' (JStr ''payload'') 5"
  have "is_ok ?d" by code_simp
  then obtain d where d: "?d = Inr d" by (cases ?d) simp_all
  have "payload_digest ?lib (JStr ''other'') \<noteq> payload_digest ?lib (JStr ''payload'')"
    "(6::int) < 5 + ca_ttl_seconds demo_authorizer * 1000000" by code_simp+
  with decision_round_trip[OF d, of _ _ _ None 6] show ?thesis unfolding Let_def d by simp
qed

end
