(* ===== verification/Artifacts.thy ===== *)
theory Artifacts
  imports Library_Model
begin

text \<open>
  The artifact catalog (\<^verbatim>\<open>ArtifactCatalog\<close> of \<^verbatim>\<open>src/src/sentinel_edge/storage/artifact_governance.py\<close>) and the
  content-addressed store on top of it (\<^verbatim>\<open>ContentAddressedArtifactStore\<close> of
  \<^verbatim>\<open>src/src/sentinel_edge/storage/artifacts.py\<close>).

  The tables are lists of rows. The directory of the store is a dictionary from digest to file content;
  the path of a digest is \<^verbatim>\<open>digest[:2]/digest[2:]\<close>. A byte string is a \<open>string\<close>. Writing a file may fail:
  the argument \<open>fault\<close> is the name of the \<^verbatim>\<open>OSError\<close> the file system raises, if any. An operation of the
  store that raises may have written already, so it returns its outcome with the store it leaves.
\<close>

section \<open>The catalog\<close>

record gc_event =
  gce_event_id :: uuid
  gce_artifact_sha256 :: string
  gce_action :: string
  gce_actor :: string
  gce_reason_codes :: "string list"
  gce_created_at :: datetime

record catalog =
  cat_budgets :: ArtifactBudgetPolicy
  cat_registrations :: "ArtifactRecord list"
  cat_references :: "ArtifactReference list"
  cat_gc_events :: "gc_event list"

definition policy_digest :: "library \<Rightarrow> ArtifactPolicy \<Rightarrow> string" where
  "policy_digest lib p = value_digest lib (V_policy p)"

definition scope_usage :: "catalog \<Rightarrow> (ArtifactScope \<Rightarrow> string option) \<Rightarrow> string \<Rightarrow> int \<times> int" where
  "scope_usage cat field value =
     (let rows = filter (\<lambda>r. field (art_scope r) = Some value) (cat_registrations cat)
      in (int (length rows), sum_list (map art_bytes rows)))"

type_synonym scope_check = "string \<times> (ArtifactScope \<Rightarrow> string option) \<times> int \<times> int"

definition scope_checks :: "ArtifactBudgetPolicy \<Rightarrow> scope_check list" where
  "scope_checks b =
     [(''source_id'', asc_source_id, abp_per_source_max_objects b, abp_per_source_max_bytes b),
      (''incident_id'', asc_incident_id, abp_per_incident_max_objects b, abp_per_incident_max_bytes b),
      (''scenario_run_id'', asc_scenario_run_id, abp_per_run_max_objects b, abp_per_run_max_bytes b),
      (''release_candidate_id'', asc_release_candidate_id, abp_per_candidate_max_objects b, abp_per_candidate_max_bytes b)]"

fun run_scope_checks :: "catalog \<Rightarrow> ArtifactScope \<Rightarrow> int \<Rightarrow> scope_check list \<Rightarrow> unit result" where
  "run_scope_checks cat scope nbytes [] = Inr ()"
| "run_scope_checks cat scope nbytes ((name, field, max_objects, max_bytes) # rest) =
     (case field scope of
        None \<Rightarrow> run_scope_checks cat scope nbytes rest
      | Some value \<Rightarrow>
          let (objects, used) = scope_usage cat field value in
          if max_objects < objects + 1 then Inl (OSError (''artifact '' @ name @ '' object-count budget exceeded''))
          else if max_bytes < used + nbytes then Inl (OSError (''artifact '' @ name @ '' byte budget exceeded''))
          else run_scope_checks cat scope nbytes rest)"

definition check_scope_budget :: "catalog \<Rightarrow> ArtifactScope \<Rightarrow> int \<Rightarrow> unit result" where
  "check_scope_budget cat scope nbytes =
     (if abp_node_max_objects (cat_budgets cat) < int (length (cat_registrations cat)) + 1
      then Inl (OSError ''artifact node object-count budget exceeded'')
      else run_scope_checks cat scope nbytes (scope_checks (cat_budgets cat)))"

definition registration_id_of :: "library \<Rightarrow> string \<Rightarrow> ArtifactPolicy \<Rightarrow> ArtifactScope \<Rightarrow> bool \<Rightarrow> uuid" where
  "registration_id_of lib sha policy scope critical =
     lib_uuid5 lib (''sentinel-artifact-registration:'' @ digest lib (JObj
       [(''sha256'', JStr sha), (''policy_sha256'', JStr (policy_digest lib policy)),
        (''scope'', lib_model_dump lib (V_scope scope)), (''critical'', JBool critical)]))"

definition register_artifact :: "library \<Rightarrow> string \<Rightarrow> string \<Rightarrow> int \<Rightarrow> string \<Rightarrow> ArtifactPolicy \<Rightarrow> ArtifactScope \<Rightarrow> bool \<Rightarrow> datetime \<Rightarrow>
    catalog \<Rightarrow> (ArtifactRecord \<times> catalog) result" where
  "register_artifact lib sha path bytes_count media_type policy scope critical created_at cat =
     (let rid = registration_id_of lib sha policy scope critical;
          rec = \<lparr>art_registration_id = rid, art_sha256 = sha, art_relative_path = path, art_bytes = bytes_count,
            art_media_type = media_type, art_policy = policy, art_scope = scope, art_critical = critical,
            art_created_at = created_at, art_policy_sha256 = policy_digest lib policy\<rparr>
      in if bytes_count < 0 then Inl (ValidationError ''ArtifactRecord'')
         else (case find (\<lambda>r. art_registration_id r = rid) (cat_registrations cat) of
            Some existing \<Rightarrow>
              if art_policy_sha256 existing \<noteq> policy_digest lib policy \<or>
                 lib_model_dump lib (V_scope (art_scope existing)) \<noteq> lib_model_dump lib (V_scope scope)
              then Inl (ValueError ''artifact registration identity conflict'')
              else Inr (rec, cat)
          | None \<Rightarrow>
              bind_result (check_scope_budget cat scope bytes_count) (\<lambda>_.
                Inr (rec, cat\<lparr>cat_registrations := cat_registrations cat @ [rec]\<rparr>))))"

definition artifact_records :: "catalog \<Rightarrow> string option \<Rightarrow> ArtifactRecord list" where
  "artifact_records cat sha =
     sort_key (\<lambda>r. (art_created_at r, art_registration_id r))
       (filter (\<lambda>r. case sha of None \<Rightarrow> True | Some s \<Rightarrow> art_sha256 r = s) (cat_registrations cat))"

text \<open>\<^verbatim>\<open>max(xs, key=f)\<close>: the first element of greatest key.\<close>

fun first_max :: "('a \<Rightarrow> nat) \<Rightarrow> 'a \<Rightarrow> 'a list \<Rightarrow> 'a" where
  "first_max f x [] = x"
| "first_max f x (y # ys) = first_max f (if f x < f y then y else x) ys"

definition merged_policy :: "ArtifactPolicy list \<Rightarrow> ArtifactPolicy" where
  "merged_policy ps =
     (let anyp = (\<lambda>P. \<exists>p \<in> set ps. P p);
          expiries = List.map_filter apo_retention_expires_at ps
      in \<lparr>apo_classification = apo_classification (first_max (\<lambda>p. class_order (apo_classification p)) (hd ps) (tl ps)),
          apo_retention = apo_retention (first_max (\<lambda>p. retention_index (apo_retention p)) (hd ps) (tl ps)),
          apo_encryption =
            (if anyp (\<lambda>p. apo_encryption p = AE_EXTERNAL_ENVELOPE_REQUIRED) then AE_EXTERNAL_ENVELOPE_REQUIRED
             else if anyp (\<lambda>p. apo_encryption p = AE_NODE_AT_REST) then AE_NODE_AT_REST else AE_NONE),
          apo_export_policy =
            (if anyp (\<lambda>p. apo_export_policy p = AX_PROHIBITED) then AX_PROHIBITED
             else if anyp (\<lambda>p. apo_export_policy p = AX_REDACTED_ONLY) then AX_REDACTED_ONLY else AX_ALLOWED),
          apo_deletion_policy =
            (if anyp (\<lambda>p. apo_deletion_policy p = AD_HOLD_PROTECTED) then AD_HOLD_PROTECTED
             else if anyp (\<lambda>p. apo_deletion_policy p = AD_TOMBSTONE_REQUIRED) then AD_TOMBSTONE_REQUIRED
             else if anyp (\<lambda>p. apo_deletion_policy p = AD_MANUAL_ONLY) then AD_MANUAL_ONLY else AD_GC_ALLOWED),
          apo_retention_expires_at = (if expiries = [] then None else Some (Min (set expiries))),
          apo_reason_codes = sorted_set (concat (map apo_reason_codes ps))\<rparr>)"

definition effective_policy :: "catalog \<Rightarrow> string \<Rightarrow> ArtifactPolicy result" where
  "effective_policy cat sha =
     (let records = artifact_records cat (Some sha) in
      if records = [] then Inl (KeyError sha)
      else ArtifactPolicy_init (merged_policy (map art_policy records)))"

definition reference_id_of :: "library \<Rightarrow> string \<Rightarrow> ArtifactReferenceKind \<Rightarrow> string \<Rightarrow> string \<Rightarrow> datetime option \<Rightarrow> uuid" where
  "reference_id_of lib sha kind owner reason expires_at =
     lib_uuid5 lib (''sentinel-artifact-reference:'' @ sha @ '':'' @ ArtifactReferenceKind_value kind @ '':'' @ owner @ '':'' @
       reason @ '':'' @ (case expires_at of None \<Rightarrow> [] | Some e \<Rightarrow> lib_isoformat lib e))"

definition add_reference :: "library \<Rightarrow> string \<Rightarrow> ArtifactReferenceKind \<Rightarrow> string \<Rightarrow> string \<Rightarrow> datetime option \<Rightarrow> datetime \<Rightarrow>
    catalog \<Rightarrow> (ArtifactReference \<times> catalog) result" where
  "add_reference lib sha kind owner reason expires_at created_at cat =
     (if artifact_records cat (Some sha) = [] then Inl (KeyError sha)
      else
        let rid = reference_id_of lib sha kind owner reason expires_at;
            ref = \<lparr>arf_reference_id = rid, arf_artifact_sha256 = sha, arf_kind = kind, arf_owner = owner,
              arf_reason = reason, arf_created_at = created_at, arf_expires_at = expires_at\<rparr>
        in bind_result (validate_reference ref) (\<lambda>_.
             case find (\<lambda>r. arf_reference_id r = rid) (cat_references cat) of
               Some r \<Rightarrow> Inr (r, cat)
             | None \<Rightarrow> Inr (ref, cat\<lparr>cat_references := cat_references cat @ [ref]\<rparr>)))"

definition references :: "catalog \<Rightarrow> string \<Rightarrow> datetime \<Rightarrow> ArtifactReference list" where
  "references cat sha now =
     filter (\<lambda>r. case arf_expires_at r of None \<Rightarrow> True | Some e \<Rightarrow> now < e)
       (sort_key (\<lambda>r. (arf_created_at r, arf_reference_id r))
         (filter (\<lambda>r. arf_artifact_sha256 r = sha) (cat_references cat)))"

definition remove_reference :: "uuid \<Rightarrow> catalog \<Rightarrow> catalog" where
  "remove_reference rid cat = cat\<lparr>cat_references := filter (\<lambda>r. arf_reference_id r \<noteq> rid) (cat_references cat)\<rparr>"

definition deletion_blockers :: "catalog \<Rightarrow> string \<Rightarrow> datetime \<Rightarrow> string list result" where
  "deletion_blockers cat sha now =
     bind_result (effective_policy cat sha) (\<lambda>policy. Inr (sort (
       (if apo_deletion_policy policy \<noteq> AD_GC_ALLOWED
        then [''policy:'' @ ArtifactDeletionPolicy_value (apo_deletion_policy policy)] else []) @
       map (\<lambda>r. ''reference:'' @ ArtifactReferenceKind_value (arf_kind r) @ '':'' @ arf_reference_id r)
         (references cat sha now))))"

definition record_gc_event :: "library \<Rightarrow> string \<Rightarrow> string \<Rightarrow> string \<Rightarrow> string list \<Rightarrow> datetime \<Rightarrow> catalog \<Rightarrow> catalog" where
  "record_gc_event lib sha action actor reason_codes created_at cat =
     (let payload = JObj [(''artifact_sha256'', JStr sha), (''action'', JStr action), (''actor'', JStr actor),
            (''reason_codes'', JArr (map JStr reason_codes)), (''created_at'', JStr (lib_isoformat lib created_at))];
          eid = lib_uuid5 lib (''sentinel-artifact-gc:'' @ digest lib payload)
      in if \<exists>e \<in> set (cat_gc_events cat). gce_event_id e = eid then cat
         else cat\<lparr>cat_gc_events := cat_gc_events cat @ [\<lparr>gce_event_id = eid, gce_artifact_sha256 = sha, gce_action = action,
           gce_actor = actor, gce_reason_codes = reason_codes, gce_created_at = created_at\<rparr>]\<rparr>)"

record catalog_usage =
  use_registrations :: int
  use_objects :: int
  use_logical_bytes :: int
  use_by_classification :: "(ArtifactClassification, int \<times> int) dict"
  use_budgets :: ArtifactBudgetPolicy

definition class_usage :: "catalog \<Rightarrow> ArtifactClassification \<Rightarrow> (ArtifactClassification \<times> int \<times> int) option" where
  "class_usage cat c =
     (let rows = filter (\<lambda>r. apo_classification (art_policy r) = c) (cat_registrations cat)
      in if rows = [] then None else Some (c, int (length rows), sum_list (map art_bytes rows)))"

definition usage :: "catalog \<Rightarrow> catalog_usage" where
  "usage cat = \<lparr>use_registrations = int (length (cat_registrations cat)),
     use_objects = int (length (remdups (map art_sha256 (cat_registrations cat)))),
     use_logical_bytes = sum_list (map art_bytes (cat_registrations cat)),
     use_by_classification = List.map_filter (class_usage cat) [AC_INTERNAL, AC_PUBLIC, AC_RESTRICTED, AC_SECRET_PROHIBITED],
     use_budgets = cat_budgets cat\<rparr>"

section \<open>The content-addressed store\<close>

record artifact_store =
  ars_files :: "(string, string) dict"
  ars_catalog :: catalog
  ars_max_bytes :: int
  ars_reserve_bytes :: int
  ars_forced_read_only :: bool
  ars_last_failure :: "string option"

definition artifact_store_init :: "ArtifactBudgetPolicy \<Rightarrow> int \<Rightarrow> int \<Rightarrow> artifact_store result" where
  "artifact_store_init budgets max_bytes reserve_bytes =
     (if max_bytes \<le> 0 \<or> reserve_bytes < 0 \<or> max_bytes \<le> reserve_bytes
      then Inl (ValueError ''artifact capacity budget is invalid'')
      else Inr \<lparr>ars_files = [],
        ars_catalog = \<lparr>cat_budgets = budgets, cat_registrations = [], cat_references = [], cat_gc_events = []\<rparr>,
        ars_max_bytes = max_bytes, ars_reserve_bytes = reserve_bytes, ars_forced_read_only = False,
        ars_last_failure = None\<rparr>)"

record ArtifactRef =
  ref_sha256 :: string
  ref_relative_path :: string
  ref_bytes :: int
  ref_media_type :: string

definition byte_count :: "string \<Rightarrow> int" where
  "byte_count data = int (length data)"

definition used_bytes :: "artifact_store \<Rightarrow> int" where
  "used_bytes st = sum_list (map (\<lambda>(_, data). byte_count data) (ars_files st))"

definition set_read_only :: "bool \<Rightarrow> artifact_store \<Rightarrow> artifact_store" where
  "set_read_only value st =
     st\<lparr>ars_forced_read_only := value,
        ars_last_failure := (if value then Some ''medium_read_only_or_unwritable'' else ars_last_failure st)\<rparr>"

text \<open>
  \<^verbatim>\<open>storage/health.py\<close>: \<open>disk\<close> is what \<^verbatim>\<open>shutil.disk_usage\<close> and \<^verbatim>\<open>os.access\<close> report of the directory.
\<close>

record disk_usage =
  dsk_total :: int
  dsk_free :: int
  dsk_used :: int
  dsk_writable :: bool

record StorageHealthReport =
  shr_state :: HealthState
  shr_path :: string
  shr_writable :: bool
  shr_total_bytes :: int
  shr_free_bytes :: int
  shr_used_bytes :: int
  shr_configured_max_bytes :: int
  shr_reserve_bytes :: int
  shr_reason_codes :: "string list"

definition inspect_storage :: "disk_usage \<Rightarrow> string \<Rightarrow> int \<Rightarrow> int \<Rightarrow> bool \<Rightarrow> StorageHealthReport" where
  "inspect_storage disk path max_bytes reserve_bytes forced_read_only =
     (let writable = (dsk_writable disk \<and> \<not> forced_read_only);
          (state, reasons) =
            (if \<not> writable then (HS_FAILED, [''medium_read_only_or_unwritable''])
             else if dsk_free disk < reserve_bytes then (HS_DEGRADED, [''filesystem_free_space_below_reserve''])
             else (HS_HEALTHY, [''storage_writable'']))
      in \<lparr>shr_state = state, shr_path = path, shr_writable = writable, shr_total_bytes = dsk_total disk,
          shr_free_bytes = dsk_free disk, shr_used_bytes = dsk_used disk, shr_configured_max_bytes = max_bytes,
          shr_reserve_bytes = reserve_bytes, shr_reason_codes = reasons\<rparr>)"

definition health :: "disk_usage \<Rightarrow> string \<Rightarrow> artifact_store \<Rightarrow> StorageHealthReport" where
  "health disk path st =
     (let report = inspect_storage disk path (ars_max_bytes st) (ars_reserve_bytes st) (ars_forced_read_only st);
          used = used_bytes st
      in case ars_last_failure st of
           Some failure \<Rightarrow>
             if failure \<noteq> [] \<and> failure \<notin> set (shr_reason_codes report)
             then report\<lparr>shr_state := (if ars_forced_read_only st then HS_FAILED else HS_DEGRADED), shr_used_bytes := used,
               shr_reason_codes := sorted_set (shr_reason_codes report @ [failure])\<rparr>
             else if shr_state report = HS_HEALTHY \<and> ars_max_bytes st - ars_reserve_bytes st < used
             then report\<lparr>shr_state := HS_DEGRADED, shr_used_bytes := used, shr_reason_codes := [''artifact_reserve_in_use'']\<rparr>
             else report\<lparr>shr_used_bytes := used\<rparr>
         | None \<Rightarrow>
             if shr_state report = HS_HEALTHY \<and> ars_max_bytes st - ars_reserve_bytes st < used
             then report\<lparr>shr_state := HS_DEGRADED, shr_used_bytes := used, shr_reason_codes := [''artifact_reserve_in_use'']\<rparr>
             else report\<lparr>shr_used_bytes := used\<rparr>)"

record store_usage =
  sus_state :: string
  sus_writable :: bool
  sus_used_bytes :: int
  sus_maximum_bytes :: int
  sus_reserve_bytes :: int
  sus_noncritical_budget_remaining_bytes :: int
  sus_critical_budget_remaining_bytes :: int
  sus_reason_codes :: "string list"

definition usage_report :: "disk_usage \<Rightarrow> string \<Rightarrow> artifact_store \<Rightarrow> store_usage" where
  "usage_report disk path st =
     (let h = health disk path st
      in \<lparr>sus_state = HealthState_value (shr_state h), sus_writable = shr_writable h, sus_used_bytes = shr_used_bytes h,
          sus_maximum_bytes = ars_max_bytes st, sus_reserve_bytes = ars_reserve_bytes st,
          sus_noncritical_budget_remaining_bytes = max 0 (ars_max_bytes st - ars_reserve_bytes st - shr_used_bytes h),
          sus_critical_budget_remaining_bytes = max 0 (ars_max_bytes st - shr_used_bytes h),
          sus_reason_codes = shr_reason_codes h\<rparr>)"

definition artifact_path :: "string \<Rightarrow> string" where
  "artifact_path dg = take 2 dg @ ''/'' @ drop 2 dg"

definition register_in :: "library \<Rightarrow> string \<Rightarrow> int \<Rightarrow> string \<Rightarrow> ArtifactPolicy \<Rightarrow> ArtifactScope \<Rightarrow> bool \<Rightarrow> datetime \<Rightarrow>
    artifact_store \<Rightarrow> ArtifactRef result \<times> artifact_store" where
  "register_in lib dg nbytes media_type policy scope critical now st =
     (case register_artifact lib dg (artifact_path dg) nbytes media_type policy scope critical now (ars_catalog st) of
        Inl e \<Rightarrow> (Inl e, st)
      | Inr (_, cat) \<Rightarrow>
          (Inr \<lparr>ref_sha256 = dg, ref_relative_path = artifact_path dg, ref_bytes = nbytes, ref_media_type = media_type\<rparr>,
           st\<lparr>ars_catalog := cat\<rparr>))"

definition put_bytes :: "library \<Rightarrow> string option \<Rightarrow> string \<Rightarrow> string \<Rightarrow> bool \<Rightarrow> ArtifactPolicy \<Rightarrow> ArtifactScope \<Rightarrow> datetime \<Rightarrow>
    artifact_store \<Rightarrow> ArtifactRef result \<times> artifact_store" where
  "put_bytes lib fault data media_type critical policy scope now st =
     (if ars_forced_read_only st then (Inl (OSError ''artifact medium is read-only''), st)
      else
        let dg = lib_sha256 lib data in
        case map_of (ars_files st) dg of
          Some existing \<Rightarrow>
            if lib_sha256 lib existing \<noteq> dg then (Inl (RuntimeError ''content-address collision''), st)
            else register_in lib dg (byte_count existing) media_type policy scope critical now st
        | None \<Rightarrow>
            let limit = (if critical then ars_max_bytes st else ars_max_bytes st - ars_reserve_bytes st) in
            if limit < used_bytes st + byte_count data
            then (Inl (OSError (if critical then ''artifact capacity exhausted'' else ''artifact capacity reserve would be violated'')),
                  st\<lparr>ars_last_failure := Some (if critical then ''artifact_capacity_exhausted''
                    else ''artifact_capacity_reserve_would_be_violated'')\<rparr>)
            else (case fault of
                Some name \<Rightarrow> (Inl (OSError name), st\<lparr>ars_last_failure := Some (''artifact_write_failed:'' @ name)\<rparr>)
              | None \<Rightarrow>
                  register_in lib dg (byte_count data) media_type policy scope critical now
                    (st\<lparr>ars_files := AList.update dg data (ars_files st)\<rparr>)))"

definition lower_hex_digest :: "string \<Rightarrow> bool" where
  "lower_hex_digest dg \<longleftrightarrow> length dg = 64 \<and> list_all (\<lambda>c. c \<in> set ''0123456789abcdef'') dg"

definition read_bytes :: "library \<Rightarrow> string \<Rightarrow> artifact_store \<Rightarrow> string result" where
  "read_bytes lib dg st =
     (if \<not> lower_hex_digest dg then Inl (ValueError ''artifact digest must be a lowercase SHA-256 value'')
      else (case map_of (ars_files st) dg of
         None \<Rightarrow> Inl (FileNotFoundError (''artifact not found for digest '' @ dg))
       | Some data \<Rightarrow>
           if lib_sha256 lib data \<noteq> dg then Inl (RuntimeError ''artifact digest mismatch after reference'')
           else Inr data))"

definition verify_ref :: "library \<Rightarrow> ArtifactRef \<Rightarrow> artifact_store \<Rightarrow> bool" where
  "verify_ref lib r st =
     (case find (\<lambda>(dg, _). artifact_path dg = ref_relative_path r) (ars_files st) of
        None \<Rightarrow> False
      | Some (_, data) \<Rightarrow> byte_count data = ref_bytes r \<and> lib_sha256 lib data = ref_sha256 r)"

record deletion =
  del_artifact_sha256 :: string
  del_existed :: bool
  del_bytes_removed :: int
  del_deletion_proof_sha256 :: string
  del_policy :: "ArtifactPolicy option"

text \<open>The part of \<^verbatim>\<open>delete_digest\<close> inside \<^verbatim>\<open>try ... except KeyError\<close>.\<close>

definition deletion_policy_check :: "string \<Rightarrow> bool \<Rightarrow> bool \<Rightarrow> datetime \<Rightarrow> catalog \<Rightarrow> ArtifactPolicy option result" where
  "deletion_policy_check dg tombstone_authorized force now cat =
     (case effective_policy cat dg of
        Inl (KeyError _) \<Rightarrow> Inr None
      | Inl e \<Rightarrow> Inl e
      | Inr policy \<Rightarrow>
          if references cat dg now \<noteq> [] \<and> \<not> force then Inl (PermissionError ''artifact deletion blocked by active references'')
          else if apo_deletion_policy policy = AD_TOMBSTONE_REQUIRED \<and> \<not> tombstone_authorized \<and> \<not> force
          then Inl (PermissionError ''artifact deletion requires tombstone authorization'')
          else if apo_deletion_policy policy \<in> {AD_HOLD_PROTECTED, AD_MANUAL_ONLY} \<and> \<not> force
          then Inl (PermissionError (''artifact deletion blocked by policy '' @ ArtifactDeletionPolicy_value (apo_deletion_policy policy)))
          else Inr (Some policy))"

definition delete_digest :: "library \<Rightarrow> string \<Rightarrow> string \<Rightarrow> bool \<Rightarrow> bool \<Rightarrow> datetime \<Rightarrow> artifact_store \<Rightarrow> deletion result \<times> artifact_store" where
  "delete_digest lib dg actor tombstone_authorized force now st =
     (if \<not> hex_digest_ok dg then (Inl (ValueError ''digest must be a lowercase SHA-256 hex value''), st)
      else (case deletion_policy_check dg tombstone_authorized force now (ars_catalog st) of
         Inl e \<Rightarrow> (Inl e, st)
       | Inr policy \<Rightarrow>
           let file = map_of (ars_files st) dg;
               existed = (file \<noteq> None);
               nbytes = (case file of None \<Rightarrow> 0 | Some data \<Rightarrow> byte_count data)
           in if (case file of None \<Rightarrow> False | Some data \<Rightarrow> lib_sha256 lib data \<noteq> dg)
              then (Inl (RuntimeError ''artifact digest mismatch before deletion''), st)
              else
                let st1 = st\<lparr>ars_files := AList.delete dg (ars_files st)\<rparr>;
                    proof_sha = lib_sha256 lib (''sentinel-artifact-delete-v1:'' @ dg @ '':'' @ (if existed then ''1'' else ''0'') @ '':'' @ str_int nbytes);
                    st2 = (case policy of
                        None \<Rightarrow> st1
                      | Some _ \<Rightarrow> st1\<lparr>ars_catalog := record_gc_event lib dg (if existed then ''deleted'' else ''already_absent'') actor
                          (if tombstone_authorized then [''tombstone_authorized''] else if force then [''forced''] else [''policy_allowed''])
                          now (ars_catalog st1)\<rparr>)
                in (Inr \<lparr>del_artifact_sha256 = dg, del_existed = existed, del_bytes_removed = nbytes,
                      del_deletion_proof_sha256 = proof_sha, del_policy = policy\<rparr>, st2)))"

record gc_report =
  gcr_deleted :: "string list"
  gcr_blocked :: "(string, string list) dict"

text \<open>
  The loop of \<^verbatim>\<open>collect_garbage\<close>. \<open>now\<close> is its argument, \<open>wall\<close> the clock that \<^verbatim>\<open>delete_digest\<close> reads.
\<close>

fun gc_loop :: "library \<Rightarrow> string \<Rightarrow> datetime \<Rightarrow> datetime \<Rightarrow> string list \<Rightarrow> gc_report \<Rightarrow> artifact_store \<Rightarrow> gc_report result \<times> artifact_store" where
  "gc_loop lib actor now wall [] rep st = (Inr rep, st)"
| "gc_loop lib actor now wall (dg # rest) rep st =
     (case effective_policy (ars_catalog st) dg of
        Inl e \<Rightarrow> (Inl e, st)
      | Inr policy \<Rightarrow>
          if (case apo_retention_expires_at policy of None \<Rightarrow> True | Some e \<Rightarrow> now < e) then gc_loop lib actor now wall rest rep st
          else (case deletion_blockers (ars_catalog st) dg now of
             Inl e \<Rightarrow> (Inl e, st)
           | Inr blockers \<Rightarrow>
               if blockers \<noteq> []
               then gc_loop lib actor now wall rest (rep\<lparr>gcr_blocked := AList.update dg blockers (gcr_blocked rep)\<rparr>) st
               else (case delete_digest lib dg actor False False wall st of
                  (Inr _, st') \<Rightarrow> gc_loop lib actor now wall rest (rep\<lparr>gcr_deleted := gcr_deleted rep @ [dg]\<rparr>) st'
                | (Inl (PermissionError why), st') \<Rightarrow>
                    gc_loop lib actor now wall rest (rep\<lparr>gcr_blocked := AList.update dg [why] (gcr_blocked rep)\<rparr>) st'
                | (Inl e, st') \<Rightarrow> (Inl e, st'))))"

definition collect_garbage :: "library \<Rightarrow> string \<Rightarrow> datetime \<Rightarrow> datetime \<Rightarrow> artifact_store \<Rightarrow> gc_report result \<times> artifact_store" where
  "collect_garbage lib actor now wall st =
     gc_loop lib actor now wall (sorted_set (map art_sha256 (artifact_records (ars_catalog st) None)))
       \<lparr>gcr_deleted = [], gcr_blocked = []\<rparr> st"

end
