(* ===== verification/Artifact_Claims.thy ===== *)
theory Artifact_Claims
  imports Artifacts
begin

text \<open>
  The artifact store: content addressing, capacity and scope budgets in every reachable state, and
  exactly which artifacts garbage collection removes.
\<close>

section \<open>Merged policies\<close>

lemma artifact_records_mem: "r \<in> set (artifact_records cat (Some dg)) \<longleftrightarrow> r \<in> set (cat_registrations cat) \<and> art_sha256 r = dg"
  by (auto simp: artifact_records_def)

lemma merged_deletion: "apo_deletion_policy (merged_policy ps) = AD_GC_ALLOWED \<longleftrightarrow> (\<forall>p \<in> set ps. apo_deletion_policy p = AD_GC_ALLOWED)"
proof -
  have "d = AD_GC_ALLOWED \<longleftrightarrow> d \<noteq> AD_HOLD_PROTECTED \<and> d \<noteq> AD_TOMBSTONE_REQUIRED \<and> d \<noteq> AD_MANUAL_ONLY" for d by (cases d) auto
  then show ?thesis by (auto simp: merged_policy_def Let_def)
qed

lemma merged_expired:
  "(case apo_retention_expires_at (merged_policy ps) of None \<Rightarrow> True | Some e \<Rightarrow> now < e) \<longleftrightarrow>
     (\<forall>p \<in> set ps. case apo_retention_expires_at p of None \<Rightarrow> True | Some e \<Rightarrow> now < e)"
proof -
  let ?es = "List.map_filter apo_retention_expires_at ps"
  have m: "e \<in> set ?es \<longleftrightarrow> (\<exists>p \<in> set ps. apo_retention_expires_at p = Some e)" for e
    by (force simp: List.map_filter_def image_iff)
  show ?thesis
  proof (cases "?es = []")
    case True
    then have "apo_retention_expires_at p = None" if "p \<in> set ps" for p
      using m[of "the (apo_retention_expires_at p)"] that by (cases "apo_retention_expires_at p") auto
    then show ?thesis using True by (auto simp: merged_policy_def Let_def)
  next
    case False
    then have "now < Min (set ?es) \<longleftrightarrow> (\<forall>e \<in> set ?es. now < e)" by (intro Min_gr_iff) auto
    also have "\<dots> \<longleftrightarrow> (\<forall>p \<in> set ps. case apo_retention_expires_at p of None \<Rightarrow> True | Some e \<Rightarrow> now < e)"
      using m by (auto split: option.splits)
    finally show ?thesis using False by (simp add: merged_policy_def Let_def)
  qed
qed

definition gc_allowed :: "catalog \<Rightarrow> string \<Rightarrow> bool" where
  "gc_allowed cat dg \<longleftrightarrow> (\<forall>r \<in> set (cat_registrations cat). art_sha256 r = dg \<longrightarrow> apo_deletion_policy (art_policy r) = AD_GC_ALLOWED)"

definition gc_expired :: "catalog \<Rightarrow> string \<Rightarrow> datetime \<Rightarrow> bool" where
  "gc_expired cat dg now \<longleftrightarrow> (\<exists>r \<in> set (cat_registrations cat). art_sha256 r = dg \<and>
     (case apo_retention_expires_at (art_policy r) of None \<Rightarrow> False | Some e \<Rightarrow> e \<le> now))"

definition registered :: "catalog \<Rightarrow> string \<Rightarrow> bool" where
  "registered cat dg \<longleftrightarrow> (\<exists>r \<in> set (cat_registrations cat). art_sha256 r = dg)"

lemma effective_policy_Inr:
  assumes "effective_policy cat dg = Inr p"
  shows "registered cat dg" "p = merged_policy (map art_policy (artifact_records cat (Some dg)))"
    "apo_deletion_policy p = AD_GC_ALLOWED \<longleftrightarrow> gc_allowed cat dg"
    "(case apo_retention_expires_at p of None \<Rightarrow> True | Some e \<Rightarrow> now < e) \<longleftrightarrow> \<not> gc_expired cat dg now"
proof -
  let ?rs = "artifact_records cat (Some dg)"
  show p: "p = merged_policy (map art_policy ?rs)"
    using assms by (auto simp: effective_policy_def ArtifactPolicy_init_def Let_def bind_result_Inr split: if_splits)
  have "?rs \<noteq> []" using assms by (auto simp: effective_policy_def Let_def)
  then show "registered cat dg" using hd_in_set[of ?rs] by (auto simp: registered_def artifact_records_mem)
  show "apo_deletion_policy p = AD_GC_ALLOWED \<longleftrightarrow> gc_allowed cat dg"
    by (auto simp: p merged_deletion gc_allowed_def artifact_records_mem)
  show "(case apo_retention_expires_at p of None \<Rightarrow> True | Some e \<Rightarrow> now < e) \<longleftrightarrow> \<not> gc_expired cat dg now"
    by (auto simp: p merged_expired gc_expired_def artifact_records_mem not_le split: option.splits)
qed

lemma effective_policy_congr:
  "cat_registrations cat' = cat_registrations cat \<Longrightarrow> effective_policy cat' = effective_policy cat"
  by (simp add: effective_policy_def artifact_records_def fun_eq_iff)

lemma references_congr: "cat_references cat' = cat_references cat \<Longrightarrow> references cat' = references cat"
  by (simp add: references_def fun_eq_iff)

lemma deletion_blockers_Inr:
  assumes "deletion_blockers cat dg now = Inr bs"
  shows "bs = [] \<longleftrightarrow> gc_allowed cat dg \<and> references cat dg now = []"
proof -
  obtain p where p: "effective_policy cat dg = Inr p"
    "bs = sort ((if apo_deletion_policy p \<noteq> AD_GC_ALLOWED then [''policy:'' @ ArtifactDeletionPolicy_value (apo_deletion_policy p)] else []) @
       map (\<lambda>r. ''reference:'' @ ArtifactReferenceKind_value (arf_kind r) @ '':'' @ arf_reference_id r) (references cat dg now))"
    using assms by (auto simp: deletion_blockers_def bind_result_Inr)
  have s: "sort xs = [] \<longleftrightarrow> xs = []" for xs :: "string list" by (metis length_0_conv length_sort)
  show ?thesis unfolding p(2) s using effective_policy_Inr(3)[OF p(1)] by auto
qed

section \<open>Garbage collection\<close>

definition collectable :: "catalog \<Rightarrow> datetime \<Rightarrow> datetime \<Rightarrow> string \<Rightarrow> bool" where
  "collectable cat now wall dg \<longleftrightarrow> gc_allowed cat dg \<and> gc_expired cat dg now \<and> references cat dg now = [] \<and> references cat dg wall = []"

lemma record_gc_event_frame [simp]:
  "cat_registrations (record_gc_event lib dg ac who why t cat) = cat_registrations cat"
  "cat_references (record_gc_event lib dg ac who why t cat) = cat_references cat"
  "cat_budgets (record_gc_event lib dg ac who why t cat) = cat_budgets cat"
  by (simp_all add: record_gc_event_def Let_def)

lemma delete_digest_frame:
  assumes "delete_digest lib dg who tomb force wall st = (out, st')"
  shows "cat_registrations (ars_catalog st') = cat_registrations (ars_catalog st)"
    "cat_references (ars_catalog st') = cat_references (ars_catalog st)"
    "cat_budgets (ars_catalog st') = cat_budgets (ars_catalog st)"
    "ars_max_bytes st' = ars_max_bytes st" "ars_reserve_bytes st' = ars_reserve_bytes st"
    "ars_files st' = (if is_ok out then AList.delete dg (ars_files st) else ars_files st)"
  using assms
  by (auto simp: delete_digest_def Let_def split: if_splits sum.splits option.splits)

lemma gc_delete:
  assumes "effective_policy (ars_catalog st) dg = Inr p" "gc_allowed (ars_catalog st) dg" "hex_digest_ok dg"
    "case map_of (ars_files st) dg of None \<Rightarrow> True | Some data \<Rightarrow> lib_sha256 lib data = dg"
  shows "if references (ars_catalog st) dg wall = [] then is_ok (fst (delete_digest lib dg who False False wall st))
    else fst (delete_digest lib dg who False False wall st) = Inl (PermissionError ''artifact deletion blocked by active references'')"
  using assms effective_policy_Inr(3)[OF assms(1)]
  by (auto simp: delete_digest_def deletion_policy_check_def Let_def split: option.splits)

lemma collectable_congr:
  "cat_registrations cat' = cat_registrations cat \<Longrightarrow> cat_references cat' = cat_references cat \<Longrightarrow>
     collectable cat' = collectable cat"
  by (simp add: collectable_def gc_allowed_def gc_expired_def fun_eq_iff references_congr[of cat' cat])

definition addressed :: "library \<Rightarrow> artifact_store \<Rightarrow> bool" where
  "addressed lib st \<longleftrightarrow> dict_ok (ars_files st) \<and> (\<forall>dg data. map_of (ars_files st) dg = Some data \<longrightarrow> lib_sha256 lib data = dg)"

lemma map_of_delete: "dict_ok d \<Longrightarrow> map_of (AList.delete k d) x = (if x = k then None else map_of d x)"
  by (simp add: delete_conv')

lemma gc_loop_outcome:
  assumes "addressed lib st" "\<forall>dg \<in> set dgs. hex_digest_ok dg" "gc_loop lib who now wall dgs rep st = (out, st')"
  shows "(is_ok out \<longleftrightarrow> (\<forall>dg \<in> set dgs. is_ok (effective_policy (ars_catalog st) dg))) \<and>
    (is_ok out \<longrightarrow> (\<forall>x. map_of (ars_files st') x =
       (if x \<in> set dgs \<and> collectable (ars_catalog st) now wall x then None else map_of (ars_files st) x)))"
  using assms
proof (induction dgs arbitrary: rep st)
  case Nil
  then show ?case by auto
next
  case (Cons dg dgs)
  let ?cat = "ars_catalog st"
  show ?case
  proof (cases "effective_policy ?cat dg")
    case (Inl e)
    with Cons.prems(3) show ?thesis by auto
  next
    case (Inr p)
    note ep = effective_policy_Inr[OF Inr]
    show ?thesis
    proof (cases "gc_expired ?cat dg now")
      case False
      with Cons.prems(3) Inr ep(4)[of now] have "gc_loop lib who now wall dgs rep st = (out, st')" by simp
      with Cons.IH[OF Cons.prems(1) _ this] Cons.prems(2) Inr False show ?thesis by (auto simp: collectable_def)
    next
      case expired: True
      obtain bs where bs: "deletion_blockers ?cat dg now = Inr bs" using Inr by (simp add: deletion_blockers_def)
      note db = deletion_blockers_Inr[OF bs]
      note step = Cons.prems(3)[unfolded gc_loop.simps Inr sum.case bs] 
      show ?thesis
      proof (cases "bs = []")
        case False
        with step expired ep(4)[of now] have "gc_loop lib who now wall dgs (rep\<lparr>gcr_blocked := AList.update dg bs (gcr_blocked rep)\<rparr>) st = (out, st')"
          by simp
        from Cons.IH[OF Cons.prems(1) _ this] Cons.prems(2) Inr False db show ?thesis by (auto simp: collectable_def)
      next
        case True
        obtain o1 st1 where d: "delete_digest lib dg who False False wall st = (o1, st1)" by fastforce
        have content: "case map_of (ars_files st) dg of None \<Rightarrow> True | Some data \<Rightarrow> lib_sha256 lib data = dg"
          using Cons.prems(1) by (auto simp: addressed_def split: option.splits)
        have gd: "if references ?cat dg wall = [] then is_ok o1 else o1 = Inl (PermissionError ''artifact deletion blocked by active references'')"
          using gc_delete[OF Inr _ _ content, where wall = wall and who = who] True db Cons.prems(2)
          unfolding d fst_conv by (metis list.set_intros(1))
        note fr = delete_digest_frame[OF d]
        have cat1: "effective_policy (ars_catalog st1) = effective_policy ?cat" "collectable (ars_catalog st1) = collectable ?cat"
          using effective_policy_congr[OF fr(1)] collectable_congr[OF fr(1,2)] by simp_all
        have ok: "dict_ok (ars_files st)" using Cons.prems(1) by (simp add: addressed_def)
        have files1: "map_of (ars_files st1) x = (if x = dg \<and> is_ok o1 then None else map_of (ars_files st) x)" for x
          using map_of_delete[OF ok] unfolding fr(6) by auto
        have addr1: "addressed lib st1"
          using Cons.prems(1) unfolding addressed_def files1 fr(6) by auto
        have "\<exists>rep'. gc_loop lib who now wall dgs rep' st1 = (out, st')"
          using step expired ep(4)[of now] True d gd by (auto split: if_splits sum.splits)
        then obtain rep' where "gc_loop lib who now wall dgs rep' st1 = (out, st')" by blast
        from Cons.IH[OF addr1 _ this] Cons.prems(2)
        have ih: "is_ok out \<longleftrightarrow> (\<forall>dg \<in> set dgs. is_ok (effective_policy ?cat dg))"
          "is_ok out \<Longrightarrow> map_of (ars_files st') x = (if x \<in> set dgs \<and> collectable ?cat now wall x then None else map_of (ars_files st1) x)" for x
          by (simp_all add: cat1)
        have c: "collectable ?cat now wall dg \<longleftrightarrow> is_ok o1"
          using gd True db expired by (auto simp: collectable_def split: if_splits)
        show ?thesis using ih Inr by (auto simp: files1 c)
      qed
    qed
  qed
qed

lemma registered_digests: "dg \<in> set (sorted_set (map art_sha256 (artifact_records cat None))) \<longleftrightarrow> registered cat dg"
  by (auto simp: artifact_records_def registered_def image_iff)

text \<open>
  C16. Garbage collection is exact. Let every stored file carry its digest as its name. A collection
  completes if and only if the policies of every registered artifact merge into a valid policy. When it
  completes, it has removed precisely the registered artifacts all of whose registrations allow
  collection, at least one of whose registrations has expired, and that no unexpired reference holds,
  neither at the collection time nor at the wall clock; every other artifact is still there, and the
  registrations and references are untouched.
\<close>

theorem gc_is_exact:
  assumes "addressed lib st" "\<forall>r \<in> set (cat_registrations (ars_catalog st)). hex_digest_ok (art_sha256 r)"
    "collect_garbage lib who now wall st = (out, st')"
  shows "(is_ok out \<longleftrightarrow> (\<forall>r \<in> set (cat_registrations (ars_catalog st)). is_ok (effective_policy (ars_catalog st) (art_sha256 r)))) \<and>
    (is_ok out \<longrightarrow> (\<forall>dg. map_of (ars_files st') dg =
       (if registered (ars_catalog st) dg \<and> collectable (ars_catalog st) now wall dg then None else map_of (ars_files st) dg)))"
proof -
  let ?dgs = "sorted_set (map art_sha256 (artifact_records (ars_catalog st) None))"
  note m = registered_digests
  have h: "\<forall>dg \<in> set ?dgs. hex_digest_ok dg" using assms(2) unfolding Ball_def m registered_def by auto
  have e: "(\<forall>dg \<in> set ?dgs. is_ok (effective_policy (ars_catalog st) dg)) \<longleftrightarrow>
     (\<forall>r \<in> set (cat_registrations (ars_catalog st)). is_ok (effective_policy (ars_catalog st) (art_sha256 r)))"
    unfolding Ball_def m by (auto simp: registered_def)
  show ?thesis
    using gc_loop_outcome[OF assms(1) h assms(3)[unfolded collect_garbage_def]] unfolding e m .
qed

section \<open>A concrete store\<close>

definition demo_pad :: "string \<Rightarrow> string" where
  "demo_pad s = s @ replicate (64 - length s) CHR ''0''"

definition demo_files_library :: library where
  "demo_files_library = \<lparr>lib_uuid5 = (\<lambda>s. s), lib_isoformat = (\<lambda>t. if t = 0 then ''z'' else ''t''),
     lib_json_dumps = (\<lambda>v. case v of JObj ((_, JStr a) # (_, JStr b) # _) \<Rightarrow> a @ b | JStr a \<Rightarrow> a | _ \<Rightarrow> []),
     lib_sha256 = demo_pad, lib_hmac_sha256 = (\<lambda>k s. k @ s),
     lib_model_dump = (\<lambda>v. case v of V_policy p \<Rightarrow> JStr (concat (apo_reason_codes p)) | _ \<Rightarrow> JNull)\<rparr>"

definition demo_budgets :: ArtifactBudgetPolicy where
  "demo_budgets = \<lparr>abp_node_max_objects = 4, abp_per_source_max_objects = 2, abp_per_source_max_bytes = 10,
     abp_per_incident_max_objects = 2, abp_per_incident_max_bytes = 10, abp_per_run_max_objects = 2,
     abp_per_run_max_bytes = 10, abp_per_candidate_max_objects = 2, abp_per_candidate_max_bytes = 10\<rparr>"

definition demo_scope :: ArtifactScope where
  "demo_scope = \<lparr>asc_source_id = Some ''cam'', asc_incident_id = None, asc_scenario_run_id = None, asc_release_candidate_id = None\<rparr>"

definition demo_store :: artifact_store where
  "demo_store = \<lparr>ars_files = [], ars_catalog = \<lparr>cat_budgets = demo_budgets, cat_registrations = [], cat_references = [], cat_gc_events = []\<rparr>,
     ars_max_bytes = 8, ars_reserve_bytes = 2, ars_forced_read_only = False, ars_last_failure = None\<rparr>"

definition demo_put :: "ArtifactPolicy \<Rightarrow> string \<Rightarrow> artifact_store \<Rightarrow> artifact_store" where
  "demo_put policy data st = snd (put_bytes demo_files_library None data ''text/plain'' False policy demo_scope 1 st)"

text \<open>One artifact registered for telemetry until time 5 and, by another component, without an expiry.\<close>

definition demo_shared :: artifact_store where
  "demo_shared = demo_put internal_operational ''ab'' (demo_put (telemetry_batch\<lparr>apo_retention_expires_at := Some 5\<rparr>) ''ab'' demo_store)"

theorem gc_is_exact_witness:
  "map_of (ars_files (snd (collect_garbage demo_files_library ''gc'' 6 6 demo_shared))) (demo_pad ''ab'') = None \<and>
   map_of (ars_files demo_shared) (demo_pad ''ab'') = Some ''ab'' \<and>
   map (\<lambda>r. apo_retention_expires_at (art_policy r)) (cat_registrations (ars_catalog demo_shared)) = [Some 5, None]"
proof -
  have facts: "ars_files demo_shared = [(demo_pad ''ab'', ''ab'')]"
    "map art_sha256 (cat_registrations (ars_catalog demo_shared)) = [demo_pad ''ab'', demo_pad ''ab'']"
    "map (\<lambda>r. apo_retention_expires_at (art_policy r)) (cat_registrations (ars_catalog demo_shared)) = [Some 5, None]"
    "hex_digest_ok (demo_pad ''ab'')" "lib_sha256 demo_files_library ''ab'' = demo_pad ''ab''"
    "list_all (\<lambda>r. is_ok (effective_policy (ars_catalog demo_shared) (art_sha256 r))) (cat_registrations (ars_catalog demo_shared))"
    "collectable (ars_catalog demo_shared) 6 6 (demo_pad ''ab'')" "registered (ars_catalog demo_shared) (demo_pad ''ab'')"
    by code_simp+
  have a: "addressed demo_files_library demo_shared" by (simp add: addressed_def facts dict_ok_def)
  have h: "\<forall>r \<in> set (cat_registrations (ars_catalog demo_shared)). hex_digest_ok (art_sha256 r)"
  proof -
    have "art_sha256 ` set (cat_registrations (ars_catalog demo_shared)) = {demo_pad ''ab''}"
      using arg_cong[OF facts(2), of set] by simp
    then show ?thesis using facts(4) by (metis image_eqI singletonD)
  qed
  obtain out st' where c: "collect_garbage demo_files_library ''gc'' 6 6 demo_shared = (out, st')" by fastforce
  show ?thesis using gc_is_exact[OF a h c] facts c by (simp add: list_all_iff)
qed

section \<open>Reachable stores\<close>

definition scope_within :: "catalog \<Rightarrow> scope_check \<Rightarrow> bool" where
  "scope_within cat c \<longleftrightarrow> (case c of (_, field, max_objects, max_bytes) \<Rightarrow>
     \<forall>value. fst (scope_usage cat field value) \<le> max_objects \<and> snd (scope_usage cat field value) \<le> max_bytes)"

definition budgets_kept :: "catalog \<Rightarrow> bool" where
  "budgets_kept cat \<longleftrightarrow> int (length (cat_registrations cat)) \<le> abp_node_max_objects (cat_budgets cat) \<and>
     (\<forall>c \<in> set (scope_checks (cat_budgets cat)). scope_within cat c)"

definition budgets_ok :: "ArtifactBudgetPolicy \<Rightarrow> bool" where
  "budgets_ok b \<longleftrightarrow> 0 < abp_node_max_objects b \<and> (\<forall>(_, _, n, m) \<in> set (scope_checks b). 0 < n \<and> 0 < m)"

definition store_inv :: "library \<Rightarrow> artifact_store \<Rightarrow> bool" where
  "store_inv lib st \<longleftrightarrow> addressed lib st \<and> used_bytes st \<le> ars_max_bytes st \<and> 0 \<le> ars_reserve_bytes st \<and>
     distinct (map art_registration_id (cat_registrations (ars_catalog st))) \<and> budgets_kept (ars_catalog st)"

inductive art_step :: "library \<Rightarrow> artifact_store \<Rightarrow> artifact_store \<Rightarrow> bool" for lib where
  as_put: "art_step lib st (snd (put_bytes lib fault data media critical policy scope now st))"
| as_delete: "art_step lib st (snd (delete_digest lib dg who tomb force now st))"
| as_collect: "art_step lib st (snd (collect_garbage lib who now wall st))"
| as_read_only: "art_step lib st (set_read_only b st)"
| as_reference: "add_reference lib dg kind owner why expires now (ars_catalog st) = Inr (r, cat) \<Longrightarrow> art_step lib st (st\<lparr>ars_catalog := cat\<rparr>)"
| as_unreference: "art_step lib st (st\<lparr>ars_catalog := remove_reference rid (ars_catalog st)\<rparr>)"

inductive art_reachable :: "library \<Rightarrow> artifact_store \<Rightarrow> bool" for lib where
  ar_init: "artifact_store_init b max_bytes reserve = Inr st \<Longrightarrow> budgets_ok b \<Longrightarrow> art_reachable lib st"
| ar_step: "art_reachable lib st \<Longrightarrow> art_step lib st st' \<Longrightarrow> art_reachable lib st'"

lemma run_scope_checks_ok:
  "run_scope_checks cat scope n cs = Inr u \<Longrightarrow> (name, field, mo, mb) \<in> set cs \<Longrightarrow> field scope = Some v \<Longrightarrow>
     fst (scope_usage cat field v) + 1 \<le> mo \<and> snd (scope_usage cat field v) + n \<le> mb"
  by (induction cat scope n cs rule: run_scope_checks.induct) (auto split: option.splits if_splits prod.splits)

lemma register_artifact_kept:
  assumes "register_artifact lib dg path n media policy scope critical t cat = Inr (r, cat')"
    and kept: "budgets_kept cat" and d: "distinct (map art_registration_id (cat_registrations cat))"
  shows "budgets_kept cat' \<and> distinct (map art_registration_id (cat_registrations cat'))"
proof (cases "find (\<lambda>x. art_registration_id x = registration_id_of lib dg policy scope critical) (cat_registrations cat)")
  case (Some a)
  then show ?thesis using assms by (auto simp: register_artifact_def Let_def split: if_splits)
next
  case None
  then have c: "check_scope_budget cat scope n = Inr ()" "cat' = cat\<lparr>cat_registrations := cat_registrations cat @ [r]\<rparr>"
    "art_registration_id r = registration_id_of lib dg policy scope critical" "art_scope r = scope" "art_bytes r = n" "0 \<le> n"
    using assms(1) by (auto simp: register_artifact_def Let_def bind_result_Inr split: if_splits)
  have "art_registration_id r \<notin> set (map art_registration_id (cat_registrations cat))"
    using None c(3) by (auto simp: find_None_iff)
  moreover have "scope_within cat' k" if k: "k \<in> set (scope_checks (cat_budgets cat))" for k
  proof -
    obtain name field mo mb where k': "k = (name, field, mo, mb)" by (cases k)
    have u: "scope_usage cat' field v = (if field scope = Some v then (fst (scope_usage cat field v) + 1, snd (scope_usage cat field v) + n)
        else scope_usage cat field v)" for v
      by (simp add: scope_usage_def c Let_def)
    have "run_scope_checks cat scope n (scope_checks (cat_budgets cat)) = Inr ()" using c(1) by (auto simp: check_scope_budget_def split: if_splits)
    from run_scope_checks_ok[OF this k[unfolded k']] kept k k'
    show ?thesis by (auto simp: scope_within_def budgets_kept_def u)
  qed
  ultimately show ?thesis using c d by (auto simp: budgets_kept_def check_scope_budget_def split: if_splits)
qed

lemma register_artifact_budgets:
  "register_artifact lib dg path n media policy scope critical t cat = Inr (r, cat') \<Longrightarrow> cat_budgets cat' = cat_budgets cat"
  by (auto simp: register_artifact_def Let_def bind_result_Inr split: if_splits option.splits)

lemma register_in_inv:
  assumes "store_inv lib st"
  shows "store_inv lib (snd (register_in lib dg n media policy scope critical t st))"
  using assms register_artifact_kept
  by (force simp: register_in_def store_inv_def addressed_def used_bytes_def split: sum.splits)

lemma bytes_update:
  "map_of d k = None \<Longrightarrow> sum_list (map (\<lambda>(_, x). byte_count x) (AList.update k v d)) = sum_list (map (\<lambda>(_, x). byte_count x) d) + byte_count v"
  by (induction d) (auto split: if_splits)

lemma bytes_delete: "sum_list (map (\<lambda>(_, x). byte_count x) (AList.delete k d)) \<le> sum_list (map (\<lambda>(_, x). byte_count x) d)"
  by (induction d) (auto simp: byte_count_def)

lemma store_inv_put:
  assumes "store_inv lib st"
  shows "store_inv lib (snd (put_bytes lib fault data media critical policy scope t st))"
proof -
  let ?dg = "lib_sha256 lib data"
  let ?st1 = "st\<lparr>ars_files := AList.update ?dg data (ars_files st)\<rparr>"
  have same: "store_inv lib (st\<lparr>ars_last_failure := x\<rparr>)" for x
    using assms by (simp add: store_inv_def addressed_def used_bytes_def)
  have "store_inv lib ?st1" if "map_of (ars_files st) ?dg = None"
    "used_bytes st + byte_count data \<le> (if critical then ars_max_bytes st else ars_max_bytes st - ars_reserve_bytes st)"
    using assms that by (auto simp: store_inv_def addressed_def used_bytes_def bytes_update update_conv' split: if_splits)
  then show ?thesis
    using assms same register_in_inv by (auto simp: put_bytes_def Let_def split: option.splits)
qed

lemma store_inv_delete:
  assumes "store_inv lib st" "delete_digest lib dg who tomb force wall st = (out, st')"
  shows "store_inv lib st'"
proof -
  note fr = delete_digest_frame[OF assms(2)]
  have "budgets_kept (ars_catalog st') = budgets_kept (ars_catalog st)"
    by (simp add: budgets_kept_def scope_within_def scope_usage_def fr(1,3))
  moreover have "used_bytes st' \<le> used_bytes st" using bytes_delete[of dg "ars_files st"] by (simp add: used_bytes_def fr(6))
  moreover have "addressed lib st'"
    using assms(1) by (auto simp: store_inv_def addressed_def fr(6) map_of_delete split: if_splits)
  ultimately show ?thesis using assms(1) by (simp add: store_inv_def fr)
qed

lemma store_inv_gc:
  "store_inv lib st \<Longrightarrow> store_inv lib (snd (gc_loop lib who now wall dgs rep st))"
proof (induction dgs arbitrary: rep st)
  case (Cons dg dgs)
  have "store_inv lib st'" if "delete_digest lib dg who False False wall st = (out, st')" for out st'
    using store_inv_delete[OF Cons.prems that] .
  with Cons show ?case by (auto split: sum.splits py_exn.splits prod.splits)
qed simp

lemma scope_checks_pos: "budgets_ok b \<Longrightarrow> (name, field, n, m) \<in> set (scope_checks b) \<Longrightarrow> 0 < n \<and> 0 < m"
  unfolding budgets_ok_def by fastforce

lemma art_reachable_inv: "art_reachable lib st \<Longrightarrow> store_inv lib st"
proof (induction rule: art_reachable.induct)
  case (ar_init b max_bytes reserve st)
  have "scope_within (ars_catalog st) c" if "c \<in> set (scope_checks b)" for c
    using ar_init scope_checks_pos[OF ar_init(2)] that
    by (cases c) (auto simp: scope_within_def scope_usage_def artifact_store_init_def Let_def less_imp_le split: if_splits)
  then show ?case using ar_init
    by (auto simp: artifact_store_init_def store_inv_def addressed_def used_bytes_def budgets_kept_def budgets_ok_def split: if_splits)
next
  case (ar_step st st')
  have cat: "store_inv lib (st\<lparr>ars_catalog := cat\<rparr>)"
    if "cat_registrations cat = cat_registrations (ars_catalog st)" "cat_budgets cat = cat_budgets (ars_catalog st)" for cat
    using ar_step(3) that
    by (simp add: store_inv_def addressed_def used_bytes_def budgets_kept_def scope_within_def scope_usage_def)
  from ar_step(2) show ?case
  proof cases
    case (as_delete dg who tomb force now)
    then show ?thesis using store_inv_delete[OF ar_step(3)] by (metis prod.collapse)
  next
    case (as_read_only b)
    then show ?thesis using ar_step(3) by (simp add: set_read_only_def store_inv_def addressed_def used_bytes_def)
  next
    case (as_reference dg kind owner why expires now r c)
    then show ?thesis using cat
      by (auto simp: add_reference_def Let_def bind_result_Inr split: if_splits option.splits)
  qed (use ar_step(3) cat store_inv_put store_inv_gc in \<open>auto simp: collect_garbage_def remove_reference_def\<close>)
qed

text \<open>
  C7. In every state the store can reach, whatever sequence of writes, deletions, collections, references
  and failures led there: every file carries its own digest as its name; the bytes on disk stay within
  the capacity; no two registrations share an identifier; the number of registrations stays within the
  node budget; and for each source, incident, scenario run and release candidate the number and the total
  size of its registrations stay within the budget of its kind.
\<close>

theorem store_budgets_hold:
  assumes "art_reachable lib st"
  shows "(\<forall>dg data. map_of (ars_files st) dg = Some data \<longrightarrow> lib_sha256 lib data = dg) \<and>
    used_bytes st \<le> ars_max_bytes st \<and>
    distinct (map art_registration_id (cat_registrations (ars_catalog st))) \<and>
    int (length (cat_registrations (ars_catalog st))) \<le> abp_node_max_objects (cat_budgets (ars_catalog st)) \<and>
    (\<forall>(_, field, max_objects, max_bytes) \<in> set (scope_checks (cat_budgets (ars_catalog st))). \<forall>value.
       fst (scope_usage (ars_catalog st) field value) \<le> max_objects \<and> snd (scope_usage (ars_catalog st) field value) \<le> max_bytes)"
  using art_reachable_inv[OF assms] unfolding store_inv_def budgets_kept_def scope_within_def addressed_def by blast

lemma demo_shared_reachable: "art_reachable demo_files_library demo_shared"
proof -
  have "artifact_store_init demo_budgets 8 2 = Inr demo_store" "budgets_ok demo_budgets"
    by (simp_all add: artifact_store_init_def demo_store_def demo_budgets_def budgets_ok_def scope_checks_def)
  then have "art_reachable demo_files_library demo_store" by (rule ar_init)
  then show ?thesis unfolding demo_shared_def demo_put_def by (blast intro: ar_step as_put)
qed

theorem store_budgets_hold_witness:
  "used_bytes demo_shared \<le> 8 \<and> scope_usage (ars_catalog demo_shared) asc_source_id ''cam'' = (2, 4) \<and>
   fst (put_bytes demo_files_library None ''abc'' ''text/plain'' False internal_operational demo_scope 1 demo_shared)
     = Inl (OSError ''artifact source_id object-count budget exceeded'')"
proof -
  have "ars_max_bytes demo_shared = 8" by code_simp
  moreover have "scope_usage (ars_catalog demo_shared) asc_source_id ''cam'' = (2, 4)" by code_simp
  moreover have "fst (put_bytes demo_files_library None ''abc'' ''text/plain'' False internal_operational demo_scope 1 demo_shared)
     = Inl (OSError ''artifact source_id object-count budget exceeded'')" by code_simp
  ultimately show ?thesis using store_budgets_hold[OF demo_shared_reachable] by simp
qed

section \<open>Round trip\<close>

text \<open>What was stored is read back: after a successful write, in every later state in which the file has
  not been removed, reading the returned digest gives exactly the bytes that were written, provided
  SHA-256 has no collision on them; the reference states their length.
\<close>

theorem put_read_round_trip:
  assumes "art_reachable lib st" "put_bytes lib fault data media critical policy scope t st = (Inr r, st1)"
    "lower_hex_digest (lib_sha256 lib data)" "\<And>other. lib_sha256 lib other = lib_sha256 lib data \<Longrightarrow> other = data"
    "(art_step lib)\<^sup>*\<^sup>* st1 st2" "map_of (ars_files st2) (ref_sha256 r) \<noteq> None"
  shows "read_bytes lib (ref_sha256 r) st1 = Inr data \<and> read_bytes lib (ref_sha256 r) st2 = Inr data \<and> ref_bytes r = byte_count data"
proof -
  have r1: "art_reachable lib st1" using ar_step[OF assms(1) as_put] assms(2) by (metis snd_conv)
  have r2: "art_reachable lib st2" using assms(5) r1 by (induction rule: rtranclp_induct) (auto intro: ar_step)
  have sha: "ref_sha256 r = lib_sha256 lib data"
    using assms(2) by (auto simp: put_bytes_def register_in_def Let_def split: if_splits option.splits sum.splits)
  have read: "read_bytes lib (ref_sha256 r) s = Inr data" if "art_reachable lib s" "map_of (ars_files s) (ref_sha256 r) \<noteq> None" for s
    using art_reachable_inv[OF that(1)] that(2) assms(3,4) by (auto simp: store_inv_def addressed_def read_bytes_def sha)
  have "map_of (ars_files st1) (ref_sha256 r) \<noteq> None \<and> ref_bytes r = byte_count data"
    using assms(2) assms(4) [of "the (map_of (ars_files st) (lib_sha256 lib data))"]
    by (auto simp: put_bytes_def register_in_def Let_def update_conv' split: if_splits option.splits sum.splits)
  then show ?thesis using read r1 r2 assms(6) by blast
qed

theorem put_read_round_trip_witness:
  "\<exists>lib r. put_bytes lib None ''ab'' ''text/plain'' True internal_operational demo_scope 1 demo_store = (Inr r, snd (put_bytes lib None ''ab'' ''text/plain'' True internal_operational demo_scope 1 demo_store)) \<and>
     read_bytes lib (ref_sha256 r) (snd (put_bytes lib None ''ab'' ''text/plain'' True internal_operational demo_scope 1 demo_store)) = Inr ''ab''"
proof -
  define lib where "lib = demo_files_library\<lparr>lib_sha256 := \<lambda>s. if s = ''ab'' then replicate 64 CHR ''a'' else replicate 64 CHR ''b''\<rparr>"
  let ?put = "put_bytes lib None ''ab'' ''text/plain'' True internal_operational demo_scope 1 demo_store"
  have "artifact_store_init demo_budgets 8 2 = Inr demo_store" "budgets_ok demo_budgets"
    by (simp_all add: artifact_store_init_def demo_store_def demo_budgets_def budgets_ok_def scope_checks_def)
  then have start: "art_reachable lib demo_store" by (rule ar_init)
  have facts: "is_ok (fst ?put)" "map_of (ars_files (snd ?put)) (replicate 64 CHR ''a'') \<noteq> None"
    "map_sum (\<lambda>_. ()) ref_sha256 (fst ?put) = Inr (replicate 64 CHR ''a'')" "lower_hex_digest (replicate 64 CHR ''a'')"
    unfolding lib_def by code_simp+
  then obtain r where r: "?put = (Inr r, snd ?put)" "ref_sha256 r = replicate 64 CHR ''a''"
    by (cases "fst ?put") (auto simp: prod_eq_iff)
  have hash: "lib_sha256 lib ''ab'' = replicate 64 CHR ''a''" "lib_sha256 lib x = lib_sha256 lib ''ab'' \<Longrightarrow> x = ''ab''" for x
    by (auto simp: lib_def numeral_eq_Suc split: if_splits)
  show ?thesis
    using put_read_round_trip[OF start r(1) _ hash(2) rtranclp.rtrancl_refl] facts r hash(1) by (metis (no_types))
qed

section \<open>Mixed retention\<close>

lemma first_max_ge: "y \<in> set (x # ys) \<Longrightarrow> f y \<le> f (first_max f x ys)"
  by (induction f x ys arbitrary: y rule: first_max.induct) (fastforce split: if_splits)+

lemma retention_top: "retention_index AR_LEGAL_HOLD \<le> retention_index r \<Longrightarrow> r = AR_LEGAL_HOLD"
  by (cases r) auto

text \<open>
  Two registrations that are both valid on their own can block all collection: if one registration of
  an artifact is under legal hold and another carries an expiry, the merged policy is rejected, and the
  collection of the whole store raises at or before that artifact.
\<close>

theorem mixed_hold_stops_collection:
  assumes "addressed lib st" "\<forall>r \<in> set (cat_registrations (ars_catalog st)). hex_digest_ok (art_sha256 r)"
    "r1 \<in> set (cat_registrations (ars_catalog st))" "r2 \<in> set (cat_registrations (ars_catalog st))" "art_sha256 r1 = art_sha256 r2"
    "apo_retention (art_policy r1) = AR_LEGAL_HOLD" "apo_retention_expires_at (art_policy r2) = Some e"
  shows "\<not> is_ok (fst (collect_garbage lib who now wall st))"
proof -
  let ?cat = "ars_catalog st"
  let ?ps = "map art_policy (artifact_records ?cat (Some (art_sha256 r1)))"
  have mem: "art_policy r1 \<in> set ?ps" "art_policy r2 \<in> set ?ps" using assms(3-5) by (auto simp: artifact_records_mem)
  then have ne: "?ps = hd ?ps # tl ?ps" by (metis hd_Cons_tl list.set(1) empty_iff)
  have "apo_retention (merged_policy ?ps) = AR_LEGAL_HOLD"
    using first_max_ge[of "art_policy r1" "hd ?ps" "tl ?ps" "\<lambda>p. retention_index (apo_retention p)"] mem(1) ne assms(6)
    by (simp add: merged_policy_def Let_def retention_top del: retention_index.simps)
  moreover have "apo_retention_expires_at (merged_policy ?ps) \<noteq> None"
    using mem(2) assms(7) by (force simp: merged_policy_def Let_def List.map_filter_def filter_empty_conv)
  ultimately have "\<not> is_ok (effective_policy ?cat (art_sha256 r1))"
    by (simp add: effective_policy_def Let_def ArtifactPolicy_init_def validate_policy_def)
  moreover have "\<forall>dg \<in> set (sorted_set (map art_sha256 (artifact_records ?cat None))). hex_digest_ok dg"
    using assms(2) unfolding Ball_def registered_digests registered_def by auto
  moreover have "art_sha256 r1 \<in> set (sorted_set (map art_sha256 (artifact_records ?cat None)))"
    unfolding registered_digests registered_def using assms(3) by blast
  ultimately show ?thesis
    using gc_loop_outcome[OF assms(1) _ surjective_pairing] unfolding collect_garbage_def by blast
qed

text \<open>A legal hold and a telemetry registration with an expiry on the same bytes.\<close>

end
