(* ===== verification/Spool.thy ===== *)
theory Spool
  imports Library_Model Floats
begin

text \<open>
  The persistent bounded spool for analyses that arrive while the incident authority is unavailable
  (\<^verbatim>\<open>CriticalAnalysisSpool\<close> of \<^verbatim>\<open>src/src/sentinel_edge/storage/spool.py\<close>), and the capability matrix of
  \<^verbatim>\<open>src/src/sentinel_edge/operations/capabilities.py\<close>.

  The two tables are lists of rows; an \<^verbatim>\<open>AUTOINCREMENT\<close> column is a counter in the state. The text of a
  payload is written by \<^verbatim>\<open>model_dump_json\<close> and read by \<^verbatim>\<open>model_validate_json\<close>: the two functions are the
  \<open>codec\<close> argument. A row keeps its times as values; \<^verbatim>\<open>metrics\<close>, which compares their text, formats them.
\<close>

record analysis_codec =
  cod_dump :: "AnalysisResult \<Rightarrow> string"
  cod_load :: "string \<Rightarrow> AnalysisResult result"

record pending_row =
  pen_sequence :: int
  pen_analysis_id :: uuid
  pen_hazard :: HazardKind
  pen_enqueued_at :: datetime
  pen_expires_at :: datetime
  pen_payload_json :: string
  pen_payload_bytes :: int

record spool_event =
  spe_event_id :: int
  spe_analysis_id :: uuid
  spe_status :: string
  spe_recorded_at :: datetime
  spe_reason :: "string option"
  spe_payload_bytes :: int

record spool =
  spl_max_items :: int
  spl_max_bytes :: int
  spl_max_age_seconds :: int
  spl_next_sequence :: int
  spl_pending :: "pending_row list"
  spl_events :: "spool_event list"

record SpoolMetrics =
  spm_pending_items :: int
  spm_pending_bytes :: int
  spm_maximum_items :: int
  spm_maximum_bytes :: int
  spm_oldest_age_seconds :: pyfloat
  spm_expired_items :: int
  spm_exhausted :: bool

definition spool_init :: "int \<Rightarrow> int \<Rightarrow> int \<Rightarrow> spool result" where
  "spool_init max_items max_bytes max_age_seconds =
     (if max_items \<le> 0 \<or> max_bytes \<le> 0 \<or> max_age_seconds \<le> 0 then Inl (ValueError ''spool bounds must be positive'')
      else Inr \<lparr>spl_max_items = max_items, spl_max_bytes = max_bytes, spl_max_age_seconds = max_age_seconds,
        spl_next_sequence = 1, spl_pending = [], spl_events = []\<rparr>)"

definition spool_counts :: "spool \<Rightarrow> int \<times> int" where
  "spool_counts sp = (int (length (spl_pending sp)), sum_list (map pen_payload_bytes (spl_pending sp)))"

definition log_event :: "uuid \<Rightarrow> string \<Rightarrow> datetime \<Rightarrow> string option \<Rightarrow> int \<Rightarrow> spool \<Rightarrow> spool" where
  "log_event aid status t reason n sp =
     sp\<lparr>spl_events := spl_events sp @ [\<lparr>spe_event_id = int (length (spl_events sp)) + 1, spe_analysis_id = aid,
       spe_status = status, spe_recorded_at = t, spe_reason = reason, spe_payload_bytes = n\<rparr>]\<rparr>"

definition insert_pending :: "pending_row \<Rightarrow> spool \<Rightarrow> spool" where
  "insert_pending row sp =
     sp\<lparr>spl_pending := spl_pending sp @ [row\<lparr>pen_sequence := spl_next_sequence sp\<rparr>],
        spl_next_sequence := spl_next_sequence sp + 1\<rparr>"

definition enqueue :: "analysis_codec \<Rightarrow> AnalysisResult \<Rightarrow> datetime \<Rightarrow> spool \<Rightarrow> bool result \<times> spool" where
  "enqueue codec a enqueued_at sp =
     (let payload = cod_dump codec a;
          payload_bytes = utf8_length payload;
          expires_at = enqueued_at + spl_max_age_seconds sp * 1000000
      in case find (\<lambda>r. pen_analysis_id r = ana_analysis_id a) (spl_pending sp) of
           Some existing \<Rightarrow>
             if pen_payload_json existing \<noteq> payload then (Inl (ValueError ''analysis spool identity conflict''), sp)
             else (Inr False, sp)
         | None \<Rightarrow>
             let (items, total_bytes) = spool_counts sp;
                 exhausted = (spl_max_items sp < items + 1 \<or> spl_max_bytes sp < total_bytes + payload_bytes);
                 sp1 = (if exhausted
                   then log_event (ana_analysis_id a) ''rejected'' enqueued_at (Some ''spool_exhausted'') payload_bytes sp
                   else insert_pending \<lparr>pen_sequence = 0, pen_analysis_id = ana_analysis_id a, pen_hazard = ana_hazard a,
                     pen_enqueued_at = enqueued_at, pen_expires_at = expires_at, pen_payload_json = payload,
                     pen_payload_bytes = payload_bytes\<rparr> sp);
                 sp2 = log_event (ana_analysis_id a) ''enqueued'' enqueued_at None payload_bytes sp1
             in (if exhausted then Inl (SpoolExhaustedError ''critical analysis spool exhausted'') else Inr True, sp2))"

definition pending_rows :: "spool \<Rightarrow> pending_row list" where
  "pending_rows sp = sort_key pen_sequence (spl_pending sp)"

fun load_all :: "analysis_codec \<Rightarrow> pending_row list \<Rightarrow> AnalysisResult list result" where
  "load_all codec [] = Inr []"
| "load_all codec (r # rs) =
     bind_result (cod_load codec (pen_payload_json r)) (\<lambda>a. bind_result (load_all codec rs) (\<lambda>rest. Inr (a # rest)))"

definition pending :: "analysis_codec \<Rightarrow> spool \<Rightarrow> AnalysisResult list result" where
  "pending codec sp = load_all codec (pending_rows sp)"

definition delete_pending :: "uuid \<Rightarrow> spool \<Rightarrow> spool" where
  "delete_pending aid sp = sp\<lparr>spl_pending := filter (\<lambda>r. pen_analysis_id r \<noteq> aid) (spl_pending sp)\<rparr>"

type_synonym ('r, 's) handler = "AnalysisResult \<Rightarrow> 's \<Rightarrow> 'r result \<times> 's"

fun drain_loop :: "analysis_codec \<Rightarrow> ('r, 's) handler \<Rightarrow> datetime \<Rightarrow> pending_row list \<Rightarrow> uuid list \<Rightarrow> spool \<Rightarrow> 's \<Rightarrow>
    uuid list result \<times> spool \<times> 's" where
  "drain_loop codec h now [] delivered sp s = (Inr delivered, sp, s)"
| "drain_loop codec h now (row # rows) delivered sp s =
     (case cod_load codec (pen_payload_json row) of
        Inl e \<Rightarrow> (Inl e, sp, s)
      | Inr a \<Rightarrow>
          if pen_expires_at row \<le> now
          then (Inr delivered, log_event (ana_analysis_id a) ''expired'' now (Some ''maximum_age_exceeded'') (pen_payload_bytes row) sp, s)
          else (case h a s of
             (Inl exc, s') \<Rightarrow>
               (Inr delivered, log_event (ana_analysis_id a) ''delivery_failed'' now (Some (exn_name exc)) (pen_payload_bytes row) sp, s')
           | (Inr _, s') \<Rightarrow>
               drain_loop codec h now rows (delivered @ [ana_analysis_id a])
                 (log_event (ana_analysis_id a) ''delivered'' now None (pen_payload_bytes row)
                   (delete_pending (ana_analysis_id a) sp)) s'))"

definition drain :: "analysis_codec \<Rightarrow> ('r, 's) handler \<Rightarrow> datetime \<Rightarrow> spool \<Rightarrow> 's \<Rightarrow> uuid list result \<times> spool \<times> 's" where
  "drain codec h now sp s = drain_loop codec h now (pending_rows sp) [] sp s"

definition oldest_row :: "library \<Rightarrow> spool \<Rightarrow> pending_row option" where
  "oldest_row lib sp = (case sort_key (\<lambda>r. lib_isoformat lib (pen_enqueued_at r)) (spl_pending sp) of
     [] \<Rightarrow> None | r # _ \<Rightarrow> Some r)"

definition metrics :: "library \<Rightarrow> datetime \<Rightarrow> spool \<Rightarrow> SpoolMetrics" where
  "metrics lib now sp =
     (let (items, total_bytes) = spool_counts sp
      in \<lparr>spm_pending_items = items, spm_pending_bytes = total_bytes,
          spm_maximum_items = spl_max_items sp, spm_maximum_bytes = spl_max_bytes sp,
          spm_oldest_age_seconds = (case oldest_row lib sp of None \<Rightarrow> 0
            | Some r \<Rightarrow> max 0 (f64 (of_int (now - pen_enqueued_at r) / 1000000))),
          spm_expired_items = int (length (filter (\<lambda>r. lib_isoformat lib (pen_expires_at r) \<le> lib_isoformat lib now) (spl_pending sp))),
          spm_exhausted = (spl_max_items sp \<le> items \<or> spl_max_bytes sp \<le> total_bytes)\<rparr>)"

section \<open>The capability matrix\<close>

record CapabilityRecord =
  cap_capability_id :: string
  cap_state :: HealthState
  cap_consequence :: string
  cap_reason_codes :: "string list"

type_synonym matrix = "(string, CapabilityRecord) dict"

definition capability_defaults :: "(string, string) dict" where
  "capability_defaults =
     [(''acquisition'', ''local observations can be accepted and durably watermarked''),
      (''analysis'', ''hazard observations can be interpreted''),
      (''runtime'', ''workloads can be admitted and scheduled''),
      (''incident_authority'', ''incident lifecycle can be updated and recovered''),
      (''api'', ''supported client projections can be served''),
      (''evidence'', ''evidence artifacts can be persisted and verified'')]"

definition matrix_init :: matrix where
  "matrix_init = map (\<lambda>(k, v). (k, \<lparr>cap_capability_id = k, cap_state = HS_HEALTHY, cap_consequence = v, cap_reason_codes = []\<rparr>))
     capability_defaults"

definition set_capability :: "string \<Rightarrow> HealthState \<Rightarrow> string list \<Rightarrow> matrix \<Rightarrow> matrix result" where
  "set_capability cid state reasons m =
     (case map_of m cid of
        None \<Rightarrow> Inl (KeyError cid)
      | Some current \<Rightarrow> Inr (AList.update cid (current\<lparr>cap_state := state, cap_reason_codes := sorted_set reasons\<rparr>) m))"

definition capability_records :: "matrix \<Rightarrow> CapabilityRecord list" where
  "capability_records m = List.map_filter (map_of m) (sort (map fst m))"

definition overall :: "matrix \<Rightarrow> HealthState" where
  "overall m =
     (let states = map (cap_state \<circ> snd) m
      in if HS_FAILED \<in> set states then HS_FAILED
         else if HS_DEGRADED \<in> set states \<or> HS_STALE \<in> set states \<or> HS_UNKNOWN \<in> set states then HS_DEGRADED
         else HS_HEALTHY)"

end
