(* ===== verification/Spool_Claims.thy ===== *)
theory Spool_Claims
  imports Spool Engine_Claims
begin

text \<open>
  The spool: bounds and order in every reachable state, nothing lost silently, exactly what a drain
  delivers, and how a full spool refuses.
\<close>

section \<open>Reachable spools\<close>

text \<open>Reading the payload of \<open>a\<close> gives \<open>a\<close> back.\<close>

definition codec_ok :: "analysis_codec \<Rightarrow> AnalysisResult \<Rightarrow> bool" where
  "codec_ok codec a \<longleftrightarrow> cod_load codec (cod_dump codec a) = Inr a"

definition row_ok :: "analysis_codec \<Rightarrow> int \<Rightarrow> pending_row \<Rightarrow> bool" where
  "row_ok codec age r \<longleftrightarrow> (\<exists>a. cod_load codec (pen_payload_json r) = Inr a \<and> pen_analysis_id r = ana_analysis_id a) \<and>
     pen_payload_bytes r = utf8_length (pen_payload_json r) \<and> pen_expires_at r = pen_enqueued_at r + age * 1000000"

definition spool_inv :: "analysis_codec \<Rightarrow> spool \<Rightarrow> bool" where
  "spool_inv codec sp \<longleftrightarrow>
     int (length (spl_pending sp)) \<le> spl_max_items sp \<and> sum_list (map pen_payload_bytes (spl_pending sp)) \<le> spl_max_bytes sp \<and>
     distinct (map pen_analysis_id (spl_pending sp)) \<and>
     sorted_wrt (\<lambda>r r'. pen_sequence r < pen_sequence r') (spl_pending sp) \<and>
     (\<forall>r \<in> set (spl_pending sp). pen_sequence r < spl_next_sequence sp \<and> row_ok codec (spl_max_age_seconds sp) r)"

text \<open>
  A run of the spool against a delivery handler: the state of the handler is part of the state, and its
  owner may change it at any time.
\<close>

inductive spool_step :: "analysis_codec \<Rightarrow> ('r, 's) handler \<Rightarrow> spool \<times> 's \<Rightarrow> spool \<times> 's \<Rightarrow> bool" for codec h where
  ss_enqueue: "codec_ok codec a \<Longrightarrow> spool_step codec h (sp, s) (snd (enqueue codec a t sp), s)"
| ss_drain: "drain codec h now sp s = (out, sp', s') \<Longrightarrow> spool_step codec h (sp, s) (sp', s')"
| ss_owner: "spool_step codec h (sp, s) (sp, s')"

inductive spool_reachable :: "analysis_codec \<Rightarrow> ('r, 's) handler \<Rightarrow> spool \<times> 's \<Rightarrow> bool" for codec h where
  sr_init: "spool_init n m age = Inr sp \<Longrightarrow> spool_reachable codec h (sp, s)"
| sr_step: "spool_reachable codec h x \<Longrightarrow> spool_step codec h x y \<Longrightarrow> spool_reachable codec h y"

lemma log_event_frame [simp]:
  "spl_pending (log_event a st t r n sp) = spl_pending sp" "spl_max_items (log_event a st t r n sp) = spl_max_items sp"
  "spl_max_bytes (log_event a st t r n sp) = spl_max_bytes sp" "spl_max_age_seconds (log_event a st t r n sp) = spl_max_age_seconds sp"
  "spl_next_sequence (log_event a st t r n sp) = spl_next_sequence sp"
  by (simp_all add: log_event_def)

lemma delete_pending_frame [simp]:
  "spl_max_items (delete_pending a sp) = spl_max_items sp" "spl_max_bytes (delete_pending a sp) = spl_max_bytes sp"
  "spl_max_age_seconds (delete_pending a sp) = spl_max_age_seconds sp" "spl_next_sequence (delete_pending a sp) = spl_next_sequence sp"
  "spl_events (delete_pending a sp) = spl_events sp"
  by (simp_all add: delete_pending_def)

lemma spool_inv_log [simp]: "spool_inv codec (log_event a st t r n sp) = spool_inv codec sp"
  by (simp add: spool_inv_def)

lemma pending_rows_id: "spool_inv codec sp \<Longrightarrow> pending_rows sp = spl_pending sp"
  unfolding pending_rows_def
  by (rule sort_key_id_if_sorted) (auto simp: spool_inv_def sorted_map intro: sorted_wrt_mono_rel[of _ "\<lambda>r r'. pen_sequence r < pen_sequence r'"])

lemma spool_inv_enqueue:
  assumes "spool_inv codec sp" "codec_ok codec a"
  shows "spool_inv codec (snd (enqueue codec a t sp))"
proof (cases "find (\<lambda>r. pen_analysis_id r = ana_analysis_id a) (spl_pending sp)")
  case (Some r)
  then show ?thesis using assms by (simp add: enqueue_def Let_def)
next
  case None
  let ?n = "utf8_length (cod_dump codec a)"
  show ?thesis
  proof (cases "spl_max_items sp < int (length (spl_pending sp)) + 1 \<or> spl_max_bytes sp < sum_list (map pen_payload_bytes (spl_pending sp)) + ?n")
    case True
    then show ?thesis using assms None by (simp add: enqueue_def Let_def spool_counts_def)
  next
    case False
    moreover have "ana_analysis_id a \<notin> set (map pen_analysis_id (spl_pending sp))" using None by (auto simp: find_None_iff)
    ultimately show ?thesis using assms None
      by (auto simp: enqueue_def Let_def spool_counts_def insert_pending_def spool_inv_def sorted_wrt_append row_ok_def codec_ok_def)
  qed
qed

section \<open>Draining\<close>

fun run_all :: "('r, 's) handler \<Rightarrow> AnalysisResult list \<Rightarrow> 's \<Rightarrow> 's option" where
  "run_all h [] s = Some s"
| "run_all h (a # as) s = (case h a s of (Inl _, _) \<Rightarrow> None | (Inr _, s') \<Rightarrow> run_all h as s')"

text \<open>How a drain of \<open>as\<close> with expiries \<open>es\<close> ends after \<open>k\<close> deliveries.\<close>

definition drain_ends :: "('r, 's) handler \<Rightarrow> datetime \<Rightarrow> AnalysisResult list \<Rightarrow> datetime list \<Rightarrow> 's \<Rightarrow> nat \<Rightarrow> 's \<Rightarrow> bool" where
  "drain_ends h now as es s k s' \<longleftrightarrow> k \<le> length as \<and> (\<forall>i < k. now < es ! i) \<and>
     (\<exists>s1. run_all h (take k as) s = Some s1 \<and>
        (if k = length as \<or> es ! k \<le> now then s' = s1 else \<exists>exc. h (as ! k) s1 = (Inl exc, s')))"

lemma drain_ends_Suc:
  "drain_ends h now (a # as) (e # es) s (Suc k) s' \<longleftrightarrow> now < e \<and> (\<exists>r s1. h a s = (Inr r, s1) \<and> drain_ends h now as es s1 k s')"
  by (auto simp: drain_ends_def All_less_Suc2 split: prod.splits sum.splits)

lemma log_event_app:
  obtains ev where "log_event aid st t r n sp = sp\<lparr>spl_pending := spl_pending sp, spl_events := spl_events sp @ [ev]\<rparr>"
    "spe_analysis_id ev = aid" "spe_status ev = st"
  using that by (simp add: log_event_def)

lemma drain_loop_fifo:
  assumes "list_all2 (\<lambda>r a. cod_load codec (pen_payload_json r) = Inr a \<and> pen_analysis_id r = ana_analysis_id a) rows as"
    "distinct (map pen_analysis_id rows)" "spl_pending sp = rows"
    "drain_loop codec h now rows delivered sp s = (out, sp', s')"
  shows "\<exists>k evs. drain_ends h now as (map pen_expires_at rows) s k s' \<and> out = Inr (delivered @ map ana_analysis_id (take k as)) \<and>
    sp' = sp\<lparr>spl_pending := drop k rows, spl_events := spl_events sp @ evs\<rparr> \<and>
    (\<forall>i < k. \<exists>e \<in> set evs. spe_analysis_id e = ana_analysis_id (as ! i) \<and> spe_status e = ''delivered'')"
  using assms
proof (induction rows as arbitrary: delivered sp s rule: list_all2_induct)
  case Nil
  then show ?case by (auto simp: drain_ends_def intro!: exI[of _ "0::nat"] exI[of _ "[] :: spool_event list"])
next
  case (Cons row rows a as)
  let ?id = "ana_analysis_id a"
  show ?case
  proof (cases "pen_expires_at row \<le> now")
    case True
    obtain ev where "log_event ?id ''expired'' now (Some ''maximum_age_exceeded'') (pen_payload_bytes row) sp =
        sp\<lparr>spl_pending := spl_pending sp, spl_events := spl_events sp @ [ev]\<rparr>" by (rule log_event_app)
    with True show ?thesis using Cons.prems Cons.hyps
      by (intro exI[of _ "0::nat"] exI[of _ "[ev]"]) (auto simp: drain_ends_def)
  next
    case live: False
    obtain r s1 where h: "h a s = (r, s1)" by fastforce
    show ?thesis
    proof (cases r)
      case (Inl e)
      obtain ev where "log_event ?id ''delivery_failed'' now (Some (exn_name e)) (pen_payload_bytes row) sp =
          sp\<lparr>spl_pending := spl_pending sp, spl_events := spl_events sp @ [ev]\<rparr>" by (rule log_event_app)
      with Inl show ?thesis using Cons.prems Cons.hyps live h
        by (intro exI[of _ "0::nat"] exI[of _ "[ev]"]) (auto simp: drain_ends_def)
    next
      case (Inr v)
      let ?sp = "log_event ?id ''delivered'' now None (pen_payload_bytes row) (delete_pending ?id sp)"
      have p: "spl_pending ?sp = rows" using Cons.prems(1,2) Cons.hyps(1)
        by (force simp: delete_pending_def intro!: filter_True)
      have "drain_loop codec h now rows (delivered @ [?id]) ?sp s1 = (out, sp', s')"
        using Cons.prems(3) Cons.hyps(1) live h Inr by simp
      from Cons.IH[OF _ p this] Cons.prems(1) obtain k evs where
        k: "drain_ends h now as (map pen_expires_at rows) s1 k s'" "out = Inr ((delivered @ [?id]) @ map ana_analysis_id (take k as))"
          "sp' = ?sp\<lparr>spl_pending := drop k rows, spl_events := spl_events ?sp @ evs\<rparr>"
          "\<forall>i < k. \<exists>e \<in> set evs. spe_analysis_id e = ana_analysis_id (as ! i) \<and> spe_status e = ''delivered''" by auto
      obtain ev where ev: "spl_events ?sp = spl_events sp @ [ev]" "spe_analysis_id ev = ?id" "spe_status ev = ''delivered''"
        by (simp add: log_event_def)
      have d: "drain_ends h now (a # as) (map pen_expires_at (row # rows)) s (Suc k) s'"
        using k(1) live h Inr by (simp add: drain_ends_Suc)
      have "sp' = sp\<lparr>spl_pending := drop (Suc k) (row # rows), spl_events := spl_events sp @ (ev # evs)\<rparr>"
        using k(3) ev(1) by (simp add: log_event_def delete_pending_def)
      moreover have "\<forall>i < Suc k. \<exists>e \<in> set (ev # evs). spe_analysis_id e = ana_analysis_id ((a # as) ! i) \<and> spe_status e = ''delivered''"
        using k(4) ev by (auto simp: All_less_Suc2)
      ultimately show ?thesis using d k(2) by (intro exI[of _ "Suc k"] exI[of _ "ev # evs"]) simp
    qed
  qed
qed

abbreviation loads_as :: "analysis_codec \<Rightarrow> pending_row list \<Rightarrow> AnalysisResult list \<Rightarrow> bool" where
  "loads_as codec \<equiv> list_all2 (\<lambda>r a. cod_load codec (pen_payload_json r) = Inr a \<and> pen_analysis_id r = ana_analysis_id a)"

lemma load_all_rows:
  "\<forall>r \<in> set rows. row_ok codec age r \<Longrightarrow> \<exists>as. load_all codec rows = Inr as \<and> loads_as codec rows as"
proof (induction rows)
  case (Cons r rows)
  then obtain as where "load_all codec rows = Inr as" "loads_as codec rows as" by (meson list.set_intros(2))
  moreover obtain a where "cod_load codec (pen_payload_json r) = Inr a" "pen_analysis_id r = ana_analysis_id a"
    using Cons.prems by (auto simp: row_ok_def)
  ultimately show ?case by simp
qed simp

lemma spool_loads:
  assumes "spool_inv codec sp"
  obtains as where "pending codec sp = Inr as" "loads_as codec (spl_pending sp) as"
proof -
  have "\<forall>r \<in> set (spl_pending sp). row_ok codec (spl_max_age_seconds sp) r" using assms(1) by (simp add: spool_inv_def)
  from load_all_rows[OF this] that show thesis
    unfolding pending_def pending_rows_id[OF assms(1)] by blast
qed

lemma load_all_drop: "load_all codec rows = Inr as \<Longrightarrow> load_all codec (drop k rows) = Inr (drop k as)"
  by (induction rows arbitrary: as k) (auto simp: bind_result_Inr drop_Cons' split: nat.splits)

lemma sum_list_drop_le: "(\<forall>x \<in> set xs. 0 \<le> f x) \<Longrightarrow> sum_list (map f (drop k xs)) \<le> (sum_list (map f xs) :: int)"
proof (induction xs arbitrary: k)
  case (Cons x xs)
  from Cons.IH[of "k - 1"] Cons.prems show ?case by (cases k) auto
qed simp

lemma drain_spec:
  assumes "spool_inv codec sp" "drain codec h now sp s = (out, sp', s')"
  obtains as k evs where "pending codec sp = Inr as" "drain_ends h now as (map pen_expires_at (spl_pending sp)) s k s'"
    "out = Inr (map ana_analysis_id (take k as))" "pending codec sp' = Inr (drop k as)"
    "sp' = sp\<lparr>spl_pending := drop k (spl_pending sp), spl_events := spl_events sp @ evs\<rparr>" "spool_inv codec sp'"
    "\<forall>i < k. \<exists>e \<in> set evs. spe_analysis_id e = ana_analysis_id (as ! i) \<and> spe_status e = ''delivered''"
    "map pen_analysis_id (spl_pending sp) = map ana_analysis_id as"
proof -
  obtain as where as: "pending codec sp = Inr as"
    "loads_as codec (spl_pending sp) as"
    using spool_loads[OF assms(1)] .
  have "distinct (map pen_analysis_id (spl_pending sp))" using assms(1) by (simp add: spool_inv_def)
  from drain_loop_fifo[OF as(2) this refl assms(2)[unfolded drain_def pending_rows_id[OF assms(1)]]]
  obtain k evs where k: "drain_ends h now as (map pen_expires_at (spl_pending sp)) s k s'"
    "out = Inr (map ana_analysis_id (take k as))" "sp' = sp\<lparr>spl_pending := drop k (spl_pending sp), spl_events := spl_events sp @ evs\<rparr>"
    "\<forall>i < k. \<exists>e \<in> set evs. spe_analysis_id e = ana_analysis_id (as ! i) \<and> spe_status e = ''delivered''" by auto
  have nn: "\<forall>r \<in> set (spl_pending sp). 0 \<le> pen_payload_bytes r"
    using assms(1) by (auto simp: spool_inv_def row_ok_def utf8_length_nonneg)
  have inv: "spool_inv codec sp'"
    using assms(1) sum_list_drop_le[OF nn, of k] unfolding k(3) spool_inv_def
    by (auto simp: drop_map[symmetric] dest: in_set_dropD)
  have "pending codec sp' = Inr (drop k as)"
    using load_all_drop as(1) unfolding pending_def pending_rows_id[OF assms(1)] pending_rows_id[OF inv] by (simp add: k(3))
  moreover have "map pen_analysis_id (spl_pending sp) = map ana_analysis_id as"
    using as(2) by (induction rule: list_all2_induct) auto
  ultimately show thesis using that as(1) k inv by blast
qed

lemma spool_reachable_inv:
  assumes "spool_reachable codec h (sp, s)"
  shows "spool_inv codec sp"
proof -
  have "spool_inv codec (fst x)" if "spool_reachable codec h x" for x
    using that
  proof induction
    case (sr_init n m age sp s)
    then show ?case by (auto simp: spool_init_def spool_inv_def split: if_splits)
  next
    case (sr_step x y)
    from sr_step(2,3) show ?case
    proof cases
      case (ss_drain now sp s out sp' s')
      from drain_spec[OF _ ss_drain(3)] sr_step(3) ss_drain(1,2) show ?thesis by (metis fst_conv)
    qed (auto simp: spool_inv_enqueue)
  qed
  from this[OF assms(1)] show ?thesis by simp
qed

section \<open>Claims\<close>

lemma enqueue_frame:
  "set (spl_pending sp) \<subseteq> set (spl_pending (snd (enqueue codec a t sp))) \<and>
   (\<exists>evs. spl_events (snd (enqueue codec a t sp)) = spl_events sp @ evs)"
  by (auto simp: enqueue_def Let_def spool_counts_def insert_pending_def log_event_def split: option.splits)

text \<open>
  C29. The spool is bounded and silent about nothing. In every state reached with
  analyses whose payload can be read back, the number and the bytes of the pending analyses are within the bounds, no analysis is
  pending twice, rows are ordered by their sequence number, and the pending payloads can all be read
  back. Every step only appends to the event log, and a row that disappears in it has been logged as
  delivered in that very step.
\<close>

theorem spool_bounded_and_lossless:
  assumes "spool_reachable codec h (sp, s)"
  shows "int (length (spl_pending sp)) \<le> spl_max_items sp \<and> sum_list (map pen_payload_bytes (spl_pending sp)) \<le> spl_max_bytes sp \<and>
    distinct (map pen_analysis_id (spl_pending sp)) \<and> sorted_wrt (\<lambda>r r'. pen_sequence r < pen_sequence r') (spl_pending sp) \<and>
    is_ok (pending codec sp) \<and>
    (\<forall>sp' s'. spool_step codec h (sp, s) (sp', s') \<longrightarrow> (\<exists>evs. spl_events sp' = spl_events sp @ evs \<and>
       (\<forall>r \<in> set (spl_pending sp). r \<in> set (spl_pending sp') \<or>
          (\<exists>e \<in> set evs. spe_analysis_id e = pen_analysis_id r \<and> spe_status e = ''delivered''))))"
proof -
  note inv = spool_reachable_inv[OF assms(1)]
  have step: "\<exists>evs. spl_events sp' = spl_events sp @ evs \<and> (\<forall>r \<in> set (spl_pending sp). r \<in> set (spl_pending sp') \<or>
      (\<exists>e \<in> set evs. spe_analysis_id e = pen_analysis_id r \<and> spe_status e = ''delivered''))"
    if "spool_step codec h (sp, s) (sp', s')" for sp' s'
    using that
  proof cases
    case (ss_enqueue a t)
    then show ?thesis using enqueue_frame[of sp codec a t] by blast
  next
    case (ss_drain now out)
    obtain as :: "AnalysisResult list" and k evs where d: "sp' = sp\<lparr>spl_pending := drop k (spl_pending sp), spl_events := spl_events sp @ evs\<rparr>"
      "\<forall>i < k. \<exists>e \<in> set evs. spe_analysis_id e = ana_analysis_id (as ! i) \<and> spe_status e = ''delivered''"
      "map pen_analysis_id (spl_pending sp) = map ana_analysis_id as"
      by (rule drain_spec[OF inv ss_drain]) blast
    have "spl_pending sp ! i \<in> set (drop k (spl_pending sp)) \<or> (\<exists>e \<in> set evs. spe_analysis_id e = pen_analysis_id (spl_pending sp ! i) \<and> spe_status e = ''delivered'')"
      if "i < length (spl_pending sp)" for i
    proof (cases "i < k")
      case True
      have "pen_analysis_id (spl_pending sp ! i) = ana_analysis_id (as ! i)" using d(3) that by (metis length_map nth_map)
      with True d(2) show ?thesis by auto
    next
      case False
      then show ?thesis using that nth_mem[of "i - k" "drop k (spl_pending sp)"] by simp
    qed
    then have "\<forall>r \<in> set (spl_pending sp). r \<in> set (drop k (spl_pending sp)) \<or> (\<exists>e \<in> set evs. spe_analysis_id e = pen_analysis_id r \<and> spe_status e = ''delivered'')"
      by (metis in_set_conv_nth)
    then show ?thesis unfolding d(1) by simp
  next
    case ss_owner
    then show ?thesis by auto
  qed
  have "is_ok (pending codec sp)" using spool_loads[OF inv] by (metis is_ok_simps(1))
  with step inv show ?thesis unfolding spool_inv_def by blast
qed

definition demo_codec :: analysis_codec where
  "demo_codec = \<lparr>cod_dump = ana_analysis_id, cod_load = (\<lambda>s. Inr (demo_analysis s (if s = ''bad'' then IS_RESOLVED else IS_WATCH) 10))\<rparr>"

definition demo_item :: "string \<Rightarrow> AnalysisResult" where
  "demo_item s = demo_analysis s (if s = ''bad'' then IS_RESOLVED else IS_WATCH) 10"

definition demo_handler :: "(unit, nat) handler" where
  "demo_handler a s = (if ana_analysis_id a = ''bad'' then (Inl (ValueError ''refused''), s) else (Inr (), Suc s))"

definition demo_spool :: spool where
  "demo_spool = fold (\<lambda>s sp. snd (enqueue demo_codec (demo_item s) 5 sp)) [''a'', ''bad'', ''c''] 
     \<lparr>spl_max_items = 3, spl_max_bytes = 9, spl_max_age_seconds = 1, spl_next_sequence = 1, spl_pending = [], spl_events = []\<rparr>"

lemma demo_codec_ok: "codec_ok demo_codec (demo_item s)"
  by (simp add: codec_ok_def demo_codec_def demo_item_def demo_analysis_def)

lemma demo_spool_reachable: "spool_reachable demo_codec h (demo_spool, s)"
proof -
  have "spool_reachable demo_codec h
     (\<lparr>spl_max_items = 3, spl_max_bytes = 9, spl_max_age_seconds = 1, spl_next_sequence = 1, spl_pending = [], spl_events = []\<rparr>, s)"
    by (rule sr_init[of 3 9 1]) (simp add: spool_init_def)
  then show ?thesis unfolding demo_spool_def by (simp del: append.simps) (blast intro: sr_step ss_enqueue demo_codec_ok)
qed

theorem spool_bounded_and_lossless_witness:
  "length (spl_pending demo_spool) = 3 \<and> spl_max_items demo_spool = 3 \<and> distinct (map pen_analysis_id (spl_pending demo_spool)) \<and>
   is_ok (pending demo_codec demo_spool)"
proof -
  have "length (spl_pending demo_spool) = 3" "spl_max_items demo_spool = 3" by code_simp+
  then show ?thesis using spool_bounded_and_lossless[OF demo_spool_reachable[of demo_handler 0]] by blast
qed

text \<open>
  Draining is first in, first out and stops at the first obstacle. For some \<open>k\<close>, the first \<open>k\<close>
  pending analyses were unexpired and the handler accepted each of them, in order; they are reported and
  removed, and the rest stays pending in order. Either everything was delivered, or the next analysis
  has expired, or the handler raised on it.
\<close>

theorem drain_is_fifo:
  assumes "spool_reachable codec h (sp, s)" "drain codec h now sp s = (out, sp', s')"
  shows "\<exists>as k s1. pending codec sp = Inr as \<and> k \<le> length as \<and> out = Inr (map ana_analysis_id (take k as)) \<and>
    pending codec sp' = Inr (drop k as) \<and> (\<forall>i < k. now < pen_expires_at (pending_rows sp ! i)) \<and>
    run_all h (take k as) s = Some s1 \<and>
    (if k = length as \<or> pen_expires_at (pending_rows sp ! k) \<le> now then s' = s1 else \<exists>exc. h (as ! k) s1 = (Inl exc, s'))"
proof -
  note inv = spool_reachable_inv[OF assms(1)]
  obtain as k where d: "pending codec sp = Inr as" "drain_ends h now as (map pen_expires_at (spl_pending sp)) s k s'"
    "out = Inr (map ana_analysis_id (take k as))" "pending codec sp' = Inr (drop k as)"
    "map pen_analysis_id (spl_pending sp) = map ana_analysis_id as"
    using drain_spec[OF inv assms(2)] by metis
  have len: "length (spl_pending sp) = length as" using d(5) by (metis length_map)
  then have nth: "i < length as \<Longrightarrow> map pen_expires_at (spl_pending sp) ! i = pen_expires_at (spl_pending sp ! i)" for i by simp
  from d(2) obtain s1 where "k \<le> length as" "\<forall>i < k. now < pen_expires_at (spl_pending sp ! i)" "run_all h (take k as) s = Some s1"
    "if k = length as \<or> pen_expires_at (spl_pending sp ! k) \<le> now then s' = s1 else \<exists>exc. h (as ! k) s1 = (Inl exc, s')"
    unfolding drain_ends_def using nth by (cases "k = length as") (auto simp: le_less)
  then show ?thesis using d(1,3,4) unfolding pending_rows_id[OF inv] by blast
qed

theorem drain_is_fifo_witness:
  "fst (drain demo_codec demo_handler 6 demo_spool 0) = Inr [''a''] \<and>
   (\<exists>as k. pending demo_codec demo_spool = Inr as \<and> k \<le> length as \<and>
      fst (drain demo_codec demo_handler 6 demo_spool 0) = Inr (map ana_analysis_id (take k as)))"
proof -
  obtain out sp' s' where d: "drain demo_codec demo_handler 6 demo_spool 0 = (out, sp', s')" by (cases "drain demo_codec demo_handler 6 demo_spool 0")
  have "fst (drain demo_codec demo_handler 6 demo_spool 0) = Inr [''a'']" by code_simp
  moreover have "\<exists>as k. pending demo_codec demo_spool = Inr as \<and> k \<le> length as \<and> out = Inr (map ana_analysis_id (take k as))"
    using drain_is_fifo[OF demo_spool_reachable d] by blast
  ultimately show ?thesis unfolding d by simp
qed

text \<open>
  A full spool refuses loudly but logs wrongly. A new analysis that does not fit raises the exhaustion
  error, and what is pending is untouched. The event log receives a \<^verbatim>\<open>rejected\<close> event and, after it, also
  an \<^verbatim>\<open>enqueued\<close> event for the analysis that was refused.
\<close>

theorem full_spool_rejects:
  assumes "\<forall>r \<in> set (spl_pending sp). pen_analysis_id r \<noteq> ana_analysis_id a"
    "spl_max_items sp < int (length (spl_pending sp)) + 1 \<or>
     spl_max_bytes sp < sum_list (map pen_payload_bytes (spl_pending sp)) + utf8_length (cod_dump codec a)"
    "enqueue codec a t sp = (out, sp')"
  shows "out = Inl (SpoolExhaustedError ''critical analysis spool exhausted'') \<and> spl_pending sp' = spl_pending sp \<and>
    (\<exists>e1 e2. spl_events sp' = spl_events sp @ [e1, e2] \<and> spe_status e1 = ''rejected'' \<and> spe_status e2 = ''enqueued'' \<and>
       spe_analysis_id e1 = ana_analysis_id a \<and> spe_analysis_id e2 = ana_analysis_id a)"
proof -
  have "find (\<lambda>r. pen_analysis_id r = ana_analysis_id a) (spl_pending sp) = None" using assms(1) by (auto simp: find_None_iff)
  then show ?thesis using assms(2,3) by (auto simp: enqueue_def Let_def spool_counts_def log_event_def)
qed

theorem full_spool_rejects_witness:
  "fst (enqueue demo_codec (demo_item ''d'') 5 demo_spool) = Inl (SpoolExhaustedError ''critical analysis spool exhausted'') \<and>
   map spe_status (spl_events (snd (enqueue demo_codec (demo_item ''d'') 5 demo_spool))) =
     [''enqueued'', ''enqueued'', ''enqueued'', ''rejected'', ''enqueued'']"
proof -
  have "list_all (\<lambda>r. pen_analysis_id r \<noteq> ana_analysis_id (demo_item ''d'')) (spl_pending demo_spool)"
    "spl_max_items demo_spool < int (length (spl_pending demo_spool)) + 1" by code_simp+
  then have "fst (enqueue demo_codec (demo_item ''d'') 5 demo_spool) = Inl (SpoolExhaustedError ''critical analysis spool exhausted'')"
    using full_spool_rejects[OF _ _ surjective_pairing] by (simp add: list_all_iff)
  moreover have "map spe_status (spl_events (snd (enqueue demo_codec (demo_item ''d'') 5 demo_spool))) =
     [''enqueued'', ''enqueued'', ''enqueued'', ''rejected'', ''enqueued'']" by code_simp
  ultimately show ?thesis by blast
qed

end
