(* ===== verification/Node.thy ===== *)
theory Node
  imports Engine Spool
begin

text \<open>
  The incident authority of a node with its spool: \<^verbatim>\<open>apply_or_spool\<close>, \<^verbatim>\<open>recover_incident_authority\<close>,
  \<^verbatim>\<open>set_incident_authority_available\<close>, \<^verbatim>\<open>set_analysis_available\<close>, \<^verbatim>\<open>set_runtime_available\<close> and
  \<^verbatim>\<open>set_api_available\<close> of \<^verbatim>\<open>src/src/sentinel_edge/scenario/engine.py\<close>. The names passed to the capability
  matrix are all names it holds, so its \<^verbatim>\<open>KeyError\<close> cannot occur on a matrix with the default keys.
\<close>

record node =
  nod_engine :: engine
  nod_spool :: spool
  nod_capabilities :: matrix
  nod_incident_authority_available :: bool

definition capability :: "string \<Rightarrow> HealthState \<Rightarrow> string list \<Rightarrow> node \<Rightarrow> unit result \<times> node" where
  "capability cid state reasons nd =
     (case set_capability cid state reasons (nod_capabilities nd) of
        Inl e \<Rightarrow> (Inl e, nd)
      | Inr m \<Rightarrow> (Inr (), nd\<lparr>nod_capabilities := m\<rparr>))"

definition set_incident_authority_available :: "bool \<Rightarrow> string \<Rightarrow> node \<Rightarrow> unit result \<times> node" where
  "set_incident_authority_available available reason nd =
     (let nd1 = nd\<lparr>nod_incident_authority_available := available\<rparr>
      in if available then capability ''incident_authority'' HS_HEALTHY [''authority_available''] nd1
         else capability ''incident_authority'' HS_FAILED [reason, ''critical_spool_active''] nd1)"

definition set_analysis_available :: "bool \<Rightarrow> string \<Rightarrow> node \<Rightarrow> unit result \<times> node" where
  "set_analysis_available available reason =
     capability ''analysis'' (if available then HS_HEALTHY else HS_FAILED) [if available then ''analysis_available'' else reason]"

definition set_runtime_available :: "bool \<Rightarrow> string \<Rightarrow> node \<Rightarrow> unit result \<times> node" where
  "set_runtime_available available reason =
     capability ''runtime'' (if available then HS_HEALTHY else HS_FAILED) [if available then ''runtime_available'' else reason]"

definition set_api_available :: "bool \<Rightarrow> string \<Rightarrow> node \<Rightarrow> unit result \<times> node" where
  "set_api_available available reason =
     capability ''api'' (if available then HS_HEALTHY else HS_FAILED) [if available then ''api_available'' else reason]"

definition apply_or_spool :: "library \<Rightarrow> analysis_codec \<Rightarrow> AnalysisResult \<Rightarrow> datetime option \<Rightarrow> node \<Rightarrow>
    IncidentRecord option result \<times> node" where
  "apply_or_spool lib codec a accepted nd =
     (let accepted_at = (case accepted of None \<Rightarrow> ana_produced_at a | Some t \<Rightarrow> t)
      in if nod_incident_authority_available nd
         then (case apply_analysis lib (nod_engine nd) a accepted_at of
             (Inl e, eng) \<Rightarrow> (Inl e, nd\<lparr>nod_engine := eng\<rparr>)
           | (Inr i, eng) \<Rightarrow> (Inr (Some i), nd\<lparr>nod_engine := eng\<rparr>))
         else (case enqueue codec a accepted_at (nod_spool nd) of
             (Inr _, sp) \<Rightarrow> (Inr None, nd\<lparr>nod_spool := sp\<rparr>)
           | (Inl (SpoolExhaustedError msg), sp) \<Rightarrow>
               (case capability ''incident_authority'' HS_FAILED [''critical_spool_exhausted''] (nd\<lparr>nod_spool := sp\<rparr>) of
                  (Inl e, nd1) \<Rightarrow> (Inl e, nd1)
                | (Inr _, nd1) \<Rightarrow>
                    (case capability ''evidence'' HS_DEGRADED [''critical_spool_exhausted''] nd1 of
                       (Inl e, nd2) \<Rightarrow> (Inl e, nd2)
                     | (Inr _, nd2) \<Rightarrow> (Inl (SpoolExhaustedError msg), nd2)))
           | (Inl e, sp) \<Rightarrow> (Inl e, nd\<lparr>nod_spool := sp\<rparr>)))"

definition recovery_handler :: "library \<Rightarrow> (IncidentRecord, engine) handler" where
  "recovery_handler lib a eng = apply_analysis lib eng a (ana_produced_at a)"

definition recover_incident_authority :: "library \<Rightarrow> analysis_codec \<Rightarrow> datetime \<Rightarrow> node \<Rightarrow> uuid list result \<times> node" where
  "recover_incident_authority lib codec now nd =
     (case drain codec (recovery_handler lib) now (nod_spool nd) (nod_engine nd) of
        (Inl e, sp, eng) \<Rightarrow> (Inl e, nd\<lparr>nod_incident_authority_available := True, nod_spool := sp, nod_engine := eng\<rparr>)
      | (Inr delivered, sp, eng) \<Rightarrow>
          let nd1 = nd\<lparr>nod_incident_authority_available := True, nod_spool := sp, nod_engine := eng\<rparr>;
              m = metrics lib now sp
          in (case (if spm_pending_items m \<noteq> 0
                    then capability ''incident_authority'' HS_DEGRADED [''critical_spool_not_drained''] nd1
                    else capability ''incident_authority'' HS_HEALTHY [''critical_spool_reconciled''] nd1) of
                (Inl e, nd2) \<Rightarrow> (Inl e, nd2)
              | (Inr _, nd2) \<Rightarrow> (Inr delivered, nd2)))"

end
