(* ===== verification/Node_Claims.thy ===== *)
theory Node_Claims
  imports Node Spool_Claims Engine_Behaviour
begin

text \<open>
  The node: recovery of the incident authority delivers the spool to the engine when the engine accepts
  its analyses, and never gets past an analysis that the engine refuses.
\<close>

definition matrix_ok :: "matrix \<Rightarrow> bool" where
  "matrix_ok m \<longleftrightarrow> (\<forall>k \<in> set (map fst capability_defaults). map_of m k \<noteq> None)"

lemma capability_ok:
  assumes "matrix_ok (nod_capabilities nd)" "cid \<in> set (map fst capability_defaults)"
  obtains m where "capability cid state reasons nd = (Inr (), nd\<lparr>nod_capabilities := m\<rparr>)" "matrix_ok m"
    "map_option cap_state (map_of m cid) = Some state"
proof -
  obtain c where c: "map_of (nod_capabilities nd) cid = Some c" using assms by (auto simp: matrix_ok_def)
  let ?m = "AList.update cid (c\<lparr>cap_state := state, cap_reason_codes := sorted_set reasons\<rparr>) (nod_capabilities nd)"
  have "matrix_ok ?m" using assms(1) by (simp add: matrix_ok_def update_conv')
  then show thesis using that[of ?m] c by (simp add: capability_def set_capability_def update_conv')
qed

lemma authority_key: "''incident_authority'' \<in> set (map fst capability_defaults)"
  by (simp add: capability_defaults_def)

lemma metrics_items: "spm_pending_items (metrics lib now sp) = int (length (spl_pending sp))"
  by (simp add: metrics_def spool_counts_def)

lemma recover_ok:
  assumes "matrix_ok (nod_capabilities nd)" "drain codec (recovery_handler lib) now (nod_spool nd) (nod_engine nd) = (Inr ids, sp, eng)"
  obtains m where "recover_incident_authority lib codec now nd =
      (Inr ids, nd\<lparr>nod_incident_authority_available := True, nod_spool := sp, nod_engine := eng, nod_capabilities := m\<rparr>)"
    "matrix_ok m" "map_option cap_state (map_of m ''incident_authority'') = Some (if spl_pending sp = [] then HS_HEALTHY else HS_DEGRADED)"
proof -
  let ?nd = "nd\<lparr>nod_incident_authority_available := True, nod_spool := sp, nod_engine := eng\<rparr>"
  let ?st = "if spl_pending sp = [] then HS_HEALTHY else HS_DEGRADED"
  let ?rs = "if spl_pending sp = [] then [''critical_spool_reconciled''] else [''critical_spool_not_drained'']"
  obtain m where m: "capability ''incident_authority'' ?st ?rs ?nd = (Inr (), ?nd\<lparr>nod_capabilities := m\<rparr>)" "matrix_ok m"
    "map_option cap_state (map_of m ''incident_authority'') = Some ?st"
    using capability_ok[of ?nd "''incident_authority''" ?st ?rs] assms(1) authority_key by auto
  have "recover_incident_authority lib codec now nd = (Inr ids, ?nd\<lparr>nod_capabilities := m\<rparr>)"
    using m(1) by (cases "spl_pending sp = []") (simp_all add: recover_incident_authority_def assms(2) metrics_items Let_def)
  then show thesis using that[of m] m(2,3) by simp
qed

section \<open>Recovery\<close>

lemma run_all_append: "run_all h (as @ bs) s = (case run_all h as s of None \<Rightarrow> None | Some s' \<Rightarrow> run_all h bs s')"
  by (induction as arbitrary: s) (auto split: prod.splits sum.splits)

lemma drain_ends_all:
  assumes "drain_ends h now as es s k s'" "run_all h as s = Some s2" "\<forall>i < length as. now < es ! i"
  shows "k = length as \<and> s' = s2"
proof -
  from assms(1) obtain s1 where k: "k \<le> length as" "run_all h (take k as) s = Some s1"
    "if k = length as \<or> es ! k \<le> now then s' = s1 else \<exists>exc. h (as ! k) s1 = (Inl exc, s')" unfolding drain_ends_def by blast
  have "k = length as"
  proof (rule ccontr)
    assume "k \<noteq> length as"
    with k(1) have lt: "k < length as" by simp
    then obtain exc where exc: "h (as ! k) s1 = (Inl exc, s')" using k(3) assms(3) by fastforce
    have "run_all h (take k as @ as ! k # drop (Suc k) as) s = None" using k(2) exc by (simp add: run_all_append)
    then show False using assms(2) lt by (simp add: id_take_nth_drop[symmetric])
  qed
  then show ?thesis using k assms(2) by simp
qed

text \<open>The node after a sequence of analyses, each accepted at the time it was produced.\<close>

definition offer_all :: "library \<Rightarrow> analysis_codec \<Rightarrow> AnalysisResult list \<Rightarrow> node \<Rightarrow> node" where
  "offer_all lib codec as nd = fold (\<lambda>a n. snd (apply_or_spool lib codec a None n)) as nd"

lemma enqueue_fits:
  assumes "spool_inv codec sp" "codec_ok codec a" "loads_as codec (spl_pending sp) as0" "a \<notin> set as0"
    "distinct (map ana_analysis_id (as0 @ [a]))" "int (length as0) + 1 \<le> spl_max_items sp"
    "sum_list (map pen_payload_bytes (spl_pending sp)) + utf8_length (cod_dump codec a) \<le> spl_max_bytes sp"
  obtains sp' where "enqueue codec a t sp = (Inr True, sp')" "spool_inv codec sp'" "loads_as codec (spl_pending sp') (as0 @ [a])"
    "map pen_expires_at (spl_pending sp') = map pen_expires_at (spl_pending sp) @ [t + spl_max_age_seconds sp * 1000000]"
    "sum_list (map pen_payload_bytes (spl_pending sp')) = sum_list (map pen_payload_bytes (spl_pending sp)) + utf8_length (cod_dump codec a)"
    "spl_max_items sp' = spl_max_items sp" "spl_max_bytes sp' = spl_max_bytes sp" "spl_max_age_seconds sp' = spl_max_age_seconds sp"
proof -
  have ids: "map pen_analysis_id (spl_pending sp) = map ana_analysis_id as0"
    using assms(3) by (induction rule: list_all2_induct) auto
  have none: "find (\<lambda>r. pen_analysis_id r = ana_analysis_id a) (spl_pending sp) = None"
  proof -
    have "ana_analysis_id a \<notin> set (map pen_analysis_id (spl_pending sp))" using assms(5) unfolding ids by simp
    then show ?thesis by (force simp: find_None_iff)
  qed
  have len: "length (spl_pending sp) = length as0" using list_all2_lengthD[OF assms(3)] .
  let ?row = "\<lparr>pen_sequence = spl_next_sequence sp, pen_analysis_id = ana_analysis_id a, pen_hazard = ana_hazard a,
     pen_enqueued_at = t, pen_expires_at = t + spl_max_age_seconds sp * 1000000, pen_payload_json = cod_dump codec a,
     pen_payload_bytes = utf8_length (cod_dump codec a)\<rparr>"
  have e: "fst (enqueue codec a t sp) = Inr True" "spl_pending (snd (enqueue codec a t sp)) = spl_pending sp @ [?row]"
    "spl_max_items (snd (enqueue codec a t sp)) = spl_max_items sp" "spl_max_bytes (snd (enqueue codec a t sp)) = spl_max_bytes sp"
    "spl_max_age_seconds (snd (enqueue codec a t sp)) = spl_max_age_seconds sp"
    using assms(6,7) none len by (simp_all add: enqueue_def Let_def spool_counts_def insert_pending_def)
  show thesis
  proof (rule that[of "snd (enqueue codec a t sp)"])
    show "enqueue codec a t sp = (Inr True, snd (enqueue codec a t sp))" using e(1) by (simp add: prod_eq_iff)
    show "spool_inv codec (snd (enqueue codec a t sp))" using spool_inv_enqueue[OF assms(1,2)] .
    show "loads_as codec (spl_pending (snd (enqueue codec a t sp))) (as0 @ [a])"
      using assms(2,3) by (simp add: e(2) list_all2_appendI codec_ok_def)
  qed (simp_all add: e)
qed

lemma offer_all_spools:
  assumes "spool_inv codec (nod_spool nd)" "\<not> nod_incident_authority_available nd" "\<forall>a \<in> set as. codec_ok codec a"
    "loads_as codec (spl_pending (nod_spool nd)) as0" "distinct (map ana_analysis_id (as0 @ as))"
    "int (length (as0 @ as)) \<le> spl_max_items (nod_spool nd)"
    "sum_list (map pen_payload_bytes (spl_pending (nod_spool nd))) + sum_list (map (\<lambda>a. utf8_length (cod_dump codec a)) as) \<le> spl_max_bytes (nod_spool nd)"
  shows "\<exists>sp. offer_all lib codec as nd = nd\<lparr>nod_spool := sp\<rparr> \<and> spool_inv codec sp \<and> loads_as codec (spl_pending sp) (as0 @ as) \<and>
    map pen_expires_at (spl_pending sp) = map pen_expires_at (spl_pending (nod_spool nd)) @
      map (\<lambda>a. ana_produced_at a + spl_max_age_seconds (nod_spool nd) * 1000000) as"
  using assms
proof (induction as arbitrary: nd as0)
  case Nil
  then show ?case by (auto simp: offer_all_def intro!: exI[of _ "nod_spool nd"])
next
  case (Cons a as)
  let ?t = "ana_produced_at a"
  have nn: "0 \<le> sum_list (map (\<lambda>a. utf8_length (cod_dump codec a)) as)" by (rule sum_list_nonneg) (auto simp: utf8_length_nonneg)
  obtain sp where sp: "enqueue codec a ?t (nod_spool nd) = (Inr True, sp)" "spool_inv codec sp" "loads_as codec (spl_pending sp) (as0 @ [a])"
    "map pen_expires_at (spl_pending sp) = map pen_expires_at (spl_pending (nod_spool nd)) @ [?t + spl_max_age_seconds (nod_spool nd) * 1000000]"
    "sum_list (map pen_payload_bytes (spl_pending sp)) = sum_list (map pen_payload_bytes (spl_pending (nod_spool nd))) + utf8_length (cod_dump codec a)"
    "spl_max_items sp = spl_max_items (nod_spool nd)" "spl_max_bytes sp = spl_max_bytes (nod_spool nd)"
    "spl_max_age_seconds sp = spl_max_age_seconds (nod_spool nd)"
    by (rule enqueue_fits[of codec "nod_spool nd" a as0 ?t]) (use Cons.prems nn in \<open>auto\<close>)
  have off: "offer_all lib codec (a # as) nd = offer_all lib codec as (nd\<lparr>nod_spool := sp\<rparr>)"
    using Cons.prems(2) sp(1) by (simp add: offer_all_def apply_or_spool_def)
  have "\<exists>sp'. offer_all lib codec as (nd\<lparr>nod_spool := sp\<rparr>) = nd\<lparr>nod_spool := sp\<rparr>\<lparr>nod_spool := sp'\<rparr> \<and> spool_inv codec sp' \<and>
      loads_as codec (spl_pending sp') ((as0 @ [a]) @ as) \<and>
      map pen_expires_at (spl_pending sp') = map pen_expires_at (spl_pending (nod_spool (nd\<lparr>nod_spool := sp\<rparr>))) @
        map (\<lambda>a. ana_produced_at a + spl_max_age_seconds (nod_spool (nd\<lparr>nod_spool := sp\<rparr>)) * 1000000) as"
    by (rule Cons.IH) (use Cons.prems sp in \<open>auto\<close>)
  then show ?case unfolding off using sp(4,8) by auto
qed


definition demo_empty_spool :: spool where
  "demo_empty_spool = \<lparr>spl_max_items = 3, spl_max_bytes = 9, spl_max_age_seconds = 1, spl_next_sequence = 1, spl_pending = [], spl_events = []\<rparr>"

definition demo_node :: "engine \<Rightarrow> node" where
  "demo_node eng = \<lparr>nod_engine = eng, nod_spool = demo_empty_spool, nod_capabilities = matrix_init, nod_incident_authority_available = False\<rparr>"

lemma demo_matrix_ok: "matrix_ok matrix_init"
  by (simp add: matrix_ok_def matrix_init_def capability_defaults_def)


section \<open>A refused analysis\<close>

definition refused_now :: "engine \<Rightarrow> AnalysisResult \<Rightarrow> bool" where
  "refused_now eng a \<longleftrightarrow> (case map_of (eng_current eng) (ana_hazard a) of None \<Rightarrow> False
     | Some c \<Rightarrow> ana_analysis_id a \<notin> set (inc_analysis_ids c) \<and> \<not> is_late c (ana_when a) \<and> \<not> ana_abstained a \<and>
         ana_coverage a \<noteq> CV_BLIND \<and> ana_state_hint a \<in> set (rejected_hints (inc_state c)))"

lemma refused_raises:
  assumes "refused_now eng a"
  obtains e where "recovery_handler lib a eng = (Inl e, eng)"
proof -
  obtain c where c: "map_of (eng_current eng) (ana_hazard a) = Some c" "ana_analysis_id a \<notin> set (inc_analysis_ids c)"
    "\<not> is_late c (ana_when a)" "\<not> ana_abstained a" "ana_coverage a \<noteq> CV_BLIND" "ana_state_hint a \<in> set (rejected_hints (inc_state c))"
    using assms by (auto simp: refused_now_def split: option.splits)
  show thesis using that c sighted_target(1)[OF c(4,5), of c]
    by (auto simp: recovery_handler_def apply_analysis_def Let_def check_transition_def analysis_record_state)
qed

lemma recover_blocked:
  assumes "spool_inv codec (nod_spool nd)" "matrix_ok (nod_capabilities nd)" "pending codec (nod_spool nd) = Inr (a # as)" "refused_now (nod_engine nd) a"
    "recover_incident_authority lib codec now nd = (out, nd')"
  shows "out = Inr [] \<and> nod_engine nd' = nod_engine nd \<and> pending codec (nod_spool nd') = Inr (a # as) \<and> spool_inv codec (nod_spool nd') \<and>
    matrix_ok (nod_capabilities nd') \<and> map_option cap_state (map_of (nod_capabilities nd') ''incident_authority'') = Some HS_DEGRADED"
proof -
  obtain o1 sp1 eng1 where d: "drain codec (recovery_handler lib) now (nod_spool nd) (nod_engine nd) = (o1, sp1, eng1)"
    by (cases "drain codec (recovery_handler lib) now (nod_spool nd) (nod_engine nd)")
  obtain k evs where k: "drain_ends (recovery_handler lib) now (a # as) (map pen_expires_at (spl_pending (nod_spool nd))) (nod_engine nd) k eng1"
    "o1 = Inr (map ana_analysis_id (take k (a # as)))" "pending codec sp1 = Inr (drop k (a # as))" "spool_inv codec sp1"
    "sp1 = (nod_spool nd)\<lparr>spl_pending := drop k (spl_pending (nod_spool nd)), spl_events := spl_events (nod_spool nd) @ evs\<rparr>"
    by (rule drain_spec[OF assms(1) d]) (use assms(3) in auto)
  obtain e where e: "recovery_handler lib a (nod_engine nd) = (Inl e, nod_engine nd)" using refused_raises[OF assms(4)] .
  have "k = 0 \<and> eng1 = nod_engine nd"
    using k(1) e by (cases k) (auto simp: drain_ends_def split: if_splits)
  then have z: "k = 0" "eng1 = nod_engine nd" by simp_all
  have ne: "spl_pending sp1 \<noteq> []"
    using k(3) z(1) unfolding pending_def pending_rows_id[OF k(4)] by auto
  obtain m where "recover_incident_authority lib codec now nd =
      (Inr [], nd\<lparr>nod_incident_authority_available := True, nod_spool := sp1, nod_engine := nod_engine nd, nod_capabilities := m\<rparr>)"
    "matrix_ok m" "map_option cap_state (map_of m ''incident_authority'') = Some HS_DEGRADED"
    by (rule recover_ok[OF assms(2)]) (use d k(2) z ne in auto)
  then show ?thesis using assms(5) k(3,4) z(1) by auto
qed


definition demo_blocked :: node where
  "demo_blocked = offer_all demo_library demo_codec [demo_item ''bad'', demo_item ''c''] (demo_node demo_watch)"

lemma demo_blocked_reachable: "spool_reachable demo_codec h (nod_spool demo_blocked, eng)"
proof -
  have "nod_spool demo_blocked = snd (enqueue demo_codec (demo_item ''c'') 10 (snd (enqueue demo_codec (demo_item ''bad'') 10 demo_empty_spool)))"
    by code_simp
  moreover have "spool_reachable demo_codec h (demo_empty_spool, eng)"
    unfolding demo_empty_spool_def by (rule sr_init[of 3 9 1]) (simp add: spool_init_def)
  ultimately show ?thesis by (simp del: append.simps) (blast intro: sr_step ss_enqueue demo_codec_ok)
qed


end
