(* ===== verification/Configuration.thy ===== *)
theory Configuration
  imports Artifacts
begin

text \<open>
  The configuration life cycle: \<^verbatim>\<open>ConfigurationStore\<close> of \<^verbatim>\<open>src/src/sentinel_edge/storage/sqlite_store.py\<close> (staged
  bundles, the active and last-known-good pointers, the activation history) and \<^verbatim>\<open>ConfigurationManager\<close> of
  \<^verbatim>\<open>src/src/sentinel_edge/configuration/manager.py\<close> (validate, stage, self-test, activate, canary, roll back).

  A row keeps the bundle its payload column encodes. The random identifiers and the clock readings of the
  activation records are arguments. The self-test and the canary are arguments too, as they are in the
  source; either may raise.
\<close>

section \<open>The store\<close>

record bundle_row =
  bnr_key :: string
  bnr_state :: ConfigurationState
  bnr_sha256 :: string
  bnr_artifact_ref :: string
  bnr_bundle :: ConfigurationBundle

record configuration_store =
  cst_bundles :: "bundle_row list"
  cst_activations :: "ConfigurationActivationRecord list"
  cst_active :: "string option"
  cst_last_known_good :: "string option"

definition empty_configuration :: configuration_store where
  "empty_configuration = \<lparr>cst_bundles = [], cst_activations = [], cst_active = None, cst_last_known_good = None\<rparr>"

definition bundle_key :: "ConfigurationBundle \<Rightarrow> string" where
  "bundle_key b = cfb_bundle_id b @ ''@'' @ cfb_version b"

definition activation_key :: "ConfigurationActivationRecord \<Rightarrow> string" where
  "activation_key a = cfa_bundle_id a @ ''@'' @ cfa_version a"

definition row_for_key :: "configuration_store \<Rightarrow> string \<Rightarrow> bundle_row option" where
  "row_for_key cs k = find (\<lambda>r. bnr_key r = k) (cst_bundles cs)"

definition store_stage :: "ConfigurationBundle \<Rightarrow> string \<Rightarrow> string \<Rightarrow> configuration_store \<Rightarrow> configuration_store result" where
  "store_stage b sha artifact_ref cs =
     (case row_for_key cs (bundle_key b) of
        Some row \<Rightarrow> if bnr_sha256 row \<noteq> sha then Inl (ValueError ''configuration identity is immutable'') else Inr cs
      | None \<Rightarrow> Inr (cs\<lparr>cst_bundles := cst_bundles cs @ [\<lparr>bnr_key = bundle_key b, bnr_state = CF_STAGED, bnr_sha256 = sha,
          bnr_artifact_ref = artifact_ref, bnr_bundle = b\<rparr>]\<rparr>))"

definition bundle_for_key :: "configuration_store \<Rightarrow> string option \<Rightarrow> ConfigurationBundle option" where
  "bundle_for_key cs k = (case k of None \<Rightarrow> None | Some k \<Rightarrow> map_option bnr_bundle (row_for_key cs k))"

definition active :: "configuration_store \<Rightarrow> ConfigurationBundle option" where
  "active cs = bundle_for_key cs (cst_active cs)"

definition last_known_good :: "configuration_store \<Rightarrow> ConfigurationBundle option" where
  "last_known_good cs = bundle_for_key cs (cst_last_known_good cs)"

definition set_state :: "string \<Rightarrow> ConfigurationState \<Rightarrow> configuration_store \<Rightarrow> configuration_store" where
  "set_state k s cs = cs\<lparr>cst_bundles := map (\<lambda>r. if bnr_key r = k then r\<lparr>bnr_state := s\<rparr> else r) (cst_bundles cs)\<rparr>"

definition insert_activation :: "ConfigurationActivationRecord \<Rightarrow> configuration_store \<Rightarrow> configuration_store result" where
  "insert_activation a cs =
     (if \<exists>x \<in> set (cst_activations cs). cfa_activation_id x = cfa_activation_id a
      then Inl (IntegrityError ''configuration_activations'')
      else Inr (set_state (activation_key a) (cfa_state a) (cs\<lparr>cst_activations := cst_activations cs @ [a]\<rparr>)))"

definition store_record :: "ConfigurationActivationRecord \<Rightarrow> configuration_store \<Rightarrow> configuration_store result" where
  "store_record = insert_activation"

definition store_activate :: "ConfigurationBundle \<Rightarrow> ConfigurationActivationRecord \<Rightarrow> configuration_store \<Rightarrow> configuration_store result" where
  "store_activate b a cs =
     (let k = bundle_key b;
          previous = cst_active cs;
          cs1 = (case previous of
              None \<Rightarrow> cs
            | Some p \<Rightarrow> if p \<noteq> [] \<and> p \<noteq> k then set_state p CF_LAST_KNOWN_GOOD cs else cs)
      in bind_result (insert_activation a cs1) (\<lambda>cs2. Inr (cs2\<lparr>cst_active := Some k,
           cst_last_known_good := (if previous \<noteq> Some k then previous else cst_last_known_good cs2)\<rparr>)))"

definition store_rollback :: "ConfigurationBundle \<Rightarrow> ConfigurationBundle option \<Rightarrow> ConfigurationActivationRecord \<Rightarrow>
    configuration_store \<Rightarrow> configuration_store result" where
  "store_rollback candidate previous a cs =
     (let previous_key = map_option bundle_key previous
      in bind_result (insert_activation a cs) (\<lambda>cs1.
           let cs2 = (case previous_key of None \<Rightarrow> cs1 | Some p \<Rightarrow> if p \<noteq> [] then set_state p CF_ACTIVE cs1 else cs1);
               cs3 = cs2\<lparr>cst_active := previous_key, cst_last_known_good := previous_key\<rparr>
           in Inr (set_state (bundle_key candidate) CF_ROLLED_BACK cs3)))"

definition activation_records :: "library \<Rightarrow> configuration_store \<Rightarrow> ConfigurationActivationRecord list" where
  "activation_records lib cs =
     sort_key (\<lambda>a. (lib_isoformat lib (cfa_activated_at a), cfa_activation_id a)) (cst_activations cs)"

section \<open>The manager\<close>

record configuration_manager =
  cmg_store :: configuration_store
  cmg_artifacts :: artifact_store

text \<open>A configuration arrives as an instance or as plain data, which is validated first.\<close>

datatype raw_bundle = Instance ConfigurationBundle | Plain ConfigurationBundle

definition bad_hashes :: "(string, string) dict \<Rightarrow> string list" where
  "bad_hashes d = map fst (filter (\<lambda>(_, v). \<not> lower_hex_digest v) d)"

fun join :: "string \<Rightarrow> string list \<Rightarrow> string" where
  "join sep [] = []"
| "join sep [x] = x"
| "join sep (x # y # ys) = x @ sep @ join sep (y # ys)"

definition check_hashes :: "string \<Rightarrow> (string, string) dict \<Rightarrow> unit result" where
  "check_hashes label d =
     ensure (bad_hashes d = []) (ValueError (''invalid '' @ label @ '' SHA-256 for: '' @ join '','' (sort (bad_hashes d))))"

definition validate :: "raw_bundle \<Rightarrow> ConfigurationBundle result" where
  "validate raw =
     bind_result (case raw of Instance b \<Rightarrow> Inr b | Plain b \<Rightarrow> bind_result (validate_bundle b) (\<lambda>_. Inr b)) (\<lambda>b.
       bind_result (check_hashes ''model'' (cfb_model_hashes b)) (\<lambda>_.
         bind_result (check_hashes ''source'' (cfb_source_hashes b)) (\<lambda>_. Inr b)))"

type_synonym self_test = "ConfigurationBundle \<Rightarrow> (bool \<times> string list) result"

text \<open>
  \<^verbatim>\<open>int(value)\<close> on a JSON value; \<open>int_of_text\<close> is \<^verbatim>\<open>int\<close> on a string, which raises when the text is not a
  decimal integer.
\<close>

definition int_of_text :: "string \<Rightarrow> int option" where
  "int_of_text s =
     (let t = strip s;
          (neg, ds) = (case t of c # cs \<Rightarrow> if c = CHR ''-'' then (True, cs) else if c = CHR ''+'' then (False, cs) else (False, t)
             | [] \<Rightarrow> (False, []));
          groups = split_on (CHR ''_'') ds
      in if list_all (\<lambda>g. g \<noteq> [] \<and> list_all (\<lambda>c. CHR ''0'' \<le> c \<and> c \<le> CHR ''9'') g) groups
         then Some ((if neg then - 1 else 1) *
           foldl (\<lambda>n c. 10 * n + (of_char c - 48)) 0 (concat groups))
         else None)"

fun py_int :: "json \<Rightarrow> int result" where
  "py_int (JInt n) = Inr n"
| "py_int (JBool b) = Inr (if b then 1 else 0)"
| "py_int (JFloat q) = Inr (if 0 \<le> q then \<lfloor>q\<rfloor> else \<lceil>q\<rceil>)"
| "py_int (JStr s) = (case int_of_text s of Some n \<Rightarrow> Inr n | None \<Rightarrow> Inl (ValueError ''invalid literal for int() with base 10''))"
| "py_int JNull = Inl (TypeError ''int() argument must be a string or a number'')"
| "py_int (JArr _) = Inl (TypeError ''int() argument must be a string or a number'')"
| "py_int (JObj _) = Inl (TypeError ''int() argument must be a string or a number'')"

definition available_memory :: "ConfigurationBundle \<Rightarrow> int result" where
  "available_memory b = py_int (case map_of (cfb_settings b) ''available_memory_mb'' of None \<Rightarrow> JInt 1024 | Some v \<Rightarrow> v)"

definition default_self_test :: self_test where
  "default_self_test b =
     (let ws = cfb_workloads b;
          test = (\<lambda>over_memory. let reasons =
              (if \<not> distinct (map ws_profile_id ws) then [''duplicate_profile_id''] else []) @
              (if \<not> list_ex (\<lambda>w. ws_tier w = TIER_A_IMMEDIATE) ws then [''tier_a_workload_missing''] else []) @
              (if over_memory then [''workload_exceeds_memory_envelope''] else []) @
              (if list_ex (\<lambda>w. ws_deadline_ms w < ws_estimated_cost_ms w) ws then [''service_budget_exceeds_deadline''] else [])
            in (reasons = [], sort reasons))
      in if ws = [] then Inr (test False)
         else bind_result (available_memory b) (\<lambda>m. Inr (test (list_ex (\<lambda>w. m < ws_memory_mb w) ws))))"

definition configuration_scope :: "ConfigurationBundle \<Rightarrow> ArtifactScope" where
  "configuration_scope b = \<lparr>asc_source_id = None, asc_incident_id = None,
     asc_scenario_run_id = Some (''configuration:'' @ cfb_bundle_id b), asc_release_candidate_id = None\<rparr>"

definition bundle_bytes :: "library \<Rightarrow> ConfigurationBundle \<Rightarrow> string" where
  "bundle_bytes lib b = canonical_json_bytes lib (lib_model_dump lib (V_bundle b))"

definition stage :: "library \<Rightarrow> string option \<Rightarrow> datetime \<Rightarrow> raw_bundle \<Rightarrow> configuration_manager \<Rightarrow>
    (ConfigurationBundle \<times> string \<times> string) result \<times> configuration_manager" where
  "stage lib fault now raw mg =
     (case validate raw of
        Inl e \<Rightarrow> (Inl e, mg)
      | Inr b \<Rightarrow>
          (case put_bytes lib fault (bundle_bytes lib b) ''application/json'' False configuration_bundle (configuration_scope b) now
              (cmg_artifacts mg) of
             (Inl e, ars) \<Rightarrow> (Inl e, mg\<lparr>cmg_artifacts := ars\<rparr>)
           | (Inr r, ars) \<Rightarrow>
               (case store_stage b (ref_sha256 r) (''sha256:'' @ ref_sha256 r) (cmg_store mg) of
                  Inl e \<Rightarrow> (Inl e, mg\<lparr>cmg_artifacts := ars\<rparr>)
                | Inr cs \<Rightarrow> (Inr (b, ref_sha256 r, ref_relative_path r), mg\<lparr>cmg_artifacts := ars, cmg_store := cs\<rparr>))))"

definition activation_for :: "uuid \<Rightarrow> datetime \<Rightarrow> ConfigurationBundle \<Rightarrow> string \<Rightarrow> string \<Rightarrow> ConfigurationBundle option \<Rightarrow>
    ConfigurationState \<Rightarrow> string list \<Rightarrow> ConfigurationActivationRecord" where
  "activation_for aid t b sha diff previous state reasons = \<lparr>cfa_activation_id = aid, cfa_bundle_id = cfb_bundle_id b,
     cfa_version = cfb_version b, cfa_state = state, cfa_actor = cfb_actor b, cfa_bundle_sha256 = sha, cfa_diff_sha256 = diff,
     cfa_previous_bundle_id = map_option cfb_bundle_id previous, cfa_reason_codes = reasons, cfa_activated_at = t\<rparr>"

definition diff_digest :: "library \<Rightarrow> ConfigurationBundle option \<Rightarrow> ConfigurationBundle \<Rightarrow> string" where
  "diff_digest lib previous b = digest lib (JObj
     [(''from'', case previous of None \<Rightarrow> JObj [] | Some p \<Rightarrow> lib_model_dump lib (V_bundle p)),
      (''to'', lib_model_dump lib (V_bundle b))])"

definition save :: "configuration_manager \<Rightarrow> configuration_store result \<Rightarrow> 'a \<Rightarrow> 'a result \<times> configuration_manager" where
  "save mg out x = (case out of Inl e \<Rightarrow> (Inl e, mg) | Inr cs \<Rightarrow> (Inr x, mg\<lparr>cmg_store := cs\<rparr>))"

record activation_inputs =
  acx_first_id :: uuid
  acx_first_time :: datetime
  acx_second_id :: uuid
  acx_second_time :: datetime
  acx_fault :: "string option"
  acx_now :: datetime

text \<open>The canary after the activation, and the roll back when it fails.\<close>

definition run_canary :: "self_test option \<Rightarrow> activation_inputs \<Rightarrow> ConfigurationBundle \<Rightarrow> string \<Rightarrow> string \<Rightarrow> ConfigurationBundle option \<Rightarrow>
    ConfigurationActivationRecord \<Rightarrow> configuration_manager \<Rightarrow> ConfigurationActivationRecord result \<times> configuration_manager" where
  "run_canary canary inp b sha diff previous activated mg =
     (case canary of
        None \<Rightarrow> (Inr activated, mg)
      | Some c \<Rightarrow>
          (case c b of
             Inl e \<Rightarrow> (Inl e, mg)
           | Inr (canary_passed, canary_reasons) \<Rightarrow>
               if canary_passed then (Inr activated, mg)
               else
                 let rolled_back = activation_for (acx_second_id inp) (acx_second_time inp) b sha diff previous
                       CF_ROLLED_BACK (''canary_failed'' # canary_reasons)
                 in save mg (store_rollback b previous rolled_back (cmg_store mg)) rolled_back))"

definition activate :: "library \<Rightarrow> self_test \<Rightarrow> self_test option \<Rightarrow> activation_inputs \<Rightarrow> raw_bundle \<Rightarrow> configuration_manager \<Rightarrow>
    ConfigurationActivationRecord result \<times> configuration_manager" where
  "activate lib test canary inp raw mg =
     (let previous = active (cmg_store mg) in
      case stage lib (acx_fault inp) (acx_now inp) raw mg of
        (Inl e, mg1) \<Rightarrow> (Inl e, mg1)
      | (Inr (b, sha, _), mg1) \<Rightarrow>
          (let diff = diff_digest lib previous b;
               first = activation_for (acx_first_id inp) (acx_first_time inp) b sha diff previous;
               rejected = (\<lambda>reasons. first CF_REJECTED (''self_test_failed'' # reasons));
               activated = first CF_ACTIVE [''self_test_passed''] in
           case test b of
             Inl e \<Rightarrow> (Inl e, mg1)
           | Inr (passed, reasons) \<Rightarrow>
               if \<not> passed then save mg1 (store_record (rejected reasons) (cmg_store mg1)) (rejected reasons)
               else (case save mg1 (store_activate b activated (cmg_store mg1)) activated of
                  (Inl e, mg2) \<Rightarrow> (Inl e, mg2)
                | (Inr _, mg2) \<Rightarrow> run_canary canary inp b sha diff previous activated mg2)))"

end
