(* ===== verification/Configuration_Claims.thy ===== *)
theory Configuration_Claims
  imports Configuration Artifact_Claims
begin

text \<open>
  The configuration life cycle: what each outcome of an activation does to the active and last-known-good
  pointers, and that the stored bytes of every staged configuration survive garbage collection.
\<close>

section \<open>The store\<close>

definition keys_ok :: "configuration_store \<Rightarrow> bool" where
  "keys_ok cs \<longleftrightarrow> distinct (map bnr_key (cst_bundles cs)) \<and> (\<forall>r \<in> set (cst_bundles cs). bnr_key r = bundle_key (bnr_bundle r)) \<and>
     (\<forall>k. cst_active cs = Some k \<or> cst_last_known_good cs = Some k \<longrightarrow> k \<in> set (map bnr_key (cst_bundles cs)))"

lemma find_append: "find P (xs @ ys) = (case find P xs of None \<Rightarrow> find P ys | Some x \<Rightarrow> Some x)"
  by (induction xs) auto

lemma row_for_key_Some: "row_for_key cs k = Some r \<Longrightarrow> r \<in> set (cst_bundles cs) \<and> bnr_key r = k"
  by (auto simp: row_for_key_def find_Some_iff)

lemma row_for_key_None: "row_for_key cs k = None \<longleftrightarrow> k \<notin> set (map bnr_key (cst_bundles cs))"
  by (force simp: row_for_key_def find_None_iff)

lemma find_map_keys:
  assumes "\<And>r. bnr_key (f r) = bnr_key r"
  shows "find (\<lambda>r. bnr_key r = k) (map f rs) = map_option f (find (\<lambda>r. bnr_key r = k) rs)"
  by (induction rs) (auto simp: assms)

lemma row_set_state: "row_for_key (set_state k s cs) k' = map_option (\<lambda>r. if k' = k then r\<lparr>bnr_state := s\<rparr> else r) (row_for_key cs k')"
proof (cases "row_for_key cs k'")
  case None
  then show ?thesis by (simp add: row_for_key_def set_state_def find_map_keys)
next
  case (Some r)
  with row_for_key_Some[OF Some] show ?thesis by (simp add: row_for_key_def set_state_def find_map_keys)
qed

lemma set_state_frame [simp]:
  "cst_active (set_state k s cs) = cst_active cs" "cst_last_known_good (set_state k s cs) = cst_last_known_good cs"
  "cst_activations (set_state k s cs) = cst_activations cs" "map bnr_key (cst_bundles (set_state k s cs)) = map bnr_key (cst_bundles cs)"
  "map bnr_sha256 (cst_bundles (set_state k s cs)) = map bnr_sha256 (cst_bundles cs)"
  "map bnr_bundle (cst_bundles (set_state k s cs)) = map bnr_bundle (cst_bundles cs)"
  by (simp_all add: set_state_def comp_def if_distrib cong: if_cong)

lemma keys_ok_alt:
  "keys_ok cs \<longleftrightarrow> distinct (map bnr_key (cst_bundles cs)) \<and> map bnr_key (cst_bundles cs) = map bundle_key (map bnr_bundle (cst_bundles cs)) \<and>
     (\<forall>k. cst_active cs = Some k \<or> cst_last_known_good cs = Some k \<longrightarrow> k \<in> set (map bnr_key (cst_bundles cs)))"
  by (auto simp: keys_ok_def)

lemma keys_ok_set_state [simp]: "keys_ok (set_state k s cs) = keys_ok cs"
  by (simp only: keys_ok_alt set_state_frame)

lemma active_key:
  assumes "keys_ok cs"
  shows "map_option bundle_key (active cs) = cst_active cs"
proof (cases "cst_active cs")
  case None
  then show ?thesis by (simp add: active_def bundle_for_key_def)
next
  case (Some k)
  then have "k \<in> set (map bnr_key (cst_bundles cs))" using assms unfolding keys_ok_def by blast
  then obtain r where "row_for_key cs k = Some r" using row_for_key_None[of cs k] by fastforce
  with row_for_key_Some[OF this] Some assms show ?thesis by (auto simp: active_def bundle_for_key_def keys_ok_def)
qed

lemma store_stage_ok:
  assumes "store_stage b sha ref cs = Inr cs'" "keys_ok cs"
  shows "keys_ok cs'" "cst_active cs' = cst_active cs" "cst_last_known_good cs' = cst_last_known_good cs"
    "cst_activations cs' = cst_activations cs" "\<exists>r. row_for_key cs' (bundle_key b) = Some r \<and> bnr_sha256 r = sha"
    "set (map bnr_sha256 (cst_bundles cs')) \<subseteq> insert sha (set (map bnr_sha256 (cst_bundles cs)))"
proof -
  have "keys_ok cs' \<and> cst_active cs' = cst_active cs \<and> cst_last_known_good cs' = cst_last_known_good cs \<and>
    cst_activations cs' = cst_activations cs \<and> (\<exists>r. row_for_key cs' (bundle_key b) = Some r \<and> bnr_sha256 r = sha) \<and>
    set (map bnr_sha256 (cst_bundles cs')) \<subseteq> insert sha (set (map bnr_sha256 (cst_bundles cs)))"
  proof (cases "row_for_key cs (bundle_key b)")
    case None
    let ?row = "\<lparr>bnr_key = bundle_key b, bnr_state = CF_STAGED, bnr_sha256 = sha, bnr_artifact_ref = ref, bnr_bundle = b\<rparr>"
    have cs': "cs' = cs\<lparr>cst_bundles := cst_bundles cs @ [?row]\<rparr>" using assms(1) None by (simp add: store_stage_def)
    have "row_for_key cs' (bundle_key b) = Some ?row"
      using None by (simp add: cs' row_for_key_def find_append)
    with None assms(2) show ?thesis unfolding row_for_key_None by (auto simp: cs' keys_ok_def)
  next
    case (Some r)
    with assms show ?thesis by (auto simp: store_stage_def split: if_splits)
  qed
  then show "keys_ok cs'" "cst_active cs' = cst_active cs" "cst_last_known_good cs' = cst_last_known_good cs"
    "cst_activations cs' = cst_activations cs" "\<exists>r. row_for_key cs' (bundle_key b) = Some r \<and> bnr_sha256 r = sha"
    "set (map bnr_sha256 (cst_bundles cs')) \<subseteq> insert sha (set (map bnr_sha256 (cst_bundles cs)))" by simp_all
qed

lemma insert_activation_ok:
  assumes "insert_activation a cs = Inr cs'"
  shows "cs' = set_state (activation_key a) (cfa_state a) (cs\<lparr>cst_activations := cst_activations cs @ [a]\<rparr>)"
  using assms by (auto simp: insert_activation_def split: if_splits)

lemma activations_frame [simp]:
  "row_for_key (cs\<lparr>cst_activations := x\<rparr>) k = row_for_key cs k" "keys_ok (cs\<lparr>cst_activations := x\<rparr>) = keys_ok cs"
  by (simp_all add: row_for_key_def keys_ok_def)

lemma row_pointers [simp]:
  "row_for_key (cs\<lparr>cst_active := x, cst_last_known_good := y\<rparr>) k = row_for_key cs k"
  by (simp add: row_for_key_def)

lemma key_staged: "row_for_key cs k = Some r \<Longrightarrow> k \<in> set (map bnr_key (cst_bundles cs))"
  using row_for_key_None[of cs k] by auto

lemma activate_keys_ok:
  "keys_ok cs \<Longrightarrow> k \<in> set (map bnr_key (cst_bundles cs)) \<Longrightarrow>
     (\<forall>k'. l = Some k' \<longrightarrow> k' \<in> set (map bnr_key (cst_bundles cs))) \<Longrightarrow> keys_ok (cs\<lparr>cst_active := Some k, cst_last_known_good := l\<rparr>)"
  unfolding keys_ok_def by auto

lemma store_activate_ok:
  assumes "store_activate b a cs = Inr cs'" "keys_ok cs" "row_for_key cs (bundle_key b) = Some r" "activation_key a = bundle_key b"
  shows "keys_ok cs'" "cst_active cs' = Some (bundle_key b)"
    "cst_last_known_good cs' = (if cst_active cs \<noteq> Some (bundle_key b) then cst_active cs else cst_last_known_good cs)"
    "cst_activations cs' = cst_activations cs @ [a]" "map_option bnr_state (row_for_key cs' (bundle_key b)) = Some (cfa_state a)"
    "map bnr_sha256 (cst_bundles cs') = map bnr_sha256 (cst_bundles cs)" "map_option bnr_sha256 (row_for_key cs' (bundle_key b)) = Some (bnr_sha256 r)"
proof -
  define cs1 where "cs1 = (case cst_active cs of None \<Rightarrow> cs
     | Some p \<Rightarrow> if p \<noteq> [] \<and> p \<noteq> bundle_key b then set_state p CF_LAST_KNOWN_GOOD cs else cs)"
  let ?l = "if cst_active cs \<noteq> Some (bundle_key b) then cst_active cs else cst_last_known_good cs"
  have one: "keys_ok cs1" "cst_active cs1 = cst_active cs" "cst_last_known_good cs1 = cst_last_known_good cs"
    "cst_activations cs1 = cst_activations cs" "map bnr_sha256 (cst_bundles cs1) = map bnr_sha256 (cst_bundles cs)"
    "map bnr_key (cst_bundles cs1) = map bnr_key (cst_bundles cs)" "row_for_key cs1 (bundle_key b) = Some r"
    using assms(2,3) by (auto simp: cs1_def row_set_state split: option.splits)
  obtain cs2 where "insert_activation a cs1 = Inr cs2"
    and cs': "cs' = cs2\<lparr>cst_active := Some (bundle_key b), cst_last_known_good := (if cst_active cs \<noteq> Some (bundle_key b) then cst_active cs else cst_last_known_good cs2)\<rparr>"
    using assms(1) by (auto simp: store_activate_def Let_def cs1_def bind_result_Inr)
  then have cs2: "cs2 = set_state (bundle_key b) (cfa_state a) (cs1\<lparr>cst_activations := cst_activations cs1 @ [a]\<rparr>)"
    using insert_activation_ok assms(4) by metis
  have c: "cs' = cs2\<lparr>cst_active := Some (bundle_key b), cst_last_known_good := ?l\<rparr>" using cs' by (simp add: cs2 one)
  have mem: "bundle_key b \<in> set (map bnr_key (cst_bundles cs2))" using key_staged[OF assms(3)] by (simp add: cs2 one)
  have l: "\<forall>k'. ?l = Some k' \<longrightarrow> k' \<in> set (map bnr_key (cst_bundles cs2))"
    using assms(2) unfolding keys_ok_def cs2 set_state_frame by (auto simp: one)
  show "keys_ok cs'" unfolding c using mem l by (intro activate_keys_ok) (simp_all add: cs2 one)
  show "cst_active cs' = Some (bundle_key b)" "cst_last_known_good cs' = ?l" unfolding c by simp_all
  show "cst_activations cs' = cst_activations cs @ [a]" "map bnr_sha256 (cst_bundles cs') = map bnr_sha256 (cst_bundles cs)"
    "map_option bnr_state (row_for_key cs' (bundle_key b)) = Some (cfa_state a)"
    "map_option bnr_sha256 (row_for_key cs' (bundle_key b)) = Some (bnr_sha256 r)"
    unfolding c by (simp_all add: cs2 one row_set_state)
qed

lemma previous_staged:
  assumes "keys_ok cs" "cst_active cs1 = cst_active cs" "keys_ok cs2" "cst_active cs2 = Some k"
    "cst_last_known_good cs2 = (if cst_active cs1 \<noteq> Some k then cst_active cs1 else l)"
  shows "\<forall>p. map_option bundle_key (active cs) = Some p \<longrightarrow> p \<in> set (map bnr_key (cst_bundles cs2))"
proof (intro allI impI)
  fix p assume "map_option bundle_key (active cs) = Some p"
  then have "cst_active cs1 = Some p" unfolding active_key[OF assms(1)] assms(2) .
  then have "cst_active cs2 = Some p \<or> cst_last_known_good cs2 = Some p" using assms(4,5) by auto
  then show "p \<in> set (map bnr_key (cst_bundles cs2))" using assms(3) unfolding keys_ok_def by blast
qed

lemma store_record_ok:
  assumes "store_record a cs = Inr cs'" "keys_ok cs" "row_for_key cs (bundle_key b) = Some r" "activation_key a = bundle_key b"
  shows "keys_ok cs'" "cst_active cs' = cst_active cs" "cst_last_known_good cs' = cst_last_known_good cs"
    "cst_activations cs' = cst_activations cs @ [a]" "map_option bnr_state (row_for_key cs' (bundle_key b)) = Some (cfa_state a)"
    "map bnr_sha256 (cst_bundles cs') = map bnr_sha256 (cst_bundles cs)" "map_option bnr_sha256 (row_for_key cs' (bundle_key b)) = Some (bnr_sha256 r)"
  using assms insert_activation_ok[of a cs cs'] by (simp_all add: store_record_def row_set_state)

lemma rollback_keys_ok:
  "keys_ok cs \<Longrightarrow> \<forall>k. p = Some k \<longrightarrow> k \<in> set (map bnr_key (cst_bundles cs)) \<Longrightarrow> keys_ok (cs\<lparr>cst_active := p, cst_last_known_good := p\<rparr>)"
  unfolding keys_ok_def by auto

lemma store_rollback_ok:
  assumes "store_rollback b previous a cs = Inr cs'" "keys_ok cs" "row_for_key cs (bundle_key b) = Some r" "activation_key a = bundle_key b"
    "\<forall>k. map_option bundle_key previous = Some k \<longrightarrow> k \<in> set (map bnr_key (cst_bundles cs))"
  shows "keys_ok cs'" "cst_active cs' = map_option bundle_key previous" "cst_last_known_good cs' = map_option bundle_key previous"
    "cst_activations cs' = cst_activations cs @ [a]" "map_option bnr_state (row_for_key cs' (bundle_key b)) = Some CF_ROLLED_BACK"
    "map bnr_sha256 (cst_bundles cs') = map bnr_sha256 (cst_bundles cs)" "map_option bnr_sha256 (row_for_key cs' (bundle_key b)) = Some (bnr_sha256 r)"
proof -
  let ?p = "map_option bundle_key previous"
  obtain cs1 where i: "insert_activation a cs = Inr cs1" using assms(1) by (auto simp: store_rollback_def Let_def bind_result_Inr)
  then have cs1: "cs1 = set_state (bundle_key b) (cfa_state a) (cs\<lparr>cst_activations := cst_activations cs @ [a]\<rparr>)"
    using insert_activation_ok assms(4) by metis
  define cs2 where "cs2 = (case ?p of None \<Rightarrow> cs1 | Some p \<Rightarrow> if p \<noteq> [] then set_state p CF_ACTIVE cs1 else cs1)"
  have two: "keys_ok cs2" "cst_activations cs2 = cst_activations cs @ [a]" "map bnr_key (cst_bundles cs2) = map bnr_key (cst_bundles cs)"
    "map bnr_sha256 (cst_bundles cs2) = map bnr_sha256 (cst_bundles cs)" "\<exists>r'. row_for_key cs2 (bundle_key b) = Some r' \<and> bnr_sha256 r' = bnr_sha256 r"
    using assms(2,3) by (auto simp: cs2_def cs1 row_set_state split: option.splits)
  have c: "cs' = set_state (bundle_key b) CF_ROLLED_BACK (cs2\<lparr>cst_active := ?p, cst_last_known_good := ?p\<rparr>)"
    using assms(1) by (simp add: store_rollback_def Let_def i cs2_def)
  show "keys_ok cs'" unfolding c using assms(5) two by (simp add: rollback_keys_ok)
  show "cst_active cs' = ?p" "cst_last_known_good cs' = ?p" "cst_activations cs' = cst_activations cs @ [a]"
    "map bnr_sha256 (cst_bundles cs') = map bnr_sha256 (cst_bundles cs)"
    "map_option bnr_state (row_for_key cs' (bundle_key b)) = Some CF_ROLLED_BACK"
    "map_option bnr_sha256 (row_for_key cs' (bundle_key b)) = Some (bnr_sha256 r)"
    unfolding c using two by (auto simp: row_set_state)
qed

section \<open>Activation\<close>

lemma activation_for_simps [simp]:
  "activation_key (activation_for i t b sha d p st rs) = bundle_key b" "cfa_state (activation_for i t b sha d p st rs) = st"
  "cfa_bundle_sha256 (activation_for i t b sha d p st rs) = sha"
  by (simp_all add: activation_for_def activation_key_def bundle_key_def)

lemma put_bytes_sha: "put_bytes lib fault data media critical policy scope t st = (Inr r, st') \<Longrightarrow> ref_sha256 r = lib_sha256 lib data"
  by (auto simp: put_bytes_def register_in_def Let_def split: if_splits option.splits sum.splits)

lemma stage_ok:
  assumes "stage lib fault now raw mg = (Inr (b, sha, path), mg')" "keys_ok (cmg_store mg)"
  shows "validate raw = Inr b" "sha = lib_sha256 lib (bundle_bytes lib b)" "keys_ok (cmg_store mg')"
    "cst_active (cmg_store mg') = cst_active (cmg_store mg)" "cst_last_known_good (cmg_store mg') = cst_last_known_good (cmg_store mg)"
    "cst_activations (cmg_store mg') = cst_activations (cmg_store mg)"
    "\<exists>r. row_for_key (cmg_store mg') (bundle_key b) = Some r \<and> bnr_sha256 r = sha"
    "set (map bnr_sha256 (cst_bundles (cmg_store mg'))) \<subseteq> insert sha (set (map bnr_sha256 (cst_bundles (cmg_store mg))))"
proof -
  obtain r ars cs where s: "validate raw = Inr b" "store_stage b (ref_sha256 r) (''sha256:'' @ ref_sha256 r) (cmg_store mg) = Inr cs"
    "put_bytes lib fault (bundle_bytes lib b) ''application/json'' False configuration_bundle (configuration_scope b) now (cmg_artifacts mg) = (Inr r, ars)"
    "sha = ref_sha256 r" "cmg_store mg' = cs"
    using assms(1) by (auto simp: stage_def split: sum.splits prod.splits)
  show "validate raw = Inr b" using s(1) .
  show "sha = lib_sha256 lib (bundle_bytes lib b)" using put_bytes_sha[OF s(3)] s(4) by simp
  from store_stage_ok[OF s(2) assms(2)]
  show "keys_ok (cmg_store mg')"
    "cst_active (cmg_store mg') = cst_active (cmg_store mg)" "cst_last_known_good (cmg_store mg') = cst_last_known_good (cmg_store mg)"
    "cst_activations (cmg_store mg') = cst_activations (cmg_store mg)"
    "\<exists>r. row_for_key (cmg_store mg') (bundle_key b) = Some r \<and> bnr_sha256 r = sha"
    "set (map bnr_sha256 (cst_bundles (cmg_store mg'))) \<subseteq> insert sha (set (map bnr_sha256 (cst_bundles (cmg_store mg))))"
    unfolding s(4,5) by blast+
qed

lemma save_Inr: "save mg out x = (Inr y, mg') \<longleftrightarrow> (\<exists>cs. out = Inr cs \<and> y = x \<and> mg' = mg\<lparr>cmg_store := cs\<rparr>)"
  by (auto simp: save_def split: sum.splits)

text \<open>The three ways an activation returns.\<close>

lemma activate_cases:
  assumes "activate lib test canary inp raw mg = (Inr rec, mg')" "keys_ok (cmg_store mg)"
  obtains (rejected) b rs mg1 where "stage lib (acx_fault inp) (acx_now inp) raw mg = (Inr (b, lib_sha256 lib (bundle_bytes lib b), artifact_path (lib_sha256 lib (bundle_bytes lib b))), mg1)"
      "test b = Inr (False, rs)" "cfa_state rec = CF_REJECTED" "activation_key rec = bundle_key b"
      "store_record rec (cmg_store mg1) = Inr (cmg_store mg')"
  | (activated) b rs mg1 where "stage lib (acx_fault inp) (acx_now inp) raw mg = (Inr (b, lib_sha256 lib (bundle_bytes lib b), artifact_path (lib_sha256 lib (bundle_bytes lib b))), mg1)"
      "test b = Inr (True, rs)" "cfa_state rec = CF_ACTIVE" "activation_key rec = bundle_key b" "case canary of None \<Rightarrow> True | Some c \<Rightarrow> \<exists>crs. c b = Inr (True, crs)"
      "store_activate b rec (cmg_store mg1) = Inr (cmg_store mg')"
  | (rolled_back) b rs c crs mg1 a cs2 where "stage lib (acx_fault inp) (acx_now inp) raw mg = (Inr (b, lib_sha256 lib (bundle_bytes lib b), artifact_path (lib_sha256 lib (bundle_bytes lib b))), mg1)"
      "test b = Inr (True, rs)" "canary = Some c" "c b = Inr (False, crs)" "cfa_state rec = CF_ROLLED_BACK" "activation_key rec = bundle_key b"
      "cfa_state a = CF_ACTIVE" "activation_key a = bundle_key b" "store_activate b a (cmg_store mg1) = Inr cs2"
      "store_rollback b (active (cmg_store mg)) rec cs2 = Inr (cmg_store mg')"
proof -
  have path: "path = artifact_path sha" if "stage lib fault now raw mg = (Inr (b, sha, path), mg1)" for fault now b sha path mg1
    using that by (auto simp: stage_def put_bytes_def register_in_def Let_def split: sum.splits prod.splits if_splits option.splits)
  obtain b sha path mg1 where st: "stage lib (acx_fault inp) (acx_now inp) raw mg = (Inr (b, sha, path), mg1)"
    using assms(1) by (auto simp: activate_def Let_def split: prod.splits sum.splits)
  note st' = st[unfolded path[OF st] stage_ok(2)[OF st assms(2)]]
  let ?prev = "active (cmg_store mg)"
  let ?diff = "diff_digest lib ?prev b"
  let ?act = "activation_for (acx_first_id inp) (acx_first_time inp) b sha ?diff ?prev CF_ACTIVE [''self_test_passed'']"
  obtain passed rs where t: "test b = Inr (passed, rs)"
    using assms(1) st by (auto simp: activate_def Let_def split: sum.splits prod.splits)
  show thesis
  proof (cases passed)
    case False
    with assms(1) st t show thesis
      by (intro rejected[OF st', of rs]) (auto simp: activate_def Let_def save_Inr)
  next
    case True
    obtain cs2 where sa: "store_activate b ?act (cmg_store mg1) = Inr cs2"
      using assms(1) st t True by (auto simp: activate_def Let_def save_def split: sum.splits)
    have rc: "run_canary canary inp b sha ?diff ?prev ?act (mg1\<lparr>cmg_store := cs2\<rparr>) = (Inr rec, mg')"
      using assms(1) st t True sa by (simp add: activate_def Let_def save_def)
    show thesis
    proof (cases "case canary of None \<Rightarrow> True | Some c \<Rightarrow> \<exists>crs. c b = Inr (True, crs)")
      case True
      with rc have "rec = ?act" "cmg_store mg' = cs2" by (auto simp: run_canary_def split: option.splits)
      with True t \<open>passed\<close> sa show thesis by (intro activated[OF st', of rs]) simp_all
    next
      case False
      then obtain c crs where c: "canary = Some c" "c b = Inr (False, crs)"
        using rc by (auto simp: run_canary_def split: option.splits sum.splits)
      with rc have r: "rec = activation_for (acx_second_id inp) (acx_second_time inp) b sha ?diff ?prev CF_ROLLED_BACK (''canary_failed'' # crs)"
        "store_rollback b ?prev rec cs2 = Inr (cmg_store mg')"
        by (auto simp: run_canary_def Let_def save_Inr)
      show thesis using r c t \<open>passed\<close> sa by (intro rolled_back[OF st', of rs c crs ?act cs2]) simp_all
    qed
  qed
qed

text \<open>
  C20. What an activation does. When it returns, the row of the candidate carries the digest of the
  candidate's canonical bytes and the state of the returned record, which is the only new entry of the
  history besides the activation that a failed canary revokes. ACTIVE is returned exactly when the
  self-test and the canary pass, and moves the active pointer to the candidate and the last-known-good
  pointer to the previously active bundle. REJECTED moves no pointer. ROLLED_BACK puts both pointers on the previously
  active bundle. A candidate that is itself the active bundle is therefore left active in the state
  REJECTED or ROLLED_BACK.
\<close>

theorem activation_outcome:
  assumes "keys_ok (cmg_store mg)" "activate lib test canary inp raw mg = (Inr rec, mg')"
    "cs = cmg_store mg" "cs' = cmg_store mg'"
  shows "\<exists>b. validate raw = Inr b \<and> keys_ok cs' \<and>
    map_option bnr_state (row_for_key cs' (bundle_key b)) = Some (cfa_state rec) \<and>
    map_option bnr_sha256 (row_for_key cs' (bundle_key b)) = Some (lib_sha256 lib (bundle_bytes lib b)) \<and>
    (cfa_state rec = CF_ACTIVE \<longleftrightarrow> (\<exists>rs. test b = Inr (True, rs)) \<and> (case canary of None \<Rightarrow> True | Some c \<Rightarrow> \<exists>rs. c b = Inr (True, rs))) \<and>
    (case cfa_state rec of
       CF_ACTIVE \<Rightarrow> cst_active cs' = Some (bundle_key b) \<and> cst_activations cs' = cst_activations cs @ [rec] \<and>
         cst_last_known_good cs' = (if cst_active cs \<noteq> Some (bundle_key b) then cst_active cs else cst_last_known_good cs)
     | CF_REJECTED \<Rightarrow> cst_active cs' = cst_active cs \<and> cst_last_known_good cs' = cst_last_known_good cs \<and>
         cst_activations cs' = cst_activations cs @ [rec]
     | CF_ROLLED_BACK \<Rightarrow> cst_active cs' = cst_active cs \<and> cst_last_known_good cs' = cst_active cs \<and>
         (\<exists>a. cfa_state a = CF_ACTIVE \<and> cst_activations cs' = cst_activations cs @ [a, rec])
     | _ \<Rightarrow> False)"
  using assms(2,1)
proof (cases rule: activate_cases)
  case (rejected b rs mg1)
  note st = stage_ok[OF rejected(1) assms(1)]
  obtain r where r: "row_for_key (cmg_store mg1) (bundle_key b) = Some r" "bnr_sha256 r = lib_sha256 lib (bundle_bytes lib b)" using st(7) by blast
  note sr = store_record_ok[OF rejected(5) st(3) r(1) rejected(4)]
  show ?thesis unfolding assms(3,4) by (rule exI[of _ b]) (simp add: st(1,4-6) sr(1-5,7) r(2) rejected(2,3))
next
  case (activated b rs mg1)
  note st = stage_ok[OF activated(1) assms(1)]
  obtain r where r: "row_for_key (cmg_store mg1) (bundle_key b) = Some r" "bnr_sha256 r = lib_sha256 lib (bundle_bytes lib b)" using st(7) by blast
  note sr = store_activate_ok[OF activated(6) st(3) r(1) activated(4)]
  show ?thesis unfolding assms(3,4) by (rule exI[of _ b]) (use activated(5) in \<open>simp add: st(1,4-6) sr(1-5,7) r(2) activated(2,3)\<close>)
next
  case (rolled_back b rs c crs mg1 a cs2)
  note st = stage_ok[OF rolled_back(1) assms(1)]
  obtain r where r: "row_for_key (cmg_store mg1) (bundle_key b) = Some r" "bnr_sha256 r = lib_sha256 lib (bundle_bytes lib b)" using st(7) by blast
  note sa = store_activate_ok[OF rolled_back(9) st(3) r(1) rolled_back(8)]
  obtain r2 where r2: "row_for_key cs2 (bundle_key b) = Some r2" "bnr_sha256 r2 = bnr_sha256 r" using sa(7) by auto
  note p = previous_staged[OF assms(1) st(4) sa(1-3)]
  note sr = store_rollback_ok[OF rolled_back(10) sa(1) r2(1) rolled_back(6) p]
  show ?thesis unfolding assms(3,4)
    by (rule exI[of _ b]) (simp add: st(1,4-6) sa(4) sr(1-5,7) r(2) r2(2) rolled_back(2-5) active_key[OF assms(1)], metis rolled_back(7))
qed

definition demo_config_library :: library where
  "demo_config_library = \<lparr>lib_uuid5 = (\<lambda>s. s), lib_isoformat = (\<lambda>t. ''t''),
     lib_json_dumps = (\<lambda>v. case v of JObj ((_, JStr a) # (_, JStr b) # _) \<Rightarrow> b @ a | JStr a \<Rightarrow> a | _ \<Rightarrow> []),
     lib_sha256 = (\<lambda>s. s), lib_hmac_sha256 = (\<lambda>k s. k @ s),
     lib_model_dump = (\<lambda>v. case v of V_policy p \<Rightarrow> JStr (if p = configuration_bundle then ''c'' else ''n'')
       | V_bundle b \<Rightarrow> JStr (demo_pad (cfb_version b)) | _ \<Rightarrow> JNull)\<rparr>"

definition demo_bundle :: "string \<Rightarrow> ConfigurationBundle" where
  "demo_bundle v = \<lparr>cfb_schema_version = ''1.0.0'', cfb_bundle_id = ''site'', cfb_version = v, cfb_actor = ''op'',
     cfb_workloads = [\<lparr>ws_workload_id = ''w'', ws_hazard = HK_FLOOD, ws_tier = TIER_A_IMMEDIATE, ws_period_ms = 10, ws_deadline_ms = 5,
       ws_max_deferral_ms = 0, ws_estimated_cost_ms = 2, ws_memory_mb = 8, ws_profile_id = ''p'', ws_forced_scan_ms = None\<rparr>],
     cfb_settings = [], cfb_model_hashes = [], cfb_source_hashes = [], cfb_created_at = 0\<rparr>"

definition demo_manager :: configuration_manager where
  "demo_manager = \<lparr>cmg_store = empty_configuration, cmg_artifacts = demo_store\<lparr>ars_max_bytes := 200\<rparr>
     \<lparr>ars_catalog := (ars_catalog demo_store)\<lparr>cat_budgets := demo_budgets\<lparr>abp_per_run_max_bytes := 200\<rparr>\<rparr>\<rparr>\<rparr>"

definition demo_inputs :: "string \<Rightarrow> activation_inputs" where
  "demo_inputs s = \<lparr>acx_first_id = s @ ''1'', acx_first_time = 1, acx_second_id = s @ ''2'', acx_second_time = 2, acx_fault = None, acx_now = 1\<rparr>"

definition demo_configured :: configuration_manager where
  "demo_configured = snd (activate demo_config_library default_self_test None (demo_inputs ''x'') (Plain (demo_bundle ''1'')) demo_manager)"

definition demo_bad_canary :: self_test where
  "demo_bad_canary b = Inr (False, [''slow''])"

definition demo_again :: "ConfigurationActivationRecord result \<times> configuration_manager" where
  "demo_again = activate demo_config_library default_self_test (Some demo_bad_canary) (demo_inputs ''y'') (Plain (demo_bundle ''1'')) demo_configured"

theorem activation_outcome_witness:
  "cst_active (cmg_store (snd demo_again)) = Some ''site@1'' \<and>
   map_option bnr_state (row_for_key (cmg_store (snd demo_again)) ''site@1'') = Some CF_ROLLED_BACK"
proof -
  have f: "keys_ok (cmg_store demo_configured)" "map_sum (\<lambda>_. ()) cfa_state (fst demo_again) = Inr CF_ROLLED_BACK"
    "cst_active (cmg_store demo_configured) = Some ''site@1''" "validate (Plain (demo_bundle ''1'')) = Inr (demo_bundle ''1'')"
    "bundle_key (demo_bundle ''1'') = ''site@1''" 
  proof -
    have "cst_bundles (cmg_store demo_configured) = [\<lparr>bnr_key = ''site@1'', bnr_state = CF_ACTIVE, bnr_sha256 = demo_pad ''1'',
        bnr_artifact_ref = ''sha256:'' @ demo_pad ''1'', bnr_bundle = demo_bundle ''1''\<rparr>]"
      "cst_last_known_good (cmg_store demo_configured) = None" "cst_active (cmg_store demo_configured) = Some ''site@1''"
      "bundle_key (demo_bundle ''1'') = ''site@1''" by code_simp+
    then show "keys_ok (cmg_store demo_configured)" by (simp add: keys_ok_def)
  qed (code_simp+)
  obtain rec mg' where r: "activate demo_config_library default_self_test (Some demo_bad_canary) (demo_inputs ''y'') (Plain (demo_bundle ''1'')) demo_configured = (Inr rec, mg')"
    "cfa_state rec = CF_ROLLED_BACK"
    using f(2) by (cases "fst demo_again") (auto simp: demo_again_def prod_eq_iff)
  from activation_outcome[OF f(1) r(1) refl refl] show ?thesis
    unfolding demo_again_def r(1) f(4) by (auto simp: r(2) f(3,5))
qed

section \<open>Configuration artifacts\<close>

definition protected_digest :: "catalog \<Rightarrow> string \<Rightarrow> bool" where
  "protected_digest cat dg \<longleftrightarrow> (\<exists>r \<in> set (cat_registrations cat). art_sha256 r = dg \<and> apo_deletion_policy (art_policy r) \<noteq> AD_GC_ALLOWED)"

lemma delete_keeps_protected:
  assumes "protected_digest (ars_catalog st) x" "delete_digest lib dg who False False wall st = (out, st')"
  shows "map_of (ars_files st') x = map_of (ars_files st) x" "protected_digest (ars_catalog st') x"
proof -
  note fr = delete_digest_frame[OF assms(2)]
  show "protected_digest (ars_catalog st') x" using assms(1) by (simp add: protected_digest_def fr(1))
  have "\<not> is_ok out" if "dg = x"
  proof (cases "effective_policy (ars_catalog st) dg")
    case (Inl e)
    have "artifact_records (ars_catalog st) (Some dg) \<noteq> []"
      using assms(1) that artifact_records_mem[of _ "ars_catalog st" dg] by (force simp: protected_digest_def)
    with Inl have "e \<noteq> KeyError m" for m
      by (auto simp: effective_policy_def ArtifactPolicy_init_def validate_policy_def Let_def split: if_splits)
    then show ?thesis using assms(2) Inl
      by (auto simp: delete_digest_def deletion_policy_check_def split: if_splits py_exn.splits)
  next
    case (Inr p)
    then have "apo_deletion_policy p \<noteq> AD_GC_ALLOWED"
      using effective_policy_Inr(3)[OF Inr] assms(1) that by (auto simp: protected_digest_def gc_allowed_def)
    then have "\<not> is_ok (deletion_policy_check dg False False wall (ars_catalog st))"
      using Inr by (cases "apo_deletion_policy p") (simp_all add: deletion_policy_check_def)
    then show ?thesis using assms(2) by (auto simp: delete_digest_def split: if_splits sum.splits)
  qed
  then show "map_of (ars_files st') x = map_of (ars_files st) x"
    unfolding fr(6) by (auto simp: delete_conv)
qed

lemma gc_keeps_protected:
  assumes "protected_digest (ars_catalog st) x"
  shows "map_of (ars_files (snd (gc_loop lib who now wall dgs rep st))) x = map_of (ars_files st) x \<and>
    protected_digest (ars_catalog (snd (gc_loop lib who now wall dgs rep st))) x"
  using assms
proof (induction dgs arbitrary: rep st)
  case (Cons dg dgs)
  have "map_of (ars_files st') x = map_of (ars_files st) x \<and> protected_digest (ars_catalog st') x"
    if "delete_digest lib dg who False False wall st = (out, st')" for out st'
    using delete_keeps_protected[OF Cons.prems that] by blast
  with Cons show ?case by (auto split: sum.splits py_exn.splits prod.splits)
qed simp

lemma register_keeps:
  "register_artifact lib dg path n media policy scope critical t cat = Inr (r, cat') \<Longrightarrow>
     set (cat_registrations cat) \<subseteq> set (cat_registrations cat') \<and>
     (\<forall>a \<in> set (cat_registrations cat'). a \<in> set (cat_registrations cat) \<or>
        art_registration_id a = registration_id_of lib dg policy scope critical \<and> art_sha256 a = dg \<and> art_policy a = policy \<and> art_scope a = scope \<and> art_critical a = critical) \<and>
     (\<exists>a \<in> set (cat_registrations cat'). art_registration_id a = registration_id_of lib dg policy scope critical)"
  by (auto simp: register_artifact_def Let_def bind_result_Inr find_Some_iff split: if_splits option.splits)

definition ids_ok :: "library \<Rightarrow> catalog \<Rightarrow> bool" where
  "ids_ok lib cat \<longleftrightarrow> (\<forall>a \<in> set (cat_registrations cat).
     art_registration_id a = registration_id_of lib (art_sha256 a) (art_policy a) (art_scope a) (art_critical a))"

text \<open>Identifiers of configuration registrations are not shared with other artifacts.\<close>

definition config_ids_unique :: "library \<Rightarrow> bool" where
  "config_ids_unique lib \<longleftrightarrow> (\<forall>s p sc c s' sc' c'.
     registration_id_of lib s p sc c = registration_id_of lib s' configuration_bundle sc' c' \<longrightarrow> s = s' \<and> p = configuration_bundle)"

lemma put_keeps:
  assumes "put_bytes lib fault data media critical policy scope t st = (out, st')"
  shows "(\<forall>x. map_of (ars_files st) x \<noteq> None \<longrightarrow> map_of (ars_files st') x = map_of (ars_files st) x) \<and>
    set (cat_registrations (ars_catalog st)) \<subseteq> set (cat_registrations (ars_catalog st')) \<and>
    (ids_ok lib (ars_catalog st) \<longrightarrow> ids_ok lib (ars_catalog st')) \<and>
    (is_ok out \<longrightarrow> map_of (ars_files st') (lib_sha256 lib data) \<noteq> None \<and>
       (\<exists>a \<in> set (cat_registrations (ars_catalog st')). art_registration_id a = registration_id_of lib (lib_sha256 lib data) policy scope critical))"
proof -
  have reg: "set (cat_registrations (ars_catalog s)) \<subseteq> set (cat_registrations (ars_catalog s')) \<and> ars_files s' = ars_files s \<and>
      (ids_ok lib (ars_catalog s) \<longrightarrow> ids_ok lib (ars_catalog s')) \<and>
      (is_ok o1 \<longrightarrow> (\<exists>a \<in> set (cat_registrations (ars_catalog s')). art_registration_id a = registration_id_of lib dg policy scope critical))"
    if "register_in lib dg n media policy scope critical t s = (o1, s')" for dg n s o1 s'
    using that register_keeps[of lib dg "artifact_path dg" n media policy scope critical t "ars_catalog s"]
    unfolding register_in_def ids_ok_def by (auto split: sum.splits prod.splits)
  let ?dg = "lib_sha256 lib data"
  have upd: "map_of (AList.update ?dg data (ars_files st)) x = (if x = ?dg then Some data else map_of (ars_files st) x)" for x
    by (simp add: update_conv')
  show ?thesis
  proof (cases "map_of (ars_files st) ?dg")
    case None
    then show ?thesis
      using assms reg[of ?dg "byte_count data" "st\<lparr>ars_files := AList.update ?dg data (ars_files st)\<rparr>" out st']
      by (auto simp: put_bytes_def Let_def upd split: if_splits option.splits)
  next
    case (Some old)
    then show ?thesis using assms reg[of ?dg "byte_count old" st out st']
      by (auto simp: put_bytes_def Let_def split: if_splits)
  qed
qed

lemma activate_frame:
  assumes "activate lib test canary inp raw mg = (out, mg')" "stage lib (acx_fault inp) (acx_now inp) raw mg = (o1, mg1)" "keys_ok (cmg_store mg)"
  shows "cmg_artifacts mg' = cmg_artifacts mg1 \<and> (is_ok o1 \<longrightarrow> keys_ok (cmg_store mg')) \<and>
    map bnr_sha256 (cst_bundles (cmg_store mg')) = map bnr_sha256 (cst_bundles (cmg_store mg1)) \<and> (\<not> is_ok o1 \<longrightarrow> mg' = mg1)"
proof (cases o1)
  case (Inl e)
  then show ?thesis using assms(1,2) by (auto simp: activate_def)
next
  case (Inr v)
  then obtain b sha path where st: "stage lib (acx_fault inp) (acx_now inp) raw mg = (Inr (b, sha, path), mg1)" using assms(2) by (cases v) auto
  note so = stage_ok[OF st assms(3)]
  obtain r where r: "row_for_key (cmg_store mg1) (bundle_key b) = Some r" using so(7) by blast
  let ?prev = "active (cmg_store mg)"
  let ?first = "activation_for (acx_first_id inp) (acx_first_time inp) b sha (diff_digest lib ?prev b) ?prev"
  have same: "?thesis" if "mg' = mg1" using that so(3) Inr by simp
  have rej: ?thesis if "test b = Inr (False, rs)" for rs
  proof -
    let ?rec = "?first CF_REJECTED (''self_test_failed'' # rs)"
    have "save mg1 (store_record ?rec (cmg_store mg1)) ?rec = (out, mg')" using assms(1) st that by (simp add: activate_def Let_def)
    then show ?thesis using same store_record_ok[OF _ so(3) r, of ?rec] Inr by (auto simp: save_def split: sum.splits)
  qed
  have act: ?thesis if "test b = Inr (True, rs)" for rs
  proof (cases "store_activate b (?first CF_ACTIVE [''self_test_passed'']) (cmg_store mg1)")
    case (Inl e)
    then have "mg' = mg1" using assms(1) st that by (simp add: activate_def Let_def save_def)
    then show ?thesis by (rule same)
  next
    case act: (Inr cs2)
    note sa = store_activate_ok[OF act so(3) r activation_for_simps(1)]
    obtain r2 where r2: "row_for_key cs2 (bundle_key b) = Some r2" using sa(7) by auto
    note p = previous_staged[OF assms(3) so(4) sa(1-3)]
    have rb: "keys_ok cs3 \<and> map bnr_sha256 (cst_bundles cs3) = map bnr_sha256 (cst_bundles cs2)"
      if "store_rollback b ?prev (activation_for i t b sha d ?prev st rs) cs2 = Inr cs3" for i t d st rs cs3
      using store_rollback_ok[OF that sa(1) r2 activation_for_simps(1) p] by blast
    have "run_canary canary inp b sha (diff_digest lib ?prev b) ?prev (?first CF_ACTIVE [''self_test_passed'']) (mg1\<lparr>cmg_store := cs2\<rparr>) = (out, mg')"
      using assms(1) st that act by (simp add: activate_def Let_def save_def)
    then show ?thesis using sa(1,6) rb Inr
      by (auto simp: run_canary_def Let_def save_def split: option.splits sum.splits if_splits)
  qed
  show ?thesis
  proof (cases "test b")
    case (Inl e)
    then have "mg' = mg1" using assms(1) st by (simp add: activate_def Let_def)
    then show ?thesis by (rule same)
  next
    case (Inr v)
    then show ?thesis using rej act by (cases v) (metis (full_types))
  qed
qed

inductive cfg_step :: "library \<Rightarrow> configuration_manager \<Rightarrow> configuration_manager \<Rightarrow> bool" for lib where
  cs_stage: "cfg_step lib mg (snd (stage lib fault now raw mg))"
| cs_activate: "cfg_step lib mg (snd (activate lib test canary inp raw mg))"
| cs_put: "cfg_step lib mg (mg\<lparr>cmg_artifacts := snd (put_bytes lib fault data media critical policy scope now (cmg_artifacts mg))\<rparr>)"
| cs_delete: "cfg_step lib mg (mg\<lparr>cmg_artifacts := snd (delete_digest lib dg who False False now (cmg_artifacts mg))\<rparr>)"
| cs_collect: "cfg_step lib mg (mg\<lparr>cmg_artifacts := snd (collect_garbage lib who now wall (cmg_artifacts mg))\<rparr>)"
| cs_read_only: "cfg_step lib mg (mg\<lparr>cmg_artifacts := set_read_only b (cmg_artifacts mg)\<rparr>)"

inductive cfg_reachable :: "library \<Rightarrow> configuration_manager \<Rightarrow> bool" for lib where
  cr_init: "artifact_store_init b n m = Inr st \<Longrightarrow> budgets_ok b \<Longrightarrow> cfg_reachable lib \<lparr>cmg_store = empty_configuration, cmg_artifacts = st\<rparr>"
| cr_step: "cfg_reachable lib mg \<Longrightarrow> cfg_step lib mg mg' \<Longrightarrow> cfg_reachable lib mg'"

definition kept :: "artifact_store \<Rightarrow> string \<Rightarrow> bool" where
  "kept st sha \<longleftrightarrow> map_of (ars_files st) sha \<noteq> None \<and> protected_digest (ars_catalog st) sha"

definition cfg_inv :: "library \<Rightarrow> configuration_manager \<Rightarrow> bool" where
  "cfg_inv lib mg \<longleftrightarrow> keys_ok (cmg_store mg) \<and> store_inv lib (cmg_artifacts mg) \<and> ids_ok lib (ars_catalog (cmg_artifacts mg)) \<and>
     (\<forall>sha \<in> set (map bnr_sha256 (cst_bundles (cmg_store mg))). kept (cmg_artifacts mg) sha)"

lemma kept_put:
  assumes "put_bytes lib fault data media critical policy scope t st = (out, st')" "kept st x"
  shows "kept st' x"
  using put_keeps[OF assms(1)] assms(2) unfolding kept_def protected_digest_def by (metis subsetD)

lemma stage_inv:
  assumes "config_ids_unique lib" "cfg_inv lib mg" "stage lib fault now raw mg = (out, mg')"
  shows "cfg_inv lib mg'"
proof (cases "validate raw")
  case (Inl e)
  then show ?thesis using assms(2,3) by (simp add: stage_def)
next
  case (Inr b)
  let ?sha = "lib_sha256 lib (bundle_bytes lib b)"
  obtain o1 ars where p: "put_bytes lib fault (bundle_bytes lib b) ''application/json'' False configuration_bundle (configuration_scope b) now (cmg_artifacts mg) = (o1, ars)"
    by fastforce
  note pk = put_keeps[OF p]
  have si: "store_inv lib (cmg_artifacts mg)" "ids_ok lib (ars_catalog (cmg_artifacts mg))" using assms(2) unfolding cfg_inv_def by blast+
  have ars: "store_inv lib ars" "ids_ok lib (ars_catalog ars)" "\<And>x. kept (cmg_artifacts mg) x \<Longrightarrow> kept ars x"
    using store_inv_put[OF si(1), of fault "bundle_bytes lib b" "''application/json''" False configuration_bundle "configuration_scope b" now]
      pk si(2) kept_put[OF p] by (simp_all add: p)
  have new: "kept ars ?sha" if ok: "is_ok o1"
  proof -
    obtain a where a: "a \<in> set (cat_registrations (ars_catalog ars))" "art_registration_id a = registration_id_of lib ?sha configuration_bundle (configuration_scope b) False"
      using pk ok by blast
    then have "art_sha256 a = ?sha" "art_policy a = configuration_bundle"
      using ars(2) assms(1) unfolding ids_ok_def config_ids_unique_def by metis+
    then show ?thesis using a(1) pk ok unfolding kept_def protected_digest_def
      by (auto simp: configuration_bundle_def named_policy_def)
  qed
  have only: ?thesis if "mg' = mg\<lparr>cmg_artifacts := ars\<rparr>" using that assms(2) ars unfolding cfg_inv_def by simp
  show ?thesis
  proof (cases out)
    case (Inl e)
    then have "mg' = mg\<lparr>cmg_artifacts := ars\<rparr>" using assms(3) Inr p by (auto simp: stage_def split: sum.splits)
    then show ?thesis by (rule only)
  next
    case out: (Inr v)
    obtain b' sha path where v: "v = (b', sha, path)" by (cases v)
    have k: "keys_ok (cmg_store mg)" using assms(2) unfolding cfg_inv_def by blast
    note so = stage_ok[OF assms(3)[unfolded out v] k]
    have "b' = b" using so(1) Inr by simp
    moreover have "cmg_artifacts mg' = ars" "is_ok o1" using assms(3) Inr p out by (auto simp: stage_def split: sum.splits)
    moreover have "kept ars x" if "x \<in> set (map bnr_sha256 (cst_bundles (cmg_store mg)))" for x
      using that assms(2) ars(3) unfolding cfg_inv_def by blast
    ultimately show ?thesis using so(2,3,8) ars(1,2) new unfolding cfg_inv_def by blast
  qed
qed

lemma cfg_reachable_inv:
  assumes "config_ids_unique lib" "cfg_reachable lib mg"
  shows "cfg_inv lib mg"
  using assms(2)
proof induction
  case (cr_init b n m st)
  have "store_inv lib st" using art_reachable_inv[OF art_reachable.ar_init[OF cr_init]] .
  moreover have "ids_ok lib (ars_catalog st)" using cr_init(1) by (auto simp: artifact_store_init_def ids_ok_def split: if_splits)
  ultimately show ?case by (simp add: cfg_inv_def empty_configuration_def keys_ok_def)
next
  case (cr_step mg mg')
  have art: "cfg_inv lib (mg\<lparr>cmg_artifacts := st\<rparr>)"
    if "store_inv lib st" "ids_ok lib (ars_catalog st)" "\<And>x. kept (cmg_artifacts mg) x \<Longrightarrow> kept st x" for st
    using that cr_step(3) unfolding cfg_inv_def by simp
  have si: "store_inv lib (cmg_artifacts mg)" "ids_ok lib (ars_catalog (cmg_artifacts mg))" using cr_step(3) unfolding cfg_inv_def by blast+
  have frame: "ids_ok lib (ars_catalog st)" if "cat_registrations (ars_catalog st) = cat_registrations (ars_catalog (cmg_artifacts mg))" for st :: artifact_store
    using si(2) by (simp add: ids_ok_def that)
  from cr_step(2) show ?case
  proof cases
    case (cs_stage fault now raw)
    then show ?thesis using stage_inv[OF assms(1) cr_step(3) surjective_pairing] by simp
  next
    case (cs_activate test canary inp raw)
    obtain o1 mg1 where st: "stage lib (acx_fault inp) (acx_now inp) raw mg = (o1, mg1)" by fastforce
    have "keys_ok (cmg_store mg)" using cr_step(3) unfolding cfg_inv_def by blast
    from activate_frame[OF surjective_pairing st this] stage_inv[OF assms(1) cr_step(3) st]
    show ?thesis unfolding cs_activate cfg_inv_def by (metis (no_types, lifting))
  next
    case (cs_put fault data media critical policy scope now)
    obtain o1 ars where p: "put_bytes lib fault data media critical policy scope now (cmg_artifacts mg) = (o1, ars)" by fastforce
    show ?thesis unfolding cs_put p snd_conv
      by (rule art) (use si store_inv_put[OF si(1), of fault data media critical policy scope now] p put_keeps[OF p] kept_put[OF p] in auto)
  next
    case (cs_delete dg who now)
    obtain o1 ars where d: "delete_digest lib dg who False False now (cmg_artifacts mg) = (o1, ars)" by fastforce
    show ?thesis unfolding cs_delete d snd_conv
      by (rule art) (use store_inv_delete[OF si(1) d] frame[OF delete_digest_frame(1)[OF d]] delete_keeps_protected[OF _ d] in \<open>auto simp: kept_def\<close>)
  next
    case (cs_collect who now wall)
    have "cat_registrations (ars_catalog (snd (gc_loop lib who now wall dgs rep st))) = cat_registrations (ars_catalog st)" for dgs rep st
    proof (induction dgs arbitrary: rep st)
      case (Cons dg dgs)
      have "cat_registrations (ars_catalog st') = cat_registrations (ars_catalog st)"
        if "delete_digest lib dg who False False wall st = (o1, st')" for o1 st' using delete_digest_frame(1)[OF that] .
      with Cons show ?case by (auto split: sum.splits py_exn.splits prod.splits)
    qed simp
    then show ?thesis unfolding cs_collect
      by (intro art) (use si store_inv_gc frame gc_keeps_protected in \<open>auto simp: collect_garbage_def kept_def\<close>)
  next
    case (cs_read_only b)
    show ?thesis unfolding cs_read_only
      by (rule art) (use si in \<open>auto simp: set_read_only_def store_inv_def addressed_def used_bytes_def kept_def\<close>)
  qed
qed

text \<open>
  C15. The bytes of a configuration are never collected. If identifiers of configuration registrations are
  not shared with other artifacts, then after any sequence of stagings, activations, other writes,
  collections and ordinary deletions, each staged bundle, and so the active and the last-known-good one,
  still has its file in the artifact store, whose content has exactly the recorded digest.
\<close>

theorem configurations_survive_collection:
  assumes "config_ids_unique lib" "cfg_reachable lib mg" "r \<in> set (cst_bundles (cmg_store mg))"
  shows "\<exists>data. map_of (ars_files (cmg_artifacts mg)) (bnr_sha256 r) = Some data \<and> lib_sha256 lib data = bnr_sha256 r"
proof -
  note inv = cfg_reachable_inv[OF assms(1,2)]
  have "kept (cmg_artifacts mg) (bnr_sha256 r)" using inv assms(3) unfolding cfg_inv_def by auto
  moreover have "addressed lib (cmg_artifacts mg)" using inv unfolding cfg_inv_def store_inv_def by blast
  ultimately show ?thesis unfolding kept_def addressed_def by blast
qed

definition demo_collected :: configuration_manager where
  "demo_collected = demo_configured\<lparr>cmg_artifacts := snd (collect_garbage demo_config_library ''gc'' 9 9 (cmg_artifacts demo_configured))\<rparr>"

theorem configurations_survive_collection_witness:
  "cst_active (cmg_store demo_collected) = Some ''site@1'' \<and>
   map_of (ars_files (cmg_artifacts demo_collected)) (demo_pad ''1'') \<noteq> None"
proof -
  have pd: "policy_digest demo_config_library p = (if p = configuration_bundle then ''c'' else ''n'')" for p
    by (simp add: policy_digest_def value_digest_def digest_def sha256_bytes_def canonical_json_bytes_def demo_config_library_def)
  have "registration_id_of demo_config_library s p sc c = ''sentinel-artifact-registration:'' @ (if p = configuration_bundle then ''c'' else ''n'') @ s" for s p sc c
    unfolding registration_id_of_def pd
    by (simp add: digest_def sha256_bytes_def canonical_json_bytes_def demo_config_library_def)
  then have u: "config_ids_unique demo_config_library" unfolding config_ids_unique_def by (simp split: if_splits)
  have "artifact_store_init (demo_budgets\<lparr>abp_per_run_max_bytes := 200\<rparr>) 200 2 = Inr (cmg_artifacts demo_manager)"
    "budgets_ok (demo_budgets\<lparr>abp_per_run_max_bytes := 200\<rparr>)" "demo_manager = \<lparr>cmg_store = empty_configuration, cmg_artifacts = cmg_artifacts demo_manager\<rparr>"
    by (simp_all add: artifact_store_init_def demo_manager_def demo_store_def demo_budgets_def budgets_ok_def scope_checks_def)
  then have "cfg_reachable demo_config_library demo_manager" by (metis cr_init)
  then have "cfg_reachable demo_config_library demo_configured" unfolding demo_configured_def by (rule cr_step) (rule cs_activate)
  then have r: "cfg_reachable demo_config_library demo_collected" unfolding demo_collected_def by (rule cr_step) (rule cs_collect)
  have b: "map bnr_sha256 (cst_bundles (cmg_store demo_collected)) = [demo_pad ''1'']" "cst_active (cmg_store demo_collected) = Some ''site@1''" by code_simp+
  then obtain row where row: "row \<in> set (cst_bundles (cmg_store demo_collected))" "bnr_sha256 row = demo_pad ''1''"
    by (cases "cst_bundles (cmg_store demo_collected)") auto
  from configurations_survive_collection[OF u r row(1)] row(2) b(2) show ?thesis by auto
qed

end
