(* ===== verification/Evidence_Service.thy ===== *)
theory Evidence_Service
  imports Evidence_Store Artifacts
begin

text \<open>
  The evidence and claim graph of an incident (\<^verbatim>\<open>EvidenceTrustService\<close> of
  \<^verbatim>\<open>src/src/sentinel_edge/evidence/service.py\<close>) over the journal and the artifact store.

  Random identifiers are arguments, as are \<open>now\<close> and the clock \<open>wall\<close> that \<^verbatim>\<open>lifecycle\<close> and
  \<^verbatim>\<open>delete_digest\<close> read. The consent decision of the disposition service, when one is installed, is the
  argument \<open>allowed\<close>, a function of the subject and the processing basis. An operation returns its outcome
  with the service it leaves, since a raise may come after a write.
\<close>

record evidence_service =
  evs_store :: journal
  evs_artifacts :: "artifact_store option"

section \<open>Tables\<close>

fun legal_transitions :: "EvidenceContentState \<Rightarrow> EvidenceContentState list" where
  "legal_transitions ES_AVAILABLE = [ES_REDACTED, ES_EXPIRED, ES_DELETED, ES_MISSING_EXTERNAL]"
| "legal_transitions ES_METADATA_ONLY = [ES_EXPIRED, ES_DELETED, ES_MISSING_EXTERNAL]"
| "legal_transitions ES_REDACTED = [ES_EXPIRED, ES_DELETED, ES_MISSING_EXTERNAL]"
| "legal_transitions ES_EXPIRED = [ES_DELETED]"
| "legal_transitions ES_MISSING_EXTERNAL = [ES_DELETED]"
| "legal_transitions ES_UNAVAILABLE_AT_CAPTURE = [ES_DELETED]"
| "legal_transitions ES_DELETED = []"

fun action_for_state :: "EvidenceContentState \<Rightarrow> EvidenceLifecycleAction result" where
  "action_for_state ES_REDACTED = Inr EL_REDACT"
| "action_for_state ES_EXPIRED = Inr EL_EXPIRE"
| "action_for_state ES_DELETED = Inr EL_DELETE"
| "action_for_state ES_MISSING_EXTERNAL = Inr EL_MARK_EXTERNAL_MISSING"
| "action_for_state s = Inl (KeyError (EvidenceContentState_value s))"

definition check_lifecycle :: "EvidenceContentState \<Rightarrow> EvidenceContentState \<Rightarrow> EvidenceContentState result" where
  "check_lifecycle a b =
     (if b \<notin> set (legal_transitions a)
      then Inl (ValueError (''illegal evidence lifecycle transition: '' @ EvidenceContentState_value a @ ''->'' @ EvidenceContentState_value b))
      else Inr b)"

section \<open>Ingest\<close>

definition family_seed :: "EvidenceItem \<Rightarrow> string" where
  "family_seed item =
     (case evi_parent_evidence_id item of
        Some p \<Rightarrow> ''parent:'' @ p
      | None \<Rightarrow>
          if (case evi_perceptual_hash item of None \<Rightarrow> False | Some h \<Rightarrow> h \<noteq> []) then ''phash:'' @ the (evi_perceptual_hash item)
          else if evi_origin_key item \<noteq> [] then ''origin:'' @ lower (strip (evi_origin_key item))
          else ''sha256:'' @ evi_content_sha256 item)"

definition related_evidence :: "EvidenceItem \<Rightarrow> EvidenceItem \<Rightarrow> bool" where
  "related_evidence prior item \<longleftrightarrow>
     evi_content_sha256 prior = evi_content_sha256 item \<or>
     (evi_perceptual_hash prior = evi_perceptual_hash item \<and> evi_perceptual_hash prior \<notin> {None, Some []}) \<or>
     lower (strip (evi_origin_key prior)) = lower (strip (evi_origin_key item)) \<or>
     evi_parent_evidence_id item = Some (evi_evidence_id prior) \<or> evi_parent_evidence_id prior = Some (evi_evidence_id item)"

text \<open>The loop stops at the first related item; a missing family of that item falls through to a new one.\<close>

definition assign_family :: "library \<Rightarrow> EvidenceItem list \<Rightarrow> EvidenceItem \<Rightarrow> string" where
  "assign_family lib existing item =
     (case Option.bind (find (\<lambda>prior. related_evidence prior item) existing) evi_family_id of
        Some f \<Rightarrow> f
      | None \<Rightarrow> lib_uuid5 lib (''sentinel-evidence-family:'' @ evi_incident_id item @ '':'' @ family_seed item))"

definition incident_for :: "journal \<Rightarrow> uuid \<Rightarrow> HazardKind \<Rightarrow> bool" where
  "incident_for j incident_id hazard =
     (case find (\<lambda>i. inc_incident_id i = incident_id) (latest_by_hazard j) of
        None \<Rightarrow> False
      | Some i \<Rightarrow> inc_hazard i = hazard)"

definition register_content :: "library \<Rightarrow> datetime \<Rightarrow> EvidenceItem \<Rightarrow> artifact_store \<Rightarrow> artifact_store result" where
  "register_content lib wall item ars =
     (case map_of (ars_files ars) (evi_content_sha256 item) of
        None \<Rightarrow> Inr ars
      | Some data \<Rightarrow>
          bind_result (register_artifact lib (evi_content_sha256 item) (artifact_path (evi_content_sha256 item)) (byte_count data)
              ''application/octet-stream'' (incident_evidence True)
              \<lparr>asc_source_id = Some (evi_source_id item), asc_incident_id = Some (evi_incident_id item),
                asc_scenario_run_id = None, asc_release_candidate_id = None\<rparr> True wall (ars_catalog ars))
            (\<lambda>(_, cat). Inr (ars\<lparr>ars_catalog := cat\<rparr>)))"

definition ingest :: "library \<Rightarrow> (string \<Rightarrow> string \<Rightarrow> bool) option \<Rightarrow> uuid \<Rightarrow> datetime \<Rightarrow> EvidenceItem \<Rightarrow> evidence_service \<Rightarrow>
    EvidenceItem result \<times> evidence_service" where
  "ingest lib allowed fresh_id wall item sv =
     (if (case (allowed, evi_subject_ref item) of (Some ok, Some subject) \<Rightarrow> \<not> ok subject (evi_processing_basis item) | _ \<Rightarrow> False)
      then (Inl (ValueError ''future processing blocked by consent withdrawal''), sv)
      else if \<not> incident_for (evs_store sv) (evi_incident_id item) (evi_hazard item)
      then (Inl (ValueError ''evidence must target an existing incident with the same hazard''), sv)
      else
        let existing = evidence (evs_store sv) (Some (evi_incident_id item));
            assigned = item\<lparr>evi_family_id := Some (assign_family lib existing item)\<rparr>
        in (case (case evs_artifacts sv of
                   None \<Rightarrow> Inr None
                 | Some ars \<Rightarrow> bind_result (register_content lib wall assigned ars) (\<lambda>a. Inr (Some a))) of
              Inl e \<Rightarrow> (Inl e, sv)
            | Inr ars \<Rightarrow>
                let sv1 = sv\<lparr>evs_artifacts := ars\<rparr>
                in (case record_evidence lib fresh_id assigned (evs_store sv1) of
                      Inl e \<Rightarrow> (Inl e, sv1)
                    | Inr (stored, j) \<Rightarrow> (Inr stored, sv1\<lparr>evs_store := j\<rparr>))))"

section \<open>Claims and links\<close>

definition create_claim :: "library \<Rightarrow> ClaimNode \<Rightarrow> evidence_service \<Rightarrow> ClaimNode result \<times> evidence_service" where
  "create_claim lib claim sv =
     (if \<not> incident_for (evs_store sv) (clm_incident_id claim) (clm_hazard claim)
      then (Inl (ValueError ''claim must target an existing incident with the same hazard''), sv)
      else (case record_claim lib claim (evs_store sv) of
          Inl e \<Rightarrow> (Inl e, sv)
        | Inr (c, j) \<Rightarrow> (Inr c, sv\<lparr>evs_store := j\<rparr>)))"

definition link_evidence :: "library \<Rightarrow> ClaimEvidenceLink \<Rightarrow> evidence_service \<Rightarrow> ClaimEvidenceLink result \<times> evidence_service" where
  "link_evidence lib l sv =
     (case record_claim_link lib l (evs_store sv) of
        Inl e \<Rightarrow> (Inl e, sv)
      | Inr (c, j) \<Rightarrow> (Inr c, sv\<lparr>evs_store := j\<rparr>))"

record reconciliation =
  rcn_incident_id :: uuid
  rcn_active_supporting_links :: int
  rcn_active_contradictory_links :: int
  rcn_invalidated_links :: int
  rcn_historical_link_count :: int
  rcn_history_rewritten :: bool

text \<open>Supporting, contradicting and invalidated links, as the loops of \<^verbatim>\<open>claim_reconciliation\<close> and \<^verbatim>\<open>trust_snapshot\<close> count them.\<close>

fun count_links :: "journal \<Rightarrow> datetime \<Rightarrow> ClaimEvidenceLink list \<Rightarrow> (int \<times> int \<times> int) result" where
  "count_links j wall [] = Inr (0, 0, 0)"
| "count_links j wall (l # ls) =
     bind_result (evidence_lifecycle_projection j (lnk_evidence_id l) wall) (\<lambda>p.
       bind_result (count_links j wall ls) (\<lambda>(s, c, i).
         if \<not> lcp_claim_eligible p then Inr (s, c, i + 1)
         else if lnk_relation l = CE_SUPPORTS then Inr (s + 1, c, i)
         else if lnk_relation l = CE_CONTRADICTS then Inr (s, c + 1, i)
         else Inr (s, c, i)))"

definition claim_reconciliation :: "journal \<Rightarrow> datetime \<Rightarrow> uuid \<Rightarrow> reconciliation result" where
  "claim_reconciliation j wall incident_id =
     (let links = claim_links j (Some incident_id)
      in bind_result (count_links j wall links) (\<lambda>(s, c, i). Inr
           \<lparr>rcn_incident_id = incident_id, rcn_active_supporting_links = s, rcn_active_contradictory_links = c,
             rcn_invalidated_links = i, rcn_historical_link_count = int (length links), rcn_history_rewritten = False\<rparr>))"

section \<open>Life cycle\<close>

definition evidence_item :: "journal \<Rightarrow> uuid \<Rightarrow> EvidenceItem result" where
  "evidence_item j k = (case find (\<lambda>e. evi_evidence_id e = k) (evidence j None) of None \<Rightarrow> Inl (KeyError k) | Some e \<Rightarrow> Inr e)"

text \<open>The proof of deletion and the reason codes, with the artifact store after the deletion.\<close>

definition dispose :: "library \<Rightarrow> datetime \<Rightarrow> string \<Rightarrow> EvidenceItem \<Rightarrow> evidence_service \<Rightarrow> (string \<times> string list) result \<times> evidence_service" where
  "dispose lib wall actor item sv =
     (case evs_artifacts sv of
        None \<Rightarrow>
          (Inr (digest lib (JObj [(''profile'', JStr ''sentinel-evidence-delete-v1''),
              (''artifact_sha256'', JStr (evi_content_sha256 item)), (''artifact_store'', JStr ''not_configured'')]),
            [''artifact_store_not_configured_metadata_deletion_only'']), sv)
      | Some ars \<Rightarrow>
          (case delete_digest lib (evi_content_sha256 item) actor True False wall ars of
             (Inl e, ars') \<Rightarrow> (Inl e, sv\<lparr>evs_artifacts := Some ars'\<rparr>)
           | (Inr d, ars') \<Rightarrow>
               (Inr (del_deletion_proof_sha256 d, [if del_existed d then ''artifact_removed'' else ''artifact_not_present'']),
                sv\<lparr>evs_artifacts := Some ars'\<rparr>)))"

definition reevaluation_for :: "uuid \<Rightarrow> EvidenceItem \<Rightarrow> EvidenceLifecycleAction \<Rightarrow> datetime \<Rightarrow> reconciliation \<Rightarrow> EvidenceReevaluationRecord" where
  "reevaluation_for rid item action now rc = \<lparr>ree_reevaluation_id = rid, ree_incident_id = evi_incident_id item,
     ree_evidence_id = evi_evidence_id item, ree_trigger_action = action, ree_status = ''completed'',
     ree_decision = ''claim_links_reconciled_without_incident_state_mutation'', ree_created_at = now,
     ree_active_supporting_links = rcn_active_supporting_links rc,
     ree_active_contradictory_links = rcn_active_contradictory_links rc, ree_invalidated_links = rcn_invalidated_links rc,
     ree_incident_state_mutated = False, ree_reason_codes = [''component_4_review_required_for_hazard_state_change'']\<rparr>"

record transition_request =
  trq_to_state :: EvidenceContentState
  trq_expected_version :: int
  trq_actor :: string
  trq_reason :: string
  trq_now :: datetime
  trq_redaction_profile_id :: "string option"
  trq_event_id :: uuid
  trq_reevaluation_id :: uuid

definition lifecycle_event_for :: "transition_request \<Rightarrow> EvidenceItem \<Rightarrow> EvidenceLifecycleProjection \<Rightarrow> EvidenceLifecycleAction \<Rightarrow>
    string option \<Rightarrow> string list \<Rightarrow> EvidenceLifecycleEvent" where
  "lifecycle_event_for q item cur action proof_sha reasons = \<lparr>lce_lifecycle_event_id = trq_event_id q,
     lce_evidence_id = evi_evidence_id item, lce_incident_id = evi_incident_id item, lce_action = action,
     lce_from_state = Some (lcp_state cur), lce_to_state = trq_to_state q, lce_expected_version = lcp_version cur,
     lce_resulting_version = lcp_version cur + 1, lce_actor = trq_actor q, lce_reason = trq_reason q,
     lce_created_at = trq_now q, lce_deletion_proof_sha256 = proof_sha,
     lce_redaction_profile_id = trq_redaction_profile_id q, lce_reason_codes = reasons\<rparr>"

definition transition_guards :: "transition_request \<Rightarrow> EvidenceItem \<Rightarrow> EvidenceLifecycleProjection \<Rightarrow> unit result" where
  "transition_guards q item cur =
     bind_result (ensure (lcp_version cur = trq_expected_version q) (ValueError ''evidence lifecycle stale version'')) (\<lambda>_.
       bind_result (check_lifecycle (lcp_state cur) (trq_to_state q)) (\<lambda>_.
         ensure (trq_to_state q = ES_EXPIRED \<longrightarrow> (case evi_rights_expires_at item of None \<Rightarrow> False | Some t \<Rightarrow> t \<le> trq_now q))
           (ValueError ''evidence rights have not expired'')))"

definition after_transition :: "library \<Rightarrow> datetime \<Rightarrow> transition_request \<Rightarrow> EvidenceItem \<Rightarrow> EvidenceLifecycleAction \<Rightarrow> evidence_service \<Rightarrow>
    EvidenceLifecycleProjection result \<times> evidence_service" where
  "after_transition lib wall q item action sv =
     (case evidence_lifecycle_projection (evs_store sv) (evi_evidence_id item) wall of
        Inl e \<Rightarrow> (Inl e, sv)
      | Inr p \<Rightarrow>
          if trq_to_state q \<notin> {ES_EXPIRED, ES_DELETED, ES_MISSING_EXTERNAL} then (Inr p, sv)
          else (case claim_reconciliation (evs_store sv) wall (evi_incident_id item) of
             Inl e \<Rightarrow> (Inl e, sv)
           | Inr rc \<Rightarrow>
               (case record_evidence_reevaluation lib (reevaluation_for (trq_reevaluation_id q) item action (trq_now q) rc) (evs_store sv) of
                  Inl e \<Rightarrow> (Inl e, sv)
                | Inr (_, j) \<Rightarrow> (Inr p, sv\<lparr>evs_store := j\<rparr>))))"

definition transition :: "library \<Rightarrow> datetime \<Rightarrow> uuid \<Rightarrow> transition_request \<Rightarrow> evidence_service \<Rightarrow>
    EvidenceLifecycleProjection result \<times> evidence_service" where
  "transition lib wall evidence_id q sv =
     (case bind_result (evidence_item (evs_store sv) evidence_id) (\<lambda>item.
          bind_result (evidence_lifecycle_projection (evs_store sv) evidence_id wall) (\<lambda>cur.
            bind_result (transition_guards q item cur) (\<lambda>_. Inr (item, cur)))) of
        Inl e \<Rightarrow> (Inl e, sv)
      | Inr (item, cur) \<Rightarrow>
          (case (if trq_to_state q = ES_DELETED
                 then map_prod (map_sum id (map_prod Some id)) id (dispose lib wall (trq_actor q) item sv)
                 else (Inr (None, []), sv)) of
             (Inl e, sv1) \<Rightarrow> (Inl e, sv1)
           | (Inr (proof_sha, reasons), sv1) \<Rightarrow>
               (case bind_result (action_for_state (trq_to_state q)) (\<lambda>action.
                    bind_result (EvidenceLifecycleEvent_init (lifecycle_event_for q item cur action proof_sha reasons)) (\<lambda>event.
                      bind_result (record_evidence_lifecycle lib event (evs_store sv1)) (\<lambda>(_, j). Inr (action, j)))) of
                  Inl e \<Rightarrow> (Inl e, sv1)
                | Inr (action, j) \<Rightarrow> after_transition lib wall q item action (sv1\<lparr>evs_store := j\<rparr>))))"

text \<open>The loop over the items read at the start; \<open>ids\<close> gives the random identifiers of each transition.\<close>

fun expire_loop :: "library \<Rightarrow> datetime \<Rightarrow> datetime \<Rightarrow> string \<Rightarrow> (uuid \<Rightarrow> uuid \<times> uuid) \<Rightarrow> EvidenceItem list \<Rightarrow>
    EvidenceLifecycleProjection list \<Rightarrow> evidence_service \<Rightarrow> EvidenceLifecycleProjection list result \<times> evidence_service" where
  "expire_loop lib wall now actor ids [] acc sv = (Inr acc, sv)"
| "expire_loop lib wall now actor ids (item # items) acc sv =
     (if (case evi_rights_expires_at item of None \<Rightarrow> True | Some t \<Rightarrow> now < t) then expire_loop lib wall now actor ids items acc sv
      else (case evidence_lifecycle_projection (evs_store sv) (evi_evidence_id item) wall of
         Inl e \<Rightarrow> (Inl e, sv)
       | Inr cur \<Rightarrow>
           if lcp_state cur \<notin> {ES_AVAILABLE, ES_METADATA_ONLY, ES_REDACTED} then expire_loop lib wall now actor ids items acc sv
           else (case transition lib wall (evi_evidence_id item)
               \<lparr>trq_to_state = ES_EXPIRED, trq_expected_version = lcp_version cur, trq_actor = actor,
                 trq_reason = ''rights_expiry_reached'', trq_now = now, trq_redaction_profile_id = None,
                 trq_event_id = fst (ids (evi_evidence_id item)), trq_reevaluation_id = snd (ids (evi_evidence_id item))\<rparr> sv of
              (Inl e, sv1) \<Rightarrow> (Inl e, sv1)
            | (Inr p, sv1) \<Rightarrow> expire_loop lib wall now actor ids items (acc @ [p]) sv1)))"

definition enforce_rights_expiry :: "library \<Rightarrow> datetime \<Rightarrow> datetime \<Rightarrow> string \<Rightarrow> (uuid \<Rightarrow> uuid \<times> uuid) \<Rightarrow> evidence_service \<Rightarrow>
    EvidenceLifecycleProjection list result \<times> evidence_service" where
  "enforce_rights_expiry lib wall now actor ids sv = expire_loop lib wall now actor ids (evidence (evs_store sv) None) [] sv"

section \<open>Families and trust\<close>

text \<open>\<^verbatim>\<open>Counter(xs)\<close>: the elements in order of first occurrence with their multiplicity.\<close>

definition counter :: "'a list \<Rightarrow> ('a \<times> int) list" where
  "counter xs = map (\<lambda>x. (x, int (count_list xs x))) (rev (remdups (rev xs)))"

definition duplicates :: "'a list \<Rightarrow> int" where
  "duplicates xs = sum_list (map (\<lambda>(_, n). max 0 (n - 1)) (counter xs))"

definition count_bools :: "bool list \<Rightarrow> int" where
  "count_bools bs = sum_list (map (\<lambda>b. if b then 1 else 0) bs)"

definition family_summary :: "uuid \<Rightarrow> string \<Rightarrow> EvidenceItem list \<Rightarrow> EvidenceFamilySummary" where
  "family_summary incident_id f items =
     (let independent = count_bools (map evi_independent_origin_proven items)
      in \<lparr>fam_family_id = f, fam_incident_id = incident_id, fam_evidence_ids = map evi_evidence_id items,
          fam_origin_keys = sorted_set (map evi_origin_key items), fam_independence_units = 1 + independent,
          fam_exact_duplicates = duplicates (map evi_content_sha256 items),
          fam_near_duplicates = duplicates (filter (\<lambda>h. h \<noteq> []) (List.map_filter evi_perceptual_hash items)),
          fam_independent_origins = independent\<rparr>)"

definition families :: "journal \<Rightarrow> uuid \<Rightarrow> EvidenceFamilySummary list result" where
  "families j incident_id =
     (let items = evidence j (Some incident_id)
      in if list_ex (\<lambda>e. evi_family_id e = None) items then Inl AssertionError
         else Inr (map (\<lambda>f. family_summary incident_id f (filter (\<lambda>e. evi_family_id e = Some f) items))
           (sorted_set (List.map_filter evi_family_id items))))"

definition sorted_counter :: "string list \<Rightarrow> (string, int) dict" where
  "sorted_counter xs = sort (counter xs)"

definition summary_band :: "EvidenceItem list \<Rightarrow> ClaimEvidenceLink list \<Rightarrow> int \<Rightarrow> int \<Rightarrow> int \<Rightarrow> int \<Rightarrow> string" where
  "summary_band items links supporting contradictions invalidated units =
     (if items = [] then ''no_evidence''
      else if contradictions \<noteq> 0 then ''contested''
      else if 2 \<le> units \<and> 2 \<le> supporting then ''corroborated''
      else if supporting \<noteq> 0 then ''supported_single_family''
      else if invalidated \<noteq> 0 \<and> links \<noteq> [] then ''historical_evidence_not_currently_eligible''
      else ''unlinked_evidence'')"

definition trust_reasons :: "EvidenceItem list \<Rightarrow> int \<Rightarrow> int \<Rightarrow> string list" where
  "trust_reasons items contradictions invalidated = sort (
     (if contradictions \<noteq> 0 then [''unresolved_contradictions_present''] else []) @
     (if invalidated \<noteq> 0 then [''evidence_links_invalidated_by_lifecycle''] else []) @
     (if list_ex (\<lambda>e. evi_media_integrity e = MI_MANIPULATION_SUSPECT) items then [''manipulation_suspect_evidence_present''] else []) @
     (if list_ex (\<lambda>e. evi_extraction_confidence_state e \<in> {EC_UNKNOWN, EC_LOW}) items then [''extraction_uncertainty_present''] else []) @
     (if list_ex (\<lambda>e. evi_source_standing e = SS_UNKNOWN) items then [''unknown_source_standing_present''] else []) @
     (if items = [] then [''no_evidence''] else []))"

definition trust_snapshot :: "journal \<Rightarrow> datetime \<Rightarrow> uuid \<Rightarrow> TrustDimensionSnapshot result" where
  "trust_snapshot j wall incident_id =
     (let items = evidence j (Some incident_id);
          links = claim_links j (Some incident_id);
          nodes = claims j (Some incident_id)
      in bind_result (families j incident_id) (\<lambda>fams.
           bind_result (count_links j wall links) (\<lambda>(supporting, contradictions, invalidated).
             let units = sum_list (map fam_independence_units fams)
             in Inr \<lparr>tds_incident_id = incident_id,
               tds_source_standing_counts = sorted_counter (map (SourceStanding_value \<circ> evi_source_standing) items),
               tds_media_integrity_counts = sorted_counter (map (MediaIntegrityState_value \<circ> evi_media_integrity) items),
               tds_extraction_confidence_counts = sorted_counter (map (ExtractionConfidenceState_value \<circ> evi_extraction_confidence_state) items),
               tds_freshness_counts = sorted_counter (map (HealthState_value \<circ> evi_freshness_state) items),
               tds_evidence_families = int (length fams), tds_independence_units = units,
               tds_supporting_links = supporting, tds_contradictory_links = contradictions, tds_invalidated_links = invalidated,
               tds_unresolved_claims = count_bools (map (\<lambda>c. clm_status c = ''open'') nodes),
               tds_formula_version = ''sentinel-trust-factors-v1'',
               tds_summary_band = summary_band items links supporting contradictions invalidated units,
               tds_reason_codes = trust_reasons items contradictions invalidated\<rparr>)))"

definition reconciliation_json :: "reconciliation \<Rightarrow> json" where
  "reconciliation_json r = JObj
     [(''incident_id'', JStr (rcn_incident_id r)), (''active_supporting_links'', JInt (rcn_active_supporting_links r)),
      (''active_contradictory_links'', JInt (rcn_active_contradictory_links r)),
      (''invalidated_links'', JInt (rcn_invalidated_links r)), (''historical_link_count'', JInt (rcn_historical_link_count r)),
      (''history_rewritten'', JBool (rcn_history_rewritten r))]"

definition graph_digest :: "library \<Rightarrow> journal \<Rightarrow> datetime \<Rightarrow> uuid \<Rightarrow> string result" where
  "graph_digest lib j wall incident_id =
     bind_result (families j incident_id) (\<lambda>fams.
       bind_result (claim_reconciliation j wall incident_id) (\<lambda>rc.
         bind_result (trust_snapshot j wall incident_id) (\<lambda>trust.
           let dump = (\<lambda>f xs. JArr (map (\<lambda>x. lib_model_dump lib (f x)) xs))
           in Inr (digest lib (JObj
             [(''evidence'', dump V_evidence (evidence j (Some incident_id))),
              (''lifecycle'', JArr (map (\<lambda>e. lib_model_dump lib (V_lifecycle e)) (evidence_lifecycle_events j None (Some incident_id)))),
              (''claims'', JArr (map (\<lambda>c. lib_model_dump lib (V_claim c)) (claims j (Some incident_id)))),
              (''links'', JArr (map (\<lambda>l. lib_model_dump lib (V_link l)) (claim_links j (Some incident_id)))),
              (''families'', JArr (map (\<lambda>f. lib_model_dump lib (V_family f)) fams)),
              (''reconciliation'', reconciliation_json rc), (''trust'', lib_model_dump lib (V_trust trust))])))))"

end
