(* ===== verification/Evidence_Claims.thy ===== *)
theory Evidence_Claims
  imports Evidence_Service Engine_Claims Artifact_Claims
begin

text \<open>
  The evidence service: the life cycle of every item is a lawful chain, duplicates add no independence,
  and what deleting an item does to other items with the same bytes.
\<close>

section \<open>Life cycle tables\<close>

interpretation evidence_states: guarded_transitions legal_transitions check_lifecycle
  by unfold_locales (auto simp: check_lifecycle_def)

definition events_for :: "journal \<Rightarrow> uuid \<Rightarrow> EvidenceLifecycleEvent list" where
  "events_for j k = filter (\<lambda>e. lce_evidence_id e = k) (map snd (j_evidence_lifecycle_events j))"

definition lawful_chain :: "EvidenceLifecycleEvent list \<Rightarrow> bool" where
  "lawful_chain es \<longleftrightarrow> es \<noteq> [] \<and> map lce_resulting_version es = map (\<lambda>n. int n + 1) [0..<length es] \<and> lce_from_state (hd es) = None \<and>
     successively (\<lambda>e e'. lce_from_state e' = Some (lce_to_state e) \<and> evidence_states.trans_rel (lce_to_state e) (lce_to_state e')) es"

definition item_ids :: "journal \<Rightarrow> uuid list" where
  "item_ids j = map (\<lambda>r. evi_evidence_id (snd r)) (j_evidence_items j)"

definition evidence_inv :: "journal \<Rightarrow> bool" where
  "evidence_inv j \<longleftrightarrow> distinct (item_ids j) \<and> (\<forall>r \<in> set (j_evidence_items j). evi_family_id (snd r) \<noteq> None) \<and>
     (\<forall>k. if k \<in> set (item_ids j) then lawful_chain (events_for j k) else events_for j k = [])"

lemma evidence_invD:
  assumes "evidence_inv j"
  shows "k \<in> set (item_ids j) \<Longrightarrow> lawful_chain (events_for j k)" "k \<notin> set (item_ids j) \<Longrightarrow> events_for j k = []"
  using assms unfolding evidence_inv_def by (metis (full_types))+

lemma sorted_versions: "map f es = map (\<lambda>n. int n + 1) [0..<length es] \<Longrightarrow> sort_key f es = es"
  by (rule sort_key_id_if_sorted) (simp add: sorted_iff_nth_mono)

lemma lifecycle_of_inv:
  assumes "evidence_inv j"
  shows "lifecycle_of j k = events_for j k"
proof (cases "k \<in> set (item_ids j)")
  case True
  then have "lawful_chain (events_for j k)" by (rule evidence_invD[OF assms])
  then show ?thesis unfolding lifecycle_of_def events_for_def[symmetric] lawful_chain_def by (intro sorted_versions) blast
next
  case False
  then show ?thesis using evidence_invD(2)[OF assms] unfolding lifecycle_of_def events_for_def[symmetric] by simp
qed

lemma chain_last:
  assumes "lawful_chain es"
  shows "lce_resulting_version (last es) = int (length es)"
proof -
  have "es \<noteq> []" "lce_resulting_version (last es) = last (map (\<lambda>n. int n + 1) [0..<length es])"
    using assms unfolding lawful_chain_def by (blast, metis last_map)
  then show ?thesis by (cases "length es") (simp_all add: last_map)
qed

lemma chain_snoc:
  assumes "lawful_chain es" "lce_resulting_version e = int (length es) + 1" "lce_from_state e = Some (lce_to_state (last es))"
    "lce_to_state e \<in> set (legal_transitions (lce_to_state (last es)))"
  shows "lawful_chain (es @ [e])"
  using assms by (simp add: lawful_chain_def successively_append_iff evidence_states.trans_rel_def)

lemma lifecycle_locked_cases:
  assumes "record_evidence_lifecycle_locked lib e j = Inr (x, t)"
  obtains (replay) "t = j" "find_lifecycle j (lce_lifecycle_event_id e) \<noteq> None"
  | (appended) "find_lifecycle j (lce_lifecycle_event_id e) = None" "events_for t k = events_for j k @ (if lce_evidence_id e = k then [e] else [])" "j_evidence_items t = j_evidence_items j"
    "lce_expected_version e = (if lifecycle_of j (lce_evidence_id e) = [] then 0 else lce_resulting_version (last (lifecycle_of j (lce_evidence_id e))))"
    "lce_from_state e = (if lifecycle_of j (lce_evidence_id e) = [] then None else Some (lce_to_state (last (lifecycle_of j (lce_evidence_id e)))))"
    "map snd (j_evidence_lifecycle_events t) = map snd (j_evidence_lifecycle_events j) @ [e]"
  using assms by (cases "find_lifecycle j (lce_lifecycle_event_id e)") (auto simp: record_evidence_lifecycle_locked_def Let_def events_for_def append_authority_frameD split: if_splits prod.splits)

lemma find_evidence_ids: "find_evidence j k = None \<longleftrightarrow> k \<notin> set (item_ids j)"
  by (force simp: find_evidence_def find_None_iff item_ids_def)

lemma lifecycle_append_inv:
  assumes "evidence_inv j" "record_evidence_lifecycle_locked lib e j = Inr (x, t)" "lce_evidence_id e \<in> set (item_ids j)"
    "lce_resulting_version e = lce_expected_version e + 1"
    "lce_to_state e \<in> set (legal_transitions (lce_to_state (last (events_for j (lce_evidence_id e)))))"
  shows "evidence_inv t"
proof (cases "find_lifecycle j (lce_lifecycle_event_id e)")
  case (Some r)
  then have "t = j" using assms(2) by (auto elim: lifecycle_locked_cases)
  then show ?thesis using assms(1) by simp
next
  case None
  have a: "events_for t k = events_for j k @ (if lce_evidence_id e = k then [e] else [])" for k
    using assms(2) None by (auto elim: lifecycle_locked_cases[where k = k])
  have b: "j_evidence_items t = j_evidence_items j"
    "lce_expected_version e = (if lifecycle_of j (lce_evidence_id e) = [] then 0 else lce_resulting_version (last (lifecycle_of j (lce_evidence_id e))))"
    "lce_from_state e = (if lifecycle_of j (lce_evidence_id e) = [] then None else Some (lce_to_state (last (lifecycle_of j (lce_evidence_id e)))))"
    using assms(2) None by (auto elim!: lifecycle_locked_cases)
  note ch = evidence_invD(1)[OF assms(1,3)]
  have ne: "events_for j (lce_evidence_id e) \<noteq> []" using ch by (simp add: lawful_chain_def)
  have new: "lawful_chain (events_for t (lce_evidence_id e))"
    unfolding a using b(2,3) ne chain_last[OF ch] assms(4,5) by (auto simp: lifecycle_of_inv[OF assms(1)] intro!: chain_snoc[OF ch])
  have ids: "item_ids t = item_ids j" by (simp add: item_ids_def b(1))
  show ?thesis unfolding evidence_inv_def ids b(1)
  proof (intro conjI allI)
    show "distinct (item_ids j)" "\<forall>r \<in> set (j_evidence_items j). evi_family_id (snd r) \<noteq> None" using assms(1) unfolding evidence_inv_def by blast+
    fix k
    show "if k \<in> set (item_ids j) then lawful_chain (events_for t k) else events_for t k = []"
      using new evidence_invD[OF assms(1), of k] assms(3) by (cases "lce_evidence_id e = k") (auto simp: a)
  qed
qed

lemma record_evidence_inv:
  assumes "evidence_inv j" "record_evidence lib fresh_id item j = Inr (x, t)" "fresh_id \<notin> set (map (\<lambda>r. lce_lifecycle_event_id (snd r)) (j_evidence_lifecycle_events j))"
  shows "evidence_inv t"
proof (cases "find_evidence j (evi_evidence_id item)")
  case (Some r)
  with evidence_rows.replay[OF assms(2)] assms(1) show ?thesis by simp
next
  case None
  let ?k = "evi_evidence_id item" and ?e = "initial_lifecycle_event fresh_id item"
  obtain p j1 z where ap: "append_authority lib AM_EVIDENCE ?k (evi_received_at item) (lib_model_dump lib (V_evidence item)) j = (p, j1)"
    and l: "record_evidence_lifecycle_locked lib ?e (j1\<lparr>j_evidence_items := j_evidence_items j1 @ [(value_digest lib (V_evidence item), item)]\<rparr>) = Inr (z, t)"
    and fam: "evi_family_id item \<noteq> None"
    using assms(2) None by (auto simp: record_evidence_def Let_def bind_result_Inr EvidenceLifecycleEvent_init_def split: if_splits prod.splits)
  let ?j2 = "j1\<lparr>j_evidence_items := j_evidence_items j1 @ [(value_digest lib (V_evidence item), item)]\<rparr>"
  note fr = append_authority_frameD[OF ap]
  have j2: "events_for ?j2 k = events_for j k" "item_ids ?j2 = item_ids j @ [?k]" for k by (simp_all add: events_for_def item_ids_def fr)
  have k: "?k \<notin> set (item_ids j)" using None by (simp add: find_evidence_ids)
  have fresh: "find_lifecycle ?j2 (lce_lifecycle_event_id ?e) = None"
    using assms(3) by (force simp: find_lifecycle_def find_None_iff fr initial_lifecycle_event_def)
  have a: "events_for t k = events_for j k @ (if ?k = k then [?e] else [])" for k
    using l fresh by (auto elim!: lifecycle_locked_cases[where k = k] simp: j2 initial_lifecycle_event_def)
  have items: "j_evidence_items t = j_evidence_items j @ [(value_digest lib (V_evidence item), item)]"
    using lifecycle_locked_frame(1)[OF l] by (simp add: fr)
  then have ids: "item_ids t = item_ids j @ [?k]" by (simp add: item_ids_def)
  have chain: "lawful_chain [?e]" by (simp add: lawful_chain_def initial_lifecycle_event_def)
  show ?thesis unfolding evidence_inv_def ids items
  proof (intro conjI allI)
    show "distinct (item_ids j @ [?k])" using assms(1) k unfolding evidence_inv_def by simp
    show "\<forall>r \<in> set (j_evidence_items j @ [(value_digest lib (V_evidence item), item)]). evi_family_id (snd r) \<noteq> None"
      using assms(1) fam unfolding evidence_inv_def by simp
    fix i
    show "if i \<in> set (item_ids j @ [?k]) then lawful_chain (events_for t i) else events_for t i = []"
      using evidence_invD[OF assms(1), of i] evidence_invD(2)[OF assms(1) k] chain by (cases "?k = i") (auto simp: a)
  qed
qed

section \<open>The operations\<close>

text \<open>The tables a life cycle depends on.\<close>

definition same_tables :: "journal \<Rightarrow> journal \<Rightarrow> bool" where
  "same_tables j t \<longleftrightarrow> j_evidence_items t = j_evidence_items j \<and> j_evidence_lifecycle_events t = j_evidence_lifecycle_events j"

lemma same_tables_inv:
  assumes "same_tables j t" "evidence_inv j"
  shows "evidence_inv t"
proof -
  have e: "item_ids t = item_ids j" "events_for t = events_for j" "j_evidence_items t = j_evidence_items j"
    using assms(1) by (auto simp: same_tables_def item_ids_def events_for_def fun_eq_iff)
  show ?thesis using assms(2) unfolding evidence_inv_def e .
qed

lemma projection_cong:
  "find_evidence t k = find_evidence j k \<Longrightarrow> lifecycle_of t k = lifecycle_of j k \<Longrightarrow>
     evidence_lifecycle_projection t k w = evidence_lifecycle_projection j k w"
  by (simp only: evidence_lifecycle_projection_def)

lemma same_tables_projection: "same_tables j t \<Longrightarrow> evidence_lifecycle_projection t k w = evidence_lifecycle_projection j k w"
  by (rule projection_cong) (simp_all add: same_tables_def find_evidence_def lifecycle_of_def)

lemma reevaluation_tables: "record_evidence_reevaluation lib rv j = Inr (x, t) \<Longrightarrow> same_tables j t"
  by (auto simp: record_evidence_reevaluation_def same_tables_def Let_def append_authority_frameD split: if_splits prod.splits option.splits)

lemma claim_tables: "record_claim lib c j = Inr (x, t) \<Longrightarrow> same_tables j t"
  by (auto simp: record_claim_def same_tables_def Let_def append_authority_frameD split: if_splits prod.splits option.splits)

lemma link_tables: "record_claim_link lib c j = Inr (x, t) \<Longrightarrow> same_tables j t"
  by (auto simp: record_claim_link_def same_tables_def Let_def append_authority_frameD split: if_splits prod.splits option.splits)

lemma same_tables_refl [simp]: "same_tables j j"
  by (simp add: same_tables_def)

lemma after_transition_tables:
  assumes "after_transition lib wall q item action sv = (out, sv')"
  shows "same_tables (evs_store sv) (evs_store sv')" "evs_artifacts sv' = evs_artifacts sv"
  using assms reevaluation_tables
  by (fastforce simp: after_transition_def split: sum.splits if_splits prod.splits)+

lemma dispose_frame:
  assumes "dispose lib wall actor item sv = (out, sv')"
  shows "evs_store sv' = evs_store sv"
  using assms by (auto simp: dispose_def split: option.splits prod.splits sum.splits)

text \<open>A transition either leaves the life cycle tables alone or appends exactly one event.\<close>

lemma transition_cases:
  assumes "transition lib wall k q sv = (out, sv')"
  obtains (unchanged) "evs_store sv' = evs_store sv" "\<not> is_ok out"
  | (recorded) item cur action proof_sha reasons x j where
      "evidence_item (evs_store sv) k = Inr item" "evidence_lifecycle_projection (evs_store sv) k wall = Inr cur"
      "lcp_version cur = trq_expected_version q" "trq_to_state q \<in> set (legal_transitions (lcp_state cur))"
      "EvidenceLifecycleEvent_init (lifecycle_event_for q item cur action proof_sha reasons) = Inr (lifecycle_event_for q item cur action proof_sha reasons)"
      "record_evidence_lifecycle_locked lib (lifecycle_event_for q item cur action proof_sha reasons) (evs_store sv) = Inr (x, j)"
      "same_tables j (evs_store sv')"
      "trq_to_state q = ES_DELETED \<Longrightarrow> \<exists>r sv1. dispose lib wall (trq_actor q) item sv = (Inr r, sv1) \<and> evs_artifacts sv' = evs_artifacts sv1"
      "action_for_state (trq_to_state q) = Inr action"
proof -
  have idem: "EvidenceLifecycleEvent_init e = Inr e' \<Longrightarrow> e' = e" for e e'
    by (auto simp: EvidenceLifecycleEvent_init_def bind_result_Inr split: if_splits)
  show thesis
  proof (cases "bind_result (evidence_item (evs_store sv) k) (\<lambda>item.
          bind_result (evidence_lifecycle_projection (evs_store sv) k wall) (\<lambda>cur.
            bind_result (transition_guards q item cur) (\<lambda>_. Inr (item, cur))))")
    case (Inl e)
    then show thesis using assms by (intro unchanged) (auto simp: transition_def)
  next
    case (Inr v)
    obtain item cur where v: "v = (item, cur)" by (cases v)
    have g: "evidence_item (evs_store sv) k = Inr item" "evidence_lifecycle_projection (evs_store sv) k wall = Inr cur" "transition_guards q item cur = Inr ()"
      using Inr by (auto simp: v bind_result_Inr)
    have legal: "lcp_version cur = trq_expected_version q" "trq_to_state q \<in> set (legal_transitions (lcp_state cur))"
      using g(3) by (auto simp: transition_guards_def bind_result_Inr check_lifecycle_def split: if_splits)
    let ?disp = "if trq_to_state q = ES_DELETED then map_prod (map_sum id (map_prod Some id)) id (dispose lib wall (trq_actor q) item sv) else (Inr (None, []), sv)"
    obtain o1 sv1 where d: "?disp = (o1, sv1)" by fastforce
    have st: "evs_store sv1 = evs_store sv" using d by (cases "dispose lib wall (trq_actor q) item sv") (auto dest: dispose_frame split: if_splits)
    note step = assms[unfolded transition_def Inr v sum.case prod.case d]
    show thesis
    proof (cases o1)
      case (Inl e)
      then show thesis using step st by (intro unchanged) auto
    next
      case o1: (Inr w)
      obtain proof_sha reasons where w: "w = (proof_sha, reasons)" by (cases w)
      let ?ev = "\<lambda>action. lifecycle_event_for q item cur action proof_sha reasons"
      let ?rec = "bind_result (action_for_state (trq_to_state q)) (\<lambda>action.
          bind_result (EvidenceLifecycleEvent_init (?ev action)) (\<lambda>event.
            bind_result (record_evidence_lifecycle lib event (evs_store sv1)) (\<lambda>(_, j). Inr (action, j))))"
      show thesis
      proof (cases ?rec)
        case (Inl e)
        then show thesis using step st unfolding o1 w by (intro unchanged) auto
      next
        case rec: (Inr y)
        obtain action j where y: "y = (action, j)" by (cases y)
        have at: "after_transition lib wall q item action (sv1\<lparr>evs_store := j\<rparr>) = (out, sv')"
          using step unfolding o1 w sum.case prod.case rec y .
        obtain x where r: "EvidenceLifecycleEvent_init (?ev action) = Inr (?ev action)" "record_evidence_lifecycle lib (?ev action) (evs_store sv) = Inr (x, j)"
          "action_for_state (trq_to_state q) = Inr action"
          using rec unfolding y st by (auto simp: bind_result_Inr dest: idem split: prod.splits)
        have locked: "record_evidence_lifecycle_locked lib (?ev action) (evs_store sv) = Inr (x, j)"
          using r(2) by (auto simp: record_evidence_lifecycle_def split: option.splits if_splits)
        have "\<exists>r sv2. dispose lib wall (trq_actor q) item sv = (Inr r, sv2) \<and> evs_artifacts sv' = evs_artifacts sv2" if del: "trq_to_state q = ES_DELETED"
        proof -
          obtain od sd where od: "dispose lib wall (trq_actor q) item sv = (od, sd)" by fastforce
          with d del o1 have "is_ok od" "sd = sv1" by (cases od; simp)+
          then show ?thesis using od after_transition_tables(2)[OF at] by (cases od) auto
        qed
        then show thesis using recorded[OF g(1,2) legal r(1) locked] after_transition_tables(1)[OF at] r(3) by simp
      qed
    qed
  qed
qed

lemma evidence_item_Inr:
  assumes "evidence_item j k = Inr item"
  shows "evi_evidence_id item = k" "item \<in> snd ` set (j_evidence_items j)"
proof -
  have f: "find (\<lambda>e. evi_evidence_id e = k) (evidence j None) = Some item" using assms by (simp add: evidence_item_def split: option.splits)
  then show "evi_evidence_id item = k" by (auto simp: find_Some_iff)
  have "item \<in> set (evidence j None)" using f unfolding find_Some_iff by (metis nth_mem)
  then show "item \<in> snd ` set (j_evidence_items j)" by (simp add: evidence_def)
qed

lemma projection_Inr:
  assumes "evidence_lifecycle_projection j k w = Inr p"
  shows "lifecycle_of j k \<noteq> []" "lcp_state p = lce_to_state (last (lifecycle_of j k))" "lcp_version p = lce_resulting_version (last (lifecycle_of j k))"
  using assms by (auto simp: evidence_lifecycle_projection_def Let_def split: option.splits if_splits)

lemma transition_inv:
  assumes "evidence_inv (evs_store sv)" "transition lib wall k q sv = (out, sv')"
  shows "evidence_inv (evs_store sv')"
  using assms(2)
proof (cases rule: transition_cases)
  case (recorded item cur action proof_sha reasons x j)
  let ?e = "lifecycle_event_for q item cur action proof_sha reasons"
  note it = evidence_item_Inr[OF recorded(1)]
  note pr = projection_Inr[OF recorded(2), unfolded lifecycle_of_inv[OF assms(1)]]
  have id: "lce_evidence_id ?e = k" "lce_to_state ?e = trq_to_state q" "lce_resulting_version ?e = lce_expected_version ?e + 1"
    by (simp_all add: lifecycle_event_for_def it)
  have "k \<in> set (item_ids (evs_store sv))" using it by (auto simp: item_ids_def)
  then have "evidence_inv j"
    using lifecycle_append_inv[OF assms(1) recorded(6)] id pr recorded(4) by simp
  then show ?thesis using same_tables_inv[OF recorded(7)] by blast
qed (simp add: assms(1))

lemma expire_inv: "evidence_inv (evs_store sv) \<Longrightarrow> evidence_inv (evs_store (snd (expire_loop lib wall now actor ids items acc sv)))"
proof (induction items arbitrary: acc sv)
  case (Cons item items)
  show ?case using Cons.IH Cons.prems transition_inv[OF Cons.prems]
    by (auto split: option.splits sum.splits prod.splits)
qed simp

lemma ingest_store:
  assumes "ingest lib consent fresh_id wall item sv = (out, sv')"
  shows "evs_store sv' = evs_store sv \<or>
    (\<exists>x. record_evidence lib fresh_id (item\<lparr>evi_family_id := Some (assign_family lib (evidence (evs_store sv) (Some (evi_incident_id item))) item)\<rparr>) (evs_store sv)
       = Inr (x, evs_store sv') \<and> out = Inr x)"
  using assms by (auto simp: ingest_def Let_def split: if_splits sum.splits prod.splits)

lemma ingest_ok:
  assumes "ingest lib consent fresh_id wall item sv = (Inr stored, sv')"
  shows "record_evidence lib fresh_id (item\<lparr>evi_family_id := Some (assign_family lib (evidence (evs_store sv) (Some (evi_incident_id item))) item)\<rparr>) (evs_store sv)
     = Inr (stored, evs_store sv')"
  using assms by (auto simp: ingest_def Let_def split: if_splits sum.splits prod.splits)

lemma record_evidence_new:
  assumes "record_evidence lib fresh_id new j = Inr (x, t)" "find_evidence j (evi_evidence_id new) = None"
  shows "x = new" "j_evidence_items t = j_evidence_items j @ [(value_digest lib (V_evidence new), new)]"
proof -
  obtain p j1 e z where a: "append_authority lib AM_EVIDENCE (evi_evidence_id new) (evi_received_at new) (lib_model_dump lib (V_evidence new)) j = (p, j1)"
    and l: "record_evidence_lifecycle_locked lib e (j1\<lparr>j_evidence_items := j_evidence_items j1 @ [(value_digest lib (V_evidence new), new)]\<rparr>) = Inr (z, t)"
    and xn: "x = new"
    using assms by (auto simp: record_evidence_def Let_def bind_result_Inr split: if_splits prod.splits)
  show "x = new" by (rule xn)
  show "j_evidence_items t = j_evidence_items j @ [(value_digest lib (V_evidence new), new)]"
    using lifecycle_locked_frame(1)[OF l] by (simp add: append_authority_frameD[OF a])
qed

text \<open>
  A run of the service. The identifier of a registration event is new, as \<^verbatim>\<open>uuid4\<close> promises; other
  components may write their own tables and the artifact store at any time.
\<close>

inductive ev_step :: "library \<Rightarrow> evidence_service \<Rightarrow> evidence_service \<Rightarrow> bool" for lib where
  ev_ingest: "fresh_id \<notin> set (map (\<lambda>r. lce_lifecycle_event_id (snd r)) (j_evidence_lifecycle_events (evs_store sv))) \<Longrightarrow>
     ev_step lib sv (snd (ingest lib consent fresh_id wall item sv))"
| ev_transition: "ev_step lib sv (snd (transition lib wall k q sv))"
| ev_expire: "ev_step lib sv (snd (enforce_rights_expiry lib wall now actor ids sv))"
| ev_claim: "ev_step lib sv (snd (create_claim lib c sv))"
| ev_link: "ev_step lib sv (snd (link_evidence lib l sv))"
| ev_other: "same_tables (evs_store sv) (evs_store sv') \<Longrightarrow> ev_step lib sv sv'"

inductive ev_reachable :: "library \<Rightarrow> evidence_service \<Rightarrow> bool" for lib where
  ev_init: "ev_reachable lib \<lparr>evs_store = empty_journal, evs_artifacts = ars\<rparr>"
| ev_next: "ev_reachable lib sv \<Longrightarrow> ev_step lib sv sv' \<Longrightarrow> ev_reachable lib sv'"

lemma ev_reachable_inv: "ev_reachable lib sv \<Longrightarrow> evidence_inv (evs_store sv)"
proof (induction rule: ev_reachable.induct)
  case (ev_init ars)
  show ?case by (simp add: empty_journal_def evidence_inv_def item_ids_def events_for_def)
next
  case (ev_next sv sv')
  note inv = ev_next(3)
  from ev_next(2) show ?case
  proof cases
    case (ev_ingest fresh_id consent wall item)
    then show ?thesis using ingest_store[OF surjective_pairing, of lib consent fresh_id wall item sv] record_evidence_inv[OF inv] inv by auto
  next
    case (ev_transition wall k q)
    then show ?thesis using transition_inv[OF inv surjective_pairing] by simp
  next
    case (ev_expire wall now actor ids)
    then show ?thesis using expire_inv[OF inv] by (simp add: enforce_rights_expiry_def)
  next
    case (ev_claim c)
    then show ?thesis using inv same_tables_inv[OF claim_tables] by (auto simp: create_claim_def split: sum.splits prod.splits)
  next
    case (ev_link l)
    then show ?thesis using inv same_tables_inv[OF link_tables] by (auto simp: link_evidence_def split: sum.splits prod.splits)
  next
    case ev_other
    then show ?thesis using same_tables_inv inv by blast
  qed
qed

section \<open>A concrete service\<close>

definition demo_evidence_library :: library where
  "demo_evidence_library = demo_library\<lparr>lib_sha256 := (\<lambda>s. if s = ''pic'' then replicate 64 CHR ''a'' else replicate 64 CHR ''b'')\<rparr>"

definition demo_evidence :: "string \<Rightarrow> string \<Rightarrow> EvidenceItem" where
  "demo_evidence k origin = \<lparr>evi_evidence_id = k, evi_incident_id = ''i'', evi_hazard = HK_FLOOD, evi_source_id = ''cam'',
     evi_source_standing = SS_NEWS, evi_authority_role = ''r'', evi_media_integrity = MI_UNKNOWN,
     evi_extraction_confidence_state = EC_UNKNOWN, evi_extraction_confidence = None, evi_freshness_state = HS_HEALTHY,
     evi_claim_text = ''c'', evi_content_sha256 = replicate 64 CHR ''a'', evi_perceptual_hash = None, evi_origin_key = origin,
     evi_family_id = None, evi_parent_evidence_id = None, evi_independent_origin_proven = False, evi_retention_state = ER_RETAINED,
     evi_parser_state = PI_NOT_REQUIRED, evi_rights_basis = Some ''b'', evi_rights_mode = Some RI_RETAIN_BYTES,
     evi_rights_expires_at = None, evi_modality = ''image'', evi_received_at = 5, evi_reason_codes = [],
     evi_person_identification_performed = False, evi_subject_ref = None, evi_processing_basis = ''p''\<rparr>"

definition demo_service :: evidence_service where
  "demo_service = \<lparr>evs_store = eng_store demo_watch, evs_artifacts = Some (demo_store\<lparr>ars_files := [(replicate 64 CHR ''a'', ''pic'')]\<rparr>)\<rparr>"

definition demo_one :: evidence_service where
  "demo_one = snd (ingest demo_evidence_library None ''l1'' 5 (demo_evidence ''e1'' ''x'') demo_service)"

definition demo_two :: evidence_service where
  "demo_two = snd (ingest demo_evidence_library None ''l2'' 5 (demo_evidence ''e2'' ''y'') demo_one)"

definition demo_deletion :: transition_request where
  "demo_deletion = \<lparr>trq_to_state = ES_DELETED, trq_expected_version = 1, trq_actor = ''op'', trq_reason = ''why'', trq_now = 6,
     trq_redaction_profile_id = None, trq_event_id = ''l3'', trq_reevaluation_id = ''v1''\<rparr>"

definition demo_deleted :: evidence_service where
  "demo_deleted = snd (transition demo_evidence_library 6 ''e1'' demo_deletion demo_two)"

lemma demo_evidence_facts:
  "j_evidence_items (evs_store demo_service) = []" "j_evidence_lifecycle_events (evs_store demo_service) = []"
  "map (\<lambda>r. lce_lifecycle_event_id (snd r)) (j_evidence_lifecycle_events (evs_store demo_one)) = [''l1'']"
  "let sv = demo_deleted in map lce_to_state (lifecycle_of (evs_store sv) ''e1'') = [ES_AVAILABLE, ES_DELETED] \<and> item_ids (evs_store sv) = [''e1'', ''e2'']"
  "is_ok (fst (transition demo_evidence_library 6 ''e1'' demo_deletion demo_two))" "trq_to_state demo_deletion = ES_DELETED"
  "map_option (map fst \<circ> ars_files) (evs_artifacts demo_two) = Some [replicate 64 CHR ''a'']"
  "map_sum (\<lambda>_. ()) evi_content_sha256 (evidence_item (evs_store demo_two) ''e1'') = Inr (replicate 64 CHR ''a'')"
  "lower_hex_digest (replicate 64 CHR ''a'')"
  "map_sum (\<lambda>_. ()) lcp_readable (evidence_lifecycle_projection (evs_store demo_two) ''e2'' 6) = Inr True"
  "is_ok (fst (ingest demo_evidence_library None ''l2'' 5 (demo_evidence ''e2'' ''y'') demo_one))" "item_ids (evs_store demo_one) = [''e1'']"
  "list_ex (\<lambda>e. related_evidence e (demo_evidence ''e2'' ''y'')) (evidence (evs_store demo_one) (Some ''i''))"
  by code_simp+

lemma demo_service_reachable:
  "ev_reachable demo_evidence_library demo_one" "ev_reachable demo_evidence_library demo_two" "ev_reachable demo_evidence_library demo_deleted"
proof -
  note t = demo_evidence_facts(1,2,3)
  have "ev_reachable demo_evidence_library demo_service"
    by (rule ev_next[OF ev_init[of _ None] ev_other]) (simp add: same_tables_def t empty_journal_def)
  then show one: "ev_reachable demo_evidence_library demo_one" unfolding demo_one_def by (rule ev_next) (rule ev_ingest, simp add: t)
  then show two: "ev_reachable demo_evidence_library demo_two" unfolding demo_two_def by (rule ev_next) (rule ev_ingest, simp add: t)
  then show "ev_reachable demo_evidence_library demo_deleted" unfolding demo_deleted_def by (rule ev_next) (rule ev_transition)
qed

section \<open>Claims\<close>

text \<open>
  C11. The life cycle of every piece of evidence is lawful. In every reachable state each stored item has a
  history of life cycle events with versions 1, 2, ..., n; it starts with a registration, every later
  event leaves the state the one before entered by a transition of the table, nothing follows a
  deletion, and the projection the service reports is the last event of that history.
\<close>

theorem evidence_lifecycle_is_lawful:
  assumes "ev_reachable lib sv" "r \<in> set (j_evidence_items (evs_store sv))" "es = lifecycle_of (evs_store sv) (evi_evidence_id (snd r))"
  shows "es \<noteq> [] \<and> map lce_resulting_version es = map (\<lambda>n. int n + 1) [0..<length es] \<and> lce_from_state (hd es) = None \<and>
    successively (\<lambda>e e'. lce_from_state e' = Some (lce_to_state e) \<and> lce_to_state e' \<in> set (legal_transitions (lce_to_state e))) es \<and>
    (\<forall>e \<in> set (butlast es). lce_to_state e \<noteq> ES_DELETED) \<and>
    (\<forall>now. \<exists>p. evidence_lifecycle_projection (evs_store sv) (evi_evidence_id (snd r)) now = Inr p \<and>
       lcp_state p = lce_to_state (last es) \<and> lcp_version p = int (length es))"
proof -
  note inv = ev_reachable_inv[OF assms(1)]
  let ?k = "evi_evidence_id (snd r)"
  have k: "?k \<in> set (item_ids (evs_store sv))" using assms(2) by (auto simp: item_ids_def)
  have es: "es = events_for (evs_store sv) ?k" using assms(3) lifecycle_of_inv[OF inv] by simp
  note ch = evidence_invD(1)[OF inv k, folded es]
  have succ: "successively (\<lambda>e e'. lce_from_state e' = Some (lce_to_state e) \<and> lce_to_state e' \<in> set (legal_transitions (lce_to_state e))) es"
    using ch unfolding lawful_chain_def evidence_states.trans_rel_def by blast
  have last: "\<forall>e \<in> set (butlast es). lce_to_state e \<noteq> ES_DELETED"
    using succ by (induction es rule: induct_list012) auto
  obtain row where row: "find_evidence (evs_store sv) ?k = Some row" using k find_evidence_ids[of "evs_store sv" ?k] by fastforce
  have proj: "\<exists>p. evidence_lifecycle_projection (evs_store sv) ?k now = Inr p \<and> lcp_state p = lce_to_state (last es) \<and> lcp_version p = int (length es)" for now
    using ch chain_last[OF ch] row assms(3) by (simp add: evidence_lifecycle_projection_def Let_def lawful_chain_def)
  show ?thesis using ch succ last proj unfolding lawful_chain_def by blast
qed

theorem evidence_lifecycle_is_lawful_witness:
  "map lce_to_state (lifecycle_of (evs_store demo_deleted) ''e1'') = [ES_AVAILABLE, ES_DELETED] \<and>
   map lce_resulting_version (lifecycle_of (evs_store demo_deleted) ''e1'') = [1, 2]"
proof -
  have "map lce_to_state (lifecycle_of (evs_store demo_deleted) ''e1'') = [ES_AVAILABLE, ES_DELETED]"
    "map (\<lambda>r. evi_evidence_id (snd r)) (j_evidence_items (evs_store demo_deleted)) = [''e1'', ''e2'']"
    using demo_evidence_facts(4) by (simp_all only: Let_def item_ids_def)
  moreover from this(2) obtain r where r: "r \<in> set (j_evidence_items (evs_store demo_deleted))" "evi_evidence_id (snd r) = ''e1''"
    by (cases "j_evidence_items (evs_store demo_deleted)") auto
  moreover have "length (lifecycle_of (evs_store demo_deleted) ''e1'') = 2" using calculation(1) by (metis length_map length_Cons list.size(3) numeral_2_eq_2)
  ultimately show ?thesis
    using evidence_lifecycle_is_lawful[OF demo_service_reachable(3) r(1) refl, unfolded r(2)] by (simp add: upt_rec)
qed

text \<open>Deleting one item removes the bytes of every other item with the same content. When a transition to
  DELETED of one item succeeds, the file with its content digest is gone from the artifact store, while
  the life cycle of each other item, whatever its content, is what it was before: an item with the same
  content stays readable in the projection although reading its bytes raises.
\<close>

theorem deletion_removes_shared_bytes:
  assumes "transition lib wall k q sv = (Inr p, sv')" "trq_to_state q = ES_DELETED" "evs_artifacts sv = Some ars" "dict_ok (ars_files ars)"
    "evidence_item (evs_store sv) k = Inr item" "lower_hex_digest (evi_content_sha256 item)"
  shows "(\<exists>ars'. evs_artifacts sv' = Some ars' \<and>
      read_bytes lib (evi_content_sha256 item) ars' = Inl (FileNotFoundError (''artifact not found for digest '' @ evi_content_sha256 item))) \<and>
    (\<forall>other now. other \<noteq> k \<longrightarrow>
      evidence_lifecycle_projection (evs_store sv') other now = evidence_lifecycle_projection (evs_store sv) other now)"
  using assms(1)
proof (cases rule: transition_cases)
  case unchanged
  then show ?thesis by simp
next
  case (recorded item' cur action proof_sha reasons x j)
  have item': "item' = item" using recorded(1) assms(5) by simp
  let ?e = "lifecycle_event_for q item cur action proof_sha reasons"
  obtain r sv1 where d: "dispose lib wall (trq_actor q) item sv = (Inr r, sv1)" "evs_artifacts sv' = evs_artifacts sv1"
    using recorded(8)[OF assms(2)] unfolding item' by blast
  then obtain dl ars' where dl: "delete_digest lib (evi_content_sha256 item) (trq_actor q) True False wall ars = (Inr dl, ars')" "evs_artifacts sv' = Some ars'"
    using assms(3) by (auto simp: dispose_def split: prod.splits sum.splits)
  have "ars_files ars' = AList.delete (evi_content_sha256 item) (ars_files ars)"
    using dl(1) by (auto simp: delete_digest_def Let_def split: if_splits sum.splits option.splits)
  then have gone: "map_of (ars_files ars') (evi_content_sha256 item) = None" by (simp add: delete_conv)
  have same: "evidence_lifecycle_projection j other now = evidence_lifecycle_projection (evs_store sv) other now" if "other \<noteq> k" for other now
  proof -
    have "lce_evidence_id ?e = k" using evidence_item_Inr(1)[OF assms(5)] by (simp add: lifecycle_event_for_def)
    then have "lifecycle_of j other = lifecycle_of (evs_store sv) other \<and> j_evidence_items j = j_evidence_items (evs_store sv)"
      using recorded(6)[unfolded item'] that by (auto elim!: lifecycle_locked_cases simp: lifecycle_of_def)
    then show ?thesis by (intro projection_cong) (simp_all add: find_evidence_def)
  qed
  then show ?thesis using dl(2) gone assms(6) same_tables_projection[OF recorded(7)] by (simp add: read_bytes_def)
qed

theorem deletion_removes_shared_bytes_witness:
  "map_sum (\<lambda>_. ()) lcp_readable (evidence_lifecycle_projection (evs_store demo_deleted) ''e2'' 6) = Inr True \<and>
   (case evs_artifacts demo_deleted of None \<Rightarrow> False | Some ars \<Rightarrow> \<not> is_ok (read_bytes demo_evidence_library (replicate 64 CHR ''a'') ars))"
proof -
  let ?t = "transition demo_evidence_library 6 ''e1'' demo_deletion demo_two"
  note f = demo_evidence_facts(5,6,7,8,9,10)
  obtain p where t: "?t = (Inr p, demo_deleted)" using f(1) by (cases "fst ?t") (auto simp: demo_deleted_def prod_eq_iff)
  obtain ars where a: "evs_artifacts demo_two = Some ars" "map fst (ars_files ars) = [replicate 64 CHR ''a'']" using f(3) by auto
  obtain item where it: "evidence_item (evs_store demo_two) ''e1'' = Inr item" "evi_content_sha256 item = replicate 64 CHR ''a''"
    using f(4) by (cases "evidence_item (evs_store demo_two) ''e1''") auto
  have "dict_ok (ars_files ars)" by (simp add: dict_ok_def a(2))
  from deletion_removes_shared_bytes[OF t f(2) a(1) this it(1) f(5)[folded it(2)]] f(6) it(2) show ?thesis
    by (auto split: option.splits)
qed

section \<open>Independence\<close>

abbreviation proven :: "EvidenceItem list \<Rightarrow> int" where
  "proven items \<equiv> count_bools (map evi_independent_origin_proven items)"

lemma count_bools_Cons [simp]: "count_bools (b # bs) = (if b then 1 else 0) + count_bools bs"
  by (simp add: count_bools_def)

lemma sum_indicator: "distinct fs \<Longrightarrow> f \<in> set fs \<Longrightarrow> sum_list (map (\<lambda>g. if g = f then c else 0) fs) = (c :: int)"
  by (simp add: sum_list_distinct_conv_sum_set)

lemma proven_split:
  assumes "distinct fs"
  shows "\<forall>e \<in> set items. \<exists>f \<in> set fs. evi_family_id e = Some f \<Longrightarrow>
    sum_list (map (\<lambda>f. proven (filter (\<lambda>e. evi_family_id e = Some f) items)) fs) = proven items"
proof (induction items)
  case Nil
  then show ?case by (simp add: count_bools_def)
next
  case (Cons e items)
  then obtain f where f: "f \<in> set fs" "evi_family_id e = Some f" by auto
  have "proven (filter (\<lambda>e. evi_family_id e = Some g) (e # items)) =
      (if g = f then if evi_independent_origin_proven e then 1 else 0 else 0) + proven (filter (\<lambda>e. evi_family_id e = Some g) items)" for g
    using f(2) by simp
  then show ?case using Cons sum_indicator[OF assms f(1)] by (simp add: sum_list_addf)
qed

lemma map_filter_set: "set (List.map_filter g xs) = {y. \<exists>x \<in> set xs. g x = Some y}"
  by (force simp: List.map_filter_def)

text \<open>Independence units count the families and the items whose independent origin is proven.\<close>

lemma families_units:
  assumes "families j i = Inr fams"
  shows "int (length fams) = int (card {f. \<exists>e \<in> set (evidence j (Some i)). evi_family_id e = Some f})"
    "sum_list (map fam_independence_units fams) = int (length fams) + proven (evidence j (Some i))"
proof -
  let ?items = "evidence j (Some i)" and ?fs = "sorted_set (List.map_filter evi_family_id (evidence j (Some i)))"
  have fams: "fams = map (\<lambda>f. family_summary i f (filter (\<lambda>e. evi_family_id e = Some f) ?items)) ?fs" "\<not> list_ex (\<lambda>e. evi_family_id e = None) ?items"
    using assms by (auto simp: families_def Let_def split: if_splits)
  have all: "\<forall>e \<in> set ?items. \<exists>f \<in> set ?fs. evi_family_id e = Some f"
    using fams(2) by (fastforce simp: list_ex_iff map_filter_set)
  show "int (length fams) = int (card {f. \<exists>e \<in> set ?items. evi_family_id e = Some f})"
    using distinct_card[OF distinct_sorted_set, of "List.map_filter evi_family_id ?items"] by (simp add: fams(1) map_filter_set)
  show "sum_list (map fam_independence_units fams) = int (length fams) + proven ?items"
    using proven_split[OF distinct_sorted_set all]
    by (simp add: fams(1) family_summary_def Let_def comp_def sum_list_addf sum_list_triv)
qed

lemma families_exist: "evidence_inv j \<Longrightarrow> is_ok (families j i)"
  by (auto simp: families_def Let_def list_ex_iff evidence_def evidence_inv_def)

lemma evidence_sorted:
  "set (evidence j (Some i)) = {e \<in> snd ` set (j_evidence_items j). evi_incident_id e = i}"
  "proven (evidence j (Some i)) = proven (filter (\<lambda>e. evi_incident_id e = i) (map snd (j_evidence_items j)))"
  by (auto simp: evidence_def count_bools_def sum_mset_sum_list[symmetric])

text \<open>
  C40. Duplicates add no independence. Ingesting a new item changes the number of evidence families of its
  incident by one when the item is assigned a family that none of the incident's items has, and by zero
  otherwise; the independence units change by the same amount, plus one when the item's independent
  origin is proven. An item with the same bytes, perceptual hash, origin or a parent among the
  incident's items joins an existing family, so without proof of an independent origin it adds nothing.
\<close>

theorem duplicates_add_no_independence:
  assumes "ev_reachable lib sv" "evi_evidence_id item \<notin> set (item_ids (evs_store sv))"
    "fresh_id \<notin> set (map (\<lambda>r. lce_lifecycle_event_id (snd r)) (j_evidence_lifecycle_events (evs_store sv)))"
    "ingest lib consent fresh_id wall item sv = (Inr stored, sv')" "prior = evidence (evs_store sv) (Some (evi_incident_id item))"
    "added = (if \<exists>e \<in> set prior. evi_family_id e = evi_family_id stored then 0 else 1)"
  shows "\<exists>fams fams'. families (evs_store sv) (evi_incident_id item) = Inr fams \<and> families (evs_store sv') (evi_incident_id item) = Inr fams' \<and>
    int (length fams') = int (length fams) + added \<and>
    sum_list (map fam_independence_units fams') = sum_list (map fam_independence_units fams) + added + (if evi_independent_origin_proven item then 1 else 0) \<and>
    ((\<exists>e \<in> set prior. related_evidence e item) \<longrightarrow> added = 0)"
proof -
  note inv = ev_reachable_inv[OF assms(1)]
  let ?i = "evi_incident_id item" and ?j = "evs_store sv" and ?j' = "evs_store sv'"
  define new where "new = item\<lparr>evi_family_id := Some (assign_family lib prior item)\<rparr>"
  have nf: "evi_incident_id new = ?i" "evi_family_id new = Some (assign_family lib prior item)" "evi_evidence_id new = evi_evidence_id item"
    "evi_independent_origin_proven new = evi_independent_origin_proven item" by (simp_all add: new_def)
  have none: "find_evidence ?j (evi_evidence_id new) = None" using assms(2) by (simp add: find_evidence_ids nf)
  have rec: "record_evidence lib fresh_id new ?j = Inr (stored, ?j')"
    using ingest_ok[OF assms(4)] unfolding new_def assms(5) .
  note st = record_evidence_new(1)[OF rec none] and items = record_evidence_new(2)[OF rec none]
  have inv': "evidence_inv ?j'" by (rule record_evidence_inv[OF inv rec assms(3)])
  obtain fams fams' where fams: "families ?j ?i = Inr fams" "families ?j' ?i = Inr fams'"
    using families_exist[OF inv, of ?i] families_exist[OF inv', of ?i] by (cases "families ?j ?i"; cases "families ?j' ?i") auto
  let ?F = "{f. \<exists>e \<in> set prior. evi_family_id e = Some f}" and ?f = "assign_family lib prior item"
  have ev': "set (evidence ?j' (Some ?i)) = insert new (set prior)" "proven (evidence ?j' (Some ?i)) = proven prior + (if evi_independent_origin_proven item then 1 else 0)"
    unfolding evidence_sorted assms(5) items using nf by (auto simp: count_bools_def)
  have F': "{f. \<exists>e \<in> set (evidence ?j' (Some ?i)). evi_family_id e = Some f} = insert ?f ?F" unfolding ev' using nf by auto
  have fin: "finite ?F" unfolding map_filter_set[of evi_family_id prior, symmetric] by simp
  have added: "added = (if ?f \<in> ?F then 0 else 1)" unfolding assms(6) st nf by auto
  have len: "int (length fams') = int (length fams) + added"
    unfolding families_units(1)[OF fams(1)] families_units(1)[OF fams(2)] F' assms(5)[symmetric] added using fin by (simp add: insert_absorb)
  have units: "sum_list (map fam_independence_units fams') = sum_list (map fam_independence_units fams) + added + (if evi_independent_origin_proven item then 1 else 0)"
    unfolding families_units(2)[OF fams(1)] families_units(2)[OF fams(2)] len ev'(2) assms(5)[symmetric] by simp
  have "added = 0" if rel: "\<exists>e \<in> set prior. related_evidence e item"
  proof -
    obtain e where e: "find (\<lambda>e. related_evidence e item) prior = Some e"
      using rel find_None_iff[of "\<lambda>e. related_evidence e item" prior] by fastforce
    then have mem: "e \<in> set prior" by (auto simp: find_Some_iff)
    then obtain f where "evi_family_id e = Some f" using inv unfolding evidence_inv_def assms(5) evidence_sorted by fastforce
    with e mem have "?f \<in> ?F" by (auto simp: assign_family_def)
    then show ?thesis by (simp add: added)
  qed
  then show ?thesis using fams len units by blast
qed

theorem duplicates_add_no_independence_witness:
  "\<exists>fams fams'. families (evs_store demo_one) ''i'' = Inr fams \<and> families (evs_store demo_two) ''i'' = Inr fams' \<and>
     length fams = length fams' \<and> sum_list (map fam_independence_units fams') = sum_list (map fam_independence_units fams)"
proof -
  let ?item = "demo_evidence ''e2'' ''y''"
  let ?t = "ingest demo_evidence_library None ''l2'' 5 ?item demo_one"
  note f = demo_evidence_facts(11,12,3,13)
  obtain stored where t: "?t = (Inr stored, demo_two)" using f(1) by (cases "fst ?t") (auto simp: demo_two_def prod_eq_iff)
  have i: "evi_incident_id ?item = ''i''" "evi_evidence_id ?item = ''e2''" "\<not> evi_independent_origin_proven ?item" by (simp_all add: demo_evidence_def)
  have "evi_evidence_id ?item \<notin> set (item_ids (evs_store demo_one))" by (simp add: f(2) i)
  from duplicates_add_no_independence[OF demo_service_reachable(1) this _ t refl refl] f(3,4)
  show ?thesis unfolding i by (auto simp: list_ex_iff i)
qed

end
