(* ===== verification/Disposition.thy ===== *)
theory Disposition
  imports Evidence_Service
begin

text \<open>
  Privacy disposition, \<^verbatim>\<open>PrivacyDispositionService\<close> of \<^verbatim>\<open>src/src/sentinel_edge/privacy/disposition.py\<close>, as the
  scenario engine wires it: the authority recorder, when one is installed, appends to the journal of the
  evidence service, and \<^verbatim>\<open>close\<close> is called with that service and its artifact store. The state is the tables
  of the disposition database beside the evidence service.

  \<open>now\<close> is an argument, \<open>wall\<close> is the clock that \<^verbatim>\<open>lifecycle\<close>, \<^verbatim>\<open>delete_digest\<close> and
  \<^verbatim>\<open>document_alternate_basis\<close> read. \<^verbatim>\<open>INSERT OR IGNORE\<close> skips a row that violates a key or a \<^verbatim>\<open>NOT NULL\<close>;
  \<^verbatim>\<open>INSERT OR REPLACE\<close> deletes the rows it conflicts with. The sender of \<^verbatim>\<open>reconcile_external_recipients\<close> is
  a function from the node to its reply, \<open>Inl\<close> being the class name of the exception it raises; one call of
  the operation sends to a node at most once. Its calls are returned in order.
\<close>

section \<open>Tables\<close>

record node_event =
  nev_event_id :: uuid
  nev_request_id :: uuid
  nev_result :: DispositionNodeResult

record restriction =
  rst_request_id :: uuid
  rst_action :: DispositionAction
  rst_created_at :: datetime

record consent_block =
  cbl_request_id :: uuid
  cbl_created_at :: datetime
  cbl_alternate_basis :: "string option"

record external_receipt =
  xrc_receipt_id :: uuid
  xrc_node_id :: uuid
  xrc_recipient_digest :: "string option"
  xrc_action :: string
  xrc_actor :: string
  xrc_created_at :: datetime
  xrc_receipt_sha256 :: string

record disposition =
  dsp_lineage_nodes :: "DispositionLineageNode list"
  dsp_requests :: "DispositionRequest list"
  dsp_request_evidence :: "(uuid \<times> uuid) list"
  dsp_node_events :: "node_event list"
  dsp_restrictions :: "(uuid, restriction) dict"
  dsp_consent_blocks :: "(string, consent_block) dict"
  dsp_receipts :: "external_receipt list"
  dsp_attempts :: "ExternalRecipientReconciliationAttempt list"
  dsp_recorder_installed :: bool

record privacy =
  prv_disposition :: disposition
  prv_evidence :: evidence_service

definition disposition_init :: "bool \<Rightarrow> disposition" where
  "disposition_init recorder = \<lparr>dsp_lineage_nodes = [], dsp_requests = [], dsp_request_evidence = [], dsp_node_events = [],
     dsp_restrictions = [], dsp_consent_blocks = [], dsp_receipts = [], dsp_attempts = [], dsp_recorder_installed = recorder\<rparr>"

definition record_disposition :: "library \<Rightarrow> string \<Rightarrow> datetime \<Rightarrow> json \<Rightarrow> privacy \<Rightarrow> privacy" where
  "record_disposition lib entity_id created_at payload p =
     (if dsp_recorder_installed (prv_disposition p)
      then p\<lparr>prv_evidence := (prv_evidence p)\<lparr>evs_store :=
        snd (record_authority_mutation lib AM_DISPOSITION entity_id created_at payload (evs_store (prv_evidence p)))\<rparr>\<rparr>
      else p)"

definition subject_digest :: "library \<Rightarrow> string \<Rightarrow> string" where
  "subject_digest lib subject_ref = sha256_bytes lib (''sentinel-disposition-subject-v1:'' @ subject_ref)"

section \<open>Lineage\<close>

definition node_id_of :: "library \<Rightarrow> uuid \<Rightarrow> DispositionNodeKind \<Rightarrow> string \<Rightarrow> uuid option \<Rightarrow> string option \<Rightarrow> uuid" where
  "node_id_of lib evidence_id kind target_ref parent recipient_digest =
     lib_uuid5 lib (''sentinel-disposition-node:'' @ digest lib (JObj
       [(''evidence_id'', JStr evidence_id), (''kind'', JStr (DispositionNodeKind_value kind)), (''target_ref'', JStr target_ref),
        (''parent_node_id'', jopt JStr parent), (''recipient_digest'', jopt JStr recipient_digest)]))"

record node_registration =
  nrg_evidence_id :: uuid
  nrg_kind :: DispositionNodeKind
  nrg_target_ref :: string
  nrg_parent_node_id :: "uuid option"
  nrg_external_recipient :: "string option"
  nrg_exception_reason :: "string option"
  nrg_exception_expires_at :: "datetime option"
  nrg_created_at :: datetime

definition lineage_node_for :: "library \<Rightarrow> node_registration \<Rightarrow> DispositionLineageNode" where
  "lineage_node_for lib q =
     (let recipient = (if given (nrg_external_recipient q) then Some (subject_digest lib (the (nrg_external_recipient q))) else None)
      in \<lparr>dln_node_id = node_id_of lib (nrg_evidence_id q) (nrg_kind q) (nrg_target_ref q) (nrg_parent_node_id q) recipient,
          dln_evidence_id = nrg_evidence_id q, dln_kind = nrg_kind q, dln_target_ref = nrg_target_ref q,
          dln_parent_node_id = nrg_parent_node_id q, dln_external_recipient_digest = recipient,
          dln_exception_reason = nrg_exception_reason q, dln_exception_expires_at = nrg_exception_expires_at q,
          dln_created_at = nrg_created_at q\<rparr>)"

definition find_node :: "disposition \<Rightarrow> uuid \<Rightarrow> DispositionLineageNode option" where
  "find_node d k = find (\<lambda>n. dln_node_id n = k) (dsp_lineage_nodes d)"

definition register_node :: "library \<Rightarrow> node_registration \<Rightarrow> disposition \<Rightarrow> (DispositionLineageNode \<times> disposition) result" where
  "register_node lib q d =
     (let node = lineage_node_for lib q
      in bind_result (validate_node node) (\<lambda>_.
           case find_node d (dln_node_id node) of
             Some existing \<Rightarrow>
               if existing \<noteq> node then Inl (ValueError ''disposition node identity conflict'') else Inr (existing, d)
           | None \<Rightarrow> Inr (node, d\<lparr>dsp_lineage_nodes := dsp_lineage_nodes d @ [node]\<rparr>)))"

definition lineage_nodes :: "disposition \<Rightarrow> uuid option \<Rightarrow> DispositionLineageNode list" where
  "lineage_nodes d evidence_id =
     sort_key (\<lambda>n. (dln_created_at n, dln_node_id n))
       (filter (\<lambda>n. case evidence_id of None \<Rightarrow> True | Some e \<Rightarrow> dln_evidence_id n = e) (dsp_lineage_nodes d))"

section \<open>Requests, restrictions and consent\<close>

record request_form =
  rqf_action :: DispositionAction
  rqf_evidence_ids :: "uuid list"
  rqf_subject_ref :: string
  rqf_subject_basis :: string
  rqf_actor :: string
  rqf_reason :: string
  rqf_deadline :: datetime
  rqf_legal_exception_reason :: "string option"
  rqf_legal_exception_expires_at :: "datetime option"
  rqf_created_at :: datetime

definition request_for :: "library \<Rightarrow> request_form \<Rightarrow> DispositionRequest" where
  "request_for lib q =
     (let subject = subject_digest lib (rqf_subject_ref q);
          rid = lib_uuid5 lib (''sentinel-disposition-request:'' @ digest lib (JObj
            [(''action'', JStr (DispositionAction_value (rqf_action q))),
             (''evidence_ids'', JArr (map JStr (sort (rqf_evidence_ids q)))), (''subject_digest'', JStr subject),
             (''actor'', JStr (rqf_actor q)), (''reason'', JStr (rqf_reason q)),
             (''created_at'', JStr (lib_isoformat lib (rqf_created_at q)))]))
      in \<lparr>drq_request_id = rid, drq_action = rqf_action q, drq_evidence_ids = sorted_set (rqf_evidence_ids q),
          drq_subject_digest = subject, drq_subject_basis = rqf_subject_basis q, drq_actor = rqf_actor q, drq_reason = rqf_reason q,
          drq_deadline = rqf_deadline q, drq_created_at = rqf_created_at q, drq_status = DS_RESTRICTED,
          drq_legal_exception_reason = rqf_legal_exception_reason q,
          drq_legal_exception_expires_at = rqf_legal_exception_expires_at q, drq_terminal_outcome = None\<rparr>)"

definition find_request :: "disposition \<Rightarrow> uuid \<Rightarrow> DispositionRequest option" where
  "find_request d k = find (\<lambda>r. drq_request_id r = k) (dsp_requests d)"

text \<open>The rows that a new request writes, in one transaction.\<close>

definition insert_request :: "DispositionRequest \<Rightarrow> disposition \<Rightarrow> disposition result" where
  "insert_request r d =
     (let ids = drq_evidence_ids r; rid = drq_request_id r in
      if \<exists>e \<in> set ids. (rid, e) \<in> set (dsp_request_evidence d) then Inl (IntegrityError ''disposition_request_evidence'')
      else
        let mark = \<lparr>rst_request_id = rid, rst_action = drq_action r, rst_created_at = drq_created_at r\<rparr>
        in Inr (d\<lparr>dsp_requests := dsp_requests d @ [r],
             dsp_request_evidence := dsp_request_evidence d @ map (\<lambda>e. (rid, e)) ids,
             dsp_restrictions := fold (\<lambda>e. AList.update e mark) ids (dsp_restrictions d),
             dsp_consent_blocks := (if drq_action r = DA_CONSENT_WITHDRAWAL
               then AList.update (drq_subject_digest r)
                 \<lparr>cbl_request_id = rid, cbl_created_at = drq_created_at r, cbl_alternate_basis = None\<rparr> (dsp_consent_blocks d)
               else dsp_consent_blocks d)\<rparr>))"

definition create_request :: "library \<Rightarrow> request_form \<Rightarrow> privacy \<Rightarrow> (DispositionRequest \<times> privacy) result" where
  "create_request lib q p =
     (let request = request_for lib q
      in bind_result (validate_request request) (\<lambda>_.
           case find_request (prv_disposition p) (drq_request_id request) of
             Some existing \<Rightarrow> Inr (existing, p)
           | None \<Rightarrow>
               bind_result (insert_request request (prv_disposition p)) (\<lambda>d.
                 Inr (request, record_disposition lib (drq_request_id request) (drq_created_at request)
                   (lib_model_dump lib (V_disposition_request request)) (p\<lparr>prv_disposition := d\<rparr>)))))"

definition request_by_id :: "disposition \<Rightarrow> uuid \<Rightarrow> DispositionRequest result" where
  "request_by_id d k = (case find_request d k of None \<Rightarrow> Inl (KeyError k) | Some r \<Rightarrow> Inr r)"

definition requests :: "disposition \<Rightarrow> DispositionRequest list" where
  "requests d = sort_key (\<lambda>r. (drq_created_at r, drq_request_id r)) (dsp_requests d)"

definition is_restricted :: "disposition \<Rightarrow> uuid \<Rightarrow> bool" where
  "is_restricted d evidence_id \<longleftrightarrow> map_of (dsp_restrictions d) evidence_id \<noteq> None"

record processing_decision =
  pdc_allowed :: bool
  pdc_subject_digest :: string
  pdc_request_id :: "uuid option"
  pdc_reason_codes :: "string list"
  pdc_alternate_basis :: "string option"

definition processing_allowed :: "library \<Rightarrow> disposition \<Rightarrow> string \<Rightarrow> string \<Rightarrow> processing_decision" where
  "processing_allowed lib d subject_ref basis =
     (let subject = subject_digest lib subject_ref;
          granted = \<lparr>pdc_allowed = True, pdc_subject_digest = subject, pdc_request_id = None, pdc_reason_codes = [],
            pdc_alternate_basis = None\<rparr>
      in case map_of (dsp_consent_blocks d) subject of
           None \<Rightarrow> granted
         | Some row \<Rightarrow>
             if basis \<noteq> ''consent'' then granted
             else if given (cbl_alternate_basis row)
             then granted\<lparr>pdc_reason_codes := [''consent_withdrawn_alternate_basis_documented''],
               pdc_alternate_basis := cbl_alternate_basis row\<rparr>
             else \<lparr>pdc_allowed = False, pdc_subject_digest = subject, pdc_request_id = Some (cbl_request_id row),
               pdc_reason_codes = [''consent_withdrawn_future_processing_blocked''], pdc_alternate_basis = None\<rparr>)"

definition document_alternate_basis :: "library \<Rightarrow> string \<Rightarrow> string \<Rightarrow> string \<Rightarrow> string \<Rightarrow> datetime \<Rightarrow> privacy \<Rightarrow> privacy result" where
  "document_alternate_basis lib subject_ref basis actor reason wall p =
     (if blank basis \<or> blank actor \<or> blank reason then Inl (ValueError ''alternate basis governance fields are required'')
      else
        let dg = subject_digest lib subject_ref; d = prv_disposition p
        in case map_of (dsp_consent_blocks d) dg of
             None \<Rightarrow> Inl (KeyError dg)
           | Some row \<Rightarrow>
               Inr (record_disposition lib (cbl_request_id row) wall
                 (JObj [(''action'', JStr ''alternate_basis_documented''), (''subject_digest'', JStr dg), (''basis'', JStr basis),
                   (''actor'', JStr actor), (''reason'', JStr reason)])
                 (p\<lparr>prv_disposition := d\<lparr>dsp_consent_blocks :=
                   AList.update dg (row\<lparr>cbl_alternate_basis := Some basis\<rparr>) (dsp_consent_blocks d)\<rparr>\<rparr>)))"

text \<open>\<^verbatim>\<open>EvidenceTrustService.ingest\<close> with the disposition service installed.\<close>

definition governed_ingest :: "library \<Rightarrow> uuid \<Rightarrow> datetime \<Rightarrow> EvidenceItem \<Rightarrow> privacy \<Rightarrow> EvidenceItem result \<times> privacy" where
  "governed_ingest lib fresh_id wall item p =
     (case ingest lib (Some (\<lambda>subject basis. pdc_allowed (processing_allowed lib (prv_disposition p) subject basis)))
         fresh_id wall item (prv_evidence p) of
        (out, sv) \<Rightarrow> (out, p\<lparr>prv_evidence := sv\<rparr>))"

section \<open>External recipients\<close>

definition external_kind :: "DispositionNodeKind \<Rightarrow> bool" where
  "external_kind k \<longleftrightarrow> k \<in> {NK_EXTERNAL_RECIPIENT, NK_EXPORT, NK_REPLICA}"

definition receipt_for :: "library \<Rightarrow> DispositionLineageNode \<Rightarrow> string \<Rightarrow> string \<Rightarrow> datetime \<Rightarrow> external_receipt" where
  "receipt_for lib node actor receipt created_at =
     (let sha = digest lib (JObj [(''node_id'', JStr (dln_node_id node)),
            (''recipient_digest'', jopt JStr (dln_external_recipient_digest node)), (''actor'', JStr actor),
            (''receipt'', JStr receipt), (''created_at'', JStr (lib_isoformat lib created_at))])
      in \<lparr>xrc_receipt_id = lib_uuid5 lib (''sentinel-external-receipt:'' @ sha), xrc_node_id = dln_node_id node,
          xrc_recipient_digest = dln_external_recipient_digest node, xrc_action = ''deletion_acknowledged'',
          xrc_actor = actor, xrc_created_at = created_at, xrc_receipt_sha256 = sha\<rparr>)"

definition receipt_json :: "library \<Rightarrow> external_receipt \<Rightarrow> json" where
  "receipt_json lib r = JObj
     [(''receipt_id'', JStr (xrc_receipt_id r)), (''node_id'', JStr (xrc_node_id r)),
      (''recipient_digest'', jopt JStr (xrc_recipient_digest r)), (''action'', JStr (xrc_action r)), (''actor'', JStr (xrc_actor r)),
      (''created_at'', JStr (lib_isoformat lib (xrc_created_at r))), (''receipt_sha256'', JStr (xrc_receipt_sha256 r))]"

definition insert_receipt :: "external_receipt \<Rightarrow> disposition \<Rightarrow> disposition" where
  "insert_receipt r d =
     (if xrc_recipient_digest r = None \<or> (\<exists>x \<in> set (dsp_receipts d). xrc_receipt_id x = xrc_receipt_id r) then d
      else d\<lparr>dsp_receipts := dsp_receipts d @ [r]\<rparr>)"

definition store_acknowledgement :: "library \<Rightarrow> external_receipt \<Rightarrow> privacy \<Rightarrow> privacy" where
  "store_acknowledgement lib r p = record_disposition lib (xrc_receipt_id r) (xrc_created_at r) (receipt_json lib r)
     (p\<lparr>prv_disposition := insert_receipt r (prv_disposition p)\<rparr>)"

definition acknowledge_external_recipient :: "library \<Rightarrow> uuid \<Rightarrow> string \<Rightarrow> string \<Rightarrow> datetime \<Rightarrow> privacy \<Rightarrow> (external_receipt \<times> privacy) result" where
  "acknowledge_external_recipient lib node_id actor receipt created_at p =
     (case find_node (prv_disposition p) node_id of
        None \<Rightarrow> Inl (KeyError node_id)
      | Some node \<Rightarrow>
          if \<not> external_kind (dln_kind node) then Inl (ValueError ''node is not an external recipient/export/replica'')
          else let r = receipt_for lib node actor receipt created_at in Inr (r, store_acknowledgement lib r p))"

definition external_ack :: "disposition \<Rightarrow> uuid \<Rightarrow> string option" where
  "external_ack d node_id =
     (case sort_key (\<lambda>r. - xrc_created_at r) (filter (\<lambda>r. xrc_node_id r = node_id) (dsp_receipts d)) of
        [] \<Rightarrow> None
      | r # _ \<Rightarrow> Some (xrc_receipt_sha256 r))"

definition external_reconciliation_attempts :: "disposition \<Rightarrow> uuid option \<Rightarrow> ExternalRecipientReconciliationAttempt list" where
  "external_reconciliation_attempts d request_id =
     sort_key (\<lambda>a. (era_created_at a, era_attempt_id a))
       (filter (\<lambda>a. case request_id of None \<Rightarrow> True | Some r \<Rightarrow> era_request_id a = r) (dsp_attempts d))"

type_synonym recipient_sender = "DispositionLineageNode \<Rightarrow> string + bool \<times> string"

record reconcile_policy =
  rpo_actor :: string
  rpo_now :: datetime
  rpo_max_attempts :: int
  rpo_retry_delay_seconds :: int

record attempt_outcome =
  aoc_state :: RecipientReconciliationState
  aoc_attempt_no :: int
  aoc_next_retry :: "datetime option"
  aoc_response_code :: "string option"
  aoc_receipt_sha :: "string option"
  aoc_projected_only :: bool
  aoc_sent :: bool

text \<open>The branch in which the sender is called.\<close>

definition send_once :: "library \<Rightarrow> recipient_sender \<Rightarrow> reconcile_policy \<Rightarrow> DispositionLineageNode \<Rightarrow> int \<Rightarrow> string option \<Rightarrow> privacy \<Rightarrow> attempt_outcome \<times> privacy" where
  "send_once lib sender pol node attempt_no ack p =
     (let (success, code) = (case sender node of Inl name \<Rightarrow> (False, ''sender_exception:'' @ name) | Inr reply \<Rightarrow> reply);
          base = \<lparr>aoc_state = RS_EXHAUSTED, aoc_attempt_no = attempt_no, aoc_next_retry = None, aoc_response_code = Some code,
            aoc_receipt_sha = ack, aoc_projected_only = False, aoc_sent = True\<rparr>
      in if success
         then let r = receipt_for lib node (rpo_actor pol) (if code = [] then ''recipient_acknowledged'' else code) (rpo_now pol)
              in (base\<lparr>aoc_state := RS_ACKNOWLEDGED, aoc_receipt_sha := Some (xrc_receipt_sha256 r)\<rparr>, store_acknowledgement lib r p)
         else if rpo_max_attempts pol \<le> attempt_no then (base, p)
         else (base\<lparr>aoc_state := RS_RETRY_SCHEDULED, aoc_next_retry := Some (rpo_now pol + rpo_retry_delay_seconds pol * 1000000)\<rparr>, p))"

definition attempt_node :: "library \<Rightarrow> recipient_sender \<Rightarrow> reconcile_policy \<Rightarrow> DispositionRequest \<Rightarrow> DispositionLineageNode \<Rightarrow> privacy \<Rightarrow> attempt_outcome \<times> privacy" where
  "attempt_node lib sender pol request node p =
     (let d = prv_disposition p;
          ack = external_ack d (dln_node_id node);
          previous = filter (\<lambda>a. era_node_id a = dln_node_id node) (external_reconciliation_attempts d (Some (drq_request_id request)));
          prior = last previous;
          attempt_no = int (length previous) + 1;
          base = \<lparr>aoc_state = RS_ALREADY_ACKNOWLEDGED, aoc_attempt_no = attempt_no, aoc_next_retry = None, aoc_response_code = None,
            aoc_receipt_sha = ack, aoc_projected_only = True, aoc_sent = False\<rparr>
      in if given ack then (base, p)
         else if previous \<noteq> [] \<and> era_state prior \<in> {RS_EXHAUSTED, RS_DEADLINE_EXPIRED}
         then (base\<lparr>aoc_state := era_state prior, aoc_attempt_no := era_attempt_no prior, aoc_response_code := era_response_code prior\<rparr>, p)
         else if drq_deadline request \<le> rpo_now pol
         then (base\<lparr>aoc_state := RS_DEADLINE_EXPIRED, aoc_projected_only := False\<rparr>, p)
         else if previous \<noteq> [] \<and> (case era_next_retry_at prior of None \<Rightarrow> False | Some t \<Rightarrow> rpo_now pol < t)
         then (base\<lparr>aoc_state := RS_NOT_DUE, aoc_attempt_no := era_attempt_no prior, aoc_next_retry := era_next_retry_at prior\<rparr>, p)
         else send_once lib sender pol node attempt_no ack p)"

definition attempt_for :: "library \<Rightarrow> reconcile_policy \<Rightarrow> uuid \<Rightarrow> DispositionLineageNode \<Rightarrow> string \<Rightarrow> attempt_outcome \<Rightarrow> ExternalRecipientReconciliationAttempt" where
  "attempt_for lib pol request_id node recipient_digest oc =
     (let dg = digest lib (JObj
            [(''request_id'', JStr request_id), (''node_id'', JStr (dln_node_id node)), (''recipient_digest'', JStr recipient_digest),
             (''attempt_no'', JInt (aoc_attempt_no oc)), (''state'', JStr (RecipientReconciliationState_value (aoc_state oc))),
             (''actor'', JStr (rpo_actor pol)), (''created_at'', JStr (lib_isoformat lib (rpo_now pol))),
             (''next_retry_at'', jopt (\<lambda>t. JStr (lib_isoformat lib t)) (aoc_next_retry oc)),
             (''response_code'', jopt JStr (aoc_response_code oc)), (''receipt_sha256'', jopt JStr (aoc_receipt_sha oc))])
      in \<lparr>era_attempt_id = lib_uuid5 lib (''sentinel-recipient-reconciliation:'' @ dg), era_request_id = request_id,
          era_node_id = dln_node_id node, era_recipient_digest = recipient_digest, era_attempt_no = aoc_attempt_no oc,
          era_state = aoc_state oc, era_actor = rpo_actor pol, era_created_at = rpo_now pol, era_next_retry_at = aoc_next_retry oc,
          era_response_code = aoc_response_code oc, era_receipt_sha256 = aoc_receipt_sha oc, era_payload_sha256 = dg\<rparr>)"

definition insert_attempt :: "ExternalRecipientReconciliationAttempt \<Rightarrow> disposition \<Rightarrow> disposition" where
  "insert_attempt a d =
     (if \<exists>x \<in> set (dsp_attempts d). era_attempt_id x = era_attempt_id a \<or>
           (era_request_id x = era_request_id a \<and> era_node_id x = era_node_id a \<and> era_attempt_no x = era_attempt_no a)
      then d else d\<lparr>dsp_attempts := dsp_attempts d @ [a]\<rparr>)"

text \<open>One turn of the loop: the attempt, whether the sender was called, and the state after it.\<close>

definition reconcile_node :: "library \<Rightarrow> recipient_sender \<Rightarrow> reconcile_policy \<Rightarrow> DispositionRequest \<Rightarrow> DispositionLineageNode \<Rightarrow> privacy \<Rightarrow>
    ExternalRecipientReconciliationAttempt \<times> bool \<times> privacy" where
  "reconcile_node lib sender pol request node p =
     (let (oc, p1) = attempt_node lib sender pol request node p;
          a = attempt_for lib pol (drq_request_id request) node (the (dln_external_recipient_digest node)) oc
      in (a, aoc_sent oc,
          if aoc_projected_only oc then p1
          else record_disposition lib (era_attempt_id a) (rpo_now pol) (lib_model_dump lib (V_reconciliation_attempt a))
            (p1\<lparr>prv_disposition := insert_attempt a (prv_disposition p1)\<rparr>)))"

fun reconcile_loop :: "library \<Rightarrow> recipient_sender \<Rightarrow> reconcile_policy \<Rightarrow> DispositionRequest \<Rightarrow> DispositionLineageNode list \<Rightarrow>
    ExternalRecipientReconciliationAttempt list \<Rightarrow> uuid list \<Rightarrow> privacy \<Rightarrow>
    ExternalRecipientReconciliationAttempt list result \<times> uuid list \<times> privacy" where
  "reconcile_loop lib sender pol request [] acc calls p = (Inr acc, calls, p)"
| "reconcile_loop lib sender pol request (node # rest) acc calls p =
     (if \<not> given (dln_external_recipient_digest node)
      then (Inl (ValueError ''external reconciliation requires a recipient digest''), calls, p)
      else (case reconcile_node lib sender pol request node p of
        (a, sent, p1) \<Rightarrow> reconcile_loop lib sender pol request rest (acc @ [a]) (if sent then calls @ [dln_node_id node] else calls) p1))"

definition count_states :: "RecipientReconciliationState list \<Rightarrow> ExternalRecipientReconciliationAttempt list \<Rightarrow> int" where
  "count_states ss as = int (length (filter (\<lambda>a. era_state a \<in> set ss) as))"

definition reconciliation_report :: "library \<Rightarrow> uuid \<Rightarrow> datetime \<Rightarrow> ExternalRecipientReconciliationAttempt list \<Rightarrow> ExternalRecipientReconciliationReport" where
  "reconciliation_report lib request_id now as =
     (let acked = count_states [RS_ACKNOWLEDGED, RS_ALREADY_ACKNOWLEDGED] as;
          retry = count_states [RS_RETRY_SCHEDULED, RS_NOT_DUE] as;
          exhausted = count_states [RS_EXHAUSTED] as;
          expired = count_states [RS_DEADLINE_EXPIRED] as;
          unsettled = retry + exhausted + expired
      in \<lparr>err_request_id = request_id, err_generated_at = now, err_attempts = as, err_acknowledged = acked,
          err_retry_scheduled = retry, err_exhausted = exhausted, err_deadline_expired = expired, err_pending = unsettled,
          err_complete = (unsettled = 0),
          err_report_sha256 = digest lib (JObj
            [(''request_id'', JStr request_id), (''generated_at'', JStr (lib_isoformat lib now)),
             (''attempts'', JArr (map (\<lambda>a. lib_model_dump lib (V_reconciliation_attempt a)) as)),
             (''acknowledged'', JInt acked), (''retry_scheduled'', JInt retry), (''exhausted'', JInt exhausted),
             (''deadline_expired'', JInt expired), (''pending'', JInt unsettled), (''complete'', JBool (unsettled = 0))])\<rparr>)"

definition recipient_nodes :: "disposition \<Rightarrow> DispositionRequest \<Rightarrow> DispositionLineageNode list" where
  "recipient_nodes d request = sort_key dln_node_id
     (filter (\<lambda>n. external_kind (dln_kind n)) (concat (map (\<lambda>e. lineage_nodes d (Some e)) (remdups (drq_evidence_ids request)))))"

definition reconcile_external_recipients :: "library \<Rightarrow> uuid \<Rightarrow> recipient_sender \<Rightarrow> reconcile_policy \<Rightarrow> privacy \<Rightarrow>
    ExternalRecipientReconciliationReport result \<times> uuid list \<times> privacy" where
  "reconcile_external_recipients lib request_id sender pol p =
     (if rpo_max_attempts pol \<le> 0 \<or> rpo_retry_delay_seconds pol \<le> 0
      then (Inl (ValueError ''reconciliation attempt and retry limits must be positive''), [], p)
      else if blank (rpo_actor pol) then (Inl (ValueError ''reconciliation actor is required''), [], p)
      else (case request_by_id (prv_disposition p) request_id of
         Inl e \<Rightarrow> (Inl e, [], p)
       | Inr request \<Rightarrow>
           (case reconcile_loop lib sender pol request (recipient_nodes (prv_disposition p) request) [] [] p of
              (Inl e, calls, p1) \<Rightarrow> (Inl e, calls, p1)
            | (Inr as, calls, p1) \<Rightarrow>
                let report = reconciliation_report lib request_id (rpo_now pol) as
                in (Inr report, calls, record_disposition lib request_id (rpo_now pol)
                  (JObj [(''external_recipient_reconciliation'', lib_model_dump lib (V_reconciliation_report report))]) p1))))"

section \<open>Closure\<close>

definition record_node_result :: "library \<Rightarrow> uuid \<Rightarrow> DispositionNodeResult \<Rightarrow> disposition \<Rightarrow> disposition" where
  "record_node_result lib request_id res d =
     (let eid = lib_uuid5 lib (''sentinel-disposition-node-event:'' @ request_id @ '':'' @ dnr_node_id res @ '':'' @
            DispositionNodeStatus_value (dnr_status res) @ '':'' @ (case dnr_receipt_sha256 res of None \<Rightarrow> [] | Some s \<Rightarrow> s));
          clash = (\<lambda>e. nev_event_id e = eid \<or> (nev_request_id e = request_id \<and> dnr_node_id (nev_result e) = dnr_node_id res \<and>
            dnr_status (nev_result e) = dnr_status res))
      in d\<lparr>dsp_node_events := filter (\<lambda>e. \<not> clash e) (dsp_node_events d) @
        [\<lparr>nev_event_id = eid, nev_request_id = request_id, nev_result = res\<rparr>]\<rparr>)"

definition reference_prefix :: string where
  "reference_prefix = ''artifact-reference:''"

definition artifact_prefix :: string where
  "artifact_prefix = ''artifact-sha256:''"

text \<open>What closing does to one node: status, reason code, receipt and the artifact store it leaves.\<close>

definition close_target :: "library \<Rightarrow> datetime \<Rightarrow> datetime \<Rightarrow> string \<Rightarrow> DispositionLineageNode \<Rightarrow> disposition \<Rightarrow> artifact_store option \<Rightarrow>
    (DispositionNodeStatus \<times> string \<times> string option) \<times> artifact_store option" where
  "close_target lib wall now actor node d ars =
     (if given (dln_exception_reason node) \<and> (case dln_exception_expires_at node of None \<Rightarrow> True | Some t \<Rightarrow> now < t)
      then ((DN_RETAINED_EXCEPTION, ''explicit_retained_exception'', None), ars)
      else if external_kind (dln_kind node)
      then (let ack = external_ack d (dln_node_id node)
            in if given ack then ((DN_DELETED, ''external_deletion_acknowledged'', ack), ars)
               else ((DN_EXTERNAL_PENDING, ''external_recipient_pending'', ack), ars))
      else if dln_kind node \<in> {NK_GRANT, NK_LEASE}
      then (if starts_with (dln_target_ref node) reference_prefix
            then (case ars of
                None \<Rightarrow> ((DN_FAILED, ''reference_revocation_failed:AttributeError'', None), ars)
              | Some st \<Rightarrow> ((DN_REVOKED, ''artifact_reference_revoked'', None),
                  Some (st\<lparr>ars_catalog := remove_reference (drop (length reference_prefix) (dln_target_ref node)) (ars_catalog st)\<rparr>)))
            else ((DN_REVOKED, ''logical_grant_revoked'', None), ars))
      else if starts_with (dln_target_ref node) artifact_prefix
      then (case ars of
          None \<Rightarrow> ((DN_FAILED, ''artifact_deletion_failed:AttributeError'', None), ars)
        | Some st \<Rightarrow>
            (case delete_digest lib (drop (length artifact_prefix) (dln_target_ref node)) actor True False wall st of
               (Inr del, st') \<Rightarrow> ((DN_DELETED, ''local_artifact_deleted'', Some (del_deletion_proof_sha256 del)), Some st')
             | (Inl (PermissionError m), st') \<Rightarrow> ((DN_RETAINED_EXCEPTION, ''artifact_retained:'' @ m, None), Some st')
             | (Inl e, st') \<Rightarrow> ((DN_FAILED, ''artifact_deletion_failed:'' @ exn_name e, None), Some st')))
      else ((DN_DELETED, ''logical_descendant_removed'', None), ars))"

definition close_node :: "library \<Rightarrow> datetime \<Rightarrow> datetime \<Rightarrow> DispositionRequest \<Rightarrow> DispositionLineageNode \<Rightarrow> privacy \<Rightarrow> DispositionNodeResult \<times> privacy" where
  "close_node lib wall now request node p =
     (case close_target lib wall now (drq_actor request) node (prv_disposition p) (evs_artifacts (prv_evidence p)) of
        ((status, reason, receipt), ars) \<Rightarrow>
          let res = \<lparr>dnr_node_id = dln_node_id node, dnr_evidence_id = dln_evidence_id node, dnr_kind = dln_kind node,
                dnr_status = status, dnr_target_digest = sha256_bytes lib (dln_target_ref node), dnr_reason_codes = [reason],
                dnr_updated_at = now, dnr_receipt_sha256 = receipt\<rparr>
          in (res, p\<lparr>prv_disposition := record_node_result lib (drq_request_id request) res (prv_disposition p),
               prv_evidence := (prv_evidence p)\<lparr>evs_artifacts := ars\<rparr>\<rparr>))"

fun close_nodes :: "library \<Rightarrow> datetime \<Rightarrow> datetime \<Rightarrow> DispositionRequest \<Rightarrow> DispositionLineageNode list \<Rightarrow> privacy \<Rightarrow> DispositionNodeResult list \<times> privacy" where
  "close_nodes lib wall now request [] p = ([], p)"
| "close_nodes lib wall now request (n # ns) p =
     (let (res, p1) = close_node lib wall now request n p; (rest, p2) = close_nodes lib wall now request ns p1 in (res # rest, p2))"

definition erasure_request :: "DispositionRequest \<Rightarrow> int \<Rightarrow> datetime \<Rightarrow> uuid \<times> uuid \<Rightarrow> transition_request" where
  "erasure_request request version now ids = \<lparr>trq_to_state = ES_DELETED, trq_expected_version = version,
     trq_actor = drq_actor request, trq_reason = drq_reason request, trq_now = now, trq_redaction_profile_id = None,
     trq_event_id = fst ids, trq_reevaluation_id = snd ids\<rparr>"

text \<open>The \<^verbatim>\<open>try\<close> block of an erasure: the evidence service it leaves and the exception, if one is raised.\<close>

definition erase_evidence :: "library \<Rightarrow> datetime \<Rightarrow> datetime \<Rightarrow> (uuid \<Rightarrow> uuid \<times> uuid) \<Rightarrow> DispositionRequest \<Rightarrow> uuid \<Rightarrow> evidence_service \<Rightarrow>
    py_exn option \<times> evidence_service" where
  "erase_evidence lib wall now ids request evidence_id sv =
     (case evidence_lifecycle_projection (evs_store sv) evidence_id wall of
        Inl e \<Rightarrow> (Some e, sv)
      | Inr cur \<Rightarrow>
          if lcp_state cur = ES_DELETED then (None, sv)
          else (case transition lib wall evidence_id (erasure_request request (lcp_version cur) now (ids evidence_id)) sv of
             (Inl e, sv1) \<Rightarrow> (Some e, sv1)
           | (Inr _, sv1) \<Rightarrow> (None, sv1)))"

definition close_evidence :: "library \<Rightarrow> datetime \<Rightarrow> datetime \<Rightarrow> (uuid \<Rightarrow> uuid \<times> uuid) \<Rightarrow> DispositionRequest \<Rightarrow> uuid \<Rightarrow> privacy \<Rightarrow>
    DispositionNodeResult list \<times> privacy" where
  "close_evidence lib wall now ids request evidence_id p =
     (case close_nodes lib wall now request (lineage_nodes (prv_disposition p) (Some evidence_id)) p of
        (results, p1) \<Rightarrow>
          if drq_action request \<noteq> DA_ERASE then (results, p1)
          else (case erase_evidence lib wall now ids request evidence_id (prv_evidence p1) of
             (None, sv) \<Rightarrow> (results, p1\<lparr>prv_evidence := sv\<rparr>)
           | (Some e, sv) \<Rightarrow>
               let res = \<lparr>dnr_node_id = lib_uuid5 lib (''sentinel-disposition-evidence-failure:'' @ drq_request_id request @ '':'' @ evidence_id),
                     dnr_evidence_id = evidence_id, dnr_kind = NK_ORIGINAL, dnr_status = DN_FAILED,
                     dnr_target_digest = sha256_bytes lib (''evidence:'' @ evidence_id),
                     dnr_reason_codes = [''evidence_lifecycle_delete_failed:'' @ exn_name e], dnr_updated_at = now,
                     dnr_receipt_sha256 = None\<rparr>
               in (results @ [res], p1\<lparr>prv_disposition := record_node_result lib (drq_request_id request) res (prv_disposition p1),
                    prv_evidence := sv\<rparr>)))"

fun close_scope :: "library \<Rightarrow> datetime \<Rightarrow> datetime \<Rightarrow> (uuid \<Rightarrow> uuid \<times> uuid) \<Rightarrow> DispositionRequest \<Rightarrow> uuid list \<Rightarrow> privacy \<Rightarrow>
    DispositionNodeResult list \<times> privacy" where
  "close_scope lib wall now ids request [] p = ([], p)"
| "close_scope lib wall now ids request (e # es) p =
     (let (r1, p1) = close_evidence lib wall now ids request e p; (r2, p2) = close_scope lib wall now ids request es p1 in (r1 @ r2, p2))"

definition count_status :: "DispositionNodeStatus list \<Rightarrow> DispositionNodeResult list \<Rightarrow> int" where
  "count_status ss rs = int (length (filter (\<lambda>r. dnr_status r \<in> set ss) rs))"

definition closure_verdict :: "DispositionNodeResult list \<Rightarrow> DispositionRequestStatus \<times> string" where
  "closure_verdict rs =
     (if count_status [DN_FAILED] rs \<noteq> 0 then (DS_FAILED, ''closure_failed'')
      else if count_status [DN_EXTERNAL_PENDING] rs \<noteq> 0 then (DS_EXTERNAL_RECIPIENT_PENDING, ''external_recipients_unresolved'')
      else if count_status [DN_RETAINED_EXCEPTION] rs \<noteq> 0 then (DS_RETAINED_EXCEPTION, ''retained_by_explicit_exception'')
      else (DS_COMPLETED, ''closure_complete''))"

definition disposition_report :: "library \<Rightarrow> DispositionRequest \<Rightarrow> datetime \<Rightarrow> DispositionNodeResult list \<Rightarrow> DispositionReport" where
  "disposition_report lib request now rs =
     (let (status, terminal) = closure_verdict rs;
          completed = count_status [DN_DELETED, DN_REVOKED] rs;
          retained = count_status [DN_RETAINED_EXCEPTION] rs;
          external = count_status [DN_EXTERNAL_PENDING] rs;
          failed = count_status [DN_FAILED] rs;
          restricted = count_status [DN_RESTRICTED] rs
      in \<lparr>drp_request_id = drq_request_id request, drp_status = status, drp_completed = completed, drp_retained_by_exception = retained,
          drp_external_recipient_pending = external, drp_failed = failed, drp_restricted = restricted, drp_node_results = rs,
          drp_subject_digest = drq_subject_digest request, drp_deadline = drq_deadline request,
          drp_terminal_outcome = Some terminal, drp_generated_at = now,
          drp_report_sha256 = digest lib (JObj
            [(''request_id'', JStr (drq_request_id request)), (''status'', JStr (DispositionRequestStatus_value status)),
             (''completed'', JInt completed), (''retained_by_exception'', JInt retained), (''external_recipient_pending'', JInt external),
             (''failed'', JInt failed), (''restricted'', JInt restricted),
             (''node_results'', JArr (map (\<lambda>r. lib_model_dump lib (V_node_result r)) rs)),
             (''subject_digest'', JStr (drq_subject_digest request)), (''deadline'', JStr (lib_isoformat lib (drq_deadline request))),
             (''terminal_outcome'', JStr terminal), (''generated_at'', JStr (lib_isoformat lib now))])\<rparr>)"

text \<open>\<^verbatim>\<open>UPDATE disposition_requests SET status=?,payload_json=? WHERE request_id=?\<close>.\<close>

definition put_request :: "DispositionRequest \<Rightarrow> disposition \<Rightarrow> disposition" where
  "put_request r d = d\<lparr>dsp_requests := map (\<lambda>x. if drq_request_id x = drq_request_id r then r else x) (dsp_requests d)\<rparr>"

definition lift_restrictions :: "uuid list \<Rightarrow> disposition \<Rightarrow> disposition" where
  "lift_restrictions es d = d\<lparr>dsp_restrictions := fold AList.delete es (dsp_restrictions d)\<rparr>"

definition close_request :: "library \<Rightarrow> datetime \<Rightarrow> datetime \<Rightarrow> (uuid \<Rightarrow> uuid \<times> uuid) \<Rightarrow> uuid \<Rightarrow> privacy \<Rightarrow> DispositionReport result \<times> privacy" where
  "close_request lib wall now ids request_id p =
     (case request_by_id (prv_disposition p) request_id of
        Inl e \<Rightarrow> (Inl e, p)
      | Inr request \<Rightarrow>
          let p0 = p\<lparr>prv_disposition := put_request (request\<lparr>drq_status := DS_IN_PROGRESS\<rparr>) (prv_disposition p)\<rparr>;
              (results, p1) = close_scope lib wall now ids request (drq_evidence_ids request) p0;
              report = disposition_report lib request now results;
              d2 = (if drp_status report = DS_COMPLETED then lift_restrictions (drq_evidence_ids request) (prv_disposition p1)
                else prv_disposition p1);
              d3 = put_request (request\<lparr>drq_status := drp_status report, drq_terminal_outcome := drp_terminal_outcome report\<rparr>) d2
          in (Inr report, record_disposition lib request_id now (lib_model_dump lib (V_disposition_report report))
            (p1\<lparr>prv_disposition := d3\<rparr>)))"

section \<open>Results\<close>

definition latest_results :: "disposition \<Rightarrow> uuid \<Rightarrow> DispositionNodeResult list" where
  "latest_results d request_id =
     (let rows = sort_key (\<lambda>e. (dnr_updated_at (nev_result e), nev_event_id e)) (filter (\<lambda>e. nev_request_id e = request_id) (dsp_node_events d))
      in sort_key dnr_node_id (map snd (fold (\<lambda>e. AList.update (dnr_node_id (nev_result e)) (nev_result e)) rows [])))"

record tombstone =
  tmb_request_id :: uuid
  tmb_action :: DispositionAction
  tmb_subject_digest :: string
  tmb_evidence_count :: int
  tmb_terminal_outcome :: "string option"
  tmb_result_counts :: "(DispositionNodeStatus, int) dict"
  tmb_tombstone_sha256 :: string

definition node_statuses :: "DispositionNodeStatus list" where
  "node_statuses = [DN_ACTIVE, DN_RESTRICTED, DN_DELETED, DN_REVOKED, DN_RETAINED_EXCEPTION, DN_EXTERNAL_PENDING, DN_FAILED]"

definition minimal_tombstone :: "library \<Rightarrow> disposition \<Rightarrow> uuid \<Rightarrow> tombstone result" where
  "minimal_tombstone lib d request_id =
     bind_result (request_by_id d request_id) (\<lambda>request.
       let counts = map (\<lambda>s. (s, count_status [s] (latest_results d request_id))) node_statuses
       in Inr \<lparr>tmb_request_id = drq_request_id request, tmb_action = drq_action request,
            tmb_subject_digest = drq_subject_digest request, tmb_evidence_count = int (length (drq_evidence_ids request)),
            tmb_terminal_outcome = drq_terminal_outcome request, tmb_result_counts = counts,
            tmb_tombstone_sha256 = digest lib (JObj
              [(''schema'', JStr ''sentinel-edge-disposition-tombstone/1.0''), (''request_id'', JStr (drq_request_id request)),
               (''action'', JStr (DispositionAction_value (drq_action request))),
               (''subject_digest'', JStr (drq_subject_digest request)),
               (''evidence_count'', JInt (int (length (drq_evidence_ids request)))),
               (''terminal_outcome'', jopt JStr (drq_terminal_outcome request)),
               (''result_counts'', JObj (map (\<lambda>(s, n). (DispositionNodeStatus_value s, JInt n)) counts)),
               (''content_retained'', JBool False), (''exact_location_retained'', JBool False),
               (''recipient_identities_retained'', JBool False)])\<rparr>)"

end
