(* ===== verification/Disposition_Props.thy ===== *)
theory Disposition_Props
  imports Disposition Evidence_Claims
begin

text \<open>
  Runs of the disposition service and their invariants: the tables behind external recipients, the numbering
  of transport attempts, and what closing a scope leaves.
\<close>

section \<open>Frames\<close>

lemma record_disposition_frame [simp]:
  "prv_disposition (record_disposition lib k t v p) = prv_disposition p"
  "evs_artifacts (prv_evidence (record_disposition lib k t v p)) = evs_artifacts (prv_evidence p)"
  by (simp_all add: record_disposition_def)

lemma record_disposition_tables: "same_tables (evs_store (prv_evidence p)) (evs_store (prv_evidence (record_disposition lib k t v p)))"
  by (simp add: record_disposition_def record_authority_mutation_def same_tables_def)

lemma store_acknowledgement_frame [simp]:
  "prv_disposition (store_acknowledgement lib r p) = insert_receipt r (prv_disposition p)"
  "evs_artifacts (prv_evidence (store_acknowledgement lib r p)) = evs_artifacts (prv_evidence p)"
  by (simp_all add: store_acknowledgement_def)

text \<open>What the recipient invariants depend on.\<close>

definition deadline_of :: "disposition \<Rightarrow> uuid \<Rightarrow> datetime option" where
  "deadline_of d k = map_option drq_deadline (find_request d k)"

definition same_recipients :: "disposition \<Rightarrow> disposition \<Rightarrow> bool" where
  "same_recipients d d' \<longleftrightarrow> dsp_attempts d' = dsp_attempts d \<and> dsp_receipts d' = dsp_receipts d \<and>
     (\<forall>k t. deadline_of d k = Some t \<longrightarrow> deadline_of d' k = Some t)"

lemma same_recipients_refl [simp]: "same_recipients d d"
  by (simp add: same_recipients_def)

lemma register_node_frame:
  assumes "register_node lib q d = Inr (n, d')"
  shows "same_recipients d d'" "dsp_requests d' = dsp_requests d" "dsp_consent_blocks d' = dsp_consent_blocks d"
    "dsp_restrictions d' = dsp_restrictions d" "find_node d k = Some x \<Longrightarrow> find_node d' k = Some x"
  using assms by (auto simp: register_node_def Let_def bind_result_Inr same_recipients_def find_node_def find_snoc deadline_of_def find_request_def
      split: option.splits if_splits)

lemma insert_request_frame:
  assumes "insert_request r d = Inr d'"
  shows "same_recipients d d'" "dsp_lineage_nodes d' = dsp_lineage_nodes d" "dsp_requests d' = dsp_requests d @ [r]"
    "dsp_consent_blocks d' = (if drq_action r = DA_CONSENT_WITHDRAWAL
       then AList.update (drq_subject_digest r)
         \<lparr>cbl_request_id = drq_request_id r, cbl_created_at = drq_created_at r, cbl_alternate_basis = None\<rparr> (dsp_consent_blocks d)
       else dsp_consent_blocks d)"
  using assms by (auto simp: insert_request_def Let_def same_recipients_def deadline_of_def find_request_def find_snoc split: if_splits)

lemma create_request_cases:
  assumes "create_request lib q p = Inr (r, p')"
  obtains (existing) "find_request (prv_disposition p) (drq_request_id (request_for lib q)) = Some r" "p' = p"
  | (fresh) "find_request (prv_disposition p) (drq_request_id (request_for lib q)) = None" "r = request_for lib q"
      "insert_request r (prv_disposition p) = Inr (prv_disposition p')" "validate_request r = Inr ()"
  using assms by (auto simp: create_request_def Let_def bind_result_Inr split: option.splits)

lemma record_node_result_frame [simp]:
  "dsp_attempts (record_node_result lib k r d) = dsp_attempts d" "dsp_receipts (record_node_result lib k r d) = dsp_receipts d"
  "dsp_requests (record_node_result lib k r d) = dsp_requests d" "dsp_lineage_nodes (record_node_result lib k r d) = dsp_lineage_nodes d"
  "dsp_consent_blocks (record_node_result lib k r d) = dsp_consent_blocks d"
  "dsp_restrictions (record_node_result lib k r d) = dsp_restrictions d"
  by (simp_all add: record_node_result_def Let_def)

lemma put_request_frame [simp]:
  "dsp_attempts (put_request r d) = dsp_attempts d" "dsp_receipts (put_request r d) = dsp_receipts d"
  "dsp_lineage_nodes (put_request r d) = dsp_lineage_nodes d" "dsp_consent_blocks (put_request r d) = dsp_consent_blocks d"
  "dsp_restrictions (put_request r d) = dsp_restrictions d"
  by (simp_all add: put_request_def)

lemma lift_restrictions_frame [simp]:
  "dsp_attempts (lift_restrictions es d) = dsp_attempts d" "dsp_receipts (lift_restrictions es d) = dsp_receipts d"
  "dsp_requests (lift_restrictions es d) = dsp_requests d"
  "dsp_lineage_nodes (lift_restrictions es d) = dsp_lineage_nodes d" "dsp_consent_blocks (lift_restrictions es d) = dsp_consent_blocks d"
  by (simp_all add: lift_restrictions_def)

lemma find_map_same:
  assumes "\<And>x. drq_request_id (f x) = drq_request_id x"
  shows "find (\<lambda>x. drq_request_id x = k) (map f xs) = map_option f (find (\<lambda>x. drq_request_id x = k) xs)"
  using assms by (induction xs) auto

lemma find_request_put: "find_request (put_request r d) k = map_option (\<lambda>x. if drq_request_id x = drq_request_id r then r else x) (find_request d k)"
  unfolding find_request_def put_request_def by (simp, rule find_map_same) simp

lemma find_request_id: "find_request d k = Some r \<Longrightarrow> drq_request_id r = k"
  by (auto simp: find_request_def find_Some_iff)

lemma deadline_put_request:
  "find_request d (drq_request_id r) = Some r0 \<Longrightarrow> drq_deadline r = drq_deadline r0 \<Longrightarrow> deadline_of (put_request r d) k = deadline_of d k"
proof (cases "find_request d k")
  case (Some a)
  then show "deadline_of (put_request r d) k = deadline_of d k"
    if "find_request d (drq_request_id r) = Some r0" "drq_deadline r = drq_deadline r0"
    using that find_request_id[OF Some] by (auto simp: deadline_of_def find_request_put)
qed (simp add: deadline_of_def find_request_put)

text \<open>Closing touches the node events, the restrictions and the status of its request, and nothing else of the service.\<close>

definition closing_frame :: "disposition \<Rightarrow> disposition \<Rightarrow> bool" where
  "closing_frame d d' \<longleftrightarrow> same_recipients d d' \<and> dsp_lineage_nodes d' = dsp_lineage_nodes d \<and> dsp_requests d' = dsp_requests d \<and>
     dsp_consent_blocks d' = dsp_consent_blocks d \<and> dsp_restrictions d' = dsp_restrictions d"

lemma closing_frame_refl [simp]: "closing_frame d d"
  by (simp add: closing_frame_def)

lemma closing_frame_trans: "closing_frame a b \<Longrightarrow> closing_frame b c \<Longrightarrow> closing_frame a c"
  by (simp add: closing_frame_def same_recipients_def)

lemma closing_frame_result [simp]: "closing_frame d (record_node_result lib k r d)"
  by (simp add: closing_frame_def same_recipients_def deadline_of_def find_request_def)

lemma close_node_frame: "close_node lib wall now request n p = (r, p') \<Longrightarrow> closing_frame (prv_disposition p) (prv_disposition p')"
  by (auto simp: close_node_def Let_def split: prod.splits)

lemma close_nodes_frame: "close_nodes lib wall now request ns p = (rs, p') \<Longrightarrow> closing_frame (prv_disposition p) (prv_disposition p')"
  by (induction ns arbitrary: p rs p') (auto split: prod.splits intro: closing_frame_trans dest: close_node_frame)

lemma close_evidence_frame: "close_evidence lib wall now ids request e p = (rs, p') \<Longrightarrow> closing_frame (prv_disposition p) (prv_disposition p')"
  by (auto simp: close_evidence_def Let_def split: prod.splits if_splits option.splits dest!: close_nodes_frame intro: closing_frame_trans)

lemma close_scope_frame: "close_scope lib wall now ids request es p = (rs, p') \<Longrightarrow> closing_frame (prv_disposition p) (prv_disposition p')"
  by (induction es arbitrary: p rs p') (auto split: prod.splits intro: closing_frame_trans dest: close_evidence_frame)

lemma close_request_frame:
  assumes "close_request lib wall now ids k p = (out, p')"
  shows "same_recipients (prv_disposition p) (prv_disposition p')"
    "dsp_lineage_nodes (prv_disposition p') = dsp_lineage_nodes (prv_disposition p)"
    "dsp_consent_blocks (prv_disposition p') = dsp_consent_blocks (prv_disposition p)"
proof -
  have "same_recipients (prv_disposition p) (prv_disposition p') \<and>
    dsp_lineage_nodes (prv_disposition p') = dsp_lineage_nodes (prv_disposition p) \<and>
    dsp_consent_blocks (prv_disposition p') = dsp_consent_blocks (prv_disposition p)"
  proof (cases "request_by_id (prv_disposition p) k")
    case (Inl e)
    then show ?thesis using assms by (simp add: close_request_def)
  next
    case (Inr request)
    let ?p0 = "p\<lparr>prv_disposition := put_request (request\<lparr>drq_status := DS_IN_PROGRESS\<rparr>) (prv_disposition p)\<rparr>"
    obtain rs p1 where c: "close_scope lib wall now ids request (drq_evidence_ids request) ?p0 = (rs, p1)" by fastforce
    have r: "find_request (prv_disposition p) (drq_request_id request) = Some request" "drq_request_id request = k"
      using Inr by (auto simp: request_by_id_def dest: find_request_id split: option.splits)
    note fr = close_scope_frame[OF c, unfolded closing_frame_def, simplified]
    have dl1: "deadline_of (prv_disposition p1) = deadline_of (prv_disposition ?p0)" using fr by (simp add: deadline_of_def find_request_def fun_eq_iff)
    also have "\<dots> = deadline_of (prv_disposition p)" using r by (simp add: deadline_put_request[of _ _ request] fun_eq_iff)
    finally have dl: "deadline_of (prv_disposition p1) x = deadline_of (prv_disposition p) x" for x by simp
    have "\<exists>r1. find_request (prv_disposition p1) k = Some r1 \<and> drq_deadline r1 = drq_deadline request"
      using dl[of k] r by (cases "find_request (prv_disposition p1) k") (auto simp: deadline_of_def)
    then obtain r1 where r1: "find_request (prv_disposition p1) k = Some r1" "drq_deadline request = drq_deadline r1" by auto
    let ?d2 = "if drp_status (disposition_report lib request now rs) = DS_COMPLETED
      then lift_restrictions (drq_evidence_ids request) (prv_disposition p1) else prv_disposition p1"
    have d2: "find_request ?d2 x = find_request (prv_disposition p1) x" for x by (simp add: find_request_def)
    define r3 where "r3 = request\<lparr>drq_status := drp_status (disposition_report lib request now rs),
      drq_terminal_outcome := drp_terminal_outcome (disposition_report lib request now rs)\<rparr>"
    have r3: "drq_request_id r3 = k" "drq_deadline r3 = drq_deadline r1" using r r1(2) by (simp_all add: r3_def)
    have "deadline_of (put_request r3 ?d2) x = deadline_of (prv_disposition p) x" for x
      using deadline_put_request[of ?d2 r3 r1 x] r1(1) r3 d2 dl[of x] unfolding deadline_of_def by simp
    moreover have "prv_disposition p' = put_request r3 ?d2"
      using assms by (auto simp: close_request_def Inr c Let_def r3_def)
    ultimately show ?thesis using fr by (auto simp: same_recipients_def)
  qed
  then show "same_recipients (prv_disposition p) (prv_disposition p')"
    "dsp_lineage_nodes (prv_disposition p') = dsp_lineage_nodes (prv_disposition p)"
    "dsp_consent_blocks (prv_disposition p') = dsp_consent_blocks (prv_disposition p)" by blast+
qed

section \<open>Runs\<close>

text \<open>
  One operation of the service with the sender calls it makes, each the request and the node it is for.
  \<open>limit\<close> bounds the \<^verbatim>\<open>max_attempts\<close> the operators use. The evidence service may be used by others in between.
\<close>

inductive dsp_step :: "library \<Rightarrow> int \<Rightarrow> privacy \<Rightarrow> (uuid \<times> uuid) list \<Rightarrow> privacy \<Rightarrow> bool" for lib limit where
  ds_register: "register_node lib q (prv_disposition p) = Inr (n, d) \<Longrightarrow> dsp_step lib limit p [] (p\<lparr>prv_disposition := d\<rparr>)"
| ds_create: "create_request lib q p = Inr (r, p') \<Longrightarrow> dsp_step lib limit p [] p'"
| ds_basis: "document_alternate_basis lib subject basis actor reason wall p = Inr p' \<Longrightarrow> dsp_step lib limit p [] p'"
| ds_acknowledge: "acknowledge_external_recipient lib node actor receipt t p = Inr (r, p') \<Longrightarrow> dsp_step lib limit p [] p'"
| ds_reconcile: "rpo_max_attempts pol \<le> limit \<Longrightarrow> reconcile_external_recipients lib k sender pol p = (out, calls, p') \<Longrightarrow>
    dsp_step lib limit p (map (Pair k) calls) p'"
| ds_close: "close_request lib wall now ids k p = (out, p') \<Longrightarrow> dsp_step lib limit p [] p'"
| ds_evidence: "dsp_step lib limit p [] (p\<lparr>prv_evidence := sv\<rparr>)"

inductive dsp_run :: "library \<Rightarrow> int \<Rightarrow> privacy \<Rightarrow> (uuid \<times> uuid) list \<Rightarrow> privacy \<Rightarrow> bool" for lib limit where
  dr_refl: "dsp_run lib limit p [] p"
| dr_step: "dsp_run lib limit p cs p' \<Longrightarrow> dsp_step lib limit p' cs' p'' \<Longrightarrow> dsp_run lib limit p (cs @ cs') p''"

definition dsp_start :: "bool \<Rightarrow> evidence_service \<Rightarrow> privacy" where
  "dsp_start recorder sv = \<lparr>prv_disposition = disposition_init recorder, prv_evidence = sv\<rparr>"

section \<open>Attempts on external recipients\<close>

text \<open>
  Name-based identifiers of different attempts differ, as do those of receipts for different nodes, and a
  digest is not empty.
\<close>

definition collision_free :: "library \<Rightarrow> bool" where
  "collision_free lib \<longleftrightarrow> (\<forall>s. lib_sha256 lib s \<noteq> []) \<and>
     (\<forall>pol pol' r r' n n' dg dg' oc oc'. era_attempt_id (attempt_for lib pol r n dg oc) = era_attempt_id (attempt_for lib pol' r' n' dg' oc') \<longrightarrow>
        r = r' \<and> dln_node_id n = dln_node_id n' \<and> aoc_attempt_no oc = aoc_attempt_no oc') \<and>
     (\<forall>n n' a a' c c' t t'. xrc_receipt_id (receipt_for lib n a c t) = xrc_receipt_id (receipt_for lib n' a' c' t') \<longrightarrow> dln_node_id n = dln_node_id n')"

definition attempts_on :: "disposition \<Rightarrow> uuid \<Rightarrow> uuid \<Rightarrow> ExternalRecipientReconciliationAttempt list" where
  "attempts_on d k n = filter (\<lambda>a. era_request_id a = k \<and> era_node_id a = n) (dsp_attempts d)"

text \<open>One attempt after another: numbered from one, in time order, only the last may be final.\<close>

definition attempt_ok :: "int \<Rightarrow> ExternalRecipientReconciliationAttempt \<Rightarrow> bool" where
  "attempt_ok limit a \<longleftrightarrow> era_state a \<in> {RS_ACKNOWLEDGED, RS_RETRY_SCHEDULED, RS_EXHAUSTED, RS_DEADLINE_EXPIRED} \<and>
     (era_state a = RS_RETRY_SCHEDULED \<longrightarrow> era_attempt_no a < limit \<and> (\<exists>t. era_next_retry_at a = Some t \<and> era_created_at a < t)) \<and>
     (era_state a \<noteq> RS_DEADLINE_EXPIRED \<longrightarrow> era_attempt_no a \<le> limit)"

definition attempts_ok :: "int \<Rightarrow> ExternalRecipientReconciliationAttempt list \<Rightarrow> bool" where
  "attempts_ok limit as \<longleftrightarrow> map era_attempt_no as = map (\<lambda>i. int i + 1) [0..<length as] \<and>
     sorted_wrt (<) (map era_created_at as) \<and> (\<forall>a \<in> set as. attempt_ok limit a) \<and>
     (\<forall>a \<in> set (butlast as). era_state a = RS_RETRY_SCHEDULED)"

definition transport :: "ExternalRecipientReconciliationAttempt list \<Rightarrow> nat" where
  "transport as = length (filter (\<lambda>a. era_state a \<noteq> RS_DEADLINE_EXPIRED) as)"

lemma attempts_ok_last_no:
  assumes "attempts_ok limit as" "as \<noteq> []"
  shows "era_attempt_no (last as) = int (length as)"
proof -
  have "era_attempt_no (last as) = last (map (\<lambda>i. int i + 1) [0..<length as])"
    using assms unfolding attempts_ok_def by (metis last_map)
  then show ?thesis using assms(2) by (cases "length as") (simp_all add: last_map)
qed

lemma transport_bound:
  assumes "attempts_ok limit as"
  shows "int (transport as) \<le> max 0 limit"
proof (cases "as = []")
  case True
  then show ?thesis by (simp add: transport_def)
next
  case False
  then have split: "as = butlast as @ [last as]" by simp
  have ok: "attempt_ok limit (last as)" using assms False by (simp add: attempts_ok_def)
  have "filter (\<lambda>a. era_state a \<noteq> RS_DEADLINE_EXPIRED) (butlast as) = butlast as"
    using assms by (simp add: attempts_ok_def)
  then have t: "transport as = length as - 1 + (if era_state (last as) = RS_DEADLINE_EXPIRED then 0 else 1)"
    unfolding transport_def by (subst split) simp
  show ?thesis
  proof (cases "era_state (last as) = RS_DEADLINE_EXPIRED")
    case False
    with ok have "int (length as) \<le> limit" using attempts_ok_last_no[OF assms \<open>as \<noteq> []\<close>] by (simp add: attempt_ok_def)
    moreover have "transport as = length as" using t False \<open>as \<noteq> []\<close> by (cases as) auto
    ultimately show ?thesis by simp
  next
    case expired: True
    show ?thesis
    proof (cases "butlast as = []")
      case True
      then show ?thesis using t expired by (simp flip: length_0_conv)
    next
      case ne: False
      let ?a = "last (butlast as)"
      have a: "?a \<in> set (butlast as)" using ne by simp
      then have "era_attempt_no ?a < limit" using assms unfolding attempts_ok_def attempt_ok_def by (meson in_set_butlastD)
      moreover have "era_attempt_no ?a = int (length as - 1)"
      proof -
        have "map era_attempt_no (butlast as) = butlast (map (\<lambda>i. int i + 1) [0..<length as])"
          using assms unfolding attempts_ok_def by (metis map_butlast)
        also have "\<dots> = map (\<lambda>i. int i + 1) [0..<length as - 1]" by (cases "length as") (simp_all add: map_butlast[symmetric])
        finally have m: "map era_attempt_no (butlast as) = map (\<lambda>i. int i + 1) [0..<length as - 1]" .
        then have "era_attempt_no ?a = last (map (\<lambda>i. int i + 1) [0..<length as - 1])" using ne by (metis last_map)
        then show ?thesis using ne by (cases "length as - 1") (simp_all add: last_map flip: length_0_conv)
      qed
      ultimately show ?thesis using t expired by simp
    qed
  qed
qed

section \<open>The invariant of attempts\<close>

definition attempt_forms :: "library \<Rightarrow> disposition \<Rightarrow> bool" where
  "attempt_forms lib d \<longleftrightarrow> (\<forall>a \<in> set (dsp_attempts d). \<exists>pol k n dg oc. a = attempt_for lib pol k n dg oc)"

definition receipt_forms :: "library \<Rightarrow> disposition \<Rightarrow> bool" where
  "receipt_forms lib d \<longleftrightarrow> (\<forall>r \<in> set (dsp_receipts d). \<exists>n a c t. r = receipt_for lib n a c t)"

definition retries_in_time :: "disposition \<Rightarrow> bool" where
  "retries_in_time d \<longleftrightarrow> (\<forall>a \<in> set (dsp_attempts d). era_state a = RS_RETRY_SCHEDULED \<longrightarrow>
     (\<exists>t. deadline_of d (era_request_id a) = Some t \<and> era_created_at a < t))"

definition attempts_counted :: "int \<Rightarrow> disposition \<Rightarrow> (uuid \<times> uuid) list \<Rightarrow> uuid \<Rightarrow> uuid \<Rightarrow> bool" where
  "attempts_counted limit d cs k n \<longleftrightarrow> attempts_ok limit (attempts_on d k n) \<and> count_list cs (k, n) = transport (attempts_on d k n) \<and>
     ((\<exists>a \<in> set (attempts_on d k n). era_state a = RS_ACKNOWLEDGED) \<longrightarrow> given (external_ack d n))"

definition recipients_inv :: "library \<Rightarrow> int \<Rightarrow> disposition \<Rightarrow> (uuid \<times> uuid) list \<Rightarrow> bool" where
  "recipients_inv lib limit d cs \<longleftrightarrow> attempt_forms lib d \<and> receipt_forms lib d \<and> retries_in_time d \<and> (\<forall>k n. attempts_counted limit d cs k n)"

lemma recipients_invD:
  assumes "recipients_inv lib limit d cs"
  shows "attempt_forms lib d" "receipt_forms lib d" "retries_in_time d" "attempts_counted limit d cs k n"
    "attempts_ok limit (attempts_on d k n)" "count_list cs (k, n) = transport (attempts_on d k n)"
    "a \<in> set (attempts_on d k n) \<Longrightarrow> era_state a = RS_ACKNOWLEDGED \<Longrightarrow> given (external_ack d n)"
proof -
  show "attempt_forms lib d" "receipt_forms lib d" "retries_in_time d" using assms by (simp_all add: recipients_inv_def)
  show c: "attempts_counted limit d cs k n" using assms by (simp add: recipients_inv_def)
  show "attempts_ok limit (attempts_on d k n)" "count_list cs (k, n) = transport (attempts_on d k n)"
    using c by (simp_all add: attempts_counted_def)
  show "a \<in> set (attempts_on d k n) \<Longrightarrow> era_state a = RS_ACKNOWLEDGED \<Longrightarrow> given (external_ack d n)"
    using c by (auto simp: attempts_counted_def)
qed

lemma recipients_inv_same:
  assumes "same_recipients d d'" "recipients_inv lib limit d cs"
  shows "recipients_inv lib limit d' cs"
proof -
  have t: "dsp_attempts d' = dsp_attempts d" "dsp_receipts d' = dsp_receipts d" using assms(1) by (simp_all add: same_recipients_def)
  have c: "attempts_on d' = attempts_on d" "external_ack d' = external_ack d" using t by (auto simp: attempts_on_def external_ack_def fun_eq_iff)
  have "retries_in_time d'" using recipients_invD(3)[OF assms(2)] assms(1) unfolding retries_in_time_def t same_recipients_def by blast
  then show ?thesis using recipients_invD(1,2,4)[OF assms(2)]
    by (simp add: recipients_inv_def attempt_forms_def receipt_forms_def attempts_counted_def t c)
qed

lemma external_receipt_simps [simp]:
  "xrc_node_id (receipt_for lib n a c t) = dln_node_id n" "xrc_created_at (receipt_for lib n a c t) = t"
  "xrc_recipient_digest (receipt_for lib n a c t) = dln_external_recipient_digest n"
  by (simp_all add: receipt_for_def Let_def)

lemma attempt_for_simps [simp]:
  "era_request_id (attempt_for lib pol k n dg oc) = k" "era_node_id (attempt_for lib pol k n dg oc) = dln_node_id n"
  "era_attempt_no (attempt_for lib pol k n dg oc) = aoc_attempt_no oc" "era_state (attempt_for lib pol k n dg oc) = aoc_state oc"
  "era_created_at (attempt_for lib pol k n dg oc) = rpo_now pol" "era_next_retry_at (attempt_for lib pol k n dg oc) = aoc_next_retry oc"
  by (simp_all add: attempt_for_def Let_def)

lemma receipt_sha_given: "collision_free lib \<Longrightarrow> xrc_receipt_sha256 (receipt_for lib n a c t) \<noteq> []"
proof -
  assume "collision_free lib"
  then have "\<forall>s. lib_sha256 lib s \<noteq> []" unfolding collision_free_def by (rule conjunct1)
  then show "xrc_receipt_sha256 (receipt_for lib n a c t) \<noteq> []" by (simp add: receipt_for_def Let_def digest_def sha256_bytes_def)
qed

lemma ack_iff:
  assumes "collision_free lib" "receipt_forms lib d"
  shows "given (external_ack d k) \<longleftrightarrow> (\<exists>r \<in> set (dsp_receipts d). xrc_node_id r = k)"
proof -
  let ?rs = "sort_key (\<lambda>r. - xrc_created_at r) (filter (\<lambda>r. xrc_node_id r = k) (dsp_receipts d))"
  have s: "set ?rs = {r \<in> set (dsp_receipts d). xrc_node_id r = k}" by simp
  show ?thesis
  proof (cases ?rs)
    case Nil
    then have "{r \<in> set (dsp_receipts d). xrc_node_id r = k} = {}" using s by simp
    then show ?thesis using Nil by (auto simp: external_ack_def)
  next
    case (Cons r rs)
    then have "r \<in> {r \<in> set (dsp_receipts d). xrc_node_id r = k}" using s by (metis list.set_intros(1))
    then show ?thesis using Cons assms(2) receipt_sha_given[OF assms(1)] by (fastforce simp: external_ack_def receipt_forms_def)
  qed
qed

lemma insert_receipt_inv:
  assumes "collision_free lib" "recipients_inv lib limit d cs" "r = receipt_for lib node a c t"
  shows "recipients_inv lib limit (insert_receipt r d) cs"
    "given (external_ack d k) \<Longrightarrow> given (external_ack (insert_receipt r d) k)"
    "dln_external_recipient_digest node \<noteq> None \<Longrightarrow> given (external_ack (insert_receipt r d) (dln_node_id node))"
    "attempts_on (insert_receipt r d) = attempts_on d"
proof -
  let ?d = "insert_receipt r d"
  note rs = recipients_invD(2)[OF assms(2)]
  have sub: "set (dsp_receipts d) \<subseteq> set (dsp_receipts ?d)" "set (dsp_receipts ?d) \<subseteq> insert r (set (dsp_receipts d))"
    by (auto simp: insert_receipt_def)
  have rs': "receipt_forms lib ?d" using rs sub(2) assms(3) unfolding receipt_forms_def by blast
  note ack = ack_iff[OF assms(1) rs] ack_iff[OF assms(1) rs']
  show on: "attempts_on ?d = attempts_on d" by (simp add: insert_receipt_def attempts_on_def fun_eq_iff)
  show mono: "given (external_ack d k) \<Longrightarrow> given (external_ack ?d k)" for k using sub(1) unfolding ack by blast
  have t: "deadline_of ?d = deadline_of d" "dsp_attempts ?d = dsp_attempts d"
    by (simp_all add: insert_receipt_def deadline_of_def find_request_def fun_eq_iff)
  have "attempts_counted limit ?d cs k n" for k n
    using recipients_invD(4)[OF assms(2), of k n] mono unfolding attempts_counted_def on by blast
  moreover have "attempt_forms lib ?d" "retries_in_time ?d"
    using recipients_invD(1,3)[OF assms(2)] unfolding attempt_forms_def retries_in_time_def t by blast+
  ultimately show "recipients_inv lib limit ?d cs" using rs' unfolding recipients_inv_def by blast
  show "given (external_ack ?d (dln_node_id node))" if dg: "dln_external_recipient_digest node \<noteq> None"
  proof (cases "\<exists>x \<in> set (dsp_receipts d). xrc_receipt_id x = xrc_receipt_id r")
    case True
    then obtain x where x: "x \<in> set (dsp_receipts d)" "xrc_receipt_id x = xrc_receipt_id r" by blast
    obtain n' a' c' t' where f: "x = receipt_for lib n' a' c' t'" using x(1) rs unfolding receipt_forms_def by blast
    have "dln_node_id n' = dln_node_id node" using x(2) assms(1) unfolding f assms(3) collision_free_def by blast
    then have "xrc_node_id x = dln_node_id node" by (simp add: f)
    then show ?thesis unfolding ack using x(1) sub(1) by blast
  next
    case False
    then have "r \<in> set (dsp_receipts ?d)" using dg assms(3) by (auto simp: insert_receipt_def)
    moreover have "xrc_node_id r = dln_node_id node" by (simp add: assms(3))
    ultimately show ?thesis unfolding ack by blast
  qed
qed

lemma attempts_previous:
  assumes "attempts_ok limit (attempts_on d k n)"
  shows "filter (\<lambda>a. era_node_id a = n) (external_reconciliation_attempts d (Some k)) = attempts_on d k n"
proof -
  have "sorted (map (\<lambda>a. (era_created_at a, era_attempt_id a)) (attempts_on d k n))"
  proof -
    have "sorted_wrt (<) (map era_created_at (attempts_on d k n))" using assms by (simp add: attempts_ok_def)
    then show ?thesis by (auto simp: sorted_wrt_map sorted_wrt_iff_nth_less sorted_iff_nth_mono_less)
  qed
  then have "sort_key (\<lambda>a. (era_created_at a, era_attempt_id a)) (attempts_on d k n) = attempts_on d k n"
    by (rule sort_key_id_if_sorted)
  moreover have "filter (\<lambda>a. era_node_id a = n) (filter (\<lambda>a. era_request_id a = k) (dsp_attempts d)) = attempts_on d k n"
    by (auto simp: attempts_on_def intro: filter_cong)
  ultimately show ?thesis by (simp add: external_reconciliation_attempts_def filter_sort)
qed

lemma attempts_on_mem: "a \<in> set (attempts_on d k n) \<longleftrightarrow> a \<in> set (dsp_attempts d) \<and> era_request_id a = k \<and> era_node_id a = n"
  by (auto simp: attempts_on_def)

lemma attempts_ok_numbers:
  assumes "attempts_ok limit as" "a \<in> set as"
  shows "era_attempt_no a \<le> int (length as)"
proof -
  have "era_attempt_no a \<in> set (map (\<lambda>i. int i + 1) [0..<length as])"
    using assms unfolding attempts_ok_def by (metis image_eqI set_map)
  then show ?thesis by auto
qed

lemma attempts_ok_snoc:
  assumes "attempts_ok limit as" "attempt_ok limit a" "era_attempt_no a = int (length as) + 1"
    "as \<noteq> [] \<Longrightarrow> era_state (last as) = RS_RETRY_SCHEDULED \<and> era_created_at (last as) < era_created_at a"
  shows "attempts_ok limit (as @ [a])"
proof (cases as rule: rev_cases)
  case Nil
  then show ?thesis using assms(2,3) by (simp add: attempts_ok_def)
next
  case (snoc bs b)
  have b: "era_state b = RS_RETRY_SCHEDULED" "era_created_at b < era_created_at a" using assms(4) snoc by auto
  have "era_created_at x < era_created_at a" if "x \<in> set as" for x
    using that assms(1) b(2) unfolding attempts_ok_def snoc by (fastforce simp: sorted_wrt_append)
  then have "sorted_wrt (<) (map era_created_at (as @ [a]))" using assms(1) by (auto simp: attempts_ok_def sorted_wrt_append)
  moreover have "\<forall>x \<in> set (butlast (as @ [a])). era_state x = RS_RETRY_SCHEDULED" using assms(1) b(1) unfolding butlast_snoc by (auto simp: attempts_ok_def snoc)
  ultimately show ?thesis using assms(1-3) by (simp add: attempts_ok_def)
qed

lemma insert_attempt_new:
  assumes "collision_free lib" "recipients_inv lib limit d cs" "a = attempt_for lib pol k node dg oc"
    "aoc_attempt_no oc = int (length (attempts_on d k (dln_node_id node))) + 1"
  shows "dsp_attempts (insert_attempt a d) = dsp_attempts d @ [a]"
proof -
  have no: "\<not> (era_request_id x = k \<and> era_node_id x = dln_node_id node \<and> era_attempt_no x = aoc_attempt_no oc)" if "x \<in> set (dsp_attempts d)" for x
    using attempts_ok_numbers[OF recipients_invD(5)[OF assms(2)], of x k "dln_node_id node"] that assms(4) by (auto simp: attempts_on_mem)
  have "era_attempt_id x \<noteq> era_attempt_id a" if x: "x \<in> set (dsp_attempts d)" for x
  proof
    assume eq: "era_attempt_id x = era_attempt_id a"
    obtain pol' k' n' dg' oc' where f: "x = attempt_for lib pol' k' n' dg' oc'"
      using recipients_invD(1)[OF assms(2)] x unfolding attempt_forms_def by blast
    have "k' = k \<and> dln_node_id n' = dln_node_id node \<and> aoc_attempt_no oc' = aoc_attempt_no oc"
      using assms(1) eq unfolding f assms(3) collision_free_def by blast
    then show False using no[OF x] by (simp add: f)
  qed
  then show ?thesis using no unfolding insert_attempt_def assms(3) by auto
qed

lemma insert_attempt_frame [simp]:
  "dsp_receipts (insert_attempt a d) = dsp_receipts d" "external_ack (insert_attempt a d) = external_ack d"
  "deadline_of (insert_attempt a d) = deadline_of d" "dsp_lineage_nodes (insert_attempt a d) = dsp_lineage_nodes d"
  "dsp_requests (insert_attempt a d) = dsp_requests d" "dsp_consent_blocks (insert_attempt a d) = dsp_consent_blocks d"
  by (auto simp: insert_attempt_def external_ack_def deadline_of_def find_request_def fun_eq_iff)

lemma append_attempt_inv:
  assumes "collision_free lib" "recipients_inv lib limit d cs" "a = attempt_for lib pol k node dg oc"
    "aoc_attempt_no oc = int (length (attempts_on d k (dln_node_id node))) + 1" "attempt_ok limit a"
    "attempts_on d k (dln_node_id node) \<noteq> [] \<Longrightarrow> era_state (last (attempts_on d k (dln_node_id node))) = RS_RETRY_SCHEDULED \<and>
      era_created_at (last (attempts_on d k (dln_node_id node))) < rpo_now pol"
    "aoc_state oc = RS_ACKNOWLEDGED \<Longrightarrow> given (external_ack d (dln_node_id node))"
    "aoc_state oc = RS_RETRY_SCHEDULED \<Longrightarrow> \<exists>t. deadline_of d k = Some t \<and> rpo_now pol < t"
  shows "recipients_inv lib limit (insert_attempt a d) (if aoc_state oc \<noteq> RS_DEADLINE_EXPIRED then cs @ [(k, dln_node_id node)] else cs)"
proof -
  let ?n = "dln_node_id node"
  note new = insert_attempt_new[OF assms(1-4)]
  have on: "attempts_on (insert_attempt a d) k' n' = attempts_on d k' n' @ (if k' = k \<and> n' = ?n then [a] else [])" for k' n'
    unfolding attempts_on_def new by (auto simp: assms(3))
  have ok: "attempts_ok limit (attempts_on d k ?n @ [a])"
    using assms(3-6) by (intro attempts_ok_snoc recipients_invD(5)[OF assms(2)]) auto
  have "attempts_counted limit (insert_attempt a d) (if aoc_state oc \<noteq> RS_DEADLINE_EXPIRED then cs @ [(k, ?n)] else cs) k' n'" for k' n'
    using recipients_invD(5,6)[OF assms(2), of k' n'] recipients_invD(7)[OF assms(2), of _ k' n'] ok assms(7)
    unfolding attempts_counted_def on by (auto simp: transport_def assms(3))
  moreover have "attempt_forms lib (insert_attempt a d)" using recipients_invD(1)[OF assms(2)] assms(3) unfolding attempt_forms_def new by (simp, blast)
  moreover have "receipt_forms lib (insert_attempt a d)" using recipients_invD(2)[OF assms(2)] by (simp add: receipt_forms_def)
  moreover have "retries_in_time (insert_attempt a d)"
    using recipients_invD(3)[OF assms(2)] assms(8) unfolding retries_in_time_def new by (auto simp: assms(3))
  ultimately show ?thesis unfolding recipients_inv_def by blast
qed

section \<open>One turn of a reconciliation\<close>

definition settled :: "disposition \<Rightarrow> uuid \<Rightarrow> uuid \<Rightarrow> bool" where
  "settled d k n \<longleftrightarrow> given (external_ack d n) \<or>
     (attempts_on d k n \<noteq> [] \<and> era_state (last (attempts_on d k n)) \<in> {RS_EXHAUSTED, RS_DEADLINE_EXPIRED})"

text \<open>The limits that the operation checks.\<close>

definition policy_ok :: "int \<Rightarrow> reconcile_policy \<Rightarrow> bool" where
  "policy_ok limit pol \<longleftrightarrow> 0 < rpo_max_attempts pol \<and> rpo_max_attempts pol \<le> limit \<and> 0 < rpo_retry_delay_seconds pol"

lemma attempt_node_cases:
  assumes "recipients_inv lib limit (prv_disposition p) cs" "attempt_node lib sender pol request node p = (oc, p1)"
  obtains (projected) "aoc_projected_only oc" "\<not> aoc_sent oc" "p1 = p"
      "settled (prv_disposition p) (drq_request_id request) (dln_node_id node) \<or> rpo_now pol < drq_deadline request"
      "drq_deadline request \<le> rpo_now pol \<Longrightarrow> aoc_state oc \<notin> {RS_RETRY_SCHEDULED, RS_NOT_DUE}"
  | (expired) "\<not> aoc_projected_only oc" "\<not> aoc_sent oc" "p1 = p" "aoc_state oc = RS_DEADLINE_EXPIRED"
      "aoc_attempt_no oc = int (length (attempts_on (prv_disposition p) (drq_request_id request) (dln_node_id node))) + 1"
      "\<not> settled (prv_disposition p) (drq_request_id request) (dln_node_id node)" "drq_deadline request \<le> rpo_now pol"
  | (sent) "\<not> aoc_projected_only oc" "aoc_sent oc" "\<not> settled (prv_disposition p) (drq_request_id request) (dln_node_id node)"
      "rpo_now pol < drq_deadline request"
      "attempts_on (prv_disposition p) (drq_request_id request) (dln_node_id node) = [] \<or>
       (case era_next_retry_at (last (attempts_on (prv_disposition p) (drq_request_id request) (dln_node_id node))) of None \<Rightarrow> True | Some t \<Rightarrow> t \<le> rpo_now pol)"
      "send_once lib sender pol node (int (length (attempts_on (prv_disposition p) (drq_request_id request) (dln_node_id node))) + 1)
         (external_ack (prv_disposition p) (dln_node_id node)) p = (oc, p1)"
proof -
  let ?d = "prv_disposition p" let ?k = "drq_request_id request" and ?n = "dln_node_id node"
  let ?as = "attempts_on ?d ?k ?n"
  note prev = attempts_previous[OF recipients_invD(5)[OF assms(1)], of ?n ?k]
  note step = assms(2)[unfolded attempt_node_def Let_def prev]
  have s: "aoc_sent oc \<and> \<not> aoc_projected_only oc" if "send_once lib sender pol node i ack p = (oc, p1)" for i ack
    using that by (auto simp: send_once_def Let_def split: sum.splits prod.splits if_splits)
  consider (a) "given (external_ack ?d ?n)"
    | (b) "\<not> given (external_ack ?d ?n)" "?as \<noteq> []" "era_state (last ?as) \<in> {RS_EXHAUSTED, RS_DEADLINE_EXPIRED}"
    | (c) "\<not> settled ?d ?k ?n" "drq_deadline request \<le> rpo_now pol"
    | (d) "\<not> settled ?d ?k ?n" "\<not> drq_deadline request \<le> rpo_now pol" "?as \<noteq> []" "case era_next_retry_at (last ?as) of None \<Rightarrow> False | Some t \<Rightarrow> rpo_now pol < t"
    | (e) "\<not> settled ?d ?k ?n" "\<not> drq_deadline request \<le> rpo_now pol" "\<not> (?as \<noteq> [] \<and> (case era_next_retry_at (last ?as) of None \<Rightarrow> False | Some t \<Rightarrow> rpo_now pol < t))"
    unfolding settled_def by blast
  then show thesis
  proof cases
    case a
    then show thesis using step by (intro projected) (auto simp: settled_def)
  next
    case b
    then show thesis using step by (intro projected) (auto simp: settled_def)
  next
    case c
    then show thesis using step by (intro expired) (auto simp: settled_def)
  next
    case d
    then show thesis using step by (intro projected) (auto simp: settled_def)
  next
    case e
    then have "send_once lib sender pol node (int (length ?as) + 1) (external_ack ?d ?n) p = (oc, p1)" using step unfolding settled_def by (simp split: if_splits)
    with e s[OF this] show thesis by (intro sent) (auto split: option.splits)
  qed
qed

lemma unsettled_last:
  assumes "recipients_inv lib limit d cs" "\<not> settled d k n" "attempts_on d k n \<noteq> []"
  shows "era_state (last (attempts_on d k n)) = RS_RETRY_SCHEDULED"
    "\<exists>t. era_next_retry_at (last (attempts_on d k n)) = Some t \<and> era_created_at (last (attempts_on d k n)) < t"
    "\<exists>t. deadline_of d k = Some t \<and> era_created_at (last (attempts_on d k n)) < t"
proof -
  let ?a = "last (attempts_on d k n)"
  have mem: "?a \<in> set (attempts_on d k n)" using assms(3) by simp
  have ok: "attempt_ok limit ?a" using recipients_invD(5)[OF assms(1), of k n] mem by (simp add: attempts_ok_def)
  show st: "era_state ?a = RS_RETRY_SCHEDULED"
    using ok assms(2,3) recipients_invD(7)[OF assms(1) mem] by (auto simp: attempt_ok_def settled_def)
  show "\<exists>t. era_next_retry_at ?a = Some t \<and> era_created_at ?a < t" using ok st by (simp add: attempt_ok_def)
  show "\<exists>t. deadline_of d k = Some t \<and> era_created_at ?a < t"
    using recipients_invD(3)[OF assms(1)] mem st unfolding retries_in_time_def by (auto simp: attempts_on_mem)
qed

lemma send_once_cases:
  assumes "send_once lib sender pol node i ack p = (oc, p1)"
  obtains (acknowledged) c where "aoc_state oc = RS_ACKNOWLEDGED" "p1 = store_acknowledgement lib (receipt_for lib node (rpo_actor pol) c (rpo_now pol)) p"
      "aoc_attempt_no oc = i"
  | (exhausted) "aoc_state oc = RS_EXHAUSTED" "p1 = p" "rpo_max_attempts pol \<le> i" "aoc_attempt_no oc = i"
  | (retry) "aoc_state oc = RS_RETRY_SCHEDULED" "p1 = p" "i < rpo_max_attempts pol" "aoc_attempt_no oc = i"
      "aoc_next_retry oc = Some (rpo_now pol + rpo_retry_delay_seconds pol * 1000000)"
proof -
  obtain success code where r: "(case sender node of Inl name \<Rightarrow> (False, ''sender_exception:'' @ name) | Inr reply \<Rightarrow> reply) = (success, code)" by fastforce
  note step = assms[unfolded send_once_def Let_def r prod.case]
  consider (a) success | (b) "\<not> success" "rpo_max_attempts pol \<le> i" | (c) "\<not> success" "\<not> rpo_max_attempts pol \<le> i" by blast
  then show thesis
  proof cases
    case a
    then show thesis using step by (intro acknowledged) auto
  next
    case b
    then show thesis using step by (intro exhausted) auto
  next
    case c
    then show thesis using step by (intro retry) auto
  qed
qed

lemma reconcile_node_inv:
  assumes "collision_free lib" "recipients_inv lib limit (prv_disposition p) cs" "policy_ok limit pol"
    "deadline_of (prv_disposition p) (drq_request_id request) = Some (drq_deadline request)"
    "given (dln_external_recipient_digest node)" "reconcile_node lib sender pol request node p = (a, sent, p')"
  shows "recipients_inv lib limit (prv_disposition p') (if sent then cs @ [(drq_request_id request, dln_node_id node)] else cs)"
proof -
  let ?k = "drq_request_id request" and ?n = "dln_node_id node" and ?d = "prv_disposition p"
  let ?as = "attempts_on ?d ?k ?n"
  obtain oc p1 where oc: "attempt_node lib sender pol request node p = (oc, p1)" by fastforce
  have a: "a = attempt_for lib pol ?k node (the (dln_external_recipient_digest node)) oc" and sent: "sent = aoc_sent oc"
    and p': "prv_disposition p' = (if aoc_projected_only oc then prv_disposition p1 else insert_attempt a (prv_disposition p1))"
    using assms(6) by (auto simp: reconcile_node_def oc Let_def)
  have pos: "0 < rpo_max_attempts pol" "rpo_max_attempts pol \<le> limit" "0 < rpo_retry_delay_seconds pol" using assms(3) by (simp_all add: policy_ok_def)
  show ?thesis
  proof (rule attempt_node_cases[OF assms(2) oc])
    assume "aoc_projected_only oc" "\<not> aoc_sent oc" "p1 = p"
    then show ?thesis using assms(2) by (simp add: p' sent)
  next
    assume e: "\<not> aoc_projected_only oc" "\<not> aoc_sent oc" "p1 = p" "aoc_state oc = RS_DEADLINE_EXPIRED"
      "aoc_attempt_no oc = int (length ?as) + 1" "\<not> settled ?d ?k ?n" "drq_deadline request \<le> rpo_now pol"
    have last: "era_state (last ?as) = RS_RETRY_SCHEDULED \<and> era_created_at (last ?as) < rpo_now pol" if "?as \<noteq> []"
      using unsettled_last[OF assms(2) e(6) that] assms(4) e(7) by auto
    have ok: "attempt_ok limit a" using e(4) by (simp add: attempt_ok_def a)
    show ?thesis using append_attempt_inv[OF assms(1,2) a e(5) ok last] e by (simp add: p' sent)
  next
    assume s: "\<not> aoc_projected_only oc" "aoc_sent oc" "\<not> settled ?d ?k ?n" "rpo_now pol < drq_deadline request"
      "?as = [] \<or> (case era_next_retry_at (last ?as) of None \<Rightarrow> True | Some t \<Rightarrow> t \<le> rpo_now pol)"
      "send_once lib sender pol node (int (length ?as) + 1) (external_ack ?d ?n) p = (oc, p1)"
    have last: "era_state (last ?as) = RS_RETRY_SCHEDULED \<and> era_created_at (last ?as) < rpo_now pol" if "?as \<noteq> []"
      using unsettled_last(1,2)[OF assms(2) s(3) that] s(5) that by auto
    have len: "int (length ?as) + 1 \<le> limit"
    proof (cases "?as = []")
      case False
      have "attempt_ok limit (last ?as)" using recipients_invD(5)[OF assms(2), of ?k ?n] False by (simp add: attempts_ok_def)
      then show ?thesis using last[OF False] attempts_ok_last_no[OF recipients_invD(5)[OF assms(2)] False] by (simp add: attempt_ok_def)
    qed (use pos in simp)
    show ?thesis
    proof (rule send_once_cases[OF s(6)])
      fix c assume k: "aoc_state oc = RS_ACKNOWLEDGED" "p1 = store_acknowledgement lib (receipt_for lib node (rpo_actor pol) c (rpo_now pol)) p"
        "aoc_attempt_no oc = int (length ?as) + 1"
      let ?d1 = "insert_receipt (receipt_for lib node (rpo_actor pol) c (rpo_now pol)) ?d"
      note r = insert_receipt_inv[OF assms(1,2) refl, where node = node and a = "rpo_actor pol" and c = c and t = "rpo_now pol"]
      have ok: "attempt_ok limit a" using k len by (simp add: attempt_ok_def a)
      have dg: "dln_external_recipient_digest node \<noteq> None" using assms(5) by (cases "dln_external_recipient_digest node") auto
      have last1: "era_state (last (attempts_on ?d1 ?k ?n)) = RS_RETRY_SCHEDULED \<and> era_created_at (last (attempts_on ?d1 ?k ?n)) < rpo_now pol"
        if "attempts_on ?d1 ?k ?n \<noteq> []" using last that by (simp add: r(4))
      have no1: "aoc_attempt_no oc = int (length (attempts_on ?d1 ?k ?n)) + 1" using k(3) by (simp add: r(4))
      show ?thesis using append_attempt_inv[OF assms(1) r(1) a no1 ok last1 r(3)[OF dg]] s(1,2) k(1,2) by (simp add: p' sent)
    next
      assume k: "aoc_state oc = RS_EXHAUSTED" "p1 = p" "aoc_attempt_no oc = int (length ?as) + 1"
      have ok: "attempt_ok limit a" using k len by (simp add: attempt_ok_def a)
      show ?thesis using append_attempt_inv[OF assms(1,2) a k(3) ok last] s(1,2) k(1,2) by (simp add: p' sent)
    next
      assume k: "aoc_state oc = RS_RETRY_SCHEDULED" "p1 = p" "int (length ?as) + 1 < rpo_max_attempts pol" "aoc_attempt_no oc = int (length ?as) + 1"
        "aoc_next_retry oc = Some (rpo_now pol + rpo_retry_delay_seconds pol * 1000000)"
      have ok: "attempt_ok limit a" using k pos by (simp add: attempt_ok_def a)
      show ?thesis using append_attempt_inv[OF assms(1,2) a k(4) ok last] s(1,2,4) k(1,2) assms(4) by (simp add: p' sent)
    qed
  qed
qed

text \<open>Settled recipients stay settled and are not sent to again; a turn at or after the deadline settles its node.\<close>

lemma reconcile_node_settles:
  assumes "collision_free lib" "recipients_inv lib limit (prv_disposition p) cs" "policy_ok limit pol"
    "given (dln_external_recipient_digest node)" "reconcile_node lib sender pol request node p = (a, sent, p')"
  shows "settled (prv_disposition p) k n \<Longrightarrow> settled (prv_disposition p') k n"
    "settled (prv_disposition p) (drq_request_id request) (dln_node_id node) \<Longrightarrow> \<not> sent"
    "drq_deadline request \<le> rpo_now pol \<Longrightarrow> \<not> sent \<and> settled (prv_disposition p') (drq_request_id request) (dln_node_id node) \<and>
       era_state a \<notin> {RS_RETRY_SCHEDULED, RS_NOT_DUE}"
    "dsp_requests (prv_disposition p') = dsp_requests (prv_disposition p)" "deadline_of (prv_disposition p') = deadline_of (prv_disposition p)"
    "dsp_lineage_nodes (prv_disposition p') = dsp_lineage_nodes (prv_disposition p)"
    "dsp_consent_blocks (prv_disposition p') = dsp_consent_blocks (prv_disposition p)"
proof -
  let ?k = "drq_request_id request" and ?n = "dln_node_id node" and ?d = "prv_disposition p" and ?d' = "prv_disposition p'"
  obtain oc p1 where oc: "attempt_node lib sender pol request node p = (oc, p1)" by fastforce
  let ?d1 = "prv_disposition p1"
  have a: "a = attempt_for lib pol ?k node (the (dln_external_recipient_digest node)) oc" and sent: "sent = aoc_sent oc"
    and p': "?d' = (if aoc_projected_only oc then ?d1 else insert_attempt a ?d1)"
    using assms(5) by (auto simp: reconcile_node_def oc Let_def)
  have d1: "?d1 = ?d \<or> (\<exists>c. ?d1 = insert_receipt (receipt_for lib node (rpo_actor pol) c (rpo_now pol)) ?d)"
    by (rule attempt_node_cases[OF assms(2) oc]) (auto elim!: send_once_cases)
  note r = insert_receipt_inv[OF assms(1,2) refl, where node = node and a = "rpo_actor pol" and t = "rpo_now pol"]
  have inv1: "recipients_inv lib limit ?d1 cs" using d1 assms(2) r(1) by auto
  have ack: "given (external_ack ?d n) \<Longrightarrow> given (external_ack ?d' n)" for n using d1 r(2) unfolding p' by fastforce
  have on1: "attempts_on ?d1 = attempts_on ?d" using d1 r(4) by auto
  have t1: "dsp_requests ?d1 = dsp_requests ?d" "dsp_lineage_nodes ?d1 = dsp_lineage_nodes ?d" "dsp_consent_blocks ?d1 = dsp_consent_blocks ?d"
    using d1 by (auto simp: insert_receipt_def)
  show t: "dsp_requests ?d' = dsp_requests ?d" "dsp_lineage_nodes ?d' = dsp_lineage_nodes ?d" "dsp_consent_blocks ?d' = dsp_consent_blocks ?d"
    using t1 by (simp_all add: p')
  show "deadline_of ?d' = deadline_of ?d" using t(1) by (simp add: deadline_of_def find_request_def fun_eq_iff)
  have unsettled: "\<not> settled ?d ?k ?n" "aoc_attempt_no oc = int (length (attempts_on ?d ?k ?n)) + 1" if "\<not> aoc_projected_only oc"
    by (rule attempt_node_cases[OF assms(2) oc]; use that in \<open>auto elim!: send_once_cases\<close>)+
  show "settled ?d' k n" if "settled ?d k n" for k n
  proof (cases "aoc_projected_only oc")
    case True
    then show ?thesis using that ack unfolding settled_def p' by (auto simp: on1)
  next
    case False
    have new: "dsp_attempts ?d' = dsp_attempts ?d1 @ [a]"
      using insert_attempt_new[OF assms(1) inv1 a] unsettled(2)[OF False] False by (simp add: on1 p')
    have "\<not> (k = ?k \<and> n = ?n)" using that unsettled(1)[OF False] by blast
    then have "attempts_on ?d' k n = attempts_on ?d k n"
      using on1[unfolded attempts_on_def fun_eq_iff, rule_format, of k n] unfolding attempts_on_def new by (auto simp: a)
    then show ?thesis using that ack[of n] by (auto simp: settled_def)
  qed
  show "\<not> sent" if "settled ?d ?k ?n"
    by (rule attempt_node_cases[OF assms(2) oc]) (use that sent in auto)
  show "\<not> sent \<and> settled ?d' ?k ?n \<and> era_state a \<notin> {RS_RETRY_SCHEDULED, RS_NOT_DUE}" if late: "drq_deadline request \<le> rpo_now pol"
  proof (rule attempt_node_cases[OF assms(2) oc])
    assume "aoc_projected_only oc" "\<not> aoc_sent oc" "p1 = p" "settled ?d ?k ?n \<or> rpo_now pol < drq_deadline request"
      "drq_deadline request \<le> rpo_now pol \<Longrightarrow> aoc_state oc \<notin> {RS_RETRY_SCHEDULED, RS_NOT_DUE}"
    then show ?thesis using late by (simp add: p' sent a)
  next
    assume e: "\<not> aoc_projected_only oc" "\<not> aoc_sent oc" "p1 = p" "aoc_state oc = RS_DEADLINE_EXPIRED"
    have "dsp_attempts ?d' = dsp_attempts ?d @ [a]"
      using insert_attempt_new[OF assms(1) inv1 a] unsettled(2)[OF e(1)] e by (simp add: on1 p')
    then have "attempts_on ?d' ?k ?n = attempts_on ?d ?k ?n @ [a]" by (simp add: attempts_on_def a)
    then show ?thesis using e by (simp add: settled_def sent a)
  next
    assume "rpo_now pol < drq_deadline request"
    then show ?thesis using late by simp
  qed
qed

section \<open>Whole reconciliations and runs\<close>

lemma reconcile_loop_inv:
  assumes "collision_free lib" "recipients_inv lib limit (prv_disposition p) (cs @ map (Pair (drq_request_id request)) calls)" "policy_ok limit pol"
    "deadline_of (prv_disposition p) (drq_request_id request) = Some (drq_deadline request)"
    "reconcile_loop lib sender pol request ns acc calls p = (out, calls', p')"
  shows "recipients_inv lib limit (prv_disposition p') (cs @ map (Pair (drq_request_id request)) calls') \<and>
    (\<exists>new. calls' = calls @ new \<and> (\<forall>n \<in> set new. \<not> settled (prv_disposition p) (drq_request_id request) n) \<and>
       (drq_deadline request \<le> rpo_now pol \<longrightarrow> new = [])) \<and>
    (\<forall>k n. settled (prv_disposition p) k n \<longrightarrow> settled (prv_disposition p') k n) \<and>
    (drq_deadline request \<le> rpo_now pol \<longrightarrow> (\<forall>as. out = Inr as \<longrightarrow>
       (\<forall>n \<in> set ns. settled (prv_disposition p') (drq_request_id request) (dln_node_id n)) \<and>
       (\<exists>bs. as = acc @ bs \<and> (\<forall>a \<in> set bs. era_state a \<notin> {RS_RETRY_SCHEDULED, RS_NOT_DUE})))) \<and>
    dsp_requests (prv_disposition p') = dsp_requests (prv_disposition p) \<and>
    dsp_lineage_nodes (prv_disposition p') = dsp_lineage_nodes (prv_disposition p) \<and>
    dsp_consent_blocks (prv_disposition p') = dsp_consent_blocks (prv_disposition p)"
  using assms(2,4,5)
proof (induction ns arbitrary: acc calls p)
  case Nil
  then show ?case by auto
next
  case (Cons node ns)
  let ?k = "drq_request_id request" and ?d = "prv_disposition p"
  show ?case
  proof (cases "given (dln_external_recipient_digest node)")
    case False
    with Cons.prems show ?thesis by auto
  next
    case True
    obtain a sent p1 where r: "reconcile_node lib sender pol request node p = (a, sent, p1)" by (metis prod_cases3)
    let ?calls = "if sent then calls @ [dln_node_id node] else calls"
    have step: "reconcile_loop lib sender pol request ns (acc @ [a]) ?calls p1 = (out, calls', p')" using Cons.prems(3) True r by simp
    note st = reconcile_node_settles[OF assms(1) Cons.prems(1) assms(3) True r]
    have inv: "recipients_inv lib limit (prv_disposition p1) (cs @ map (Pair ?k) ?calls)"
      using reconcile_node_inv[OF assms(1) Cons.prems(1) assms(3) Cons.prems(2) True r] by (cases sent) simp_all
    note ih = Cons.IH[OF inv _ step, unfolded st(5), OF Cons.prems(2)]
    obtain new where new: "calls' = ?calls @ new" "\<forall>n \<in> set new. \<not> settled (prv_disposition p1) ?k n" "drq_deadline request \<le> rpo_now pol \<longrightarrow> new = []"
      using ih by blast
    let ?new = "(if sent then [dln_node_id node] else []) @ new"
    have "calls' = calls @ ?new" using new(1) by simp
    moreover have "\<forall>n \<in> set ?new. \<not> settled ?d ?k n" using new(2) st(1,2) by auto
    moreover have "drq_deadline request \<le> rpo_now pol \<longrightarrow> ?new = []" using new(3) st(3) by auto
    ultimately have e: "\<exists>new. calls' = calls @ new \<and> (\<forall>n \<in> set new. \<not> settled ?d ?k n) \<and> (drq_deadline request \<le> rpo_now pol \<longrightarrow> new = [])" by blast
    have late: "(\<forall>n \<in> set (node # ns). settled (prv_disposition p') ?k (dln_node_id n)) \<and>
        (\<exists>bs. as = acc @ bs \<and> (\<forall>a \<in> set bs. era_state a \<notin> {RS_RETRY_SCHEDULED, RS_NOT_DUE}))"
      if l: "drq_deadline request \<le> rpo_now pol" and o: "out = Inr as" for as
    proof -
      have n: "settled (prv_disposition p') ?k (dln_node_id node)" using st(3)[OF l] ih by blast
      obtain bs where "as = (acc @ [a]) @ bs" "\<forall>a \<in> set bs. era_state a \<notin> {RS_RETRY_SCHEDULED, RS_NOT_DUE}"
        "\<forall>n \<in> set ns. settled (prv_disposition p') ?k (dln_node_id n)" using ih l o by blast
      then show ?thesis using n st(3)[OF l] by (intro conjI exI[of _ "a # bs"]) auto
    qed
    show ?thesis using ih e late st(1,4,6,7) by (intro conjI) auto
  qed
qed

lemma reconcile_inv:
  assumes "collision_free lib" "recipients_inv lib limit (prv_disposition p) cs" "rpo_max_attempts pol \<le> limit"
    "reconcile_external_recipients lib k sender pol p = (out, calls, p')"
  shows "recipients_inv lib limit (prv_disposition p') (cs @ map (Pair k) calls)"
    "settled (prv_disposition p) k' n \<Longrightarrow> settled (prv_disposition p') k' n"
    "settled (prv_disposition p) k n \<Longrightarrow> n \<notin> set calls"
    "out = Inr report \<Longrightarrow> request_by_id (prv_disposition p) k = Inr request \<Longrightarrow> drq_deadline request \<le> rpo_now pol \<Longrightarrow>
       calls = [] \<and> err_retry_scheduled report = 0 \<and>
       (\<forall>n \<in> set (recipient_nodes (prv_disposition p) request). settled (prv_disposition p') k (dln_node_id n))"
    "dsp_requests (prv_disposition p') = dsp_requests (prv_disposition p)" "dsp_lineage_nodes (prv_disposition p') = dsp_lineage_nodes (prv_disposition p)"
    "dsp_consent_blocks (prv_disposition p') = dsp_consent_blocks (prv_disposition p)"
proof -
  let ?d = "prv_disposition p" and ?d' = "prv_disposition p'"
  have all: "recipients_inv lib limit ?d' (cs @ map (Pair k) calls) \<and> (\<forall>k' n. settled ?d k' n \<longrightarrow> settled ?d' k' n) \<and> (\<forall>n. settled ?d k n \<longrightarrow> n \<notin> set calls) \<and>
    (\<forall>report request. out = Inr report \<and> request_by_id ?d k = Inr request \<and> drq_deadline request \<le> rpo_now pol \<longrightarrow> calls = [] \<and> err_retry_scheduled report = 0 \<and>
       (\<forall>n \<in> set (recipient_nodes ?d request). settled ?d' k (dln_node_id n))) \<and>
    dsp_requests ?d' = dsp_requests ?d \<and> dsp_lineage_nodes ?d' = dsp_lineage_nodes ?d \<and> dsp_consent_blocks ?d' = dsp_consent_blocks ?d"
  proof (cases "rpo_max_attempts pol \<le> 0 \<or> rpo_retry_delay_seconds pol \<le> 0 \<or> blank (rpo_actor pol) \<or> (\<exists>e. request_by_id ?d k = Inl e)")
    case True
    then have "calls = [] \<and> p' = p \<and> (\<forall>report. out \<noteq> Inr report)" using assms(4) by (auto simp: reconcile_external_recipients_def split: if_splits sum.splits)
    then show ?thesis using assms(2) by auto
  next
    case False
    then obtain request where r: "request_by_id ?d k = Inr request" by (cases "request_by_id ?d k") auto
    have pol: "policy_ok limit pol" using False assms(3) by (simp add: policy_ok_def)
    have rq: "drq_request_id request = k" "deadline_of ?d k = Some (drq_deadline request)"
      using r by (auto simp: request_by_id_def deadline_of_def dest: find_request_id split: option.splits)
    obtain o1 c1 p1 where l: "reconcile_loop lib sender pol request (recipient_nodes ?d request) [] [] p = (o1, c1, p1)" by (metis prod_cases3)
    have same: "calls = c1" "?d' = prv_disposition p1" and out: "\<And>report. out = Inr report \<Longrightarrow> \<exists>as. o1 = Inr as \<and> report = reconciliation_report lib k (rpo_now pol) as"
      using assms(4) False r l by (auto simp: reconcile_external_recipients_def Let_def split: sum.splits)
    note li = reconcile_loop_inv[OF assms(1) _ pol _ l, of cs, unfolded rq(1), simplified, OF assms(2) rq(2)]
    have rep: "err_retry_scheduled (reconciliation_report lib k (rpo_now pol) as) = 0" if "\<forall>a \<in> set as. era_state a \<noteq> RS_RETRY_SCHEDULED \<and> era_state a \<noteq> RS_NOT_DUE" for as
      using that by (simp add: reconciliation_report_def Let_def count_states_def filter_empty_conv)
    show ?thesis
    proof (intro conjI allI impI)
      show "recipients_inv lib limit ?d' (cs @ map (Pair k) calls)" "dsp_requests ?d' = dsp_requests ?d"
        "dsp_lineage_nodes ?d' = dsp_lineage_nodes ?d" "dsp_consent_blocks ?d' = dsp_consent_blocks ?d" using li same by simp_all
      show "settled ?d' k' n" if "settled ?d k' n" for k' n using li that unfolding same by blast
      show "n \<notin> set calls" if "settled ?d k n" for n using li that unfolding same by blast
      fix report request'
      assume h: "out = Inr report \<and> request_by_id ?d k = Inr request' \<and> drq_deadline request' \<le> rpo_now pol"
      then have rr: "request' = request" using r by simp
      obtain as where as: "o1 = Inr as" "report = reconciliation_report lib k (rpo_now pol) as" using out h by blast
      show "calls = []" using li h unfolding same rr by blast
      show "err_retry_scheduled report = 0" unfolding as(2) using li h rr as(1) by (intro rep) blast
      show "\<forall>n \<in> set (recipient_nodes ?d request'). settled ?d' k (dln_node_id n)" using li h as(1) unfolding same rr by blast
    qed
  qed
  show "recipients_inv lib limit ?d' (cs @ map (Pair k) calls)" "settled ?d k' n \<Longrightarrow> settled ?d' k' n" "settled ?d k n \<Longrightarrow> n \<notin> set calls"
    "dsp_requests ?d' = dsp_requests ?d" "dsp_lineage_nodes ?d' = dsp_lineage_nodes ?d" "dsp_consent_blocks ?d' = dsp_consent_blocks ?d"
    using all by blast+
  show "out = Inr report \<Longrightarrow> request_by_id ?d k = Inr request \<Longrightarrow> drq_deadline request \<le> rpo_now pol \<Longrightarrow>
       calls = [] \<and> err_retry_scheduled report = 0 \<and> (\<forall>n \<in> set (recipient_nodes ?d request). settled ?d' k (dln_node_id n))"
    using all by blast
qed

lemma acknowledge_inv:
  assumes "collision_free lib" "recipients_inv lib limit (prv_disposition p) cs" "acknowledge_external_recipient lib node actor receipt t p = Inr (r, p')"
  shows "recipients_inv lib limit (prv_disposition p') cs" "settled (prv_disposition p) k n \<Longrightarrow> settled (prv_disposition p') k n"
    "dsp_requests (prv_disposition p') = dsp_requests (prv_disposition p)" "dsp_lineage_nodes (prv_disposition p') = dsp_lineage_nodes (prv_disposition p)"
    "dsp_consent_blocks (prv_disposition p') = dsp_consent_blocks (prv_disposition p)"
proof -
  obtain nd where e: "prv_disposition p' = insert_receipt (receipt_for lib nd actor receipt t) (prv_disposition p)"
    using assms(3) by (auto simp: acknowledge_external_recipient_def Let_def split: option.splits if_splits)
  note r = insert_receipt_inv[OF assms(1,2) refl, where node = nd and a = actor and c = receipt and t = t]
  show "recipients_inv lib limit (prv_disposition p') cs" using r(1) by (simp add: e)
  show "settled (prv_disposition p) k n \<Longrightarrow> settled (prv_disposition p') k n" using r(2,4) by (auto simp: settled_def e)
  show "dsp_requests (prv_disposition p') = dsp_requests (prv_disposition p)" "dsp_lineage_nodes (prv_disposition p') = dsp_lineage_nodes (prv_disposition p)"
    "dsp_consent_blocks (prv_disposition p') = dsp_consent_blocks (prv_disposition p)" by (simp_all add: e insert_receipt_def)
qed

lemma same_recipients_settled: "same_recipients d d' \<Longrightarrow> settled d' = settled d"
  by (simp add: same_recipients_def settled_def attempts_on_def external_ack_def fun_eq_iff)

lemma basis_frame:
  assumes "document_alternate_basis lib subject basis actor reason wall p = Inr p'"
  shows "same_recipients (prv_disposition p) (prv_disposition p')" "dsp_lineage_nodes (prv_disposition p') = dsp_lineage_nodes (prv_disposition p)"
  using assms by (auto simp: document_alternate_basis_def same_recipients_def deadline_of_def find_request_def Let_def split: if_splits option.splits)

lemma dsp_step_quiet:
  assumes "dsp_step lib limit p cs p'"
  obtains (same) "same_recipients (prv_disposition p) (prv_disposition p')" "cs = []"
  | (ack) node actor receipt t r where "acknowledge_external_recipient lib node actor receipt t p = Inr (r, p')" "cs = []"
  | (reconcile) pol k sender out calls where "rpo_max_attempts pol \<le> limit" "reconcile_external_recipients lib k sender pol p = (out, calls, p')"
      "cs = map (Pair k) calls"
  using assms
proof cases
  case (ds_create q r)
  have "same_recipients (prv_disposition p) (prv_disposition p')"
    by (rule create_request_cases[OF ds_create(2)]) (auto dest: insert_request_frame(1))
  with ds_create that(1) show thesis by blast
qed (auto intro: that dest: register_node_frame(1) basis_frame(1) close_request_frame(1))

lemma dsp_step_inv:
  assumes "collision_free lib" "dsp_step lib limit p cs' p'" "recipients_inv lib limit (prv_disposition p) cs"
  shows "recipients_inv lib limit (prv_disposition p') (cs @ cs')" "settled (prv_disposition p) k n \<Longrightarrow> settled (prv_disposition p') k n \<and> (k, n) \<notin> set cs'"
proof -
  have "recipients_inv lib limit (prv_disposition p') (cs @ cs') \<and> (settled (prv_disposition p) k n \<longrightarrow> settled (prv_disposition p') k n \<and> (k, n) \<notin> set cs')"
    using assms(2)
  proof (cases rule: dsp_step_quiet)
    case same
    then show ?thesis using recipients_inv_same[OF same(1) assms(3)] same_recipients_settled[OF same(1)] by simp
  next
    case (ack node actor receipt t r)
    then show ?thesis using acknowledge_inv(1,2)[OF assms(1,3)] by auto
  next
    case (reconcile pol k' sender out calls)
    note r = reconcile_inv(1,2,3)[OF assms(1,3) reconcile(1,2)]
    show ?thesis using r unfolding reconcile(3) by auto
  qed
  then show "recipients_inv lib limit (prv_disposition p') (cs @ cs')" "settled (prv_disposition p) k n \<Longrightarrow> settled (prv_disposition p') k n \<and> (k, n) \<notin> set cs'"
    by blast+
qed

lemma start_inv: "recipients_inv lib limit (prv_disposition (dsp_start recorder sv)) []"
  by (simp add: dsp_start_def disposition_init_def recipients_inv_def attempt_forms_def receipt_forms_def retries_in_time_def
      attempts_counted_def attempts_on_def attempts_ok_def transport_def)

lemma dsp_run_inv:
  assumes "collision_free lib" "dsp_run lib limit p cs' p'" "recipients_inv lib limit (prv_disposition p) cs"
  shows "recipients_inv lib limit (prv_disposition p') (cs @ cs') \<and>
    (\<forall>k n. settled (prv_disposition p) k n \<longrightarrow> settled (prv_disposition p') k n \<and> (k, n) \<notin> set cs')"
  using assms(2,3)
proof (induction rule: dsp_run.induct)
  case (dr_refl p)
  then show ?case by simp
next
  case (dr_step p cs1 p1 cs2 p2)
  then have ih: "recipients_inv lib limit (prv_disposition p1) (cs @ cs1)"
    "settled (prv_disposition p) k n \<Longrightarrow> settled (prv_disposition p1) k n \<and> (k, n) \<notin> set cs1" for k n by blast+
  show ?case using dsp_step_inv[OF assms(1) dr_step(2) ih(1)] ih(2) by auto
qed

end
