(* ===== verification/Disposition_Closure.thy ===== *)
theory Disposition_Closure
  imports Disposition_Props
begin

text \<open>
  What closing a disposition request leaves: node statuses, artifact files and the life cycle of the evidence in
  scope.
\<close>

section \<open>Files and life cycles\<close>

definition gone :: "evidence_service \<Rightarrow> string \<Rightarrow> bool" where
  "gone sv dg \<longleftrightarrow> (case evs_artifacts sv of None \<Rightarrow> False | Some st \<Rightarrow> map_of (ars_files st) dg = None)"

definition erased :: "journal \<Rightarrow> uuid \<Rightarrow> bool" where
  "erased j e \<longleftrightarrow> find_evidence j e \<noteq> None \<and> lifecycle_of j e \<noteq> [] \<and> lce_to_state (last (lifecycle_of j e)) = ES_DELETED"

definition event_ids :: "journal \<Rightarrow> uuid set" where
  "event_ids j = (\<lambda>r. lce_lifecycle_event_id (snd r)) ` set (j_evidence_lifecycle_events j)"

lemma erased_projection: "erased j e \<longleftrightarrow> (\<exists>cur. evidence_lifecycle_projection j e w = Inr cur \<and> lcp_state cur = ES_DELETED)"
  by (cases "find_evidence j e") (auto simp: erased_def evidence_lifecycle_projection_def Let_def)

lemma same_tables_erased:
  assumes "same_tables j t"
  shows "erased t = erased j" "event_ids t = event_ids j" "j_evidence_items t = j_evidence_items j"
  using assms by (simp_all add: same_tables_def erased_def event_ids_def find_evidence_def lifecycle_of_def fun_eq_iff)

lemma delete_digest_gone:
  assumes "delete_digest lib dg who tomb force wall st = (out, st')"
  shows "map_of (ars_files st) x = None \<Longrightarrow> map_of (ars_files st') x = None" "is_ok out \<Longrightarrow> map_of (ars_files st') dg = None"
  using delete_digest_frame(6)[OF assms] by simp_all

lemma dispose_gone:
  assumes "dispose lib wall who item sv = (out, sv')"
  shows "gone sv x \<Longrightarrow> gone sv' x" "is_ok out \<Longrightarrow> evs_artifacts sv \<noteq> None \<Longrightarrow> gone sv' (evi_content_sha256 item)"
    "evs_artifacts sv' = None \<longleftrightarrow> evs_artifacts sv = None"
proof -
  have "(gone sv x \<longrightarrow> gone sv' x) \<and> (is_ok out \<and> evs_artifacts sv \<noteq> None \<longrightarrow> gone sv' (evi_content_sha256 item)) \<and> (evs_artifacts sv' = None \<longleftrightarrow> evs_artifacts sv = None)"
  proof (cases "evs_artifacts sv")
    case None
    then show ?thesis using assms by (auto simp: dispose_def gone_def)
  next
    case (Some st)
    obtain o1 st1 where d: "delete_digest lib (evi_content_sha256 item) who True False wall st = (o1, st1)" by fastforce
    have "evs_artifacts sv' = Some st1" "is_ok out = is_ok o1" using assms Some d by (cases o1; auto simp: dispose_def)+
    then show ?thesis using delete_digest_gone[OF d] Some by (auto simp: gone_def)
  qed
  then show "gone sv x \<Longrightarrow> gone sv' x" "is_ok out \<Longrightarrow> evs_artifacts sv \<noteq> None \<Longrightarrow> gone sv' (evi_content_sha256 item)"
    "evs_artifacts sv' = None \<longleftrightarrow> evs_artifacts sv = None" by blast+
qed

lemma transition_gone:
  assumes "transition lib wall k q sv = (out, sv')"
  shows "gone sv x \<Longrightarrow> gone sv' x" "evs_artifacts sv' = None \<longleftrightarrow> evs_artifacts sv = None"
proof -
  have keep: "gone (sv1\<lparr>evs_store := j\<rparr>) y = gone sv1 y" for sv1 j y by (simp add: gone_def)
  have same: "gone sv2 y = gone sv1 y" if "evs_artifacts sv2 = evs_artifacts sv1" for sv1 sv2 y using that by (simp add: gone_def)
  have pair: "\<exists>o1. r = (o1, b)" if "map_prod f id r = (a, b)" for f :: "'x \<Rightarrow> 'y" and r :: "'x \<times> 'z" and a b using that by (cases r) auto
  have "evs_artifacts sv' = evs_artifacts sv \<or> (\<exists>who item o1 sv1. dispose lib wall who item sv = (o1, sv1) \<and> evs_artifacts sv' = evs_artifacts sv1)"
    using assms unfolding transition_def
    by (fastforce split: sum.splits prod.splits if_splits dest: after_transition_tables(2) pair)
  then show "gone sv x \<Longrightarrow> gone sv' x" "evs_artifacts sv' = None \<longleftrightarrow> evs_artifacts sv = None"
    using dispose_gone(1,3) same by metis+
qed

section \<open>Erasing one item\<close>

text \<open>What an erasure does to the tables: the items stay, other items keep their state, and no event but its own is added.\<close>

lemma transition_others:
  assumes "transition lib wall k q sv = (out, sv')"
  shows "j_evidence_items (evs_store sv') = j_evidence_items (evs_store sv)" "i \<noteq> k \<Longrightarrow> erased (evs_store sv') i = erased (evs_store sv) i"
    "event_ids (evs_store sv') \<subseteq> insert (trq_event_id q) (event_ids (evs_store sv))"
proof -
  let ?P = "j_evidence_items (evs_store sv') = j_evidence_items (evs_store sv) \<and> (\<forall>i. i \<noteq> k \<longrightarrow> erased (evs_store sv') i = erased (evs_store sv) i) \<and>
    event_ids (evs_store sv') \<subseteq> insert (trq_event_id q) (event_ids (evs_store sv))"
  have ?P using assms
  proof (cases rule: transition_cases)
    case unchanged
    then show ?thesis by auto
  next
    case (recorded item cur action proof_sha reasons x j)
    let ?e = "lifecycle_event_for q item cur action proof_sha reasons"
    have e: "lce_evidence_id ?e = k" "lce_lifecycle_event_id ?e = trq_event_id q"
      using evidence_item_Inr(1)[OF recorded(1)] by (simp_all add: lifecycle_event_for_def)
    have ids: "event_ids j = (\<lambda>v. lce_lifecycle_event_id v) ` set (map snd (j_evidence_lifecycle_events j))" for j
      by (auto simp: event_ids_def)
    have "j_evidence_items j = j_evidence_items (evs_store sv) \<and> (\<forall>i. i \<noteq> k \<longrightarrow> lifecycle_of j i = lifecycle_of (evs_store sv) i) \<and>
        event_ids j \<subseteq> insert (trq_event_id q) (event_ids (evs_store sv))"
    proof (rule lifecycle_locked_cases[OF recorded(6)])
      assume "j = evs_store sv"
      then show ?thesis by auto
    next
      assume a: "j_evidence_items j = j_evidence_items (evs_store sv)"
        "map snd (j_evidence_lifecycle_events j) = map snd (j_evidence_lifecycle_events (evs_store sv)) @ [?e]"
      then have "\<forall>i. i \<noteq> k \<longrightarrow> lifecycle_of j i = lifecycle_of (evs_store sv) i" by (simp add: lifecycle_of_def e)
      moreover have "event_ids j \<subseteq> insert (trq_event_id q) (event_ids (evs_store sv))" unfolding ids a(2) by (simp add: e subset_insertI)
      ultimately show ?thesis using a(1) by blast
    qed
    then show ?thesis using same_tables_erased[OF recorded(7)] by (auto simp: erased_def find_evidence_def)
  qed
  then show "j_evidence_items (evs_store sv') = j_evidence_items (evs_store sv)" "i \<noteq> k \<Longrightarrow> erased (evs_store sv') i = erased (evs_store sv) i"
    "event_ids (evs_store sv') \<subseteq> insert (trq_event_id q) (event_ids (evs_store sv))" by blast+
qed

lemma transition_erases:
  assumes "evidence_inv (evs_store sv)" "transition lib wall k q sv = (Inr cur', sv')" "trq_to_state q = ES_DELETED"
    "trq_event_id q \<notin> event_ids (evs_store sv)"
  shows "erased (evs_store sv') k" "evidence_item (evs_store sv) k = Inr item \<Longrightarrow> evs_artifacts sv \<noteq> None \<Longrightarrow> gone sv' (evi_content_sha256 item)"
proof -
  have "erased (evs_store sv') k \<and> (\<forall>item. evidence_item (evs_store sv) k = Inr item \<longrightarrow> evs_artifacts sv \<noteq> None \<longrightarrow> gone sv' (evi_content_sha256 item))"
    using assms(2)
  proof (cases rule: transition_cases)
    case unchanged
    then show ?thesis by simp
  next
    case (recorded item cur action proof_sha reasons x j)
    let ?e = "lifecycle_event_for q item cur action proof_sha reasons"
    note it = evidence_item_Inr[OF recorded(1)]
    have e: "lce_evidence_id ?e = k" "lce_lifecycle_event_id ?e = trq_event_id q" "lce_to_state ?e = ES_DELETED"
      using it(1) assms(3) by (simp_all add: lifecycle_event_for_def)
    have fresh: "find_lifecycle (evs_store sv) (lce_lifecycle_event_id ?e) = None"
      using assms(4) by (force simp: find_lifecycle_def find_None_iff event_ids_def e)
    have inv: "evidence_inv (evs_store sv')" using transition_inv[OF assms(1,2)] .
    have ev: "events_for j k = events_for (evs_store sv) k @ [?e]" "j_evidence_items j = j_evidence_items (evs_store sv)"
      using recorded(6) fresh by (auto elim!: lifecycle_locked_cases[where k = k] simp: e)
    have "events_for (evs_store sv') k = events_for j k" using recorded(7) by (simp add: same_tables_def events_for_def)
    then have last: "lifecycle_of (evs_store sv') k = events_for (evs_store sv) k @ [?e]" using lifecycle_of_inv[OF inv] ev(1) by simp
    have "k \<in> set (item_ids (evs_store sv'))" using it transition_others(1)[OF assms(2)] by (auto simp: item_ids_def)
    then have "find_evidence (evs_store sv') k \<noteq> None" by (simp add: find_evidence_ids)
    then have del: "erased (evs_store sv') k" using last e(3) by (simp add: erased_def)
    obtain r sv1 where d: "dispose lib wall (trq_actor q) item sv = (Inr r, sv1)" "evs_artifacts sv' = evs_artifacts sv1"
      using recorded(8)[OF assms(3)] by blast
    have "gone sv' (evi_content_sha256 item)" if "evs_artifacts sv \<noteq> None"
      using dispose_gone(2)[OF d(1) _ that] d(2) by (simp add: gone_def)
    then show ?thesis using del recorded(1) by auto
  qed
  then show "erased (evs_store sv') k" "evidence_item (evs_store sv) k = Inr item \<Longrightarrow> evs_artifacts sv \<noteq> None \<Longrightarrow> gone sv' (evi_content_sha256 item)"
    by blast+
qed

lemma erase_evidence_outcome:
  assumes "evidence_inv (evs_store sv)" "erased (evs_store sv) e \<or> fst (ids e) \<notin> event_ids (evs_store sv)"
    "erase_evidence lib wall now ids request e sv = (None, sv')"
  shows "evidence_inv (evs_store sv')" "erased (evs_store sv') i = (i = e \<or> erased (evs_store sv) i)"
    "j_evidence_items (evs_store sv') = j_evidence_items (evs_store sv)"
    "event_ids (evs_store sv') \<subseteq> insert (fst (ids e)) (event_ids (evs_store sv))" "gone sv x \<Longrightarrow> gone sv' x"
    "\<not> erased (evs_store sv) e \<Longrightarrow> evidence_item (evs_store sv) e = Inr item \<Longrightarrow> evs_artifacts sv \<noteq> None \<Longrightarrow> gone sv' (evi_content_sha256 item)"
    "evs_artifacts sv' = None \<longleftrightarrow> evs_artifacts sv = None"
proof -
  let ?P = "evidence_inv (evs_store sv') \<and> (\<forall>i. erased (evs_store sv') i = (i = e \<or> erased (evs_store sv) i)) \<and>
    j_evidence_items (evs_store sv') = j_evidence_items (evs_store sv) \<and> event_ids (evs_store sv') \<subseteq> insert (fst (ids e)) (event_ids (evs_store sv)) \<and>
    (\<forall>x. gone sv x \<longrightarrow> gone sv' x) \<and>
    (\<forall>item. \<not> erased (evs_store sv) e \<and> evidence_item (evs_store sv) e = Inr item \<and> evs_artifacts sv \<noteq> None \<longrightarrow> gone sv' (evi_content_sha256 item)) \<and>
    (evs_artifacts sv' = None \<longleftrightarrow> evs_artifacts sv = None)"
  have ?P
  proof (cases "erased (evs_store sv) e")
    case True
    then obtain cur where "evidence_lifecycle_projection (evs_store sv) e wall = Inr cur" "lcp_state cur = ES_DELETED"
      using erased_projection[of "evs_store sv" e wall] by blast
    then have "sv' = sv" using assms(3) by (simp add: erase_evidence_def)
    then show ?thesis using True assms(1) by auto
  next
    case False
    then obtain cur c' where c: "evidence_lifecycle_projection (evs_store sv) e wall = Inr cur"
      and t: "transition lib wall e (erasure_request request (lcp_version cur) now (ids e)) sv = (Inr c', sv')"
      using assms(3) erased_projection[of "evs_store sv" e wall] by (auto simp: erase_evidence_def split: sum.splits if_splits prod.splits)
    let ?q = "erasure_request request (lcp_version cur) now (ids e)"
    have q: "trq_to_state ?q = ES_DELETED" "trq_event_id ?q = fst (ids e)" by (simp_all add: erasure_request_def)
    have fresh: "trq_event_id ?q \<notin> event_ids (evs_store sv)" using assms(2) False q by simp
    note er = transition_erases[OF assms(1) t q(1) fresh]
    have "erased (evs_store sv') i = (i = e \<or> erased (evs_store sv) i)" for i
      using transition_others(2)[OF t, of i] er(1) by (cases "i = e") auto
    then show ?thesis using transition_inv[OF assms(1) t] transition_others(1,3)[OF t, unfolded q(2)] transition_gone[OF t] er(2) by blast
  qed
  then show "evidence_inv (evs_store sv')" "erased (evs_store sv') i = (i = e \<or> erased (evs_store sv) i)"
    "j_evidence_items (evs_store sv') = j_evidence_items (evs_store sv)"
    "event_ids (evs_store sv') \<subseteq> insert (fst (ids e)) (event_ids (evs_store sv))" "gone sv x \<Longrightarrow> gone sv' x"
    "\<not> erased (evs_store sv) e \<Longrightarrow> evidence_item (evs_store sv) e = Inr item \<Longrightarrow> evs_artifacts sv \<noteq> None \<Longrightarrow> gone sv' (evi_content_sha256 item)"
    "evs_artifacts sv' = None \<longleftrightarrow> evs_artifacts sv = None" by blast+
qed

section \<open>Closing nodes and scopes\<close>

definition local_artifact :: "DispositionLineageNode \<Rightarrow> bool" where
  "local_artifact n \<longleftrightarrow> \<not> external_kind (dln_kind n) \<and> dln_kind n \<notin> {NK_GRANT, NK_LEASE} \<and> starts_with (dln_target_ref n) artifact_prefix"

definition target_digest :: "DispositionLineageNode \<Rightarrow> string" where
  "target_digest n = drop (length artifact_prefix) (dln_target_ref n)"

definition done_status :: "DispositionNodeStatus \<Rightarrow> bool" where
  "done_status s \<longleftrightarrow> s \<in> {DN_DELETED, DN_REVOKED}"

text \<open>What is true of a node whose closure succeeded.\<close>

definition node_closed :: "disposition \<Rightarrow> evidence_service \<Rightarrow> DispositionLineageNode \<Rightarrow> bool" where
  "node_closed d sv n \<longleftrightarrow> (external_kind (dln_kind n) \<longrightarrow> given (external_ack d (dln_node_id n))) \<and>
     (local_artifact n \<longrightarrow> gone sv (target_digest n))"

lemma close_node_outcome:
  assumes "close_node lib wall now request n p = (r, p')"
  shows "dnr_node_id r = dln_node_id n" "evs_store (prv_evidence p') = evs_store (prv_evidence p)"
    "gone (prv_evidence p) x \<Longrightarrow> gone (prv_evidence p') x"
    "evs_artifacts (prv_evidence p') = None \<longleftrightarrow> evs_artifacts (prv_evidence p) = None"
    "done_status (dnr_status r) \<Longrightarrow> node_closed (prv_disposition p) (prv_evidence p') n"
    "dnr_status r \<in> {DN_DELETED, DN_REVOKED, DN_RETAINED_EXCEPTION, DN_EXTERNAL_PENDING, DN_FAILED}"
proof -
  obtain st reason receipt ars where c: "close_target lib wall now (drq_actor request) n (prv_disposition p) (evs_artifacts (prv_evidence p)) = ((st, reason, receipt), ars)"
    by (metis prod.exhaust)
  have r: "dnr_node_id r = dln_node_id n" "dnr_status r = st" and p': "evs_store (prv_evidence p') = evs_store (prv_evidence p)" "evs_artifacts (prv_evidence p') = ars"
    using assms by (auto simp: close_node_def c Let_def)
  let ?a = "evs_artifacts (prv_evidence p)"
  let ?Q = "(\<forall>x. gone (prv_evidence p) x \<longrightarrow> gone (prv_evidence p') x) \<and> (ars = None \<longleftrightarrow> ?a = None) \<and>
    (done_status st \<longrightarrow> node_closed (prv_disposition p) (prv_evidence p') n) \<and> st \<in> {DN_DELETED, DN_REVOKED, DN_RETAINED_EXCEPTION, DN_EXTERNAL_PENDING, DN_FAILED}"
  have ?Q
  proof (cases "local_artifact n \<and> \<not> (given (dln_exception_reason n) \<and> (case dln_exception_expires_at n of None \<Rightarrow> True | Some t \<Rightarrow> now < t)) \<and> ?a \<noteq> None")
    case True
    then obtain s where s: "?a = Some s" by auto
    obtain o1 s1 where d: "delete_digest lib (target_digest n) (drq_actor request) True False wall s = (o1, s1)" by fastforce
    have e: "ars = Some s1" "st = (case o1 of Inr _ \<Rightarrow> DN_DELETED | Inl (PermissionError _) \<Rightarrow> DN_RETAINED_EXCEPTION | Inl _ \<Rightarrow> DN_FAILED)"
      using c True s d by (auto simp: close_target_def local_artifact_def target_digest_def external_kind_def split: sum.splits py_exn.splits if_splits)
    show ?thesis using delete_digest_gone[OF d] True s e p'(2)
      by (auto simp: gone_def node_closed_def done_status_def local_artifact_def split: sum.splits py_exn.splits)
  next
    case False
    then show ?thesis using c
      by (auto simp: p'(2) close_target_def node_closed_def local_artifact_def done_status_def gone_def external_kind_def Let_def split: if_splits option.splits)
  qed
  then show "dnr_node_id r = dln_node_id n" "evs_store (prv_evidence p') = evs_store (prv_evidence p)"
    "gone (prv_evidence p) x \<Longrightarrow> gone (prv_evidence p') x"
    "evs_artifacts (prv_evidence p') = None \<longleftrightarrow> ?a = None"
    "done_status (dnr_status r) \<Longrightarrow> node_closed (prv_disposition p) (prv_evidence p') n"
    "dnr_status r \<in> {DN_DELETED, DN_REVOKED, DN_RETAINED_EXCEPTION, DN_EXTERNAL_PENDING, DN_FAILED}"
    using r p' by auto
qed

lemma node_closed_mono:
  assumes "node_closed d sv n" "\<And>x. gone sv x \<Longrightarrow> gone sv' x" "closing_frame d d'"
  shows "node_closed d' sv' n"
  using assms by (auto simp: node_closed_def closing_frame_def same_recipients_def external_ack_def)

lemma node_closed_frame: "closing_frame d d' \<Longrightarrow> node_closed d' sv n = node_closed d sv n"
  by (simp add: node_closed_def closing_frame_def same_recipients_def external_ack_def)

lemma close_nodes_outcome:
  assumes "close_nodes lib wall now request ns p = (rs, p')"
  shows "map dnr_node_id rs = map dln_node_id ns \<and> evs_store (prv_evidence p') = evs_store (prv_evidence p) \<and>
    (\<forall>x. gone (prv_evidence p) x \<longrightarrow> gone (prv_evidence p') x) \<and>
    (evs_artifacts (prv_evidence p') = None \<longleftrightarrow> evs_artifacts (prv_evidence p) = None) \<and>
    ((\<forall>r \<in> set rs. done_status (dnr_status r)) \<longrightarrow> (\<forall>n \<in> set ns. node_closed (prv_disposition p) (prv_evidence p') n))"
  using assms
proof (induction ns arbitrary: p rs)
  case Nil
  then show ?case by simp
next
  case (Cons n ns)
  obtain r p1 where c: "close_node lib wall now request n p = (r, p1)" by fastforce
  obtain rs' p2 where c2: "close_nodes lib wall now request ns p1 = (rs', p2)" by fastforce
  have "rs = r # rs'" "p2 = p'" using Cons.prems by (simp_all add: c c2)
  then have rs: "close_nodes lib wall now request ns p1 = (rs', p')" "rs = r # rs'" using c2 by simp_all
  note o1 = close_node_outcome[OF c]
  note ih = Cons.IH[OF rs(1)]
  note fr = close_node_frame[OF c]
  have ih1: "map dnr_node_id rs' = map dln_node_id ns" "evs_store (prv_evidence p') = evs_store (prv_evidence p1)"
    "evs_artifacts (prv_evidence p') = None \<longleftrightarrow> evs_artifacts (prv_evidence p1) = None" using ih by blast+
  show ?case
  proof (intro conjI allI impI ballI)
    show "map dnr_node_id rs = map dln_node_id (n # ns)" "evs_store (prv_evidence p') = evs_store (prv_evidence p)"
      "evs_artifacts (prv_evidence p') = None \<longleftrightarrow> evs_artifacts (prv_evidence p) = None"
      using ih1 o1(1,2,4) rs(2) by simp_all
    show mono: "gone (prv_evidence p) x \<Longrightarrow> gone (prv_evidence p') x" for x using ih o1(3) by blast
    fix m assume ok: "\<forall>r \<in> set rs. done_status (dnr_status r)" and m: "m \<in> set (n # ns)"
    then have ok': "done_status (dnr_status r)" "\<forall>r \<in> set rs'. done_status (dnr_status r)" using rs(2) by simp_all
    show "node_closed (prv_disposition p) (prv_evidence p') m"
    proof (cases "m \<in> set ns")
      case True
      then have "node_closed (prv_disposition p1) (prv_evidence p') m" using ih ok'(2) by blast
      then show ?thesis by (simp add: node_closed_frame[OF fr])
    next
      case False
      then have "node_closed (prv_disposition p) (prv_evidence p1) m" using o1(5)[OF ok'(1)] m by simp
      moreover have "gone (prv_evidence p1) x \<Longrightarrow> gone (prv_evidence p') x" for x using ih by blast
      ultimately show ?thesis by (rule node_closed_mono[OF _ _ closing_frame_refl])
    qed
  qed
qed

lemma close_evidence_outcome:
  assumes "close_evidence lib wall now ids request e p = (rs, p')" "\<forall>r \<in> set rs. done_status (dnr_status r)"
    "evidence_inv (evs_store (prv_evidence p))"
    "drq_action request = DA_ERASE \<Longrightarrow> erased (evs_store (prv_evidence p)) e \<or> fst (ids e) \<notin> event_ids (evs_store (prv_evidence p))"
  shows "n \<in> set (lineage_nodes (prv_disposition p) (Some e)) \<Longrightarrow> dln_node_id n \<in> dnr_node_id ` set rs \<and> node_closed (prv_disposition p) (prv_evidence p') n"
    "gone (prv_evidence p) x \<Longrightarrow> gone (prv_evidence p') x" "evs_artifacts (prv_evidence p') = None \<longleftrightarrow> evs_artifacts (prv_evidence p) = None"
    "evidence_inv (evs_store (prv_evidence p'))"
    "erased (evs_store (prv_evidence p')) i = ((drq_action request = DA_ERASE \<and> i = e) \<or> erased (evs_store (prv_evidence p)) i)"
    "event_ids (evs_store (prv_evidence p')) \<subseteq> event_ids (evs_store (prv_evidence p)) \<union> (if drq_action request = DA_ERASE then {fst (ids e)} else {})"
    "j_evidence_items (evs_store (prv_evidence p')) = j_evidence_items (evs_store (prv_evidence p))"
    "drq_action request = DA_ERASE \<Longrightarrow> \<not> erased (evs_store (prv_evidence p)) e \<Longrightarrow> evidence_item (evs_store (prv_evidence p)) e = Inr item \<Longrightarrow>
      evs_artifacts (prv_evidence p) \<noteq> None \<Longrightarrow> gone (prv_evidence p') (evi_content_sha256 item)"
proof -
  let ?ns = "lineage_nodes (prv_disposition p) (Some e)"
  obtain rs1 p1 where c: "close_nodes lib wall now request ?ns p = (rs1, p1)" by fastforce
  note o1 = close_nodes_outcome[OF c]
  have st: "evs_store (prv_evidence p1) = evs_store (prv_evidence p)" using o1 by blast
  have key: "rs1 = rs \<and> (if drq_action request = DA_ERASE then erase_evidence lib wall now ids request e (prv_evidence p1) = (None, prv_evidence p')
     else prv_evidence p' = prv_evidence p1)"
    using assms(1,2) c by (auto simp: close_evidence_def Let_def done_status_def split: if_splits prod.splits option.splits)
  note eo = erase_evidence_outcome[where sv = "prv_evidence p1" and sv' = "prv_evidence p'", unfolded st, OF assms(3)]
  let ?sv = "prv_evidence p" and ?sv' = "prv_evidence p'" and ?er = "drq_action request = DA_ERASE"
  have art: "evs_artifacts (prv_evidence p1) = None \<longleftrightarrow> evs_artifacts ?sv = None" using o1 by blast
  have all: "(\<forall>x. gone (prv_evidence p1) x \<longrightarrow> gone ?sv' x) \<and> (evs_artifacts ?sv' = None \<longleftrightarrow> evs_artifacts ?sv = None) \<and> evidence_inv (evs_store ?sv') \<and>
    (\<forall>i. erased (evs_store ?sv') i = ((?er \<and> i = e) \<or> erased (evs_store ?sv) i)) \<and>
    event_ids (evs_store ?sv') \<subseteq> event_ids (evs_store ?sv) \<union> (if ?er then {fst (ids e)} else {}) \<and>
    j_evidence_items (evs_store ?sv') = j_evidence_items (evs_store ?sv) \<and>
    (\<forall>item. ?er \<and> \<not> erased (evs_store ?sv) e \<and> evidence_item (evs_store ?sv) e = Inr item \<and> evs_artifacts ?sv \<noteq> None \<longrightarrow> gone ?sv' (evi_content_sha256 item))"
  proof (cases ?er)
    case True
    then have k: "erase_evidence lib wall now ids request e (prv_evidence p1) = (None, ?sv')" using key by simp
    note eo' = eo[OF assms(4)[OF True] k, unfolded art]
    show ?thesis
    proof (intro conjI allI impI)
      show "event_ids (evs_store ?sv') \<subseteq> event_ids (evs_store ?sv) \<union> (if ?er then {fst (ids e)} else {})" using eo'(4) True by simp
      show "gone ?sv' (evi_content_sha256 item)" if "?er \<and> \<not> erased (evs_store ?sv) e \<and> evidence_item (evs_store ?sv) e = Inr item \<and> evs_artifacts ?sv \<noteq> None" for item
        using eo'(6) that art by blast
    qed (use eo'(1,2,3,5,7) True in simp_all)
  next
    case False
    then have "?sv' = prv_evidence p1" using key by simp
    then show ?thesis using False art st assms(3) by simp
  qed
  then have mono: "gone (prv_evidence p1) x \<Longrightarrow> gone ?sv' x" for x by blast
  show "n \<in> set ?ns \<Longrightarrow> dln_node_id n \<in> dnr_node_id ` set rs \<and> node_closed (prv_disposition p) ?sv' n"
  proof -
    assume n: "n \<in> set ?ns"
    have "node_closed (prv_disposition p) (prv_evidence p1) n" using o1 assms(2) key n by blast
    moreover have "dnr_node_id ` set rs = dln_node_id ` set ?ns" using o1 key by (metis list.set_map)
    ultimately show ?thesis using n mono node_closed_mono[OF _ _ closing_frame_refl] by blast
  qed
  show "gone ?sv x \<Longrightarrow> gone ?sv' x" using o1 mono by blast
  show "evs_artifacts ?sv' = None \<longleftrightarrow> evs_artifacts ?sv = None" "evidence_inv (evs_store ?sv')"
    "erased (evs_store ?sv') i = ((?er \<and> i = e) \<or> erased (evs_store ?sv) i)"
    "event_ids (evs_store ?sv') \<subseteq> event_ids (evs_store ?sv) \<union> (if ?er then {fst (ids e)} else {})"
    "j_evidence_items (evs_store ?sv') = j_evidence_items (evs_store ?sv)"
    "?er \<Longrightarrow> \<not> erased (evs_store ?sv) e \<Longrightarrow> evidence_item (evs_store ?sv) e = Inr item \<Longrightarrow>
      evs_artifacts ?sv \<noteq> None \<Longrightarrow> gone ?sv' (evi_content_sha256 item)"
    using all by blast+
qed

lemma close_nodes_statuses:
  "close_nodes lib wall now request ns p = (rs, p') \<Longrightarrow> r \<in> set rs \<Longrightarrow>
     dnr_status r \<in> {DN_DELETED, DN_REVOKED, DN_RETAINED_EXCEPTION, DN_EXTERNAL_PENDING, DN_FAILED}"
  by (induction ns arbitrary: p rs) (use close_node_outcome(6) in \<open>fastforce split: prod.splits\<close>)+

lemma close_scope_statuses:
  "close_scope lib wall now ids request es p = (rs, p') \<Longrightarrow> r \<in> set rs \<Longrightarrow>
     dnr_status r \<in> {DN_DELETED, DN_REVOKED, DN_RETAINED_EXCEPTION, DN_EXTERNAL_PENDING, DN_FAILED}"
proof (induction es arbitrary: p rs)
  case (Cons e es)
  obtain r1 p1 where c: "close_evidence lib wall now ids request e p = (r1, p1)" by fastforce
  obtain r2 p2 where c2: "close_scope lib wall now ids request es p1 = (r2, p2)" by fastforce
  have rs: "rs = r1 @ r2" "p2 = p'" using Cons.prems(1) by (simp_all add: c c2)
  show ?case
  proof (cases "r \<in> set r2")
    case True
    then show ?thesis using Cons.IH[OF c2[unfolded rs(2)]] by blast
  next
    case False
    then have "r \<in> set r1" using Cons.prems(2) rs(1) by simp
    moreover obtain r0 p0 where n: "close_nodes lib wall now request (lineage_nodes (prv_disposition p) (Some e)) p = (r0, p0)" by fastforce
    ultimately have "r \<in> set r0 \<or> dnr_status r = DN_FAILED"
      using c by (auto simp: close_evidence_def Let_def split: if_splits prod.splits option.splits)
    then show ?thesis using close_nodes_statuses[OF n] by blast
  qed
qed simp

text \<open>An external node without exception and without acknowledgement stays pending.\<close>

lemma close_nodes_pending:
  assumes "close_nodes lib wall now request ns p = (rs, p')" "n \<in> set ns" "external_kind (dln_kind n)" "dln_exception_reason n = None"
    "external_ack (prv_disposition p) (dln_node_id n) = None"
  shows "\<exists>r \<in> set rs. dnr_status r = DN_EXTERNAL_PENDING"
  using assms
proof (induction ns arbitrary: p rs)
  case (Cons m ns)
  obtain r p1 where c: "close_node lib wall now request m p = (r, p1)" by fastforce
  obtain rs' p2 where c2: "close_nodes lib wall now request ns p1 = (rs', p2)" by fastforce
  have rs: "rs = r # rs'" "p2 = p'" using Cons.prems(1) by (simp_all add: c c2)
  show ?case
  proof (cases "m = n")
    case True
    then have "dnr_status r = DN_EXTERNAL_PENDING" using c Cons.prems(3-5) by (auto simp: close_node_def close_target_def Let_def)
    then show ?thesis using rs(1) by simp
  next
    case False
    have "external_ack (prv_disposition p1) = external_ack (prv_disposition p)"
      using close_node_frame[OF c] by (simp add: closing_frame_def same_recipients_def external_ack_def fun_eq_iff)
    then have "\<exists>r \<in> set rs'. dnr_status r = DN_EXTERNAL_PENDING"
      using Cons.IH[OF c2[unfolded rs(2)] _ Cons.prems(3,4)] Cons.prems(2,5) False by simp
    then show ?thesis using rs(1) by simp
  qed
qed simp

lemma close_scope_pending:
  assumes "close_scope lib wall now ids request es p = (rs, p')" "dln_evidence_id n \<in> set es" "n \<in> set (dsp_lineage_nodes (prv_disposition p))"
    "external_kind (dln_kind n)" "dln_exception_reason n = None" "external_ack (prv_disposition p) (dln_node_id n) = None"
  shows "\<exists>r \<in> set rs. dnr_status r = DN_EXTERNAL_PENDING"
  using assms
proof (induction es arbitrary: p rs)
  case (Cons e es)
  obtain r1 p1 where c: "close_evidence lib wall now ids request e p = (r1, p1)" by fastforce
  obtain r2 p2 where c2: "close_scope lib wall now ids request es p1 = (r2, p2)" by fastforce
  have rs: "rs = r1 @ r2" "p2 = p'" using Cons.prems(1) by (simp_all add: c c2)
  show ?case
  proof (cases "dln_evidence_id n = e")
    case True
    obtain r0 p0 where l: "close_nodes lib wall now request (lineage_nodes (prv_disposition p) (Some e)) p = (r0, p0)" by fastforce
    have sub: "set r0 \<subseteq> set r1" using c l by (auto simp: close_evidence_def Let_def split: if_splits prod.splits option.splits)
    have "n \<in> set (lineage_nodes (prv_disposition p) (Some e))" using Cons.prems(3) True by (simp add: lineage_nodes_def)
    then have "\<exists>r \<in> set r0. dnr_status r = DN_EXTERNAL_PENDING" by (rule close_nodes_pending[OF l _ Cons.prems(4-6)])
    then show ?thesis using sub rs(1) by auto
  next
    case False
    have d1: "dsp_lineage_nodes (prv_disposition p1) = dsp_lineage_nodes (prv_disposition p)" "external_ack (prv_disposition p1) = external_ack (prv_disposition p)"
      using close_evidence_frame[OF c] by (simp_all add: closing_frame_def same_recipients_def external_ack_def fun_eq_iff)
    have "\<exists>r \<in> set r2. dnr_status r = DN_EXTERNAL_PENDING"
      using Cons.IH[OF c2[unfolded rs(2)]] Cons.prems(2-6) False by (simp add: d1)
    then show ?thesis using rs(1) by auto
  qed
qed simp

definition fresh_ids :: "(uuid \<Rightarrow> uuid \<times> uuid) \<Rightarrow> uuid list \<Rightarrow> journal \<Rightarrow> bool" where
  "fresh_ids ids es j \<longleftrightarrow> inj_on (\<lambda>e. fst (ids e)) (set es) \<and> (\<forall>e \<in> set es. erased j e \<or> fst (ids e) \<notin> event_ids j)"

lemma evidence_item_cong: "j_evidence_items t = j_evidence_items j \<Longrightarrow> evidence_item t = evidence_item j"
  by (simp add: evidence_item_def evidence_def fun_eq_iff)

lemma close_scope_outcome:
  assumes "close_scope lib wall now ids request es p = (rs, p')" "\<forall>r \<in> set rs. done_status (dnr_status r)" "evidence_inv (evs_store (prv_evidence p))"
    "fresh_ids ids es (evs_store (prv_evidence p))"
  shows "(\<forall>x. gone (prv_evidence p) x \<longrightarrow> gone (prv_evidence p') x) \<and>
    (\<forall>i. erased (evs_store (prv_evidence p')) i = ((drq_action request = DA_ERASE \<and> i \<in> set es) \<or> erased (evs_store (prv_evidence p)) i)) \<and>
    (\<forall>e \<in> set es. (\<forall>n \<in> set (lineage_nodes (prv_disposition p) (Some e)). dln_node_id n \<in> dnr_node_id ` set rs \<and> node_closed (prv_disposition p) (prv_evidence p') n) \<and>
      (\<forall>item. drq_action request = DA_ERASE \<and> \<not> erased (evs_store (prv_evidence p)) e \<and> evidence_item (evs_store (prv_evidence p)) e = Inr item \<and>
        evs_artifacts (prv_evidence p) \<noteq> None \<longrightarrow> gone (prv_evidence p') (evi_content_sha256 item)))"
  using assms
proof (induction es arbitrary: p rs)
  case Nil
  then show ?case by simp
next
  case (Cons e es)
  obtain r1 p1 where c: "close_evidence lib wall now ids request e p = (r1, p1)" by fastforce
  obtain r2 p2 where c2: "close_scope lib wall now ids request es p1 = (r2, p2)" by fastforce
  have "rs = r1 @ r2" "p2 = p'" using Cons.prems(1) by (simp_all add: c c2)
  then have r2: "close_scope lib wall now ids request es p1 = (r2, p')" "rs = r1 @ r2" using c2 by simp_all
  have ok: "\<forall>r \<in> set r1. done_status (dnr_status r)" "\<forall>r \<in> set r2. done_status (dnr_status r)" using Cons.prems(2) r2(2) by auto
  have "drq_action request = DA_ERASE \<Longrightarrow> erased (evs_store (prv_evidence p)) e \<or> fst (ids e) \<notin> event_ids (evs_store (prv_evidence p))"
    using Cons.prems(4) by (simp add: fresh_ids_def)
  note o1 = close_evidence_outcome[OF c ok(1) Cons.prems(3) this]
  note fr = close_evidence_frame[OF c]
  have nodes: "lineage_nodes (prv_disposition p1) = lineage_nodes (prv_disposition p)" using fr by (simp add: closing_frame_def lineage_nodes_def fun_eq_iff)
  have "fresh_ids ids es (evs_store (prv_evidence p1))"
    unfolding fresh_ids_def
  proof (intro conjI ballI)
    show "inj_on (\<lambda>e. fst (ids e)) (set es)" using Cons.prems(4) by (auto simp: fresh_ids_def intro: inj_on_subset)
    fix i assume i: "i \<in> set es"
    show "erased (evs_store (prv_evidence p1)) i \<or> fst (ids i) \<notin> event_ids (evs_store (prv_evidence p1))"
    proof (cases "i = e")
      case True
      then show ?thesis using o1(5)[of i] o1(6) Cons.prems(4) i c by (cases "drq_action request = DA_ERASE") (auto simp: fresh_ids_def)
    next
      case False
      then have "fst (ids i) \<noteq> fst (ids e)" using Cons.prems(4) i unfolding fresh_ids_def inj_on_def by auto
      then have "fst (ids i) \<in> event_ids (evs_store (prv_evidence p1)) \<Longrightarrow> fst (ids i) \<in> event_ids (evs_store (prv_evidence p))"
        using o1(6) by (auto split: if_splits)
      then show ?thesis using o1(5)[of i] Cons.prems(4) i by (auto simp: fresh_ids_def)
    qed
  qed
  note ih = Cons.IH[OF r2(1) ok(2) o1(4) this]
  have mono: "gone (prv_evidence p1) x \<Longrightarrow> gone (prv_evidence p') x" for x using ih by blast
  show ?case
  proof (intro conjI ballI allI impI)
    show "gone (prv_evidence p) x \<Longrightarrow> gone (prv_evidence p') x" for x using o1(2) mono by blast
    show "erased (evs_store (prv_evidence p')) i = ((drq_action request = DA_ERASE \<and> i \<in> set (e # es)) \<or> erased (evs_store (prv_evidence p)) i)" for i
      using ih o1(5) by auto
    fix i assume i: "i \<in> set (e # es)"
    show "dln_node_id n \<in> dnr_node_id ` set rs" "node_closed (prv_disposition p) (prv_evidence p') n"
      if n: "n \<in> set (lineage_nodes (prv_disposition p) (Some i))" for n
    proof -
      have "dln_node_id n \<in> dnr_node_id ` set rs \<and> node_closed (prv_disposition p) (prv_evidence p') n"
      proof (cases "i = e")
        case True
        then have "dln_node_id n \<in> dnr_node_id ` set r1" "node_closed (prv_disposition p) (prv_evidence p1) n" using o1(1) n by blast+
        then show ?thesis using r2(2) node_closed_mono[OF _ mono closing_frame_refl] by (simp add: image_Un)
      next
        case False
        then have "dln_node_id n \<in> dnr_node_id ` set r2" "node_closed (prv_disposition p) (prv_evidence p') n"
          using ih i n unfolding nodes node_closed_frame[OF fr] by auto
        then show ?thesis using r2(2) by (simp add: image_Un)
      qed
      then show "dln_node_id n \<in> dnr_node_id ` set rs" "node_closed (prv_disposition p) (prv_evidence p') n" by blast+
    qed
    fix item
    assume h: "drq_action request = DA_ERASE \<and> \<not> erased (evs_store (prv_evidence p)) i \<and> evidence_item (evs_store (prv_evidence p)) i = Inr item \<and>
        evs_artifacts (prv_evidence p) \<noteq> None"
    show "gone (prv_evidence p') (evi_content_sha256 item)"
    proof (cases "i = e")
      case True
      then show ?thesis using h o1(8) mono by blast
    next
      case False
      then have "i \<in> set es" "\<not> erased (evs_store (prv_evidence p1)) i" "evs_artifacts (prv_evidence p1) \<noteq> None"
        "evidence_item (evs_store (prv_evidence p1)) i = Inr item"
        using i h o1(3) o1(5)[of i] by (simp_all add: evidence_item_cong[OF o1(7)])
      then show ?thesis using ih h by blast
    qed
  qed
qed

end
