(* ===== verification/Disposition_Claims.thy ===== *)
theory Disposition_Claims
  imports Disposition_Closure
begin

text \<open>
  What privacy disposition promises: transport to external recipients is bounded and ends, a completed closure
  is complete, a withdrawn consent blocks processing until another basis is documented; and where it falls
  short of its intent.
\<close>

section \<open>Receipts and their nodes\<close>

definition receipts_backed :: "disposition \<Rightarrow> bool" where
  "receipts_backed d \<longleftrightarrow> distinct (map dln_node_id (dsp_lineage_nodes d)) \<and>
     (\<forall>r \<in> set (dsp_receipts d). \<exists>n \<in> set (dsp_lineage_nodes d). dln_node_id n = xrc_node_id r \<and> dln_external_recipient_digest n \<noteq> None)"

lemma backed_same:
  "dsp_lineage_nodes d' = dsp_lineage_nodes d \<Longrightarrow> dsp_receipts d' = dsp_receipts d \<Longrightarrow> receipts_backed d \<Longrightarrow> receipts_backed d'"
  by (simp add: receipts_backed_def)

lemma backed_receipt:
  assumes "receipts_backed d" "n \<in> set (dsp_lineage_nodes d)"
  shows "receipts_backed (insert_receipt (receipt_for lib n a c t) d)"
  using assms by (auto simp: receipts_backed_def insert_receipt_def)

lemma backed_ack:
  assumes "receipts_backed d" "n \<in> set (dsp_lineage_nodes d)" "dln_external_recipient_digest n = None"
  shows "external_ack d (dln_node_id n) = None"
proof -
  have "filter (\<lambda>r. xrc_node_id r = dln_node_id n) (dsp_receipts d) = []"
  proof (rule ccontr)
    assume "filter (\<lambda>r. xrc_node_id r = dln_node_id n) (dsp_receipts d) \<noteq> []"
    then obtain r where r: "r \<in> set (dsp_receipts d)" "xrc_node_id r = dln_node_id n" by (auto simp: filter_empty_conv)
    then obtain m where m: "m \<in> set (dsp_lineage_nodes d)" "dln_node_id m = dln_node_id n" "dln_external_recipient_digest m \<noteq> None"
      using assms(1) unfolding receipts_backed_def by metis
    then have "m = n" using assms(1,2) by (auto simp: receipts_backed_def distinct_map inj_on_def)
    with m(3) assms(3) show False by simp
  qed
  then show ?thesis by (simp add: external_ack_def)
qed

lemma find_node_mem: "find_node d k = Some n \<Longrightarrow> n \<in> set (dsp_lineage_nodes d) \<and> dln_node_id n = k"
  unfolding find_node_def find_Some_iff by (metis nth_mem)

lemma lineage_nodes_mem: "n \<in> set (lineage_nodes d (Some e)) \<longleftrightarrow> n \<in> set (dsp_lineage_nodes d) \<and> dln_evidence_id n = e"
  by (auto simp: lineage_nodes_def)

lemma recipient_nodes_mem:
  "n \<in> set (recipient_nodes d r) \<longleftrightarrow> n \<in> set (dsp_lineage_nodes d) \<and> external_kind (dln_kind n) \<and> dln_evidence_id n \<in> set (drq_evidence_ids r)"
  by (auto simp: recipient_nodes_def lineage_nodes_mem)

lemma reconcile_node_backed:
  assumes "receipts_backed (prv_disposition p)" "node \<in> set (dsp_lineage_nodes (prv_disposition p))"
    "reconcile_node lib sender pol request node p = (a, sent, p')"
  shows "receipts_backed (prv_disposition p') \<and> dsp_lineage_nodes (prv_disposition p') = dsp_lineage_nodes (prv_disposition p)"
proof -
  obtain oc p1 where oc: "attempt_node lib sender pol request node p = (oc, p1)" by fastforce
  have "prv_disposition p1 = prv_disposition p \<or> (\<exists>c. prv_disposition p1 = insert_receipt (receipt_for lib node (rpo_actor pol) c (rpo_now pol)) (prv_disposition p))"
    using oc by (auto simp: attempt_node_def send_once_def Let_def split: if_splits sum.splits prod.splits)
  then have "receipts_backed (prv_disposition p1)" "dsp_lineage_nodes (prv_disposition p1) = dsp_lineage_nodes (prv_disposition p)"
    using assms(1) backed_receipt[OF assms(1,2)] by (auto simp: insert_receipt_def)
  moreover have "dsp_lineage_nodes (prv_disposition p') = dsp_lineage_nodes (prv_disposition p1)" "dsp_receipts (prv_disposition p') = dsp_receipts (prv_disposition p1)"
    using assms(3) by (auto simp: reconcile_node_def oc Let_def)
  ultimately show ?thesis using backed_same by metis
qed

lemma reconcile_loop_backed:
  assumes "receipts_backed (prv_disposition p)" "set ns \<subseteq> set (dsp_lineage_nodes (prv_disposition p))"
    "reconcile_loop lib sender pol request ns acc calls p = (out, calls', p')"
  shows "receipts_backed (prv_disposition p') \<and> dsp_lineage_nodes (prv_disposition p') = dsp_lineage_nodes (prv_disposition p) \<and>
    ((\<exists>n \<in> set ns. \<not> given (dln_external_recipient_digest n)) \<longrightarrow> out = Inl (ValueError ''external reconciliation requires a recipient digest''))"
  using assms
proof (induction ns arbitrary: acc calls p)
  case Nil
  then show ?case by auto
next
  case (Cons node ns)
  show ?case
  proof (cases "given (dln_external_recipient_digest node)")
    case False
    then show ?thesis using Cons.prems by auto
  next
    case True
    obtain a sent p1 where r: "reconcile_node lib sender pol request node p = (a, sent, p1)" by (metis prod_cases3)
    have b: "receipts_backed (prv_disposition p1)" "dsp_lineage_nodes (prv_disposition p1) = dsp_lineage_nodes (prv_disposition p)"
      using reconcile_node_backed[OF Cons.prems(1) _ r] Cons.prems(2) by auto
    have "reconcile_loop lib sender pol request ns (acc @ [a]) (if sent then calls @ [dln_node_id node] else calls) p1 = (out, calls', p')"
      using Cons.prems(3) True r by simp
    from Cons.IH[OF b(1) _ this] Cons.prems(2) True show ?thesis by (auto simp: b(2))
  qed
qed

lemma reconcile_backed:
  assumes "receipts_backed (prv_disposition p)" "reconcile_external_recipients lib k sender pol p = (out, calls, p')"
  shows "receipts_backed (prv_disposition p')"
    "request_by_id (prv_disposition p) k = Inr request \<Longrightarrow> n \<in> set (recipient_nodes (prv_disposition p) request) \<Longrightarrow> \<not> given (dln_external_recipient_digest n) \<Longrightarrow> \<not> is_ok out"
proof -
  have "receipts_backed (prv_disposition p') \<and> (\<forall>request n. request_by_id (prv_disposition p) k = Inr request \<and>
      n \<in> set (recipient_nodes (prv_disposition p) request) \<and> \<not> given (dln_external_recipient_digest n) \<longrightarrow> \<not> is_ok out)"
  proof (cases "rpo_max_attempts pol \<le> 0 \<or> rpo_retry_delay_seconds pol \<le> 0 \<or> blank (rpo_actor pol) \<or> (\<exists>e. request_by_id (prv_disposition p) k = Inl e)")
    case True
    then have "p' = p" "\<not> is_ok out" using assms(2) by (auto simp: reconcile_external_recipients_def split: if_splits sum.splits)
    then show ?thesis using assms(1) by simp
  next
    case False
    then obtain r where r: "request_by_id (prv_disposition p) k = Inr r" by (cases "request_by_id (prv_disposition p) k") auto
    obtain o1 c1 p1 where l: "reconcile_loop lib sender pol r (recipient_nodes (prv_disposition p) r) [] [] p = (o1, c1, p1)" by (metis prod_cases3)
    have "set (recipient_nodes (prv_disposition p) r) \<subseteq> set (dsp_lineage_nodes (prv_disposition p))" by (auto simp: recipient_nodes_mem)
    note b = reconcile_loop_backed[OF assms(1) this l]
    have "prv_disposition p' = prv_disposition p1" "is_ok out = is_ok o1"
      using assms(2) False r l by (cases o1; auto simp: reconcile_external_recipients_def Let_def)+
    then show ?thesis using b r by auto
  qed
  then show "receipts_backed (prv_disposition p')"
    "request_by_id (prv_disposition p) k = Inr request \<Longrightarrow> n \<in> set (recipient_nodes (prv_disposition p) request) \<Longrightarrow> \<not> given (dln_external_recipient_digest n) \<Longrightarrow> \<not> is_ok out"
    by blast+
qed

lemma dsp_step_backed: "dsp_step lib limit p cs p' \<Longrightarrow> receipts_backed (prv_disposition p) \<Longrightarrow> receipts_backed (prv_disposition p')"
proof (induction rule: dsp_step.induct)
  case (ds_register q p n d)
  then show ?case
    by (auto simp: register_node_def Let_def bind_result_Inr receipts_backed_def find_node_def find_None_iff split: option.splits if_splits; blast)
next
  case (ds_create q p r p')
  show ?case
  proof (rule create_request_cases[OF ds_create(1)])
    assume "insert_request r (prv_disposition p) = Inr (prv_disposition p')"
    from insert_request_frame(1,2)[OF this] show ?thesis using backed_same ds_create(2) by (auto simp: same_recipients_def)
  qed (use ds_create(2) in simp)
next
  case (ds_basis subject basis actor reason wall p p')
  then show ?case using basis_frame[OF ds_basis(1)] backed_same by (auto simp: same_recipients_def)
next
  case (ds_acknowledge node actor receipt t p r p')
  then obtain n where n: "find_node (prv_disposition p) node = Some n" "prv_disposition p' = insert_receipt (receipt_for lib n actor receipt t) (prv_disposition p)"
    by (auto simp: acknowledge_external_recipient_def Let_def split: option.splits if_splits)
  then show ?case using backed_receipt[OF ds_acknowledge(2)] find_node_mem[OF n(1)] by simp
next
  case (ds_reconcile pol k sender p out calls p')
  then show ?case using reconcile_backed(1) by blast
next
  case (ds_close wall now ids k p out p')
  then show ?case using close_request_frame[OF ds_close(1)] backed_same by (auto simp: same_recipients_def)
qed simp

lemma dsp_run_backed: "dsp_run lib limit p cs p' \<Longrightarrow> receipts_backed (prv_disposition p) \<Longrightarrow> receipts_backed (prv_disposition p')"
  by (induction rule: dsp_run.induct) (auto dest: dsp_step_backed)

lemma start_backed: "receipts_backed (prv_disposition (dsp_start recorder sv))"
  by (simp add: dsp_start_def disposition_init_def receipts_backed_def)

section \<open>Consent\<close>

definition blocked :: "library \<Rightarrow> string \<Rightarrow> disposition \<Rightarrow> bool" where
  "blocked lib dg d \<longleftrightarrow> (\<exists>row. map_of (dsp_consent_blocks d) dg = Some row \<and> cbl_alternate_basis row = None)"

definition documents :: "library \<Rightarrow> string \<Rightarrow> privacy \<Rightarrow> privacy \<Rightarrow> bool" where
  "documents lib dg p p' \<longleftrightarrow> (\<exists>subject basis actor reason wall.
     document_alternate_basis lib subject basis actor reason wall p = Inr p' \<and> subject_digest lib subject = dg)"

lemma step_keeps_block:
  assumes "collision_free lib" "dsp_step lib limit p cs p'" "\<not> documents lib dg p p'" "blocked lib dg (prv_disposition p)"
    "recipients_inv lib limit (prv_disposition p) cs0"
  shows "blocked lib dg (prv_disposition p')"
  using assms(2)
proof cases
  case (ds_register q n d)
  then show ?thesis using assms(4) register_node_frame(3) by (fastforce simp: blocked_def)
next
  case (ds_create q r)
  then show ?thesis using assms(4)
    by (auto elim!: create_request_cases dest!: insert_request_frame(4) simp: blocked_def)
next
  case (ds_basis subject basis actor reason wall)
  then have "subject_digest lib subject \<noteq> dg" using assms(3) unfolding documents_def by blast
  then show ?thesis using ds_basis assms(4) by (auto simp: document_alternate_basis_def blocked_def Let_def split: if_splits option.splits)
next
  case (ds_acknowledge node actor receipt t r)
  then show ?thesis using acknowledge_inv(5)[OF assms(1,5)] assms(4) by (simp add: blocked_def)
next
  case (ds_reconcile pol k sender out calls)
  then show ?thesis using reconcile_inv(7)[OF assms(1,5)] assms(4) by (simp add: blocked_def)
next
  case (ds_close wall now ids k out)
  then show ?thesis using close_request_frame(3) assms(4) by (fastforce simp: blocked_def)
qed (use assms(4) in simp)

section \<open>A library and a node for the witnesses\<close>

definition field_code :: "string \<Rightarrow> string" where
  "field_code s = concat (map (\<lambda>c. [CHR ''.'', c]) s) @ '';''"

definition int_code :: "int \<Rightarrow> string" where
  "int_code n = (if n < 0 then ''-'' else []) @ replicate (nat \<bar>n\<bar>) CHR ''i''"

fun demo_dumps :: "json \<Rightarrow> string" where
  "demo_dumps (JObj kvs) =
     (let str = (\<lambda>k. case map_of kvs k of Some (JStr s) \<Rightarrow> s | _ \<Rightarrow> [])
      in CHR ''{'' # field_code (str ''request_id'') @ field_code (str ''node_id'') @ field_code (str ''target_ref'') @
         (case map_of kvs ''attempt_no'' of Some (JInt n) \<Rightarrow> int_code n | _ \<Rightarrow> []))"
| "demo_dumps _ = []"

definition privacy_library :: library where
  "privacy_library = demo_library\<lparr>lib_uuid5 := (\<lambda>s. s), lib_json_dumps := demo_dumps,
     lib_sha256 := (\<lambda>s. case s of c # _ \<Rightarrow> if c = CHR ''{'' then s else if s = ''pic'' then replicate 64 CHR ''a'' else replicate 64 CHR ''b''
       | [] \<Rightarrow> replicate 64 CHR ''b'')\<rparr>"

lemma field_code_inj: "field_code s @ xs = field_code t @ ys \<Longrightarrow> s = t \<and> xs = ys"
proof (induction s arbitrary: t)
  case Nil
  then show ?case by (cases t) (auto simp: field_code_def)
next
  case (Cons c s)
  then show ?case by (cases t) (auto simp: field_code_def)
qed

lemma int_code_inj:
  assumes "int_code m = int_code n"
  shows "m = n"
proof (cases "m < 0"; cases "n < 0")
  assume "m < 0" "\<not> n < 0"
  then show ?thesis using assms by (cases "nat n") (simp_all add: int_code_def)
next
  assume "\<not> m < 0" "n < 0"
  then show ?thesis using assms by (cases "nat m") (simp_all add: int_code_def)
qed (use assms in \<open>simp_all add: int_code_def\<close>)

lemma privacy_library_ok: "collision_free privacy_library"
  unfolding collision_free_def
proof (intro conjI allI impI)
  show "lib_sha256 privacy_library s \<noteq> []" for s by (auto simp: privacy_library_def split: list.splits)
  fix pol pol' r r' n n' dg dg' oc oc'
  assume "era_attempt_id (attempt_for privacy_library pol r n dg oc) = era_attempt_id (attempt_for privacy_library pol' r' n' dg' oc')"
  then have "field_code r @ field_code (dln_node_id n) @ field_code [] @ int_code (aoc_attempt_no oc) =
      field_code r' @ field_code (dln_node_id n') @ field_code [] @ int_code (aoc_attempt_no oc')"
    by (simp add: attempt_for_def Let_def privacy_library_def digest_def sha256_bytes_def canonical_json_bytes_def)
  then have "r = r' \<and> dln_node_id n = dln_node_id n' \<and> int_code (aoc_attempt_no oc) = int_code (aoc_attempt_no oc')"
    by (metis field_code_inj)
  then show "r = r'" "dln_node_id n = dln_node_id n'" "aoc_attempt_no oc = aoc_attempt_no oc'" by (auto dest: int_code_inj)
next
  fix n n' a a' c c' t t'
  assume "xrc_receipt_id (receipt_for privacy_library n a c t) = xrc_receipt_id (receipt_for privacy_library n' a' c' t')"
  then have "field_code [] @ field_code (dln_node_id n) @ field_code [] = field_code [] @ field_code (dln_node_id n') @ field_code []"
    by (simp add: receipt_for_def Let_def privacy_library_def digest_def sha256_bytes_def canonical_json_bytes_def)
  then show "dln_node_id n = dln_node_id n'" by (metis field_code_inj)
qed

definition demo_registration :: "DispositionNodeKind \<Rightarrow> string \<Rightarrow> string option \<Rightarrow> node_registration" where
  "demo_registration kind target recipient = \<lparr>nrg_evidence_id = ''e1'', nrg_kind = kind, nrg_target_ref = target, nrg_parent_node_id = None,
     nrg_external_recipient = recipient, nrg_exception_reason = None, nrg_exception_expires_at = None, nrg_created_at = 9\<rparr>"

definition demo_form :: "DispositionAction \<Rightarrow> request_form" where
  "demo_form action = \<lparr>rqf_action = action, rqf_evidence_ids = [''e1''], rqf_subject_ref = ''s'', rqf_subject_basis = ''b'', rqf_actor = ''op'',
     rqf_reason = ''why'', rqf_deadline = 100, rqf_legal_exception_reason = None, rqf_legal_exception_expires_at = None, rqf_created_at = 10\<rparr>"

definition with_node :: "node_registration \<Rightarrow> privacy \<Rightarrow> privacy" where
  "with_node q p = (case register_node privacy_library q (prv_disposition p) of Inl _ \<Rightarrow> p | Inr (_, d) \<Rightarrow> p\<lparr>prv_disposition := d\<rparr>)"

definition with_request :: "request_form \<Rightarrow> privacy \<Rightarrow> privacy" where
  "with_request q p = (case create_request privacy_library q p of Inl _ \<Rightarrow> p | Inr (_, p') \<Rightarrow> p')"

definition demo_request_id :: "DispositionAction \<Rightarrow> uuid" where
  "demo_request_id action = drq_request_id (request_for privacy_library (demo_form action))"

definition demo_recipient :: DispositionLineageNode where
  "demo_recipient = lineage_node_for privacy_library (demo_registration NK_EXTERNAL_RECIPIENT ''org'' (Some ''org''))"

definition demo_held :: evidence_service where
  "demo_held = snd (ingest privacy_library None ''l1'' 5 (demo_evidence ''e1'' ''x'') demo_service)"

definition demo_nodes :: privacy where
  "demo_nodes = with_node (demo_registration NK_EXTERNAL_RECIPIENT ''org'' (Some ''org''))
     (with_node (demo_registration NK_THUMBNAIL (artifact_prefix @ replicate 64 CHR ''a'') None) (dsp_start True demo_held))"

definition demo_privacy :: "DispositionAction \<Rightarrow> privacy" where
  "demo_privacy action = with_request (demo_form action) demo_nodes"

lemma with_node_run: "dsp_run privacy_library limit p0 cs p \<Longrightarrow> dsp_run privacy_library limit p0 cs (with_node q p)"
proof (cases "register_node privacy_library q (prv_disposition p)")
  case (Inr r)
  obtain n d where r: "r = (n, d)" by fastforce
  assume "dsp_run privacy_library limit p0 cs p"
  from dr_step[OF this ds_register[OF Inr[unfolded r]]] show ?thesis by (simp add: with_node_def Inr r)
qed (simp add: with_node_def)

lemma with_request_run: "dsp_run privacy_library limit p0 cs p \<Longrightarrow> dsp_run privacy_library limit p0 cs (with_request q p)"
proof (cases "create_request privacy_library q p")
  case (Inr r)
  obtain n d where r: "r = (n, d)" by fastforce
  assume "dsp_run privacy_library limit p0 cs p"
  from dr_step[OF this ds_create[OF Inr[unfolded r]]] show ?thesis by (simp add: with_request_def Inr r)
qed (simp add: with_request_def)

lemma demo_privacy_run: "dsp_run privacy_library limit (dsp_start True demo_held) [] (demo_privacy action)"
  unfolding demo_privacy_def demo_nodes_def by (intro with_request_run with_node_run dr_refl)

definition demo_policy :: "datetime \<Rightarrow> int \<Rightarrow> reconcile_policy" where
  "demo_policy now attempts = \<lparr>rpo_actor = ''op'', rpo_now = now, rpo_max_attempts = attempts, rpo_retry_delay_seconds = 1\<rparr>"

definition unreachable :: recipient_sender where
  "unreachable n = Inl ''TimeoutError''"

definition demo_reconciled :: "datetime \<Rightarrow> ExternalRecipientReconciliationReport result \<times> uuid list \<times> privacy" where
  "demo_reconciled now = reconcile_external_recipients privacy_library (demo_request_id DA_ERASE) unreachable (demo_policy now 1) (demo_privacy DA_ERASE)"

definition demo_acknowledged :: privacy where
  "demo_acknowledged = (case acknowledge_external_recipient privacy_library (dln_node_id demo_recipient) ''op'' ''ok'' 11 (demo_privacy DA_ERASE) of
     Inl _ \<Rightarrow> demo_privacy DA_ERASE | Inr (_, p) \<Rightarrow> p)"

definition demo_ids :: "uuid \<Rightarrow> uuid \<times> uuid" where
  "demo_ids e = (''l2'', ''v1'')"

definition demo_stuck :: privacy where
  "demo_stuck = with_request (demo_form DA_ERASE) (with_node (demo_registration NK_EXPORT ''export'' None) (dsp_start True demo_held))"

text \<open>What the witnesses need of these states, evaluated.\<close>

lemma demo_reconciliation:
  "fst (snd (demo_reconciled 20)) = [dln_node_id demo_recipient]" "is_ok (fst (demo_reconciled 200))"
  "case request_by_id (prv_disposition (demo_privacy DA_ERASE)) (demo_request_id DA_ERASE) of Inl _ \<Rightarrow> False
   | Inr r \<Rightarrow> drq_deadline r = 100 \<and> recipient_nodes (prv_disposition (demo_privacy DA_ERASE)) r = [demo_recipient]"
  "case request_by_id (prv_disposition demo_acknowledged) (demo_request_id DA_ERASE) of Inl _ \<Rightarrow> False | Inr r \<Rightarrow> drq_evidence_ids r = [''e1''] \<and>
     list_ex (\<lambda>n. local_artifact n \<and> target_digest n = replicate 64 CHR ''a'') (lineage_nodes (prv_disposition demo_acknowledged) (Some ''e1''))"
  "map (\<lambda>n. (external_kind (dln_kind n), dln_external_recipient_digest n, dln_evidence_id n)) (dsp_lineage_nodes (prv_disposition demo_stuck)) = [(True, None, ''e1'')]"
  "map_sum (\<lambda>_. ()) drq_evidence_ids (request_by_id (prv_disposition demo_stuck) (demo_request_id DA_ERASE)) = Inr [''e1'']"
  "map_sum (\<lambda>_. ()) drp_status (fst (close_request privacy_library 30 30 demo_ids (demo_request_id DA_ERASE) demo_acknowledged)) = Inr DS_COMPLETED"
  "j_evidence_items (evs_store demo_service) = []" "j_evidence_lifecycle_events (evs_store demo_service) = []"
  "map (\<lambda>r. lce_lifecycle_event_id (snd r)) (j_evidence_lifecycle_events (evs_store demo_held)) = [''l1'']"
  "is_ok (create_request privacy_library (demo_form DA_CONSENT_WITHDRAWAL) demo_nodes)" "dsp_requests (prv_disposition demo_nodes) = []"
  "is_ok (fst (governed_ingest privacy_library ''l9'' 50 ((demo_evidence ''e9'' ''z'')\<lparr>evi_subject_ref := Some ''s'', evi_processing_basis := ''vital''\<rparr>) (demo_privacy DA_CONSENT_WITHDRAWAL)))"
  by code_simp+

section \<open>Claims\<close>

text \<open>
  C17. The transport to an external recipient is bounded. Whatever is registered, requested, acknowledged,
  closed and reconciled, in whatever order, with whatever senders and clock readings, the sender is
  called for one recipient of one request at most as often as the largest \<^verbatim>\<open>max_attempts\<close> in use. The
  hypothesis on the library is that name-based identifiers of different attempts differ.
\<close>

theorem recipient_transport_is_bounded:
  assumes "collision_free lib" "dsp_run lib limit (dsp_start recorder sv) cs p"
  shows "int (count_list cs (k, n)) \<le> max 0 limit"
  using transport_bound recipients_invD(5,6)[OF conjunct1[OF dsp_run_inv[OF assms start_inv]]] by simp

theorem recipient_transport_is_bounded_witness:
  "fst (snd (demo_reconciled 20)) = [dln_node_id demo_recipient] \<and>
   int (count_list (map (Pair (demo_request_id DA_ERASE)) (fst (snd (demo_reconciled 20)))) (demo_request_id DA_ERASE, dln_node_id demo_recipient)) \<le> 1"
proof -
  obtain o1 c1 p1 where r: "demo_reconciled 20 = (o1, c1, p1)" by (metis prod_cases3)
  have "dsp_step privacy_library 1 (demo_privacy DA_ERASE) (map (Pair (demo_request_id DA_ERASE)) c1) p1"
    by (rule ds_reconcile[OF _ r[unfolded demo_reconciled_def]]) (simp add: demo_policy_def)
  from dr_step[OF demo_privacy_run this] have "dsp_run privacy_library 1 (dsp_start True demo_held) (map (Pair (demo_request_id DA_ERASE)) c1) p1" by simp
  from recipient_transport_is_bounded[OF privacy_library_ok this] have "int (count_list (map (Pair (demo_request_id DA_ERASE)) c1) (k, n)) \<le> 1" for k n by simp
  with demo_reconciliation(1) show ?thesis by (simp add: r)
qed



text \<open>
  C12. A completed closure is complete. When closing a request reports COMPLETED, none of the evidence in its scope
  is restricted any more; every lineage node of that evidence is among the results, each with status DELETED or
  REVOKED; every external recipient, export and replica has acknowledged; every local artifact that a node names
  by its digest is gone from the artifact store; and when the request is an erasure, every piece of evidence in scope
  is DELETED in the journal and the bytes of what was not deleted before are gone. The bytes of artifacts and the
  restrictions go whatever the action of the request: closing a RESTRICT, CORRECT or CONSENT_WITHDRAWAL request
  erases derived artifacts and lifts the restriction it was made for. Identifiers drawn by \<^verbatim>\<open>uuid4\<close> are new.
\<close>

theorem completed_closure_is_complete:
  assumes "ev_reachable lib (prv_evidence p)" "request_by_id (prv_disposition p) k = Inr request"
    "fresh_ids ids (drq_evidence_ids request) (evs_store (prv_evidence p))"
    "close_request lib wall now ids k p = (Inr report, p')" "drp_status report = DS_COMPLETED" "e \<in> set (drq_evidence_ids request)"
  shows "\<not> is_restricted (prv_disposition p') e \<and> (\<forall>r \<in> set (drp_node_results report). dnr_status r \<in> {DN_DELETED, DN_REVOKED}) \<and>
    (\<forall>n \<in> set (lineage_nodes (prv_disposition p) (Some e)). dln_node_id n \<in> dnr_node_id ` set (drp_node_results report) \<and>
       (external_kind (dln_kind n) \<longrightarrow> given (external_ack (prv_disposition p) (dln_node_id n))) \<and>
       (local_artifact n \<longrightarrow> gone (prv_evidence p') (target_digest n))) \<and>
    (drq_action request = DA_ERASE \<longrightarrow>
       (\<exists>cur. evidence_lifecycle_projection (evs_store (prv_evidence p')) e wall = Inr cur \<and> lcp_state cur = ES_DELETED) \<and>
       (\<forall>item. \<not> erased (evs_store (prv_evidence p)) e \<and> evidence_item (evs_store (prv_evidence p)) e = Inr item \<and>
          evs_artifacts (prv_evidence p) \<noteq> None \<longrightarrow> gone (prv_evidence p') (evi_content_sha256 item)))"
proof -
  let ?d0 = "put_request (request\<lparr>drq_status := DS_IN_PROGRESS\<rparr>) (prv_disposition p)" and ?es = "drq_evidence_ids request"
  let ?p0 = "p\<lparr>prv_disposition := ?d0\<rparr>"
  obtain rs p1 where c: "close_scope lib wall now ids request ?es ?p0 = (rs, p1)" by fastforce
  have rep: "report = disposition_report lib request now rs" using assms(4) by (simp add: close_request_def assms(2) c Let_def)
  have st: "fst (closure_verdict rs) = DS_COMPLETED" and res: "drp_node_results report = rs"
    using assms(5) unfolding rep by (simp_all add: disposition_report_def Let_def split: prod.splits)
  have outcomes: "dnr_status r \<in> {DN_DELETED, DN_REVOKED, DN_RETAINED_EXCEPTION, DN_EXTERNAL_PENDING, DN_FAILED}" if "r \<in> set rs" for r
    using close_scope_statuses[OF c] that by blast
  have fine: "\<forall>r \<in> set rs. done_status (dnr_status r)"
    using st outcomes by (fastforce simp: closure_verdict_def count_status_def done_status_def filter_empty_conv split: if_splits)
  note o1 = close_scope_outcome[OF c fine, simplified, OF ev_reachable_inv[OF assms(1)] assms(3)]
  have p': "prv_disposition p' = put_request (request\<lparr>drq_status := drp_status report, drq_terminal_outcome := drp_terminal_outcome report\<rparr>) (lift_restrictions ?es (prv_disposition p1))"
    "evs_artifacts (prv_evidence p') = evs_artifacts (prv_evidence p1)" "same_tables (evs_store (prv_evidence p1)) (evs_store (prv_evidence p'))"
    using assms(4,5) record_disposition_tables[of "p1\<lparr>prv_disposition := put_request (request\<lparr>drq_status := drp_status report, drq_terminal_outcome := drp_terminal_outcome report\<rparr>) (lift_restrictions ?es (prv_disposition p1))\<rparr>" lib k now "lib_model_dump lib (V_disposition_report report)"]
    by (auto simp: close_request_def assms(2) c Let_def rep)
  have gone: "gone (prv_evidence p') x = gone (prv_evidence p1) x" for x by (simp add: gone_def p'(2))
  have lift: "map_of (fold AList.delete xs m) e = None" if "e \<in> set xs" for xs and m :: "(uuid, restriction) dict"
    using that
  proof (induction xs arbitrary: m)
    case (Cons x xs)
    have "map_of m e = None \<Longrightarrow> map_of (fold AList.delete xs m) e = None" for m :: "(uuid, restriction) dict"
      by (induction xs arbitrary: m) simp_all
    then show ?case using Cons by (cases "e = x") auto
  qed simp
  have nodes: "lineage_nodes ?d0 (Some e) = lineage_nodes (prv_disposition p) (Some e)" "external_ack ?d0 = external_ack (prv_disposition p)"
    by (simp_all add: lineage_nodes_def external_ack_def fun_eq_iff)
  show ?thesis
  proof (intro conjI ballI impI allI)
    show "\<not> is_restricted (prv_disposition p') e" using lift[OF assms(6)] by (simp add: is_restricted_def p'(1) lift_restrictions_def)
    show "dnr_status r \<in> {DN_DELETED, DN_REVOKED}" if "r \<in> set (drp_node_results report)" for r using fine that by (simp add: res done_status_def)
    fix n assume n: "n \<in> set (lineage_nodes (prv_disposition p) (Some e))"
    then have nc: "dln_node_id n \<in> dnr_node_id ` set rs" "node_closed ?d0 (prv_evidence p1) n" using o1 assms(6) nodes(1) by auto
    then show "dln_node_id n \<in> dnr_node_id ` set (drp_node_results report)" by (simp add: res)
    show "given (external_ack (prv_disposition p) (dln_node_id n))" if "external_kind (dln_kind n)" using nc(2) that by (simp add: node_closed_def nodes(2))
    show "gone (prv_evidence p') (target_digest n)" if "local_artifact n" using nc(2) that by (simp add: node_closed_def gone)
  next
    assume er: "drq_action request = DA_ERASE"
    then have "erased (evs_store (prv_evidence p')) e" using o1 assms(6) by (simp add: same_tables_erased[OF p'(3)])
    then show "\<exists>cur. evidence_lifecycle_projection (evs_store (prv_evidence p')) e wall = Inr cur \<and> lcp_state cur = ES_DELETED"
      using erased_projection by blast
    fix item
    assume h: "\<not> erased (evs_store (prv_evidence p)) e \<and> evidence_item (evs_store (prv_evidence p)) e = Inr item \<and> evs_artifacts (prv_evidence p) \<noteq> None"
    show "gone (prv_evidence p') (evi_content_sha256 item)" unfolding gone using o1 assms(6) er h by auto
  qed
qed

lemma demo_held_reachable: "ev_reachable privacy_library demo_held"
proof -
  note t = demo_reconciliation(8,9)
  have "ev_reachable privacy_library demo_service"
    by (rule ev_next[OF ev_init[of _ None] ev_other]) (simp add: same_tables_def t empty_journal_def)
  then show ?thesis unfolding demo_held_def by (rule ev_next) (rule ev_ingest, simp add: t)
qed

lemma same_tables_trans: "same_tables a b \<Longrightarrow> same_tables b c \<Longrightarrow> same_tables a c"
  by (simp add: same_tables_def)

lemma demo_tables: "same_tables (evs_store demo_held) (evs_store (prv_evidence demo_acknowledged))"
proof -
  have n: "prv_evidence (with_node q p) = prv_evidence p" for q p by (auto simp: with_node_def split: sum.splits)
  have r: "same_tables (evs_store (prv_evidence p)) (evs_store (prv_evidence (with_request q p)))" for q p
    using record_disposition_tables[of "p\<lparr>prv_disposition := d\<rparr>" for d]
    by (auto simp: with_request_def create_request_def Let_def split: sum.splits option.splits simp: bind_result_Inr)
  have a: "same_tables (evs_store (prv_evidence p)) (evs_store (prv_evidence p'))" if "acknowledge_external_recipient lib k who what t p = Inr (x, p')" for lib k who what t p x p'
    using that record_disposition_tables[of "p\<lparr>prv_disposition := d\<rparr>" for d]
    by (auto simp: acknowledge_external_recipient_def store_acknowledgement_def Let_def split: option.splits if_splits)
  have "same_tables (evs_store demo_held) (evs_store (prv_evidence (demo_privacy DA_ERASE)))"
  proof -
    have "prv_evidence demo_nodes = demo_held" by (simp add: demo_nodes_def n dsp_start_def)
    then show ?thesis using r[of demo_nodes "demo_form DA_ERASE"] by (simp add: demo_privacy_def)
  qed
  moreover have "same_tables (evs_store (prv_evidence (demo_privacy DA_ERASE))) (evs_store (prv_evidence demo_acknowledged))"
    using a by (auto simp: demo_acknowledged_def split: sum.splits)
  ultimately show ?thesis by (rule same_tables_trans)
qed

lemma demo_held_events: "event_ids (evs_store demo_held) = {''l1''}"
  unfolding event_ids_def using demo_reconciliation(10) by (metis list.set_map list.set(1,2))

theorem completed_closure_is_complete_witness:
  "map_sum (\<lambda>_. ()) drp_status (fst (close_request privacy_library 30 30 demo_ids (demo_request_id DA_ERASE) demo_acknowledged)) = Inr DS_COMPLETED \<and>
   gone (prv_evidence (snd (close_request privacy_library 30 30 demo_ids (demo_request_id DA_ERASE) demo_acknowledged))) (replicate 64 CHR ''a'')"
proof -
  let ?k = "demo_request_id DA_ERASE" and ?p = demo_acknowledged
  let ?c = "close_request privacy_library 30 30 demo_ids ?k ?p"
  have reach: "ev_reachable privacy_library (prv_evidence ?p)" by (rule ev_next[OF demo_held_reachable ev_other[OF demo_tables]])
  obtain report p' where c: "?c = (Inr report, p')" "drp_status report = DS_COMPLETED" using demo_reconciliation(7) by (cases ?c; cases "fst ?c") auto
  obtain request where q: "request_by_id (prv_disposition ?p) ?k = Inr request" "drq_evidence_ids request = [''e1'']"
    and n: "list_ex (\<lambda>n. local_artifact n \<and> target_digest n = replicate 64 CHR ''a'') (lineage_nodes (prv_disposition ?p) (Some ''e1''))"
    using demo_reconciliation(4) by (cases "request_by_id (prv_disposition ?p) ?k") auto
  have fresh: "fresh_ids demo_ids (drq_evidence_ids request) (evs_store (prv_evidence ?p))"
    using demo_held_events by (simp add: fresh_ids_def q(2) demo_ids_def same_tables_erased[OF demo_tables])
  have e: "''e1'' \<in> set (drq_evidence_ids request)" by (simp add: q(2))
  note all = completed_closure_is_complete[OF reach q(1) fresh c e, THEN conjunct2, THEN conjunct2, THEN conjunct1]
  obtain m where m: "m \<in> set (lineage_nodes (prv_disposition ?p) (Some ''e1''))" "local_artifact m" "target_digest m = replicate 64 CHR ''a''"
    using n by (auto simp: list_ex_iff)
  have "gone (prv_evidence p') (target_digest m)" using bspec[OF all m(1)] m(2) by blast
  then show ?thesis using demo_reconciliation(7) c(1) m(3) by simp
qed

text \<open>
  C31. Withdrawing consent stops processing. After a new consent withdrawal for a subject is accepted, and through
  any run of the service that does not document an alternate basis for that subject, ingesting an
  item about the subject on the basis of consent is refused and changes nothing. Documenting an alternate basis
  lifts the block.
\<close>

theorem consent_withdrawal_blocks_ingest:
  assumes "collision_free lib" "dsp_run lib limit (dsp_start recorder sv) cs p"
    "create_request lib q p = Inr (r, p1)" "find_request (prv_disposition p) (drq_request_id r) = None" "rqf_action q = DA_CONSENT_WITHDRAWAL"
    "(\<lambda>a b. (\<exists>calls. dsp_step lib limit a calls b) \<and> \<not> documents lib (subject_digest lib (rqf_subject_ref q)) a b)\<^sup>*\<^sup>* p1 p2"
    "evi_subject_ref item = Some (rqf_subject_ref q)" "evi_processing_basis item = ''consent''"
  shows "governed_ingest lib fresh_id wall item p2 = (Inl (ValueError ''future processing blocked by consent withdrawal''), p2) \<and>
    (\<forall>basis actor reason t p3. document_alternate_basis lib (rqf_subject_ref q) basis actor reason t p2 = Inr p3 \<longrightarrow>
       pdc_allowed (processing_allowed lib (prv_disposition p3) (rqf_subject_ref q) ''consent''))"
proof -
  let ?dg = "subject_digest lib (rqf_subject_ref q)"
  have b1: "blocked lib ?dg (prv_disposition p1)"
  proof (rule create_request_cases[OF assms(3)])
    assume ex: "find_request (prv_disposition p) (drq_request_id (request_for lib q)) = Some r"
    then have "drq_request_id r = drq_request_id (request_for lib q)" by (rule find_request_id)
    with ex assms(4) show ?thesis by simp
  next
    assume "r = request_for lib q" "insert_request r (prv_disposition p) = Inr (prv_disposition p1)"
    then show ?thesis using insert_request_frame(4) assms(5) by (fastforce simp: blocked_def request_for_def Let_def)
  qed
  have "dsp_run lib limit (dsp_start recorder sv) cs p1" using dr_step[OF assms(2) ds_create[OF assms(3)]] by simp
  then have "\<exists>cs0. recipients_inv lib limit (prv_disposition p1) cs0" using dsp_run_inv[OF assms(1) _ start_inv] by blast
  with assms(6) b1 have "blocked lib ?dg (prv_disposition p2) \<and> (\<exists>cs0. recipients_inv lib limit (prv_disposition p2) cs0)"
  proof (induction rule: rtranclp_induct)
    case (step b c)
    then show ?case using step_keeps_block[OF assms(1)] dsp_step_inv(1)[OF assms(1)] by blast
  qed simp
  then obtain row where row: "map_of (dsp_consent_blocks (prv_disposition p2)) ?dg = Some row" "cbl_alternate_basis row = None" by (auto simp: blocked_def)
  have refused: "governed_ingest lib fresh_id wall item p2 = (Inl (ValueError ''future processing blocked by consent withdrawal''), p2)"
    by (simp add: governed_ingest_def ingest_def assms(7,8) processing_allowed_def Let_def row)
  have "pdc_allowed (processing_allowed lib (prv_disposition p3) (rqf_subject_ref q) ''consent'')"
    if "document_alternate_basis lib (rqf_subject_ref q) basis actor reason t p2 = Inr p3" for basis actor reason t p3
    using that by (auto simp: document_alternate_basis_def processing_allowed_def Let_def split: if_splits option.splits)
  then show ?thesis using refused by blast
qed

theorem consent_withdrawal_blocks_ingest_witness:
  "\<not> is_ok (fst (governed_ingest privacy_library ''l9'' 50 ((demo_evidence ''e9'' ''z'')\<lparr>evi_subject_ref := Some ''s'', evi_processing_basis := ''consent''\<rparr>) (demo_privacy DA_CONSENT_WITHDRAWAL))) \<and>
   is_ok (fst (governed_ingest privacy_library ''l9'' 50 ((demo_evidence ''e9'' ''z'')\<lparr>evi_subject_ref := Some ''s'', evi_processing_basis := ''vital''\<rparr>) (demo_privacy DA_CONSENT_WITHDRAWAL)))"
proof -
  let ?q = "demo_form DA_CONSENT_WITHDRAWAL" and ?item = "(demo_evidence ''e9'' ''z'')\<lparr>evi_subject_ref := Some ''s'', evi_processing_basis := ''consent''\<rparr>"
  have run: "dsp_run privacy_library 1 (dsp_start True demo_held) [] demo_nodes" unfolding demo_nodes_def by (intro with_node_run dr_refl)
  obtain r p1 where c: "create_request privacy_library ?q demo_nodes = Inr (r, p1)"
    using demo_reconciliation(11) by (cases "create_request privacy_library ?q demo_nodes") auto
  have "demo_privacy DA_CONSENT_WITHDRAWAL = p1" by (simp add: demo_privacy_def with_request_def c)
  moreover have "\<not> is_ok (fst (governed_ingest privacy_library ''l9'' 50 ?item p1))"
    using consent_withdrawal_blocks_ingest[OF privacy_library_ok run c _ _ rtranclp.rtrancl_refl, of ?item "''l9''" 50]
    by (simp add: find_request_def demo_reconciliation(12) demo_form_def demo_evidence_def)
  ultimately show ?thesis using demo_reconciliation(13) by simp
qed

text \<open>An export or replica registered without a recipient can never be settled. The validator asks a recipient digest of
  external recipients only, while the receipts table asks one of every row, and \<^verbatim>\<open>INSERT OR IGNORE\<close> hides it: in every
  run, acknowledging such a node succeeds and returns a receipt but stores none, every reconciliation whose scope has
  the node raises, and a request whose scope has it never reaches COMPLETED unless the node has an
  exception in force.
\<close>

theorem undigested_export_never_closes:
  assumes "dsp_run lib limit (dsp_start recorder sv) cs p" "n \<in> set (dsp_lineage_nodes (prv_disposition p))" "external_kind (dln_kind n)"
    "dln_external_recipient_digest n = None"
  shows "(\<exists>r p'. acknowledge_external_recipient lib (dln_node_id n) actor receipt t p = Inr (r, p') \<and>
      xrc_node_id r = dln_node_id n \<and> external_ack (prv_disposition p') (dln_node_id n) = None) \<and>
    (\<forall>k request. request_by_id (prv_disposition p) k = Inr request \<and> dln_evidence_id n \<in> set (drq_evidence_ids request) \<longrightarrow>
      \<not> is_ok (fst (reconcile_external_recipients lib k sender pol p)) \<and>
      (dln_exception_reason n = None \<longrightarrow> (\<forall>report p'. close_request lib wall now ids k p = (Inr report, p') \<longrightarrow> drp_status report \<noteq> DS_COMPLETED)))"
proof -
  let ?d = "prv_disposition p"
  have b: "receipts_backed ?d" using dsp_run_backed[OF assms(1) start_backed] .
  have ack: "external_ack ?d (dln_node_id n) = None" using backed_ack[OF b assms(2,4)] .
  have found: "find_node ?d (dln_node_id n) = Some n"
  proof -
    obtain m where m: "find_node ?d (dln_node_id n) = Some m" using assms(2) by (cases "find_node ?d (dln_node_id n)") (auto simp: find_node_def find_None_iff)
    then have "m = n" using find_node_mem[OF m] assms(2) b by (auto simp: receipts_backed_def distinct_map inj_on_def)
    then show ?thesis using m by simp
  qed
  have first: "\<exists>r p'. acknowledge_external_recipient lib (dln_node_id n) actor receipt t p = Inr (r, p') \<and>
      xrc_node_id r = dln_node_id n \<and> external_ack (prv_disposition p') (dln_node_id n) = None"
    using found assms(3,4) ack by (simp add: acknowledge_external_recipient_def Let_def insert_receipt_def)
  have second: "\<not> is_ok (fst (reconcile_external_recipients lib k sender pol p))"
    if "request_by_id ?d k = Inr request" "dln_evidence_id n \<in> set (drq_evidence_ids request)" for k request
  proof -
    obtain o1 c1 p1 where r: "reconcile_external_recipients lib k sender pol p = (o1, c1, p1)" by (metis prod_cases3)
    have "n \<in> set (recipient_nodes ?d request)" using assms(2,3) that(2) by (simp add: recipient_nodes_mem)
    then show ?thesis using reconcile_backed(2)[OF b r that(1)] assms(4) r by simp
  qed
  have third: "drp_status report \<noteq> DS_COMPLETED"
    if q: "request_by_id ?d k = Inr request" "dln_evidence_id n \<in> set (drq_evidence_ids request)" and x: "dln_exception_reason n = None"
      and c: "close_request lib wall now ids k p = (Inr report, p')" for k request report p'
  proof -
    let ?p0 = "p\<lparr>prv_disposition := put_request (request\<lparr>drq_status := DS_IN_PROGRESS\<rparr>) ?d\<rparr>"
    obtain rs p1 where s: "close_scope lib wall now ids request (drq_evidence_ids request) ?p0 = (rs, p1)" by fastforce
    have rep: "report = disposition_report lib request now rs" using c by (simp add: close_request_def q(1) s Let_def)
    have "\<exists>r \<in> set rs. dnr_status r = DN_EXTERNAL_PENDING"
      by (rule close_scope_pending[OF s q(2)]) (use assms(2,3) ack x in \<open>simp_all add: external_ack_def\<close>)
    then have "fst (closure_verdict rs) \<noteq> DS_COMPLETED" by (auto simp: closure_verdict_def count_status_def filter_empty_conv)
    then show ?thesis unfolding rep by (cases "closure_verdict rs") (simp add: disposition_report_def Let_def)
  qed
  show ?thesis using first second third by blast
qed

theorem undigested_export_never_closes_witness:
  "is_ok (acknowledge_external_recipient privacy_library (dln_node_id (hd (dsp_lineage_nodes (prv_disposition demo_stuck)))) ''op'' ''ok'' 20 demo_stuck) \<and>
   \<not> is_ok (fst (reconcile_external_recipients privacy_library (demo_request_id DA_ERASE) unreachable (demo_policy 20 1) demo_stuck))"
proof -
  let ?d = "prv_disposition demo_stuck" and ?k = "demo_request_id DA_ERASE"
  obtain n where n: "dsp_lineage_nodes ?d = [n]" "external_kind (dln_kind n)" "dln_external_recipient_digest n = None" "dln_evidence_id n = ''e1''"
    using demo_reconciliation(5) by auto
  obtain request where q: "request_by_id ?d ?k = Inr request" "drq_evidence_ids request = [''e1'']" using demo_reconciliation(6) by (cases "request_by_id ?d ?k") auto
  have run: "dsp_run privacy_library 1 (dsp_start True demo_held) [] demo_stuck" unfolding demo_stuck_def by (intro with_request_run with_node_run dr_refl)
  have mem: "n \<in> set (dsp_lineage_nodes ?d)" by (simp add: n(1))
  note u = undigested_export_never_closes[OF run mem n(2,3)]
  have a: "is_ok (acknowledge_external_recipient privacy_library (dln_node_id n) ''op'' ''ok'' 20 demo_stuck)"
    using u[THEN conjunct1, of "''op''" "''ok''" 20] by auto
  have "\<not> is_ok (fst (reconcile_external_recipients privacy_library ?k unreachable (demo_policy 20 1) demo_stuck))"
    using u[THEN conjunct2] q n(4) by (metis list.set_intros(1))
  then show ?thesis using a by (simp add: n(1))
qed

end
