(* ===== verification/Key_Lifecycle.thy ===== *)
theory Key_Lifecycle
  imports Library_Model
begin

text \<open>
  The public-key registry, \<^verbatim>\<open>KeyLifecycleRegistry\<close> of \<^verbatim>\<open>src/src/sentinel_edge/security/key_lifecycle.py\<close>: identities with
  their generations and current state, and the append-only life cycle events that decide which signatures are
  accepted.

  Every writer is one transaction: it returns its value and the new registry, or raises and leaves the registry as it
  was. The base64 codec and the Ed25519 verification are the functions of \<open>key_codec\<close>; \<open>b64decode\<close> is \<open>None\<close> where
  the strict decoder raises. The clock readings \<open>effective_at\<close>, \<open>registered_at\<close>, \<open>accepted_at\<close> are arguments.
\<close>

section \<open>Data\<close>

datatype KeyPurpose = KP_AUDIT_SIGNING | KP_SOURCE_SIGNING | KP_DEVICE_IDENTITY | KP_UPDATE_SIGNING

datatype KeyLifecycleAction =
    KA_ACTIVATE | KA_ROTATE | KA_RETIRE | KA_REVOKE_POLICY | KA_SUSPECT_COMPROMISE | KA_CONFIRM_COMPROMISE

datatype KeyState = KS_ACTIVE | KS_RETIRED | KS_REVOKED_POLICY | KS_SUSPECTED_COMPROMISE | KS_COMPROMISED

fun KeyPurpose_value :: "KeyPurpose \<Rightarrow> string" where
  "KeyPurpose_value KP_AUDIT_SIGNING = ''audit_signing''"
| "KeyPurpose_value KP_SOURCE_SIGNING = ''source_signing''"
| "KeyPurpose_value KP_DEVICE_IDENTITY = ''device_identity''"
| "KeyPurpose_value KP_UPDATE_SIGNING = ''update_signing''"

fun KeyLifecycleAction_value :: "KeyLifecycleAction \<Rightarrow> string" where
  "KeyLifecycleAction_value KA_ACTIVATE = ''activate''"
| "KeyLifecycleAction_value KA_ROTATE = ''rotate''"
| "KeyLifecycleAction_value KA_RETIRE = ''retire''"
| "KeyLifecycleAction_value KA_REVOKE_POLICY = ''revoke_policy''"
| "KeyLifecycleAction_value KA_SUSPECT_COMPROMISE = ''suspect_compromise''"
| "KeyLifecycleAction_value KA_CONFIRM_COMPROMISE = ''confirm_compromise''"

fun KeyState_value :: "KeyState \<Rightarrow> string" where
  "KeyState_value KS_ACTIVE = ''active''"
| "KeyState_value KS_RETIRED = ''retired''"
| "KeyState_value KS_REVOKED_POLICY = ''revoked_policy''"
| "KeyState_value KS_SUSPECTED_COMPROMISE = ''suspected_compromise''"
| "KeyState_value KS_COMPROMISED = ''compromised''"

fun action_to_state :: "KeyLifecycleAction \<Rightarrow> KeyState" where
  "action_to_state KA_ACTIVATE = KS_ACTIVE"
| "action_to_state KA_ROTATE = KS_ACTIVE"
| "action_to_state KA_RETIRE = KS_RETIRED"
| "action_to_state KA_REVOKE_POLICY = KS_REVOKED_POLICY"
| "action_to_state KA_SUSPECT_COMPROMISE = KS_SUSPECTED_COMPROMISE"
| "action_to_state KA_CONFIRM_COMPROMISE = KS_COMPROMISED"

record key_codec =
  kcd_b64encode :: "string \<Rightarrow> string"
  kcd_b64decode :: "string \<Rightarrow> string option"
  kcd_ed25519_verify :: "string \<Rightarrow> string \<Rightarrow> string \<Rightarrow> bool"

record KeyIdentityRecord =
  kid_identity_id :: string
  kid_generation :: int
  kid_purpose :: KeyPurpose
  kid_public_key_b64 :: string
  kid_public_key_sha256 :: string
  kid_policy_version :: string
  kid_active_from :: datetime
  kid_active_until :: "datetime option"
  kid_state :: KeyState
  kid_registered_at :: datetime

definition validate_key_record :: "library \<Rightarrow> key_codec \<Rightarrow> KeyIdentityRecord \<Rightarrow> unit result" where
  "validate_key_record lib codec r = first_failure
     [(kid_generation r < 1, ''generation''),
      (blank (kid_identity_id r) \<or> blank (kid_policy_version r), ''key identity fields must not be blank''),
      (kcd_b64decode codec (kid_public_key_b64 r) = None, ''Incorrect padding''),
      (length (the (kcd_b64decode codec (kid_public_key_b64 r))) \<noteq> 32, ''Ed25519 public key must contain 32 raw bytes''),
      (sha256_bytes lib (the (kcd_b64decode codec (kid_public_key_b64 r))) \<noteq> kid_public_key_sha256 r, ''public key digest mismatch''),
      (case kid_active_until r of None \<Rightarrow> False | Some u \<Rightarrow> u \<le> kid_active_from r, ''active_until must follow active_from'')]"

record KeyLifecycleEvent =
  kev_event_id :: uuid
  kev_identity_id :: string
  kev_generation :: int
  kev_purpose :: KeyPurpose
  kev_action :: KeyLifecycleAction
  kev_from_state :: "KeyState option"
  kev_to_state :: KeyState
  kev_effective_at :: datetime
  kev_actor :: string
  kev_reason :: string
  kev_policy_version :: string
  kev_compromise_floor_position :: "int option"
  kev_payload_sha256 :: string

record SignatureVerification =
  svr_accepted :: bool
  svr_status :: string
  svr_identity_id :: string
  svr_generation :: int
  svr_purpose :: KeyPurpose
  svr_policy_version :: "string option"
  svr_key_state_at_observation :: "KeyState option"
  svr_current_key_state :: "KeyState option"
  svr_historical :: bool
  svr_reason_codes :: "string list"

text \<open>A row of \<^verbatim>\<open>key_identities\<close> is the registered record and the column \<^verbatim>\<open>current_state\<close>.\<close>

record key_registry =
  krg_identities :: "(KeyIdentityRecord \<times> KeyState) list"
  krg_events :: "KeyLifecycleEvent list"

type_synonym key_ref = "string \<times> int \<times> KeyPurpose"

definition key_ref_of :: "KeyIdentityRecord \<Rightarrow> key_ref" where
  "key_ref_of r = (kid_identity_id r, kid_generation r, kid_purpose r)"

definition event_ref :: "KeyLifecycleEvent \<Rightarrow> key_ref" where
  "event_ref e = (kev_identity_id e, kev_generation e, kev_purpose e)"

section \<open>Writers\<close>

record governance =
  gov_actor :: string
  gov_reason :: string
  gov_policy_version :: string

definition public_key_b64 :: "key_codec \<Rightarrow> string \<Rightarrow> string result" where
  "public_key_b64 codec raw =
     (if length raw \<noteq> 32 then Inl (ValueError ''Ed25519 public key must contain 32 raw bytes'') else Inr (kcd_b64encode codec raw))"

definition key_event_for :: "library \<Rightarrow> key_ref \<Rightarrow> KeyLifecycleAction \<Rightarrow> KeyState option \<Rightarrow> KeyState \<Rightarrow> datetime \<Rightarrow> governance \<Rightarrow> int option \<Rightarrow> KeyLifecycleEvent" where
  "key_event_for lib ref action from_state to_state effective_at gov cfloor =
     (case ref of (identity_id, generation, purpose) \<Rightarrow>
        let sha = digest lib (JObj
              [(''identity_id'', JStr identity_id), (''generation'', JInt generation), (''purpose'', JStr (KeyPurpose_value purpose)),
               (''action'', JStr (KeyLifecycleAction_value action)), (''from_state'', jopt (\<lambda>s. JStr (KeyState_value s)) from_state),
               (''to_state'', JStr (KeyState_value to_state)), (''effective_at'', JStr (lib_isoformat lib effective_at)),
               (''actor'', JStr (gov_actor gov)), (''reason'', JStr (gov_reason gov)), (''policy_version'', JStr (gov_policy_version gov)),
               (''compromise_floor_position'', jopt JInt cfloor)])
        in \<lparr>kev_event_id = lib_uuid5 lib (''sentinel-key-lifecycle:'' @ sha), kev_identity_id = identity_id, kev_generation = generation,
            kev_purpose = purpose, kev_action = action, kev_from_state = from_state, kev_to_state = to_state,
            kev_effective_at = effective_at, kev_actor = gov_actor gov, kev_reason = gov_reason gov,
            kev_policy_version = gov_policy_version gov, kev_compromise_floor_position = cfloor, kev_payload_sha256 = sha\<rparr>)"

definition append_key_event :: "library \<Rightarrow> key_ref \<Rightarrow> KeyLifecycleAction \<Rightarrow> KeyState option \<Rightarrow> KeyState \<Rightarrow> datetime \<Rightarrow> governance \<Rightarrow> int option \<Rightarrow>
    key_registry \<Rightarrow> (KeyLifecycleEvent \<times> key_registry) result" where
  "append_key_event lib ref action from_state to_state effective_at gov cfloor reg =
     (if blank (gov_actor gov) \<or> blank (gov_reason gov) \<or> blank (gov_policy_version gov)
      then Inl (ValueError ''key lifecycle governance fields must not be blank'')
      else if fst (snd ref) < 1 \<or> (case cfloor of None \<Rightarrow> False | Some f \<Rightarrow> f < 1) then Inl (ValidationError ''KeyLifecycleEvent'')
      else
        let event = key_event_for lib ref action from_state to_state effective_at gov cfloor
        in Inr (event, if \<exists>e \<in> set (krg_events reg). kev_event_id e = kev_event_id event \<or>
              (event_ref e = ref \<and> kev_effective_at e = effective_at \<and> kev_action e = action)
            then reg else reg\<lparr>krg_events := krg_events reg @ [event]\<rparr>))"

definition find_key :: "key_registry \<Rightarrow> key_ref \<Rightarrow> (KeyIdentityRecord \<times> KeyState) option" where
  "find_key reg ref = find (\<lambda>r. key_ref_of (fst r) = ref) (krg_identities reg)"

definition key_ref_string :: "key_ref \<Rightarrow> string" where
  "key_ref_string ref = (case ref of (identity_id, generation, purpose) \<Rightarrow> identity_id @ '':'' @ str_int generation @ '':'' @ KeyPurpose_value purpose)"

definition load_key :: "key_registry \<Rightarrow> key_ref \<Rightarrow> KeyIdentityRecord result" where
  "load_key reg ref = (case find_key reg ref of None \<Rightarrow> Inl (KeyError (key_ref_string ref)) | Some (r, st) \<Rightarrow> Inr (r\<lparr>kid_state := st\<rparr>))"

definition set_current_state :: "key_ref \<Rightarrow> KeyState \<Rightarrow> key_registry \<Rightarrow> key_registry" where
  "set_current_state ref st reg =
     reg\<lparr>krg_identities := map (\<lambda>(r, s). if key_ref_of r = ref then (r, st) else (r, s)) (krg_identities reg)\<rparr>"

definition transition_locked :: "library \<Rightarrow> key_ref \<Rightarrow> KeyLifecycleAction \<Rightarrow> datetime \<Rightarrow> governance \<Rightarrow> int option \<Rightarrow> key_registry \<Rightarrow>
    (KeyLifecycleEvent \<times> key_registry) result" where
  "transition_locked lib ref action effective_at gov cfloor reg =
     bind_result (load_key reg ref) (\<lambda>cur.
       if action \<in> {KA_ACTIVATE, KA_ROTATE} \<and> kid_state cur = KS_COMPROMISED
       then Inl (ValueError ''a compromised generation cannot be reactivated'')
       else bind_result (append_key_event lib ref action (Some (kid_state cur)) (action_to_state action) effective_at gov cfloor reg)
         (\<lambda>(event, reg1). Inr (event, set_current_state ref (action_to_state action) reg1)))"

definition key_transition :: "library \<Rightarrow> key_ref \<Rightarrow> KeyLifecycleAction \<Rightarrow> datetime \<Rightarrow> governance \<Rightarrow> int option \<Rightarrow> key_registry \<Rightarrow>
    (KeyLifecycleEvent \<times> key_registry) result" where
  "key_transition lib ref action effective_at gov cfloor reg =
     (if action \<notin> {KA_SUSPECT_COMPROMISE, KA_CONFIRM_COMPROMISE} \<and> cfloor \<noteq> None
      then Inl (ValueError ''compromise floor is valid only for compromise lifecycle actions'')
      else transition_locked lib ref action effective_at gov cfloor reg)"

fun retire_all :: "library \<Rightarrow> key_ref list \<Rightarrow> datetime \<Rightarrow> governance \<Rightarrow> key_registry \<Rightarrow> key_registry result" where
  "retire_all lib [] effective_at gov reg = Inr reg"
| "retire_all lib (ref # refs) effective_at gov reg =
     bind_result (transition_locked lib ref KA_RETIRE effective_at gov None reg) (\<lambda>(_, reg1). retire_all lib refs effective_at gov reg1)"

text \<open>The generations in state ACTIVE, the largest first.\<close>

definition prior_active :: "key_registry \<Rightarrow> string \<Rightarrow> KeyPurpose \<Rightarrow> int list" where
  "prior_active reg identity_id purpose =
     rev (sort (map (\<lambda>r. kid_generation (fst r))
       (filter (\<lambda>r. kid_identity_id (fst r) = identity_id \<and> kid_purpose (fst r) = purpose \<and> snd r = KS_ACTIVE) (krg_identities reg))))"

definition key_record_for :: "library \<Rightarrow> key_ref \<Rightarrow> string \<Rightarrow> string \<Rightarrow> governance \<Rightarrow> datetime \<Rightarrow> datetime option \<Rightarrow> datetime \<Rightarrow> KeyIdentityRecord" where
  "key_record_for lib ref raw b64 gov active_from active_until registered_at =
     \<lparr>kid_identity_id = fst ref, kid_generation = fst (snd ref), kid_purpose = snd (snd ref), kid_public_key_b64 = b64,
      kid_public_key_sha256 = sha256_bytes lib raw, kid_policy_version = gov_policy_version gov, kid_active_from = active_from,
      kid_active_until = active_until, kid_state = KS_ACTIVE, kid_registered_at = registered_at\<rparr>"

text \<open>The insertion of a new generation, which retires the active ones.\<close>

definition enrol_key :: "library \<Rightarrow> key_ref \<Rightarrow> KeyIdentityRecord \<Rightarrow> governance \<Rightarrow> datetime \<Rightarrow> key_registry \<Rightarrow> key_registry result" where
  "enrol_key lib ref rec gov active_from reg =
     (case ref of (identity_id, generation, purpose) \<Rightarrow>
        let prior = prior_active reg identity_id purpose
        in if prior \<noteq> [] \<and> generation \<le> Max (set prior)
           then Inl (ValueError ''new key generation must be greater than the active generation'')
           else bind_result (append_key_event lib ref (if prior \<noteq> [] then KA_ROTATE else KA_ACTIVATE) None KS_ACTIVE active_from gov None
               (reg\<lparr>krg_identities := krg_identities reg @ [(rec, KS_ACTIVE)]\<rparr>)) (\<lambda>(_, reg1).
             retire_all lib (map (\<lambda>g. (identity_id, g, purpose)) prior) active_from
               (gov\<lparr>gov_reason := ''superseded_by_generation_'' @ str_int generation\<rparr>) reg1))"

definition register_key :: "library \<Rightarrow> key_codec \<Rightarrow> key_ref \<Rightarrow> string \<Rightarrow> governance \<Rightarrow> datetime \<Rightarrow> datetime option \<Rightarrow> datetime \<Rightarrow> key_registry \<Rightarrow>
    (KeyIdentityRecord \<times> key_registry) result" where
  "register_key lib codec ref raw gov active_from active_until registered_at reg =
     bind_result (public_key_b64 codec raw) (\<lambda>b64.
       let rec = key_record_for lib ref raw b64 gov active_from active_until registered_at
       in bind_result (validate_key_record lib codec rec) (\<lambda>_.
            case find_key reg ref of
              Some (observed, _) \<Rightarrow> if observed \<noteq> rec then Inl (ValueError ''key identity conflict'') else Inr (observed, reg)
            | None \<Rightarrow> bind_result (enrol_key lib ref rec gov active_from reg) (\<lambda>reg1. Inr (rec, reg1))))"

section \<open>Readers and verification\<close>

definition key_records :: "key_registry \<Rightarrow> KeyPurpose option \<Rightarrow> KeyIdentityRecord list" where
  "key_records reg purpose =
     map (\<lambda>(r, st). r\<lparr>kid_state := st\<rparr>)
       (case purpose of
          None \<Rightarrow> sort_key (\<lambda>(r, _). (KeyPurpose_value (kid_purpose r), kid_identity_id r, kid_generation r)) (krg_identities reg)
        | Some u \<Rightarrow> sort_key (\<lambda>(r, _). (kid_identity_id r, kid_generation r)) (filter (\<lambda>(r, _). kid_purpose r = u) (krg_identities reg)))"

definition lifecycle_events :: "key_registry \<Rightarrow> string option \<Rightarrow> int option \<Rightarrow> KeyPurpose option \<Rightarrow> KeyLifecycleEvent list" where
  "lifecycle_events reg identity_id generation purpose =
     sort_key (\<lambda>e. (kev_effective_at e, kev_event_id e))
       (filter (\<lambda>e. (case identity_id of None \<Rightarrow> True | Some i \<Rightarrow> kev_identity_id e = i) \<and>
           (case generation of None \<Rightarrow> True | Some g \<Rightarrow> kev_generation e = g) \<and> (case purpose of None \<Rightarrow> True | Some u \<Rightarrow> kev_purpose e = u))
         (krg_events reg))"

definition key_events :: "key_registry \<Rightarrow> key_ref \<Rightarrow> KeyLifecycleEvent list" where
  "key_events reg ref = lifecycle_events reg (Some (fst ref)) (Some (fst (snd ref))) (Some (snd (snd ref)))"

definition state_at :: "key_registry \<Rightarrow> key_ref \<Rightarrow> datetime \<Rightarrow> KeyLifecycleEvent option" where
  "state_at reg ref observed_at =
     (let events = filter (\<lambda>e. kev_effective_at e \<le> observed_at) (key_events reg ref) in if events = [] then None else Some (last events))"

definition in_window :: "KeyIdentityRecord \<Rightarrow> datetime \<Rightarrow> bool" where
  "in_window r t \<longleftrightarrow> kid_active_from r \<le> t \<and> (case kid_active_until r of None \<Rightarrow> True | Some u \<Rightarrow> t < u)"

definition signing_allowed :: "key_registry \<Rightarrow> key_ref \<Rightarrow> datetime \<Rightarrow> KeyIdentityRecord result" where
  "signing_allowed reg ref t =
     bind_result (load_key reg ref) (\<lambda>r.
       if map_option kev_to_state (state_at reg ref t) \<noteq> Some KS_ACTIVE \<or> kid_state r \<noteq> KS_ACTIVE
       then Inl (PermissionError ''key generation is not active for new signatures'')
       else if \<not> in_window r t then Inl (PermissionError ''key generation is outside its validity window'')
       else Inr r)"

definition signature_valid :: "key_codec \<Rightarrow> KeyIdentityRecord \<Rightarrow> string \<Rightarrow> string \<Rightarrow> bool" where
  "signature_valid codec r message signature_b64 \<longleftrightarrow>
     (case (kcd_b64decode codec signature_b64, kcd_b64decode codec (kid_public_key_b64 r)) of
        (Some sig, Some key) \<Rightarrow> kcd_ed25519_verify codec key sig message
      | _ \<Rightarrow> False)"

definition is_compromise :: "KeyLifecycleEvent \<Rightarrow> bool" where
  "is_compromise e \<longleftrightarrow> kev_action e \<in> {KA_SUSPECT_COMPROMISE, KA_CONFIRM_COMPROMISE}"

definition later_compromise :: "key_registry \<Rightarrow> key_ref \<Rightarrow> datetime \<Rightarrow> KeyLifecycleEvent option" where
  "later_compromise reg ref observed_at = find is_compromise (filter (\<lambda>e. observed_at < kev_effective_at e) (key_events reg ref))"

definition historical_status :: "KeyState \<Rightarrow> string" where
  "historical_status st =
     (if st = KS_RETIRED then ''historically_valid_retired''
      else if st = KS_REVOKED_POLICY then ''historically_valid_before_policy_revocation''
      else ''valid_active'')"

definition verify_signature :: "key_codec \<Rightarrow> key_registry \<Rightarrow> key_ref \<Rightarrow> string \<Rightarrow> string \<Rightarrow> datetime \<Rightarrow> datetime \<Rightarrow> bool \<Rightarrow> int option \<Rightarrow> SignatureVerification" where
  "verify_signature codec reg ref message signature_b64 observed_at accepted_at historical authority_position =
     (let blank_verdict = \<lparr>svr_accepted = False, svr_status = ''unknown_signer'', svr_identity_id = fst ref, svr_generation = fst (snd ref),
            svr_purpose = snd (snd ref), svr_policy_version = None, svr_key_state_at_observation = None, svr_current_key_state = None,
            svr_historical = historical, svr_reason_codes = [''identity_generation_not_registered'']\<rparr>
      in case load_key reg ref of
           Inl _ \<Rightarrow> blank_verdict
         | Inr r \<Rightarrow>
             let known = blank_verdict\<lparr>svr_policy_version := Some (kid_policy_version r), svr_current_key_state := Some (kid_state r)\<rparr>
             in if \<not> signature_valid codec r message signature_b64
                then known\<lparr>svr_status := ''invalid_signature'', svr_reason_codes := [''ed25519_verification_failed'']\<rparr>
                else (case state_at reg ref observed_at of
                   None \<Rightarrow> known\<lparr>svr_status := ''outside_key_validity'', svr_reason_codes := [''signature_time_not_covered_by_key_generation'']\<rparr>
                 | Some event \<Rightarrow>
                     if \<not> in_window r observed_at
                     then known\<lparr>svr_status := ''outside_key_validity'', svr_reason_codes := [''signature_time_not_covered_by_key_generation'']\<rparr>
                     else
                       let seen = known\<lparr>svr_key_state_at_observation := Some (kev_to_state event)\<rparr>
                       in if \<not> historical
                          then (case signing_allowed reg ref accepted_at of
                              Inl _ \<Rightarrow> seen\<lparr>svr_status := ''key_not_accepted_for_new_evidence'',
                                svr_reason_codes := [''current_key_lifecycle_blocks_new_acceptance'']\<rparr>
                            | Inr _ \<Rightarrow> seen\<lparr>svr_accepted := True, svr_status := ''valid_active'', svr_reason_codes := []\<rparr>)
                          else
                            let past = seen\<lparr>svr_policy_version := Some (kev_policy_version event)\<rparr>
                            in (case later_compromise reg ref observed_at of
                                 Some c \<Rightarrow>
                                   (case kev_compromise_floor_position c of
                                      None \<Rightarrow> past\<lparr>svr_status := ''indeterminate_compromise_interval'', svr_reason_codes := [''compromise_start_unknown'']\<rparr>
                                    | Some cfloor \<Rightarrow>
                                        if (case authority_position of None \<Rightarrow> True | Some a \<Rightarrow> cfloor \<le> a)
                                        then past\<lparr>svr_status := ''not_validated_after_compromise_floor'',
                                          svr_reason_codes := [''checkpoint_at_or_after_compromise_floor'']\<rparr>
                                        else past\<lparr>svr_accepted := True, svr_status := ''valid_before_compromise_floor'',
                                          svr_reason_codes := [''checkpoint_precedes_known_compromise_floor'']\<rparr>)
                               | None \<Rightarrow> past\<lparr>svr_accepted := True, svr_status := historical_status (kid_state r), svr_reason_codes := []\<rparr>)))"

end
