(* ===== verification/Key_Claims.thy ===== *)
theory Key_Claims
  imports Key_Lifecycle
begin

text \<open>
  The key registry: rotation leaves one active generation, a known compromise floor separates the signatures that
  stay valid from those that do not, and two ways in which a compromised key is accepted after all.
\<close>

section \<open>Events in time order\<close>

lemma key_events_eq: "key_events reg ref = sort_key (\<lambda>e. (kev_effective_at e, kev_event_id e)) (filter (\<lambda>e. event_ref e = ref) (krg_events reg))"
proof -
  have "(\<lambda>e. kev_identity_id e = fst ref \<and> kev_generation e = fst (snd ref) \<and> kev_purpose e = snd (snd ref)) = (\<lambda>e. event_ref e = ref)"
    by (auto simp: event_ref_def fun_eq_iff prod_eq_iff)
  then show ?thesis by (simp add: key_events_def lifecycle_events_def)
qed

lemma insort_snoc: "f x \<le> f y \<Longrightarrow> insort_key f x (zs @ [y]) = insort_key f x zs @ [y]"
  by (induction zs) auto

lemma sort_key_snoc: "(\<And>x. x \<in> set xs \<Longrightarrow> f x \<le> f y) \<Longrightarrow> sort_key f (xs @ [y]) = sort_key f xs @ [y]"
  by (induction xs) (simp_all add: insort_snoc)

lemma key_event_for_simps [simp]:
  "event_ref (key_event_for lib ref ac fs ts t gov cf) = ref" "kev_effective_at (key_event_for lib ref ac fs ts t gov cf) = t"
  "kev_action (key_event_for lib ref ac fs ts t gov cf) = ac" "kev_to_state (key_event_for lib ref ac fs ts t gov cf) = ts"
  "kev_compromise_floor_position (key_event_for lib ref ac fs ts t gov cf) = cf"
  by (auto simp: key_event_for_def event_ref_def Let_def split: prod.splits)

text \<open>An event that takes effect after all others of its key comes last.\<close>

lemma transition_last:
  assumes "key_transition lib ref ac t gov cf reg = Inr (e, reg')" "\<forall>x \<in> set (krg_events reg). kev_event_id x \<noteq> kev_event_id e"
    "\<forall>x \<in> set (key_events reg ref). kev_effective_at x < t"
  shows "key_events reg' ref = key_events reg ref @ [e]" "kev_action e = ac" "kev_to_state e = action_to_state ac" "kev_effective_at e = t"
    "kev_compromise_floor_position e = cf" "load_key reg' ref = map_sum id (kid_state_update (\<lambda>_. action_to_state ac)) (load_key reg ref)"
proof -
  obtain cur where cur: "load_key reg ref = Inr cur" and ap: "\<exists>reg1. append_key_event lib ref ac (Some (kid_state cur)) (action_to_state ac) t gov cf reg = Inr (e, reg1) \<and>
      reg' = set_current_state ref (action_to_state ac) reg1"
    using assms(1) by (auto simp: key_transition_def transition_locked_def bind_result_Inr split: if_splits prod.splits)
  then obtain reg1 where reg1: "append_key_event lib ref ac (Some (kid_state cur)) (action_to_state ac) t gov cf reg = Inr (e, reg1)"
    "reg' = set_current_state ref (action_to_state ac) reg1" by blast
  have e: "e = key_event_for lib ref ac (Some (kid_state cur)) (action_to_state ac) t gov cf" using reg1(1) by (auto simp: append_key_event_def Let_def split: if_splits)
  show "kev_action e = ac" "kev_to_state e = action_to_state ac" "kev_effective_at e = t" "kev_compromise_floor_position e = cf" by (simp_all add: e)
  have "\<not> (\<exists>x \<in> set (krg_events reg). kev_event_id x = kev_event_id e \<or> (event_ref x = ref \<and> kev_effective_at x = t \<and> kev_action x = ac))"
    using assms(2,3) by (auto simp: key_events_eq)
  then have ev: "krg_events reg1 = krg_events reg @ [e]" "krg_identities reg1 = krg_identities reg"
    using reg1(1) by (auto simp: append_key_event_def Let_def e split: if_splits)
  have ref: "event_ref e = ref" by (simp add: e)
  have "sort_key (\<lambda>e. (kev_effective_at e, kev_event_id e)) (filter (\<lambda>e. event_ref e = ref) (krg_events reg) @ [e]) = key_events reg ref @ [e]"
    unfolding key_events_eq by (rule sort_key_snoc) (use assms(3) in \<open>auto simp: key_events_eq e\<close>)
  moreover have "krg_events reg' = krg_events reg @ [e]" by (simp add: reg1(2) set_current_state_def ev(1))
  ultimately show "key_events reg' ref = key_events reg ref @ [e]" unfolding key_events_eq[of reg'] by (simp add: ref)
  show "load_key reg' ref = map_sum id (kid_state_update (\<lambda>_. action_to_state ac)) (load_key reg ref)"
  proof -
    have "find (\<lambda>r. key_ref_of (fst r) = ref) (map (\<lambda>(r, s). if key_ref_of r = ref then (r, st) else (r, s)) xs) =
        map_option (\<lambda>(r, s). (r, st)) (find (\<lambda>r. key_ref_of (fst r) = ref) xs)" for st and xs :: "(KeyIdentityRecord \<times> KeyState) list"
      by (induction xs) auto
    then show ?thesis by (auto simp: load_key_def find_key_def reg1(2) set_current_state_def ev(2) split: option.splits)
  qed
qed

section \<open>Rotation\<close>

definition active_refs :: "key_registry \<Rightarrow> string \<Rightarrow> KeyPurpose \<Rightarrow> key_ref set" where
  "active_refs reg i u = {ref. fst ref = i \<and> snd (snd ref) = u \<and> (\<exists>r. load_key reg ref = Inr r \<and> kid_state r = KS_ACTIVE)}"

inductive key_reachable :: "library \<Rightarrow> key_codec \<Rightarrow> key_registry \<Rightarrow> bool" for lib codec where
  kr_init: "key_reachable lib codec \<lparr>krg_identities = [], krg_events = []\<rparr>"
| kr_register: "key_reachable lib codec reg \<Longrightarrow> register_key lib codec ref raw gov t until ra reg = Inr (r, reg') \<Longrightarrow> key_reachable lib codec reg'"
| kr_transition: "key_reachable lib codec reg \<Longrightarrow> key_transition lib ref ac t gov cf reg = Inr (e, reg') \<Longrightarrow> key_reachable lib codec reg'"

definition refs_of :: "key_registry \<Rightarrow> key_ref list" where
  "refs_of reg = map (\<lambda>r. key_ref_of (fst r)) (krg_identities reg)"

lemma set_current_refs [simp]: "refs_of (set_current_state ref st reg) = refs_of reg"
  by (auto simp: refs_of_def set_current_state_def)

lemma transition_locked_step:
  assumes "transition_locked lib ref ac t gov cf reg = Inr (e, reg')"
  shows "krg_identities reg' = map (\<lambda>(r, s). if key_ref_of r = ref then (r, action_to_state ac) else (r, s)) (krg_identities reg)"
  using assms by (auto simp: transition_locked_def append_key_event_def bind_result_Inr set_current_state_def Let_def split: if_splits prod.splits)

lemma retire_all_step:
  assumes "retire_all lib refs t gov reg = Inr reg'"
  shows "krg_identities reg' = map (\<lambda>(r, s). if key_ref_of r \<in> set refs then (r, KS_RETIRED) else (r, s)) (krg_identities reg)"
  using assms
proof (induction refs arbitrary: reg)
  case Nil
  then show ?case by (simp add: case_prod_unfold)
next
  case (Cons ref refs)
  then obtain e reg1 where r: "transition_locked lib ref KA_RETIRE t gov None reg = Inr (e, reg1)" "retire_all lib refs t gov reg1 = Inr reg'"
    by (auto simp: bind_result_Inr split: prod.splits)
  show ?case using Cons.IH[OF r(2)] transition_locked_step[OF r(1)] by (auto simp: case_prod_unfold)
qed

lemma register_cases:
  assumes "register_key lib codec (i, g, u) raw gov t until ra reg = Inr (r, reg')"
  obtains (same) "reg' = reg" "find_key reg (i, g, u) \<noteq> None"
  | (new) "find_key reg (i, g, u) = None" "key_ref_of r = (i, g, u)" "\<forall>x \<in> set (prior_active reg i u). x < g"
      "krg_identities reg' = map (\<lambda>(r, s). if key_ref_of r \<in> (\<lambda>x. (i, x, u)) ` set (prior_active reg i u) then (r, KS_RETIRED) else (r, s))
         (krg_identities reg @ [(r, KS_ACTIVE)])"
proof (cases "find_key reg (i, g, u)")
  case (Some f)
  obtain fr fs where "f = (fr, fs)" by (cases f)
  then show thesis using assms same Some by (auto simp: register_key_def bind_result_Inr Let_def split: if_splits)
next
  case None
  let ?prior = "prior_active reg i u"
  obtain b64 where r: "r = key_record_for lib (i, g, u) raw b64 gov t until ra" "enrol_key lib (i, g, u) r gov t reg = Inr reg'"
    using assms None by (auto simp: register_key_def bind_result_Inr Let_def)
  have g: "\<not> (?prior \<noteq> [] \<and> g \<le> Max (set ?prior))" using r(2) by (auto simp: enrol_key_def Let_def split: if_splits)
  obtain e reg1 where e: "append_key_event lib (i, g, u) (if ?prior \<noteq> [] then KA_ROTATE else KA_ACTIVATE) None KS_ACTIVE t gov None
       (reg\<lparr>krg_identities := krg_identities reg @ [(r, KS_ACTIVE)]\<rparr>) = Inr (e, reg1)"
    "retire_all lib (map (\<lambda>x. (i, x, u)) ?prior) t (gov\<lparr>gov_reason := ''superseded_by_generation_'' @ str_int g\<rparr>) reg1 = Inr reg'"
    using r(2) g unfolding enrol_key_def Let_def bind_result_Inr prod.case if_not_P[OF g] by fastforce
  have id1: "krg_identities reg1 = krg_identities reg @ [(r, KS_ACTIVE)]" using e(1) by (auto simp: append_key_event_def Let_def split: if_splits)
  have "\<forall>x \<in> set ?prior. x < g"
  proof
    fix x
    assume x: "x \<in> set ?prior"
    then have "x \<le> Max (set ?prior)" by (intro Max_ge) simp_all
    moreover have "\<not> g \<le> Max (set ?prior)" using g x by force
    ultimately show "x < g" by linarith
  qed
  then show thesis using None retire_all_step[OF e(2)] id1 by (intro new) (simp_all add: r(1) key_record_for_def key_ref_of_def)
qed

lemma key_reachable_distinct: "key_reachable lib codec reg \<Longrightarrow> distinct (refs_of reg)"
proof (induction rule: key_reachable.induct)
  case (kr_register reg ref raw gov t until ra r reg')
  obtain i g u where ref: "ref = (i, g, u)" by (cases ref)
  show ?case
  proof (rule register_cases[OF kr_register(2)[unfolded ref]])
    assume n: "find_key reg (i, g, u) = None" "key_ref_of r = (i, g, u)"
      "krg_identities reg' = map (\<lambda>(r, s). if key_ref_of r \<in> (\<lambda>x. (i, x, u)) ` set (prior_active reg i u) then (r, KS_RETIRED) else (r, s)) (krg_identities reg @ [(r, KS_ACTIVE)])"
    have "refs_of reg' = refs_of reg @ [(i, g, u)]" using n(2) by (auto simp: refs_of_def n(3))
    moreover have "(i, g, u) \<notin> set (refs_of reg)" using n(1) by (auto simp: refs_of_def find_key_def find_None_iff)
    ultimately show ?thesis using kr_register.IH by simp
  qed (use kr_register.IH in simp)
next
  case (kr_transition reg ref ac t gov cf e reg')
  have "transition_locked lib ref ac t gov cf reg = Inr (e, reg')" using kr_transition(2) by (auto simp: key_transition_def split: if_splits)
  from transition_locked_step[OF this] have "refs_of reg' = refs_of reg" by (auto simp: refs_of_def)
  then show ?case using kr_transition.IH by simp
qed (simp add: refs_of_def)

lemma active_refs_iff:
  assumes "distinct (refs_of reg)"
  shows "ref \<in> active_refs reg i u \<longleftrightarrow> fst ref = i \<and> snd (snd ref) = u \<and> (\<exists>r. (r, KS_ACTIVE) \<in> set (krg_identities reg) \<and> key_ref_of r = ref)"
proof -
  have "find_key reg ref = Some (r, s) \<longleftrightarrow> (r, s) \<in> set (krg_identities reg) \<and> key_ref_of r = ref" for r s
  proof -
    have d: "distinct (map (\<lambda>r. key_ref_of (fst r)) xs) \<Longrightarrow> find (\<lambda>r. key_ref_of (fst r) = ref) xs = Some (r, s) \<longleftrightarrow> (r, s) \<in> set xs \<and> key_ref_of r = ref"
      for xs :: "(KeyIdentityRecord \<times> KeyState) list"
      by (induction xs) force+
    show ?thesis using d assms unfolding find_key_def refs_of_def by blast
  qed
  moreover have "(\<exists>r. load_key reg ref = Inr r \<and> kid_state r = KS_ACTIVE) \<longleftrightarrow> (\<exists>r. find_key reg ref = Some (r, KS_ACTIVE))"
    by (cases "find_key reg ref") (auto simp: load_key_def)
  ultimately show ?thesis by (simp add: active_refs_def)
qed

lemma prior_active_mem: "g \<in> set (prior_active reg i u) \<longleftrightarrow> (\<exists>r. (r, KS_ACTIVE) \<in> set (krg_identities reg) \<and> key_ref_of r = (i, g, u))"
  by (auto simp: prior_active_def key_ref_of_def image_iff)

section \<open>Claims\<close>

lemma not_active_refused:
  assumes "ref \<notin> active_refs reg (fst ref) (snd (snd ref))"
  shows "\<not> svr_accepted (verify_signature codec reg ref m s obs acc False pos)"
  using assms by (auto simp: verify_signature_def signing_allowed_def active_refs_def bind_result_def Let_def split: sum.splits option.splits)

text \<open>
  C18. Rotation is exclusive. When a reachable registry accepts a new generation of a key, its number is above
  that of every generation active before, and it is the only active generation of its identity and purpose
  afterwards: no signature of any other generation is accepted for new evidence, whatever the message and the times.
\<close>

theorem rotation_is_exclusive:
  assumes "key_reachable lib codec reg" "register_key lib codec (i, g, u) raw gov t until ra reg = Inr (r, reg')" "find_key reg (i, g, u) = None"
  shows "(\<forall>ref \<in> active_refs reg i u. fst (snd ref) < g) \<and> active_refs reg' i u = {(i, g, u)} \<and>
    (\<forall>other m s obs acc pos. other \<noteq> g \<longrightarrow> \<not> svr_accepted (verify_signature codec reg' (i, other, u) m s obs acc False pos))"
proof -
  note d = key_reachable_distinct[OF assms(1)] key_reachable_distinct[OF kr_register[OF assms(1,2)]]
  show ?thesis
  proof (rule register_cases[OF assms(2)])
    assume n: "find_key reg (i, g, u) = None" "key_ref_of r = (i, g, u)" "\<forall>x \<in> set (prior_active reg i u). x < g"
      "krg_identities reg' = map (\<lambda>(r, s). if key_ref_of r \<in> (\<lambda>x. (i, x, u)) ` set (prior_active reg i u) then (r, KS_RETIRED) else (r, s))
         (krg_identities reg @ [(r, KS_ACTIVE)])"
    have old: "ref \<in> active_refs reg i u \<longleftrightarrow> (\<exists>x \<in> set (prior_active reg i u). ref = (i, x, u))" for ref
      using prior_active_mem[of "fst (snd ref)" reg i u] active_refs_iff[OF d(1), of ref i u] by (cases ref) auto
    have g: "(i, g, u) \<notin> (\<lambda>x. (i, x, u)) ` set (prior_active reg i u)" using n(3) by auto
    have "ref \<in> active_refs reg' i u \<longleftrightarrow> ref = (i, g, u)" for ref
    proof
      assume "ref \<in> active_refs reg' i u"
      then obtain x where x: "(x, KS_ACTIVE) \<in> set (krg_identities reg')" "key_ref_of x = ref" "fst ref = i" "snd (snd ref) = u"
        unfolding active_refs_iff[OF d(2)] by blast
      then have "x = r \<or> ((x, KS_ACTIVE) \<in> set (krg_identities reg) \<and> ref \<notin> (\<lambda>x. (i, x, u)) ` set (prior_active reg i u))"
        unfolding n(4) by (auto split: if_splits)
      then show "ref = (i, g, u)" using x n(2) prior_active_mem[of "fst (snd ref)" reg i u] by (cases ref) auto
    next
      assume "ref = (i, g, u)"
      moreover have "(r, KS_ACTIVE) \<in> set (krg_identities reg')" using g n(2) by (simp add: n(4))
      ultimately show "ref \<in> active_refs reg' i u" unfolding active_refs_iff[OF d(2)] using n(2) by auto
    qed
    then have "active_refs reg' i u = {(i, g, u)}" by blast
    then show ?thesis using old n(3) not_active_refused[where reg = reg'] by fastforce
  qed (use assms(3) in simp)
qed

section \<open>A registry for the witnesses\<close>

definition key_library :: library where
  "key_library = \<lparr>lib_uuid5 = (\<lambda>s. s), lib_isoformat = (\<lambda>t. if t = 0 then ''0'' else if t = 5 then ''5'' else ''n''),
     lib_json_dumps = (\<lambda>v. case v of JObj kvs \<Rightarrow>
        concat (map (\<lambda>k. case map_of kvs k of Some (JStr s) \<Rightarrow> s | _ \<Rightarrow> []) [''action'', ''effective_at'', ''reason'']) @
        (case map_of kvs ''generation'' of Some (JInt n) \<Rightarrow> replicate (nat n) CHR ''g'' | _ \<Rightarrow> []) | _ \<Rightarrow> []),
     lib_sha256 = (\<lambda>s. s), lib_hmac_sha256 = (\<lambda>k m. k), lib_model_dump = (\<lambda>v. JNull)\<rparr>"

definition toy_codec :: key_codec where
  "toy_codec = \<lparr>kcd_b64encode = (\<lambda>s. s), kcd_b64decode = Some, kcd_ed25519_verify = (\<lambda>k sig m. sig = m)\<rparr>"

definition toy_gov :: governance where
  "toy_gov = \<lparr>gov_actor = ''op'', gov_reason = ''why'', gov_policy_version = ''v''\<rparr>"

definition toy_ref :: "int \<Rightarrow> key_ref" where
  "toy_ref g = (''dev'', g, KP_SOURCE_SIGNING)"

definition empty_registry :: key_registry where
  "empty_registry = \<lparr>krg_identities = [], krg_events = []\<rparr>"

definition toy_registry :: key_registry where
  "toy_registry = (case register_key key_library toy_codec (toy_ref 1) (replicate 32 CHR ''k'') toy_gov 0 None 0 empty_registry of
     Inl _ \<Rightarrow> empty_registry | Inr (_, reg) \<Rightarrow> reg)"

lemma toy_reachable: "key_reachable key_library toy_codec toy_registry"
proof -
  let ?r = "register_key key_library toy_codec (toy_ref 1) (replicate 32 CHR ''k'') toy_gov 0 None 0 empty_registry"
  have e: "key_reachable key_library toy_codec empty_registry" unfolding empty_registry_def by (rule kr_init)
  show ?thesis
  proof (cases ?r)
    case (Inr x)
    then show ?thesis using kr_register[OF e] by (cases x) (simp add: toy_registry_def)
  qed (simp add: toy_registry_def e)
qed

theorem rotation_is_exclusive_witness:
  "is_ok (register_key key_library toy_codec (toy_ref 2) (replicate 32 CHR ''k'') toy_gov 5 None 5 toy_registry) \<and>
   active_refs (snd (projr (register_key key_library toy_codec (toy_ref 2) (replicate 32 CHR ''k'') toy_gov 5 None 5 toy_registry))) ''dev'' KP_SOURCE_SIGNING
     = {(''dev'', 2, KP_SOURCE_SIGNING)}"
proof -
  let ?r = "register_key key_library toy_codec (''dev'', 2, KP_SOURCE_SIGNING) (replicate 32 CHR ''k'') toy_gov 5 None 5 toy_registry"
  have f: "is_ok ?r" "find_key toy_registry (''dev'', 2, KP_SOURCE_SIGNING) = None" by code_simp+
  obtain x reg' where r: "?r = Inr (x, reg')" using f(1) by (cases ?r) auto
  from rotation_is_exclusive[OF toy_reachable r f(2)] show ?thesis using r by (simp add: toy_ref_def)
qed

section \<open>Compromise\<close>

lemma filter_snoc_events:
  "(\<And>x. x \<in> set xs \<Longrightarrow> kev_effective_at x < t) \<Longrightarrow> kev_effective_at e = t \<Longrightarrow> t \<le> obs \<Longrightarrow> filter (\<lambda>x. kev_effective_at x \<le> obs) (xs @ [e]) = xs @ [e]"
  by (induction xs) force+

text \<open>
  A known compromise floor separates what stays valid. Let the first compromise of a key be recorded with effect
  after all its other events, at \<open>t\<close>. For a signature observed before \<open>t\<close>, historical verification accepts if and only if
  the signature verifies, the key was registered by then and valid at that time, the compromise has a floor, and the
  authority position of the signed item is known and below that floor.
\<close>

theorem compromise_floor_rule:
  assumes "key_transition lib ref ac t gov cf reg = Inr (e, reg')" "ac \<in> {KA_SUSPECT_COMPROMISE, KA_CONFIRM_COMPROMISE}"
    "\<forall>x \<in> set (krg_events reg). kev_event_id x \<noteq> kev_event_id e"
    "\<forall>x \<in> set (key_events reg ref). kev_effective_at x < t \<and> \<not> is_compromise x" "obs < t" "load_key reg ref = Inr r"
  shows "svr_accepted (verify_signature codec reg' ref m s obs acc True pos) \<longleftrightarrow>
    signature_valid codec r m s \<and> state_at reg ref obs \<noteq> None \<and> in_window r obs \<and> (\<exists>f a. cf = Some f \<and> pos = Some a \<and> a < f)"
proof -
  have before: "\<forall>x \<in> set (key_events reg ref). kev_effective_at x < t" using assms(4) by blast
  note tr = transition_last[OF assms(1,3) before]
  have st: "state_at reg' ref obs = state_at reg ref obs" using tr(1,4) assms(5) by (simp add: state_at_def)
  have "later_compromise reg' ref obs = Some e"
  proof -
    have "\<forall>x \<in> set (filter (\<lambda>x. obs < kev_effective_at x) (key_events reg ref)). \<not> is_compromise x" using assms(4) by auto
    then have "find is_compromise (filter (\<lambda>x. obs < kev_effective_at x) (key_events reg ref)) = None" by (simp add: find_None_iff)
    moreover have "find P (xs @ [y]) = (case find P xs of None \<Rightarrow> if P y then Some y else None | Some z \<Rightarrow> Some z)" for P and xs :: "KeyLifecycleEvent list" and y
      by (induction xs) auto
    moreover have "is_compromise e" using assms(2) tr(2) by (simp add: is_compromise_def)
    ultimately show ?thesis using tr(1,4) assms(5) by (simp add: later_compromise_def)
  qed
  moreover have "load_key reg' ref = Inr (r\<lparr>kid_state := action_to_state ac\<rparr>)" using tr(6) assms(6) by simp
  moreover have "signature_valid codec (r\<lparr>kid_state := action_to_state ac\<rparr>) m s = signature_valid codec r m s" "in_window (r\<lparr>kid_state := action_to_state ac\<rparr>) obs = in_window r obs"
    by (simp_all add: signature_valid_def in_window_def)
  ultimately show ?thesis using st tr(5) by (auto simp: verify_signature_def Let_def split: option.splits)
qed

text \<open>A signature made after the compromise is accepted as history. Let a compromise of a key be recorded with effect
  after all its other events, at \<open>t\<close>, with or without a floor. For a signature observed at or after \<open>t\<close>, historical
  verification looks for a compromise only after the observation, finds none, and accepts with the status
  \<^verbatim>\<open>valid_active\<close>, whatever the authority position, although it reports that the key was compromised at
  the time.
\<close>

theorem signatures_after_compromise_accepted:
  assumes "key_transition lib ref ac t gov cf reg = Inr (e, reg')" "ac \<in> {KA_SUSPECT_COMPROMISE, KA_CONFIRM_COMPROMISE}"
    "\<forall>x \<in> set (krg_events reg). kev_event_id x \<noteq> kev_event_id e" "\<forall>x \<in> set (key_events reg ref). kev_effective_at x < t" "t \<le> obs"
    "load_key reg ref = Inr r" "signature_valid codec r m s" "in_window r obs"
  shows "svr_accepted (verify_signature codec reg' ref m s obs acc True pos) \<and>
    svr_status (verify_signature codec reg' ref m s obs acc True pos) = ''valid_active'' \<and>
    svr_key_state_at_observation (verify_signature codec reg' ref m s obs acc True pos) = Some (action_to_state ac)"
proof -
  note tr = transition_last[OF assms(1,3,4)]
  have f: "filter (\<lambda>x. kev_effective_at x \<le> obs) (key_events reg' ref) = key_events reg ref @ [e]"
    unfolding tr(1) using assms(4,5) tr(4) by (intro filter_snoc_events[of _ t]) auto
  have st: "state_at reg' ref obs = Some e" by (simp add: state_at_def f Let_def)
  have "filter (\<lambda>x. obs < kev_effective_at x) (key_events reg' ref) = []"
    unfolding tr(1) using assms(4,5) tr(4) by (auto simp: filter_empty_conv)
  then have later: "later_compromise reg' ref obs = None" by (simp add: later_compromise_def)
  have "load_key reg' ref = Inr (r\<lparr>kid_state := action_to_state ac\<rparr>)" using tr(6) assms(6) by simp
  moreover have "signature_valid codec (r\<lparr>kid_state := action_to_state ac\<rparr>) m s" "in_window (r\<lparr>kid_state := action_to_state ac\<rparr>) obs"
    using assms(7,8) by (simp_all add: signature_valid_def in_window_def)
  moreover have "historical_status (action_to_state ac) = ''valid_active''" using assms(2) by (auto simp: historical_status_def)
  ultimately show ?thesis using st later tr(3) by (simp add: verify_signature_def Let_def)
qed

definition toy_compromised :: key_registry where
  "toy_compromised = snd (projr (key_transition key_library (toy_ref 1) KA_CONFIRM_COMPROMISE 5 toy_gov (Some 7) toy_registry))"

lemma toy_compromise:
  obtains e r where "key_transition key_library (toy_ref 1) KA_CONFIRM_COMPROMISE 5 toy_gov (Some 7) toy_registry = Inr (e, toy_compromised)"
    "\<forall>x \<in> set (krg_events toy_registry). kev_event_id x \<noteq> kev_event_id e"
    "\<forall>x \<in> set (key_events toy_registry (toy_ref 1)). kev_effective_at x < 5 \<and> \<not> is_compromise x" "load_key toy_registry (toy_ref 1) = Inr r"
    "signature_valid toy_codec r ''m'' ''m''" "in_window r 3" "in_window r 9" "state_at toy_registry (toy_ref 1) 3 \<noteq> None"
proof -
  let ?t = "key_transition key_library (toy_ref 1) KA_CONFIRM_COMPROMISE 5 toy_gov (Some 7) toy_registry"
  have f: "is_ok ?t" "\<not> list_ex (\<lambda>x. kev_event_id x = kev_event_id (fst (projr ?t))) (krg_events toy_registry)"
    "list_all (\<lambda>x. kev_effective_at x < 5 \<and> \<not> is_compromise x) (key_events toy_registry (toy_ref 1))"
    "(case load_key toy_registry (toy_ref 1) of Inl _ \<Rightarrow> False | Inr r \<Rightarrow> signature_valid toy_codec r ''m'' ''m'' \<and> in_window r 3 \<and> in_window r 9)"
    "\<not> Option.is_none (state_at toy_registry (toy_ref 1) 3)" by code_simp+
  obtain e reg' where t: "?t = Inr (e, reg')" using f(1) by (cases ?t) auto
  obtain r where r: "load_key toy_registry (toy_ref 1) = Inr r" using f(4) by (cases "load_key toy_registry (toy_ref 1)") auto
  show thesis
  proof (rule that)
    show "?t = Inr (e, toy_compromised)" using t by (simp add: toy_compromised_def)
    show "\<forall>x \<in> set (krg_events toy_registry). kev_event_id x \<noteq> kev_event_id e" using f(2) t by (auto simp: list_ex_iff)
    show "\<forall>x \<in> set (key_events toy_registry (toy_ref 1)). kev_effective_at x < 5 \<and> \<not> is_compromise x" using f(3) by (auto simp: list_all_iff)
    show "load_key toy_registry (toy_ref 1) = Inr r" by (rule r)
    show "signature_valid toy_codec r ''m'' ''m''" "in_window r 3" "in_window r 9" using f(4) r by auto
    show "state_at toy_registry (toy_ref 1) 3 \<noteq> None" using f(5) by (auto simp: Option.is_none_def)
  qed
qed

theorem signatures_after_compromise_accepted_witness:
  "svr_accepted (verify_signature toy_codec toy_compromised (toy_ref 1) ''m'' ''m'' 9 9 True (Some 100)) \<and>
   svr_key_state_at_observation (verify_signature toy_codec toy_compromised (toy_ref 1) ''m'' ''m'' 9 9 True (Some 100)) = Some KS_COMPROMISED"
proof (rule toy_compromise)
  fix e r
  assume t: "key_transition key_library (toy_ref 1) KA_CONFIRM_COMPROMISE 5 toy_gov (Some 7) toy_registry = Inr (e, toy_compromised)"
    "\<forall>x \<in> set (krg_events toy_registry). kev_event_id x \<noteq> kev_event_id e"
    "\<forall>x \<in> set (key_events toy_registry (toy_ref 1)). kev_effective_at x < 5 \<and> \<not> is_compromise x" "load_key toy_registry (toy_ref 1) = Inr r"
    and ok: "signature_valid toy_codec r ''m'' ''m''" "in_window r 9"
  have "\<forall>x \<in> set (key_events toy_registry (toy_ref 1)). kev_effective_at x < 5" using t(3) by blast
  from signatures_after_compromise_accepted[OF t(1) _ t(2) this _ t(4) ok, of 9 "Some 100"] show ?thesis by simp
qed

text \<open>
  The guard against reactivating a compromised key can be walked around. In any registry with a compromised
  generation, activating it raises; but retiring it first succeeds, and activating it after that succeeds too, so
  two ordinary transitions make the compromised generation active again.
\<close>

theorem compromise_can_be_laundered:
  assumes "find_key reg ref = Some (r, KS_COMPROMISED)" "0 < fst (snd ref)"
    "\<not> blank (gov_actor gov)" "\<not> blank (gov_reason gov)" "\<not> blank (gov_policy_version gov)"
  shows "key_transition lib ref KA_ACTIVATE t' gov None reg = Inl (ValueError ''a compromised generation cannot be reactivated'') \<and>
    (\<exists>e1 reg1 e2 reg2. key_transition lib ref KA_RETIRE t gov None reg = Inr (e1, reg1) \<and>
      key_transition lib ref KA_ACTIVATE t' gov None reg1 = Inr (e2, reg2) \<and> load_key reg2 ref = Inr (r\<lparr>kid_state := KS_ACTIVE\<rparr>))"
proof -
  have fm: "find_key (set_current_state ref st reg) ref = map_option (\<lambda>(r, s). (r, st)) (find_key reg ref)" for st reg
  proof -
    have "find (\<lambda>r. key_ref_of (fst r) = ref) (map (\<lambda>(r, s). if key_ref_of r = ref then (r, st) else (r, s)) xs) =
        map_option (\<lambda>(r, s). (r, st)) (find (\<lambda>r. key_ref_of (fst r) = ref) xs)" for xs :: "(KeyIdentityRecord \<times> KeyState) list"
      by (induction xs) auto
    then show ?thesis by (simp add: find_key_def set_current_state_def)
  qed
  have step: "\<exists>e reg'. key_transition lib ref ac tt gov None rg = Inr (e, reg') \<and> find_key reg' ref = Some (r, action_to_state ac)"
    if "find_key rg ref = Some (r, st)" "st \<noteq> KS_COMPROMISED \<or> ac = KA_RETIRE" for rg st ac tt
  proof -
    obtain e rg1 where a: "append_key_event lib ref ac (Some st) (action_to_state ac) tt gov None rg = Inr (e, rg1)" "krg_identities rg1 = krg_identities rg"
      using assms(2-5) by (auto simp: append_key_event_def Let_def)
    have "find_key rg1 ref = find_key rg ref" by (simp add: find_key_def a(2))
    then show ?thesis using that a(1) by (auto simp: key_transition_def transition_locked_def load_key_def fm)
  qed
  obtain e1 reg1 where r1: "key_transition lib ref KA_RETIRE t gov None reg = Inr (e1, reg1)" "find_key reg1 ref = Some (r, KS_RETIRED)"
    using step[OF assms(1), of KA_RETIRE t] by auto
  obtain e2 reg2 where r2: "key_transition lib ref KA_ACTIVATE t' gov None reg1 = Inr (e2, reg2)" "find_key reg2 ref = Some (r, KS_ACTIVE)"
    using step[OF r1(2), of KA_ACTIVATE t'] by auto
  have "key_transition lib ref KA_ACTIVATE t' gov None reg = Inl (ValueError ''a compromised generation cannot be reactivated'')"
    by (simp add: key_transition_def transition_locked_def load_key_def assms(1))
  then show ?thesis using r1(1) r2 by (auto simp: load_key_def)
qed

end
