(* ===== verification/Secrets.thy ===== *)
theory Secrets
  imports Library_Model
begin

text \<open>
  The secret registry, \<^verbatim>\<open>SecretRegistry\<close> of \<^verbatim>\<open>src/src/sentinel_edge/security/secrets.py\<close>: metadata rows and events in the
  database, secret bytes, handles and the generation epoch in the memory of the process.

  A handle identifier (\<^verbatim>\<open>uuid4\<close>) and the clock readings are arguments. An operation that can raise after it has
  changed the registry returns the outcome and the registry it leaves; the others return the new registry with the
  value, or the exception.
\<close>

section \<open>State\<close>

text \<open>A row of \<^verbatim>\<open>secret_references\<close> is its key, the column \<^verbatim>\<open>metadata_sha256\<close> and the payload.\<close>

record secret_row =
  srw_key :: string
  srw_digest :: string
  srw_payload :: SecretReference

record secret_event =
  sev_event_id :: uuid
  sev_reference_id :: string
  sev_version :: int
  sev_state :: SecretState
  sev_actor :: string
  sev_reason :: string
  sev_created_at :: datetime

record secret_registry =
  srg_maximum_handle_seconds :: int
  srg_references :: "secret_row list"
  srg_rotations :: "(string \<times> SecretRotationPlan) list"
  srg_events :: "secret_event list"
  srg_values :: "(string \<times> string) list"
  srg_handles :: "(uuid \<times> SecretHandle) list"
  srg_epoch :: int

definition secret_registry_init :: "int \<Rightarrow> secret_registry" where
  "secret_registry_init maximum_handle_seconds =
     \<lparr>srg_maximum_handle_seconds = maximum_handle_seconds, srg_references = [], srg_rotations = [], srg_events = [], srg_values = [],
      srg_handles = [], srg_epoch = 1\<rparr>"

text \<open>A new process on the same database: the constructor keeps the tables and starts with empty dictionaries.\<close>

definition secret_registry_reopen :: "int \<Rightarrow> secret_registry \<Rightarrow> secret_registry" where
  "secret_registry_reopen maximum_handle_seconds reg =
     reg\<lparr>srg_maximum_handle_seconds := maximum_handle_seconds, srg_values := [], srg_handles := [], srg_epoch := 1\<rparr>"

section \<open>Metadata\<close>

abbreviation reference_key :: "SecretReference \<Rightarrow> string" where
  "reference_key ref \<equiv> secret_key (scr_reference_id ref) (scr_version ref)"

definition metadata_digest :: "library \<Rightarrow> SecretReference \<Rightarrow> string" where
  "metadata_digest lib ref = value_digest lib (V_secret ref)"

definition find_secret :: "secret_registry \<Rightarrow> string \<Rightarrow> secret_row option" where
  "find_secret reg key = find (\<lambda>r. srw_key r = key) (srg_references reg)"

definition load_secret :: "secret_registry \<Rightarrow> string \<Rightarrow> SecretReference result" where
  "load_secret reg key =
     (case find_secret reg key of
        None \<Rightarrow> Inl (KeyError key)
      | Some r \<Rightarrow> bind_result (validate_secret_reference (srw_payload r)) (\<lambda>_. Inr (srw_payload r)))"

definition secret_snapshot :: "library \<Rightarrow> secret_registry \<Rightarrow> string \<Rightarrow> SecretMetadataSnapshot result" where
  "secret_snapshot lib reg key = bind_result (load_secret reg key) (\<lambda>ref. Inr
     \<lparr>sms_reference_id = scr_reference_id ref, sms_version = scr_version ref, sms_owner_module = scr_owner_module ref,
      sms_purpose = scr_purpose ref, sms_policy_version = scr_policy_version ref, sms_state = scr_state ref,
      sms_valid_from = scr_valid_from ref, sms_valid_until = scr_valid_until ref, sms_metadata_sha256 = metadata_digest lib ref\<rparr>)"

fun collect_snapshots :: "library \<Rightarrow> secret_registry \<Rightarrow> string list \<Rightarrow> SecretMetadataSnapshot list result" where
  "collect_snapshots lib reg [] = Inr []"
| "collect_snapshots lib reg (k # ks) =
     bind_result (secret_snapshot lib reg k) (\<lambda>s. bind_result (collect_snapshots lib reg ks) (\<lambda>ss. Inr (s # ss)))"

definition secret_metadata :: "library \<Rightarrow> secret_registry \<Rightarrow> SecretMetadataSnapshot list result" where
  "secret_metadata lib reg = collect_snapshots lib reg
     (map srw_key (sort_key (\<lambda>r. (scr_reference_id (srw_payload r), scr_version (srw_payload r))) (srg_references reg)))"

definition record_secret_event :: "library \<Rightarrow> SecretReference \<Rightarrow> string \<Rightarrow> string \<Rightarrow> datetime \<Rightarrow> secret_registry \<Rightarrow> secret_registry" where
  "record_secret_event lib ref actor reason created_at reg =
     (let event_id = lib_uuid5 lib (''sentinel-secret-event:'' @ digest lib (JObj
            [(''reference_id'', JStr (scr_reference_id ref)), (''version'', JInt (scr_version ref)),
             (''state'', JStr (SecretState_value (scr_state ref))), (''actor'', JStr actor), (''reason'', JStr reason),
             (''created_at'', JStr (lib_isoformat lib created_at))]));
          event = \<lparr>sev_event_id = event_id, sev_reference_id = scr_reference_id ref, sev_version = scr_version ref,
            sev_state = scr_state ref, sev_actor = actor, sev_reason = reason, sev_created_at = created_at\<rparr>
      in if \<exists>e \<in> set (srg_events reg). sev_event_id e = event_id then reg else reg\<lparr>srg_events := srg_events reg @ [event]\<rparr>)"

section \<open>Registration, transitions and rotation\<close>

text \<open>\<^verbatim>\<open>INSERT OR IGNORE\<close>: the row is dropped when its key or its pair of reference and version is present.\<close>

definition insert_secret :: "library \<Rightarrow> SecretReference \<Rightarrow> secret_registry \<Rightarrow> secret_registry" where
  "insert_secret lib ref reg =
     (if \<exists>r \<in> set (srg_references reg). srw_key r = reference_key ref \<or>
          (scr_reference_id (srw_payload r) = scr_reference_id ref \<and> scr_version (srw_payload r) = scr_version ref)
      then reg
      else reg\<lparr>srg_references := srg_references reg @ [\<lparr>srw_key = reference_key ref, srw_digest = metadata_digest lib ref, srw_payload = ref\<rparr>]\<rparr>)"

definition register_secret :: "library \<Rightarrow> SecretReference \<Rightarrow> string \<Rightarrow> string \<Rightarrow> datetime \<Rightarrow> secret_registry \<Rightarrow>
    (SecretMetadataSnapshot \<times> secret_registry) result" where
  "register_secret lib ref bytes actor clock reg =
     bind_result (validate_secret_reference ref) (\<lambda>_.
       if bytes = [] then Inl (ValueError ''secret value must not be empty'')
       else if (case find_secret reg (reference_key ref) of None \<Rightarrow> False | Some r \<Rightarrow> srw_digest r \<noteq> metadata_digest lib ref)
       then Inl (ValueError ''secret reference identity conflict'')
       else
         let reg1 = insert_secret lib ref reg;
             reg2 = reg1\<lparr>srg_values := AList.update (reference_key ref) bytes (srg_values reg1)\<rparr>;
             reg3 = record_secret_event lib ref actor ''registered'' clock reg2
         in bind_result (secret_snapshot lib reg3 (reference_key ref)) (\<lambda>s. Inr (s, reg3)))"

fun withdrawn :: "SecretState \<Rightarrow> bool" where
  "withdrawn SX_STAGED = False"
| "withdrawn SX_ACTIVE = False"
| "withdrawn SX_OVERLAP = False"
| "withdrawn SX_REVOKED = True"
| "withdrawn SX_COMPROMISED = True"
| "withdrawn SX_EXPIRED = True"
| "withdrawn SX_UNAVAILABLE = True"

definition update_secret :: "library \<Rightarrow> string \<Rightarrow> SecretReference \<Rightarrow> secret_registry \<Rightarrow> secret_registry" where
  "update_secret lib key ref reg =
     reg\<lparr>srg_references := map (\<lambda>r. if srw_key r = key then r\<lparr>srw_digest := metadata_digest lib ref, srw_payload := ref\<rparr> else r) (srg_references reg)\<rparr>"

definition drop_secret :: "string \<Rightarrow> secret_registry \<Rightarrow> secret_registry" where
  "drop_secret key reg = reg\<lparr>srg_values := AList.delete key (srg_values reg), srg_epoch := srg_epoch reg + 1, srg_handles := []\<rparr>"

definition transition_secret :: "library \<Rightarrow> string \<Rightarrow> SecretState \<Rightarrow> string \<Rightarrow> string \<Rightarrow> datetime \<Rightarrow> secret_registry \<Rightarrow>
    (SecretMetadataSnapshot \<times> secret_registry) result" where
  "transition_secret lib key st actor reason clock reg =
     bind_result (load_secret reg key) (\<lambda>cur.
       let ref = cur\<lparr>scr_state := st\<rparr>;
           reg1 = update_secret lib key ref reg;
           reg2 = (if withdrawn st then drop_secret key reg1 else reg1);
           reg3 = record_secret_event lib ref actor reason clock reg2
       in bind_result (secret_snapshot lib reg3 key) (\<lambda>s. Inr (s, reg3)))"

definition plan_rotation :: "library \<Rightarrow> SecretRotationPlan \<Rightarrow> secret_registry \<Rightarrow> (string \<times> secret_registry) result" where
  "plan_rotation lib plan reg =
     bind_result (validate_rotation_plan plan) (\<lambda>_.
     bind_result (load_secret reg (secret_key (rpl_reference_id plan) (rpl_old_version plan))) (\<lambda>old.
     bind_result (load_secret reg (secret_key (rpl_reference_id plan) (rpl_new_version plan))) (\<lambda>new.
       if scr_owner_module old \<noteq> scr_owner_module new \<or> scr_purpose old \<noteq> scr_purpose new
       then Inl (ValueError ''rotation versions must preserve owner and purpose'')
       else
         let plan_id = lib_uuid5 lib (''sentinel-secret-rotation:'' @ value_digest lib (V_rotation plan))
         in Inr (plan_id, if map_of (srg_rotations reg) plan_id \<noteq> None then reg else reg\<lparr>srg_rotations := srg_rotations reg @ [(plan_id, plan)]\<rparr>))))"

definition rotation_states :: "SecretRotationPlan \<Rightarrow> datetime \<Rightarrow> SecretState \<times> SecretState" where
  "rotation_states plan now =
     (if now < rpl_overlap_starts_at plan then (SX_ACTIVE, SX_STAGED)
      else if now < rpl_cutover_at plan then (SX_OVERLAP, SX_OVERLAP)
      else if now < rpl_overlap_ends_at plan then (SX_OVERLAP, SX_ACTIVE)
      else (SX_REVOKED, SX_ACTIVE))"

definition renew_epoch :: "secret_registry \<Rightarrow> secret_registry" where
  "renew_epoch reg = reg\<lparr>srg_epoch := srg_epoch reg + 1, srg_handles := []\<rparr>"

text \<open>The two transitions read the clock at \<open>c1\<close> and \<open>c2\<close>; the first one stands when the second one raises.\<close>

definition apply_rotation :: "library \<Rightarrow> string \<Rightarrow> datetime \<Rightarrow> string \<Rightarrow> datetime \<Rightarrow> datetime \<Rightarrow> secret_registry \<Rightarrow>
    (SecretState \<times> SecretState) result \<times> secret_registry" where
  "apply_rotation lib plan_id now actor c1 c2 reg =
     (case map_of (srg_rotations reg) plan_id of
        None \<Rightarrow> (Inl (KeyError plan_id), reg)
      | Some plan \<Rightarrow>
          (case validate_rotation_plan plan of
             Inl e \<Rightarrow> (Inl e, reg)
           | Inr _ \<Rightarrow>
               (case transition_secret lib (secret_key (rpl_reference_id plan) (rpl_old_version plan)) (fst (rotation_states plan now))
                   actor (''rotation:'' @ plan_id) c1 reg of
                  Inl e \<Rightarrow> (Inl e, reg)
                | Inr (_, reg1) \<Rightarrow>
                    (case transition_secret lib (secret_key (rpl_reference_id plan) (rpl_new_version plan)) (snd (rotation_states plan now))
                        actor (''rotation:'' @ plan_id) c2 reg1 of
                       Inl e \<Rightarrow> (Inl e, reg1)
                     | Inr (_, reg2) \<Rightarrow> (Inr (rotation_states plan now), renew_epoch reg2)))))"

section \<open>Handles\<close>

definition handle_for :: "secret_registry \<Rightarrow> uuid \<Rightarrow> string \<Rightarrow> SecretReference \<Rightarrow> string \<Rightarrow> string \<Rightarrow> datetime \<Rightarrow> int \<Rightarrow> SecretHandle" where
  "handle_for reg handle_id key ref requesting_module purpose now lifetime_seconds =
     \<lparr>shd_handle_id = handle_id, shd_reference_key = key, shd_owner_module = requesting_module, shd_purpose = purpose,
      shd_issued_at = now, shd_expires_at = min (now + lifetime_seconds * 1000000) (scr_valid_until ref),
      shd_generation_epoch = srg_epoch reg\<rparr>"

definition resolve_secret :: "uuid \<Rightarrow> string \<Rightarrow> string \<Rightarrow> string \<Rightarrow> datetime \<Rightarrow> int \<Rightarrow> secret_registry \<Rightarrow> (SecretHandle \<times> secret_registry) result" where
  "resolve_secret handle_id key requesting_module purpose now lifetime_seconds reg =
     (if lifetime_seconds \<le> 0 \<or> srg_maximum_handle_seconds reg < lifetime_seconds
      then Inl (ValueError ''secret handle lifetime is outside policy'')
      else bind_result (load_secret reg key) (\<lambda>ref.
        if requesting_module \<noteq> scr_owner_module ref \<or> purpose \<noteq> scr_purpose ref
        then Inl (PermissionError ''module or purpose is not authorized for this secret'')
        else if \<not> (scr_valid_from ref \<le> now \<and> now < scr_valid_until ref)
        then Inl (PermissionError ''secret reference is outside its validity window'')
        else if scr_state ref \<notin> {SX_ACTIVE, SX_OVERLAP}
        then Inl (PermissionError (''secret reference is not available: '' @ SecretState_value (scr_state ref)))
        else if map_of (srg_values reg) key = None then Inl (PermissionError ''secret bytes are unavailable in this process'')
        else
          let handle = handle_for reg handle_id key ref requesting_module purpose now lifetime_seconds
          in Inr (handle, reg\<lparr>srg_handles := AList.update handle_id handle (srg_handles reg)\<rparr>)))"

definition read_secret :: "SecretHandle \<Rightarrow> datetime \<Rightarrow> secret_registry \<Rightarrow> string result \<times> secret_registry" where
  "read_secret handle now reg =
     (if map_of (srg_handles reg) (shd_handle_id handle) \<noteq> Some handle \<or> shd_generation_epoch handle \<noteq> srg_epoch reg
      then (Inl (PermissionError ''secret handle is stale or unknown''), reg)
      else if shd_expires_at handle \<le> now
      then (Inl (PermissionError ''secret handle expired''), reg\<lparr>srg_handles := AList.delete (shd_handle_id handle) (srg_handles reg)\<rparr>)
      else (case map_of (srg_values reg) (shd_reference_key handle) of
              None \<Rightarrow> (Inl (PermissionError ''secret bytes are unavailable''), reg)
            | Some v \<Rightarrow> (Inr v, reg)))"

record secret_capability =
  scp_reference :: string
  scp_owner_module :: string
  scp_purpose :: string
  scp_state :: string
  scp_reason_codes :: "string list"
  scp_local_physical_monitoring_affected :: bool

definition capability_state :: "secret_registry \<Rightarrow> string \<Rightarrow> datetime \<Rightarrow> secret_capability result" where
  "capability_state reg key now =
     bind_result (load_secret reg key) (\<lambda>ref.
       let verdict = (if scr_valid_until ref \<le> now then (''degraded'', [''credential_expired''])
             else if withdrawn (scr_state ref) then (''degraded'', [''credential_'' @ SecretState_value (scr_state ref)])
             else if map_of (srg_values reg) key = None then (''degraded'', [''credential_bytes_unavailable''])
             else (''healthy'', []))
       in Inr \<lparr>scp_reference = key, scp_owner_module = scr_owner_module ref, scp_purpose = scr_purpose ref, scp_state = fst verdict,
            scp_reason_codes = snd verdict, scp_local_physical_monitoring_affected = False\<rparr>)"

end
