(* ===== verification/Secret_Claims.thy ===== *)
theory Secret_Claims
  imports Secrets
begin

text \<open>
  The secret registry: what a readable handle guarantees, that a withdrawal or a rotation ends every handle issued
  before it for the rest of the process, and that a rotation clears the mark of a compromise.
\<close>

section \<open>Leases under an epoch\<close>

text \<open>
  A store whose leases are stamped with its epoch: no step lowers the epoch, a lease is usable only at its own epoch,
  and a revoking step raises the epoch.
\<close>

locale epoch_leases =
  fixes step :: "'s \<Rightarrow> 's \<Rightarrow> bool"
    and epoch :: "'s \<Rightarrow> int"
    and stamp :: "'h \<Rightarrow> int"
    and usable :: "'s \<Rightarrow> 'h \<Rightarrow> bool"
    and revoking :: "'s \<Rightarrow> 's \<Rightarrow> bool"
  assumes step_mono: "step s t \<Longrightarrow> epoch s \<le> epoch t"
    and usable_stamp: "usable s h \<Longrightarrow> stamp h = epoch s"
    and revoking_raises: "revoking s t \<Longrightarrow> epoch s < epoch t"
begin

lemma run_mono: "step\<^sup>*\<^sup>* s t \<Longrightarrow> epoch s \<le> epoch t"
  by (induction rule: rtranclp_induct) (auto dest: step_mono)

lemma revoked_for_good:
  assumes "stamp h = epoch s" "step\<^sup>*\<^sup>* s s1" "revoking s1 s2" "step\<^sup>*\<^sup>* s2 s3"
  shows "stamp h < epoch s3" "\<not> usable s3 h"
proof -
  show "stamp h < epoch s3" using assms(1) run_mono[OF assms(2)] revoking_raises[OF assms(3)] run_mono[OF assms(4)] by simp
  then show "\<not> usable s3 h" using usable_stamp by fastforce
qed

end

section \<open>Steps of the registry\<close>

inductive secret_step :: "library \<Rightarrow> secret_registry \<Rightarrow> secret_registry \<Rightarrow> bool" for lib where
  ss_register: "register_secret lib ref bytes actor clock reg = Inr (s, reg') \<Longrightarrow> secret_step lib reg reg'"
| ss_transition: "transition_secret lib key st actor reason clock reg = Inr (s, reg') \<Longrightarrow> secret_step lib reg reg'"
| ss_plan: "plan_rotation lib plan reg = Inr (pid, reg') \<Longrightarrow> secret_step lib reg reg'"
| ss_rotate: "apply_rotation lib pid now actor c1 c2 reg = (r, reg') \<Longrightarrow> secret_step lib reg reg'"
| ss_resolve: "resolve_secret hid key m p now life reg = Inr (h, reg') \<Longrightarrow> secret_step lib reg reg'"
| ss_read: "read_secret h now reg = (v, reg') \<Longrightarrow> secret_step lib reg reg'"

inductive secret_reachable :: "library \<Rightarrow> secret_registry \<Rightarrow> bool" for lib where
  sr_init: "secret_reachable lib (secret_registry_init n)"
| sr_step: "secret_reachable lib reg \<Longrightarrow> secret_step lib reg reg' \<Longrightarrow> secret_reachable lib reg'"
| sr_reopen: "secret_reachable lib reg \<Longrightarrow> secret_reachable lib (secret_registry_reopen n reg)"

text \<open>A step that withdraws a secret, or applies a rotation.\<close>

definition secret_withdrawal :: "library \<Rightarrow> secret_registry \<Rightarrow> secret_registry \<Rightarrow> bool" where
  "secret_withdrawal lib reg reg' \<longleftrightarrow>
     (\<exists>key st actor reason clock s. withdrawn st \<and> transition_secret lib key st actor reason clock reg = Inr (s, reg')) \<or>
     (\<exists>pid now actor c1 c2 x. apply_rotation lib pid now actor c1 c2 reg = (Inr x, reg'))"

section \<open>Effects of the operations\<close>

lemma record_secret_event_simps [simp]:
  "srg_references (record_secret_event lib ref a r c reg) = srg_references reg"
  "srg_values (record_secret_event lib ref a r c reg) = srg_values reg"
  "srg_handles (record_secret_event lib ref a r c reg) = srg_handles reg"
  "srg_epoch (record_secret_event lib ref a r c reg) = srg_epoch reg"
  "srg_rotations (record_secret_event lib ref a r c reg) = srg_rotations reg"
  "srg_maximum_handle_seconds (record_secret_event lib ref a r c reg) = srg_maximum_handle_seconds reg"
  by (simp_all add: record_secret_event_def Let_def)

lemma insert_secret_simps [simp]:
  "srg_values (insert_secret lib ref reg) = srg_values reg"
  "srg_handles (insert_secret lib ref reg) = srg_handles reg"
  "srg_epoch (insert_secret lib ref reg) = srg_epoch reg"
  "srg_rotations (insert_secret lib ref reg) = srg_rotations reg"
  "srg_maximum_handle_seconds (insert_secret lib ref reg) = srg_maximum_handle_seconds reg"
  by (simp_all add: insert_secret_def)

lemma update_secret_simps [simp]:
  "srg_values (update_secret lib k ref reg) = srg_values reg"
  "srg_handles (update_secret lib k ref reg) = srg_handles reg"
  "srg_epoch (update_secret lib k ref reg) = srg_epoch reg"
  "srg_rotations (update_secret lib k ref reg) = srg_rotations reg"
  "srg_maximum_handle_seconds (update_secret lib k ref reg) = srg_maximum_handle_seconds reg"
  by (simp_all add: update_secret_def)

lemma drop_secret_simps [simp]:
  "srg_references (drop_secret k reg) = srg_references reg"
  "srg_values (drop_secret k reg) = AList.delete k (srg_values reg)"
  "srg_handles (drop_secret k reg) = []"
  "srg_epoch (drop_secret k reg) = srg_epoch reg + 1"
  "srg_rotations (drop_secret k reg) = srg_rotations reg"
  "srg_maximum_handle_seconds (drop_secret k reg) = srg_maximum_handle_seconds reg"
  by (simp_all add: drop_secret_def)

lemma find_secret_references: "srg_references reg = srg_references reg' \<Longrightarrow> find_secret reg = find_secret reg'"
  by (simp add: find_secret_def fun_eq_iff)

lemma load_secret_references: "srg_references reg = srg_references reg' \<Longrightarrow> load_secret reg = load_secret reg'"
  using find_secret_references[of reg reg'] by (simp only: load_secret_def fun_eq_iff) simp

lemma find_map_key:
  "(\<And>r. srw_key (f r) = srw_key r) \<Longrightarrow> find (\<lambda>r. srw_key r = k) (map f xs) = map_option f (find (\<lambda>r. srw_key r = k) xs)"
  for f :: "secret_row \<Rightarrow> secret_row"
  by (induction xs) auto

lemma find_secret_update:
  "find_secret (update_secret lib key ref reg) k =
     (if k = key then map_option (\<lambda>r. r\<lparr>srw_digest := metadata_digest lib ref, srw_payload := ref\<rparr>) (find_secret reg k) else find_secret reg k)"
proof -
  let ?f = "\<lambda>r. if srw_key r = key then r\<lparr>srw_digest := metadata_digest lib ref, srw_payload := ref\<rparr> else r"
  have "find_secret (update_secret lib key ref reg) k = map_option ?f (find_secret reg k)"
    by (simp add: find_secret_def update_secret_def find_map_key[of ?f])
  moreover have "find_secret reg k = Some r \<Longrightarrow> srw_key r = k" for r by (auto simp: find_secret_def find_Some_iff)
  ultimately show ?thesis by (cases "find_secret reg k") auto
qed

lemma find_secret_insert: "find_secret reg k = Some r \<Longrightarrow> find_secret (insert_secret lib ref reg) k = Some r"
  by (simp add: find_secret_def insert_secret_def find_snoc)

lemma validate_secret_state [simp]: "validate_secret_reference (ref\<lparr>scr_state := st\<rparr>) = validate_secret_reference ref"
  by (simp add: validate_secret_reference_def)

lemma load_secret_find: "load_secret reg k = Inr ref \<longleftrightarrow> (\<exists>r. find_secret reg k = Some r \<and> srw_payload r = ref \<and> is_ok (validate_secret_reference ref))"
  by (auto simp: load_secret_def bind_result_def is_ok_def split: option.splits sum.splits)

text \<open>What a transition leaves.\<close>

lemma transition_secret_step:
  assumes "transition_secret lib key st actor reason clock reg = Inr (s, reg')"
  obtains cur where "load_secret reg key = Inr cur" "load_secret reg' key = Inr (cur\<lparr>scr_state := st\<rparr>)"
    "find_secret reg' = find_secret (update_secret lib key (cur\<lparr>scr_state := st\<rparr>) reg)"
    "\<And>k. k \<noteq> key \<Longrightarrow> find_secret reg' k = find_secret reg k"
    "srg_values reg' = (if withdrawn st then AList.delete key (srg_values reg) else srg_values reg)"
    "srg_handles reg' = (if withdrawn st then [] else srg_handles reg)"
    "srg_epoch reg' = (if withdrawn st then srg_epoch reg + 1 else srg_epoch reg)"
    "srg_rotations reg' = srg_rotations reg" "srg_maximum_handle_seconds reg' = srg_maximum_handle_seconds reg"
proof -
  obtain cur where cur: "load_secret reg key = Inr cur" using assms by (auto simp: transition_secret_def bind_result_Inr)
  let ?ref = "cur\<lparr>scr_state := st\<rparr>"
  let ?upd = "update_secret lib key ?ref reg"
  have reg': "reg' = record_secret_event lib ?ref actor reason clock (if withdrawn st then drop_secret key ?upd else ?upd)"
    using assms cur by (auto simp: transition_secret_def bind_result_Inr Let_def)
  have f: "find_secret reg' = find_secret ?upd" by (rule find_secret_references) (simp add: reg')
  have "load_secret reg' key = Inr ?ref" using cur by (auto simp: load_secret_find f find_secret_update)
  then show thesis using cur f find_secret_update[of lib key ?ref reg] by (intro that[of cur]) (simp_all add: reg')
qed

lemma transition_secret_load:
  assumes "transition_secret lib key st actor reason clock reg = Inr (s, reg')" "load_secret reg k = Inr ref"
  obtains ref' where "load_secret reg' k = Inr ref'" "ref' = (if k = key then ref\<lparr>scr_state := st\<rparr> else ref)"
proof (rule transition_secret_step[OF assms(1)])
  fix cur
  assume c: "load_secret reg key = Inr cur" "load_secret reg' key = Inr (cur\<lparr>scr_state := st\<rparr>)" "\<And>k. k \<noteq> key \<Longrightarrow> find_secret reg' k = find_secret reg k"
  show thesis
  proof (cases "k = key")
    case True
    with c(1,2) assms(2) show thesis by (intro that[of "ref\<lparr>scr_state := st\<rparr>"]) simp_all
  next
    case False
    with c(3)[of k] assms(2) show thesis by (intro that[of ref]) (simp_all add: load_secret_find)
  qed
qed

lemma register_secret_step:
  assumes "register_secret lib ref bytes actor clock reg = Inr (s, reg')"
  shows "find_secret reg' = find_secret (insert_secret lib ref reg)" "srg_values reg' = AList.update (reference_key ref) bytes (srg_values reg)"
    "srg_handles reg' = srg_handles reg" "srg_epoch reg' = srg_epoch reg" "srg_maximum_handle_seconds reg' = srg_maximum_handle_seconds reg"
    "srg_references reg' = srg_references (insert_secret lib ref reg)" "is_ok (validate_secret_reference ref)"
proof -
  have reg': "reg' = record_secret_event lib ref actor ''registered'' clock
      ((insert_secret lib ref reg)\<lparr>srg_values := AList.update (reference_key ref) bytes (srg_values reg)\<rparr>)"
    using assms by (auto simp: register_secret_def bind_result_Inr Let_def split: if_splits)
  show "find_secret reg' = find_secret (insert_secret lib ref reg)" by (rule find_secret_references) (simp add: reg')
  show "is_ok (validate_secret_reference ref)" using assms by (auto simp: register_secret_def bind_result_Inr)
  show "srg_values reg' = AList.update (reference_key ref) bytes (srg_values reg)" "srg_handles reg' = srg_handles reg" "srg_epoch reg' = srg_epoch reg"
    "srg_maximum_handle_seconds reg' = srg_maximum_handle_seconds reg" "srg_references reg' = srg_references (insert_secret lib ref reg)"
    by (simp_all add: reg')
qed

text \<open>An applied rotation is one transition, or two transitions and a new epoch.\<close>

lemma apply_rotation_cases:
  assumes "apply_rotation lib pid now actor c1 c2 reg = (r, reg')"
  obtains (none) e where "r = Inl e" "reg' = reg"
  | (half) e plan s where "r = Inl e" "transition_secret lib (secret_key (rpl_reference_id plan) (rpl_old_version plan)) (fst (rotation_states plan now)) actor (''rotation:'' @ pid) c1 reg = Inr (s, reg')"
  | (full) plan s1 s2 reg1 reg2 where "r = Inr (rotation_states plan now)" "map_of (srg_rotations reg) pid = Some plan" "is_ok (validate_rotation_plan plan)"
      "transition_secret lib (secret_key (rpl_reference_id plan) (rpl_old_version plan)) (fst (rotation_states plan now)) actor (''rotation:'' @ pid) c1 reg = Inr (s1, reg1)"
      "transition_secret lib (secret_key (rpl_reference_id plan) (rpl_new_version plan)) (snd (rotation_states plan now)) actor (''rotation:'' @ pid) c2 reg1 = Inr (s2, reg2)"
      "reg' = renew_epoch reg2"
proof (cases "map_of (srg_rotations reg) pid")
  case None
  with assms show thesis by (intro none) (auto simp: apply_rotation_def)
next
  case (Some plan)
  let ?t1 = "transition_secret lib (secret_key (rpl_reference_id plan) (rpl_old_version plan)) (fst (rotation_states plan now)) actor (''rotation:'' @ pid) c1 reg"
  let ?t2 = "\<lambda>reg1. transition_secret lib (secret_key (rpl_reference_id plan) (rpl_new_version plan)) (snd (rotation_states plan now)) actor (''rotation:'' @ pid) c2 reg1"
  show thesis
  proof (cases "validate_rotation_plan plan")
    case (Inl e)
    with Some assms show thesis by (intro none[of e]) (simp_all add: apply_rotation_def)
  next
    case v: (Inr u)
    show thesis
    proof (cases ?t1)
      case (Inl e)
      with Some v assms show thesis by (intro none[of e]) (simp_all add: apply_rotation_def)
    next
      case t1: (Inr p)
      obtain s1 reg1 where p: "p = (s1, reg1)" by (cases p)
      show thesis
      proof (cases "?t2 reg1")
        case (Inl e)
        with Some v t1 p assms show thesis by (intro half[of e plan s1]) (simp_all add: apply_rotation_def)
      next
        case t2: (Inr q)
        obtain s2 reg2 where "q = (s2, reg2)" by (cases q)
        with Some v t1 t2 p assms show thesis by (intro full[of plan s1 reg1 s2 reg2]) (simp_all add: apply_rotation_def)
      qed
    qed
  qed
qed

section \<open>Epochs\<close>

lemma transition_epoch: "transition_secret lib key st actor reason clock reg = Inr (s, reg') \<Longrightarrow> srg_epoch reg' = (if withdrawn st then srg_epoch reg + 1 else srg_epoch reg)"
  by (erule transition_secret_step)

lemma transition_maximum: "transition_secret lib key st actor reason clock reg = Inr (s, reg') \<Longrightarrow> srg_maximum_handle_seconds reg' = srg_maximum_handle_seconds reg"
  by (erule transition_secret_step)

lemma apply_rotation_epoch:
  assumes "apply_rotation lib pid now actor c1 c2 reg = (r, reg')"
  shows "srg_epoch reg \<le> srg_epoch reg'" "is_ok r \<Longrightarrow> srg_epoch reg < srg_epoch reg'"
  by (rule apply_rotation_cases[OF assms]; auto dest!: transition_epoch simp: renew_epoch_def split: if_splits)+

interpretation secret_leases: epoch_leases "secret_step lib" srg_epoch shd_generation_epoch "\<lambda>reg h. \<exists>now. is_ok (fst (read_secret h now reg))" "secret_withdrawal lib"
proof
  fix s t
  assume "secret_step lib s t"
  then show "srg_epoch s \<le> srg_epoch t"
    by cases (auto dest: transition_epoch apply_rotation_epoch register_secret_step(4)
      simp: plan_rotation_def resolve_secret_def read_secret_def bind_result_Inr Let_def split: if_splits option.splits)
next
  fix s h
  assume "\<exists>now. is_ok (fst (read_secret h now s))"
  then show "shd_generation_epoch h = srg_epoch s" by (auto simp: read_secret_def split: if_splits)
next
  fix s t
  assume "secret_withdrawal lib s t"
  then show "srg_epoch s < srg_epoch t" by (auto simp: secret_withdrawal_def dest: transition_epoch apply_rotation_epoch(2))
qed

section \<open>Invariant\<close>

definition handle_ok :: "secret_registry \<Rightarrow> SecretHandle \<Rightarrow> bool" where
  "handle_ok reg h \<longleftrightarrow> map_of (srg_values reg) (shd_reference_key h) \<noteq> None \<and>
     shd_issued_at h < shd_expires_at h \<and> shd_expires_at h \<le> shd_issued_at h + srg_maximum_handle_seconds reg * 1000000 \<and>
     (\<exists>ref. load_secret reg (shd_reference_key h) = Inr ref \<and> shd_owner_module h = scr_owner_module ref \<and> shd_purpose h = scr_purpose ref \<and>
        \<not> withdrawn (scr_state ref) \<and> scr_valid_from ref \<le> shd_issued_at h \<and> shd_expires_at h \<le> scr_valid_until ref)"

definition secret_ok :: "secret_registry \<Rightarrow> bool" where
  "secret_ok reg \<longleftrightarrow> (\<forall>k r. find_secret reg k = Some r \<longrightarrow> reference_key (srw_payload r) = k) \<and>
     (\<forall>i h. map_of (srg_handles reg) i = Some h \<longrightarrow> handle_ok reg h)"

lemma handle_ok_mono:
  assumes "handle_ok reg h" "srg_maximum_handle_seconds reg' = srg_maximum_handle_seconds reg"
    "\<And>k. map_of (srg_values reg) k \<noteq> None \<Longrightarrow> map_of (srg_values reg') k \<noteq> None"
    "\<And>k ref. load_secret reg k = Inr ref \<Longrightarrow> \<exists>st. load_secret reg' k = Inr (ref\<lparr>scr_state := st\<rparr>) \<and> (withdrawn st \<longrightarrow> withdrawn (scr_state ref))"
  shows "handle_ok reg' h"
proof -
  obtain ref where r: "load_secret reg (shd_reference_key h) = Inr ref" "shd_owner_module h = scr_owner_module ref" "shd_purpose h = scr_purpose ref"
    "\<not> withdrawn (scr_state ref)" "scr_valid_from ref \<le> shd_issued_at h" "shd_expires_at h \<le> scr_valid_until ref"
    using assms(1) unfolding handle_ok_def by blast
  obtain st where st: "load_secret reg' (shd_reference_key h) = Inr (ref\<lparr>scr_state := st\<rparr>)" "\<not> withdrawn st" using assms(4)[OF r(1)] r(4) by blast
  show ?thesis unfolding handle_ok_def assms(2)
    using assms(1) assms(3)[of "shd_reference_key h"] r st by (auto simp: handle_ok_def intro!: exI[of _ "ref\<lparr>scr_state := st\<rparr>"])
qed

lemma handle_ok_same:
  assumes "handle_ok reg h" "srg_references reg' = srg_references reg" "srg_values reg' = srg_values reg" "srg_maximum_handle_seconds reg' = srg_maximum_handle_seconds reg"
  shows "handle_ok reg' h"
  using assms(1) unfolding handle_ok_def assms(3,4) load_secret_references[OF assms(2)] .

lemma secret_ok_transition:
  assumes "secret_ok reg" "transition_secret lib key st actor reason clock reg = Inr (s, reg')"
  shows "secret_ok reg'"
proof (rule transition_secret_step[OF assms(2)])
  fix cur
  assume c: "load_secret reg key = Inr cur" "load_secret reg' key = Inr (cur\<lparr>scr_state := st\<rparr>)"
    "find_secret reg' = find_secret (update_secret lib key (cur\<lparr>scr_state := st\<rparr>) reg)"
    "\<And>k. k \<noteq> key \<Longrightarrow> find_secret reg' k = find_secret reg k"
    "srg_values reg' = (if withdrawn st then AList.delete key (srg_values reg) else srg_values reg)"
    "srg_handles reg' = (if withdrawn st then [] else srg_handles reg)" "srg_maximum_handle_seconds reg' = srg_maximum_handle_seconds reg"
  have keys: "reference_key (srw_payload r) = k" if "find_secret reg' k = Some r" for k r
    using that assms(1) c(1) by (auto simp: secret_ok_def c(3) find_secret_update load_secret_find split: if_splits)
  have "handle_ok reg' h" if "map_of (srg_handles reg') i = Some h" for i h
  proof -
    have h: "\<not> withdrawn st" "handle_ok reg h" using that assms(1) c(6) by (auto simp: secret_ok_def split: if_splits)
    show ?thesis
    proof (rule handle_ok_mono[OF h(2) c(7)])
      fix k ref
      assume l: "load_secret reg k = Inr ref"
      from transition_secret_load[OF assms(2) l] obtain ref' where "load_secret reg' k = Inr ref'" "ref' = (if k = key then ref\<lparr>scr_state := st\<rparr> else ref)" by blast
      then show "\<exists>st'. load_secret reg' k = Inr (ref\<lparr>scr_state := st'\<rparr>) \<and> (withdrawn st' \<longrightarrow> withdrawn (scr_state ref))"
        using h(1) by (intro exI[of _ "if k = key then st else scr_state ref"]) auto
    qed (use c(5) h(1) in simp)
  qed
  with keys show ?thesis by (auto simp: secret_ok_def)
qed

lemma secret_ok_same:
  assumes "secret_ok reg" "srg_references reg' = srg_references reg" "srg_values reg' = srg_values reg" "srg_maximum_handle_seconds reg' = srg_maximum_handle_seconds reg"
    "\<And>i h. map_of (srg_handles reg') i = Some h \<Longrightarrow> map_of (srg_handles reg) i = Some h"
  shows "secret_ok reg'"
  using assms(1,5) handle_ok_same[OF _ assms(2-4)] unfolding secret_ok_def find_secret_references[OF assms(2)] by blast

lemma secret_ok_register:
  assumes "secret_ok reg" "register_secret lib ref bytes actor clock reg = Inr (s, reg')"
  shows "secret_ok reg'"
proof -
  note r = register_secret_step[OF assms(2)]
  have keys: "reference_key (srw_payload x) = k" if "find_secret reg' k = Some x" for k x
  proof (cases "find_secret reg k")
    case (Some y)
    with find_secret_insert[OF Some, of lib ref] that r(1) assms(1) show ?thesis by (auto simp: secret_ok_def)
  next
    case None
    then show ?thesis using that by (auto simp: r(1) find_secret_def insert_secret_def find_snoc split: if_splits)
  qed
  have "handle_ok reg' h" if "map_of (srg_handles reg') i = Some h" for i h
  proof (rule handle_ok_mono[of reg])
    show "handle_ok reg h" using that assms(1) r(3) by (auto simp: secret_ok_def)
    fix k l
    assume "load_secret reg k = Inr l"
    then have "load_secret reg' k = Inr l" using find_secret_insert by (auto simp: load_secret_find r(1))
    then show "\<exists>st. load_secret reg' k = Inr (l\<lparr>scr_state := st\<rparr>) \<and> (withdrawn st \<longrightarrow> withdrawn (scr_state l))"
      by (intro exI[of _ "scr_state l"]) simp
  qed (simp_all add: r(2,5) update_conv')
  with keys show ?thesis by (auto simp: secret_ok_def)
qed

lemma secret_ok_resolve:
  assumes "secret_ok reg" "resolve_secret hid key m p now life reg = Inr (h, reg')"
  shows "secret_ok reg' \<and> handle_ok reg' h \<and> map_of (srg_handles reg') hid = Some h \<and> shd_generation_epoch h = srg_epoch reg'"
proof -
  obtain ref where ref: "load_secret reg key = Inr ref" "h = handle_for reg hid key ref m p now life"
    "reg' = reg\<lparr>srg_handles := AList.update hid h (srg_handles reg)\<rparr>" "m = scr_owner_module ref" "p = scr_purpose ref" "scr_valid_from ref \<le> now"
    "now < scr_valid_until ref" "scr_state ref \<in> {SX_ACTIVE, SX_OVERLAP}" "map_of (srg_values reg) key \<noteq> None" "0 < life" "life \<le> srg_maximum_handle_seconds reg"
    using assms(2) by (auto simp: resolve_secret_def bind_result_Inr Let_def split: if_splits)
  have same: "srg_references reg' = srg_references reg" "srg_values reg' = srg_values reg" "srg_maximum_handle_seconds reg' = srg_maximum_handle_seconds reg"
    "srg_epoch reg' = srg_epoch reg" by (simp_all add: ref(3))
  have h: "handle_ok reg h" using ref(1,4-11) by (auto simp: handle_ok_def ref(2) handle_for_def)
  have look: "map_of (srg_handles reg') i = (if i = hid then Some h else map_of (srg_handles reg) i)" for i by (simp add: ref(3) update_conv')
  have "handle_ok reg' h'" if "map_of (srg_handles reg') i = Some h'" for i h'
    using that h assms(1) handle_ok_same[OF _ same(1-3)] by (auto simp: look secret_ok_def split: if_splits)
  moreover have "\<forall>k r. find_secret reg' k = Some r \<longrightarrow> reference_key (srw_payload r) = k"
    using assms(1) unfolding secret_ok_def find_secret_references[OF same(1)] by (rule conjunct1)
  ultimately show ?thesis using look[of hid] same(4) by (simp add: secret_ok_def ref(2) handle_for_def)
qed

lemma secret_ok_step: "secret_step lib reg reg' \<Longrightarrow> secret_ok reg \<Longrightarrow> secret_ok reg'"
proof (induction rule: secret_step.induct)
  case (ss_plan plan reg pid reg')
  have same: "srg_references reg' = srg_references reg" "srg_values reg' = srg_values reg" "srg_maximum_handle_seconds reg' = srg_maximum_handle_seconds reg"
    "srg_handles reg' = srg_handles reg"
    using ss_plan(1) by (auto simp: plan_rotation_def bind_result_Inr Let_def split: if_splits)
  show ?case by (rule secret_ok_same[OF ss_plan(2) same(1-3)]) (simp add: same(4))
next
  case (ss_rotate pid now actor c1 c2 reg r reg')
  show ?case
  proof (rule apply_rotation_cases[OF ss_rotate(1)])
    fix plan s1 reg1 s2 reg2
    assume t: "transition_secret lib (secret_key (rpl_reference_id plan) (rpl_old_version plan)) (fst (rotation_states plan now)) actor (''rotation:'' @ pid) c1 reg = Inr (s1, reg1)"
      "transition_secret lib (secret_key (rpl_reference_id plan) (rpl_new_version plan)) (snd (rotation_states plan now)) actor (''rotation:'' @ pid) c2 reg1 = Inr (s2, reg2)"
      "reg' = renew_epoch reg2"
    have "secret_ok reg2" by (rule secret_ok_transition[OF secret_ok_transition[OF ss_rotate(2) t(1)] t(2)])
    then show ?thesis by (rule secret_ok_same) (simp_all add: t(3) renew_epoch_def)
  next
    fix plan s
    assume t: "transition_secret lib (secret_key (rpl_reference_id plan) (rpl_old_version plan)) (fst (rotation_states plan now)) actor (''rotation:'' @ pid) c1 reg = Inr (s, reg')"
    show ?thesis by (rule secret_ok_transition[OF ss_rotate(2) t])
  qed (use ss_rotate in simp)
next
  case (ss_read h now reg v reg')
  have same: "srg_references reg' = srg_references reg" "srg_values reg' = srg_values reg" "srg_maximum_handle_seconds reg' = srg_maximum_handle_seconds reg"
    "srg_handles reg' = srg_handles reg \<or> srg_handles reg' = AList.delete (shd_handle_id h) (srg_handles reg)"
    using ss_read(1) by (auto simp: read_secret_def split: if_splits option.splits)
  show ?case by (rule secret_ok_same[OF ss_read(2) same(1-3)]) (use same(4) in \<open>auto simp: delete_conv' split: if_splits\<close>)
next
  case (ss_register ref bytes actor clock reg s reg')
  show ?case by (rule secret_ok_register[OF ss_register(2,1)])
next
  case (ss_transition key st actor reason clock reg s reg')
  show ?case by (rule secret_ok_transition[OF ss_transition(2,1)])
next
  case (ss_resolve hid key m p now life reg h reg')
  show ?case by (rule conjunct1[OF secret_ok_resolve[OF ss_resolve(2,1)]])
qed

lemma secret_reachable_ok: "secret_reachable lib reg \<Longrightarrow> secret_ok reg"
proof (induction rule: secret_reachable.induct)
  case (sr_init n)
  then show ?case by (simp add: secret_ok_def secret_registry_init_def find_secret_def)
next
  case (sr_step reg reg')
  then show ?case by (blast intro: secret_ok_step)
next
  case (sr_reopen reg n)
  have "find_secret (secret_registry_reopen n reg) = find_secret reg" by (rule find_secret_references) (simp add: secret_registry_reopen_def)
  moreover have "srg_handles (secret_registry_reopen n reg) = []" by (simp add: secret_registry_reopen_def)
  ultimately show ?case using sr_reopen.IH by (simp add: secret_ok_def)
qed

section \<open>Keys of versions\<close>

definition undec :: "string \<Rightarrow> nat" where
  "undec s = foldl (\<lambda>a c. a * 10 + (of_char c - 48)) 0 s"

lemma undec_dec_nat: "undec (dec_nat n) = n"
proof (induction n rule: dec_nat.induct)
  case (1 n)
  have d: "(of_char (char_of (48 + k) :: char) :: nat) = 48 + k" if "k < 10" for k :: nat using that by simp
  show ?case
  proof (cases "n < 10")
    case True
    then show ?thesis by (subst dec_nat.simps) (simp add: undec_def d)
  next
    case False
    then have "undec (dec_nat n) = undec (dec_nat (n div 10)) * 10 + n mod 10" by (subst dec_nat.simps) (simp add: undec_def d)
    with 1 False show ?thesis by simp
  qed
qed

lemma secret_key_version: "0 \<le> a \<Longrightarrow> 0 \<le> b \<Longrightarrow> secret_key r a = secret_key r b \<longleftrightarrow> a = b"
  using undec_dec_nat by (auto simp: secret_key_def str_int_def) (metis nat_eq_iff2)

lemma valid_rotation_plan: "is_ok (validate_rotation_plan p) \<longleftrightarrow> validate_rotation_plan p = Inr ()"
  "validate_rotation_plan p = Inr () \<Longrightarrow> 1 \<le> rpl_old_version p \<and> rpl_old_version p < rpl_new_version p"
proof -
  show "is_ok (validate_rotation_plan p) \<longleftrightarrow> validate_rotation_plan p = Inr ()" by (cases "validate_rotation_plan p") auto
  show "validate_rotation_plan p = Inr () \<Longrightarrow> 1 \<le> rpl_old_version p \<and> rpl_old_version p < rpl_new_version p"
    unfolding validate_rotation_plan_def first_failure_Inr by simp
qed

text \<open>A reference that is stored in a usable state can be registered again, and then resolved and read.\<close>

lemma register_again_reads:
  assumes "find_secret reg key = Some row" "srw_payload row = ref" "srw_digest row = metadata_digest lib ref" "validate_secret_reference ref = Inr ()"
    "reference_key ref = key" "scr_state ref \<in> {SX_ACTIVE, SX_OVERLAP}" "scr_valid_from ref \<le> t" "t < scr_valid_until ref" "1 \<le> srg_maximum_handle_seconds reg" "bytes \<noteq> []"
  shows "\<exists>s reg3 h reg4. register_secret lib ref bytes actor c reg = Inr (s, reg3) \<and>
    resolve_secret hid key (scr_owner_module ref) (scr_purpose ref) t 1 reg3 = Inr (h, reg4) \<and> fst (read_secret h t reg4) = Inr bytes"
proof -
  let ?reg3 = "record_secret_event lib ref actor ''registered'' c
      ((insert_secret lib ref reg)\<lparr>srg_values := AList.update key bytes (srg_values reg)\<rparr>)"
  have "find_secret ?reg3 = find_secret (insert_secret lib ref reg)" by (rule find_secret_references) simp
  with find_secret_insert[OF assms(1), of lib ref] have l: "load_secret ?reg3 key = Inr ref" using assms(2,4) by (simp add: load_secret_def)
  then obtain s where s: "secret_snapshot lib ?reg3 key = Inr s" by (simp add: secret_snapshot_def)
  have g: "register_secret lib ref bytes actor c reg = Inr (s, ?reg3)"
    using assms(1,3,4,10) s by (simp add: register_secret_def assms(5) Let_def)
  let ?h = "handle_for ?reg3 hid key ref (scr_owner_module ref) (scr_purpose ref) t 1"
  have v: "map_of (srg_values ?reg3) key = Some bytes" by (simp add: update_conv')
  have "resolve_secret hid key (scr_owner_module ref) (scr_purpose ref) t 1 ?reg3 = Inr (?h, ?reg3\<lparr>srg_handles := AList.update hid ?h (srg_handles ?reg3)\<rparr>)"
    using assms(6-9) l v unfolding resolve_secret_def Let_def by (simp del: record_secret_event_simps(2,3))
  moreover have "fst (read_secret ?h t (?reg3\<lparr>srg_handles := AList.update hid ?h (srg_handles ?reg3)\<rparr>)) = Inr bytes"
    using assms(8) v by (simp add: read_secret_def handle_for_def update_conv')
  ultimately show ?thesis using g by blast
qed

section \<open>Claims\<close>

text \<open>
  C13. A secret is read only under its governance. In every reachable registry, restarts of the process
  included, a read that returns bytes returns the bytes held for the handle's secret and changes nothing; the secret's
  current metadata names the module and the purpose the handle was issued for, its state is neither revoked,
  compromised, expired nor unavailable, the handle was issued inside the validity window and the read happens before
  the window ends and within the maximum lifetime of a handle.
\<close>

theorem secret_reads_are_governed:
  assumes "secret_reachable lib reg" "read_secret h now reg = (Inr v, reg')"
  shows "\<exists>ref. reg' = reg \<and> map_of (srg_values reg) (shd_reference_key h) = Some v \<and> load_secret reg (shd_reference_key h) = Inr ref \<and>
    shd_owner_module h = scr_owner_module ref \<and> shd_purpose h = scr_purpose ref \<and> \<not> withdrawn (scr_state ref) \<and>
    scr_valid_from ref \<le> shd_issued_at h \<and> now < scr_valid_until ref \<and> now < shd_issued_at h + srg_maximum_handle_seconds reg * 1000000"
proof -
  have "map_of (srg_handles reg) (shd_handle_id h) = Some h" "now < shd_expires_at h" "map_of (srg_values reg) (shd_reference_key h) = Some v" "reg' = reg"
    using assms(2) by (auto simp: read_secret_def split: if_splits option.splits)
  moreover from this secret_reachable_ok[OF assms(1)] have "handle_ok reg h" by (auto simp: secret_ok_def)
  ultimately show ?thesis by (auto simp: handle_ok_def)
qed

text \<open>
  C21. Withdrawal is final for handles. Once any secret is revoked, marked compromised, expired or
  unavailable, or a rotation is applied, no handle that was issued before can be read again, at any time and whatever
  the process does afterwards, including registering the bytes again and issuing new handles under the same identifier.
\<close>

theorem withdrawal_ends_handles:
  assumes "resolve_secret hid key m p now life reg = Inr (h, reg1)" "(secret_step lib)\<^sup>*\<^sup>* reg1 reg2" "secret_withdrawal lib reg2 reg3"
    "(secret_step lib)\<^sup>*\<^sup>* reg3 reg4"
  shows "\<exists>e. read_secret h t reg4 = (Inl (PermissionError e), reg4)"
proof -
  have "shd_generation_epoch h = srg_epoch reg1"
    using assms(1) by (auto simp: resolve_secret_def handle_for_def bind_result_Inr Let_def split: if_splits)
  from secret_leases.revoked_for_good(1)[OF this assms(2-4)] show ?thesis by (simp add: read_secret_def)
qed

text \<open>
  A scheduled rotation clears a compromise. Let the old version of a planned rotation be marked compromised, its
  bytes and all handles being dropped. Applying the plan before its overlap ends succeeds in relabelling it active or in
  overlap, without looking at the state it had: registering the relabelled reference with the same bytes is then
  accepted as a repetition, and its owner resolves and reads the compromised secret again.
\<close>

theorem rotation_clears_compromise:
  assumes "secret_reachable lib reg" "key = secret_key (rpl_reference_id plan) (rpl_old_version plan)"
    "transition_secret lib key SX_COMPROMISED actor reason c0 reg = Inr (s, reg1)" "map_of (srg_rotations reg) pid = Some plan"
    "apply_rotation lib pid now actor c1 c2 reg1 = (Inr x, reg2)" "now < rpl_overlap_ends_at plan" "bytes \<noteq> []"
    "load_secret reg key = Inr ref" "scr_valid_from ref \<le> t" "t < scr_valid_until ref" "1 \<le> srg_maximum_handle_seconds reg"
  shows "\<exists>ref' s3 reg3 h reg4. load_secret reg2 key = Inr ref' \<and> scr_state ref' \<in> {SX_ACTIVE, SX_OVERLAP} \<and>
    register_secret lib ref' bytes actor c3 reg2 = Inr (s3, reg3) \<and>
    resolve_secret hid key (scr_owner_module ref) (scr_purpose ref) t 1 reg3 = Inr (h, reg4) \<and> fst (read_secret h t reg4) = Inr bytes"
proof -
  have ok: "secret_ok reg" by (rule secret_reachable_ok[OF assms(1)])
  have reg1: "load_secret reg1 key = Inr (ref\<lparr>scr_state := SX_COMPROMISED\<rparr>)" "srg_rotations reg1 = srg_rotations reg" "srg_maximum_handle_seconds reg1 = srg_maximum_handle_seconds reg"
    by (rule transition_secret_step[OF assms(3)]; use assms(8) in simp)+
  have ok1: "secret_ok reg1" by (rule secret_ok_transition[OF ok assms(3)])
  show ?thesis
  proof (rule apply_rotation_cases[OF assms(5)])
    fix plan' s1 s2 rega regb
    assume r: "Inr x = (Inr (rotation_states plan' now) :: (SecretState \<times> SecretState) result)" "map_of (srg_rotations reg1) pid = Some plan'" "is_ok (validate_rotation_plan plan')"
      and t1: "transition_secret lib (secret_key (rpl_reference_id plan') (rpl_old_version plan')) (fst (rotation_states plan' now)) actor (''rotation:'' @ pid) c1 reg1 = Inr (s1, rega)"
      and t2: "transition_secret lib (secret_key (rpl_reference_id plan') (rpl_new_version plan')) (snd (rotation_states plan' now)) actor (''rotation:'' @ pid) c2 rega = Inr (s2, regb)"
      and reg2: "reg2 = renew_epoch regb"
    have plan: "plan' = plan" using r(2) reg1(2) assms(4) by simp
    have v: "1 \<le> rpl_old_version plan" "rpl_old_version plan < rpl_new_version plan"
      using r(3) valid_rotation_plan[of plan] unfolding plan by simp_all
    let ?old = "fst (rotation_states plan now)"
    let ?ref = "ref\<lparr>scr_state := ?old\<rparr>"
    have ne: "key \<noteq> secret_key (rpl_reference_id plan) (rpl_new_version plan)" using v unfolding assms(2) by (subst secret_key_version) simp_all
    have old: "?old \<in> {SX_ACTIVE, SX_OVERLAP}" using assms(6) by (simp add: rotation_states_def)
    obtain rowa where rowa: "find_secret rega key = Some rowa" "srw_payload rowa = ?ref" "srw_digest rowa = metadata_digest lib ?ref" "is_ok (validate_secret_reference ?ref)"
    proof (rule transition_secret_step[OF t1[unfolded plan, folded assms(2)]])
      fix cur
      assume c: "load_secret reg1 key = Inr cur" "find_secret rega = find_secret (update_secret lib key (cur\<lparr>scr_state := ?old\<rparr>) reg1)"
      have "cur\<lparr>scr_state := ?old\<rparr> = ?ref" using c(1) reg1(1) by auto
      moreover have "is_ok (validate_secret_reference ref)" using assms(8) by (auto simp: load_secret_find)
      ultimately show thesis using c that by (auto simp: load_secret_find find_secret_update)
    qed
    have "find_secret reg2 = find_secret regb" unfolding reg2 by (rule find_secret_references) (simp add: renew_epoch_def)
    moreover have "find_secret regb key = find_secret rega key" by (rule transition_secret_step[OF t2[unfolded plan]]) (use ne in blast)
    ultimately have "find_secret reg2 key = Some rowa" using rowa(1) by simp
    moreover have m: "srg_maximum_handle_seconds reg2 = srg_maximum_handle_seconds reg"
      using reg1(3) transition_maximum[OF t1] transition_maximum[OF t2] by (simp add: reg2 renew_epoch_def)
    moreover have "reference_key ref = key" using ok assms(8) by (auto simp: secret_ok_def load_secret_find)
    moreover have "validate_secret_reference ?ref = Inr ()" using rowa(4) by (cases "validate_secret_reference ?ref") auto
    moreover from calculation have "load_secret reg2 key = Inr ?ref" using rowa(2) by (simp add: load_secret_def)
    ultimately show ?thesis
      using register_again_reads[of reg2 key rowa ?ref lib t bytes actor c3 hid] rowa(2,3) old assms(7,9-11) by (intro exI[of _ ?ref]) simp
  qed (use assms(5) in auto)
qed

section \<open>Witnesses\<close>

definition secret_library :: library where
  "secret_library = \<lparr>lib_uuid5 = (\<lambda>s. s), lib_isoformat = (\<lambda>t. []), lib_json_dumps = (\<lambda>v. []), lib_sha256 = (\<lambda>s. s),
     lib_hmac_sha256 = (\<lambda>k m. k), lib_model_dump = (\<lambda>v. JNull)\<rparr>"

definition demo_secret :: "int \<Rightarrow> SecretState \<Rightarrow> SecretReference" where
  "demo_secret n st = \<lparr>scr_reference_id = ''cam'', scr_version = n, scr_owner_module = ''ingest'', scr_purpose = ''pull'', scr_policy_version = ''v'',
     scr_valid_from = 0, scr_valid_until = 100, scr_state = st\<rparr>"

definition demo_plan :: SecretRotationPlan where
  "demo_plan = \<lparr>rpl_reference_id = ''cam'', rpl_old_version = 1, rpl_new_version = 2, rpl_overlap_starts_at = 10, rpl_cutover_at = 20,
     rpl_overlap_ends_at = 30, rpl_maximum_overlap_seconds = 1\<rparr>"

definition run_secret :: "(secret_registry \<Rightarrow> ('a \<times> secret_registry) result) \<Rightarrow> secret_registry \<Rightarrow> secret_registry" where
  "run_secret f reg = (case f reg of Inl _ \<Rightarrow> reg | Inr (_, reg') \<Rightarrow> reg')"

definition demo_secrets :: secret_registry where
  "demo_secrets = run_secret (plan_rotation secret_library demo_plan)
     (run_secret (register_secret secret_library (demo_secret 2 SX_STAGED) ''new'' ''own'' 1)
       (run_secret (register_secret secret_library (demo_secret 1 SX_ACTIVE) ''old'' ''own'' 1) (secret_registry_init 60)))"

lemma run_secret_reachable:
  assumes "secret_reachable lib reg" "\<And>x reg'. f reg = Inr (x, reg') \<Longrightarrow> secret_step lib reg reg'"
  shows "secret_reachable lib (run_secret f reg)"
  using assms by (auto simp: run_secret_def intro: sr_step split: sum.splits prod.splits)

lemma demo_secrets_reachable: "secret_reachable secret_library demo_secrets"
  unfolding demo_secrets_def by (intro run_secret_reachable sr_init) (blast intro: ss_plan ss_register)+

abbreviation "demo_resolve \<equiv> resolve_secret ''h'' ''cam@1'' ''ingest'' ''pull'' 5 10"

theorem secret_reads_are_governed_witness:
  "\<exists>ref. load_secret (run_secret demo_resolve demo_secrets) ''cam@1'' = Inr ref \<and> scr_owner_module ref = ''ingest'' \<and> \<not> withdrawn (scr_state ref)"
proof -
  let ?reg = "run_secret demo_resolve demo_secrets"
  let ?h = "fst (projr (demo_resolve demo_secrets))"
  have r: "secret_reachable secret_library ?reg" by (rule run_secret_reachable[OF demo_secrets_reachable]) (rule ss_resolve)
  have f: "read_secret ?h 6 ?reg = (Inr ''old'', snd (read_secret ?h 6 ?reg))" "shd_reference_key ?h = ''cam@1''" "shd_owner_module ?h = ''ingest''" by code_simp+
  from secret_reads_are_governed[OF r f(1)] f(2,3) show ?thesis by auto
qed

definition demo_withdrawn :: secret_registry where
  "demo_withdrawn = run_secret (transition_secret secret_library ''cam@1'' SX_REVOKED ''op'' ''lost'' 6) (run_secret demo_resolve demo_secrets)"

theorem withdrawal_ends_handles_witness:
  "is_ok (fst (read_secret (fst (projr (demo_resolve demo_secrets))) 6 (run_secret demo_resolve demo_secrets))) \<and>
   (\<exists>e. read_secret (fst (projr (demo_resolve demo_secrets))) 6 demo_withdrawn = (Inl (PermissionError e), demo_withdrawn))"
proof -
  let ?r = "demo_resolve demo_secrets"
  let ?t = "transition_secret secret_library ''cam@1'' SX_REVOKED ''op'' ''lost'' 6 (run_secret demo_resolve demo_secrets)"
  have f: "is_ok ?r" "is_ok ?t" "is_ok (fst (read_secret (fst (projr ?r)) 6 (run_secret demo_resolve demo_secrets)))" by code_simp+
  obtain h reg1 where r: "?r = Inr (h, reg1)" using f(1) by (cases ?r) auto
  obtain s reg3 where t: "?t = Inr (s, reg3)" using f(2) by (cases ?t) auto
  have e: "run_secret demo_resolve demo_secrets = reg1" "demo_withdrawn = reg3" using r t by (simp_all add: run_secret_def demo_withdrawn_def)
  have "transition_secret secret_library ''cam@1'' SX_REVOKED ''op'' ''lost'' 6 reg1 = Inr (s, reg3)" using t e(1) by simp
  then have "secret_withdrawal secret_library reg1 reg3" unfolding secret_withdrawal_def using withdrawn.simps(4) by blast
  from withdrawal_ends_handles[OF r rtranclp.rtrancl_refl this rtranclp.rtrancl_refl] f(3) r e show ?thesis by simp
qed

end
