(* ===== verification/Engine_Types.thy ===== *)
theory Engine_Types
  imports Engine_Behaviour
begin

text \<open>
  Typing of the journal: every stored incident satisfies the field bounds of its class, also the versions that the
  engine builds with \<^verbatim>\<open>model_copy\<close>, which runs no validator.
\<close>

definition typed_journal :: "journal \<Rightarrow> bool" where
  "typed_journal j \<longleftrightarrow> (\<forall>i \<in> set (all_incidents j). IncidentRecord_fields_ok i)"

lemma typed_journal_same: "j_incident_events t = j_incident_events j \<Longrightarrow> typed_journal j \<Longrightarrow> typed_journal t"
  by (simp add: typed_journal_def all_incidents_def)

lemma f64_one [simp]: "f64 1 = 1"
  using f64_dyadic[of 1 0] by simp

text \<open>A float sum or difference that the code clamps stays in the unit interval.\<close>

lemma clamped_sum: "0 \<le> c \<Longrightarrow> 0 \<le> d \<Longrightarrow> 0 \<le> min 1 (f64 (c + d)) \<and> min 1 (f64 (c + d)) \<le> 1"
  by (simp add: f64_nonneg)

lemma clamped_difference: "c \<le> 1 \<Longrightarrow> 0 \<le> d \<Longrightarrow> 0 \<le> max 0 (f64 (c - d)) \<and> max 0 (f64 (c - d)) \<le> 1"
  using f64_mono[of "c - d" 1] by simp

lemma command_change_typed:
  assumes "command_change eng cmd c = Inr (s, conf)" "IncidentRecord_fields_ok c"
  shows "IncidentRecord_fields_ok (command_record cmd c s conf)"
proof -
  have "0 \<le> conf \<and> conf \<le> 1"
    using assms clamped_sum[of "inc_confidence c" "f64 (5 / 100)"] clamped_difference[of "inc_confidence c" "f64 (10 / 100)"]
      f64_nonneg[of "5 / 100"] f64_nonneg[of "10 / 100"]
    by (auto simp: command_change_def IncidentRecord_fields_ok_def split: IncidentCommandKind.splits if_splits)
  with assms(2) show ?thesis by (simp add: IncidentRecord_fields_ok_def command_record_def Let_def)
qed

lemma late_correction_typed: "IncidentRecord_fields_ok c \<Longrightarrow> IncidentRecord_fields_ok (late_correction c a acc)"
  by (simp add: IncidentRecord_fields_ok_def late_correction_def)

lemma commit_typed:
  assumes "typed_journal (eng_store eng)" "IncidentRecord_fields_ok i" "commit lib eng i n = (r, eng')"
  shows "typed_journal (eng_store eng')"
proof (cases "append_incident_with_notification lib i n (eng_store eng)")
  case (Inl e)
  with assms show ?thesis by (simp add: commit_def)
next
  case (Inr p)
  obtain x t where p: "p = (x, t)" by fastforce
  obtain pos where "j_incident_events t = j_incident_events (eng_store eng) @ [\<lparr>ir_authority_position = Some pos, ir_incident = i\<rparr>]"
    using append_incident_table(1)[OF Inr[unfolded p]] incident_table_after_rows[of lib i "eng_store eng"] by auto
  with Inr p assms show ?thesis by (auto simp: commit_def typed_journal_def all_incidents_def)
qed

lemma seal_command_typed: "typed_journal (eng_store eng) \<Longrightarrow> typed_journal (eng_store (snd (seal_command lib eng r res)))"
  by (auto simp: seal_command_def split: sum.splits prod.splits intro: typed_journal_same receipt_frame(2))

lemma current_typed: "engine_inv lib eng \<Longrightarrow> typed_journal (eng_store eng) \<Longrightarrow> map_of (eng_current eng) h = Some c \<Longrightarrow> IncidentRecord_fields_ok c"
  using current_in_history(4) by (fastforce simp: typed_journal_def)

lemma apply_analysis_typed:
  assumes "engine_inv lib eng" "typed_journal (eng_store eng)"
  shows "typed_journal (eng_store (snd (apply_analysis lib eng a acc)))"
proof -
  have commits: "typed_journal (eng_store (snd (commit lib eng i n)))" if "IncidentRecord_fields_ok i" for i n
    by (rule commit_typed[OF assms(2) that]) (rule prod.collapse[symmetric])
  show ?thesis
  proof (cases "map_of (eng_current eng) (ana_hazard a)")
    case None
    with commits assms(2) show ?thesis by (simp add: apply_analysis_def Let_def split: sum.splits)
  next
    case (Some c)
    with commits assms(2) late_correction_typed[OF current_typed[OF assms Some], of a acc] show ?thesis
      by (simp add: apply_analysis_def Let_def split: sum.splits)
  qed
qed

lemma apply_status_change_typed:
  assumes "typed_journal (eng_store eng)" "IncidentRecord_fields_ok c"
  shows "typed_journal (eng_store (snd (apply_status_change lib eng cmd c)))"
proof (cases "command_change eng cmd c")
  case (Inr p)
  obtain s conf where p: "p = (s, conf)" by (cases p)
  obtain r eng1 where m: "commit lib eng (command_record cmd c s conf)
      (notification_for lib eng (command_record cmd c s conf) (inc_state c) (isc_submitted_at cmd)) = (r, eng1)" by fastforce
  have "typed_journal (eng_store eng1)" by (rule commit_typed[OF assms(1) command_change_typed[OF Inr[unfolded p] assms(2)] m])
  with assms(1) Inr p m show ?thesis
    by (cases r) (simp_all add: apply_status_change_def Let_def seal_command_typed)
qed (simp add: apply_status_change_def assms(1))

lemma apply_relation_command_typed:
  assumes "typed_journal (eng_store eng)"
  shows "typed_journal (eng_store (snd (apply_relation_command lib eng cmd c)))"
proof -
  have "typed_journal (eng_store (snd (seal_command lib (eng\<lparr>eng_store := j\<rparr>) r res)))"
    if "record_incident_relation lib rel (eng_store eng) = Inr (x, j)" for rel x j r res
    by (rule seal_command_typed) (simp add: typed_journal_same[OF relation_frame(2)[OF that] assms])
  with assms show ?thesis by (auto simp: apply_relation_command_def split: option.splits sum.splits prod.splits)
qed

lemma apply_status_command_typed:
  assumes "engine_inv lib eng" "typed_journal (eng_store eng)"
  shows "typed_journal (eng_store (snd (apply_status_command lib eng cmd)))"
proof (cases "incident_by_id eng (isc_incident_id cmd)")
  case (Some c)
  note c = current_typed[OF assms incident_by_id_current(1)[OF assms(1) Some]]
  from Some assms(2) apply_relation_command_typed[OF assms(2)] apply_status_change_typed[OF assms(2) c] show ?thesis
    by (simp add: apply_status_command_def split: option.splits)
qed (simp add: apply_status_command_def assms(2))

lemma review_typed: "typed_journal (eng_store eng) \<Longrightarrow> typed_journal (eng_store (snd (review lib eng a)))"
  by (auto simp: review_def split: option.splits sum.splits prod.splits intro: typed_journal_same review_frame)

lemma apply_authorized_review_typed:
  assumes "typed_journal (eng_store eng)"
  shows "typed_journal (eng_store (snd (apply_authorized_review lib eng c)))"
proof -
  have r: "typed_journal (eng_store e)" if "review lib eng a = (x, e)" for a x e
    using review_typed[OF assms, of lib a] that by simp
  moreover have "typed_journal t"
    if "review lib eng a = (r, e)" "record_command_receipt lib rc (eng_store e) = Inr (x, t)" for a r e rc x t
    by (rule typed_journal_same[OF receipt_frame(2)[OF that(2)] r[OF that(1)]])
  ultimately show ?thesis using assms
    unfolding apply_authorized_review_def Let_def by (auto simp del: append.simps split: option.splits sum.splits prod.splits)
qed

lemma dispatch_notifications_typed:
  assumes "typed_journal (eng_store eng)"
  shows "typed_journal (eng_store (fst (snd (dispatch_notifications lib send now now_of eng k))))"
proof -
  obtain out t k' where d: "deliver_all lib send now_of (dispatchable_notifications (eng_store eng) now) (eng_store eng) k = (out, t, k')"
    using prod_cases3 by blast
  with typed_journal_same[OF conjunct2[OF deliver_all_frame[OF d]] assms] show ?thesis by (simp add: dispatch_notifications_def)
qed

lemma eng_step_typed:
  assumes "eng_step lib eng eng'" "engine_inv lib eng" "typed_journal (eng_store eng)"
  shows "typed_journal (eng_store eng')"
  using assms
proof (induction rule: eng_step.induct)
  case (es_store eng j)
  then show ?case using typed_journal_same[OF conjunct2[OF store_write_frame[OF es_store(1)]]] by simp
next
  case (es_restart eng ca budget)
  then show ?case using open_store_sealed[OF engine_inv_facts(1,2)[OF es_restart(1)]] by (simp add: engine_init_def)
qed (simp_all add: apply_analysis_typed apply_status_command_typed review_typed apply_authorized_review_typed dispatch_notifications_typed)

text \<open>
  C30. The journal is well typed. In every reachable engine, after any sequence of analyses, commands, reviews,
  deliveries, other writes and restarts, every stored version of an incident and every incident of the projection has a
  confidence in [0, 1] and a version of at least 1. Late corrections and status commands build their versions with
  \<^verbatim>\<open>model_copy\<close>, which validates nothing; the bounds hold because the rounded float sum and difference of the commands
  are clamped.
\<close>

theorem journal_is_well_typed:
  assumes "eng_reachable lib eng"
  shows "(\<forall>i \<in> set (all_incidents (eng_store eng)). IncidentRecord_fields_ok i) \<and>
    (\<forall>h i. map_of (eng_current eng) h = Some i \<longrightarrow> IncidentRecord_fields_ok i)"
proof -
  have "typed_journal (eng_store eng)" using assms
  proof (induction rule: eng_reachable.induct)
    case (er_init ca budget)
    have "open_store lib empty_journal = empty_journal" by (rule open_store_sealed) (simp_all add: empty_journal_def sealed_def)
    then show ?case by (simp add: engine_init_def typed_journal_def all_incidents_def empty_journal_def)
  next
    case (er_step eng eng')
    then show ?case using eng_step_typed[OF er_step(2) eng_reachable_inv[OF er_step(1)]] by simp
  qed
  with current_typed[OF eng_reachable_inv[OF assms]] show ?thesis by (auto simp: typed_journal_def)
qed

theorem journal_is_well_typed_witness:
  "length (all_incidents (eng_store demo_engine)) = 2 \<and> list_all IncidentRecord_fields_ok (all_incidents (eng_store demo_engine))"
proof -
  have "length (all_incidents (eng_store demo_engine)) = 2" by code_simp
  with journal_is_well_typed[OF demo_reachable(2)] show ?thesis by (simp add: list_all_iff)
qed

end
