(* ===== verification/Tombstones.thy ===== *)
theory Tombstones
  imports Evidence_Store
begin

text \<open>
  Privacy tombstones, \<^verbatim>\<open>src/src/sentinel_edge/privacy/tombstones.py\<close>: the journal of evidence life cycle events without
  content that is built from one store and applied to a restored one, the retention policy of a backup, and the part
  of \<^verbatim>\<open>storage/backup.py\<close> that applies the journals of a backup and of the node when a backup is restored.

  The parse of a journal from its file gives back the events that were written; \<open>wall\<close> is the clock reading of the
  life cycle projection.
\<close>

record TombstoneJournal =
  tmj_journal_id :: uuid
  tmj_generated_at :: datetime
  tmj_source_authority_position :: int
  tmj_lifecycle_event_count :: int
  tmj_events :: "EvidenceLifecycleEvent list"
  tmj_payload_sha256 :: string

definition tombstone_schema :: string where
  "tombstone_schema = ''sentinel-edge-privacy-tombstones/1.0''"

definition tombstone_payload_sha256 :: "library \<Rightarrow> int \<Rightarrow> int \<Rightarrow> EvidenceLifecycleEvent list \<Rightarrow> string" where
  "tombstone_payload_sha256 lib position n events = digest lib (JObj
     [(''schema'', JStr tombstone_schema), (''source_authority_position'', JInt position), (''lifecycle_event_count'', JInt n),
      (''events'', JArr (map (\<lambda>e. lib_model_dump lib (V_lifecycle e)) events))])"

abbreviation event_key :: "EvidenceLifecycleEvent \<Rightarrow> uuid \<times> int" where
  "event_key e \<equiv> (lce_evidence_id e, lce_resulting_version e)"

fun validate_events :: "EvidenceLifecycleEvent list \<Rightarrow> unit result" where
  "validate_events [] = Inr ()"
| "validate_events (e # es) = bind_result (EvidenceLifecycleEvent_init e) (\<lambda>_. validate_events es)"

text \<open>The loop of \<^verbatim>\<open>validate_integrity\<close> with the keys it has seen.\<close>

fun check_seen :: "(uuid \<times> int) list \<Rightarrow> EvidenceLifecycleEvent list \<Rightarrow> unit result" where
  "check_seen seen [] = Inr ()"
| "check_seen seen (e # es) =
     (if event_key e \<in> set seen then Inl (ValidationError ''duplicate tombstone lifecycle version'')
      else if lce_action e = EL_REGISTER then Inl (ValidationError ''registration events are not privacy tombstones'')
      else check_seen (event_key e # seen) es)"

definition validate_tombstones :: "library \<Rightarrow> TombstoneJournal \<Rightarrow> unit result" where
  "validate_tombstones lib t =
     (if tmj_payload_sha256 t \<noteq> tombstone_payload_sha256 lib (tmj_source_authority_position t) (tmj_lifecycle_event_count t) (tmj_events t)
      then Inl (ValidationError ''tombstone payload digest mismatch'')
      else if tmj_source_authority_position t < 0 \<or> tmj_lifecycle_event_count t < 0 then Inl (ValidationError ''TombstoneJournal'')
      else bind_result (validate_events (tmj_events t)) (\<lambda>_.
        if tmj_lifecycle_event_count t \<noteq> int (length (tmj_events t)) then Inl (ValidationError ''tombstone lifecycle_event_count mismatch'')
        else if tmj_events t \<noteq> sort_key event_key (tmj_events t) then Inl (ValidationError ''tombstone events must use canonical ordering'')
        else check_seen [] (tmj_events t)))"

definition tombstone_events :: "journal \<Rightarrow> EvidenceLifecycleEvent list" where
  "tombstone_events j = sort_key event_key (filter (\<lambda>e. lce_action e \<noteq> EL_REGISTER) (evidence_lifecycle_events j None None))"

definition build_tombstone_journal :: "library \<Rightarrow> journal \<Rightarrow> datetime \<Rightarrow> TombstoneJournal result" where
  "build_tombstone_journal lib j generated_at =
     (let events = tombstone_events j;
          position = cf_highest_contiguous_position (authority_conformance lib j);
          seed = digest lib (JObj [(''source_authority_position'', JInt position),
            (''event_ids'', JArr (map (\<lambda>e. JStr (lce_lifecycle_event_id e)) events))]);
          t = \<lparr>tmj_journal_id = lib_uuid5 lib (''sentinel-privacy-tombstones:'' @ seed), tmj_generated_at = generated_at,
            tmj_source_authority_position = position, tmj_lifecycle_event_count = int (length events), tmj_events = events,
            tmj_payload_sha256 = tombstone_payload_sha256 lib position (int (length events)) events\<rparr>
      in bind_result (validate_tombstones lib t) (\<lambda>_. Inr t))"

section \<open>Application\<close>

record tombstone_report =
  tmr_journal_id :: uuid
  tmr_journal_sha256 :: string
  tmr_journal_authority_position :: int
  tmr_applied :: int
  tmr_skipped :: int

text \<open>Every recorded event is a transaction of its own, so a raise leaves the events before it applied.\<close>

fun apply_events :: "library \<Rightarrow> datetime \<Rightarrow> EvidenceLifecycleEvent list \<Rightarrow> int \<Rightarrow> int \<Rightarrow> journal \<Rightarrow> (int \<times> int) result \<times> journal" where
  "apply_events lib wall [] applied skipped j = (Inr (applied, skipped), j)"
| "apply_events lib wall (e # es) applied skipped j =
     (case evidence_lifecycle_projection j (lce_evidence_id e) wall of
        Inl (KeyError _) \<Rightarrow> (Inl (ValueError (''tombstone target evidence is missing: '' @ lce_evidence_id e)), j)
      | Inl x \<Rightarrow> (Inl x, j)
      | Inr current \<Rightarrow>
          if lce_resulting_version e \<le> lcp_version current then apply_events lib wall es applied (skipped + 1) j
          else if lcp_version current \<noteq> lce_expected_version e
          then (Inl (ValueError (''tombstone lifecycle gap for '' @ lce_evidence_id e @ '': current='' @ str_int (lcp_version current) @
                 '' expected='' @ str_int (lce_expected_version e))), j)
          else (case record_evidence_lifecycle lib e j of
             Inl x \<Rightarrow> (Inl x, j)
           | Inr (_, j1) \<Rightarrow> apply_events lib wall es (applied + 1) skipped j1))"

definition apply_tombstone_journal :: "library \<Rightarrow> datetime \<Rightarrow> TombstoneJournal \<Rightarrow> journal \<Rightarrow> tombstone_report result \<times> journal" where
  "apply_tombstone_journal lib wall t j =
     (case apply_events lib wall (tmj_events t) 0 0 j of
        (Inl x, j1) \<Rightarrow> (Inl x, j1)
      | (Inr (applied, skipped), j1) \<Rightarrow> (Inr \<lparr>tmr_journal_id = tmj_journal_id t, tmr_journal_sha256 = tmj_payload_sha256 t,
           tmr_journal_authority_position = tmj_source_authority_position t, tmr_applied = applied, tmr_skipped = skipped\<rparr>, j1))"

text \<open>Restoring a backup: its own journal first, then the journal of the node when one is supplied.\<close>

definition restore_tombstones :: "library \<Rightarrow> datetime \<Rightarrow> TombstoneJournal \<Rightarrow> TombstoneJournal option \<Rightarrow> journal \<Rightarrow>
    (tombstone_report \<times> tombstone_report option) result \<times> journal" where
  "restore_tombstones lib wall bundled current incidents =
     (case apply_tombstone_journal lib wall bundled incidents of
        (Inl x, j1) \<Rightarrow> (Inl x, j1)
      | (Inr bundled_result, j1) \<Rightarrow>
          (case current of
             None \<Rightarrow> (Inr (bundled_result, None), j1)
           | Some c \<Rightarrow>
               if tmj_source_authority_position c < tmj_source_authority_position bundled
               then (Inl (ValueError ''current tombstone journal is older than the backup journal''), j1)
               else (case apply_tombstone_journal lib wall c j1 of
                  (Inl x, j2) \<Rightarrow> (Inl x, j2)
                | (Inr current_result, j2) \<Rightarrow> (Inr (bundled_result, Some current_result), j2))))"

section \<open>Retention of backups\<close>

record LegalHold =
  lgh_hold_id :: string
  lgh_backup_id :: string
  lgh_reason :: string
  lgh_created_at :: datetime
  lgh_expires_at :: datetime
  lgh_review_due_at :: datetime

definition validate_hold :: "LegalHold \<Rightarrow> unit result" where
  "validate_hold h = first_failure
     [(blank (lgh_hold_id h) \<or> blank (lgh_backup_id h) \<or> blank (lgh_reason h), ''legal hold fields must not be blank''),
      (lgh_expires_at h \<le> lgh_created_at h, ''legal hold expiry must follow creation''),
      (\<not> (lgh_created_at h \<le> lgh_review_due_at h \<and> lgh_review_due_at h \<le> lgh_expires_at h), ''legal hold review must occur within the hold window'')]"

record BackupPrivacyPolicy =
  bpp_backup_id :: string
  bpp_retention_expires_at :: datetime
  bpp_privacy_classes :: "string list"
  bpp_secret_reference_policy :: string
  bpp_tombstone_journal_file :: string
  bpp_tombstone_journal_sha256 :: string
  bpp_tombstone_authority_position :: int
  bpp_legal_hold :: "LegalHold option"

definition validate_backup_policy :: "BackupPrivacyPolicy \<Rightarrow> unit result" where
  "validate_backup_policy p =
     (if bpp_tombstone_authority_position p < 0 then Inl (ValidationError ''tombstone_authority_position'')
      else bind_result (case bpp_legal_hold p of None \<Rightarrow> Inr () | Some h \<Rightarrow> validate_hold h) (\<lambda>_. first_failure
        [(bpp_privacy_classes p = [] \<or> \<not> set (bpp_privacy_classes p) \<subseteq> {''public'', ''internal'', ''restricted''},
          ''backup privacy classes are invalid''),
         (case bpp_legal_hold p of None \<Rightarrow> False | Some h \<Rightarrow> lgh_backup_id h \<noteq> bpp_backup_id p,
          ''legal hold must be scoped to the exact backup'')]))"

record BackupRetentionDecision =
  brd_backup_id :: string
  brd_evaluated_at :: datetime
  brd_removable :: bool
  brd_active_legal_hold :: bool
  brd_retention_expired :: bool
  brd_reason_codes :: "string list"

definition retention_decision :: "BackupPrivacyPolicy \<Rightarrow> datetime \<Rightarrow> BackupRetentionDecision" where
  "retention_decision p now =
     (let expired = (bpp_retention_expires_at p \<le> now);
          hold = (case bpp_legal_hold p of None \<Rightarrow> False | Some h \<Rightarrow> lgh_created_at h \<le> now \<and> now < lgh_expires_at h)
      in \<lparr>brd_backup_id = bpp_backup_id p, brd_evaluated_at = now, brd_removable = (expired \<and> \<not> hold), brd_active_legal_hold = hold,
          brd_retention_expired = expired,
          brd_reason_codes = (if expired then [] else [''retention_window_active'']) @
            (if hold then [''exact_backup_legal_hold_active''] else []) @
            (if expired \<and> \<not> hold then [''retention_expired_no_active_hold''] else [])\<rparr>)"

end
