(* ===== verification/Tombstone_Claims.thy ===== *)
theory Tombstone_Claims
  imports Tombstones Evidence_Claims
begin

text \<open>
  Deletion survives the restore of an older backup: applying the tombstone journal of the node to the restored store
  gives every evidence item of the backup its current life cycle again. The same journal cannot be applied when it
  speaks of evidence that was ingested after the backup.
\<close>

section \<open>Growth of the evidence tables\<close>

abbreviation stored_events :: "journal \<Rightarrow> EvidenceLifecycleEvent list" where
  "stored_events j \<equiv> map snd (j_evidence_lifecycle_events j)"

definition owns :: "journal \<Rightarrow> EvidenceLifecycleEvent \<Rightarrow> bool" where
  "owns j e \<longleftrightarrow> (\<exists>r \<in> set (j_evidence_items j). evi_evidence_id (snd r) = lce_evidence_id e \<and> evi_incident_id (snd r) = lce_incident_id e)"

definition event_sound :: "EvidenceLifecycleEvent \<Rightarrow> bool" where
  "event_sound e \<longleftrightarrow> lce_resulting_version e = lce_expected_version e + 1 \<and> (lce_action e = EL_REGISTER \<longleftrightarrow> lce_expected_version e = 0)"

definition events_sound :: "journal \<Rightarrow> bool" where
  "events_sound j \<longleftrightarrow> (\<forall>e \<in> set (stored_events j). event_sound e \<and> owns j e) \<and> distinct (map lce_lifecycle_event_id (stored_events j))"

text \<open>What one operation can do to the two tables.\<close>

inductive evidence_write :: "journal \<Rightarrow> journal \<Rightarrow> bool" where
  ew_same: "same_tables j t \<Longrightarrow> evidence_write j t"
| ew_register: "j_evidence_items t = j_evidence_items j @ [(d, item)] \<Longrightarrow> stored_events t = stored_events j @ [initial_lifecycle_event i item] \<Longrightarrow>
    i \<notin> set (map lce_lifecycle_event_id (stored_events j)) \<Longrightarrow> evidence_write j t"
| ew_event: "j_evidence_items t = j_evidence_items j \<Longrightarrow> stored_events t = stored_events j @ [e] \<Longrightarrow>
    lce_lifecycle_event_id e \<notin> set (map lce_lifecycle_event_id (stored_events j)) \<Longrightarrow> event_sound e \<Longrightarrow> owns j e \<Longrightarrow> evidence_write j t"

lemma evidence_write_grows:
  assumes "evidence_write j t"
  shows "prefix (j_evidence_items j) (j_evidence_items t)" "prefix (stored_events j) (stored_events t)"
  using assms by (induction rule: evidence_write.induct) (auto simp: same_tables_def)

lemma owns_mono: "owns j e \<Longrightarrow> prefix (j_evidence_items j) (j_evidence_items t) \<Longrightarrow> owns t e"
  by (auto simp: owns_def prefix_def)

lemma owns_ids: "owns j e \<Longrightarrow> lce_evidence_id e \<in> set (item_ids j)"
  by (force simp: owns_def item_ids_def)

lemma evidence_write_sound:
  assumes "evidence_write j t" "events_sound j"
  shows "events_sound t"
  using assms(1)
proof cases
  case ew_same
  then show ?thesis using assms(2) by (simp add: same_tables_def events_sound_def owns_def)
next
  case (ew_register d item i)
  have "event_sound (initial_lifecycle_event i item)" "owns t (initial_lifecycle_event i item)"
    using ew_register(1) by (auto simp: event_sound_def owns_def initial_lifecycle_event_def)
  with ew_register assms(2) owns_mono[OF _ evidence_write_grows(1)[OF assms(1)]] show ?thesis
    by (auto simp: events_sound_def initial_lifecycle_event_def)
next
  case (ew_event e)
  with assms(2) owns_mono[OF _ evidence_write_grows(1)[OF assms(1)]] show ?thesis by (auto simp: events_sound_def)
qed

lemma transition_writes:
  assumes "evidence_inv (evs_store sv)" "transition lib wall k q sv = (out, sv')"
  shows "evidence_write\<^sup>*\<^sup>* (evs_store sv) (evs_store sv')"
  using assms(2)
proof (cases rule: transition_cases)
  case (recorded item cur action proof_sha reasons x j)
  let ?e = "lifecycle_event_for q item cur action proof_sha reasons"
  note it = evidence_item_Inr[OF recorded(1)]
  note pr = projection_Inr[OF recorded(2), unfolded lifecycle_of_inv[OF assms(1)]]
  have k: "k \<in> set (item_ids (evs_store sv))" using it by (auto simp: item_ids_def)
  have v: "1 \<le> lcp_version cur" using chain_last[OF evidence_invD(1)[OF assms(1) k]] pr(1,3) by (cases "events_for (evs_store sv) k") auto
  have "action \<noteq> EL_REGISTER" using recorded(9) by (cases "trq_to_state q") auto
  then have s: "event_sound ?e" using v by (simp add: event_sound_def lifecycle_event_for_def)
  have o: "owns (evs_store sv) ?e" using it(2) by (auto simp: owns_def lifecycle_event_for_def)
  have "evidence_write (evs_store sv) j" using recorded(6)
  proof (cases rule: lifecycle_locked_cases[where k = k])
    case replay
    then show ?thesis by (simp add: ew_same)
  next
    case appended
    have "lce_lifecycle_event_id ?e \<notin> set (map lce_lifecycle_event_id (stored_events (evs_store sv)))"
      using appended(1) by (force simp: find_lifecycle_def find_None_iff)
    then show ?thesis by (rule ew_event[OF appended(3) appended(6) _ s o])
  qed
  then show ?thesis using ew_same[OF recorded(7)] by simp
qed simp

lemma expire_writes:
  "evidence_inv (evs_store sv) \<Longrightarrow> evidence_write\<^sup>*\<^sup>* (evs_store sv) (evs_store (snd (expire_loop lib wall now actor ids items acc sv)))"
proof (induction items arbitrary: acc sv)
  case (Cons item items)
  have "evidence_write\<^sup>*\<^sup>* (evs_store sv) (evs_store (snd (expire_loop lib wall now actor ids items acc' sv')))"
    if t: "transition lib wall k q sv = (out, sv')" for acc' k q out sv'
    using transition_writes[OF Cons.prems t] Cons.IH[OF transition_inv[OF Cons.prems t], of acc'] by simp
  moreover have "evidence_write\<^sup>*\<^sup>* (evs_store sv) (evs_store sv')" if t: "transition lib wall k q sv = (out, sv')" for k q out sv'
    by (rule transition_writes[OF Cons.prems t])
  ultimately show ?case using Cons.IH[OF Cons.prems] by (auto split: option.splits sum.splits prod.splits)
qed simp

lemma record_evidence_writes:
  assumes "record_evidence lib i item j = Inr (x, t)" "i \<notin> set (map lce_lifecycle_event_id (stored_events j))"
  shows "evidence_write j t"
proof (cases "find_evidence j (evi_evidence_id item)")
  case (Some r)
  with evidence_rows.replay[OF assms(1)] show ?thesis by (simp add: ew_same)
next
  case None
  obtain p j1 z where ap: "append_authority lib AM_EVIDENCE (evi_evidence_id item) (evi_received_at item) (lib_model_dump lib (V_evidence item)) j = (p, j1)"
    and l: "record_evidence_lifecycle_locked lib (initial_lifecycle_event i item) (j1\<lparr>j_evidence_items := j_evidence_items j1 @ [(value_digest lib (V_evidence item), item)]\<rparr>) = Inr (z, t)"
    using assms(1) None by (auto simp: record_evidence_def Let_def bind_result_Inr EvidenceLifecycleEvent_init_def split: if_splits prod.splits)
  note fr = append_authority_frameD[OF ap]
  from l show ?thesis
  proof (cases rule: lifecycle_locked_cases[where k = "evi_evidence_id item"])
    case replay
    then show ?thesis using assms(2) by (force simp: find_lifecycle_def find_Some_iff fr initial_lifecycle_event_def)
  next
    case appended
    then show ?thesis using assms(2) by (intro ew_register[of t j "value_digest lib (V_evidence item)" item i]) (simp_all add: fr)
  qed
qed

lemma ev_step_writes:
  assumes "ev_step lib sv sv'" "evidence_inv (evs_store sv)"
  shows "evidence_write\<^sup>*\<^sup>* (evs_store sv) (evs_store sv')"
  using assms(1)
proof cases
  case (ev_ingest i consent wall item)
  have "i \<notin> set (map lce_lifecycle_event_id (stored_events (evs_store sv)))" using ev_ingest(2) by (auto simp: image_iff)
  then show ?thesis using ingest_store[OF surjective_pairing, of lib consent i wall item sv] record_evidence_writes ev_ingest(1) by fastforce
next
  case (ev_transition wall k q)
  then show ?thesis using transition_writes[OF assms(2) surjective_pairing] by simp
next
  case (ev_expire wall now actor ids)
  then show ?thesis using expire_writes[OF assms(2)] by (simp add: enforce_rights_expiry_def)
next
  case (ev_claim c)
  then show ?thesis using ew_same[OF claim_tables] by (auto simp: create_claim_def split: sum.splits prod.splits)
next
  case (ev_link l)
  then show ?thesis using ew_same[OF link_tables] by (auto simp: link_evidence_def split: sum.splits prod.splits)
next
  case ev_other
  then show ?thesis by (simp add: ew_same r_into_rtranclp)
qed

lemma writes_sound_grow:
  assumes "evidence_write\<^sup>*\<^sup>* j t"
  shows "events_sound j \<Longrightarrow> events_sound t" "prefix (j_evidence_items j) (j_evidence_items t)" "prefix (stored_events j) (stored_events t)"
  using assms by (induction rule: rtranclp_induct) (auto dest: evidence_write_sound evidence_write_grows intro: prefix_order.trans)

lemma ev_reachable_sound: "ev_reachable lib sv \<Longrightarrow> events_sound (evs_store sv)"
proof (induction rule: ev_reachable.induct)
  case (ev_init ars)
  show ?case by (simp add: events_sound_def empty_journal_def)
next
  case (ev_next sv sv')
  show ?case by (rule writes_sound_grow(1)[OF ev_step_writes[OF ev_next(2) ev_reachable_inv[OF ev_next(1)]] ev_next(3)])
qed

lemma ev_run:
  assumes "(ev_step lib)\<^sup>*\<^sup>* sv sv'" "ev_reachable lib sv"
  shows "ev_reachable lib sv'" "prefix (j_evidence_items (evs_store sv)) (j_evidence_items (evs_store sv'))"
    "prefix (stored_events (evs_store sv)) (stored_events (evs_store sv'))"
proof -
  have "ev_reachable lib sv' \<and> evidence_write\<^sup>*\<^sup>* (evs_store sv) (evs_store sv')" using assms
  proof (induction rule: rtranclp_induct)
    case (step y z)
    then show ?case using ev_step_writes[OF step(2) ev_reachable_inv] ev_next by fastforce
  qed simp
  then show "ev_reachable lib sv'" "prefix (j_evidence_items (evs_store sv)) (j_evidence_items (evs_store sv'))"
    "prefix (stored_events (evs_store sv)) (stored_events (evs_store sv'))" using writes_sound_grow by blast+
qed

section \<open>A store that is behind another\<close>

definition behind :: "journal \<Rightarrow> journal \<Rightarrow> bool" where
  "behind s j \<longleftrightarrow> evidence_inv j \<and> events_sound j \<and> set (j_evidence_items s) \<subseteq> set (j_evidence_items j) \<and> set (stored_events s) \<subseteq> set (stored_events j) \<and>
     (\<forall>k \<in> set (item_ids s). events_for s k \<noteq> [] \<and> prefix (events_for s k) (events_for j k))"

lemma behindD:
  assumes "behind s j"
  shows "r \<in> set (j_evidence_items s) \<Longrightarrow> r \<in> set (j_evidence_items j)" "e \<in> set (stored_events s) \<Longrightarrow> e \<in> set (stored_events j)"
    "k \<in> set (item_ids s) \<Longrightarrow> events_for s k \<noteq> []" "k \<in> set (item_ids s) \<Longrightarrow> prefix (events_for s k) (events_for j k)"
    "k \<in> set (item_ids s) \<Longrightarrow> k \<in> set (item_ids j)" "evidence_inv j" "events_sound j"
  using assms unfolding behind_def item_ids_def by auto

lemma events_for_mem: "e \<in> set (events_for j k) \<longleftrightarrow> e \<in> set (stored_events j) \<and> lce_evidence_id e = k"
  by (auto simp: events_for_def)

lemma chain_nth: "lawful_chain es \<Longrightarrow> i < length es \<Longrightarrow> lce_resulting_version (es ! i) = int i + 1"
  unfolding lawful_chain_def by (metis (no_types, lifting) add_0 diff_zero length_map length_upt nth_map nth_upt)

lemma chain_mem:
  assumes "lawful_chain es" "e \<in> set es"
  obtains i where "i < length es" "e = es ! i" "lce_resulting_version e = int i + 1"
  using assms chain_nth by (metis in_set_conv_nth)

lemma chain_distinct: "lawful_chain es \<Longrightarrow> distinct es"
proof -
  assume "lawful_chain es"
  then have "distinct (map lce_resulting_version es)" by (simp add: lawful_chain_def distinct_map inj_on_def)
  then show "distinct es" by (simp add: distinct_map)
qed

lemma distinct_image: "distinct (map f xs) \<Longrightarrow> x \<in> set xs \<Longrightarrow> y \<in> set xs \<Longrightarrow> f x = f y \<Longrightarrow> x = y"
  by (meson distinct_map inj_onD)

lemma prefix_nth: "prefix xs ys \<Longrightarrow> i < length xs \<Longrightarrow> xs ! i = ys ! i"
  by (auto simp: prefix_def nth_append)

lemma chain_of: "behind s j \<Longrightarrow> k \<in> set (item_ids s) \<Longrightarrow> lawful_chain (events_for j k)"
  using evidence_invD(1) behindD(5,6) by blast

lemma behind_nth: "behind s j \<Longrightarrow> k \<in> set (item_ids s) \<Longrightarrow> i < length (events_for s k) \<Longrightarrow> lce_resulting_version (events_for s k ! i) = int i + 1"
  using prefix_nth[OF behindD(4)] chain_nth[OF chain_of] prefix_length_le[OF behindD(4)] by (metis order_less_le_trans)

lemma behind_last:
  assumes "behind s j" "k \<in> set (item_ids s)"
  shows "lce_resulting_version (last (events_for s k)) = int (length (events_for s k))"
proof -
  have "\<exists>n. length (events_for s k) = Suc n" using behindD(3)[OF assms] by (cases "events_for s k") auto
  then obtain n where n: "length (events_for s k) = Suc n" ..
  then show ?thesis using behind_nth[OF assms, of n] behindD(3)[OF assms] by (simp add: last_conv_nth)
qed

lemma behind_lifecycle:
  assumes beh: "behind s j" and k: "k \<in> set (item_ids s)"
  shows "lifecycle_of s k = events_for s k"
proof -
  have "map lce_resulting_version (events_for s k) = map (\<lambda>n. int n + 1) [0..<length (events_for s k)]"
    by (rule nth_equalityI) (simp_all add: behind_nth[OF assms])
  from sorted_versions[OF this] show ?thesis by (simp add: lifecycle_of_def events_for_def)
qed

lemma behind_projection:
  assumes beh: "behind s j" and k: "k \<in> set (item_ids s)"
  shows "\<exists>p. evidence_lifecycle_projection s k w = Inr p \<and> lcp_version p = int (length (events_for s k))"
proof -
  have ne: "events_for s k \<noteq> []" by (rule behindD(3)[OF assms])
  have "lce_resulting_version (last (events_for s k)) = int (length (events_for s k))" by (rule behind_last[OF assms])
  moreover have "find_evidence s k \<noteq> None" using k by (simp add: find_evidence_ids)
  ultimately show ?thesis using ne by (auto simp: evidence_lifecycle_projection_def behind_lifecycle[OF assms] Let_def)
qed

text \<open>An event of the other store is in this one when its version is not above the length of the life cycle.\<close>

lemma behind_has:
  assumes beh: "behind s j" and k: "k \<in> set (item_ids s)" "e \<in> set (events_for j k)"
  shows "e \<in> set (events_for s k) \<longleftrightarrow> lce_resulting_version e \<le> int (length (events_for s k))"
proof -
  obtain i where i: "i < length (events_for j k)" "e = events_for j k ! i" "lce_resulting_version e = int i + 1" by (rule chain_mem[OF chain_of[OF beh k(1)] k(2)])
  show ?thesis
  proof
    assume "e \<in> set (events_for s k)"
    then obtain m where "m < length (events_for s k)" "e = events_for s k ! m" by (auto simp: in_set_conv_nth)
    then show "lce_resulting_version e \<le> int (length (events_for s k))" using behind_nth[OF beh k(1), of m] by simp
  next
    assume "lce_resulting_version e \<le> int (length (events_for s k))"
    then have "i < length (events_for s k)" using i(3) by simp
    then show "e \<in> set (events_for s k)" using prefix_nth[OF behindD(4)[OF beh k(1)]] i(2) by (metis nth_mem)
  qed
qed

lemma behind_item:
  assumes beh: "behind s j" and e: "e \<in> set (stored_events j)" "lce_evidence_id e \<in> set (item_ids s)"
  shows "\<exists>row. find_evidence s (lce_evidence_id e) = Some row \<and> evi_incident_id (snd row) = lce_incident_id e"
proof -
  obtain row where row: "find_evidence s (lce_evidence_id e) = Some row" using e(2) by (metis find_evidence_ids not_None_eq)
  have rs: "row \<in> set (j_evidence_items s)" "evi_evidence_id (snd row) = lce_evidence_id e"
    using row by (auto simp: find_evidence_def find_Some_iff)
  obtain r where r: "r \<in> set (j_evidence_items j)" "evi_evidence_id (snd r) = lce_evidence_id e" "evi_incident_id (snd r) = lce_incident_id e"
    using e(1) behindD(7)[OF beh] unfolding events_sound_def owns_def by blast
  have "distinct (item_ids j)" using behindD(6)[OF beh] unfolding evidence_inv_def by (rule conjunct1)
  then have "r = row" using r(1,2) behindD(1)[OF beh rs(1)] rs(2) by (simp add: item_ids_def distinct_map inj_on_def)
  then show ?thesis using row r(3) by blast
qed

section \<open>Catching up\<close>

lemma next_event:
  assumes beh: "behind s j" and e: "e \<in> set (stored_events j)" "lce_evidence_id e = k" "k \<in> set (item_ids s)"
    "lce_resulting_version e = int (length (events_for s k)) + 1"
  shows "prefix (events_for s k @ [e]) (events_for j k)" "e \<notin> set (events_for s k)"
    "lce_expected_version e = lce_resulting_version (last (events_for s k))" "lce_from_state e = Some (lce_to_state (last (events_for s k)))"
proof -
  let ?xs = "events_for s k" and ?es = "events_for j k"
  have mem: "e \<in> set ?es" using e(1,2) by (simp add: events_for_mem)
  obtain i where i: "i < length ?es" "e = ?es ! i" "lce_resulting_version e = int i + 1" by (rule chain_mem[OF chain_of[OF beh e(3)] mem])
  have il: "i = length ?xs" using i(3) e(4) by simp
  obtain zs where zs: "?es = ?xs @ zs" using behindD(4)[OF beh e(3)] by (auto simp: prefix_def)
  then obtain zs' where z: "?es = ?xs @ e # zs'" using i(1,2) il by (cases zs) (auto simp: nth_append)
  then show "prefix (?xs @ [e]) ?es" by (simp add: prefix_def)
  show "e \<notin> set ?xs" using behind_has[OF beh e(3) mem] e(4) by simp
  have ne: "?xs \<noteq> []" by (rule behindD(3)[OF beh e(3)])
  have "successively (\<lambda>e e'. lce_from_state e' = Some (lce_to_state e) \<and> evidence_states.trans_rel (lce_to_state e) (lce_to_state e')) (?xs @ e # zs')"
    using chain_of[OF beh e(3)] unfolding lawful_chain_def z by blast
  then show "lce_from_state e = Some (lce_to_state (last ?xs))" using ne by (simp add: successively_append_iff)
  have "event_sound e" using behindD(7)[OF beh] e(1) unfolding events_sound_def by blast
  moreover have "lce_resulting_version (last ?xs) = int (length ?xs)"
    by (rule behind_last[OF beh e(3)])
  ultimately show "lce_expected_version e = lce_resulting_version (last ?xs)" using e(4) by (simp add: event_sound_def)
qed

lemma record_next:
  assumes beh: "behind s j" and e: "e \<in> set (stored_events j)" "lce_evidence_id e = k" "k \<in> set (item_ids s)"
    "lce_resulting_version e = int (length (events_for s k)) + 1"
  obtains x s' where "record_evidence_lifecycle lib e s = Inr (x, s')" "behind s' j" "j_evidence_items s' = j_evidence_items s"
    "\<And>i. events_for s' i = events_for s i @ (if k = i then [e] else [])"
proof -
  note n = next_event[OF assms]
  have fresh: "find_lifecycle s (lce_lifecycle_event_id e) = None"
  proof (rule ccontr)
    assume "find_lifecycle s (lce_lifecycle_event_id e) \<noteq> None"
    then obtain y where y: "y \<in> set (stored_events s)" "lce_lifecycle_event_id y = lce_lifecycle_event_id e"
      by (force simp: find_lifecycle_def find_Some_iff)
    have "distinct (map lce_lifecycle_event_id (stored_events j))" using behindD(7)[OF beh] unfolding events_sound_def by (rule conjunct2)
    then have "y = e" by (rule distinct_image) (use behindD(2)[OF beh y(1)] e(1) y(2) in simp_all)
    with y(1) n(2) e(2) show False by (simp add: events_for_mem)
  qed
  have l: "lifecycle_of s k = events_for s k" by (rule behind_lifecycle[OF beh e(3)])
  have ne: "events_for s k \<noteq> []" by (rule behindD(3)[OF beh e(3)])
  obtain p j1 where ap: "append_authority lib AM_EVIDENCE_LIFECYCLE (lce_lifecycle_event_id e) (lce_created_at e) (lib_model_dump lib (V_lifecycle e)) s = (p, j1)" by fastforce
  note fr = append_authority_frameD[OF ap]
  have uniq: "\<not> (\<exists>r \<in> set (j_evidence_lifecycle_events s). lce_evidence_id (snd r) = k \<and> lce_resulting_version (snd r) = lce_resulting_version e)"
  proof
    assume "\<exists>r \<in> set (j_evidence_lifecycle_events s). lce_evidence_id (snd r) = k \<and> lce_resulting_version (snd r) = lce_resulting_version e"
    then obtain y where "y \<in> set (events_for s k)" "lce_resulting_version y = lce_resulting_version e" by (auto simp: events_for_mem)
    then show False using behind_nth[OF beh e(3)] e(4) by (fastforce simp: in_set_conv_nth)
  qed
  let ?s = "j1\<lparr>j_evidence_lifecycle_events := j_evidence_lifecycle_events j1 @ [(value_digest lib (V_lifecycle e), e)]\<rparr>"
  have locked: "record_evidence_lifecycle_locked lib e s = Inr (e, ?s)"
    unfolding record_evidence_lifecycle_locked_def Let_def fresh option.case e(2) l ap prod.case fr(7)
    using ne n(3,4) uniq by simp
  obtain row where row: "find_evidence s k = Some row" "evi_incident_id (snd row) = lce_incident_id e" using behind_item[OF beh e(1)] e(2,3) by blast
  have r: "record_evidence_lifecycle lib e s = Inr (e, ?s)" using row locked by (simp add: record_evidence_lifecycle_def e(2))
  have items: "j_evidence_items ?s = j_evidence_items s" by (simp add: fr)
  have ev: "events_for ?s i = events_for s i @ (if k = i then [e] else [])" for i using e(2) by (simp add: events_for_def fr)
  have ids: "item_ids ?s = item_ids s" by (simp add: item_ids_def items)
  have "behind ?s j"
    unfolding behind_def ids
  proof (intro conjI ballI)
    show "evidence_inv j" "events_sound j" by (rule behindD(6)[OF beh], rule behindD(7)[OF beh])
    show "set (j_evidence_items ?s) \<subseteq> set (j_evidence_items j)" using behindD(1)[OF beh] by (auto simp: items)
    show "set (stored_events ?s) \<subseteq> set (stored_events j)" using behindD(2)[OF beh] e(1) by (auto simp: fr)
    fix i
    assume i: "i \<in> set (item_ids s)"
    show "events_for ?s i \<noteq> []" using behindD(3)[OF beh i] by (simp add: ev)
    show "prefix (events_for ?s i) (events_for j i)" using behindD(4)[OF beh i] n(1) by (cases "k = i") (simp_all add: ev)
  qed
  then show thesis by (rule that[OF r _ items ev])
qed

text \<open>Events that the store has are skipped.\<close>

lemma apply_events_skip:
  assumes "behind s j" "\<forall>e \<in> set es. lce_evidence_id e \<in> set (item_ids s) \<and> lce_resulting_version e \<le> int (length (events_for s (lce_evidence_id e)))"
  shows "apply_events lib wall es a n s = (Inr (a, n + int (length es)), s)"
  using assms(2)
proof (induction es arbitrary: n)
  case (Cons e es)
  have e: "lce_evidence_id e \<in> set (item_ids s)" "lce_resulting_version e \<le> int (length (events_for s (lce_evidence_id e)))" using Cons.prems by simp_all
  obtain p where p: "evidence_lifecycle_projection s (lce_evidence_id e) wall = Inr p" "lcp_version p = int (length (events_for s (lce_evidence_id e)))"
    using behind_projection[OF assms(1) e(1)] by blast
  have "apply_events lib wall (e # es) a n s = apply_events lib wall es a (n + 1) s" using p e(2) by simp
  also have "\<dots> = (Inr (a, n + 1 + int (length es)), s)" by (rule Cons.IH) (use Cons.prems in simp)
  finally show ?case by (simp add: algebra_simps)
qed simp

lemma apply_events_catch_up:
  assumes "behind s j" "sorted (map event_key es)" "set es \<subseteq> set (stored_events j)" "\<forall>e \<in> set es. lce_evidence_id e \<in> set (item_ids s)"
    "\<forall>k \<in> set (item_ids s). set (events_for j k) - set es \<subseteq> set (events_for s k)"
  shows "\<exists>a' n' s'. apply_events lib wall es a n s = (Inr (a', n'), s') \<and> behind s' j \<and> j_evidence_items s' = j_evidence_items s \<and>
    (\<forall>k \<in> set (item_ids s). events_for s' k = events_for j k)"
  using assms
proof (induction es arbitrary: a n s)
  case Nil
  have "events_for s k = events_for j k" if k: "k \<in> set (item_ids s)" for k
  proof -
    obtain zs where zs: "events_for j k = events_for s k @ zs" using behindD(4)[OF Nil(1) k] by (auto simp: prefix_def)
    have "distinct (events_for j k)" by (rule chain_distinct[OF chain_of[OF Nil(1) k]])
    moreover have "set (events_for j k) \<subseteq> set (events_for s k)" using Nil(5) k by simp
    then have "set zs \<subseteq> set (events_for s k)" unfolding zs by simp
    ultimately have "zs = []" unfolding zs by (cases zs) auto
    then show ?thesis using zs by simp
  qed
  then show ?case using Nil(1) by simp
next
  case (Cons e es)
  let ?k = "lce_evidence_id e"
  note beh = Cons.prems(1)
  have k: "?k \<in> set (item_ids s)" and ej: "e \<in> set (events_for j ?k)" using Cons.prems(3,4) by (auto simp: events_for_mem)
  let ?n = "int (length (events_for s ?k))"
  obtain p where p: "evidence_lifecycle_projection s ?k wall = Inr p" "lcp_version p = ?n" using behind_projection[OF beh k] by blast
  have le: "lce_resulting_version e \<le> ?n + 1"
  proof (rule ccontr)
    assume gt: "\<not> lce_resulting_version e \<le> ?n + 1"
    obtain i where i: "i < length (events_for j ?k)" "lce_resulting_version e = int i + 1" using chain_mem[OF chain_of[OF beh k] ej] by blast
    let ?q = "events_for j ?k ! (i - 1)"
    have i1: "0 < i" using gt i(2) by simp
    then have q: "?q \<in> set (events_for j ?k)" "lce_resulting_version ?q = int i" using i(1) chain_nth[OF chain_of[OF beh k], of "i - 1"] by (auto simp: of_nat_diff)
    have "?q \<notin> set (e # es)"
    proof
      assume "?q \<in> set (e # es)"
      then have "event_key e \<le> event_key ?q" using Cons.prems(2) by auto
      then show False using q i(2) by (simp add: events_for_mem)
    qed
    then have "?q \<in> set (events_for s ?k)" using Cons.prems(5) k q(1) by blast
    then have "lce_resulting_version ?q \<le> ?n" using behind_has[OF beh k q(1)] by simp
    then show False using q(2) gt i(2) by simp
  qed
  have sorted: "sorted (map event_key es)" "set es \<subseteq> set (stored_events j)" using Cons.prems(2,3) by simp_all
  show ?case
  proof (cases "lce_resulting_version e \<le> ?n")
    case True
    have "\<forall>k \<in> set (item_ids s). set (events_for j k) - set es \<subseteq> set (events_for s k)"
    proof (intro ballI subsetI)
      fix i y
      assume i: "i \<in> set (item_ids s)" and y: "y \<in> set (events_for j i) - set es"
      show "y \<in> set (events_for s i)"
      proof (cases "y = e")
        case ye: True
        then have "i = ?k" using y by (simp add: events_for_mem)
        then show ?thesis using behind_has[OF beh k ej] True ye by simp
      qed (use y i Cons.prems(5) in auto)
    qed
    from Cons.IH[OF beh sorted _ this, of a "n + 1"] Cons.prems(4) p True show ?thesis by simp
  next
    case False
    then have r: "lce_resulting_version e = ?n + 1" using le by simp
    have es: "e \<in> set (stored_events j)" using Cons.prems(3) by simp
    have ex: "lce_expected_version e = ?n" using next_event(3)[OF beh es refl k r] behind_last[OF beh k] by simp
    obtain x s' where s': "record_evidence_lifecycle lib e s = Inr (x, s')" "behind s' j" "j_evidence_items s' = j_evidence_items s"
      "\<And>i. events_for s' i = events_for s i @ (if ?k = i then [e] else [])" using record_next[OF beh es refl k r] by blast
    have ids: "item_ids s' = item_ids s" by (simp add: item_ids_def s'(3))
    have "\<forall>k \<in> set (item_ids s'). set (events_for j k) - set es \<subseteq> set (events_for s' k)"
      unfolding ids using Cons.prems(5) by (fastforce simp: s'(4) events_for_mem)
    from Cons.IH[OF s'(2) sorted _ this, of "a + 1" n] Cons.prems(4) show ?thesis using p False ex s'(1,3) by (simp add: ids)
  qed
qed

section \<open>Journals of one run\<close>

lemma set_tombstone_events: "set (tombstone_events j) = {e \<in> set (stored_events j). lce_action e \<noteq> EL_REGISTER}"
  by (auto simp: tombstone_events_def evidence_lifecycle_events_def)

lemma build_events: "build_tombstone_journal lib j t = Inr tj \<Longrightarrow> tmj_events tj = tombstone_events j"
  by (auto simp: build_tombstone_journal_def Let_def bind_result_Inr)

lemma prefix_events_for: "prefix (stored_events b) (stored_events j) \<Longrightarrow> prefix (events_for b k) (events_for j k)"
  by (auto simp: prefix_def events_for_def)

lemma run_behind:
  assumes "ev_reachable lib sv0" "(ev_step lib)\<^sup>*\<^sup>* sv0 sv1"
  shows "behind (evs_store sv0) (evs_store sv1)"
proof -
  note run = ev_run[OF assms(2,1)]
  have "events_for (evs_store sv0) k \<noteq> []" if "k \<in> set (item_ids (evs_store sv0))" for k
    using evidence_invD(1)[OF ev_reachable_inv[OF assms(1)] that] by (simp add: lawful_chain_def)
  then show ?thesis
    unfolding behind_def using ev_reachable_inv[OF run(1)] ev_reachable_sound[OF run(1)] set_mono_prefix[OF run(2)] set_mono_prefix[OF run(3)]
      prefix_events_for[OF run(3)] by blast
qed

lemma run_items:
  assumes "ev_reachable lib sv0" "(ev_step lib)\<^sup>*\<^sup>* sv0 sv1" "k \<in> set (item_ids (evs_store sv0))"
  shows "find_evidence (evs_store sv1) k = find_evidence (evs_store sv0) k"
proof -
  obtain r where "find_evidence (evs_store sv0) k = Some r" using assms(3) by (metis find_evidence_ids not_None_eq)
  moreover obtain zs where "j_evidence_items (evs_store sv1) = j_evidence_items (evs_store sv0) @ zs" using ev_run(2)[OF assms(2,1)] by (auto simp: prefix_def)
  moreover have "find P xs = Some r \<Longrightarrow> find P (xs @ zs) = Some r" for P and xs zs :: "(string \<times> EvidenceItem) list" by (induction xs) (auto split: if_splits)
  ultimately show ?thesis by (simp add: find_evidence_def)
qed

lemma sorted_tombstones: "sorted (map event_key (tombstone_events j))"
  by (simp add: tombstone_events_def)

text \<open>The first event of a life cycle is its registration, so the others are all tombstones.\<close>

lemma only_registrations:
  assumes "behind s j" "k \<in> set (item_ids s)"
  shows "set (events_for j k) - set (tombstone_events j) \<subseteq> set (events_for s k)"
proof
  fix e
  assume e: "e \<in> set (events_for j k) - set (tombstone_events j)"
  then have "lce_action e = EL_REGISTER" "e \<in> set (stored_events j)" by (auto simp: set_tombstone_events events_for_mem)
  then have "lce_resulting_version e = 1" using behindD(7)[OF assms(1)] by (auto simp: events_sound_def event_sound_def)
  moreover have "1 \<le> length (events_for s k)" using behindD(3)[OF assms] by (cases "events_for s k") auto
  ultimately show "e \<in> set (events_for s k)" using behind_has[OF assms] e by simp
qed

lemma own_journal_skipped:
  assumes "ev_reachable lib sv0" "behind (evs_store sv0) j"
  shows "apply_events lib wall (tombstone_events (evs_store sv0)) 0 0 (evs_store sv0) = (Inr (0, int (length (tombstone_events (evs_store sv0)))), evs_store sv0)"
proof -
  have "lce_evidence_id e \<in> set (item_ids (evs_store sv0)) \<and> lce_resulting_version e \<le> int (length (events_for (evs_store sv0) (lce_evidence_id e)))"
    if e: "e \<in> set (tombstone_events (evs_store sv0))" for e
  proof -
    have s: "e \<in> set (stored_events (evs_store sv0))" using e by (simp add: set_tombstone_events)
    then have k: "lce_evidence_id e \<in> set (item_ids (evs_store sv0))"
      using ev_reachable_sound[OF assms(1)] owns_ids unfolding events_sound_def by blast
    have "e \<in> set (events_for j (lce_evidence_id e))" using behindD(2)[OF assms(2) s] by (simp add: events_for_mem)
    then show ?thesis using k behind_has[OF assms(2) k] s by (simp add: events_for_mem)
  qed
  then have "\<forall>e \<in> set (tombstone_events (evs_store sv0)). lce_evidence_id e \<in> set (item_ids (evs_store sv0)) \<and>
      lce_resulting_version e \<le> int (length (events_for (evs_store sv0) (lce_evidence_id e)))" by (rule ballI)
  from apply_events_skip[OF assms(2) this, of lib wall 0 0] show ?thesis by simp
qed

section \<open>Claims\<close>

text \<open>
  C14. Deletion survives a restore. Let a backup hold the evidence tables of a reachable node with the
  tombstone journal built from them, and let the node go on. When the backup is restored with the node's current
  journal, no older than the backup's, and all its tombstones concern evidence of the backup, both applications
  succeed, and every evidence item of the backup has the projection that the node has, at any time: state, version,
  readability and deletion proof. What was redacted, expired or deleted after the backup stays so, and a
  repeated application changes nothing.
\<close>

theorem restored_backup_stays_deleted:
  assumes "ev_reachable lib sv0" "(ev_step lib)\<^sup>*\<^sup>* sv0 sv1" "build_tombstone_journal lib (evs_store sv0) t0 = Inr bundled"
    "build_tombstone_journal lib (evs_store sv1) t1 = Inr current" "tmj_source_authority_position bundled \<le> tmj_source_authority_position current"
    "\<forall>e \<in> set (tmj_events current). lce_evidence_id e \<in> set (item_ids (evs_store sv0))"
  shows "\<exists>rep restored. restore_tombstones lib wall bundled (Some current) (evs_store sv0) = (Inr rep, restored) \<and>
    (\<forall>k \<in> set (item_ids (evs_store sv0)). \<forall>w. evidence_lifecycle_projection restored k w = evidence_lifecycle_projection (evs_store sv1) k w) \<and>
    snd (apply_tombstone_journal lib wall current restored) = restored"
proof -
  let ?b = "evs_store sv0" and ?j = "evs_store sv1"
  note beh = run_behind[OF assms(1,2)]
  have ev: "tmj_events bundled = tombstone_events ?b" "tmj_events current = tombstone_events ?j" using build_events assms(3,4) by blast+
  have own: "\<exists>r. apply_tombstone_journal lib wall bundled ?b = (Inr r, ?b)"
    using own_journal_skipped[OF assms(1) beh] by (simp add: apply_tombstone_journal_def ev)
  have todo: "set (tombstone_events ?j) \<subseteq> set (stored_events ?j)" "\<forall>e \<in> set (tombstone_events ?j). lce_evidence_id e \<in> set (item_ids ?b)"
    using assms(6) by (auto simp: set_tombstone_events ev)
  from apply_events_catch_up[OF beh sorted_tombstones todo, of lib wall 0 0] only_registrations[OF beh]
  obtain a n s where s: "apply_events lib wall (tombstone_events ?j) 0 0 ?b = (Inr (a, n), s)" "behind s ?j" "j_evidence_items s = j_evidence_items ?b"
    "\<forall>k \<in> set (item_ids ?b). events_for s k = events_for ?j k" by blast
  have ids: "item_ids s = item_ids ?b" by (simp add: item_ids_def s(3))
  have r: "\<exists>rep. restore_tombstones lib wall bundled (Some current) ?b = (Inr rep, s)"
    using own assms(5) s(1) by (auto simp: restore_tombstones_def apply_tombstone_journal_def[of lib wall current] ev(2))
  have "evidence_lifecycle_projection s k w = evidence_lifecycle_projection ?j k w" if k: "k \<in> set (item_ids ?b)" for k w
  proof (rule projection_cong)
    show "find_evidence s k = find_evidence ?j k" using run_items[OF assms(1,2) k] s(3) by (simp add: find_evidence_def)
    show "lifecycle_of s k = lifecycle_of ?j k"
      using behind_lifecycle[OF s(2)] lifecycle_of_inv[OF behindD(6)[OF beh]] s(4) k by (simp add: ids)
  qed
  moreover have "snd (apply_tombstone_journal lib wall current s) = s"
  proof -
    have "\<forall>e \<in> set (tombstone_events ?j). lce_evidence_id e \<in> set (item_ids s) \<and> lce_resulting_version e \<le> int (length (events_for s (lce_evidence_id e)))"
      using todo behind_has[OF s(2)] s(4) by (auto simp: ids events_for_mem set_tombstone_events)
    from apply_events_skip[OF s(2) this, of lib wall 0 0] show ?thesis by (simp add: apply_tombstone_journal_def ev(2))
  qed
  ultimately show ?thesis using r by blast
qed

text \<open>The items are never changed, and an event whose evidence is missing is never passed over.\<close>

lemma apply_events_items:
  "apply_events lib wall es a n s = (out, s') \<Longrightarrow>
     item_ids s' = item_ids s \<and> (is_ok out \<longrightarrow> (\<forall>e \<in> set es. lce_evidence_id e \<in> set (item_ids s)))"
proof (induction es arbitrary: a n s)
  case (Cons x es)
  show ?case
  proof (cases "evidence_lifecycle_projection s (lce_evidence_id x) wall")
    case (Inl err)
    then show ?thesis using Cons.prems by (auto split: py_exn.splits)
  next
    case (Inr p)
    then have x: "lce_evidence_id x \<in> set (item_ids s)" using find_evidence_ids by (force simp: evidence_lifecycle_projection_def split: option.splits)
    show ?thesis
    proof (cases "record_evidence_lifecycle lib x s")
      case (Inl err)
      then show ?thesis using Cons.prems Inr x Cons.IH[of a "n + 1" s] by (auto split: if_splits)
    next
      case r: (Inr y)
      obtain z s1 where y: "y = (z, s1)" by (cases y)
      have "record_evidence_lifecycle_locked lib x s = Inr (z, s1)" using r y by (auto simp: record_evidence_lifecycle_def split: option.splits if_splits)
      then have "item_ids s1 = item_ids s" using lifecycle_locked_frame(1) by (simp add: item_ids_def)
      then show ?thesis using Cons.prems Inr x r y Cons.IH[of a "n + 1" s] Cons.IH[of "a + 1" n s1] by (auto split: if_splits)
    qed
  qed
qed simp

lemma apply_journal_items:
  assumes "apply_tombstone_journal lib wall t s = (out, s')"
  shows "item_ids s' = item_ids s" "is_ok out \<Longrightarrow> e \<in> set (tmj_events t) \<Longrightarrow> lce_evidence_id e \<in> set (item_ids s)"
proof -
  obtain o1 s1 where o1: "apply_events lib wall (tmj_events t) 0 0 s = (o1, s1)" by fastforce
  then show "item_ids s' = item_ids s" "is_ok out \<Longrightarrow> e \<in> set (tmj_events t) \<Longrightarrow> lce_evidence_id e \<in> set (item_ids s)"
    using assms apply_events_items[OF o1] by (cases o1; auto simp: apply_tombstone_journal_def split: prod.splits)+
qed

text \<open>
  Later evidence blocks the restore. When evidence that was ingested after the backup has been redacted, expired or
  deleted since, the node's current journal has a tombstone for it and the restore with that journal raises, whatever
  the journal of the backup: the tombstones that sort after it are not applied.
\<close>

theorem later_evidence_blocks_restore:
  assumes "build_tombstone_journal lib (evs_store sv1) t1 = Inr current" "e \<in> set (lifecycle_of (evs_store sv1) k)" "lce_action e \<noteq> EL_REGISTER"
    "k \<notin> set (item_ids b)"
  shows "\<exists>x. fst (restore_tombstones lib wall bundled (Some current) b) = Inl x"
proof -
  have e: "e \<in> set (tmj_events current)" "lce_evidence_id e = k"
    using assms(2,3) build_events[OF assms(1)] by (auto simp: set_tombstone_events lifecycle_of_def)
  obtain o1 b1 where o1: "apply_tombstone_journal lib wall bundled b = (o1, b1)" by fastforce
  obtain o2 b2 where o2: "apply_tombstone_journal lib wall current b1 = (o2, b2)" by fastforce
  have "\<not> is_ok o2" using apply_journal_items(2)[OF o2 _ e(1)] apply_journal_items(1)[OF o1] e(2) assms(4) by auto
  then show ?thesis using o1 o2 by (cases o1; cases o2) (auto simp: restore_tombstones_def)
qed

section \<open>Witnesses\<close>

definition demo_journal :: "journal \<Rightarrow> TombstoneJournal" where
  "demo_journal j = projr (build_tombstone_journal demo_evidence_library j 0)"

lemma demo_tombstone_facts:
  "let j2 = evs_store demo_two; jd = evs_store demo_deleted; b2 = build_tombstone_journal demo_evidence_library j2 0; bd = build_tombstone_journal demo_evidence_library jd 0
   in is_ok b2 \<and> is_ok bd \<and> tmj_source_authority_position (projr b2) \<le> tmj_source_authority_position (projr bd) \<and>
      map lce_evidence_id (tmj_events (projr bd)) = [''e1''] \<and> item_ids j2 = [''e1'', ''e2''] \<and>
      map_sum (\<lambda>_. ()) lcp_state (evidence_lifecycle_projection jd ''e1'' 6) = Inr ES_DELETED"
  by code_simp

lemma demo_built: "build_tombstone_journal demo_evidence_library (evs_store demo_two) 0 = Inr (demo_journal (evs_store demo_two))"
  "build_tombstone_journal demo_evidence_library (evs_store demo_deleted) 0 = Inr (demo_journal (evs_store demo_deleted))"
proof -
  have "is_ok (build_tombstone_journal demo_evidence_library (evs_store demo_two) 0)" using demo_tombstone_facts by (simp only: Let_def)
  then show "build_tombstone_journal demo_evidence_library (evs_store demo_two) 0 = Inr (demo_journal (evs_store demo_two))"
    by (cases "build_tombstone_journal demo_evidence_library (evs_store demo_two) 0") (simp_all add: demo_journal_def)
  have "is_ok (build_tombstone_journal demo_evidence_library (evs_store demo_deleted) 0)" using demo_tombstone_facts by (simp only: Let_def)
  then show "build_tombstone_journal demo_evidence_library (evs_store demo_deleted) 0 = Inr (demo_journal (evs_store demo_deleted))"
    by (cases "build_tombstone_journal demo_evidence_library (evs_store demo_deleted) 0") (simp_all add: demo_journal_def)
qed

theorem restored_backup_stays_deleted_witness:
  "\<exists>rep restored. restore_tombstones demo_evidence_library 6 (demo_journal (evs_store demo_two)) (Some (demo_journal (evs_store demo_deleted))) (evs_store demo_two)
     = (Inr rep, restored) \<and> map_sum (\<lambda>_. ()) lcp_state (evidence_lifecycle_projection restored ''e1'' 6) = Inr ES_DELETED"
proof -
  have step: "ev_step demo_evidence_library demo_two demo_deleted" unfolding demo_deleted_def by (rule ev_transition)
  have f: "tmj_source_authority_position (demo_journal (evs_store demo_two)) \<le> tmj_source_authority_position (demo_journal (evs_store demo_deleted))" using demo_tombstone_facts by (simp only: Let_def demo_journal_def)
  have g: "map lce_evidence_id (tmj_events (demo_journal (evs_store demo_deleted))) = [''e1'']" using demo_tombstone_facts by (simp only: Let_def demo_journal_def)
  have h: "item_ids (evs_store demo_two) = [''e1'', ''e2'']" using demo_tombstone_facts by (simp only: Let_def demo_journal_def)
  have l: "map_sum (\<lambda>_. ()) lcp_state (evidence_lifecycle_projection (evs_store demo_deleted) ''e1'' 6) = Inr ES_DELETED" using demo_tombstone_facts by (simp only: Let_def demo_journal_def)
  have "\<forall>e \<in> set (tmj_events (demo_journal (evs_store demo_deleted))). lce_evidence_id e \<in> set (item_ids (evs_store demo_two))"
    using arg_cong[OF g, of set] unfolding h by auto
  from restored_backup_stays_deleted[OF demo_service_reachable(2) r_into_rtranclp[of "ev_step demo_evidence_library", OF step] demo_built f this, of 6] h l
  show ?thesis by fastforce
qed

end
