(* ===== verification/Update_Manager.thy ===== *)
theory Update_Manager
  imports Configuration Tombstones Key_Lifecycle
begin

text \<open>
  Offline updates, \<^verbatim>\<open>src/src/sentinel_edge/update/manager.py\<close>: building a signed bundle, verifying, staging and activating it.

  An archive is the list of its members in order. A directory of files is a list of normalised paths with their bytes:
  empty and \<^verbatim>\<open>.\<close> components of a path are dropped, as the path library does, and a file cannot stand where a directory
  is needed. The manager's own directories are the dictionaries of the state, keyed by the name of the bundle; the
  database \<^verbatim>\<open>incidents.sqlite3\<close> beside them is the journal \<open>upm_incidents\<close>, which opening may migrate. Reading the JSON
  text of the metadata is the function \<open>umc_parse\<close>, signatures are those of \<open>key_codec\<close>; the self-test is an argument and
  may raise. Symbolic links are not modelled.
\<close>

section \<open>State\<close>

type_synonym directory = "(string list \<times> string) list"
type_synonym archive = "(string \<times> string) list"

record update_pointer =
  upt_bundle_id :: string
  upt_version :: int
  upt_path :: string
  upt_metadata_sha256 :: string
  upt_activated_at :: datetime

record update_manager =
  upm_public_key :: string
  upm_current_project_version :: string
  upm_mode :: RuntimeMode
  upm_incidents :: "journal option"
  upm_staged :: "(string, directory) dict"
  upm_activated :: "(string, directory) dict"
  upm_pointer :: "update_pointer option"

record update_codec = key_codec +
  umc_parse :: "string \<Rightarrow> OfflineUpdateMetadata result"

definition metadata_name :: string where
  "metadata_name = ''metadata.json''"

definition signature_name :: string where
  "signature_name = ''metadata.ed25519''"

definition protected_path :: "string \<Rightarrow> bool" where
  "protected_path p \<longleftrightarrow> list_ex (starts_with p) [''artifacts/'', ''evidence/'', ''backups/'', ''privacy/'', ''state/'']"

fun version_parts :: "string list \<Rightarrow> int list option" where
  "version_parts [] = Some []"
| "version_parts (p # ps) =
     (case int_of_text p of None \<Rightarrow> None | Some n \<Rightarrow> (case version_parts ps of None \<Rightarrow> None | Some ns \<Rightarrow> Some (n # ns)))"

definition version_tuple :: "string \<Rightarrow> int list result" where
  "version_tuple v =
     (case version_parts (split_on (CHR ''.'') (hd (split_on (CHR ''-'') (hd (split_on (CHR ''+'') v))))) of
        None \<Rightarrow> Inl (ValueError (''invalid semantic version: '' @ v))
      | Some ns \<Rightarrow> Inr ns)"

definition key_id :: "library \<Rightarrow> string \<Rightarrow> string" where
  "key_id lib raw = take 32 (sha256_bytes lib raw)"

text \<open>The constructors with their validators; a target keeps the normalised path.\<close>

fun init_targets :: "OfflineUpdateTarget list \<Rightarrow> OfflineUpdateTarget list result" where
  "init_targets [] = Inr []"
| "init_targets (t # ts) = bind_result (OfflineUpdateTarget_init t) (\<lambda>t'. bind_result (init_targets ts) (\<lambda>ts'. Inr (t' # ts')))"

definition OfflineUpdateMetadata_init :: "OfflineUpdateMetadata \<Rightarrow> OfflineUpdateMetadata result" where
  "OfflineUpdateMetadata_init m =
     bind_result (init_targets (oum_targets m)) (\<lambda>ts.
       let m' = m\<lparr>oum_targets := ts\<rparr>
       in if \<not> OfflineUpdateMetadata_fields_ok m' then Inl (ValidationError ''OfflineUpdateMetadata'')
          else bind_result (validate_update_metadata m') (\<lambda>_. Inr m'))"

definition read_metadata :: "update_codec \<Rightarrow> string \<Rightarrow> OfflineUpdateMetadata result" where
  "read_metadata codec bytes = bind_result (umc_parse codec bytes) OfflineUpdateMetadata_init"

definition metadata_bytes :: "library \<Rightarrow> OfflineUpdateMetadata \<Rightarrow> string" where
  "metadata_bytes lib m = canonical_json_bytes lib (lib_model_dump lib (V_update m))"

section \<open>Directories\<close>

definition path_parts :: "string \<Rightarrow> string list" where
  "path_parts p = filter (\<lambda>c. c \<noteq> [] \<and> c \<noteq> ''.'') (split_on (CHR ''/'') p)"

definition write_file :: "string \<Rightarrow> string \<Rightarrow> directory \<Rightarrow> directory result" where
  "write_file p data d =
     (let parts = path_parts p in
      if parts = [] \<or> (\<exists>f \<in> set d. strict_prefix parts (fst f)) then Inl (OSError ''Is a directory'')
      else if \<exists>f \<in> set d. strict_prefix (fst f) parts then Inl (OSError ''Not a directory'')
      else Inr (AList.update parts data d))"

definition read_file :: "string \<Rightarrow> directory \<Rightarrow> string option" where
  "read_file p d = map_of d (path_parts p)"

section \<open>Building a bundle\<close>

record bundle_request =
  bnd_bundle_id :: string
  bnd_version :: int
  bnd_created_at :: datetime
  bnd_expires_at :: datetime
  bnd_compatible_min_version :: string
  bnd_compatible_max_version :: string
  bnd_minimum_tombstone_authority_position :: int
  bnd_required_tombstone_journal_sha256 :: "string option"

fun collect_targets :: "library \<Rightarrow> directory \<Rightarrow> string list \<Rightarrow> OfflineUpdateTarget list result" where
  "collect_targets lib source [] = Inr []"
| "collect_targets lib source (raw # raws) =
     bind_result (OfflineUpdateTarget_init \<lparr>out_path = raw, out_length = 0, out_sha256 = replicate 64 CHR ''0''\<rparr>) (\<lambda>t.
       case read_file (out_path t) source of
         None \<Rightarrow> Inl (FileNotFoundError (out_path t))
       | Some data \<Rightarrow>
           if protected_path (out_path t)
           then Inl (ValueError ''update targets cannot overwrite protected state, evidence, backup, or privacy paths'')
           else bind_result (OfflineUpdateTarget_init \<lparr>out_path = out_path t, out_length = int (length data), out_sha256 = sha256_bytes lib data\<rparr>) (\<lambda>t'.
             bind_result (collect_targets lib source raws) (\<lambda>ts. Inr (t' # ts))))"

definition update_metadata_for :: "library \<Rightarrow> bundle_request \<Rightarrow> string \<Rightarrow> OfflineUpdateTarget list \<Rightarrow> OfflineUpdateMetadata" where
  "update_metadata_for lib q public_key targets =
     \<lparr>oum_schema_version = ''1.0.0'', oum_bundle_id = bnd_bundle_id q, oum_version = bnd_version q, oum_created_at = bnd_created_at q,
      oum_expires_at = bnd_expires_at q, oum_compatible_project = ''sentinel-edge'', oum_compatible_min_version = bnd_compatible_min_version q,
      oum_compatible_max_version = bnd_compatible_max_version q, oum_targets = targets, oum_root_key_id = key_id lib public_key,
      oum_minimum_tombstone_authority_position = bnd_minimum_tombstone_authority_position q,
      oum_required_tombstone_journal_sha256 = bnd_required_tombstone_journal_sha256 q\<rparr>"

text \<open>\<open>sign\<close> is the signature by the private key of \<open>public_key\<close>.\<close>

definition build_update_bundle :: "library \<Rightarrow> update_codec \<Rightarrow> (string \<Rightarrow> string) \<Rightarrow> string \<Rightarrow> directory \<Rightarrow> string list \<Rightarrow> bundle_request \<Rightarrow> archive result" where
  "build_update_bundle lib codec sign public_key source target_paths q =
     bind_result (collect_targets lib source (sorted_set target_paths)) (\<lambda>targets.
     bind_result (OfflineUpdateMetadata_init (update_metadata_for lib q public_key targets)) (\<lambda>m.
       let bytes = metadata_bytes lib m
       in Inr ([(metadata_name, bytes), (signature_name, kcd_b64encode codec (sign bytes))] @
            map (\<lambda>t. (out_path t, the (read_file (out_path t) source))) targets)))"

section \<open>Verification\<close>

definition current_update_version :: "update_manager \<Rightarrow> int" where
  "current_update_version um = (case upm_pointer um of None \<Rightarrow> 0 | Some p \<Rightarrow> upt_version p)"

definition current_tombstone_status :: "library \<Rightarrow> datetime \<Rightarrow> update_manager \<Rightarrow> (int \<times> string) result \<times> update_manager" where
  "current_tombstone_status lib clock um =
     (case upm_incidents um of
        None \<Rightarrow> (Inr (0, digest lib (JObj [(''schema'', JStr ''sentinel-edge-privacy-tombstones/empty'')])), um)
      | Some j \<Rightarrow>
          let opened = open_store lib j
          in (bind_result (build_tombstone_journal lib opened clock) (\<lambda>t. Inr (tmj_source_authority_position t, tmj_payload_sha256 t)),
              um\<lparr>upm_incidents := Some opened\<rparr>))"

definition verify_tombstone_requirement :: "library \<Rightarrow> datetime \<Rightarrow> OfflineUpdateMetadata \<Rightarrow> update_manager \<Rightarrow> string list result \<times> update_manager" where
  "verify_tombstone_requirement lib clock m um =
     (case current_tombstone_status lib clock um of
        (Inl e, um1) \<Rightarrow> (Inl e, um1)
      | (Inr (position, dg), um1) \<Rightarrow>
          (if position < oum_minimum_tombstone_authority_position m then Inl (ValueError ''update requires a newer privacy tombstone watermark'')
           else if (case oum_required_tombstone_journal_sha256 m of
                      None \<Rightarrow> False
                    | Some req \<Rightarrow> position = oum_minimum_tombstone_authority_position m \<and> dg \<noteq> req)
           then Inl (ValueError ''update tombstone journal digest does not match the required watermark'')
           else Inr [''tombstone_position:'' @ str_int position, ''tombstone_requirement_satisfied''], um1))"

fun check_member_names :: "string list \<Rightarrow> unit result" where
  "check_member_names [] = Inr ()"
| "check_member_names (n # ns) =
     bind_result (OfflineUpdateTarget_init \<lparr>out_path = n, out_length = 0, out_sha256 = replicate 64 CHR ''0''\<rparr>) (\<lambda>t.
       if out_path t \<noteq> n then Inl (ValueError ''update archive member is not canonical'') else check_member_names ns)"

fun check_targets :: "library \<Rightarrow> archive \<Rightarrow> OfflineUpdateTarget list \<Rightarrow> unit result" where
  "check_targets lib ar [] = Inr ()"
| "check_targets lib ar (t # ts) =
     (if protected_path (out_path t) then Inl (ValueError ''update metadata targets a protected state or privacy path'')
      else (case map_of ar (out_path t) of
         None \<Rightarrow> Inl (KeyError (out_path t))
       | Some data \<Rightarrow>
           if int (length data) \<noteq> out_length t \<or> sha256_bytes lib data \<noteq> out_sha256 t
           then Inl (ValueError (''update target verification failed: '' @ out_path t))
           else check_targets lib ar ts))"

definition signature_ok :: "update_codec \<Rightarrow> string \<Rightarrow> string \<Rightarrow> string \<Rightarrow> bool" where
  "signature_ok codec public_key encoded bytes \<longleftrightarrow>
     (case kcd_b64decode codec encoded of None \<Rightarrow> False | Some sig \<Rightarrow> kcd_ed25519_verify codec public_key sig bytes)"

definition check_compatible :: "string \<Rightarrow> OfflineUpdateMetadata \<Rightarrow> unit result" where
  "check_compatible project_version m =
     bind_result (version_tuple project_version) (\<lambda>current.
     bind_result (version_tuple (oum_compatible_min_version m)) (\<lambda>lo.
       if current < lo then Inl (ValueError ''update bundle is incompatible with the current project version'')
       else bind_result (version_tuple (oum_compatible_max_version m)) (\<lambda>hi.
         if hi < current then Inl (ValueError ''update bundle is incompatible with the current project version'') else Inr ())))"

text \<open>The checks of the archive, up to the tombstone requirement: the metadata and its bytes.\<close>

definition verify_archive :: "library \<Rightarrow> update_codec \<Rightarrow> archive \<Rightarrow> datetime \<Rightarrow> update_manager \<Rightarrow> (OfflineUpdateMetadata \<times> string) result" where
  "verify_archive lib codec ar now um =
     (let names = map fst ar in
      bind_result (ensure (distinct names) (ValueError ''update bundle contains duplicate archive members'')) (\<lambda>_.
      bind_result (check_member_names names) (\<lambda>_.
      case (map_of ar metadata_name, map_of ar signature_name) of
        (Some bytes, Some encoded) \<Rightarrow>
          if \<not> signature_ok codec (upm_public_key um) encoded bytes then Inl (ValueError ''update metadata signature is invalid'')
          else bind_result (read_metadata codec bytes) (\<lambda>m.
            if key_id lib (upm_public_key um) \<noteq> oum_root_key_id m then Inl (ValueError ''update root key identifier mismatch'')
            else if metadata_bytes lib m \<noteq> bytes then Inl (ValueError ''update metadata is not canonical'')
            else if oum_expires_at m \<le> now then Inl (ValueError ''update metadata is expired'')
            else if now < oum_created_at m then Inl (ValueError ''update metadata creation time is in the future'')
            else bind_result (check_compatible (upm_current_project_version um) m) (\<lambda>_.
              if oum_version m \<le> current_update_version um then Inl (ValueError ''update rollback or replay detected'')
              else if set names - set (map out_path (oum_targets m)) - {metadata_name, signature_name} \<noteq> {} \<or>
                 \<not> set (map out_path (oum_targets m)) \<subseteq> set names
              then Inl (ValueError ''update archive members differ from signed targets'')
              else bind_result (check_targets lib ar (oum_targets m)) (\<lambda>_. Inr (m, bytes))))
      | _ \<Rightarrow> Inl (ValueError ''update bundle is missing signed metadata''))))"

definition verification_for :: "OfflineUpdateMetadata \<Rightarrow> UpdateBundleState \<Rightarrow> datetime \<Rightarrow> string \<Rightarrow> string list \<Rightarrow> OfflineUpdateVerification" where
  "verification_for m st now sha reasons =
     \<lparr>ouv_bundle_id = oum_bundle_id m, ouv_version = oum_version m, ouv_state = st, ouv_verified_at = now, ouv_metadata_sha256 = sha,
      ouv_signer_key_id = oum_root_key_id m, ouv_reason_codes = reasons\<rparr>"

definition verify_update :: "library \<Rightarrow> update_codec \<Rightarrow> archive \<Rightarrow> datetime \<Rightarrow> datetime \<Rightarrow> update_manager \<Rightarrow>
    (OfflineUpdateMetadata \<times> OfflineUpdateVerification) result \<times> update_manager" where
  "verify_update lib codec ar now clock um =
     (case verify_archive lib codec ar now um of
        Inl e \<Rightarrow> (Inl e, um)
      | Inr (m, bytes) \<Rightarrow>
          (case verify_tombstone_requirement lib clock m um of
             (Inl e, um1) \<Rightarrow> (Inl e, um1)
           | (Inr reasons, um1) \<Rightarrow>
               (Inr (m, verification_for m UB_VERIFIED now (sha256_bytes lib bytes)
                  ([''ed25519_signature_valid'', ''expiry_valid'', ''rollback_check_passed'', ''targets_verified''] @ reasons)), um1)))"

section \<open>Staging and activation\<close>

definition bundle_directory :: "OfflineUpdateMetadata \<Rightarrow> string" where
  "bundle_directory m = oum_bundle_id m @ ''-'' @ str_int (oum_version m)"

fun write_targets :: "library \<Rightarrow> archive \<Rightarrow> OfflineUpdateTarget list \<Rightarrow> directory \<Rightarrow> directory result" where
  "write_targets lib ar [] d = Inr d"
| "write_targets lib ar (t # ts) d =
     (case map_of ar (out_path t) of
        None \<Rightarrow> Inl (KeyError (out_path t))
      | Some data \<Rightarrow> bind_result (write_file (out_path t) data d) (\<lambda>d1.
          if sha256_bytes lib data \<noteq> out_sha256 t then Inl (ValueError ''staged target digest mismatch'')
          else write_targets lib ar ts d1))"

text \<open>The old directory is removed before the new one is written; a failure leaves neither.\<close>

definition stage_update :: "library \<Rightarrow> update_codec \<Rightarrow> archive \<Rightarrow> datetime \<Rightarrow> datetime \<Rightarrow> update_manager \<Rightarrow>
    (string \<times> OfflineUpdateVerification) result \<times> update_manager" where
  "stage_update lib codec ar now clock um =
     (if upm_mode um \<in> {RM_JUDGE, RM_BENCHMARK} then (Inl (PermissionError ''judge and benchmark modes are immutable''), um)
      else (case verify_update lib codec ar now clock um of
         (Inl e, um1) \<Rightarrow> (Inl e, um1)
       | (Inr (m, v), um1) \<Rightarrow>
           let destination = bundle_directory m;
               um2 = um1\<lparr>upm_staged := AList.delete destination (upm_staged um1)\<rparr>
           in (case bind_result (write_targets lib ar (oum_targets m) []) (write_file metadata_name (metadata_bytes lib m)) of
                 Inl e \<Rightarrow> (Inl e, um2)
               | Inr d \<Rightarrow> (Inr (destination, v\<lparr>ouv_state := UB_STAGED\<rparr>), um2\<lparr>upm_staged := AList.update destination d (upm_staged um2)\<rparr>))))"

fun check_staged :: "library \<Rightarrow> directory \<Rightarrow> OfflineUpdateTarget list \<Rightarrow> unit result" where
  "check_staged lib d [] = Inr ()"
| "check_staged lib d (t # ts) =
     (case read_file (out_path t) d of
        None \<Rightarrow> Inl (ValueError ''staged update target no longer matches signed metadata'')
      | Some data \<Rightarrow>
          if int (length data) \<noteq> out_length t \<or> sha256_bytes lib data \<noteq> out_sha256 t
          then Inl (ValueError ''staged update target no longer matches signed metadata'')
          else check_staged lib d ts)"

definition pointer_for :: "OfflineUpdateMetadata \<Rightarrow> string \<Rightarrow> datetime \<Rightarrow> update_pointer" where
  "pointer_for m sha now = \<lparr>upt_bundle_id = oum_bundle_id m, upt_version = oum_version m, upt_path = ''updates/activated/'' @ bundle_directory m,
     upt_metadata_sha256 = sha, upt_activated_at = now\<rparr>"

text \<open>
  \<open>inside\<close> says whether the resolved path lies under the staging directory; \<open>d\<close> is the directory found there.
\<close>

definition activate_update :: "library \<Rightarrow> update_codec \<Rightarrow> bool \<Rightarrow> directory \<Rightarrow> (directory \<Rightarrow> bool result) \<Rightarrow> datetime \<Rightarrow> datetime \<Rightarrow> update_manager \<Rightarrow>
    OfflineUpdateVerification result \<times> update_manager" where
  "activate_update lib codec inside d self_test now clock um =
     (if upm_mode um \<noteq> RM_FIELD_LAB then (Inl (PermissionError ''offline update activation is field-lab only''), um)
      else if \<not> inside then (Inl (ValueError ''staged update is outside the update root''), um)
      else (case read_file metadata_name d of
         None \<Rightarrow> (Inl (FileNotFoundError metadata_name), um)
       | Some bytes \<Rightarrow>
           (case read_metadata codec bytes of
              Inl e \<Rightarrow> (Inl e, um)
            | Inr m \<Rightarrow>
                (case verify_tombstone_requirement lib clock m um of
                   (Inl e, um1) \<Rightarrow> (Inl e, um1)
                 | (Inr _, um1) \<Rightarrow>
                     if oum_version m \<le> current_update_version um1 then (Inl (ValueError ''update rollback or replay detected''), um1)
                     else (case check_staged lib d (oum_targets m) of
                        Inl e \<Rightarrow> (Inl e, um1)
                      | Inr _ \<Rightarrow>
                          (case self_test d of
                             Inl e \<Rightarrow> (Inl e, um1)
                           | Inr False \<Rightarrow>
                               (Inr (verification_for m UB_ROLLED_BACK now (sha256_bytes lib bytes) [''self_test_failed'', ''previous_active_pointer_preserved'']), um1)
                           | Inr True \<Rightarrow>
                               (Inr (verification_for m UB_ACTIVATED now (sha256_bytes lib bytes) [''self_test_passed'', ''activation_pointer_committed'']),
                                um1\<lparr>upm_activated := AList.update (bundle_directory m) d (upm_activated um1),
                                    upm_pointer := Some (pointer_for m (sha256_bytes lib bytes) now)\<rparr>)))))))"

end
