(* ===== verification/Update_Claims.thy ===== *)
theory Update_Claims
  imports Update_Manager
begin

text \<open>
  Offline updates: the active version only grows, a bundle built with the node's key is staged and activated with
  exactly the files it was built from, and activation does not look at the signature or the expiry again.
\<close>

section \<open>Frames\<close>

abbreviation same_updates :: "update_manager \<Rightarrow> update_manager \<Rightarrow> bool" where
  "same_updates um um' \<equiv> upm_pointer um' = upm_pointer um \<and> upm_activated um' = upm_activated um \<and> upm_staged um' = upm_staged um \<and>
     upm_mode um' = upm_mode um \<and> upm_public_key um' = upm_public_key um \<and> upm_current_project_version um' = upm_current_project_version um"

lemma tombstone_status_frame: "current_tombstone_status lib clock um = (r, um') \<Longrightarrow> same_updates um um'"
  by (auto simp: current_tombstone_status_def Let_def split: option.splits)

lemma tombstone_requirement_frame: "verify_tombstone_requirement lib clock m um = (r, um') \<Longrightarrow> same_updates um um'"
  by (auto simp: verify_tombstone_requirement_def split: prod.splits sum.splits dest!: tombstone_status_frame)

lemma verify_update_frame: "verify_update lib codec ar now clock um = (r, um') \<Longrightarrow> same_updates um um'"
  by (auto simp: verify_update_def split: sum.splits prod.splits dest!: tombstone_requirement_frame)

lemma stage_update_frame:
  assumes "stage_update lib codec ar now clock um = (r, um')"
  shows "upm_pointer um' = upm_pointer um" "upm_activated um' = upm_activated um" "upm_mode um' = upm_mode um"
  using assms by (auto simp: stage_update_def Let_def split: if_splits sum.splits prod.splits dest!: verify_update_frame)

lemma check_staged_all: "check_staged lib d ts = Inr u \<longleftrightarrow>
    (\<forall>t \<in> set ts. \<exists>data. read_file (out_path t) d = Some data \<and> int (length data) = out_length t \<and> sha256_bytes lib data = out_sha256 t)"
  by (induction ts) (auto split: option.splits)

text \<open>The outcomes of an activation.\<close>

lemma activate_update_cases:
  assumes "activate_update lib codec inside d self_test now clock um = (r, um')"
  obtains (kept) "upm_pointer um' = upm_pointer um" "upm_activated um' = upm_activated um" "\<And>v. r = Inr v \<Longrightarrow> ouv_state v = UB_ROLLED_BACK"
  | (activated) v m bytes um1 where "r = Inr v" "ouv_state v = UB_ACTIVATED" "read_file metadata_name d = Some bytes" "read_metadata codec bytes = Inr m"
      "current_update_version um < oum_version m" "check_staged lib d (oum_targets m) = Inr ()" "self_test d = Inr True" "upm_mode um = RM_FIELD_LAB"
      "um' = um1\<lparr>upm_activated := AList.update (bundle_directory m) d (upm_activated um), upm_pointer := Some (pointer_for m (sha256_bytes lib bytes) now)\<rparr>"
      "v = verification_for m UB_ACTIVATED now (sha256_bytes lib bytes) [''self_test_passed'', ''activation_pointer_committed'']"
proof -
  consider (early) "um' = um" "\<exists>e. r = Inl e"
    | (late) bytes m um1 o1 where "upm_mode um = RM_FIELD_LAB" "inside" "read_file metadata_name d = Some bytes" "read_metadata codec bytes = Inr m"
      "verify_tombstone_requirement lib clock m um = (o1, um1)"
  proof (cases "upm_mode um = RM_FIELD_LAB \<and> inside")
    case False
    then show thesis using assms by (intro early) (auto simp: activate_update_def split: if_splits)
  next
    case m: True
    show thesis
    proof (cases "read_file metadata_name d")
      case None
      then show thesis using assms m by (intro early) (auto simp: activate_update_def)
    next
      case (Some bytes)
      show thesis
      proof (cases "read_metadata codec bytes")
        case (Inl e)
        then show thesis using assms m Some by (intro early) (auto simp: activate_update_def)
      next
        case (Inr md)
        obtain o1 um1 where "verify_tombstone_requirement lib clock md um = (o1, um1)" by fastforce
        then show thesis using late m Some Inr by blast
      qed
    qed
  qed
  then show thesis
  proof cases
    case early
    then show thesis by (intro kept) auto
  next
    case late
    note fr = tombstone_requirement_frame[OF late(5)]
    have cur: "current_update_version um1 = current_update_version um" using fr by (simp add: current_update_version_def)
    note step = assms[unfolded activate_update_def late(3,4,5) option.case sum.case prod.case]
    show thesis
    proof (cases "is_ok o1 \<and> \<not> oum_version m \<le> current_update_version um \<and> is_ok (check_staged lib d (oum_targets m)) \<and> self_test d = Inr True")
      case True
      then obtain rs where "o1 = Inr rs" by (cases o1) auto
      moreover obtain u where "check_staged lib d (oum_targets m) = Inr u" using True by (cases "check_staged lib d (oum_targets m)") auto
      ultimately show thesis using step True late(1-4) cur fr by (intro activated[of _ bytes m um1]) (auto simp: verification_for_def)
    next
      case False
      then have "um' = um1 \<and> (\<forall>v. r = Inr v \<longrightarrow> ouv_state v = UB_ROLLED_BACK)"
        using step late(1,2) cur by (auto simp: verification_for_def split: sum.splits if_splits bool.splits)
      then show thesis using fr by (intro kept) auto
    qed
  qed
qed

section \<open>Runs\<close>

text \<open>
  The operations with any arguments and outcomes; between them other components may change the incident database, and
  anything may happen to the staging directory.
\<close>

inductive update_step :: "library \<Rightarrow> update_codec \<Rightarrow> update_manager \<Rightarrow> update_manager \<Rightarrow> bool" for lib codec where
  us_verify: "verify_update lib codec ar now clock um = (r, um') \<Longrightarrow> update_step lib codec um um'"
| us_stage: "stage_update lib codec ar now clock um = (s, um') \<Longrightarrow> update_step lib codec um um'"
| us_activate: "activate_update lib codec inside d self_test now clock um = (v, um') \<Longrightarrow> update_step lib codec um um'"
| us_other: "update_step lib codec um (um\<lparr>upm_incidents := j, upm_staged := sd\<rparr>)"

lemma update_step_version: "update_step lib codec um um' \<Longrightarrow> current_update_version um \<le> current_update_version um'"
proof (induction rule: update_step.induct)
  case (us_verify ar now clock um r um')
  then show ?case using verify_update_frame by (simp add: current_update_version_def)
next
  case (us_stage ar now clock um s um')
  then show ?case using stage_update_frame by (simp add: current_update_version_def)
next
  case (us_activate inside d self_test now clock um v um')
  then show ?case by (rule activate_update_cases) (simp_all add: current_update_version_def pointer_for_def)
next
  case (us_other um j sd)
  then show ?case by (simp add: current_update_version_def)
qed

lemma update_run_version: "(update_step lib codec)\<^sup>*\<^sup>* um um' \<Longrightarrow> current_update_version um \<le> current_update_version um'"
  by (induction rule: rtranclp_induct) (auto dest: update_step_version)

section \<open>Claims\<close>

text \<open>
  C10. Updates never roll back. Over any sequence of verifications, stagings and activations, with the staging directory
  in any condition, a successful activation raises the active version above every version that was active before; the
  activated directory holds, for each target of the metadata it was read from, a file of the stated length and digest.
  Every other outcome, a failing self-test included, leaves the active pointer and the activated directories alone.
\<close>

theorem updates_never_roll_back:
  assumes "(update_step lib codec)\<^sup>*\<^sup>* um0 um" "activate_update lib codec inside d self_test now clock um = (r, um')"
  shows "(\<exists>v p. r = Inr v \<and> ouv_state v = UB_ACTIVATED \<and> upm_pointer um' = Some p \<and> current_update_version um0 < upt_version p \<and>
      current_update_version um < upt_version p \<and> upt_version p = ouv_version v \<and>
      (\<exists>bytes m. read_file metadata_name d = Some bytes \<and> read_metadata codec bytes = Inr m \<and> upt_metadata_sha256 p = sha256_bytes lib bytes \<and>
        map_of (upm_activated um') (bundle_directory m) = Some d \<and>
        (\<forall>t \<in> set (oum_targets m). \<exists>data. read_file (out_path t) d = Some data \<and> int (length data) = out_length t \<and> sha256_bytes lib data = out_sha256 t))) \<or>
    (upm_pointer um' = upm_pointer um \<and> upm_activated um' = upm_activated um \<and> (\<forall>v. r = Inr v \<longrightarrow> ouv_state v = UB_ROLLED_BACK))"
  using assms(2)
proof (cases rule: activate_update_cases)
  case kept
  then show ?thesis by blast
next
  case (activated v m bytes um1)
  show ?thesis
  proof (rule disjI1, intro exI conjI)
    show "r = Inr v" "ouv_state v = UB_ACTIVATED" by fact+
    show "upm_pointer um' = Some (pointer_for m (sha256_bytes lib bytes) now)" by (simp add: activated(9))
    show "current_update_version um0 < upt_version (pointer_for m (sha256_bytes lib bytes) now)"
      "current_update_version um < upt_version (pointer_for m (sha256_bytes lib bytes) now)"
      using activated(5) update_run_version[OF assms(1)] by (simp_all add: pointer_for_def)
    show "upt_version (pointer_for m (sha256_bytes lib bytes) now) = ouv_version v" by (simp add: pointer_for_def activated(10) verification_for_def)
    show "read_file metadata_name d = Some bytes" "read_metadata codec bytes = Inr m" by fact+
    show "upt_metadata_sha256 (pointer_for m (sha256_bytes lib bytes) now) = sha256_bytes lib bytes" by (simp add: pointer_for_def)
    show "map_of (upm_activated um') (bundle_directory m) = Some d" by (simp add: activated(9) update_conv')
    show "\<forall>t \<in> set (oum_targets m). \<exists>data. read_file (out_path t) d = Some data \<and> int (length data) = out_length t \<and> sha256_bytes lib data = out_sha256 t"
      using activated(6) unfolding check_staged_all .
  qed
qed

text \<open>Activation does not ask who signed. A directory under the staging root whose metadata file reads as metadata
  of a higher version with matching files is activated in field-lab mode when the self-test passes, although no
  signature by the node's key verifies the metadata and although the metadata has expired.
\<close>

theorem activation_ignores_signature:
  assumes "upm_mode um = RM_FIELD_LAB" "read_file metadata_name d = Some bytes" "read_metadata codec bytes = Inr m"
    "current_update_version um < oum_version m" "check_staged lib d (oum_targets m) = Inr ()" "self_test d = Inr True"
    "verify_tombstone_requirement lib clock m um = (Inr rs, um)"
    "\<forall>sig. \<not> kcd_ed25519_verify codec (upm_public_key um) sig bytes" "oum_expires_at m \<le> now"
  shows "map_sum id ouv_state (fst (activate_update lib codec True d self_test now clock um)) = Inr UB_ACTIVATED \<and>
    map_option upt_version (upm_pointer (snd (activate_update lib codec True d self_test now clock um))) = Some (oum_version m)"
  using assms(1-7) by (simp add: activate_update_def verification_for_def pointer_for_def)

section \<open>From the builder to the active directory\<close>

lemma strip_map: "(\<And>c. is_space (f c) = is_space c) \<Longrightarrow> strip (map f s) = map f (strip s)"
proof -
  assume f: "\<And>c. is_space (f c) = is_space c"
  have d: "dropWhile is_space (map f xs) = map f (dropWhile is_space xs)" for xs by (induction xs) (simp_all add: f)
  show "strip (map f s) = map f (strip s)" by (simp add: strip_def d rev_map)
qed

lemma dropWhile_snoc: "\<not> P y \<Longrightarrow> dropWhile P (xs @ [y]) = dropWhile P xs @ [y]"
  by (induction xs) auto

lemma strip_strip: "strip (strip s) = strip s"
proof (cases "dropWhile is_space s")
  case (Cons y ys)
  have y: "\<not> is_space y" using Cons by (metis hd_dropWhile list.distinct(1) list.sel(1))
  have e: "rev (dropWhile is_space (rev (y # ys))) = y # rev (dropWhile is_space (rev ys))" using y by (simp add: dropWhile_snoc)
  have "strip s = y # rev (dropWhile is_space (rev ys))" unfolding strip_def Cons e ..
  moreover have "strip (y # rev (dropWhile is_space (rev ys))) = y # rev (dropWhile is_space (dropWhile is_space (rev ys)))"
    using y by (simp add: strip_def dropWhile_snoc)
  ultimately show ?thesis by simp
next
  case Nil
  show ?thesis unfolding strip_def Nil by simp
qed

lemma safe_path_again:
  assumes "safe_relative_target_path v = Inr p"
  shows "safe_relative_target_path p = Inr p"
proof -
  let ?f = "\<lambda>c. if c = CHR 0x5C then CHR ''/'' else c"
  have sp: "is_space (?f c) = is_space c" for c by (auto simp: is_space_def Let_def)
  have p: "p = map ?f (strip v)" using assms by (auto simp: safe_relative_target_path_def Let_def split: if_splits)
  have "map ?f (strip p) = p" unfolding p by (subst strip_map) (simp_all add: sp strip_strip cong: map_cong)
  then show ?thesis using assms by (auto simp: safe_relative_target_path_def Let_def p split: if_splits)
qed

lemma target_init_again:
  assumes "OfflineUpdateTarget_init t = Inr t'"
  shows "safe_relative_target_path (out_path t') = Inr (out_path t')" "OfflineUpdateTarget_init t' = Inr t'"
  using assms safe_path_again by (auto simp: OfflineUpdateTarget_init_def bind_result_Inr OfflineUpdateTarget_fields_ok_def split: if_splits)

lemma init_targets_again: "\<forall>t \<in> set ts. OfflineUpdateTarget_init t = Inr t \<Longrightarrow> init_targets ts = Inr ts"
  by (induction ts) simp_all

lemma collect_targets_ok:
  "collect_targets lib source raws = Inr ts \<Longrightarrow> t \<in> set ts \<Longrightarrow> OfflineUpdateTarget_init t = Inr t \<and> \<not> protected_path (out_path t) \<and>
     (\<exists>data. read_file (out_path t) source = Some data \<and> int (length data) = out_length t \<and> sha256_bytes lib data = out_sha256 t)"
proof (induction raws arbitrary: ts)
  case (Cons raw raws)
  obtain t0 data t1 ts1 where c: "OfflineUpdateTarget_init \<lparr>out_path = raw, out_length = 0, out_sha256 = replicate 64 CHR ''0''\<rparr> = Inr t0"
    "read_file (out_path t0) source = Some data" "\<not> protected_path (out_path t0)"
    "OfflineUpdateTarget_init \<lparr>out_path = out_path t0, out_length = int (length data), out_sha256 = sha256_bytes lib data\<rparr> = Inr t1"
    "collect_targets lib source raws = Inr ts1" "ts = t1 # ts1"
    using Cons.prems(1) by (auto simp: bind_result_Inr split: option.splits if_splits)
  have "out_path t1 = out_path t0" "out_length t1 = int (length data)" "out_sha256 t1 = sha256_bytes lib data"
    using c(4) target_init_again(1)[OF c(1)] by (auto simp: OfflineUpdateTarget_init_def split: if_splits)
  then show ?case using Cons.prems(2) Cons.IH[OF c(5)] c(2,3,6) target_init_again(2)[OF c(4)] by auto
qed simp

definition control_names :: "string list" where
  "control_names = [metadata_name, signature_name]"

lemma control_names_ok: "check_member_names control_names = Inr ()"
  by code_simp

lemma check_member_names_append: "check_member_names (xs @ ys) = bind_result (check_member_names xs) (\<lambda>_. check_member_names ys)"
  by (induction xs) (auto simp: bind_result_def split: sum.splits)

lemma check_member_names_safe: "\<forall>n \<in> set ns. safe_relative_target_path n = Inr n \<Longrightarrow> check_member_names ns = Inr ()"
  by (induction ns) (simp_all add: OfflineUpdateTarget_init_def OfflineUpdateTarget_fields_ok_def)

lemma check_targets_all:
  "\<forall>t \<in> set ts. \<not> protected_path (out_path t) \<and> (\<exists>data. map_of ar (out_path t) = Some data \<and> int (length data) = out_length t \<and> sha256_bytes lib data = out_sha256 t) \<Longrightarrow>
     check_targets lib ar ts = Inr ()"
  by (induction ts) auto

lemma update_new: "k \<notin> set (map fst al) \<Longrightarrow> AList.update k v al = al @ [(k, v)]"
  by (induction al) auto

text \<open>Paths that can stand side by side in one directory.\<close>

definition tree_paths :: "string list list \<Rightarrow> bool" where
  "tree_paths ps \<longleftrightarrow> distinct ps \<and> [] \<notin> set ps \<and> (\<forall>x \<in> set ps. \<forall>y \<in> set ps. \<not> strict_prefix x y)"

lemma write_file_new:
  assumes "tree_paths (map fst d @ path_parts p # ps)"
  shows "write_file p data d = Inr (d @ [(path_parts p, data)])"
proof -
  have "path_parts p \<noteq> []" "\<not> (\<exists>f \<in> set d. strict_prefix (path_parts p) (fst f))" "\<not> (\<exists>f \<in> set d. strict_prefix (fst f) (path_parts p))"
    "path_parts p \<notin> set (map fst d)"
    using assms by (auto simp: tree_paths_def)
  then show ?thesis by (simp only: write_file_def Let_def update_new if_False simp_thms)
qed

lemma write_targets_ok:
  assumes "\<forall>t \<in> set ts. map_of ar (out_path t) = Some (data t) \<and> sha256_bytes lib (data t) = out_sha256 t"
    "tree_paths (map fst d @ map (\<lambda>t. path_parts (out_path t)) ts @ ps)"
  shows "write_targets lib ar ts d = Inr (d @ map (\<lambda>t. (path_parts (out_path t), data t)) ts)"
  using assms
proof (induction ts arbitrary: d)
  case (Cons t ts)
  have "write_file (out_path t) (data t) d = Inr (d @ [(path_parts (out_path t), data t)])" by (rule write_file_new) (use Cons.prems(2) in simp)
  then show ?case using Cons.prems Cons.IH[of "d @ [(path_parts (out_path t), data t)]"] by simp
qed simp

lemma metadata_parts: "path_parts metadata_name = [metadata_name]"
  by code_simp

lemma archive_lookup:
  assumes "distinct (map f ts)" "t \<in> set ts"
  shows "map_of (map (\<lambda>t. (f t, g t)) ts) (f t) = Some (g t)"
  by (rule map_of_is_SomeI) (use assms in \<open>auto simp: comp_def\<close>)

section \<open>The bundle and the manager that receives it\<close>

text \<open>The manager accepts the metadata of the bundle: its key, the clock, the versions and the privacy tombstones.\<close>

definition accepts_metadata :: "library \<Rightarrow> OfflineUpdateMetadata \<Rightarrow> datetime \<Rightarrow> datetime \<Rightarrow> update_manager \<Rightarrow> bool" where
  "accepts_metadata lib m now clock um \<longleftrightarrow> upm_mode um = RM_FIELD_LAB \<and> oum_root_key_id m = key_id lib (upm_public_key um) \<and>
     oum_created_at m \<le> now \<and> now < oum_expires_at m \<and> check_compatible (upm_current_project_version um) m = Inr () \<and>
     current_update_version um < oum_version m \<and> (\<exists>rs. verify_tombstone_requirement lib clock m um = (Inr rs, um))"

lemma built_archive:
  assumes "build_update_bundle lib codec sign pk source paths q = Inr ar" "collect_targets lib source (sorted_set paths) = Inr ts"
  shows "OfflineUpdateMetadata_init (update_metadata_for lib q pk ts) = Inr (update_metadata_for lib q pk ts)"
    "ar = [(metadata_name, metadata_bytes lib (update_metadata_for lib q pk ts)),
           (signature_name, kcd_b64encode codec (sign (metadata_bytes lib (update_metadata_for lib q pk ts))))] @
         map (\<lambda>t. (out_path t, the (read_file (out_path t) source))) ts"
    "distinct (map out_path ts)"
proof -
  let ?m = "update_metadata_for lib q pk ts"
  have i: "init_targets ts = Inr ts" by (rule init_targets_again) (use collect_targets_ok[OF assms(2)] in blast)
  have tm: "oum_targets ?m = ts" "?m\<lparr>oum_targets := ts\<rparr> = ?m" by (simp_all add: update_metadata_for_def)
  obtain m' where m': "OfflineUpdateMetadata_init ?m = Inr m'" using assms by (auto simp: build_update_bundle_def bind_result_Inr Let_def)
  have v: "validate_update_metadata ?m = Inr ()" "m' = ?m" using m' unfolding OfflineUpdateMetadata_init_def tm(1) i bind_result_simps Let_def tm(2)
    by (auto simp: bind_result_Inr split: if_splits)
  show init: "OfflineUpdateMetadata_init ?m = Inr ?m" using m' v(2) by simp
  show "ar = [(metadata_name, metadata_bytes lib ?m), (signature_name, kcd_b64encode codec (sign (metadata_bytes lib ?m)))] @
      map (\<lambda>t. (out_path t, the (read_file (out_path t) source))) ts"
    using assms(1) unfolding build_update_bundle_def assms(2) bind_result_simps init Let_def by simp
  show "distinct (map out_path ts)" using v(1) unfolding validate_update_metadata_def first_failure_Inr tm(1) by simp
qed

lemma member_lookup:
  assumes "distinct (map out_path ts)" "t \<in> set ts" "metadata_name \<notin> out_path ` set ts" "signature_name \<notin> out_path ` set ts"
  shows "map_of ([(metadata_name, x), (signature_name, y)] @ map (\<lambda>t. (out_path t, g t)) ts) (out_path t) = Some (g t)"
proof -
  have "out_path t \<noteq> metadata_name" "out_path t \<noteq> signature_name" using assms(2-4) by (metis imageI)+
  with archive_lookup[OF assms(1,2), of g] show ?thesis by simp
qed

lemma built_verifies:
  assumes "build_update_bundle lib codec sign (upm_public_key um) source paths q = Inr ar" "collect_targets lib source (sorted_set paths) = Inr ts"
    "m = update_metadata_for lib q (upm_public_key um) ts" "\<forall>msg. kcd_ed25519_verify codec (upm_public_key um) (sign msg) msg"
    "\<forall>s. kcd_b64decode codec (kcd_b64encode codec s) = Some s" "umc_parse codec (metadata_bytes lib m) = Inr m"
    "accepts_metadata lib m now clock um" "metadata_name \<notin> out_path ` set ts" "signature_name \<notin> out_path ` set ts"
  shows "verify_archive lib codec ar now um = Inr (m, metadata_bytes lib m)"
proof -
  note b = built_archive[OF assms(1,2), folded assms(3)]
  let ?bytes = "metadata_bytes lib m" and ?g = "\<lambda>t. the (read_file (out_path t) source)"
  have names: "map fst ar = control_names @ map out_path ts" by (simp add: b(2) control_names_def comp_def)
  have ne: "metadata_name \<noteq> signature_name" by code_simp
  have d: "distinct (map fst ar)" using b(3) assms(8,9) ne unfolding names by (auto simp: control_names_def)
  have c: "check_member_names (map fst ar) = Inr ()"
    unfolding names check_member_names_append control_names_ok bind_result_simps
    using collect_targets_ok[OF assms(2)] target_init_again(1) by (intro check_member_names_safe) auto
  have l: "map_of ar metadata_name = Some ?bytes" "map_of ar signature_name = Some (kcd_b64encode codec (sign ?bytes))" using ne by (simp_all add: b(2))
  have s: "signature_ok codec (upm_public_key um) (kcd_b64encode codec (sign ?bytes)) ?bytes" using assms(4,5) by (simp add: signature_ok_def)
  have r: "read_metadata codec ?bytes = Inr m" using assms(6) b(1) by (simp add: read_metadata_def)
  have tg: "oum_targets m = ts" by (simp add: assms(3) update_metadata_for_def)
  have t: "check_targets lib ar ts = Inr ()"
  proof (rule check_targets_all, rule ballI)
    fix t
    assume t: "t \<in> set ts"
    from collect_targets_ok[OF assms(2) t] member_lookup[OF b(3) t assms(8,9), of ?bytes _ ?g]
    show "\<not> protected_path (out_path t) \<and> (\<exists>data. map_of ar (out_path t) = Some data \<and> int (length data) = out_length t \<and> sha256_bytes lib data = out_sha256 t)"
      unfolding b(2) by auto
  qed
  have n: "set (map fst ar) - set (map out_path ts) - {metadata_name, signature_name} = {}" "set (map out_path ts) \<subseteq> set (map fst ar)"
    unfolding names by (auto simp: control_names_def)
  have a: "key_id lib (upm_public_key um) = oum_root_key_id m" "\<not> oum_expires_at m \<le> now" "\<not> now < oum_created_at m"
    "check_compatible (upm_current_project_version um) m = Inr ()" "\<not> oum_version m \<le> current_update_version um"
    using assms(7) by (auto simp: accepts_metadata_def)
  show ?thesis unfolding verify_archive_def Let_def c l option.case prod.case tg t n(1) a(4) bind_result_simps r
    using d s n(2) a(1-3,5) by simp
qed

text \<open>The directory that staging writes.\<close>

definition staged_directory :: "library \<Rightarrow> directory \<Rightarrow> OfflineUpdateMetadata \<Rightarrow> directory" where
  "staged_directory lib source m =
     map (\<lambda>t. (path_parts (out_path t), the (read_file (out_path t) source))) (oum_targets m) @ [([metadata_name], metadata_bytes lib m)]"

definition clean_layout :: "OfflineUpdateTarget list \<Rightarrow> bool" where
  "clean_layout ts \<longleftrightarrow> tree_paths (map (\<lambda>t. path_parts (out_path t)) ts @ [[metadata_name]]) \<and> signature_name \<notin> out_path ` set ts"

lemma clean_no_metadata: "clean_layout ts \<Longrightarrow> metadata_name \<notin> out_path ` set ts"
proof
  assume c: "clean_layout ts" and "metadata_name \<in> out_path ` set ts"
  then obtain t where t: "t \<in> set ts" "out_path t = metadata_name" by force
  have "path_parts (out_path t) \<in> (\<lambda>t. path_parts (out_path t)) ` set ts" using t(1) by (rule imageI)
  then show False using c by (simp add: t(2) metadata_parts clean_layout_def tree_paths_def)
qed

lemma staged_read:
  assumes "clean_layout (oum_targets m)"
  shows "read_file metadata_name (staged_directory lib source m) = Some (metadata_bytes lib m)"
    "t \<in> set (oum_targets m) \<Longrightarrow> read_file (out_path t) (staged_directory lib source m) = Some (the (read_file (out_path t) source))"
proof -
  have d: "distinct (map (\<lambda>t. path_parts (out_path t)) (oum_targets m))" "[metadata_name] \<notin> (\<lambda>t. path_parts (out_path t)) ` set (oum_targets m)"
    using assms by (auto simp: clean_layout_def tree_paths_def)
  have "map_of (map (\<lambda>t. (path_parts (out_path t), g t)) ts) [metadata_name] = None" if "[metadata_name] \<notin> (\<lambda>t. path_parts (out_path t)) ` set ts"
    for ts :: "OfflineUpdateTarget list" and g :: "OfflineUpdateTarget \<Rightarrow> string" using that by (induction ts) auto
  then show "read_file metadata_name (staged_directory lib source m) = Some (metadata_bytes lib m)"
    using d(2) by (simp add: read_file_def metadata_parts staged_directory_def map_add_def)
  show "read_file (out_path t) (staged_directory lib source m) = Some (the (read_file (out_path t) source))" if "t \<in> set (oum_targets m)"
  proof -
    have "map_of (staged_directory lib source m) (path_parts (out_path t)) = Some (the (read_file (out_path t) source))"
      using archive_lookup[OF d(1) that, of "\<lambda>t. the (read_file (out_path t) source)"] by (simp add: staged_directory_def map_add_def)
    then show ?thesis by (simp only: read_file_def[of "out_path t" "staged_directory lib source m"])
  qed
qed

lemma built_stages:
  assumes "build_update_bundle lib codec sign (upm_public_key um) source paths q = Inr ar" "collect_targets lib source (sorted_set paths) = Inr ts"
    "m = update_metadata_for lib q (upm_public_key um) ts" "\<forall>msg. kcd_ed25519_verify codec (upm_public_key um) (sign msg) msg"
    "\<forall>s. kcd_b64decode codec (kcd_b64encode codec s) = Some s" "umc_parse codec (metadata_bytes lib m) = Inr m"
    "accepts_metadata lib m now clock um" "clean_layout ts"
  obtains v um1 where "stage_update lib codec ar now clock um = (Inr (bundle_directory m, v), um1)" "same_updates um (um1\<lparr>upm_staged := upm_staged um\<rparr>)"
    "upm_incidents um1 = upm_incidents um" "map_of (upm_staged um1) (bundle_directory m) = Some (staged_directory lib source m)"
proof -
  let ?d = "staged_directory lib source m"
  have no: "metadata_name \<notin> out_path ` set ts" "signature_name \<notin> out_path ` set ts" using assms(8) clean_no_metadata by (auto simp: clean_layout_def)
  note b = built_archive[OF assms(1,2), folded assms(3)] and va = built_verifies[OF assms(1-7) no]
  have tg: "oum_targets m = ts" by (simp add: assms(3) update_metadata_for_def)
  obtain rs where rs: "verify_tombstone_requirement lib clock m um = (Inr rs, um)" using assms(7) by (auto simp: accepts_metadata_def)
  then obtain v where v: "verify_update lib codec ar now clock um = (Inr (m, v), um)" by (simp add: verify_update_def va)
  let ?t = "map (\<lambda>t. (path_parts (out_path t), the (read_file (out_path t) source))) ts"
  have look: "\<forall>t \<in> set ts. map_of ar (out_path t) = Some (the (read_file (out_path t) source)) \<and> sha256_bytes lib (the (read_file (out_path t) source)) = out_sha256 t"
  proof
    fix t
    assume t: "t \<in> set ts"
    from collect_targets_ok[OF assms(2) t] member_lookup[OF b(3) t no, of _ _ "\<lambda>t. the (read_file (out_path t) source)"] show "map_of ar (out_path t) = Some (the (read_file (out_path t) source)) \<and>
      sha256_bytes lib (the (read_file (out_path t) source)) = out_sha256 t" unfolding b(2) by auto
  qed
  have w: "write_targets lib ar ts [] = Inr ?t"
    using write_targets_ok[OF look, of "[]" "[[metadata_name]]"] assms(8) by (simp add: clean_layout_def)
  have "write_file metadata_name (metadata_bytes lib m) ?t = Inr (?t @ [(path_parts metadata_name, metadata_bytes lib m)])"
    by (rule write_file_new[where ps = "[]"]) (use assms(8) in \<open>simp add: metadata_parts clean_layout_def comp_def\<close>)
  then have "bind_result (write_targets lib ar (oum_targets m) []) (write_file metadata_name (metadata_bytes lib m)) = Inr ?d"
    by (simp add: w tg staged_directory_def metadata_parts)
  then have "stage_update lib codec ar now clock um = (Inr (bundle_directory m, v\<lparr>ouv_state := UB_STAGED\<rparr>),
      um\<lparr>upm_staged := AList.update (bundle_directory m) ?d (AList.delete (bundle_directory m) (upm_staged um))\<rparr>)"
    using assms(7) by (simp add: stage_update_def v Let_def accepts_metadata_def)
  then show thesis by (rule that) (simp_all add: update_conv')
qed


section \<open>Witnesses\<close>

definition update_library :: library where
  "update_library = \<lparr>lib_uuid5 = (\<lambda>s. s), lib_isoformat = (\<lambda>t. []), lib_json_dumps = (\<lambda>v. case v of JStr s \<Rightarrow> s | _ \<Rightarrow> []), lib_sha256 = (\<lambda>s. s),
     lib_hmac_sha256 = (\<lambda>k m. k), lib_model_dump = (\<lambda>v. case v of V_update m \<Rightarrow> JStr (oum_bundle_id m) | _ \<Rightarrow> JNull)\<rparr>"

definition demo_request :: bundle_request where
  "demo_request = \<lparr>bnd_bundle_id = ''u'', bnd_version = 3, bnd_created_at = 10, bnd_expires_at = 20, bnd_compatible_min_version = ''1.0'',
     bnd_compatible_max_version = ''1.9-rc1'', bnd_minimum_tombstone_authority_position = 0, bnd_required_tombstone_journal_sha256 = None\<rparr>"

definition demo_source :: directory where
  "demo_source = [([''bin'', ''run''], ''code''), ([''notes''], ''n'')]"

definition demo_target :: OfflineUpdateTarget where
  "demo_target = \<lparr>out_path = ''bin/run'', out_length = 4, out_sha256 = ''code''\<rparr>"

definition demo_metadata :: OfflineUpdateMetadata where
  "demo_metadata = update_metadata_for update_library demo_request ''k'' [demo_target]"

definition demo_codec :: "bool \<Rightarrow> update_codec" where
  "demo_codec genuine = \<lparr>kcd_b64encode = (\<lambda>s. s), kcd_b64decode = Some, kcd_ed25519_verify = (\<lambda>k sig m. genuine \<and> sig = m),
     umc_parse = (\<lambda>b. if b = ''u'' then Inr demo_metadata else Inl (ValueError ''json''))\<rparr>"

definition demo_manager :: update_manager where
  "demo_manager = \<lparr>upm_public_key = ''k'', upm_current_project_version = ''1.2.0'', upm_mode = RM_FIELD_LAB, upm_incidents = None, upm_staged = [],
     upm_activated = [], upm_pointer = None\<rparr>"

definition demo_directory :: directory where
  "demo_directory = staged_directory update_library demo_source demo_metadata"

lemma demo_activation:
  "read_file metadata_name demo_directory = Some ''u''" "is_ok (read_metadata (demo_codec g) ''u'')" "projr (read_metadata (demo_codec g) ''u'') = demo_metadata"
  "check_staged update_library demo_directory (oum_targets demo_metadata) = Inr ()" "current_update_version demo_manager < oum_version demo_metadata"
  by code_simp+

lemma demo_read_metadata: "read_metadata (demo_codec g) ''u'' = Inr demo_metadata"
  using demo_activation(2,3)[of g] by (cases "read_metadata (demo_codec g) ''u''") auto

lemma demo_tombstones: "\<exists>rs. verify_tombstone_requirement update_library 0 demo_metadata demo_manager = (Inr rs, demo_manager)"
  by (simp add: verify_tombstone_requirement_def current_tombstone_status_def demo_manager_def demo_metadata_def update_metadata_for_def demo_request_def)

theorem updates_never_roll_back_witness:
  "\<exists>v um'. activate_update update_library (demo_codec True) True demo_directory (\<lambda>_. Inr True) 15 0 demo_manager = (Inr v, um') \<and>
     map_option upt_version (upm_pointer um') = Some 3 \<and> current_update_version demo_manager < 3"
proof -
  let ?a = "activate_update update_library (demo_codec True) True demo_directory (\<lambda>_. Inr True) 15 0 demo_manager"
  have f: "map_sum id (\<lambda>v. (ouv_state v, ouv_version v)) (fst ?a) = Inr (UB_ACTIVATED, 3)" by code_simp
  then obtain v um' where a: "?a = (Inr v, um')" "ouv_state v = UB_ACTIVATED" "ouv_version v = 3" by (cases ?a; cases "fst ?a") auto
  from updates_never_roll_back[OF rtranclp.rtrancl_refl a(1)] a show ?thesis by auto
qed

theorem activation_ignores_signature_witness:
  "map_sum id ouv_state (fst (activate_update update_library (demo_codec False) True demo_directory (\<lambda>_. Inr True) 99 0 demo_manager)) = Inr UB_ACTIVATED \<and>
   oum_expires_at demo_metadata \<le> 99"
proof -
  obtain rs where rs: "verify_tombstone_requirement update_library 0 demo_metadata demo_manager = (Inr rs, demo_manager)" using demo_tombstones by blast
  have e: "oum_expires_at demo_metadata \<le> 99" "upm_mode demo_manager = RM_FIELD_LAB" by code_simp+
  have n: "\<forall>sig. \<not> kcd_ed25519_verify (demo_codec False) (upm_public_key demo_manager) sig ''u''" by (simp add: demo_codec_def)
  from activation_ignores_signature[OF e(2) demo_activation(1) demo_read_metadata demo_activation(5,4) _ rs n e(1), of "\<lambda>_. Inr True"] e(1)
  show ?thesis by simp
qed


end
