(* ===== verification/Measurements.thy ===== *)
theory Measurements
  imports Library_Model
begin

text \<open>
  Observations and the measurement contract: the validator of \<^verbatim>\<open>Observation\<close> in
  \<^verbatim>\<open>src/src/sentinel_edge/domain/models.py\<close>, which derives the measurements of an observation that carries none, and
  \<^verbatim>\<open>src/src/sentinel_edge/semantics/measurements.py\<close>, the registry of observed properties that every observation passes
  before it reaches a hazard. The fold of \<^verbatim>\<open>validate\<close> keeps the lists of the source in a \<open>contract\<close> record.
\<close>

section \<open>Strings\<close>

text \<open>\<^verbatim>\<open>t in s\<close>, \<^verbatim>\<open>s.endswith(t)\<close>, \<^verbatim>\<open>sep.join(xs)\<close>.\<close>

fun contains_text :: "string \<Rightarrow> string \<Rightarrow> bool" where
  "contains_text [] t \<longleftrightarrow> t = []"
| "contains_text (c # s) t \<longleftrightarrow> starts_with (c # s) t \<or> contains_text s t"

definition ends_with :: "string \<Rightarrow> string \<Rightarrow> bool" where
  "ends_with s t = starts_with (rev s) (rev t)"

fun join_text :: "string \<Rightarrow> string list \<Rightarrow> string" where
  "join_text sep [] = []"
| "join_text sep [x] = x"
| "join_text sep (x # y # ys) = x @ sep @ join_text sep (y # ys)"

text \<open>A truthy optional string.\<close>

definition nonempty :: "string option \<Rightarrow> bool" where
  "nonempty s = (case s of None \<Rightarrow> False | Some t \<Rightarrow> t \<noteq> [])"

section \<open>Observations\<close>

definition hour :: int where
  "hour = 3600 * 1000000"

definition flagged :: "string \<Rightarrow> string list \<Rightarrow> string list" where
  "flagged label flags = map (drop (length label)) (filter (\<lambda>f. starts_with f label) flags)"

definition derived_statistic :: "string \<Rightarrow> MeasurementStatistic \<times> int" where
  "derived_statistic key =
     (if ends_with key ''_mm_h'' \<or> ends_with key ''_m_per_h'' \<or> ends_with key ''_deg_h'' then (MS_RATE, hour)
      else if contains_text key ''_1h_'' then (MS_ACCUMULATION, hour)
      else if contains_text key ''_6h_'' then (MS_ACCUMULATION, 6 * hour)
      else if contains_text key ''_24h_'' then (MS_ACCUMULATION, 24 * hour)
      else if ends_with key ''_rms'' then (MS_RMS, 0)
      else (MS_INSTANTANEOUS, 0))"

definition derived_axis :: "string \<Rightarrow> string option" where
  "derived_axis key = (if key \<in> set [''accel_x'', ''accel_y'', ''accel_z''] then Some (last (split_on CHR ''_'' key)) else None)"

text \<open>\<^verbatim>\<open>f"{axis}"\<close> of an absent axis is the text \<open>None\<close>.\<close>

definition derived_orientation :: "Observation \<Rightarrow> string \<Rightarrow> string option" where
  "derived_orientation ob key =
     (case map_of (obs_measurement_orientations ob) key of
        Some v \<Rightarrow> Some v
      | None \<Rightarrow>
          if starts_with key ''accel_''
          then Some (''sensor-frame:'' @ (case derived_axis key of None \<Rightarrow> ''None'' | Some a \<Rightarrow> a) @ '':positive-source-declared'')
          else if contains_text key ''tilt'' then Some ''positive-source-declared''
          else if contains_text key ''rate_of_rise'' \<or> contains_text key ''water_level'' then Some ''positive-up''
          else None)"

definition derived_reference :: "Observation \<Rightarrow> string \<Rightarrow> string option" where
  "derived_reference ob key =
     (case map_of (obs_measurement_references ob) key of
        Some v \<Rightarrow> Some v
      | None \<Rightarrow>
          if starts_with key ''accel_'' \<or> contains_text key ''tilt'' \<or> contains_text key ''vibration''
          then Some (''sensor-frame:'' @ obs_source_id ob)
          else if contains_text key ''water_level'' \<or> contains_text key ''rate_of_rise'' \<or> contains_text key ''elevation'' \<or> contains_text key ''depth''
          then Some (''local-datum-unqualified:'' @ obs_source_id ob)
          else None)"

definition derived_quality :: "Observation \<Rightarrow> string \<Rightarrow> MeasurementQuality" where
  "derived_quality ob key =
     (if key \<in> set (flagged ''invalid:'' (obs_quality_flags ob)) then MQ_INVALID
      else if key \<in> set (flagged ''suspect:'' (obs_quality_flags ob)) then MQ_SUSPECT
      else MQ_VALID)"

definition derived_measurement :: "Observation \<Rightarrow> string \<times> pyfloat \<Rightarrow> MeasurementValue" where
  "derived_measurement ob kv =
     (let (key, v) = kv; (statistic, back) = derived_statistic key; uncertainty = map_of (obs_measurement_uncertainty ob) key
      in \<lparr>mv_observed_property_id = key, mv_value = v, mv_unit = the (map_of (obs_units ob) key), mv_quality = derived_quality ob key,
          mv_uncertainty = uncertainty, mv_uncertainty_status = (if uncertainty \<noteq> None then US_KNOWN else US_UNKNOWN),
          mv_phenomenon_start = obs_observed_at ob - back, mv_phenomenon_end = obs_observed_at ob, mv_statistic = statistic,
          mv_axis = derived_axis key, mv_orientation = derived_orientation ob key, mv_reference = derived_reference ob key,
          mv_source_value_key = key\<rparr>)"

fun init_measurements :: "MeasurementValue list \<Rightarrow> MeasurementValue list result" where
  "init_measurements [] = Inr []"
| "init_measurements (m # ms) =
     (if \<not> MeasurementValue_fields_ok m then Inl (ValidationError ''MeasurementValue'')
      else bind_result (validate_measurement m) (\<lambda>_. bind_result (init_measurements ms) (\<lambda>rest. Inr (m # rest))))"

definition observation_failures :: "Observation \<Rightarrow> (bool \<times> string) list" where
  "observation_failures ob =
     (let keys = map fst (obs_values ob)
      in [(obs_received_at ob < obs_observed_at ob, ''received_at cannot precede observed_at''),
          (list_ex (\<lambda>k. k \<notin> set (map fst (obs_units ob))) keys, ''every value must have a unit''),
          (blank (obs_boot_id ob), ''boot_id must not be blank'')])"

definition measurement_failures :: "Observation \<Rightarrow> (bool \<times> string) list" where
  "measurement_failures ob =
     (let keys = map mv_source_value_key (obs_measurements ob)
      in [(\<not> distinct keys, ''measurement source_value_key values must be unique''),
          (set keys \<noteq> set (map fst (obs_values ob)), ''measurements must cover exactly the observation values''),
          (list_ex (\<lambda>m. map_of (obs_units ob) (mv_source_value_key m) \<noteq> Some (mv_unit m) \<or>
             map_of (obs_values ob) (mv_source_value_key m) \<noteq> Some (mv_value m)) (obs_measurements ob),
            ''measurement values/units must match observation compatibility fields'')])"

definition Observation_init :: "Observation \<Rightarrow> Observation result" where
  "Observation_init ob =
     (if \<not> Observation_fields_ok ob then Inl (ValidationError ''Observation'')
      else bind_result (first_failure (observation_failures ob)) (\<lambda>_.
        if obs_measurements ob \<noteq> []
        then bind_result (first_failure (measurement_failures ob)) (\<lambda>_. Inr ob)
        else bind_result (init_measurements (map (derived_measurement ob) (sort_key fst (obs_values ob)))) (\<lambda>ms.
               Inr (ob\<lparr>obs_measurements := ms\<rparr>))))"

text \<open>\<^verbatim>\<open>total_seconds()\<close> of a difference of times is a division rounded to a float, the product is rounded again.\<close>

definition total_seconds :: "int \<Rightarrow> pyfloat" where
  "total_seconds us = f64 (of_int us / 1000000)"

definition capture_age_ms :: "Observation \<Rightarrow> pyfloat" where
  "capture_age_ms ob = max 0 (f64 (total_seconds (obs_received_at ob - obs_observed_at ob) * 1000))"

section \<open>The registry of properties\<close>

record PropertyDefinition =
  pd_property_id :: string
  pd_allowed_units :: "string list"
  pd_minimum :: "pyfloat option"
  pd_maximum :: "pyfloat option"
  pd_statistic :: "MeasurementStatistic option"
  pd_requires_reference :: bool
  pd_requires_orientation :: bool
  pd_allowed_axes :: "string list"

record MeasurementContractReport =
  mcr_valid :: bool
  mcr_usable_properties :: "string list"
  mcr_invalid_properties :: "string list"
  mcr_suspect_properties :: "string list"
  mcr_fusion_allowed :: bool
  mcr_reason_codes :: "string list"

type_synonym measurement_registry = "(string, PropertyDefinition) dict"

definition bounded_property :: "string \<Rightarrow> string list \<Rightarrow> pyfloat \<Rightarrow> pyfloat \<Rightarrow> PropertyDefinition" where
  "bounded_property k units lo hi = \<lparr>pd_property_id = k, pd_allowed_units = units, pd_minimum = Some lo, pd_maximum = Some hi,
     pd_statistic = None, pd_requires_reference = False, pd_requires_orientation = False, pd_allowed_axes = []\<rparr>"

definition referenced :: "PropertyDefinition \<Rightarrow> PropertyDefinition" where
  "referenced p = p\<lparr>pd_requires_reference := True\<rparr>"

definition oriented :: "PropertyDefinition \<Rightarrow> PropertyDefinition" where
  "oriented p = p\<lparr>pd_requires_reference := True, pd_requires_orientation := True\<rparr>"

definition default_properties :: "PropertyDefinition list" where
  "default_properties =
     [bounded_property ''smoke_score'' [''ratio''] 0 1,
      bounded_property ''flame_score'' [''ratio''] 0 1,
      bounded_property ''temporal_persistence'' [''ratio''] 0 1,
      (oriented (bounded_property ''accel_x'' [''g'', ''m/s2''] (- 1000) 1000))\<lparr>pd_allowed_axes := [''x'']\<rparr>,
      (oriented (bounded_property ''accel_y'' [''g'', ''m/s2''] (- 1000) 1000))\<lparr>pd_allowed_axes := [''y'']\<rparr>,
      (oriented (bounded_property ''accel_z'' [''g'', ''m/s2''] (- 1000) 1000))\<lparr>pd_allowed_axes := [''z'']\<rparr>,
      oriented (bounded_property ''water_level_m'' [''m''] (- 1000) 10000),
      (oriented (bounded_property ''rate_of_rise_m_per_h'' [''m/h''] (- 1000) 1000))\<lparr>pd_statistic := Some MS_RATE\<rparr>,
      (bounded_property ''rainfall_mm_h'' [''mm/h''] 0 10000)\<lparr>pd_statistic := Some MS_RATE\<rparr>,
      bounded_property ''soil_moisture_fraction'' [''ratio''] 0 1,
      (oriented (bounded_property ''tilt_rate_deg_h'' [''deg/h''] (- 10000) 10000))\<lparr>pd_statistic := Some MS_RATE\<rparr>,
      (referenced (bounded_property ''vibration_rms'' [''g'', ''m/s2''] 0 1000))\<lparr>pd_statistic := Some MS_RMS\<rparr>,
      bounded_property ''flood_susceptibility'' [''ratio''] 0 1,
      bounded_property ''landslide_susceptibility'' [''ratio''] 0 1,
      bounded_property ''seismic_context_score'' [''ratio''] 0 1,
      bounded_property ''camera_luminance'' [''level''] 0 255,
      bounded_property ''camera_blur_score'' [''score'', ''ratio''] 0 1,
      bounded_property ''camera_occlusion_fraction'' [''ratio''] 0 1,
      bounded_property ''camera_frame_change'' [''ratio''] 0 1]"

definition registry_of :: "PropertyDefinition list \<Rightarrow> measurement_registry result" where
  "registry_of ds =
     (let d = fold (\<lambda>p. AList.update (pd_property_id p) p) ds []
      in if length d \<noteq> length ds then Inl (ValueError ''property definitions must be unique'') else Inr d)"

section \<open>The contract\<close>

record contract =
  ctr_reasons :: "string list"
  ctr_invalid :: "string list"
  ctr_suspect :: "string list"
  ctr_usable :: "string list"
  ctr_references :: "(string, string) dict"
  ctr_seen :: "string list"
  ctr_fusion :: bool

definition contract_init :: contract where
  "contract_init = \<lparr>ctr_reasons = [], ctr_invalid = [], ctr_suspect = [], ctr_usable = [], ctr_references = [], ctr_seen = [], ctr_fusion = True\<rparr>"

definition reject_property :: "string \<Rightarrow> string \<Rightarrow> contract \<Rightarrow> contract" where
  "reject_property key reason c = c\<lparr>ctr_invalid := ctr_invalid c @ [key], ctr_reasons := ctr_reasons c @ [reason]\<rparr>"

text \<open>The first structural fault of a measurement against its definition, in the order of the source.\<close>

definition structural_fault :: "PropertyDefinition \<Rightarrow> MeasurementValue \<Rightarrow> string option" where
  "structural_fault d m =
     (let key = mv_source_value_key m
      in if mv_unit m \<notin> set (pd_allowed_units d) then Some (''unit_not_admissible:'' @ key @ '':'' @ mv_unit m)
         else if (case pd_minimum d of None \<Rightarrow> False | Some lo \<Rightarrow> mv_value m < lo) then Some (''below_property_range:'' @ key)
         else if (case pd_maximum d of None \<Rightarrow> False | Some hi \<Rightarrow> hi < mv_value m) then Some (''above_property_range:'' @ key)
         else if pd_statistic d \<noteq> None \<and> pd_statistic d \<noteq> Some (mv_statistic m) then Some (''statistic_mismatch:'' @ key)
         else if pd_allowed_axes d \<noteq> [] \<and> mv_axis m \<notin> Some ` set (pd_allowed_axes d) then Some (''axis_mismatch:'' @ key)
         else if pd_requires_orientation d \<and> \<not> nonempty (mv_orientation m) then Some (''orientation_missing:'' @ key)
         else if pd_requires_reference d \<and> \<not> nonempty (mv_reference m) then Some (''reference_missing:'' @ key)
         else None)"

definition note_reference :: "PropertyDefinition \<Rightarrow> MeasurementValue \<Rightarrow> contract \<Rightarrow> contract" where
  "note_reference d m c =
     (case mv_reference m of
        None \<Rightarrow> c
      | Some ref \<Rightarrow>
          if \<not> pd_requires_reference d then c
          else let c1 = c\<lparr>ctr_references := AList.update (mv_source_value_key m) ref (ctr_references c)\<rparr>
               in if contains_text ref ''unqualified''
                  then c1\<lparr>ctr_fusion := False, ctr_reasons := ctr_reasons c1 @ [''reference_unqualified:'' @ mv_source_value_key m]\<rparr>
                  else c1)"

definition judge_quality :: "MeasurementValue \<Rightarrow> contract \<Rightarrow> contract" where
  "judge_quality m c =
     (let key = mv_source_value_key m
      in if mv_quality m \<in> {MQ_INVALID, MQ_MISSING}
         then reject_property key (''quality_not_usable:'' @ key @ '':'' @ MeasurementQuality_value (mv_quality m)) c
         else let c1 = (if mv_quality m = MQ_SUSPECT
                        then c\<lparr>ctr_suspect := ctr_suspect c @ [key], ctr_reasons := ctr_reasons c @ [''quality_suspect:'' @ key]\<rparr> else c);
                  c2 = c1\<lparr>ctr_usable := ctr_usable c1 @ [key]\<rparr>
              in if mv_uncertainty m = None then c2\<lparr>ctr_reasons := ctr_reasons c2 @ [''uncertainty_unknown:'' @ key]\<rparr> else c2)"

definition check_measurement :: "measurement_registry \<Rightarrow> MeasurementValue \<Rightarrow> contract \<Rightarrow> contract" where
  "check_measurement reg m c =
     (let key = mv_source_value_key m
      in if key \<in> set (ctr_seen c) then reject_property key (''duplicate_property:'' @ key) c
         else let c1 = c\<lparr>ctr_seen := ctr_seen c @ [key]\<rparr>
              in case map_of reg (mv_observed_property_id m) of
                   None \<Rightarrow> reject_property key (''unknown_property:'' @ key) c1
                 | Some d \<Rightarrow>
                     (case structural_fault d m of
                        Some reason \<Rightarrow> reject_property key reason c1
                      | None \<Rightarrow> judge_quality m (note_reference d m c1)))"

definition check_cardinality :: "Observation \<Rightarrow> contract \<Rightarrow> contract" where
  "check_cardinality ob c =
     (let keys = map fst (obs_values ob)
      in if set keys = set (ctr_seen c) then c
         else c\<lparr>ctr_reasons := ctr_reasons c @ [''measurement_cardinality_mismatch''],
                ctr_invalid := ctr_invalid c @ sorted_set (filter (\<lambda>k. k \<notin> set (ctr_seen c)) keys)\<rparr>)"

definition motion_key :: "string \<Rightarrow> bool" where
  "motion_key k \<longleftrightarrow> starts_with k ''accel_'' \<or> contains_text k ''tilt'' \<or> contains_text k ''vibration''"

definition vertical_key :: "string \<Rightarrow> bool" where
  "vertical_key k \<longleftrightarrow> contains_text k ''water_level'' \<or> contains_text k ''elevation'' \<or> contains_text k ''depth''"

definition check_family :: "string \<Rightarrow> (string \<Rightarrow> bool) \<Rightarrow> contract \<Rightarrow> contract" where
  "check_family family member c =
     (if 1 < length (remdups (map snd (filter (member \<circ> fst) (ctr_references c))))
      then c\<lparr>ctr_fusion := False, ctr_reasons := ctr_reasons c @ [''reference_incompatible:'' @ family]\<rparr> else c)"

definition structural_prefixes :: "string list" where
  "structural_prefixes =
     [''duplicate_property:'', ''unknown_property:'', ''unit_not_admissible:'', ''below_property_range:'', ''above_property_range:'',
      ''statistic_mismatch:'', ''axis_mismatch:'', ''orientation_missing:'', ''reference_missing:'', ''measurement_cardinality_mismatch'']"

definition structural :: "string \<Rightarrow> bool" where
  "structural code \<longleftrightarrow> list_ex (starts_with code) structural_prefixes"

definition contract_of :: "measurement_registry \<Rightarrow> Observation \<Rightarrow> contract" where
  "contract_of reg ob =
     check_family ''vertical'' vertical_key (check_family ''motion'' motion_key
       (check_cardinality ob (fold (check_measurement reg) (obs_measurements ob) contract_init)))"

definition validate_contract :: "measurement_registry \<Rightarrow> Observation \<Rightarrow> MeasurementContractReport" where
  "validate_contract reg ob =
     (let c = contract_of reg ob; valid = (\<not> list_ex structural (ctr_reasons c))
      in \<lparr>mcr_valid = valid, mcr_usable_properties = sorted_set (ctr_usable c), mcr_invalid_properties = sorted_set (ctr_invalid c),
          mcr_suspect_properties = sorted_set (ctr_suspect c), mcr_fusion_allowed = ctr_fusion c,
          mcr_reason_codes = sorted_set (ctr_reasons c @ (if valid then [''measurement_contract_valid''] else []))\<rparr>)"

definition sanitize :: "measurement_registry \<Rightarrow> Observation \<Rightarrow> (Observation \<times> MeasurementContractReport) result" where
  "sanitize reg ob =
     (let report = validate_contract reg ob; keep = (\<lambda>k. k \<in> set (mcr_usable_properties report))
      in if \<not> mcr_valid report then Inl (ValueError (''invalid measurement contract: '' @ join_text '','' (mcr_reason_codes report)))
         else Inr (ob\<lparr>obs_values := filter (keep \<circ> fst) (obs_values ob), obs_units := filter (keep \<circ> fst) (obs_units ob),
                obs_measurements := filter (keep \<circ> mv_source_value_key) (obs_measurements ob),
                obs_quality_flags := sorted_set (obs_quality_flags ob @ map (\<lambda>code. ''measurement:'' @ code) (mcr_reason_codes report))\<rparr>, report))"

definition compare_references :: "MeasurementValue \<Rightarrow> MeasurementValue \<Rightarrow> bool \<times> string" where
  "compare_references l r =
     (case (mv_reference l, mv_reference r) of
        (Some a, Some b) \<Rightarrow>
          if a \<noteq> b then (False, ''reference_incompatible'')
          else if contains_text a ''unqualified'' then (False, ''reference_unqualified'')
          else (True, ''reference_compatible'')
      | _ \<Rightarrow> (False, ''reference_missing''))"

section \<open>What a valid contract promises\<close>

text \<open>A measurement that fits its definition and is usable.\<close>

definition in_contract :: "measurement_registry \<Rightarrow> MeasurementValue \<Rightarrow> bool" where
  "in_contract reg m \<longleftrightarrow> (\<exists>d. map_of reg (mv_observed_property_id m) = Some d \<and> structural_fault d m = None) \<and>
     mv_quality m \<in> {MQ_VALID, MQ_SUSPECT}"

lemma starts_with_append [simp]: "starts_with (t @ s) t"
  by (simp add: starts_with_def)

lemma structural_fault_structural: "structural_fault d m = Some reason \<Longrightarrow> structural reason"
  unfolding structural_fault_def Let_def structural_def structural_prefixes_def by (auto simp: starts_with_def split: if_splits)

lemma contract_simps [simp]:
  "ctr_seen (reject_property k r c) = ctr_seen c" "ctr_usable (reject_property k r c) = ctr_usable c"
  "ctr_reasons (reject_property k r c) = ctr_reasons c @ [r]"
  "ctr_seen (note_reference d m c) = ctr_seen c" "ctr_usable (note_reference d m c) = ctr_usable c"
  "ctr_seen (judge_quality m c) = ctr_seen c"
  by (simp_all add: reject_property_def note_reference_def judge_quality_def Let_def split: option.splits)

lemma judge_quality_usable:
  "ctr_usable (judge_quality m c) = ctr_usable c @ (if mv_quality m \<in> {MQ_VALID, MQ_SUSPECT} then [mv_source_value_key m] else [])"
  by (cases "mv_quality m") (simp_all add: judge_quality_def Let_def)

lemma reasons_grow:
  "set (ctr_reasons c) \<subseteq> set (ctr_reasons (note_reference d m c))" "set (ctr_reasons c) \<subseteq> set (ctr_reasons (judge_quality m c))"
  "set (ctr_reasons c) \<subseteq> set (ctr_reasons (check_family f p c))" "set (ctr_reasons c) \<subseteq> set (ctr_reasons (check_cardinality ob c))"
  by (auto simp: note_reference_def judge_quality_def check_family_def check_cardinality_def Let_def split: option.splits)

lemma check_measurement_reasons: "set (ctr_reasons c) \<subseteq> set (ctr_reasons (check_measurement reg m c))"
  using reasons_grow(1,2) by (fastforce simp: check_measurement_def Let_def split: option.splits)

lemma fold_reasons: "set (ctr_reasons c) \<subseteq> set (ctr_reasons (fold (check_measurement reg) ms c))"
  using check_measurement_reasons by (induction ms arbitrary: c) force+

definition clean :: "contract \<Rightarrow> bool" where
  "clean c \<longleftrightarrow> (\<forall>r \<in> set (ctr_reasons c). \<not> structural r)"

lemma structural_literals [simp]: "structural (''duplicate_property:'' @ k)" "structural (''unknown_property:'' @ k)" "structural ''measurement_cardinality_mismatch''"
  by (simp_all add: structural_def structural_prefixes_def starts_with_def)

lemma check_measurement_clean:
  assumes "clean (check_measurement reg m c)"
  shows "mv_source_value_key m \<notin> set (ctr_seen c)" "\<exists>d. map_of reg (mv_observed_property_id m) = Some d \<and> structural_fault d m = None"
    "ctr_seen (check_measurement reg m c) = ctr_seen c @ [mv_source_value_key m]"
    "ctr_usable (check_measurement reg m c) = ctr_usable c @ (if mv_quality m \<in> {MQ_VALID, MQ_SUSPECT} then [mv_source_value_key m] else [])"
proof -
  let ?k = "mv_source_value_key m"
  show new: "?k \<notin> set (ctr_seen c)"
  proof
    assume "?k \<in> set (ctr_seen c)"
    then have "ctr_reasons (check_measurement reg m c) = ctr_reasons c @ [''duplicate_property:'' @ ?k]" by (simp only: check_measurement_def Let_def if_True contract_simps)
    then show False using assms structural_literals(1)[of ?k] unfolding clean_def by (metis in_set_conv_decomp)
  qed
  obtain d where d: "map_of reg (mv_observed_property_id m) = Some d"
  proof (cases "map_of reg (mv_observed_property_id m)")
    case None
    then have "''unknown_property:'' @ ?k \<in> set (ctr_reasons (check_measurement reg m c))" using new by (simp add: check_measurement_def Let_def)
    then show ?thesis using assms structural_literals(2)[of ?k] unfolding clean_def by blast
  qed blast
  have f: "structural_fault d m = None"
  proof (cases "structural_fault d m")
    case (Some r)
    then have "r \<in> set (ctr_reasons (check_measurement reg m c))" using new d by (simp add: check_measurement_def Let_def)
    then show ?thesis using assms structural_fault_structural[OF Some] unfolding clean_def by blast
  qed
  have e: "check_measurement reg m c = judge_quality m (note_reference d m (c\<lparr>ctr_seen := ctr_seen c @ [?k]\<rparr>))" using new d f by (simp add: check_measurement_def Let_def)
  show "\<exists>d. map_of reg (mv_observed_property_id m) = Some d \<and> structural_fault d m = None" using d f by blast
  show "ctr_seen (check_measurement reg m c) = ctr_seen c @ [?k]" by (simp add: e)
  show "ctr_usable (check_measurement reg m c) = ctr_usable c @ (if mv_quality m \<in> {MQ_VALID, MQ_SUSPECT} then [?k] else [])"
    by (simp add: e judge_quality_usable)
qed

lemma fold_check_clean:
  assumes "clean (fold (check_measurement reg) ms c)"
  shows "(\<forall>m \<in> set ms. \<exists>d. map_of reg (mv_observed_property_id m) = Some d \<and> structural_fault d m = None) \<and>
    ctr_seen (fold (check_measurement reg) ms c) = ctr_seen c @ map mv_source_value_key ms \<and>
    ctr_usable (fold (check_measurement reg) ms c) = ctr_usable c @ map mv_source_value_key (filter (\<lambda>m. mv_quality m \<in> {MQ_VALID, MQ_SUSPECT}) ms)"
  using assms
proof (induction ms arbitrary: c)
  case (Cons m ms)
  have "clean (check_measurement reg m c)" using Cons.prems fold_reasons[of "check_measurement reg m c" reg ms] by (auto simp: clean_def)
  note one = check_measurement_clean[OF this]
  show ?case using Cons.IH[of "check_measurement reg m c"] Cons.prems one by auto
qed simp

lemma valid_contract:
  assumes "mcr_valid (validate_contract reg ob)"
  shows "\<forall>m \<in> set (obs_measurements ob). \<exists>d. map_of reg (mv_observed_property_id m) = Some d \<and> structural_fault d m = None"
    "set (mcr_usable_properties (validate_contract reg ob)) = mv_source_value_key ` {m \<in> set (obs_measurements ob). mv_quality m \<in> {MQ_VALID, MQ_SUSPECT}}"
proof -
  let ?c = "fold (check_measurement reg) (obs_measurements ob) contract_init"
  have c: "clean (contract_of reg ob)" using assms by (simp add: validate_contract_def Let_def clean_def list_ex_iff)
  have u: "ctr_usable (contract_of reg ob) = ctr_usable ?c" by (simp add: contract_of_def check_family_def check_cardinality_def Let_def)
  have "set (ctr_reasons ?c) \<subseteq> set (ctr_reasons (contract_of reg ob))" using reasons_grow(3,4) unfolding contract_of_def by (meson order_trans)
  then have "clean ?c" using c by (auto simp: clean_def)
  note f = fold_check_clean[OF this]
  show "\<forall>m \<in> set (obs_measurements ob). \<exists>d. map_of reg (mv_observed_property_id m) = Some d \<and> structural_fault d m = None" using f by blast
  show "set (mcr_usable_properties (validate_contract reg ob)) = mv_source_value_key ` {m \<in> set (obs_measurements ob). mv_quality m \<in> {MQ_VALID, MQ_SUSPECT}}"
    using f by (auto simp: validate_contract_def Let_def u contract_init_def)
qed

lemma init_measurements_eq: "init_measurements ms = Inr ms' \<Longrightarrow> ms' = ms"
  by (induction ms arbitrary: ms') (auto simp: bind_result_Inr split: if_splits)

text \<open>An observation that was constructed has one measurement per value, with that value.\<close>

lemma constructed_measurements:
  assumes "Observation_init ob0 = Inr ob" "dict_ok (obs_values ob0)"
  shows "distinct (map mv_source_value_key (obs_measurements ob))" "mv_source_value_key ` set (obs_measurements ob) = fst ` set (obs_values ob)"
    "m \<in> set (obs_measurements ob) \<Longrightarrow> map_of (obs_values ob) (mv_source_value_key m) = Some (mv_value m)"
proof -
  let ?ms = "map (derived_measurement ob0) (sort_key fst (obs_values ob0))"
  have k: "map mv_source_value_key ?ms = map fst (sort_key fst (obs_values ob0))" by (simp add: derived_measurement_def Let_def case_prod_unfold)
  have d: "distinct (map fst (sort_key fst (obs_values ob0)))" using assms(2) by (simp add: dict_ok_def distinct_map)
  consider "obs_measurements ob0 \<noteq> []" "ob = ob0" "first_failure (measurement_failures ob0) = Inr ()"
    | "obs_measurements ob0 = []" "ob = ob0\<lparr>obs_measurements := ?ms\<rparr>"
    using assms(1) init_measurements_eq by (fastforce simp: Observation_init_def bind_result_Inr split: if_splits)
  then have "distinct (map mv_source_value_key (obs_measurements ob)) \<and> mv_source_value_key ` set (obs_measurements ob) = fst ` set (obs_values ob) \<and>
      (\<forall>m \<in> set (obs_measurements ob). map_of (obs_values ob) (mv_source_value_key m) = Some (mv_value m))"
  proof cases
    case 1
    have "\<forall>x \<in> set (measurement_failures ob0). \<not> fst x" using 1(3) by (simp only: first_failure_Inr)
    with 1(2) show ?thesis by (auto simp: measurement_failures_def Let_def list_ex_iff)
  next
    case 2
    have "map_of (obs_values ob0) (mv_source_value_key m) = Some (mv_value m)" if mem: "m \<in> set ?ms" for m
    proof -
      obtain k v where "(k, v) \<in> set (obs_values ob0)" "m = derived_measurement ob0 (k, v)" using mem by auto
      then show ?thesis using assms(2) by (simp add: dict_ok_def derived_measurement_def Let_def case_prod_unfold)
    qed
    moreover have "distinct (map mv_source_value_key ?ms)" unfolding k by (rule d)
    moreover have "mv_source_value_key ` set ?ms = fst ` set (obs_values ob0)" using arg_cong[OF k, of set] by (simp add: image_image)
    ultimately show ?thesis using 2(2) by simp
  qed
  then show "distinct (map mv_source_value_key (obs_measurements ob))" "mv_source_value_key ` set (obs_measurements ob) = fst ` set (obs_values ob)"
    "m \<in> set (obs_measurements ob) \<Longrightarrow> map_of (obs_values ob) (mv_source_value_key m) = Some (mv_value m)" by blast+
qed

section \<open>Claim\<close>


definition demo_reading :: Observation where
  "demo_reading = \<lparr>obs_schema_version = ''2.0.0'', obs_observation_id = ''o'', obs_correlation_id = ''c'', obs_source_id = ''mast'', obs_hazard = HK_FLOOD,
     obs_source_mode = SM_LIVE, obs_boot_id = ''b'', obs_sequence = 1, obs_observed_at = 5, obs_received_at = 6,
     obs_values = [(''water_level_m'', 2), (''smoke_score'', 1)], obs_units = [(''water_level_m'', ''m''), (''smoke_score'', ''ratio'')],
     obs_quality_flags = [''invalid:smoke_score''], obs_source_lineage = ''live'', obs_clock_epoch = 0, obs_clock_uncertainty_ms = 0, obs_measurements = [],
     obs_measurement_references = [], obs_measurement_orientations = [], obs_measurement_uncertainty = []\<rparr>"

definition default_registry :: measurement_registry where
  "default_registry = (case registry_of default_properties of Inl _ \<Rightarrow> [] | Inr d \<Rightarrow> d)"


end
