(* ===== verification/Collector.thy ===== *)
theory Collector
  imports Measurements
begin

text \<open>
  Acquisition: \<^verbatim>\<open>StreamingSourceCollector\<close> of \<^verbatim>\<open>src/src/sentinel_edge/collector/service.py\<close> over the durable cursors of
  \<^verbatim>\<open>SourceCursorStore\<close> in \<^verbatim>\<open>src/src/sentinel_edge/storage/sqlite_store.py\<close>.

  The tables of the store are a dictionary of cursor rows and the list of health events; \<^verbatim>\<open>upsert\<close> is one transaction. A
  collector holds in memory the health of each source, its bounded buffer and its configuration; opening it
  again on the same store keeps the cursors only. An operation that raises after a change returns the collector it
  leaves. An observation is one that its class has validated (\<open>Observation_init\<close>).
\<close>

section \<open>Source cursors\<close>

record cursor_row =
  cur_boot_id :: string
  cur_clock_epoch :: int
  cur_last_sequence :: int
  cur_last_observed_at :: datetime
  cur_clock_uncertainty_ms :: pyfloat
  cur_state :: HealthState
  cur_reason_codes :: "string list"

record cursor_store =
  crs_cursors :: "(string, cursor_row) dict"
  crs_events :: "SourceHealthEvent list"

definition empty_cursors :: cursor_store where
  "empty_cursors = \<lparr>crs_cursors = [], crs_events = []\<rparr>"

definition health_of_row :: "string \<times> cursor_row \<Rightarrow> SourceHealth" where
  "health_of_row x =
     (let (source_id, row) = x
      in \<lparr>srh_source_id = source_id, srh_state = cur_state row, srh_boot_id = Some (cur_boot_id row), srh_clock_epoch = Some (cur_clock_epoch row),
          srh_last_sequence = Some (cur_last_sequence row), srh_last_observed_at = Some (cur_last_observed_at row),
          srh_event_time_watermark = Some (cur_last_observed_at row), srh_clock_uncertainty_ms = cur_clock_uncertainty_ms row,
          srh_reason_codes = cur_reason_codes row\<rparr>)"

definition load_cursors :: "cursor_store \<Rightarrow> SourceHealth list" where
  "load_cursors s = map health_of_row (sort_key fst (crs_cursors s))"

text \<open>The health event of a change; \<open>wh\<close> is \<^verbatim>\<open>recorded_at or health.last_observed_at\<close>.\<close>

definition health_event :: "library \<Rightarrow> HealthState option \<Rightarrow> SourceHealth \<Rightarrow> string \<Rightarrow> int \<Rightarrow> datetime \<Rightarrow> SourceHealthEvent" where
  "health_event lib previous h boot_id sequence wh =
     (let key = join_text '':''
            [srh_source_id h, (case previous of None \<Rightarrow> ''none'' | Some st \<Rightarrow> HealthState_value st), HealthState_value (srh_state h), str_int sequence,
             lib_isoformat lib wh, join_text '','' (srh_reason_codes h)]
      in \<lparr>she_event_id = lib_uuid5 lib (''sentinel-source-health:'' @ key), she_source_id = srh_source_id h, she_previous_state = previous,
          she_state = srh_state h, she_recorded_at = wh, she_boot_id = Some boot_id, she_sequence = Some sequence,
          she_clock_uncertainty_ms = srh_clock_uncertainty_ms h, she_reason_codes = srh_reason_codes h\<rparr>)"

definition row_of_health :: "SourceHealth \<Rightarrow> string \<Rightarrow> int \<Rightarrow> int \<Rightarrow> datetime \<Rightarrow> cursor_row" where
  "row_of_health h boot_id epoch sequence observed =
     \<lparr>cur_boot_id = boot_id, cur_clock_epoch = epoch, cur_last_sequence = sequence, cur_last_observed_at = observed,
      cur_clock_uncertainty_ms = srh_clock_uncertainty_ms h, cur_state = srh_state h, cur_reason_codes = srh_reason_codes h\<rparr>"

definition upsert :: "library \<Rightarrow> SourceHealth \<Rightarrow> datetime option \<Rightarrow> cursor_store \<Rightarrow> unit result \<times> cursor_store" where
  "upsert lib h recorded_at s =
     (case (srh_boot_id h, srh_clock_epoch h, srh_last_sequence h, srh_last_observed_at h) of
        (Some boot_id, Some epoch, Some sequence, Some observed) \<Rightarrow>
          (let previous = map_of (crs_cursors s) (srh_source_id h);
               s1 = s\<lparr>crs_cursors := AList.update (srh_source_id h) (row_of_health h boot_id epoch sequence observed) (crs_cursors s)\<rparr>;
               changed = (case previous of None \<Rightarrow> True | Some row \<Rightarrow> cur_state row \<noteq> srh_state h \<or> cur_reason_codes row \<noteq> srh_reason_codes h);
               ev = health_event lib (map_option cur_state previous) h boot_id sequence (case recorded_at of None \<Rightarrow> observed | Some t \<Rightarrow> t)
           in if \<not> changed then (Inr (), s1)
              else if \<not> SourceHealthEvent_fields_ok ev then (Inl (ValidationError ''SourceHealthEvent''), s)
              else if she_event_id ev \<in> she_event_id ` set (crs_events s) then (Inl (IntegrityError ''source_health_events''), s)
              else (Inr (), s1\<lparr>crs_events := crs_events s @ [ev]\<rparr>))
      | _ \<Rightarrow> (Inl (ValueError ''complete source cursor required''), s))"

text \<open>The reader of the events leaves the clock uncertainty at its default.\<close>

definition source_health_events :: "cursor_store \<Rightarrow> SourceHealthEvent list" where
  "source_health_events s = map (\<lambda>e. e\<lparr>she_clock_uncertainty_ms := 0\<rparr>) (sort_key (\<lambda>e. (she_recorded_at e, she_event_id e)) (crs_events s))"

section \<open>Collector\<close>

record SourceConfiguration =
  sfg_source_id :: string
  sfg_source_kind :: string
  sfg_location :: string
  sfg_max_lateness_seconds :: pyfloat

definition validate_source_configuration :: "SourceConfiguration \<Rightarrow> unit result" where
  "validate_source_configuration x = first_failure
     [(blank (sfg_source_id x) \<or> blank (sfg_location x), ''source configuration values must not be blank''),
      (sfg_source_kind x \<notin> set [''camera'', ''imu'', ''video_fixture'', ''rtsp''], ''source kind must be camera, imu, video_fixture, or rtsp''),
      (sfg_max_lateness_seconds x < 0, ''max_lateness_seconds must be non-negative'')]"

record ring_buffer =
  rng_capacity :: int
  rng_items :: "Observation list"
  rng_dropped :: int

definition ring_init :: "int \<Rightarrow> ring_buffer result" where
  "ring_init capacity =
     (if capacity \<le> 0 then Inl (ValueError ''capacity must be positive'')
      else Inr \<lparr>rng_capacity = capacity, rng_items = [], rng_dropped = 0\<rparr>)"

text \<open>Appending to a \<^verbatim>\<open>deque\<close> with \<^verbatim>\<open>maxlen\<close> drops the oldest item of a full one.\<close>

definition ring_append :: "Observation \<Rightarrow> ring_buffer \<Rightarrow> ring_buffer" where
  "ring_append ob b =
     (let full = (int (length (rng_items b)) = rng_capacity b)
      in b\<lparr>rng_dropped := rng_dropped b + (if full then 1 else 0), rng_items := (if full then tl (rng_items b) else rng_items b) @ [ob]\<rparr>)"

definition ring_latest :: "ring_buffer \<Rightarrow> Observation option" where
  "ring_latest b = (if rng_items b = [] then None else Some (last (rng_items b)))"

record collector =
  col_capacity :: int
  col_measurements :: measurement_registry
  col_buffers :: "(string, ring_buffer) dict"
  col_store :: cursor_store
  col_health :: "(string, SourceHealth) dict"
  col_configurations :: "(string, SourceConfiguration) dict"

definition collector_init :: "int \<Rightarrow> measurement_registry \<Rightarrow> cursor_store \<Rightarrow> collector" where
  "collector_init capacity reg s =
     \<lparr>col_capacity = capacity, col_measurements = reg, col_buffers = [], col_store = s,
      col_health = map (\<lambda>h. (srh_source_id h, h)) (load_cursors s), col_configurations = []\<rparr>"

definition default_lateness :: "(string, pyfloat) dict" where
  "default_lateness = [(''imu'', 1 / 2), (''camera'', 2), (''rtsp'', 2), (''video_fixture'', 0)]"

definition configure_source :: "string \<Rightarrow> string \<Rightarrow> string \<Rightarrow> pyfloat option \<Rightarrow> collector \<Rightarrow> (SourceConfiguration \<times> collector) result" where
  "configure_source source_id kind location lateness c =
     (case map_of default_lateness kind of
        None \<Rightarrow> Inl (KeyError kind)
      | Some standard \<Rightarrow>
          (let x = \<lparr>sfg_source_id = source_id, sfg_source_kind = kind, sfg_location = location,
                 sfg_max_lateness_seconds = (case lateness of None \<Rightarrow> standard | Some v \<Rightarrow> v)\<rparr>
           in bind_result (validate_source_configuration x) (\<lambda>_.
                if map_of (col_configurations c) source_id \<notin> {None, Some x} then Inl (ValueError ''source configuration is immutable'')
                else Inr (x, c\<lparr>col_configurations := AList.update source_id x (col_configurations c)\<rparr>))))"

definition source_configurations :: "collector \<Rightarrow> SourceConfiguration list" where
  "source_configurations c = sort_key sfg_source_id (map snd (col_configurations c))"

definition source_health :: "collector \<Rightarrow> SourceHealth list" where
  "source_health c = sort_key srh_source_id (map snd (col_health c))"

definition same_epoch :: "SourceHealth \<Rightarrow> Observation \<Rightarrow> bool" where
  "same_epoch h ob \<longleftrightarrow> srh_boot_id h = Some (obs_boot_id ob) \<and> srh_clock_epoch h = Some (obs_clock_epoch ob)"

text \<open>The order checks against the cursor: refused by sequence, refused as too late, or reasons and whether they degrade.\<close>

datatype order_verdict = Out_of_sequence | Too_late | In_order "string list" bool

definition order_check :: "SourceConfiguration option \<Rightarrow> SourceHealth option \<Rightarrow> Observation \<Rightarrow> order_verdict" where
  "order_check conf previous ob =
     (case previous of
        None \<Rightarrow> In_order [] False
      | Some h \<Rightarrow>
          (case srh_last_sequence h of
             None \<Rightarrow> In_order [] False
           | Some last_sequence \<Rightarrow>
               (let same = same_epoch h ob;
                    behind = (case srh_last_observed_at h of None \<Rightarrow> 0 | Some t \<Rightarrow> t - obs_observed_at ob);
                    bound = (case conf of None \<Rightarrow> 0 | Some x \<Rightarrow> sfg_max_lateness_seconds x);
                    gap = (same \<and> last_sequence + 1 < obs_sequence ob)
                in if same \<and> obs_sequence ob \<le> last_sequence then Out_of_sequence
                   else if 0 < behind \<and> bound < total_seconds behind then Too_late
                   else In_order ((if 0 < behind then [''late_event''] else []) @ (if gap then [''sequence_gap''] else []) @
                                  (if same then [] else [''source_epoch_transition'']))
                          (0 < behind \<or> gap))))"

definition with_reason :: "HealthState \<Rightarrow> string \<Rightarrow> SourceHealth \<Rightarrow> SourceHealth" where
  "with_reason st reason h = h\<lparr>srh_state := st, srh_reason_codes := sorted_set (srh_reason_codes h @ [reason])\<rparr>"

definition freshness :: "SourceHealth option \<Rightarrow> Observation \<Rightarrow> HealthState \<times> string list \<Rightarrow> HealthState \<times> string list" where
  "freshness previous ob x =
     (let (st, reasons) = x
      in if 5000 < capture_age_ms ob then (HS_STALE, reasons @ [''stale_capture''])
         else (case previous of
                 None \<Rightarrow> (st, reasons)
               | Some h \<Rightarrow> if srh_state h \<in> {HS_STALE, HS_FAILED} then (HS_HEALTHY, reasons @ [''source_recovered'']) else (st, reasons)))"

definition next_watermark :: "SourceHealth option \<Rightarrow> datetime \<Rightarrow> datetime" where
  "next_watermark previous observed =
     (case previous of
        None \<Rightarrow> observed
      | Some h \<Rightarrow> (case srh_event_time_watermark h of None \<Rightarrow> observed | Some w \<Rightarrow> if observed < w then w else observed))"

definition health_for :: "SourceHealth option \<Rightarrow> Observation \<Rightarrow> ring_buffer \<Rightarrow> HealthState \<times> string list \<Rightarrow> SourceHealth" where
  "health_for previous ob b x =
     (let (st, reasons) = x; over = (rng_dropped b \<noteq> 0)
      in \<lparr>srh_source_id = obs_source_id ob, srh_state = (if over \<and> st = HS_HEALTHY then HS_DEGRADED else st), srh_boot_id = Some (obs_boot_id ob),
          srh_clock_epoch = Some (obs_clock_epoch ob), srh_last_sequence = Some (obs_sequence ob), srh_last_observed_at = Some (obs_observed_at ob),
          srh_event_time_watermark = Some (next_watermark previous (obs_observed_at ob)), srh_clock_uncertainty_ms = obs_clock_uncertainty_ms ob,
          srh_reason_codes = sorted_set (reasons @ (if over then [''ring_buffer_overwrite''] else []))\<rparr>)"

definition put_health :: "string \<Rightarrow> SourceHealth \<Rightarrow> collector \<Rightarrow> collector" where
  "put_health k h c = c\<lparr>col_health := AList.update k h (col_health c)\<rparr>"

definition store_health :: "library \<Rightarrow> SourceHealth \<Rightarrow> datetime option \<Rightarrow> collector \<Rightarrow> unit result \<times> collector" where
  "store_health lib h recorded_at c = (let (r, s) = upsert lib h recorded_at (col_store c) in (r, c\<lparr>col_store := s\<rparr>))"

text \<open>The rest of \<^verbatim>\<open>ingest\<close> once the order is accepted: buffer, health, durable cursor.\<close>

definition accept_observation :: "library \<Rightarrow> Observation \<Rightarrow> SourceHealth option \<Rightarrow> HealthState \<times> string list \<Rightarrow> collector \<Rightarrow> Observation result \<times> collector" where
  "accept_observation lib ob previous x c =
     (case (case map_of (col_buffers c) (obs_source_id ob) of None \<Rightarrow> ring_init (col_capacity c) | Some b \<Rightarrow> bind_result (ring_init (col_capacity c)) (\<lambda>_. Inr b)) of
        Inl e \<Rightarrow> (Inl e, c)
      | Inr b \<Rightarrow>
          (let b' = ring_append ob b; h = health_for previous ob b' x;
               c1 = c\<lparr>col_buffers := AList.update (obs_source_id ob) b' (col_buffers c)\<rparr>
           in if \<not> SourceHealth_fields_ok h then (Inl (ValidationError ''SourceHealth''), c1)
              else (case store_health lib h None c1 of
                      (Inl e, c2) \<Rightarrow> (Inl e, c2)
                    | (Inr _, c2) \<Rightarrow> (Inr ob, put_health (obs_source_id ob) h c2))))"

definition collect_observation :: "library \<Rightarrow> Observation \<Rightarrow> collector \<Rightarrow> Observation result \<times> collector" where
  "collect_observation lib ob c =
     (let report = validate_contract (col_measurements c) ob; k = obs_source_id ob; previous = map_of (col_health c) k
      in if obs_source_mode ob = SM_REPLAYED then (Inl (ValueError ''replayed observations cannot enter the live collector''), c)
         else if \<not> mcr_valid report then (Inl (ValueError (''measurement contract rejected: '' @ join_text '','' (mcr_reason_codes report))), c)
         else (case order_check (map_of (col_configurations c) k) previous ob of
             Out_of_sequence \<Rightarrow> (Inl (ValueError ''sequence must increase per source boot and clock epoch''), c)
           | Too_late \<Rightarrow>
               (let rejected = with_reason HS_DEGRADED ''late_event_exceeded'' (the previous)
                in case store_health lib rejected (Some (obs_received_at ob)) c of
                     (Inl e, c1) \<Rightarrow> (Inl e, c1)
                   | (Inr _, c1) \<Rightarrow> (Inl (ValueError ''event time exceeds adapter lateness bound''), put_health k rejected c1))
           | In_order extra degraded \<Rightarrow>
               (let st = (if degraded \<or> mcr_invalid_properties report \<noteq> [] \<or> mcr_suspect_properties report \<noteq> [] then HS_DEGRADED else HS_HEALTHY);
                    x = freshness previous ob (st, mcr_reason_codes report @ extra)
                in if list_ex (\<lambda>kv. 1000000 < \<bar>snd kv\<bar>) (obs_values ob) then (Inl (ValueError ''implausible numeric value''), c)
                   else accept_observation lib ob previous x c)))"

fun stale_loop :: "library \<Rightarrow> datetime \<Rightarrow> int \<Rightarrow> (string \<times> SourceHealth) list \<Rightarrow> collector \<Rightarrow> unit result \<times> collector" where
  "stale_loop lib now threshold [] c = (Inr (), c)"
| "stale_loop lib now threshold ((k, h) # rest) c =
     (case srh_last_observed_at h of
        None \<Rightarrow> stale_loop lib now threshold rest c
      | Some t \<Rightarrow>
          if of_int threshold < total_seconds (now - t)
          then (let updated = with_reason HS_STALE ''timeout'' h
                in case store_health lib updated (Some now) (put_health k updated c) of
                     (Inl e, c1) \<Rightarrow> (Inl e, c1)
                   | (Inr _, c1) \<Rightarrow> stale_loop lib now threshold rest c1)
          else stale_loop lib now threshold rest c)"

definition mark_stale :: "library \<Rightarrow> datetime \<Rightarrow> int \<Rightarrow> collector \<Rightarrow> unit result \<times> collector" where
  "mark_stale lib now threshold c = stale_loop lib now threshold (col_health c) c"

definition mark_failed :: "library \<Rightarrow> string \<Rightarrow> string \<Rightarrow> datetime \<Rightarrow> collector \<Rightarrow> unit result \<times> collector" where
  "mark_failed lib k reason now c =
     (case map_of (col_health c) k of
        None \<Rightarrow> (Inl (KeyError k), c)
      | Some h \<Rightarrow> (let updated = with_reason HS_FAILED reason h in store_health lib updated (Some now) (put_health k updated c)))"

end
