(* ===== verification/Collector_Claims.thy ===== *)
theory Collector_Claims
  imports Collector
begin

text \<open>
  Properties of the collector over all its runs: observations, configurations, time-outs, failures and restarts on the
  same store, in any order. A run records the observations that were accepted.
\<close>

section \<open>Runs\<close>

inductive col_step :: "library \<Rightarrow> collector \<Rightarrow> Observation list \<Rightarrow> collector \<Rightarrow> bool" for lib where
  cs_accept: "collect_observation lib ob c = (Inr r, c') \<Longrightarrow> col_step lib c [ob] c'"
| cs_refuse: "collect_observation lib ob c = (Inl e, c') \<Longrightarrow> col_step lib c [] c'"
| cs_configure: "configure_source k kind location lateness c = Inr (x, c') \<Longrightarrow> col_step lib c [] c'"
| cs_stale: "mark_stale lib now threshold c = (r, c') \<Longrightarrow> col_step lib c [] c'"
| cs_failed: "mark_failed lib k reason now c = (r, c') \<Longrightarrow> col_step lib c [] c'"
| cs_restart: "col_step lib c [] (collector_init capacity reg (col_store c))"

inductive col_run :: "library \<Rightarrow> collector \<Rightarrow> Observation list \<Rightarrow> collector \<Rightarrow> bool" for lib c0 where
  cr_refl: "col_run lib c0 [] c0"
| cr_step: "col_run lib c0 os c \<Longrightarrow> col_step lib c acc c' \<Longrightarrow> col_run lib c0 (os @ acc) c'"

section \<open>Cursors in memory and in the store\<close>

type_synonym cursor = "string option \<times> int option \<times> int option \<times> datetime option"

definition cursor_of :: "SourceHealth \<Rightarrow> cursor" where
  "cursor_of h = (srh_boot_id h, srh_clock_epoch h, srh_last_sequence h, srh_last_observed_at h)"

definition row_cursor :: "cursor_row \<Rightarrow> cursor" where
  "row_cursor r = (Some (cur_boot_id r), Some (cur_clock_epoch r), Some (cur_last_sequence r), Some (cur_last_observed_at r))"

definition obs_cursor :: "Observation \<Rightarrow> cursor" where
  "obs_cursor ob = (Some (obs_boot_id ob), Some (obs_clock_epoch ob), Some (obs_sequence ob), Some (obs_observed_at ob))"

definition cursors :: "collector \<Rightarrow> string \<Rightarrow> cursor option" where
  "cursors c k = map_option cursor_of (map_of (col_health c) k)"

definition watermark_ok :: "SourceHealth \<Rightarrow> bool" where
  "watermark_ok h \<longleftrightarrow> (\<exists>t w. srh_last_observed_at h = Some t \<and> srh_event_time_watermark h = Some w \<and> t \<le> w)"

definition cursors_ok :: "collector \<Rightarrow> bool" where
  "cursors_ok c \<longleftrightarrow> dict_ok (crs_cursors (col_store c)) \<and> dict_ok (col_health c) \<and>
     (\<forall>k. cursors c k = map_option row_cursor (map_of (crs_cursors (col_store c)) k)) \<and>
     (\<forall>k h. map_of (col_health c) k = Some h \<longrightarrow> srh_source_id h = k \<and> watermark_ok h)"

lemma cursors_okD:
  assumes "cursors_ok c"
  shows "dict_ok (crs_cursors (col_store c))" "dict_ok (col_health c)" "cursors c k = map_option row_cursor (map_of (crs_cursors (col_store c)) k)"
    "map_of (col_health c) k = Some h \<Longrightarrow> srh_source_id h = k" "map_of (col_health c) k = Some h \<Longrightarrow> watermark_ok h"
  using assms unfolding cursors_ok_def by blast+

lemma with_reason_simps [simp]:
  "cursor_of (with_reason st r h) = cursor_of h" "srh_source_id (with_reason st r h) = srh_source_id h"
  "watermark_ok (with_reason st r h) = watermark_ok h"
  by (simp_all add: with_reason_def cursor_of_def watermark_ok_def)

lemma upsert_cases:
  assumes "upsert lib h t s = (r, s')"
  obtains e where "r = Inl e" "s' = s"
  | row where "r = Inr ()" "row_cursor row = cursor_of h" "crs_cursors s' = AList.update (srh_source_id h) row (crs_cursors s)"
proof (cases "(srh_boot_id h, srh_clock_epoch h, srh_last_sequence h, srh_last_observed_at h)")
  case (fields b e n u)
  show ?thesis
  proof (cases "b = None \<or> e = None \<or> n = None \<or> u = None")
    case True
    then show ?thesis using assms fields that(1) by (auto simp: upsert_def split: option.splits)
  next
    case False
    then obtain b' e' n' u' where f: "b = Some b'" "e = Some e'" "n = Some n'" "u = Some u'" by auto
    let ?row = "row_of_health h b' e' n' u'"
    have row: "row_cursor ?row = cursor_of h" using fields f by (simp add: row_cursor_def row_of_health_def cursor_of_def)
    show ?thesis
    proof (cases r)
      case (Inl x)
      then have "s' = s" using assms fields f by (auto simp: upsert_def Let_def split: if_splits)
      then show ?thesis using that(1) Inl by blast
    next
      case (Inr y)
      then have "crs_cursors s' = AList.update (srh_source_id h) ?row (crs_cursors s)"
        using assms fields f by (auto simp: upsert_def Let_def split: if_splits)
      then show ?thesis using that(2)[OF _ row] Inr by simp
    qed
  qed
qed

text \<open>Storing a health record whose cursor is the one held already changes no cursor.\<close>

lemma refresh_ok:
  assumes "cursors_ok c" "map_of (col_health c) k = Some h" "store_health lib (with_reason st reason h) t c = (r, c1)"
  shows "cursors_ok c1" "cursors_ok (put_health k (with_reason st reason h) c1)" "cursors c1 = cursors c"
    "cursors (put_health k (with_reason st reason h) c1) = cursors c"
proof -
  let ?h = "with_reason st reason h"
  obtain s where u: "upsert lib ?h t (col_store c) = (r, s)" and c1: "c1 = c\<lparr>col_store := s\<rparr>"
    using assms(3) by (auto simp: store_health_def split: prod.splits)
  note d = cursors_okD[OF assms(1)]
  have k: "srh_source_id h = k" using d(4)[OF assms(2)] .
  have ck: "cursors c k = Some (cursor_of h)" by (simp add: cursors_def assms(2))
  have rows: "dict_ok (crs_cursors s) \<and> (\<forall>x. map_option row_cursor (map_of (crs_cursors s) x) = cursors c x)"
    using u
  proof (cases rule: upsert_cases)
    case (2 row)
    have "map_option row_cursor (map_of (AList.update k row (crs_cursors (col_store c))) x) = cursors c x" for x
      using 2(2) ck d(3)[of x] by (cases "x = k") simp_all
    then show ?thesis using 2 d(1) by (simp add: k dict_ok_update)
  qed (use d(1,3) in simp)
  show same: "cursors c1 = cursors c" by (simp add: fun_eq_iff cursors_def c1)
  show put: "cursors (put_health k ?h c1) = cursors c" by (simp add: fun_eq_iff cursors_def c1 put_health_def assms(2))
  show "cursors_ok c1" unfolding cursors_ok_def same using rows d(2,4,5) by (simp add: c1)
  show "cursors_ok (put_health k ?h c1)" unfolding cursors_ok_def put using rows d(2,4,5) assms(2)
    by (auto simp: c1 put_health_def dict_ok_update k split: if_splits)
qed

lemma store_put_commute:
  "store_health lib h t (put_health k h' c) = (r, c1) \<Longrightarrow> \<exists>c0. store_health lib h t c = (r, c0) \<and> c1 = put_health k h' c0"
  by (auto simp: store_health_def put_health_def split: prod.splits)

lemma put_refresh_ok:
  assumes "cursors_ok c" "map_of (col_health c) k = Some h"
    "store_health lib (with_reason st reason h) t (put_health k (with_reason st reason h) c) = (r, c1)"
  shows "cursors_ok c1" "cursors c1 = cursors c" "map_of (col_health c1) x = (if x = k then Some (with_reason st reason h) else map_of (col_health c) x)"
proof -
  obtain c0 where s: "store_health lib (with_reason st reason h) t c = (r, c0)" and c1: "c1 = put_health k (with_reason st reason h) c0"
    using store_put_commute[OF assms(3)] by blast
  show "cursors_ok c1" "cursors c1 = cursors c" using refresh_ok[OF assms(1,2) s] c1 by simp_all
  have "col_health c0 = col_health c" using s by (auto simp: store_health_def split: prod.splits)
  then show "map_of (col_health c1) x = (if x = k then Some (with_reason st reason h) else map_of (col_health c) x)" by (simp add: c1 put_health_def)
qed

lemma mark_failed_ok: "cursors_ok c \<Longrightarrow> mark_failed lib k reason now c = (r, c') \<Longrightarrow> cursors_ok c' \<and> cursors c' = cursors c"
  using put_refresh_ok(1,2) by (fastforce simp: mark_failed_def Let_def split: option.splits)

lemma stale_loop_ok:
  assumes "cursors_ok c" "distinct (map fst xs)" "\<forall>(k, h) \<in> set xs. map_of (col_health c) k = Some h" "stale_loop lib now threshold xs c = (r, c')"
  shows "cursors_ok c' \<and> cursors c' = cursors c"
  using assms
proof (induction xs arbitrary: c)
  case (Cons x xs)
  obtain k h where x: "x = (k, h)" by fastforce
  have kh: "map_of (col_health c) k = Some h" using Cons.prems(3) x by simp
  consider "stale_loop lib now threshold xs c = (r, c')"
    | r1 c1 where "store_health lib (with_reason HS_STALE ''timeout'' h) (Some now) (put_health k (with_reason HS_STALE ''timeout'' h) c) = (r1, c1)"
        "c1 = c' \<or> stale_loop lib now threshold xs c1 = (r, c')"
    using Cons.prems(4) by (auto simp: x Let_def split: option.splits if_splits prod.splits sum.splits)
  then show ?case
  proof cases
    case 1
    then show ?thesis using Cons.IH[OF Cons.prems(1)] Cons.prems(2,3) by simp
  next
    case 2
    note p = put_refresh_ok[OF Cons.prems(1) kh 2(1)]
    have "\<forall>(k', h') \<in> set xs. map_of (col_health c1) k' = Some h'"
      using Cons.prems(2,3) x p(3) by (fastforce simp: image_iff)
    then show ?thesis using 2(2) Cons.IH[OF p(1)] Cons.prems(2) p(1,2) by auto
  qed
qed simp

lemma map_of_sort: "dict_ok d \<Longrightarrow> map_of (sort_key fst d) k = map_of d k"
proof -
  assume d: "dict_ok d"
  have "distinct (map fst (sort_key fst d))" using d by (simp add: dict_ok_def distinct_map)
  then have "map_of (sort_key fst d) k = Some v \<longleftrightarrow> map_of d k = Some v" for v using d by (simp add: dict_ok_def)
  then show ?thesis by (metis not_None_eq)
qed

lemma restart_health:
  assumes "dict_ok (crs_cursors s)"
  shows "map_of (col_health (collector_init capacity reg s)) k = map_option (\<lambda>row. health_of_row (k, row)) (map_of (crs_cursors s) k)"
proof -
  have "map_of (map (\<lambda>h. (srh_source_id h, h)) (map health_of_row d)) k = map_option (\<lambda>row. health_of_row (k, row)) (map_of d k)" for d
    by (induction d) (auto simp: health_of_row_def)
  then show ?thesis using map_of_sort[OF assms] by (simp add: collector_init_def load_cursors_def)
qed

lemma restart_ok:
  assumes "dict_ok (crs_cursors s)"
  shows "cursors_ok (collector_init capacity reg s)" "cursors (collector_init capacity reg s) k = map_option row_cursor (map_of (crs_cursors s) k)"
proof -
  show c: "cursors (collector_init capacity reg s) k = map_option row_cursor (map_of (crs_cursors s) k)" for k
    by (cases "map_of (crs_cursors s) k") (simp_all add: cursors_def restart_health[OF assms] health_of_row_def cursor_of_def row_cursor_def)
  have "dict_ok (col_health (collector_init capacity reg s))"
    using assms by (simp add: collector_init_def load_cursors_def dict_ok_def health_of_row_def Let_def case_prod_unfold o_def distinct_map)
  then show "cursors_ok (collector_init capacity reg s)" unfolding cursors_ok_def c restart_health[OF assms]
    using assms by (auto simp: collector_init_def health_of_row_def watermark_ok_def)
qed

section \<open>Observations\<close>

lemma health_for_simps [simp]:
  "cursor_of (health_for previous ob b x) = obs_cursor ob" "srh_source_id (health_for previous ob b x) = obs_source_id ob"
  "srh_event_time_watermark (health_for previous ob b x) = Some (next_watermark previous (obs_observed_at ob))"
  "srh_last_observed_at (health_for previous ob b x) = Some (obs_observed_at ob)"
  by (simp_all add: health_for_def Let_def case_prod_unfold cursor_of_def obs_cursor_def)

lemma next_watermark_ge: "t \<le> next_watermark previous t"
  by (auto simp: next_watermark_def split: option.splits)

lemma cursors_ok_buffers: "cursors_ok (c\<lparr>col_buffers := b\<rparr>) = cursors_ok c" "cursors (c\<lparr>col_buffers := b\<rparr>) = cursors c"
  by (simp_all add: cursors_ok_def cursors_def fun_eq_iff)

lemma accept_ok:
  assumes "cursors_ok c" "accept_observation lib ob (map_of (col_health c) (obs_source_id ob)) x c = (r, c')"
  shows "cursors_ok c'" "\<not> is_ok r \<Longrightarrow> cursors c' = cursors c" "is_ok r \<Longrightarrow> cursors c' = (cursors c)(obs_source_id ob := Some (obs_cursor ob))"
    "is_ok r \<Longrightarrow> r = Inr ob \<and> (\<exists>h. map_of (col_health c') (obs_source_id ob) = Some h \<and>
       srh_event_time_watermark h = Some (next_watermark (map_of (col_health c) (obs_source_id ob)) (obs_observed_at ob)))"
proof -
  let ?k = "obs_source_id ob" and ?p = "map_of (col_health c) (obs_source_id ob)"
  note d = cursors_okD[OF assms(1)]
  define bf where "bf = (case map_of (col_buffers c) ?k of None \<Rightarrow> ring_init (col_capacity c) | Some b \<Rightarrow> bind_result (ring_init (col_capacity c)) (\<lambda>_. Inr b))"
  note eq = assms(2)[unfolded accept_observation_def, folded bf_def]
  consider e where "r = Inl e" "c' = c"
    | e b where "r = Inl e" "c' = c\<lparr>col_buffers := b\<rparr>"
    | b h c1 s where "h = health_for ?p ob b x" "upsert lib h None (col_store c) = (Inr (), s)" "r = Inr ob"
        "c' = put_health ?k h (c\<lparr>col_buffers := c1, col_store := s\<rparr>)"
    | h c1 s e where "upsert lib h None (col_store c) = (Inl e, s)" "r = Inl e" "c' = c\<lparr>col_buffers := c1, col_store := s\<rparr>"
  proof (cases bf)
    case (Inl e)
    then show ?thesis using eq that(1)[of e] by simp
  next
    case (Inr b)
    let ?b = "ring_append ob b" and ?bs = "AList.update ?k (ring_append ob b) (col_buffers c)"
    let ?h = "health_for ?p ob ?b x"
    obtain u s where u: "upsert lib ?h None (col_store c) = (u, s)" by fastforce
    show ?thesis
    proof (cases "SourceHealth_fields_ok ?h")
      case False
      then show ?thesis using eq Inr that(2)[of "ValidationError ''SourceHealth''" ?bs] by (simp add: Let_def)
    next
      case True
      then show ?thesis using eq Inr u that(3)[of ?h ?b s ?bs] that(4)[of ?h _ s ?bs] by (cases u) (simp_all add: Let_def store_health_def)
    qed
  qed
  then have "cursors_ok c' \<and> (\<not> is_ok r \<longrightarrow> cursors c' = cursors c) \<and> (is_ok r \<longrightarrow> cursors c' = (cursors c)(?k := Some (obs_cursor ob)) \<and> r = Inr ob \<and>
      (\<exists>h. map_of (col_health c') ?k = Some h \<and> srh_event_time_watermark h = Some (next_watermark ?p (obs_observed_at ob))))"
  proof cases
    case (3 b h c1 s)
    obtain row where row: "row_cursor row = obs_cursor ob" "crs_cursors s = AList.update ?k row (crs_cursors (col_store c))"
      using 3(2) by (cases rule: upsert_cases) (auto simp: 3(1))
    have cur: "cursors c' = (cursors c)(?k := Some (obs_cursor ob))" by (simp add: fun_eq_iff cursors_def 3(4) put_health_def 3(1))
    have "watermark_ok h" using next_watermark_ge by (simp add: watermark_ok_def 3(1))
    then have "cursors_ok c'" unfolding cursors_ok_def cur using d row by (auto simp: 3(4) put_health_def dict_ok_update 3(1) split: if_splits)
    then show ?thesis using cur 3(3) by (simp add: 3(4) put_health_def 3(1))
  next
    case (4 h c1 s e)
    then have "s = col_store c" by (auto elim: upsert_cases)
    then have "c' = c\<lparr>col_buffers := c1\<rparr>" using 4(3) by simp
    then show ?thesis using 4(2) assms(1) by (simp add: cursors_ok_buffers)
  qed (use assms(1) in \<open>simp_all add: cursors_ok_buffers\<close>)
  then show "cursors_ok c'" "\<not> is_ok r \<Longrightarrow> cursors c' = cursors c" "is_ok r \<Longrightarrow> cursors c' = (cursors c)(?k := Some (obs_cursor ob))"
    "is_ok r \<Longrightarrow> r = Inr ob \<and> (\<exists>h. map_of (col_health c') ?k = Some h \<and> srh_event_time_watermark h = Some (next_watermark ?p (obs_observed_at ob)))"
    by blast+
qed

lemma collect_cases:
  assumes "collect_observation lib ob c = (r, c')"
  obtains e where "r = Inl e" "c' = c"
  | h r1 c1 where "map_of (col_health c) (obs_source_id ob) = Some h" "\<not> is_ok r"
      "store_health lib (with_reason HS_DEGRADED ''late_event_exceeded'' h) (Some (obs_received_at ob)) c = (r1, c1)"
      "c' = c1 \<or> c' = put_health (obs_source_id ob) (with_reason HS_DEGRADED ''late_event_exceeded'' h) c1"
  | extra degraded x where "order_check (map_of (col_configurations c) (obs_source_id ob)) (map_of (col_health c) (obs_source_id ob)) ob = In_order extra degraded"
      "accept_observation lib ob (map_of (col_health c) (obs_source_id ob)) x c = (r, c')"
proof (cases "order_check (map_of (col_configurations c) (obs_source_id ob)) (map_of (col_health c) (obs_source_id ob)) ob")
  case Out_of_sequence
  then show ?thesis using assms that(1) by (auto simp: collect_observation_def Let_def split: if_splits)
next
  case Too_late
  then obtain h where h: "map_of (col_health c) (obs_source_id ob) = Some h" by (cases "map_of (col_health c) (obs_source_id ob)") (auto simp: order_check_def)
  then show ?thesis using assms Too_late that(1) that(2)[OF h]
    by (auto simp: collect_observation_def Let_def split: if_splits prod.splits sum.splits)
next
  case (In_order extra degraded)
  then show ?thesis using assms that(1) that(3)[OF In_order] by (auto simp: collect_observation_def Let_def split: if_splits)
qed

lemma collect_ok:
  assumes "cursors_ok c" "collect_observation lib ob c = (r, c')"
  shows "cursors_ok c'" "\<not> is_ok r \<Longrightarrow> cursors c' = cursors c" "is_ok r \<Longrightarrow> cursors c' = (cursors c)(obs_source_id ob := Some (obs_cursor ob))"
    "is_ok r \<Longrightarrow> cursors c (obs_source_id ob) = Some (Some (obs_boot_id ob), Some (obs_clock_epoch ob), Some n, t) \<Longrightarrow> n < obs_sequence ob"
proof -
  let ?k = "obs_source_id ob"
  have "cursors_ok c' \<and> (\<not> is_ok r \<longrightarrow> cursors c' = cursors c) \<and> (is_ok r \<longrightarrow> cursors c' = (cursors c)(?k := Some (obs_cursor ob)) \<and>
      (\<forall>n t. cursors c ?k = Some (Some (obs_boot_id ob), Some (obs_clock_epoch ob), Some n, t) \<longrightarrow> n < obs_sequence ob))"
    using assms(2)
  proof (cases rule: collect_cases)
    case (2 h r1 c1)
    then show ?thesis using refresh_ok[OF assms(1) 2(1,3)] by auto
  next
    case (3 extra degraded x)
    have "n < obs_sequence ob" if "cursors c ?k = Some (Some (obs_boot_id ob), Some (obs_clock_epoch ob), Some n, t)" for n t
      using that 3(1) by (auto simp: cursors_def cursor_of_def order_check_def same_epoch_def Let_def split: if_splits)
    then show ?thesis using accept_ok(1-3)[OF assms(1) 3(2)] by blast
  qed (use assms(1) in simp)
  then show "cursors_ok c'" "\<not> is_ok r \<Longrightarrow> cursors c' = cursors c" "is_ok r \<Longrightarrow> cursors c' = (cursors c)(?k := Some (obs_cursor ob))"
    "is_ok r \<Longrightarrow> cursors c ?k = Some (Some (obs_boot_id ob), Some (obs_clock_epoch ob), Some n, t) \<Longrightarrow> n < obs_sequence ob" by blast+
qed

section \<open>Histories\<close>

abbreviation of_source :: "string \<Rightarrow> Observation list \<Rightarrow> Observation list" where
  "of_source k \<equiv> filter (\<lambda>ob. obs_source_id ob = k)"

definition in_sequence :: "Observation \<Rightarrow> Observation \<Rightarrow> bool" where
  "in_sequence a b \<longleftrightarrow> (obs_boot_id a = obs_boot_id b \<and> obs_clock_epoch a = obs_clock_epoch b \<longrightarrow> obs_sequence a < obs_sequence b)"

definition history_ok :: "collector \<Rightarrow> Observation list \<Rightarrow> bool" where
  "history_ok c os \<longleftrightarrow> cursors_ok c \<and>
     (\<forall>k. cursors c k = (if of_source k os = [] then None else Some (obs_cursor (last (of_source k os)))) \<and> successively in_sequence (of_source k os))"

lemma step_history:
  assumes "history_ok c os" "col_step lib c acc c'"
  shows "history_ok c' (os @ acc)"
  using assms(2)
proof cases
  case (cs_accept ob r)
  have ok: "cursors_ok c" using assms(1) by (simp add: history_ok_def)
  note a = collect_ok[OF ok cs_accept(2)]
  have hist: "cursors c k = (if of_source k os = [] then None else Some (obs_cursor (last (of_source k os))))" "successively in_sequence (of_source k os)" for k
    using assms(1) by (simp_all add: history_ok_def)
  have "of_source (obs_source_id ob) os \<noteq> [] \<Longrightarrow> in_sequence (last (of_source (obs_source_id ob) os)) ob"
    using a(4) hist(1)[of "obs_source_id ob"] by (auto simp: in_sequence_def obs_cursor_def)
  then show ?thesis using a(1,3) hist by (auto simp: history_ok_def cs_accept successively_append_iff)
next
  case (cs_refuse ob e)
  then show ?thesis using assms(1) collect_ok(1,2)[of c lib ob] by (simp add: history_ok_def)
next
  case (cs_configure k kind location lateness x)
  then have "col_health c' = col_health c" "col_store c' = col_store c"
    by (auto simp: configure_source_def Let_def bind_result_Inr split: option.splits if_splits)
  then have "cursors c' = cursors c" "cursors_ok c' = cursors_ok c" by (simp_all add: fun_eq_iff cursors_ok_def cursors_def)
  then show ?thesis using assms(1) cs_configure by (simp add: history_ok_def)
next
  case (cs_stale now threshold r)
  have ok: "cursors_ok c" using assms(1) by (simp add: history_ok_def)
  have "distinct (map fst (col_health c))" "\<forall>(k, h) \<in> set (col_health c). map_of (col_health c) k = Some h"
    using cursors_okD(2)[OF ok] by (auto simp: dict_ok_def)
  from stale_loop_ok[OF ok this] cs_stale assms(1) show ?thesis by (simp add: history_ok_def mark_stale_def)
next
  case (cs_failed k reason now r)
  then show ?thesis using assms(1) mark_failed_ok[OF _ cs_failed(2)] by (simp add: history_ok_def)
next
  case (cs_restart capacity reg)
  have ok: "cursors_ok c" using assms(1) by (simp add: history_ok_def)
  have "cursors c' = cursors c" using restart_ok(2)[OF cursors_okD(1)[OF ok]] cursors_okD(3)[OF ok] by (simp add: fun_eq_iff cs_restart)
  then show ?thesis using assms(1) restart_ok(1)[OF cursors_okD(1)[OF ok]] by (simp add: history_ok_def cs_restart)
qed

lemma run_history: "col_run lib (collector_init capacity reg empty_cursors) os c \<Longrightarrow> history_ok c os"
proof (induction rule: col_run.induct)
  case cr_refl
  then show ?case using restart_ok[of empty_cursors capacity reg] by (simp add: history_ok_def empty_cursors_def)
qed (rule step_history)

section \<open>Claims\<close>

text \<open>
  C8. Accepted observations are in sequence. Through any run of the collector on one store, restarts included, the observations
  that were accepted from one source have increasing sequence numbers as long as the source stays in the same boot and
  clock epoch: of two consecutive ones with the same epoch the second has the greater number.
\<close>

theorem accepted_observations_in_sequence:
  assumes "col_run lib (collector_init capacity reg empty_cursors) os c"
  shows "successively (\<lambda>a b. obs_boot_id a = obs_boot_id b \<and> obs_clock_epoch a = obs_clock_epoch b \<longrightarrow> obs_sequence a < obs_sequence b)
    (filter (\<lambda>ob. obs_source_id ob = k) os)"
  using run_history[OF assms] unfolding history_ok_def in_sequence_def by blast

text \<open>
  C23. A restart keeps the cursors and forgets the watermark. In every reachable collector, opening a collector
  again on the store knows the same sources, and for each of them the boot, the clock epoch, the last sequence number and the
  last observed time that the running collector has. The event-time watermark comes back as the last observed time,
  which is never above the watermark of the running collector; while it runs, an accepted observation never lowers it.
\<close>

theorem restart_keeps_cursors:
  assumes "col_run lib (collector_init capacity reg empty_cursors) os c" "map_of (col_health c) k = Some h"
  shows "(\<exists>h' t w. map_of (col_health (collector_init capacity' reg' (col_store c))) k = Some h' \<and> srh_boot_id h' = srh_boot_id h \<and>
      srh_clock_epoch h' = srh_clock_epoch h \<and> srh_last_sequence h' = srh_last_sequence h \<and> srh_last_observed_at h' = Some t \<and>
      srh_last_observed_at h = Some t \<and> srh_event_time_watermark h' = Some t \<and> srh_event_time_watermark h = Some w \<and> t \<le> w) \<and>
    (\<forall>k'. map_of (col_health c) k' = None \<longleftrightarrow> map_of (col_health (collector_init capacity' reg' (col_store c))) k' = None) \<and>
    (\<forall>ob r c'. collect_observation lib ob c = (Inr r, c') \<and> obs_source_id ob = k \<longrightarrow>
      (\<exists>h' w w'. map_of (col_health c') k = Some h' \<and> srh_event_time_watermark h = Some w \<and> srh_event_time_watermark h' = Some w' \<and> w \<le> w'))"
proof -
  have ok: "cursors_ok c" using run_history[OF assms(1)] by (simp add: history_ok_def)
  note d = cursors_okD[OF ok] and rh = restart_health[OF cursors_okD(1)[OF ok], of capacity' reg']
  obtain t w where tw: "srh_last_observed_at h = Some t" "srh_event_time_watermark h = Some w" "t \<le> w" using d(5)[OF assms(2)] by (auto simp: watermark_ok_def)
  obtain row where row: "map_of (crs_cursors (col_store c)) k = Some row" "row_cursor row = cursor_of h"
    using d(3)[of k] assms(2) by (cases "map_of (crs_cursors (col_store c)) k") (auto simp: cursors_def)
  have first: "\<exists>h' t w. map_of (col_health (collector_init capacity' reg' (col_store c))) k = Some h' \<and> srh_boot_id h' = srh_boot_id h \<and>
      srh_clock_epoch h' = srh_clock_epoch h \<and> srh_last_sequence h' = srh_last_sequence h \<and> srh_last_observed_at h' = Some t \<and>
      srh_last_observed_at h = Some t \<and> srh_event_time_watermark h' = Some t \<and> srh_event_time_watermark h = Some w \<and> t \<le> w"
    by (rule exI[of _ "health_of_row (k, row)"], rule exI[of _ t], rule exI[of _ w])
      (use row tw in \<open>simp add: rh health_of_row_def row_cursor_def cursor_of_def\<close>)
  have second: "map_of (col_health c) k' = None \<longleftrightarrow> map_of (col_health (collector_init capacity' reg' (col_store c))) k' = None" for k'
    using d(3)[of k'] by (auto simp: cursors_def rh)
  have third: "\<exists>h' w w'. map_of (col_health c') k = Some h' \<and> srh_event_time_watermark h = Some w \<and> srh_event_time_watermark h' = Some w' \<and> w \<le> w'"
    if ob: "collect_observation lib ob c = (Inr r, c')" "obs_source_id ob = k" for ob r c'
    using ob(1)
  proof (cases rule: collect_cases)
    case (3 extra degraded x)
    then obtain h' where "map_of (col_health c') k = Some h'" "srh_event_time_watermark h' = Some (next_watermark (Some h) (obs_observed_at ob))"
      using accept_ok(4)[OF ok 3(2)] ob(2) assms(2) by auto
    then show ?thesis using tw(2) by (auto simp: next_watermark_def)
  qed simp_all
  show ?thesis using first second third by blast
qed

section \<open>Witnesses\<close>

definition collector_library :: library where
  "collector_library = \<lparr>lib_uuid5 = (\<lambda>s. s), lib_isoformat = str_int, lib_json_dumps = (\<lambda>_. []), lib_sha256 = (\<lambda>s. s),
     lib_hmac_sha256 = (\<lambda>k m. k), lib_model_dump = (\<lambda>_. JNull)\<rparr>"

definition demo_frame :: "int \<Rightarrow> datetime \<Rightarrow> Observation" where
  "demo_frame n t = demo_reading\<lparr>obs_sequence := n, obs_observed_at := t, obs_received_at := 9000000, obs_values := [], obs_units := []\<rparr>"

definition demo_collector :: collector where
  "demo_collector = (case configure_source ''mast'' ''camera'' ''roof'' None (collector_init 4 [] empty_cursors) of
     Inl _ \<Rightarrow> collector_init 4 [] empty_cursors | Inr (_, c) \<Rightarrow> c)"

definition demo_gathered :: "Observation list \<Rightarrow> collector" where
  "demo_gathered os = fold (\<lambda>ob c. snd (collect_observation collector_library ob c)) os demo_collector"

abbreviation "demo_first \<equiv> demo_frame 1 8000000"
abbreviation "demo_second \<equiv> demo_frame 2 7000000"

lemma demo_gathered_run:
  assumes "is_ok (fst (collect_observation collector_library demo_first demo_collector))"
    "is_ok (fst (collect_observation collector_library demo_second (demo_gathered [demo_first])))"
  shows "col_run collector_library (collector_init 4 [] empty_cursors) [demo_first, demo_second] (demo_gathered [demo_first, demo_second])"
proof -
  let ?c = "collector_init 4 [] empty_cursors"
  have step: "col_step collector_library c [ob] (snd (collect_observation collector_library ob c))" if ok: "is_ok (fst (collect_observation collector_library ob c))" for ob c
    using ok cs_accept by (cases "collect_observation collector_library ob c"; cases "fst (collect_observation collector_library ob c)") auto
  have "col_run collector_library ?c [] demo_collector"
  proof (cases "configure_source ''mast'' ''camera'' ''roof'' None ?c")
    case (Inl e)
    then show ?thesis by (simp add: demo_collector_def cr_refl)
  next
    case (Inr y)
    obtain z c where y: "y = (z, c)" by fastforce
    from cr_step[OF cr_refl cs_configure[OF Inr[unfolded y]], of collector_library] show ?thesis by (simp add: demo_collector_def Inr y)
  qed
  from cr_step[OF cr_step[OF this step[OF assms(1)]], of "[demo_second]"] step[OF assms(2)] show ?thesis by (simp add: demo_gathered_def)
qed

definition demo_gathered_check :: "bool \<times> bool \<times> datetime option option \<times> datetime option option" where
  "demo_gathered_check = (let r1 = collect_observation collector_library demo_first demo_collector;
     r2 = collect_observation collector_library demo_second (snd r1); w = (\<lambda>c. map_option srh_event_time_watermark (map_of (col_health c) ''mast''))
   in (is_ok (fst r1), is_ok (fst r2), w (snd r2), w (collector_init 4 [] (col_store (snd r2)))))"

lemma demo_gathered_check: "demo_gathered_check = (True, True, Some (Some 8000000), Some (Some 7000000))"
  by code_simp

lemma demo_gathered_facts:
  "is_ok (fst (collect_observation collector_library demo_first demo_collector))"
  "is_ok (fst (collect_observation collector_library demo_second (demo_gathered [demo_first])))"
  "obs_source_id demo_first = ''mast''" "obs_source_id demo_second = ''mast''"
  "map_option srh_event_time_watermark (map_of (col_health (demo_gathered [demo_first, demo_second])) ''mast'') = Some (Some 8000000)"
  "map_option srh_event_time_watermark (map_of (col_health (collector_init 4 [] (col_store (demo_gathered [demo_first, demo_second])))) ''mast'') = Some (Some 7000000)"
  using demo_gathered_check by (simp_all only: demo_gathered_check_def Let_def demo_gathered_def fold.simps o_apply id_apply prod.inject list.case)
    (simp_all add: demo_frame_def demo_reading_def)

theorem accepted_observations_in_sequence_witness:
  "is_ok (fst (collect_observation collector_library demo_second (demo_gathered [demo_first]))) \<and> obs_sequence demo_first < obs_sequence demo_second"
  using accepted_observations_in_sequence[OF demo_gathered_run[OF demo_gathered_facts(1,2)], of "''mast''"] demo_gathered_facts(2-4)
  by (simp add: demo_frame_def)

theorem restart_keeps_cursors_witness:
  "\<exists>h h'. map_of (col_health (demo_gathered [demo_first, demo_second])) ''mast'' = Some h \<and>
     map_of (col_health (collector_init 4 [] (col_store (demo_gathered [demo_first, demo_second])))) ''mast'' = Some h' \<and>
     srh_last_sequence h' = srh_last_sequence h \<and> srh_event_time_watermark h = Some 8000000 \<and> srh_event_time_watermark h' = Some 7000000"
proof -
  obtain h where h: "map_of (col_health (demo_gathered [demo_first, demo_second])) ''mast'' = Some h" "srh_event_time_watermark h = Some 8000000"
    using demo_gathered_facts(5) by auto
  from restart_keeps_cursors[OF demo_gathered_run[OF demo_gathered_facts(1,2)] h(1), of 4 "[]", THEN conjunct1] h demo_gathered_facts(6)
  show ?thesis by auto
qed

end
