(* ===== verification/Trusted_Time.thy ===== *)
theory Trusted_Time
  imports Measurements
begin

text \<open>
  Trust in wall-clock time: \<^verbatim>\<open>TrustedTimeManager\<close> of \<^verbatim>\<open>src/src/sentinel_edge/runtime/trusted_time.py\<close> with the classes
  \<^verbatim>\<open>TimeSourceObservation\<close> and \<^verbatim>\<open>TimeTrustSnapshot\<close> of \<^verbatim>\<open>src/src/sentinel_edge/domain/models.py\<close>.

  The manager is a record; \<open>evaluate\<close> returns the snapshot and the manager it leaves, \<open>update_time\<close> raises before it
  changes anything. Times carry a time zone in the model. Every float operation is rounded by \<open>f64\<close>.
\<close>

section \<open>Data\<close>

record TimeSourceObservation =
  tso_source_id :: string
  tso_origin :: TimeOrigin
  tso_authenticated :: bool
  tso_observed_utc :: datetime
  tso_observed_monotonic_ns :: int
  tso_uncertainty_ms :: pyfloat
  tso_age_ms :: pyfloat
  tso_stratum :: "int option"
  tso_reference_id :: "string option"
  tso_continuity_id :: string
  tso_clock_epoch :: int
  tso_clock_uncertainty_ms :: pyfloat
  tso_certificate_bootstrap_valid :: "bool option"

definition TimeSourceObservation_init :: "TimeSourceObservation \<Rightarrow> TimeSourceObservation result" where
  "TimeSourceObservation_init x =
     (if 0 \<le> tso_observed_monotonic_ns x \<and> 0 \<le> tso_uncertainty_ms x \<and> 0 \<le> tso_age_ms x \<and> pred_option (\<lambda>n. 0 \<le> n \<and> n \<le> 16) (tso_stratum x) \<and>
         0 \<le> tso_clock_epoch x \<and> 0 \<le> tso_clock_uncertainty_ms x \<and> \<not> blank (tso_source_id x) \<and> \<not> blank (tso_continuity_id x)
      then Inr x else Inl (ValidationError ''TimeSourceObservation''))"

record TimeTrustSnapshot =
  tts_state :: TimeTrustState
  tts_selected_source_id :: "string option"
  tts_selected_origin :: "TimeOrigin option"
  tts_authenticated :: bool
  tts_uncertainty_ms :: "pyfloat option"
  tts_clock_epoch :: int
  tts_display_time_allowed :: bool
  tts_security_validity_allowed :: bool
  tts_remote_freshness_allowed :: bool
  tts_peer_correlation_allowed :: bool
  tts_reason_codes :: "string list"
  tts_sources :: "TimeSourceObservation list"

record TimeTrustPolicy =
  ttp_max_trusted_uncertainty_ms :: pyfloat
  ttp_max_display_uncertainty_ms :: pyfloat
  ttp_max_source_age_ms :: pyfloat
  ttp_disagreement_threshold_ms :: pyfloat
  ttp_authenticated_origins :: "TimeOrigin list"
  ttp_locally_trusted_origins :: "TimeOrigin list"

definition default_time_policy :: TimeTrustPolicy where
  "default_time_policy = \<lparr>ttp_max_trusted_uncertainty_ms = 250, ttp_max_display_uncertainty_ms = 10000, ttp_max_source_age_ms = 60000,
     ttp_disagreement_threshold_ms = 1000, ttp_authenticated_origins = [TO_NTS], ttp_locally_trusted_origins = [TO_FIXTURE]\<rparr>"

record time_manager =
  ttm_policy :: TimeTrustPolicy
  ttm_sources :: "(string, TimeSourceObservation) dict"
  ttm_clock_epoch :: int
  ttm_last_selected :: "TimeSourceObservation option"
  ttm_last_snapshot :: TimeTrustSnapshot

section \<open>Operations\<close>

definition unusable_snapshot :: "int \<Rightarrow> string list \<Rightarrow> TimeSourceObservation list \<Rightarrow> TimeTrustSnapshot" where
  "unusable_snapshot epoch reasons sources =
     \<lparr>tts_state = TT_UNUSABLE, tts_selected_source_id = None, tts_selected_origin = None, tts_authenticated = False, tts_uncertainty_ms = None,
      tts_clock_epoch = epoch, tts_display_time_allowed = False, tts_security_validity_allowed = False, tts_remote_freshness_allowed = False,
      tts_peer_correlation_allowed = False, tts_reason_codes = reasons, tts_sources = sources\<rparr>"

definition time_manager_init :: "TimeTrustPolicy \<Rightarrow> time_manager" where
  "time_manager_init policy =
     \<lparr>ttm_policy = policy, ttm_sources = [], ttm_clock_epoch = 0, ttm_last_selected = None,
      ttm_last_snapshot = unusable_snapshot 0 [''no_time_source''] []\<rparr>"

definition utc_ms :: "datetime \<Rightarrow> pyfloat" where
  "utc_ms t = f64 (total_seconds t * 1000)"

definition time_sources :: "time_manager \<Rightarrow> TimeSourceObservation list" where
  "time_sources m = sort_key tso_source_id (map snd (ttm_sources m))"

definition fresh_sources :: "time_manager \<Rightarrow> TimeSourceObservation list" where
  "fresh_sources m = filter (\<lambda>i. tso_age_ms i \<le> ttp_max_source_age_ms (ttm_policy m)) (time_sources m)"

definition trusted_source :: "TimeTrustPolicy \<Rightarrow> TimeSourceObservation \<Rightarrow> bool" where
  "trusted_source p i \<longleftrightarrow>
     (tso_origin i \<in> set (ttp_authenticated_origins p) \<and> tso_authenticated i \<or> tso_origin i \<in> set (ttp_locally_trusted_origins p)) \<and>
     tso_uncertainty_ms i \<le> ttp_max_trusted_uncertainty_ms p"

definition trusted_candidates :: "time_manager \<Rightarrow> TimeSourceObservation list" where
  "trusted_candidates m = filter (trusted_source (ttm_policy m)) (fresh_sources m)"

definition display_candidates :: "time_manager \<Rightarrow> TimeSourceObservation list" where
  "display_candidates m = filter (\<lambda>i. tso_uncertainty_ms i \<le> ttp_max_display_uncertainty_ms (ttm_policy m)) (fresh_sources m)"

text \<open>\<^verbatim>\<open>min(pool, key=...)\<close> is the first element with the least key.\<close>

definition selected_source :: "time_manager \<Rightarrow> TimeSourceObservation" where
  "selected_source m =
     hd (sort_key (\<lambda>i. (tso_uncertainty_ms i, tso_age_ms i, tso_source_id i))
       (if trusted_candidates m \<noteq> [] then trusted_candidates m else if display_candidates m \<noteq> [] then display_candidates m else fresh_sources m))"

definition sources_disagree :: "time_manager \<Rightarrow> bool" where
  "sources_disagree m \<longleftrightarrow>
     (let ts = map (\<lambda>i. utc_ms (tso_observed_utc i)) (trusted_candidates m)
      in 1 < length ts \<and> ttp_disagreement_threshold_ms (ttm_policy m) < f64 (Max (set ts) - Min (set ts)))"

definition selection_reasons :: "TimeSourceObservation option \<Rightarrow> TimeSourceObservation \<Rightarrow> string list" where
  "selection_reasons previous i =
     (case previous of
        None \<Rightarrow> []
      | Some p \<Rightarrow>
          (if tso_source_id i \<noteq> tso_source_id p then [''selected_time_source_changed''] else []) @
          (if tso_authenticated i \<noteq> tso_authenticated p then [''selected_time_authentication_changed''] else []) @
          (if tso_continuity_id i \<noteq> tso_continuity_id p then [''selected_time_continuity_changed''] else []))"

definition epoch_reasons :: "string list" where
  "epoch_reasons = [''trusted_sources_disagree'', ''utc_rollback_detected'', ''utc_step_detected'', ''selected_time_authentication_changed'',
     ''selected_time_continuity_changed'', ''time_authentication_changed'', ''time_source_continuity_changed'']"

text \<open>The state of the selected source, whether it supports security decisions, and the reason.\<close>

definition trust_level :: "time_manager \<Rightarrow> TimeSourceObservation \<Rightarrow> string list \<Rightarrow> TimeTrustState \<times> bool \<times> string" where
  "trust_level m i reasons =
     (if i \<in> set (trusted_candidates m) \<and> ''trusted_sources_disagree'' \<notin> set reasons then (TT_TRUSTED, True, ''trusted_time_selected'')
      else if i \<in> set (display_candidates m) then (TT_DISPLAY_ONLY, False, ''unauthenticated_or_uncertain_time_display_only'')
      else (TT_DEGRADED, False, ''time_uncertainty_exceeds_display_policy''))"

definition restrict_ntp :: "TimeSourceObservation \<Rightarrow> TimeTrustState \<times> bool \<times> string list \<Rightarrow> TimeTrustState \<times> bool \<times> string list" where
  "restrict_ntp i x =
     (let (st, security, reasons) = x
      in if tso_origin i = TO_NTP \<and> \<not> tso_authenticated i
         then (if st = TT_TRUSTED then TT_DISPLAY_ONLY else st, False, reasons @ [''unauthenticated_ntp_cannot_strengthen_security'']) else x)"

definition restrict_certificate :: "TimeSourceObservation \<Rightarrow> TimeTrustState \<times> bool \<times> string list \<Rightarrow> TimeTrustState \<times> bool \<times> string list" where
  "restrict_certificate i x =
     (let (st, security, reasons) = x
      in if tso_certificate_bootstrap_valid i = Some False then (TT_DEGRADED, False, reasons @ [''certificate_bootstrap_invalid'']) else x)"

definition evaluate :: "string list \<Rightarrow> time_manager \<Rightarrow> TimeTrustSnapshot \<times> time_manager" where
  "evaluate extra_reasons m =
     (if fresh_sources m = []
      then (unusable_snapshot (ttm_clock_epoch m)
              (sorted_set (extra_reasons @ [if time_sources m \<noteq> [] then ''all_time_sources_stale'' else ''no_time_source''])) (time_sources m), m)
      else
        (let i = selected_source m;
             reasons = extra_reasons @ (if sources_disagree m then [''trusted_sources_disagree''] else []) @ selection_reasons (ttm_last_selected m) i;
             epoch = ttm_clock_epoch m + (if list_ex (\<lambda>code. code \<in> set reasons) epoch_reasons then 1 else 0);
             (level, security, reason) = trust_level m i reasons;
             (st, allowed, codes) = restrict_certificate i (restrict_ntp i (level, security, reasons @ [reason]))
         in (\<lparr>tts_state = st, tts_selected_source_id = Some (tso_source_id i), tts_selected_origin = Some (tso_origin i),
              tts_authenticated = tso_authenticated i, tts_uncertainty_ms = Some (tso_uncertainty_ms i), tts_clock_epoch = epoch,
              tts_display_time_allowed = (st \<noteq> TT_UNUSABLE), tts_security_validity_allowed = allowed, tts_remote_freshness_allowed = allowed,
              tts_peer_correlation_allowed = allowed, tts_reason_codes = sorted_set codes, tts_sources = time_sources m\<rparr>,
             m\<lparr>ttm_clock_epoch := epoch, ttm_last_selected := Some i\<rparr>)))"

definition utc_advance :: "TimeSourceObservation \<Rightarrow> TimeSourceObservation \<Rightarrow> pyfloat" where
  "utc_advance p ob = f64 (utc_ms (tso_observed_utc ob) - utc_ms (tso_observed_utc p))"

definition monotonic_advance :: "TimeSourceObservation \<Rightarrow> TimeSourceObservation \<Rightarrow> pyfloat" where
  "monotonic_advance p ob = f64 (of_int (tso_observed_monotonic_ns ob - tso_observed_monotonic_ns p) / 1000000)"

definition step_reasons :: "TimeTrustPolicy \<Rightarrow> TimeSourceObservation \<Rightarrow> TimeSourceObservation \<Rightarrow> string list" where
  "step_reasons pol p ob =
     (if utc_advance p ob < - ttp_disagreement_threshold_ms pol then [''utc_rollback_detected'']
      else if ttp_disagreement_threshold_ms pol < \<bar>f64 (utc_advance p ob - monotonic_advance p ob)\<bar> then [''utc_step_detected'']
      else [])"

definition discontinuity_reasons :: "TimeTrustPolicy \<Rightarrow> TimeSourceObservation option \<Rightarrow> TimeSourceObservation \<Rightarrow> string list result" where
  "discontinuity_reasons pol previous ob =
     (case previous of
        None \<Rightarrow> Inr []
      | Some p \<Rightarrow>
          (let changed = (if tso_authenticated ob \<noteq> tso_authenticated p then [''time_authentication_changed''] else [])
           in if tso_clock_epoch ob < tso_clock_epoch p then Inl (ValueError ''time source clock epoch rollback'')
              else if tso_continuity_id ob = tso_continuity_id p
              then (if tso_observed_monotonic_ns ob < tso_observed_monotonic_ns p then Inl (ValueError ''time source monotonic rollback'')
                    else Inr (step_reasons pol p ob @ changed))
              else Inr (''time_source_continuity_changed'' # changed)))"

definition update_time :: "TimeSourceObservation \<Rightarrow> time_manager \<Rightarrow> (TimeTrustSnapshot \<times> time_manager) result" where
  "update_time ob m =
     bind_result (discontinuity_reasons (ttm_policy m) (map_of (ttm_sources m) (tso_source_id ob)) ob) (\<lambda>reasons.
       (let (s, m1) = evaluate reasons (m\<lparr>ttm_sources := AList.update (tso_source_id ob) ob (ttm_sources m)\<rparr>)
        in Inr (s, m1\<lparr>ttm_last_snapshot := s\<rparr>)))"

definition fixture_observation :: "datetime \<Rightarrow> int \<Rightarrow> string \<Rightarrow> TimeSourceObservation" where
  "fixture_observation now monotonic_ns source_id =
     \<lparr>tso_source_id = source_id, tso_origin = TO_FIXTURE, tso_authenticated = False, tso_observed_utc = now, tso_observed_monotonic_ns = monotonic_ns,
      tso_uncertainty_ms = 0, tso_age_ms = 0, tso_stratum = None, tso_reference_id = Some ''signed-scenario-manifest'',
      tso_continuity_id = ''fixture-continuity-v1'', tso_clock_epoch = 0, tso_clock_uncertainty_ms = 0, tso_certificate_bootstrap_valid = Some True\<rparr>"

definition register_fixture :: "datetime \<Rightarrow> int \<Rightarrow> string \<Rightarrow> time_manager \<Rightarrow> (TimeTrustSnapshot \<times> time_manager) result" where
  "register_fixture now monotonic_ns source_id m =
     bind_result (TimeSourceObservation_init (fixture_observation now monotonic_ns source_id)) (\<lambda>ob. update_time ob m)"

text \<open>Everything that changes a manager: an accepted observation, the clock of a scenario, an evaluation.\<close>

inductive time_run :: "TimeTrustPolicy \<Rightarrow> time_manager \<Rightarrow> bool" for pol where
  tr_init: "time_run pol (time_manager_init pol)"
| tr_update: "time_run pol m \<Longrightarrow> TimeSourceObservation_init ob = Inr ob' \<Longrightarrow> update_time ob' m = Inr (s, m') \<Longrightarrow> time_run pol m'"
| tr_fixture: "time_run pol m \<Longrightarrow> register_fixture now ns k m = Inr (s, m') \<Longrightarrow> time_run pol m'"
| tr_evaluate: "time_run pol m \<Longrightarrow> evaluate extra m = (s, m') \<Longrightarrow> time_run pol m'"

end
