(* ===== verification/Time_Claims.thy ===== *)
theory Time_Claims
  imports Trusted_Time
begin

text \<open>
  What a snapshot of the time manager promises, and which clock discontinuities start a new epoch.
\<close>

section \<open>Evaluation\<close>

lemma set_trusted_candidates: "i \<in> set (trusted_candidates m) \<longleftrightarrow>
    i \<in> set (time_sources m) \<and> tso_age_ms i \<le> ttp_max_source_age_ms (ttm_policy m) \<and> trusted_source (ttm_policy m) i"
  by (auto simp: trusted_candidates_def fresh_sources_def)

lemma trusted_sources_agree:
  assumes "\<not> sources_disagree m" "0 \<le> ttp_disagreement_threshold_ms (ttm_policy m)" "i \<in> set (trusted_candidates m)" "k \<in> set (trusted_candidates m)"
  shows "f64 (utc_ms (tso_observed_utc i) - utc_ms (tso_observed_utc k)) \<le> ttp_disagreement_threshold_ms (ttm_policy m)"
proof -
  let ?ts = "map (\<lambda>i. utc_ms (tso_observed_utc i)) (trusted_candidates m)"
  have mem: "utc_ms (tso_observed_utc i) \<in> set ?ts" "utc_ms (tso_observed_utc k) \<in> set ?ts" using assms(3,4) by auto
  show ?thesis
  proof (cases "1 < length ?ts")
    case True
    have "utc_ms (tso_observed_utc i) - utc_ms (tso_observed_utc k) \<le> Max (set ?ts) - Min (set ?ts)"
      using Max_ge[OF finite_set mem(1)] Min_le[OF finite_set mem(2)] by linarith
    from f64_mono[OF this] show ?thesis using assms(1) True by (simp add: sources_disagree_def Let_def)
  next
    case False
    then have "i = k" using assms(3,4) by (cases "trusted_candidates m"; cases "tl (trusted_candidates m)") auto
    then show ?thesis using assms(2) by simp
  qed
qed

lemma evaluate_frame:
  assumes "evaluate extra m = (s, m')"
  shows "ttm_sources m' = ttm_sources m" "ttm_policy m' = ttm_policy m" "ttm_last_snapshot m' = ttm_last_snapshot m"
    "tts_sources s = time_sources m" "tts_clock_epoch s = ttm_clock_epoch m'" "ttm_clock_epoch m \<le> ttm_clock_epoch m'"
    "ttm_clock_epoch m' \<le> ttm_clock_epoch m + 1"
    "tts_remote_freshness_allowed s = tts_security_validity_allowed s" "tts_peer_correlation_allowed s = tts_security_validity_allowed s"
  using assms by (auto simp: evaluate_def unusable_snapshot_def Let_def split: if_splits prod.splits)

lemma evaluate_secure:
  assumes "evaluate extra m = (s, m')" "tts_security_validity_allowed s"
  shows "tts_state s = TT_TRUSTED" "\<not> sources_disagree m"
    "\<exists>i \<in> set (trusted_candidates m). tts_selected_source_id s = Some (tso_source_id i) \<and> tts_selected_origin s = Some (tso_origin i) \<and>
       tso_certificate_bootstrap_valid i \<noteq> Some False \<and> (tso_origin i = TO_NTP \<longrightarrow> tso_authenticated i)"
  using assms
  by (auto simp: evaluate_def unusable_snapshot_def Let_def trust_level_def restrict_ntp_def restrict_certificate_def split: if_splits prod.splits)

lemma time_sources_mem: "time_sources (m\<lparr>ttm_clock_epoch := a, ttm_last_selected := b, ttm_last_snapshot := c\<rparr>) = time_sources m"
  by (simp add: time_sources_def)

definition snapshot_sound :: "time_manager \<Rightarrow> bool" where
  "snapshot_sound m \<longleftrightarrow>
     (let s = ttm_last_snapshot m
      in tts_sources s = time_sources m \<and> tts_remote_freshness_allowed s = tts_security_validity_allowed s \<and>
         tts_peer_correlation_allowed s = tts_security_validity_allowed s \<and>
         (tts_security_validity_allowed s \<longrightarrow> tts_state s = TT_TRUSTED \<and> \<not> sources_disagree m \<and>
            (\<exists>i \<in> set (trusted_candidates m). tts_selected_source_id s = Some (tso_source_id i) \<and> tts_selected_origin s = Some (tso_origin i) \<and>
               tso_certificate_bootstrap_valid i \<noteq> Some False)))"

lemma sources_of_manager:
  assumes "ttm_sources m' = ttm_sources m" "ttm_policy m' = ttm_policy m"
  shows "time_sources m' = time_sources m" "trusted_candidates m' = trusted_candidates m" "sources_disagree m' = sources_disagree m"
proof -
  show eq: "time_sources m' = time_sources m" using assms by (simp add: time_sources_def)
  show "trusted_candidates m' = trusted_candidates m" by (simp add: trusted_candidates_def fresh_sources_def eq assms)
  then show "sources_disagree m' = sources_disagree m" by (simp add: sources_disagree_def assms)
qed

lemma snapshot_sound_init: "snapshot_sound (time_manager_init pol)"
  by (simp add: snapshot_sound_def time_manager_init_def unusable_snapshot_def time_sources_def)

lemma update_timeE:
  assumes "update_time ob m = Inr (s, m')"
  obtains reasons m1 where "discontinuity_reasons (ttm_policy m) (map_of (ttm_sources m) (tso_source_id ob)) ob = Inr reasons"
    "evaluate reasons (m\<lparr>ttm_sources := AList.update (tso_source_id ob) ob (ttm_sources m)\<rparr>) = (s, m1)" "m' = m1\<lparr>ttm_last_snapshot := s\<rparr>"
  using assms by (auto simp: update_time_def bind_result_def Let_def split: sum.splits prod.splits)

lemma snapshot_sound_update:
  assumes "update_time ob m = Inr (s, m')"
  shows "snapshot_sound m'" "ttm_policy m' = ttm_policy m"
proof -
  from assms obtain reasons m1 where ev: "evaluate reasons (m\<lparr>ttm_sources := AList.update (tso_source_id ob) ob (ttm_sources m)\<rparr>) = (s, m1)"
    and m': "m' = m1\<lparr>ttm_last_snapshot := s\<rparr>" by (rule update_timeE)
  note fr = evaluate_frame[OF ev]
  have same: "ttm_sources m' = ttm_sources (m\<lparr>ttm_sources := AList.update (tso_source_id ob) ob (ttm_sources m)\<rparr>)"
    "ttm_policy m' = ttm_policy (m\<lparr>ttm_sources := AList.update (tso_source_id ob) ob (ttm_sources m)\<rparr>)" using fr(1,2) by (simp_all add: m')
  have s: "ttm_last_snapshot m' = s" by (simp add: m')
  show "snapshot_sound m'"
    unfolding snapshot_sound_def Let_def s sources_of_manager[OF same] using fr(4,8,9) evaluate_secure[OF ev] by blast
  show "ttm_policy m' = ttm_policy m" using same(2) by simp
qed

lemma time_run_sound:
  assumes "time_run pol m"
  shows "snapshot_sound m \<and> ttm_policy m = pol"
  using assms
proof induction
  case tr_init
  show ?case using snapshot_sound_init by (simp add: time_manager_init_def)
next
  case (tr_update m ob ob' s m')
  then show ?case using snapshot_sound_update[OF tr_update.hyps(3)] by simp
next
  case (tr_fixture m now ns k s m')
  then obtain ob where "update_time ob m = Inr (s, m')" by (auto simp: register_fixture_def bind_result_def split: sum.splits)
  from snapshot_sound_update[OF this] show ?case using tr_fixture.IH by simp
next
  case (tr_evaluate m extra s m')
  note fr = evaluate_frame[OF tr_evaluate.hyps(2)]
  show ?case using tr_evaluate.IH fr(2) unfolding snapshot_sound_def Let_def fr(3) sources_of_manager[OF fr(1,2)] by simp
qed

section \<open>Epochs\<close>

definition continuous :: "TimeTrustPolicy \<Rightarrow> TimeSourceObservation \<Rightarrow> TimeSourceObservation \<Rightarrow> bool" where
  "continuous pol p ob \<longleftrightarrow> tso_continuity_id ob = tso_continuity_id p \<and> tso_authenticated ob = tso_authenticated p \<and>
     - ttp_disagreement_threshold_ms pol \<le> utc_advance p ob \<and> \<bar>f64 (utc_advance p ob - monotonic_advance p ob)\<bar> \<le> ttp_disagreement_threshold_ms pol"

lemma no_reasons_continuous:
  assumes "discontinuity_reasons pol (Some p) ob = Inr reasons" "\<not> list_ex (\<lambda>code. code \<in> set reasons) epoch_reasons"
  shows "continuous pol p ob"
  using assms by (auto simp: discontinuity_reasons_def step_reasons_def epoch_reasons_def continuous_def Let_def split: if_splits)

lemma evaluate_epoch:
  assumes "evaluate extra m = (s, m')" "ttm_clock_epoch m' = ttm_clock_epoch m" "tts_state s \<noteq> TT_UNUSABLE"
  shows "\<not> list_ex (\<lambda>code. code \<in> set extra) epoch_reasons" "\<not> sources_disagree m"
proof -
  have ne: "fresh_sources m \<noteq> []" using assms(1,3) by (auto simp: evaluate_def unusable_snapshot_def)
  have "\<not> list_ex (\<lambda>code. code \<in> set (extra @ (if sources_disagree m then [''trusted_sources_disagree''] else []) @ selection_reasons (ttm_last_selected m) (selected_source m))) epoch_reasons"
    using assms(1,2) by (auto simp: evaluate_def ne Let_def split: if_splits prod.splits)
  then show "\<not> list_ex (\<lambda>code. code \<in> set extra) epoch_reasons" "\<not> sources_disagree m"
    by (auto simp: list_ex_iff epoch_reasons_def split: if_splits)
qed

lemma update_epoch:
  assumes "update_time ob m = Inr (s, m')"
  shows "ttm_clock_epoch m \<le> ttm_clock_epoch m'" "tts_clock_epoch s = ttm_clock_epoch m'"
    "ttm_clock_epoch m' = ttm_clock_epoch m \<Longrightarrow> tts_state s \<noteq> TT_UNUSABLE \<Longrightarrow> map_of (ttm_sources m) (tso_source_id ob) = Some p \<Longrightarrow> continuous (ttm_policy m) p ob"
proof -
  from assms obtain reasons m1 where r: "discontinuity_reasons (ttm_policy m) (map_of (ttm_sources m) (tso_source_id ob)) ob = Inr reasons"
    and ev: "evaluate reasons (m\<lparr>ttm_sources := AList.update (tso_source_id ob) ob (ttm_sources m)\<rparr>) = (s, m1)"
    and m': "m' = m1\<lparr>ttm_last_snapshot := s\<rparr>" by (rule update_timeE)
  note fr = evaluate_frame[OF ev]
  show "ttm_clock_epoch m \<le> ttm_clock_epoch m'" "tts_clock_epoch s = ttm_clock_epoch m'" using fr(5,6) by (simp_all add: m')
  assume "ttm_clock_epoch m' = ttm_clock_epoch m" "tts_state s \<noteq> TT_UNUSABLE" "map_of (ttm_sources m) (tso_source_id ob) = Some p"
  then show "continuous (ttm_policy m) p ob"
    using no_reasons_continuous[OF _ evaluate_epoch(1)[OF ev]] r by (simp add: m')
qed


section \<open>Evaluated examples\<close>

definition demo_time :: "datetime \<Rightarrow> int \<Rightarrow> pyfloat \<Rightarrow> TimeSourceObservation" where
  "demo_time utc ns age =
     \<lparr>tso_source_id = ''nts-1'', tso_origin = TO_NTS, tso_authenticated = True, tso_observed_utc = utc, tso_observed_monotonic_ns = ns,
      tso_uncertainty_ms = 5, tso_age_ms = age, tso_stratum = Some 1, tso_reference_id = None, tso_continuity_id = ''boot'', tso_clock_epoch = 0,
      tso_clock_uncertainty_ms = 0, tso_certificate_bootstrap_valid = None\<rparr>"

definition demo_times :: "TimeSourceObservation list \<Rightarrow> (TimeTrustSnapshot \<times> time_manager) result" where
  "demo_times obs = foldl (\<lambda>r ob. bind_result r (\<lambda>x. update_time ob (snd x)))
     (Inr (unusable_snapshot 0 [] [], time_manager_init default_time_policy)) obs"

definition demo_view :: "TimeSourceObservation list \<Rightarrow> (TimeTrustState \<times> bool \<times> int \<times> string list) result" where
  "demo_view obs = bind_result (demo_times obs) (\<lambda>(s, m). Inr (tts_state s, tts_security_validity_allowed (ttm_last_snapshot m), ttm_clock_epoch m, tts_reason_codes s))"

lemma demo_view_first: "demo_view [demo_time 0 0 0] = Inr (TT_TRUSTED, True, 0, [''trusted_time_selected''])"
  by code_simp

text \<open>A step of UTC by an hour starts a new epoch, unless it is first seen in an observation that is already stale: then
  no source is fresh, the epoch is left alone, and the next fresh observation agrees with the stale one.\<close>

lemma stale_observation_hides_step:
  "demo_view [demo_time 0 0 0, demo_time 3600000000 1000000000 0] = Inr (TT_TRUSTED, True, 1, [''trusted_time_selected'', ''utc_step_detected''])"
  "demo_view [demo_time 0 0 0, demo_time 3600000000 1000000000 70000, demo_time 3601000000 2000000000 0] = Inr (TT_TRUSTED, True, 0, [''trusted_time_selected''])"
  by code_simp+


end
