(* ===== verification/Runtime_Policies.thy ===== *)
theory Runtime_Policies
  imports Library_Model
begin

text \<open>
  The small runtime policies beside the scheduler: \<^verbatim>\<open>watchdog.py\<close>, \<^verbatim>\<open>dead_letter.py\<close>, \<^verbatim>\<open>timer_policy.py\<close>,
  \<^verbatim>\<open>maintenance.py\<close> and the virtual clock of \<^verbatim>\<open>clock.py\<close> under \<^verbatim>\<open>src/src/sentinel_edge/runtime/\<close>.
  Clocks are arguments; a time span is counted in microseconds.
\<close>

section \<open>Worker recovery\<close>

record RecoveryDecision =
  rdc_mechanism :: string
  rdc_allowed :: bool
  rdc_quarantined :: bool
  rdc_attempt :: int
  rdc_reason_code :: string

record recovery_policy =
  rcp_max_restarts :: int
  rcp_window :: int
  rcp_failures :: "(string, datetime list) dict"
  rcp_quarantined :: "string list"

definition recovery_init :: "int \<Rightarrow> int \<Rightarrow> recovery_policy result" where
  "recovery_init max_restarts window_seconds =
     (if max_restarts < 1 \<or> window_seconds < 1 then Inl (ValueError ''recovery bounds must be positive'')
      else Inr \<lparr>rcp_max_restarts = max_restarts, rcp_window = window_seconds * 1000000, rcp_failures = [], rcp_quarantined = []\<rparr>)"

definition failures_of :: "string \<Rightarrow> recovery_policy \<Rightarrow> datetime list" where
  "failures_of p w = (case map_of (rcp_failures w) p of None \<Rightarrow> [] | Some ts \<Rightarrow> ts)"

definition recent_failures :: "string \<Rightarrow> datetime \<Rightarrow> recovery_policy \<Rightarrow> datetime list" where
  "recent_failures p now w = filter (\<lambda>item. now - item \<le> rcp_window w) (failures_of p w) @ [now]"

definition is_quarantined :: "string \<Rightarrow> recovery_policy \<Rightarrow> bool" where
  "is_quarantined p w \<longleftrightarrow> p \<in> set (rcp_quarantined w)"

definition record_failure :: "string \<Rightarrow> datetime \<Rightarrow> recovery_policy \<Rightarrow> (RecoveryDecision \<times> recovery_policy) result" where
  "record_failure p now w =
     (if blank p then Inl (ValueError ''profile_id is required'')
      else if is_quarantined p w
      then Inr (\<lparr>rdc_mechanism = ''process_restart'', rdc_allowed = False, rdc_quarantined = True, rdc_attempt = rcp_max_restarts w,
                 rdc_reason_code = ''crash_loop_quarantined''\<rparr>, w)
      else
        (let recent = recent_failures p now w; n = int (length recent); w1 = w\<lparr>rcp_failures := AList.update p recent (rcp_failures w)\<rparr>
         in if rcp_max_restarts w < n
            then Inr (\<lparr>rdc_mechanism = ''process_restart'', rdc_allowed = False, rdc_quarantined = True, rdc_attempt = n,
                       rdc_reason_code = ''crash_loop_quarantined''\<rparr>, w1\<lparr>rcp_quarantined := append_new p (rcp_quarantined w)\<rparr>)
            else Inr (\<lparr>rdc_mechanism = ''process_restart'', rdc_allowed = True, rdc_quarantined = False, rdc_attempt = n,
                       rdc_reason_code = ''process_restart_allowed''\<rparr>, w1)))"

definition hardware_watchdog_recovery :: "string \<Rightarrow> recovery_policy \<Rightarrow> RecoveryDecision" where
  "hardware_watchdog_recovery p w =
     (let n = int (length (failures_of p w))
      in if is_quarantined p w
         then \<lparr>rdc_mechanism = ''hardware_watchdog'', rdc_allowed = False, rdc_quarantined = True, rdc_attempt = n, rdc_reason_code = ''crash_loop_quarantined''\<rparr>
         else \<lparr>rdc_mechanism = ''hardware_watchdog'', rdc_allowed = True, rdc_quarantined = False, rdc_attempt = n,
               rdc_reason_code = ''hardware_watchdog_recovery_distinct''\<rparr>)"

section \<open>Dead letters\<close>

record DeadLetterRecord =
  dlr_record_id :: string
  dlr_envelope :: "(string, json) dict"
  dlr_payload_sha256 :: string
  dlr_reason :: string
  dlr_attempts :: int
  dlr_validity :: string
  dlr_aggregate :: string
  dlr_destination :: string
  dlr_causation_id :: string
  dlr_correlation_id :: string
  dlr_idempotency_key :: string

record dead_letter_store =
  dls_max_attempts :: int
  dls_max_records :: int
  dls_records :: "(string, DeadLetterRecord) dict"

definition dead_letter_init :: "int \<Rightarrow> int \<Rightarrow> dead_letter_store result" where
  "dead_letter_init max_attempts max_records =
     (if max_attempts \<le> 0 \<or> max_records \<le> 0 then Inl (ValueError ''dead-letter bounds must be positive'')
      else Inr \<lparr>dls_max_attempts = max_attempts, dls_max_records = max_records, dls_records = []\<rparr>)"

text \<open>The arguments of \<^verbatim>\<open>record\<close> are the fields of the item, with the payload in place of its digest.\<close>

definition record_dead_letter :: "library \<Rightarrow> DeadLetterRecord \<Rightarrow> string \<Rightarrow> dead_letter_store \<Rightarrow> (DeadLetterRecord \<times> dead_letter_store) result" where
  "record_dead_letter lib x payload d =
     (if blank (dlr_record_id x) \<or> blank (dlr_reason x) \<or> blank (dlr_aggregate x) \<or> blank (dlr_destination x)
      then Inl (ValueError ''dead-letter identity and reason are required'')
      else if dlr_attempts x < 1 \<or> dls_max_attempts d < dlr_attempts x then Inl (ValueError ''dead-letter attempts exceed policy'')
      else (case map_of (dls_records d) (dlr_record_id x) of
        Some item \<Rightarrow> Inr (item, d)
      | None \<Rightarrow>
          if dls_max_records d \<le> int (length (dls_records d)) then Inl (OverflowError ''dead-letter capacity exhausted'')
          else (let item = x\<lparr>dlr_payload_sha256 := lib_sha256 lib payload\<rparr>
                in Inr (item, d\<lparr>dls_records := AList.update (dlr_record_id x) item (dls_records d)\<rparr>))))"

record redrive_request =
  rdr_record_id :: string
  rdr_attempt :: int
  rdr_causation_id :: string
  rdr_correlation_id :: string
  rdr_idempotency_key :: string
  rdr_target_version :: int

definition redrive :: "string \<Rightarrow> bool \<Rightarrow> int \<Rightarrow> dead_letter_store \<Rightarrow> redrive_request result" where
  "redrive k current_valid target_version d =
     (case map_of (dls_records d) k of
        None \<Rightarrow> Inl (KeyError k)
      | Some item \<Rightarrow>
          if \<not> current_valid \<or> target_version < 0 then Inl (PermissionError ''dead-letter redrive revalidation failed'')
          else Inr \<lparr>rdr_record_id = dlr_record_id item, rdr_attempt = dlr_attempts item + 1, rdr_causation_id = dlr_causation_id item,
                    rdr_correlation_id = dlr_correlation_id item, rdr_idempotency_key = dlr_idempotency_key item, rdr_target_version = target_version\<rparr>)"

section \<open>Timers\<close>

datatype TimerClass = TC_MONOTONIC_EPHEMERAL | TC_TRUSTED_UTC_PERSISTENT | TC_RETENTION_SAFETY

fun TimerClass_value :: "TimerClass \<Rightarrow> string" where
  "TimerClass_value TC_MONOTONIC_EPHEMERAL = ''monotonic-ephemeral''"
| "TimerClass_value TC_TRUSTED_UTC_PERSISTENT = ''trusted-utc-persistent''"
| "TimerClass_value TC_RETENTION_SAFETY = ''retention-safety''"

record TimerPolicy =
  tmp_artifact_grant :: TimerClass
  tmp_source_ttl :: TimerClass
  tmp_offline_command :: TimerClass
  tmp_session :: TimerClass
  tmp_outbox_expiry :: TimerClass
  tmp_artifact_retention :: TimerClass

definition default_timer_policy :: TimerPolicy where
  "default_timer_policy = \<lparr>tmp_artifact_grant = TC_MONOTONIC_EPHEMERAL, tmp_source_ttl = TC_TRUSTED_UTC_PERSISTENT, tmp_offline_command = TC_MONOTONIC_EPHEMERAL,
     tmp_session = TC_MONOTONIC_EPHEMERAL, tmp_outbox_expiry = TC_TRUSTED_UTC_PERSISTENT, tmp_artifact_retention = TC_RETENTION_SAFETY\<rparr>"

definition timer_policy_dict :: "TimerPolicy \<Rightarrow> (string, string) dict" where
  "timer_policy_dict x =
     [(''artifact_grant'', TimerClass_value (tmp_artifact_grant x)), (''source_ttl'', TimerClass_value (tmp_source_ttl x)),
      (''offline_command'', TimerClass_value (tmp_offline_command x)), (''session'', TimerClass_value (tmp_session x)),
      (''outbox_expiry'', TimerClass_value (tmp_outbox_expiry x)), (''artifact_retention'', TimerClass_value (tmp_artifact_retention x))]"

record AuthorityDecision =
  ady_allowed :: bool
  ady_reason :: string

definition cross_reboot_high_impact :: "bool \<Rightarrow> bool \<Rightarrow> AuthorityDecision" where
  "cross_reboot_high_impact utc_trusted stale =
     (if \<not> utc_trusted then \<lparr>ady_allowed = False, ady_reason = ''reconfirmation_required_uncertain_utc''\<rparr>
      else if stale then \<lparr>ady_allowed = False, ady_reason = ''reconfirmation_required_stale_action''\<rparr>
      else \<lparr>ady_allowed = True, ady_reason = ''cross_reboot_authority_valid''\<rparr>)"

definition retention_gc_allowed :: "bool \<Rightarrow> bool \<Rightarrow> bool \<Rightarrow> AuthorityDecision" where
  "retention_gc_allowed utc_trusted minimum_age_met wall_clock_expired =
     (if \<not> minimum_age_met then \<lparr>ady_allowed = False, ady_reason = ''minimum_retention_age_not_met''\<rparr>
      else if wall_clock_expired \<and> \<not> utc_trusted then \<lparr>ady_allowed = False, ady_reason = ''untrusted_wall_clock_cannot_trigger_gc''\<rparr>
      else \<lparr>ady_allowed = True, ady_reason = ''retention_gc_allowed''\<rparr>)"

definition source_freshness_allowed :: "bool \<Rightarrow> bool \<Rightarrow> int \<Rightarrow> pyfloat \<Rightarrow> AuthorityDecision" where
  "source_freshness_allowed utc_trusted age_known ttl_seconds age_seconds =
     (if \<not> utc_trusted \<or> \<not> age_known then \<lparr>ady_allowed = False, ady_reason = ''source_freshness_uncertain''\<rparr>
      else if ttl_seconds \<le> 0 \<or> of_int ttl_seconds < age_seconds then \<lparr>ady_allowed = False, ady_reason = ''source_stale''\<rparr>
      else \<lparr>ady_allowed = True, ady_reason = ''source_fresh''\<rparr>)"

definition same_boot_authority :: "int \<Rightarrow> int \<Rightarrow> string \<Rightarrow> string \<Rightarrow> int \<Rightarrow> AuthorityDecision" where
  "same_boot_authority issued_ns now_ns issued_boot now_boot expires_ns =
     (if blank issued_boot \<or> blank now_boot then \<lparr>ady_allowed = False, ady_reason = ''boot_identity_missing''\<rparr>
      else if issued_boot \<noteq> now_boot then \<lparr>ady_allowed = False, ady_reason = ''reconfirmation_required_after_reboot''\<rparr>
      else if now_ns < issued_ns then \<lparr>ady_allowed = False, ady_reason = ''monotonic_clock_rollback''\<rparr>
      else if expires_ns \<le> now_ns then \<lparr>ady_allowed = False, ady_reason = ''same_boot_authority_expired''\<rparr>
      else \<lparr>ady_allowed = True, ady_reason = ''same_boot_authority_valid''\<rparr>)"

section \<open>Maintenance\<close>

datatype MaintenanceAction = MA_WAL_CHECKPOINT | MA_BACKUP | MA_COMPACTION | MA_ARTIFACT_GC

datatype MaintenanceDisposition = MD_RUN | MD_DEFERRED | MD_FORCED

record MaintenanceDecision =
  mtd_action :: MaintenanceAction
  mtd_disposition :: MaintenanceDisposition
  mtd_decided_at :: datetime
  mtd_tier_a_protected_window :: bool
  mtd_storage_pressure :: bool
  mtd_safety_required :: bool
  mtd_reason_codes :: "string list"
  mtd_expected_service_consequence :: string

definition maintenance_outcome :: "bool \<Rightarrow> bool \<Rightarrow> bool \<Rightarrow> MaintenanceDisposition \<times> string list \<times> string" where
  "maintenance_outcome window pressure safety =
     (if window \<and> \<not> pressure \<and> \<not> safety then (MD_DEFERRED, [''tier_a_protected_window'', ''maintenance_deferred''], ''none_expected'')
      else if window
      then (MD_FORCED, sorted_set [''tier_a_protected_window'', if pressure then ''storage_pressure'' else ''safety_required'', ''maintenance_forced''],
            ''tier_a_latency_may_increase_and_must_be_measured'')
      else (MD_RUN, [''outside_tier_a_window''], ''background_io_only''))"

definition maintenance_decide :: "MaintenanceAction \<Rightarrow> bool \<Rightarrow> bool \<Rightarrow> bool \<Rightarrow> datetime \<Rightarrow> MaintenanceDecision list \<Rightarrow> MaintenanceDecision \<times> MaintenanceDecision list" where
  "maintenance_decide action window pressure safety now history =
     (let (disposition, reasons, consequence) = maintenance_outcome window pressure safety;
          d = \<lparr>mtd_action = action, mtd_disposition = disposition, mtd_decided_at = now, mtd_tier_a_protected_window = window, mtd_storage_pressure = pressure,
               mtd_safety_required = safety, mtd_reason_codes = reasons, mtd_expected_service_consequence = consequence\<rparr>
      in (d, history @ [d]))"

section \<open>Virtual clock\<close>

record virtual_clock =
  vck_now :: datetime
  vck_monotonic_ns :: int

definition advance_ms :: "int \<Rightarrow> virtual_clock \<Rightarrow> virtual_clock result" where
  "advance_ms ms c =
     (if ms < 0 then Inl (ValueError ''cannot move virtual clock backwards'')
      else Inr (c\<lparr>vck_now := vck_now c + ms * 1000, vck_monotonic_ns := vck_monotonic_ns c + ms * 1000000\<rparr>))"

definition step_utc :: "int \<Rightarrow> virtual_clock \<Rightarrow> virtual_clock" where
  "step_utc delta c = c\<lparr>vck_now := vck_now c + delta\<rparr>"

section \<open>Dead letters are immutable and bounded\<close>

definition dead_letters_ok :: "dead_letter_store \<Rightarrow> bool" where
  "dead_letters_ok d \<longleftrightarrow> dict_ok (dls_records d) \<and> int (length (dls_records d)) \<le> dls_max_records d \<and>
     (\<forall>(k, x) \<in> set (dls_records d). dlr_record_id x = k \<and> 1 \<le> dlr_attempts x \<and> dlr_attempts x \<le> dls_max_attempts d)"

lemma dead_letters_ok_init [invariant_intros]: "dead_letter_init a b = Inr d \<Longrightarrow> dead_letters_ok d"
  by (auto simp: dead_letter_init_def dead_letters_ok_def dict_ok_def split: if_splits)

lemma dead_letters_ok_record [invariant_intros]:
  assumes "record_dead_letter lib x payload d = Inr (item, d')" "dead_letters_ok d"
  shows "dead_letters_ok d'"
proof (cases "map_of (dls_records d) (dlr_record_id x)")
  case (Some y)
  then show ?thesis using assms by (auto simp: record_dead_letter_def split: if_splits)
next
  case None
  then have new: "dlr_record_id x \<notin> fst ` set (dls_records d)" by (simp add: map_of_eq_None_iff)
  have "d' = d\<lparr>dls_records := AList.update (dlr_record_id x) (x\<lparr>dlr_payload_sha256 := lib_sha256 lib payload\<rparr>) (dls_records d)\<rparr>"
    and "1 \<le> dlr_attempts x" "dlr_attempts x \<le> dls_max_attempts d" "int (length (dls_records d)) < dls_max_records d"
    using assms(1) None by (auto simp: record_dead_letter_def Let_def split: if_splits)
  then show ?thesis using assms(2) new by (auto simp: dead_letters_ok_def set_alist_update length_alist_update)
qed

lemma dead_letter_immutable:
  assumes "record_dead_letter lib x payload d = Inr (item, d')" "map_of (dls_records d) k = Some y"
  shows "map_of (dls_records d') k = Some y"
  using assms by (auto simp: record_dead_letter_def Let_def split: if_splits option.splits)

lemma redrive_keeps_idempotency_key:
  assumes "record_dead_letter lib x payload d = Inr (item, d')" "redrive (dlr_record_id x) True v d' = Inr r"
  shows "rdr_idempotency_key r = dlr_idempotency_key item \<and> rdr_attempt r = dlr_attempts item + 1"
  using assms by (auto simp: record_dead_letter_def redrive_def Let_def split: if_splits option.splits)

end
