(* ===== verification/Runtime_Claims.thy ===== *)
theory Runtime_Claims
  imports Runtime_Policies
begin

text \<open>
  Worker restarts are bounded in every window of time. \<open>recover_all\<close> runs the policy on a sequence of failures and logs the
  restarts it grants.
\<close>

definition recover_step :: "recovery_policy \<times> (string \<times> datetime) list \<Rightarrow> string \<times> datetime \<Rightarrow> recovery_policy \<times> (string \<times> datetime) list" where
  "recover_step x e =
     (case record_failure (fst e) (snd e) (fst x) of
        Inl _ \<Rightarrow> x
      | Inr (d, w) \<Rightarrow> (w, if rdc_allowed d then snd x @ [e] else snd x))"

definition recover_all :: "recovery_policy \<Rightarrow> (string \<times> datetime) list \<Rightarrow> recovery_policy \<times> (string \<times> datetime) list" where
  "recover_all w es = foldl recover_step (w, []) es"

definition restarts :: "string \<Rightarrow> (string \<times> datetime) list \<Rightarrow> datetime list" where
  "restarts p es = map snd (filter (\<lambda>e. fst e = p) es)"

lemma restarts_snoc [simp]: "restarts p (es @ [e]) = restarts p es @ (if fst e = p then [snd e] else [])"
  by (simp add: restarts_def)

lemma recover_all_snoc: "recover_all w (es @ [e]) = recover_step (recover_all w es) e"
  by (simp add: recover_all_def)

text \<open>Until a profile is quarantined, the failures kept for it are, seen from any time not before \<open>tm\<close>, its granted restarts.\<close>

definition window_inv :: "datetime \<Rightarrow> string \<Rightarrow> recovery_policy \<times> (string \<times> datetime) list \<Rightarrow> bool" where
  "window_inv tm p x \<longleftrightarrow>
     (\<not> is_quarantined p (fst x) \<longrightarrow> (\<forall>now. tm \<le> now \<longrightarrow>
        filter (\<lambda>t. now - t \<le> rcp_window (fst x)) (failures_of p (fst x)) = filter (\<lambda>t. now - t \<le> rcp_window (fst x)) (restarts p (snd x)))) \<and>
     (\<forall>u. int (length (filter (\<lambda>t. u \<le> t \<and> t \<le> u + rcp_window (fst x)) (restarts p (snd x)))) \<le> rcp_max_restarts (fst x))"

text \<open>A failure is refused without a trace, quarantines its profile, or is granted and remembered.\<close>

lemma recover_step_cases:
  fixes x q now
  defines "y \<equiv> recover_step x (q, now)"
  obtains (refused) "y = x"
    | (quarantine) "fst y = (fst x)\<lparr>rcp_failures := AList.update q (recent_failures q now (fst x)) (rcp_failures (fst x)),
          rcp_quarantined := append_new q (rcp_quarantined (fst x))\<rparr>" "snd y = snd x"
    | (granted) "fst y = (fst x)\<lparr>rcp_failures := AList.update q (recent_failures q now (fst x)) (rcp_failures (fst x))\<rparr>" "snd y = snd x @ [(q, now)]"
        "int (length (recent_failures q now (fst x))) \<le> rcp_max_restarts (fst x)" "\<not> is_quarantined q (fst x)"
proof -
  consider "blank q \<or> is_quarantined q (fst x)" | "\<not> blank q" "\<not> is_quarantined q (fst x)" "rcp_max_restarts (fst x) < int (length (recent_failures q now (fst x)))"
    | "\<not> blank q" "\<not> is_quarantined q (fst x)" "int (length (recent_failures q now (fst x))) \<le> rcp_max_restarts (fst x)" by linarith
  then show thesis
  proof cases
    case 1
    then show thesis using that(1) by (cases x) (auto simp: y_def recover_step_def record_failure_def)
  next
    case 2
    then show thesis using that(2) by (simp add: y_def recover_step_def record_failure_def Let_def)
  next
    case 3
    then show thesis using that(3) by (simp add: y_def recover_step_def record_failure_def Let_def)
  qed
qed

lemma failures_of_update [simp]: "failures_of p (w\<lparr>rcp_failures := AList.update q ts (rcp_failures w)\<rparr>) = (if p = q then ts else failures_of p w)"
  by (simp add: failures_of_def)

lemma failures_of_quarantine [simp]: "failures_of p (w\<lparr>rcp_quarantined := qs\<rparr>) = failures_of p w"
  by (simp add: failures_of_def)

lemma window_inv_later: "window_inv tm p x \<Longrightarrow> tm \<le> now \<Longrightarrow> window_inv now p x"
  by (auto simp: window_inv_def)

lemma length_filter_le_filter: "(\<And>t. t \<in> set ts \<Longrightarrow> P t \<Longrightarrow> Q t) \<Longrightarrow> length (filter P ts) \<le> length (filter Q ts)"
  by (induction ts) auto

lemma window_inv_granted:
  assumes inv: "window_inv tm q x" and "tm \<le> now" and free: "\<not> is_quarantined q (fst x)"
    and few: "int (length (recent_failures q now (fst x))) \<le> rcp_max_restarts (fst x)" and pos: "0 \<le> rcp_window (fst x)"
    and y: "fst y = (fst x)\<lparr>rcp_failures := AList.update q (recent_failures q now (fst x)) (rcp_failures (fst x))\<rparr>" "snd y = snd x @ [(q, now)]"
  shows "window_inv now q y"
proof -
  let ?w = "rcp_window (fst x)" and ?L = "restarts q (snd x)"
  have seen: "filter (\<lambda>t. s - t \<le> ?w) (failures_of q (fst x)) = filter (\<lambda>t. s - t \<le> ?w) ?L" if "now \<le> s" for s
    using inv free that assms(2) by (auto simp: window_inv_def)
  have recent: "recent_failures q now (fst x) = filter (\<lambda>t. now - t \<le> ?w) ?L @ [now]"
    using seen[of now] by (simp add: recent_failures_def)
  have narrow: "filter (\<lambda>t. s - t \<le> ?w) (filter (\<lambda>t. now - t \<le> ?w) ?L) = filter (\<lambda>t. s - t \<le> ?w) ?L" if "now \<le> s" for s
    using that by (auto intro!: filter_cong)
  have bound: "int (length (filter (\<lambda>t. u \<le> t \<and> t \<le> u + ?w) (?L @ [now]))) \<le> rcp_max_restarts (fst x)" for u
  proof (cases "u \<le> now \<and> now \<le> u + ?w")
    case True
    then have "length (filter (\<lambda>t. u \<le> t \<and> t \<le> u + ?w) ?L) \<le> length (filter (\<lambda>t. now - t \<le> ?w) ?L)"
      by (intro length_filter_le_filter) auto
    with few True recent show ?thesis by simp
  next
    case False
    then show ?thesis using inv by (auto simp: window_inv_def)
  qed
  show ?thesis unfolding window_inv_def using bound narrow by (auto simp: y recent)
qed

lemma window_inv_step:
  assumes "window_inv tm p x" "tm \<le> now" "0 \<le> rcp_window (fst x)"
  shows "window_inv now p (recover_step x (q, now))"
proof (cases rule: recover_step_cases[of x q now])
  case refused
  then show ?thesis using window_inv_later[OF assms(1,2)] by simp
next
  case quarantine
  then show ?thesis using window_inv_later[OF assms(1,2)] by (auto simp: window_inv_def is_quarantined_def)
next
  case granted
  show ?thesis
  proof (cases "q = p")
    case True
    then show ?thesis using window_inv_granted[OF assms(1)[folded True] assms(2) granted(4,3) assms(3) granted(1,2)] by simp
  next
    case False
    then show ?thesis using window_inv_later[OF assms(1,2)] granted(1,2) by (auto simp: window_inv_def is_quarantined_def)
  qed
qed

lemma recover_step_frame: "rcp_window (fst (recover_step x e)) = rcp_window (fst x)" "rcp_max_restarts (fst (recover_step x e)) = rcp_max_restarts (fst x)"
  by (cases e; cases rule: recover_step_cases[of x "fst e" "snd e"]; simp)+

lemma recover_all_frame: "rcp_window (fst (recover_all w es)) = rcp_window w \<and> rcp_max_restarts (fst (recover_all w es)) = rcp_max_restarts w"
proof (induction es rule: rev_induct)
  case Nil
  show ?case by (simp add: recover_all_def)
next
  case (snoc e es)
  then show ?case by (simp add: recover_all_snoc recover_step_frame)
qed

lemma window_inv_run:
  assumes "recovery_init n secs = Inr w"
  shows "sorted (map snd es) \<Longrightarrow> (\<And>t. t \<in> snd ` set es \<Longrightarrow> t \<le> tm) \<Longrightarrow> window_inv tm p (recover_all w es)"
proof (induction es arbitrary: tm rule: rev_induct)
  case Nil
  show ?case using assms by (auto simp: recovery_init_def recover_all_def window_inv_def failures_of_def restarts_def split: if_splits)
next
  case (snoc e es)
  obtain q now where e: "e = (q, now)" by fastforce
  have "window_inv now p (recover_all w es)" using snoc.prems(1) by (intro snoc.IH) (auto simp: e sorted_append)
  moreover have "0 \<le> rcp_window (fst (recover_all w es))" using assms by (auto simp: recover_all_frame recovery_init_def split: if_splits)
  ultimately have "window_inv now p (recover_all w (es @ [e]))" unfolding recover_all_snoc e by (rule window_inv_step[OF _ order_refl])
  then show ?case using window_inv_later[of now p _ tm] snoc.prems(2)[of now] by (simp add: e)
qed

lemma quarantine_is_final:
  assumes "is_quarantined p (fst x)"
  shows "restarts p (snd (foldl recover_step x es)) = restarts p (snd x) \<and> is_quarantined p (fst (foldl recover_step x es))"
  using assms
proof (induction es arbitrary: x)
  case (Cons e es)
  obtain q now where e: "e = (q, now)" by fastforce
  have "restarts p (snd (recover_step x e)) = restarts p (snd x) \<and> is_quarantined p (fst (recover_step x e))"
    using Cons.prems unfolding e by (cases rule: recover_step_cases[of x q now]) (auto simp: is_quarantined_def)
  then show ?case using Cons.IH[of "recover_step x e"] by simp
qed simp

text \<open>C24. Restarts are bounded: over any sequence of failures in the order of time, at most \<^verbatim>\<open>max_restarts\<close> restarts of
  one profile are granted in any window of \<^verbatim>\<open>window_seconds\<close>, wherever it starts. Once a profile is quarantined,
  no later failure is granted a restart, whatever its time, and the hardware watchdog refuses it as well.\<close>

theorem restarts_are_bounded:
  assumes "recovery_init n secs = Inr w" "sorted (map snd es)"
  shows "int (length (filter (\<lambda>t. u \<le> t \<and> t \<le> u + secs * 1000000) (restarts p (snd (recover_all w es))))) \<le> n \<and>
    (is_quarantined p (fst (recover_all w es)) \<longrightarrow>
       restarts p (snd (recover_all w (es @ fs))) = restarts p (snd (recover_all w es)) \<and>
       \<not> rdc_allowed (hardware_watchdog_recovery p (fst (recover_all w (es @ fs)))))"
proof -
  have w: "rcp_window w = secs * 1000000" "rcp_max_restarts w = n" using assms(1) by (auto simp: recovery_init_def split: if_splits)
  obtain tm where "\<And>t. t \<in> snd ` set es \<Longrightarrow> t \<le> tm" using Max_ge[of "snd ` set es"] by blast
  from window_inv_run[OF assms this, of p]
  have "int (length (filter (\<lambda>t. u \<le> t \<and> t \<le> u + secs * 1000000) (restarts p (snd (recover_all w es))))) \<le> n"
    by (simp add: window_inv_def recover_all_frame w)
  then show ?thesis using quarantine_is_final[of p "recover_all w es" fs] by (simp add: recover_all_def hardware_watchdog_recovery_def Let_def)
qed

definition demo_failures :: "(string \<times> datetime) list" where
  "demo_failures = [(''w'', 0), (''v'', 1000000), (''w'', 2000000), (''w'', 3000000)]"

lemma demo_recovery:
  "map_sum (\<lambda>_. ()) (\<lambda>w. (snd (recover_all w demo_failures), rcp_quarantined (fst (recover_all w demo_failures)))) (recovery_init 2 5)
     = Inr ([(''w'', 0), (''v'', 1000000), (''w'', 2000000)], [''w''])"
  by code_simp

theorem restarts_are_bounded_witness:
  "\<exists>w. recovery_init 2 5 = Inr w \<and> snd (recover_all w demo_failures) = [(''w'', 0), (''v'', 1000000), (''w'', 2000000)] \<and>
     restarts ''w'' (snd (recover_all w (demo_failures @ [(''w'', 90000000)]))) = [0, 2000000]"
proof -
  from demo_recovery obtain w where w: "recovery_init 2 5 = Inr w" "snd (recover_all w demo_failures) = [(''w'', 0), (''v'', 1000000), (''w'', 2000000)]"
    "rcp_quarantined (fst (recover_all w demo_failures)) = [''w'']"
    by (cases "recovery_init 2 5") auto
  have "sorted (map snd demo_failures)" by (simp add: demo_failures_def)
  from restarts_are_bounded[OF w(1) this, of 0 "''w''" "[(''w'', 90000000)]"] w show ?thesis by (simp add: is_quarantined_def restarts_def)
qed

end
