(* ===== verification/Identity.thy ===== *)
theory Identity
  imports Evidence_Store Measurements
begin

text \<open>
  Incident identity: \<^verbatim>\<open>IncidentIdentityService\<close> of \<^verbatim>\<open>src/src/sentinel_edge/incidents/identity.py\<close> over the candidate and
  decision tables of the journal.

  The functions of Python's \<^verbatim>\<open>math\<close> module and the power of floats are the record \<open>math_lib\<close>; every other float operation
  is rounded by \<open>f64\<close>. The clock of a decision (\<^verbatim>\<open>decided_at\<close>) is an argument.
\<close>

section \<open>Service\<close>

record math_lib =
  mth_radians :: "pyfloat \<Rightarrow> pyfloat"
  mth_sin :: "pyfloat \<Rightarrow> pyfloat"
  mth_cos :: "pyfloat \<Rightarrow> pyfloat"
  mth_sqrt :: "pyfloat \<Rightarrow> pyfloat"
  mth_atan2 :: "pyfloat \<Rightarrow> pyfloat \<Rightarrow> pyfloat"
  mth_pow :: "pyfloat \<Rightarrow> pyfloat \<Rightarrow> pyfloat"

definition distance_m :: "math_lib \<Rightarrow> IncidentCandidate \<Rightarrow> IncidentCandidate \<Rightarrow> pyfloat" where
  "distance_m ml left right =
     (let radius = f64 (63710088 / 10);
          lat1 = mth_radians ml (cand_latitude left);
          lat2 = mth_radians ml (cand_latitude right);
          dlat = f64 (lat2 - lat1);
          dlon = mth_radians ml (f64 (cand_longitude right - cand_longitude left));
          a = f64 (mth_pow ml (mth_sin ml (f64 (dlat / 2))) 2 + f64 (f64 (mth_cos ml lat1 * mth_cos ml lat2) * mth_pow ml (mth_sin ml (f64 (dlon / 2))) 2))
      in f64 (f64 (radius * 2) * mth_atan2 ml (mth_sqrt ml a) (mth_sqrt ml (max 0 (f64 (1 - a))))))"

text \<open>\<^verbatim>\<open>format(x, ".5f")\<close>: the exact value rounded half to even at five decimals.\<close>

definition fixed5 :: "pyfloat \<Rightarrow> string" where
  "fixed5 x =
     (let n = round_half_even (\<bar>x\<bar> * 100000)
      in (if x < 0 then ''-'' else []) @ str_int (n div 100000) @ ''.'' @ tl (str_int (100000 + n mod 100000)))"

definition truthy :: "string option \<Rightarrow> bool" where
  "truthy x = (case x of None \<Rightarrow> False | Some s \<Rightarrow> s \<noteq> [])"

definition source_key :: "library \<Rightarrow> IncidentCandidate \<Rightarrow> string" where
  "source_key lib c =
     (if truthy (cand_source_event_id c) then the (cand_source_event_id c)
      else lib_isoformat lib (cand_observed_at c) @ '':'' @ fixed5 (cand_latitude c) @ '':'' @ fixed5 (cand_longitude c))"

definition new_incident_id :: "library \<Rightarrow> IncidentCandidate \<Rightarrow> uuid" where
  "new_incident_id lib c = lib_uuid5 lib (''sentinel-incident-identity:'' @ HazardKind_value (cand_hazard c) @ '':'' @ source_key lib c)"

record identity_match =
  idm_separation :: pyfloat
  idm_time_delta :: pyfloat
  idm_prior :: IncidentCandidate
  idm_incident_id :: uuid
  idm_reasons :: "string list"

definition time_delta :: "IncidentCandidate \<Rightarrow> IncidentCandidate \<Rightarrow> pyfloat" where
  "time_delta c prior = \<bar>total_seconds (cand_observed_at c - cand_observed_at prior)\<bar>"

definition same_source_event :: "IncidentCandidate \<Rightarrow> IncidentCandidate \<Rightarrow> bool" where
  "same_source_event c prior \<longleftrightarrow> truthy (cand_source_event_id c) \<and> truthy (cand_source_event_id prior) \<and>
     cand_source_id c = cand_source_id prior \<and> cand_source_event_id c = cand_source_event_id prior"

definition time_limit :: "IncidentCandidate \<Rightarrow> IncidentCandidate \<Rightarrow> pyfloat" where
  "time_limit c prior = max (cand_temporal_window_seconds c) (cand_temporal_window_seconds prior)"

definition spatial_limit :: "IncidentCandidate \<Rightarrow> IncidentCandidate \<Rightarrow> pyfloat" where
  "spatial_limit c prior =
     f64 (max (cand_spatial_window_m c) (cand_spatial_window_m prior) + f64 (cand_horizontal_uncertainty_m c + cand_horizontal_uncertainty_m prior))"

definition within_windows :: "math_lib \<Rightarrow> IncidentCandidate \<Rightarrow> IncidentCandidate \<Rightarrow> bool" where
  "within_windows ml c prior \<longleftrightarrow> time_delta c prior \<le> time_limit c prior \<and> distance_m ml c prior \<le> spatial_limit c prior"

definition window_match :: "math_lib \<Rightarrow> IncidentCandidate \<Rightarrow> IncidentCandidate \<times> uuid \<Rightarrow> identity_match" where
  "window_match ml c row =
     \<lparr>idm_separation = distance_m ml c (fst row), idm_time_delta = time_delta c (fst row), idm_prior = fst row, idm_incident_id = snd row,
      idm_reasons = [''temporal_window_match'', ''spatial_window_match'', ''same_hazard'']\<rparr>"

definition event_match :: "IncidentCandidate \<Rightarrow> IncidentCandidate \<times> uuid \<Rightarrow> identity_match" where
  "event_match c row =
     \<lparr>idm_separation = 0, idm_time_delta = time_delta c (fst row), idm_prior = fst row, idm_incident_id = snd row, idm_reasons = [''same_source_event_id'']\<rparr>"

fun match_loop :: "math_lib \<Rightarrow> IncidentCandidate \<Rightarrow> identity_match option \<Rightarrow> (IncidentCandidate \<times> uuid) list \<Rightarrow> identity_match option" where
  "match_loop ml c best [] = best"
| "match_loop ml c best (row # rows) =
     (if same_source_event c (fst row) then Some (event_match c row)
      else if time_limit c (fst row) < time_delta c (fst row) then match_loop ml c best rows
      else if spatial_limit c (fst row) < distance_m ml c (fst row) then match_loop ml c best rows
      else
        (case best of
           None \<Rightarrow> match_loop ml c (Some (window_match ml c row)) rows
         | Some b \<Rightarrow>
             if (distance_m ml c (fst row), time_delta c (fst row)) < (idm_separation b, idm_time_delta b)
             then match_loop ml c (Some (window_match ml c row)) rows else match_loop ml c best rows))"

definition identity_decision :: "library \<Rightarrow> IncidentCandidate \<Rightarrow> datetime \<Rightarrow> identity_match option \<Rightarrow> IncidentIdentityDecision" where
  "identity_decision lib c now best =
     (let decision_id = lib_uuid5 lib (''sentinel-identity-decision:'' @ cand_candidate_id c)
      in case best of
        None \<Rightarrow> \<lparr>idn_decision_id = decision_id, idn_candidate_id = cand_candidate_id c, idn_incident_id = new_incident_id lib c, idn_outcome = IO_NEW,
                 idn_matched_candidate_id = None, idn_separation_m = None, idn_time_delta_seconds = None, idn_decided_at = now,
                 idn_reason_codes = [''no_temporal_spatial_duplicate'', ''hazard_specific_identity'']\<rparr>
      | Some b \<Rightarrow> \<lparr>idn_decision_id = decision_id, idn_candidate_id = cand_candidate_id c, idn_incident_id = idm_incident_id b, idn_outcome = IO_DUPLICATE,
                 idn_matched_candidate_id = Some (cand_candidate_id (idm_prior b)), idn_separation_m = Some (idm_separation b),
                 idn_time_delta_seconds = Some (idm_time_delta b), idn_decided_at = now, idn_reason_codes = idm_reasons b\<rparr>)"

definition resolve_candidate :: "library \<Rightarrow> math_lib \<Rightarrow> IncidentCandidate \<Rightarrow> datetime \<Rightarrow> journal \<Rightarrow> (IncidentIdentityDecision \<times> journal) result" where
  "resolve_candidate lib ml c now j =
     (let d = identity_decision lib c now (match_loop ml c None (incident_candidates j (Some (cand_hazard c))))
      in if \<not> IncidentIdentityDecision_fields_ok d then Inl (ValidationError ''IncidentIdentityDecision'') else record_identity_decision lib c d j)"

definition bind_analysis :: "AnalysisResult \<Rightarrow> IncidentIdentityDecision \<Rightarrow> AnalysisResult result" where
  "bind_analysis a d =
     (if HazardKind_value (ana_hazard a) \<notin> set [''wildfire'', ''flood'', ''earthquake'', ''landslide''] then Inl (ValueError ''unsupported hazard'')
      else Inr (a\<lparr>ana_incident_id_hint := Some (idn_incident_id d)\<rparr>))"

section \<open>What the loop selects\<close>

text \<open>The loop returns the first row of the same source event, else the first of the nearest rows within the windows.\<close>

definition nearer :: "identity_match \<Rightarrow> identity_match \<Rightarrow> bool" where
  "nearer a b \<longleftrightarrow> (idm_separation a, idm_time_delta a) \<le> (idm_separation b, idm_time_delta b)"

lemma nearer_refl [simp]: "nearer a a"
  by (simp add: nearer_def)

lemma nearer_trans: "nearer a b \<Longrightarrow> nearer b c \<Longrightarrow> nearer a c"
  unfolding nearer_def by (rule order_trans)

lemma match_loop_event:
  assumes "find (\<lambda>r. same_source_event c (fst r)) rows = Some row"
  shows "match_loop ml c best rows = Some (event_match c row)"
  using assms by (induction ml c best rows rule: match_loop.induct) (auto split: if_splits option.splits)

lemma match_loop_none:
  assumes "find (\<lambda>r. same_source_event c (fst r)) rows = None"
  shows "match_loop ml c best rows = None \<longleftrightarrow> best = None \<and> \<not> list_ex (\<lambda>r. within_windows ml c (fst r)) rows"
  using assms by (induction ml c best rows rule: match_loop.induct) (auto simp: within_windows_def split: if_splits option.splits)

lemma match_loop_nearest:
  assumes "find (\<lambda>r. same_source_event c (fst r)) rows = None" "match_loop ml c best rows = Some b"
  shows "(best = Some b \<or> (\<exists>r \<in> set rows. within_windows ml c (fst r) \<and> b = window_match ml c r)) \<and>
    (\<forall>a. best = Some a \<longrightarrow> nearer b a) \<and> (\<forall>r \<in> set rows. within_windows ml c (fst r) \<longrightarrow> nearer b (window_match ml c r))"
  using assms
proof (induction rows arbitrary: best)
  case Nil
  then show ?case by auto
next
  case (Cons row rows)
  let ?w = "window_match ml c row"
  have none: "find (\<lambda>r. same_source_event c (fst r)) rows = None" "\<not> same_source_event c (fst row)" using Cons.prems(1) by (auto split: if_splits)
  show ?case
  proof (cases "within_windows ml c (fst row)")
    case False
    then have "match_loop ml c best rows = Some b" using Cons.prems(2) none(2) by (auto simp: within_windows_def split: if_splits)
    from Cons.IH[OF none(1) this] False show ?thesis by auto
  next
    case True
    define best' where "best' = (case best of None \<Rightarrow> ?w | Some a \<Rightarrow> if nearer a ?w then a else ?w)"
    have "match_loop ml c (Some best') rows = Some b"
      using Cons.prems(2) none(2) True by (auto simp: within_windows_def best'_def nearer_def window_match_def not_le split: option.splits if_splits)
    note step = Cons.IH[OF none(1) this]
    have "nearer best' ?w" "\<forall>a. best = Some a \<longrightarrow> nearer best' a" "best = Some best' \<or> best' = ?w"
      by (auto simp: best'_def nearer_def split: option.splits)
    with step True show ?thesis by (auto intro: nearer_trans)
  qed
qed

end
