(* ===== verification/Identity_Claims.thy ===== *)
theory Identity_Claims
  imports Identity
begin

text \<open>
  Which incident a candidate joins, and that incidents of different hazards are never merged. \<open>identity_run\<close> collects the
  journals a node reaches: resolved candidates, and writers that leave the table of candidates alone.
\<close>

inductive identity_run :: "library \<Rightarrow> math_lib \<Rightarrow> journal \<Rightarrow> bool" for lib ml where
  ir_init: "identity_run lib ml empty_journal"
| ir_resolve: "identity_run lib ml j \<Longrightarrow> resolve_candidate lib ml c now j = Inr (d, j') \<Longrightarrow> identity_run lib ml j'"
| ir_other: "identity_run lib ml j \<Longrightarrow> j_incident_candidates j' = j_incident_candidates j \<Longrightarrow> identity_run lib ml j'"

definition identity_name :: "HazardKind \<Rightarrow> string \<Rightarrow> string" where
  "identity_name h key = ''sentinel-incident-identity:'' @ HazardKind_value h @ '':'' @ key"

definition named_identities :: "library \<Rightarrow> journal \<Rightarrow> bool" where
  "named_identities lib j \<longleftrightarrow> (\<forall>(c, i) \<in> set (j_incident_candidates j). \<exists>key. i = lib_uuid5 lib (identity_name (cand_hazard c) key))"

lemma named_identitiesD: "named_identities lib j \<Longrightarrow> r \<in> set (j_incident_candidates j) \<Longrightarrow> \<exists>key. snd r = lib_uuid5 lib (identity_name (cand_hazard (fst r)) key)"
  by (force simp: named_identities_def)

lemma identity_name_hazard: "identity_name h k = identity_name h' k' \<Longrightarrow> h = h'"
  by (cases h; cases h') (simp_all add: identity_name_def)

lemma set_incident_candidates: "set (incident_candidates j (Some h)) = {r \<in> set (j_incident_candidates j). cand_hazard (fst r) = h}"
  by (auto simp: incident_candidates_def)

lemma resolve_candidateE:
  assumes "resolve_candidate lib ml c now j = Inr (d, j')"
  obtains (replay) "j' = j" "find_decision j (cand_candidate_id c) \<noteq> None"
    | (recorded) "d = identity_decision lib c now (match_loop ml c None (incident_candidates j (Some (cand_hazard c))))"
        "j_incident_candidates j' = j_incident_candidates j @ [(c, idn_incident_id d)]" "find_decision j (cand_candidate_id c) = None"
  using assms by (auto simp: resolve_candidate_def record_identity_decision_def Let_def split: if_splits option.splits)

text \<open>A match is a row of the table, with the hazard of the candidate.\<close>

lemma match_loop_sound:
  assumes "match_loop ml c None rows = Some b"
  shows "\<exists>r \<in> set rows. idm_incident_id b = snd r \<and> idm_prior b = fst r \<and>
    (same_source_event c (fst r) \<or> within_windows ml c (fst r) \<and> list_all (\<lambda>s. \<not> same_source_event c (fst s)) rows \<and>
       (\<forall>s. s \<in> set rows \<and> within_windows ml c (fst s) \<longrightarrow>
          (distance_m ml c (fst r), time_delta c (fst r)) \<le> (distance_m ml c (fst s), time_delta c (fst s))))"
proof (cases "find (\<lambda>r. same_source_event c (fst r)) rows")
  case (Some r)
  then have "r \<in> set rows" "same_source_event c (fst r)" by (auto simp: find_Some_iff)
  then show ?thesis using assms match_loop_event[OF Some, of ml None] by (auto simp: event_match_def)
next
  case None
  from match_loop_nearest[OF None assms] obtain r where "r \<in> set rows" "within_windows ml c (fst r)" and b: "b = window_match ml c r"
    and near: "\<forall>s \<in> set rows. within_windows ml c (fst s) \<longrightarrow> nearer b (window_match ml c s)" by auto
  moreover have "list_all (\<lambda>s. \<not> same_source_event c (fst s)) rows" using None by (auto simp: find_None_iff list_all_iff)
  ultimately show ?thesis by (intro bexI[of _ r]) (auto simp: window_match_def nearer_def)
qed

lemma decision_is_named:
  assumes "named_identities lib j" "d = identity_decision lib c now (match_loop ml c None (incident_candidates j (Some (cand_hazard c))))"
  shows "\<exists>key. idn_incident_id d = lib_uuid5 lib (identity_name (cand_hazard c) key)"
proof (cases "match_loop ml c None (incident_candidates j (Some (cand_hazard c)))")
  case None
  then show ?thesis using assms(2) by (auto simp: identity_decision_def Let_def new_incident_id_def identity_name_def)
next
  case (Some b)
  from match_loop_sound[OF Some] obtain r where r: "r \<in> set (j_incident_candidates j)" "cand_hazard (fst r) = cand_hazard c" "idm_incident_id b = snd r"
    unfolding set_incident_candidates by blast
  then show ?thesis using named_identitiesD[OF assms(1) r(1)] assms(2) Some by (simp add: identity_decision_def Let_def)
qed

lemma resolve_named:
  assumes "resolve_candidate lib ml c now j = Inr (d, j')" "named_identities lib j"
  shows "named_identities lib j'"
  using assms(1)
proof (cases rule: resolve_candidateE)
  case replay
  then show ?thesis using assms(2) by simp
next
  case recorded
  then show ?thesis using assms(2) decision_is_named[OF assms(2) recorded(1)] by (auto simp: named_identities_def)
qed

lemma identity_run_named: "identity_run lib ml j \<Longrightarrow> named_identities lib j"
proof (induction rule: identity_run.induct)
  case ir_init
  show ?case by (simp add: named_identities_def empty_journal_def)
next
  case (ir_resolve j c now d j')
  then show ?case using resolve_named by blast
next
  case (ir_other j j')
  then show ?case by (simp add: named_identities_def)
qed


section \<open>Evaluated examples\<close>

definition identity_library :: library where
  "identity_library = \<lparr>lib_uuid5 = (\<lambda>s. s), lib_isoformat = str_int, lib_json_dumps = (\<lambda>v. case v of JStr s \<Rightarrow> s | _ \<Rightarrow> []), lib_sha256 = (\<lambda>s. s),
     lib_hmac_sha256 = (\<lambda>k m. k), lib_model_dump = (\<lambda>v. case v of V_decision d \<Rightarrow> JStr (concat (idn_reason_codes d)) | _ \<Rightarrow> JNull)\<rparr>"

definition flat_math :: math_lib where
  "flat_math = \<lparr>mth_radians = (\<lambda>x. x), mth_sin = (\<lambda>x. x), mth_cos = (\<lambda>_. 1), mth_sqrt = (\<lambda>_. 0), mth_atan2 = (\<lambda>_ _. 0), mth_pow = (\<lambda>x _. x * x)\<rparr>"

definition demo_candidate :: "string \<Rightarrow> string \<Rightarrow> string option \<Rightarrow> datetime \<Rightarrow> IncidentCandidate" where
  "demo_candidate k source event t =
     \<lparr>cand_candidate_id = k, cand_hazard = HK_EARTHQUAKE, cand_observed_at = t, cand_latitude = 40, cand_longitude = -3, cand_horizontal_uncertainty_m = 0,
      cand_temporal_window_seconds = 300, cand_spatial_window_m = 1000, cand_source_id = source, cand_source_event_id = event\<rparr>"

definition demo_resolve :: "IncidentCandidate list \<Rightarrow> (IncidentIdentityOutcome \<times> uuid) list result" where
  "demo_resolve cs = bind_result
     (foldl (\<lambda>r c. bind_result r (\<lambda>(ds, j). bind_result (resolve_candidate identity_library flat_math c 0 j) (\<lambda>(d, j'). Inr (ds @ [(idn_outcome d, idn_incident_id d)], j'))))
       (Inr ([], empty_journal)) cs) (\<lambda>x. Inr (fst x))"

text \<open>Identifiers of source events are not qualified by their source: two unrelated events, an hour apart and from different
  sources, are each decided as new and share one incident.\<close>

lemma event_ids_shared_by_sources:
  "demo_resolve [demo_candidate ''c1'' ''usgs'' (Some ''1'') 0, demo_candidate ''c2'' ''local'' (Some ''1'') 3600000000] =
     Inr [(IO_NEW, ''sentinel-incident-identity:earthquake:1''), (IO_NEW, ''sentinel-incident-identity:earthquake:1'')]"
  by code_simp

text \<open>Resolving a stored candidate again finds the candidate itself; its new decision conflicts with the stored one.\<close>

lemma resolve_again_raises:
  "demo_resolve [demo_candidate ''c1'' ''usgs'' (Some ''1'') 0, demo_candidate ''c1'' ''usgs'' (Some ''1'') 0] =
     Inl (ValueError ''incident identity decision conflict'')"
  by code_simp

lemma demo_pair:
  "demo_resolve [demo_candidate ''c1'' ''usgs'' (Some ''1'') 0, demo_candidate ''c2'' ''local'' None 60000000] =
     Inr [(IO_NEW, ''sentinel-incident-identity:earthquake:1''), (IO_DUPLICATE, ''sentinel-incident-identity:earthquake:1'')]"
  by code_simp


end
