(* ===== verification/Spec2Isabelle.thy ===== *)
theory Spec2Isabelle
  imports Scheduler_Claims Engine_Behaviour Journal_Claims Delivery_Claims Auth_Claims Artifact_Claims
    Spool_Claims Node_Claims Configuration_Claims Evidence_Claims
    Disposition_Claims Key_Claims Secret_Claims Engine_Types Tombstone_Claims Update_Claims
    Collector_Claims Time_Claims Runtime_Claims Identity_Claims
begin

text \<open>
  Verification of Sentinel Edge, a node that watches natural hazards: it schedules analyses on a small
  device, keeps one durable incident per hazard, notifies and takes operator commands, stores evidence and
  artifacts under budgets, answers privacy requests, and manages its own keys, secrets, configuration and updates. The sources are under
  \<^verbatim>\<open>src/src/sentinel_edge/\<close>; paths below are relative to it.

  \<^bold>\<open>Conventions.\<close> A \<open>str\<close> is a \<open>string\<close>, a \<open>datetime\<close> the microseconds since the epoch as an \<open>int\<close>, Python's
  integers are \<open>int\<close>, a \<open>dict\<close> is an association list in insertion order, a finite \<open>float\<close> the rational it
  denotes with the rounding \<open>f64\<close> applied to every operation. An operation that may raise returns
  \<open>py_exn + 'a\<close>; one that changes its object returns the outcome with the object it leaves, so a raise after a
  write shows what was written. An SQLite table is the list of its rows, a transaction that raises leaves
  the journal alone. What the sources call outside the repository (SHA-256, HMAC, name-based identifiers,
  date formatting, the JSON and model serialisers) is the record \<open>library\<close>, an argument of every
  definition that uses it; clocks and random identifiers are arguments as well. No property assumes more of
  them than its statement says.

  \<^bold>\<open>Shared theories.\<close>
  \<^item> \<open>Prelude\<close>: exceptions as values, strings, dictionaries, sorting. \<open>Floats\<close>: rounding to binary64 and the bounds
    the deadline arithmetic needs. \<open>Interfaces\<close>: the locales \<open>min_queue\<close>, \<open>guarded_transitions\<close>, \<open>keyed_store\<close> and
    \<open>write_once\<close>; each, like \<open>epoch_leases\<close> of \<open>Secret_Claims\<close>, is interpreted on the model's own operations (heap, incident, command and evidence state
    tables, opportunity ledger, eight journal tables, secret handles). \<open>Library_Model\<close>: the outside functions and
    \<^verbatim>\<open>security/digests.py\<close>.
  \<^item> \<open>Domain_Enums\<close>, \<open>Domain\<close>, \<open>Domain_Evidence\<close>, \<open>Domain_Config\<close>: the enumerations and model classes of
    \<^verbatim>\<open>domain/models.py\<close> with their validators. \<open>Domain_Artifacts\<close>: the classes of
    \<^verbatim>\<open>storage/artifact_governance.py\<close>. \<open>Domain_Disposition\<close>, \<open>Domain_Secrets\<close>: those of
    \<^verbatim>\<open>privacy/disposition.py\<close> and \<^verbatim>\<open>security/secrets.py\<close>.

  \<^bold>\<open>Components.\<close>
  \<^item> Acquisition. \<open>Measurements\<close> is the validator of \<open>Observation\<close> and \<^verbatim>\<open>semantics/measurements.py\<close> with the contract of each observed
    property; a sanitised observation keeps only what the contract allows. \<open>Collector\<close> is \<^verbatim>\<open>collector/service.py\<close> over \<open>SourceCursorStore\<close>
    of \<^verbatim>\<open>storage/sqlite_store.py\<close>. \<open>Collector_Claims\<close>: observations of one boot and clock epoch are accepted in sequence, across restarts too, and a restart keeps the
    cursors (but lowers the event-time watermark to the last observation).
  \<^item> Scheduler. \<open>Opportunities\<close> is \<^verbatim>\<open>runtime/opportunities.py\<close>, \<open>Scheduler\<close> is \<^verbatim>\<open>runtime/scheduler.py\<close> (registration,
    submission, admission, dispatch, completion, fallback schedule). \<open>Scheduler_Spec\<close> gives the queue its
    multiset meaning and the dispatch loop its termination measure (the queue shrinks), \<open>Scheduler_Props\<close> the
    invariants. \<open>Scheduler_Claims\<close>: which job a dispatch returns, that no job is lost, that tier-A jobs are
    serialised, bounded deferral, the ledger's balance, the frozen registry.
  \<^item> Runtime policies. \<open>Trusted_Time\<close> is \<^verbatim>\<open>runtime/trusted_time.py\<close>; \<open>Time_Claims\<close>: what a snapshot that allows security decisions
    rests on, and which discontinuities start a clock epoch. \<open>Runtime_Policies\<close> is \<^verbatim>\<open>watchdog.py\<close>, \<^verbatim>\<open>dead_letter.py\<close>,
    \<^verbatim>\<open>timer_policy.py\<close>, \<^verbatim>\<open>maintenance.py\<close> and the virtual clock of \<^verbatim>\<open>clock.py\<close>; \<open>Runtime_Claims\<close>: restarts are bounded in every window.
  \<^item> Incident journal. \<open>Journal\<close> and \<open>Evidence_Store\<close> are \<open>IncidentJournalStore\<close> of \<^verbatim>\<open>storage/sqlite_store.py\<close>: the
    authority log with its predecessor chain, the tables beside it, the migrations run when the store is
    opened, the conformance check. \<open>Journal_Props\<close> shows what each writer appends; \<open>Journal_Claims\<close> which tampering
    the check finds and which it cannot.
  \<^item> Incident engine. \<open>Engine\<close> is \<^verbatim>\<open>incidents/engine.py\<close> and the dispatcher of \<^verbatim>\<open>incidents/human_factors.py\<close>;
    \<open>Auth\<close> is \<^verbatim>\<open>security/auth.py\<close>. \<open>Engine_Props\<close> and \<open>Engine_Steps\<close> hold the invariant and the step relation
    \<open>eng_step\<close> (analyses, commands, reviews, deliveries, other writers, restarts). \<open>Engine_Claims\<close>: lawful
    histories, restart, the append-only log. \<open>Engine_Behaviour\<close>: replays, late and blind analyses, refused
    transitions, the outbox, commands exactly once. \<open>Engine_Types\<close>: every stored incident keeps the field bounds of
    its class. \<open>Delivery_Claims\<close> and \<open>Auth_Claims\<close>: notification rounds,
    revocation, decisions.
  \<^item> Incident identity. \<open>Identity\<close> is \<^verbatim>\<open>incidents/identity.py\<close> over the candidate tables of the journal; the functions of Python's
    \<^verbatim>\<open>math\<close> module are an argument. \<open>Identity_Claims\<close>: which incident a candidate joins, and that hazards are never merged.
  \<^item> Spool and node. \<open>Spool\<close> is \<^verbatim>\<open>storage/spool.py\<close> and \<^verbatim>\<open>operations/capabilities.py\<close>, \<open>Node\<close> the part of
    \<^verbatim>\<open>scenario/engine.py\<close> that spools analyses while the incident authority is down and recovers. \<open>Spool_Claims\<close>:
    bounds, no silent loss, first in first out. \<open>Node_Claims\<close>: recovery is equivalent to direct application, and
    a refused analysis at the head blocks it.
  \<^item> Artifacts. \<open>Artifacts\<close> is the catalog of \<^verbatim>\<open>storage/artifact_governance.py\<close>, the store of \<^verbatim>\<open>storage/artifacts.py\<close>
    and \<^verbatim>\<open>storage/health.py\<close>. \<open>Artifact_Claims\<close>: budgets in every reachable state, exactness of garbage
    collection, the round trip, what mixed retention policies do.
  \<^item> Configuration. \<open>Configuration\<close> is \<open>ConfigurationStore\<close> of \<^verbatim>\<open>storage/sqlite_store.py\<close> and
    \<^verbatim>\<open>configuration/manager.py\<close>. \<open>Configuration_Claims\<close>: the outcome of an activation, and that the artifacts of
    staged configurations survive collection.
  \<^item> Evidence. \<open>Evidence_Service\<close> is \<^verbatim>\<open>evidence/service.py\<close> over the journal and the artifact store.
    \<open>Evidence_Claims\<close>: lawful life cycles, independence of duplicates, deletion of shared bytes.
  \<^item> Privacy disposition. \<open>Disposition\<close> is \<^verbatim>\<open>privacy/disposition.py\<close> over the evidence service: lineage nodes, requests,
    consent, acknowledgements, reconciliation with external recipients, closure. \<open>Disposition_Props\<close> holds the step relation
    \<open>dsp_step\<close> (which records the calls of the sender) and its invariant, \<open>Disposition_Closure\<close> what a closure settles.
    \<open>Disposition_Claims\<close>: bounded transport, its end at the deadline, completeness of closures, consent, and the
    nodes that can never be settled.
  \<^item> Tombstones. \<open>Tombstones\<close> is \<^verbatim>\<open>privacy/tombstones.py\<close> with its use in the restore of \<^verbatim>\<open>storage/backup.py\<close>.
    \<open>Tombstone_Claims\<close>: a restored backup refines the running node's evidence states, and when the restore raises.
  \<^item> Keys and secrets. \<open>Key_Lifecycle\<close> is \<^verbatim>\<open>security/key_lifecycle.py\<close>, \<open>Secrets\<close> is \<^verbatim>\<open>security/secrets.py\<close>. \<open>Key_Claims\<close>:
    exclusive rotation, the compromise floor, what historical verification accepts. \<open>Secret_Claims\<close>: governed reads and,
    through \<open>epoch_leases\<close>, that withdrawn handles stay dead.
  \<^item> Updates. \<open>Update_Manager\<close> is \<^verbatim>\<open>update/manager.py\<close> over archives and directories as lists of files. \<open>Update_Claims\<close>: no
    rollback, the way from a source tree to an activation, what an activation does not check.

  \<^bold>\<open>Loops.\<close> Every loop of the sources that is modelled ranges over a list read before it starts or empties a queue;
  all definitions are total functions and no fuel is used. The retries of a reconciliation are spread over calls; that
  they end is a claim about runs of the service.

  \<^bold>\<open>Not modelled.\<close> Concurrency: every operation runs under its object's lock in the sources and is atomic here.
  Bytes of \<^verbatim>\<open>str\<close> beyond Latin-1. Temporary files of an interrupted artifact write. Symbolic links and
  permissions of files. The scenario runner of \<^verbatim>\<open>scenario/engine.py\<close>. Not modelled: the numeric detectors of \<^verbatim>\<open>hazards/\<close>. The
  gateway, the command line, backup archives, release and qualification reports are routing, files and printing over
  the services above.
\<close>

end
